(* ===== verification/Prelude.thy ===== *)
theory Prelude
  imports Complex_Main "HOL-Library.AList"
begin

text \<open>
  Shared ground of the development: the reading of Python values the components rely on
  (floats as exact reals, truthiness, dicts in insertion order, the string helpers the code
  calls, instants in nanoseconds), the generic lemmas on them, and the two interface locales
  every stateful component uses: an invariant kept by a step, and a quantity a step never
  decreases.
\<close>

named_theorems side_simps "facts on normalised position sides"
named_theorems dict_simps "lookup after insert and delete in insertion-ordered dicts"

subsection \<open>Numbers\<close>

text \<open>Python floats are read as exact reals; \<open>x or d\<close> takes \<open>d\<close> when \<open>x\<close> is zero.\<close>

definition py_or :: "real \<Rightarrow> real \<Rightarrow> real" where
  "py_or x d = (if x = 0 then d else x)"

definition eps12 :: real where "eps12 = 1 / 1000000000000"
definition eps10 :: real where "eps10 = 1 / 10000000000"
definition eps8 :: real where "eps8 = 1 / 100000000"

lemma eps_pos [simp]: "0 < eps12" "0 < eps10" "0 < eps8" "0 \<le> eps12" "0 \<le> eps10" "0 \<le> eps8"
  by (simp_all add: eps12_def eps10_def eps8_def)

lemma eps_not_neg [simp]: "\<not> eps12 < 0" "\<not> eps12 \<le> 0"
  by (simp_all add: eps12_def)

declare map_of_eq_Some_iff [simp del]

lemmas eps_defs = eps12_def eps10_def eps8_def

text \<open>\<open>math.copysign(x, y)\<close> for a real \<open>y\<close> (a real zero carries the positive sign).\<close>

definition copysign :: "real \<Rightarrow> real \<Rightarrow> real" where
  "copysign x y = (if y < 0 then - \<bar>x\<bar> else \<bar>x\<bar>)"

lemma abs_copysign [simp]: "\<bar>copysign x y\<bar> = \<bar>x\<bar>"
  by (simp add: copysign_def)

definition sign_of :: "real \<Rightarrow> int" where
  "sign_of x = (if x > 0 then 1 else if x < 0 then -1 else 0)"

lemma sign_of_simps [simp]:
  "sign_of x = 0 \<longleftrightarrow> x = 0" "sign_of x = 1 \<longleftrightarrow> 0 < x" "sign_of x = -1 \<longleftrightarrow> x < 0"
  by (auto simp: sign_of_def)

text \<open>Sums of a measure over a list, as the code's \<open>sum(f(x) for x in xs)\<close>.\<close>

abbreviation sum_of :: "('a \<Rightarrow> real) \<Rightarrow> 'a list \<Rightarrow> real" where
  "sum_of f xs \<equiv> sum_list (map f xs)"

lemma sum_of_nonneg: "(\<And>x. x \<in> set xs \<Longrightarrow> 0 \<le> f x) \<Longrightarrow> 0 \<le> sum_of f xs"
  by (induction xs) auto

text \<open>\<open>min(xs, key=f)\<close>: the first element with the least key.\<close>

fun min_by :: "('a \<Rightarrow> 'b::linorder) \<Rightarrow> 'a \<Rightarrow> 'a list \<Rightarrow> 'a" where
  "min_by f x [] = x"
| "min_by f x (y # ys) = (if f y < f x then min_by f y ys else min_by f x ys)"

lemma min_by_mem: "min_by f x ys \<in> insert x (set ys)"
proof (induction ys arbitrary: x)
  case (Cons y ys)
  show ?case using Cons.IH[of x] Cons.IH[of y] by auto
qed simp

lemma min_by_le_head: "f (min_by f x ys) \<le> f x"
proof (induction ys arbitrary: x)
  case (Cons y ys)
  show ?case using Cons.IH[of x] Cons.IH[of y] by auto
qed simp

lemma min_by_le: "y \<in> set ys \<Longrightarrow> f (min_by f x ys) \<le> f y"
proof (induction ys arbitrary: x)
  case (Cons z zs)
  then consider "y = z" | "y \<in> set zs" by auto
  then show ?case
  proof cases
    case 1
    show ?thesis using min_by_le_head[of f z zs] min_by_le_head[of f x zs] 1 by auto
  next
    case 2
    then show ?thesis using Cons.IH by auto
  qed
qed simp

subsection \<open>Dynamic values\<close>

text \<open>A raw cell or keyword value; \<open>PNum\<close> is any int or float but NaN.\<close>

datatype pyval = PNone | PBool bool | PNum real | PNaN | PStr string

definition lower_char :: "char \<Rightarrow> char" where
  "lower_char c = (let n = (of_char c :: nat) in if 65 \<le> n \<and> n \<le> 90 then char_of (n + 32) else c)"

definition upper_char :: "char \<Rightarrow> char" where
  "upper_char c = (let n = (of_char c :: nat) in if 97 \<le> n \<and> n \<le> 122 then char_of (n - 32) else c)"

definition py_lower :: "string \<Rightarrow> string" where "py_lower = map lower_char"
definition py_upper :: "string \<Rightarrow> string" where "py_upper = map upper_char"

definition is_space :: "char \<Rightarrow> bool" where
  "is_space c = ((of_char c :: nat) \<in> {9, 10, 11, 12, 13, 28, 29, 30, 31, 32})"

definition py_strip :: "string \<Rightarrow> string" where
  "py_strip s = rev (dropWhile is_space (rev (dropWhile is_space s)))"

definition py_startswith :: "string \<Rightarrow> string \<Rightarrow> bool" where
  "py_startswith s p = (take (length p) s = p)"

definition py_endswith :: "string \<Rightarrow> string \<Rightarrow> bool" where
  "py_endswith s q = (length q \<le> length s \<and> drop (length s - length q) s = q)"

text \<open>\<open>q in s\<close>: \<open>q\<close> occurs somewhere in \<open>s\<close>.\<close>

fun py_contains :: "string \<Rightarrow> string \<Rightarrow> bool" where
  "py_contains [] q = (q = [])"
| "py_contains (c # s) q = (py_startswith (c # s) q \<or> py_contains s q)"

text \<open>\<open>s.replace(c, r)\<close> for a single character \<open>c\<close>.\<close>

definition replace_char :: "char \<Rightarrow> string \<Rightarrow> string \<Rightarrow> string" where
  "replace_char c r s = concat (map (\<lambda>d. if d = c then r else [d]) s)"

lemma startswith_self [simp]: "py_startswith (p @ s) p"
  by (simp add: py_startswith_def)

lemma endswith_self [simp]: "py_endswith (s @ q) q"
  by (simp add: py_endswith_def)

subsection \<open>Dicts\<close>

text \<open>
  A Python dict iterates in insertion order and an update of a present key keeps its place.
  \<open>AList.update\<close> does exactly this, so a dict is an association list with distinct keys.
\<close>

type_synonym 'v dict = "(string \<times> 'v) list"

abbreviation dict_wf :: "('k \<times> 'v) list \<Rightarrow> bool" where
  "dict_wf d \<equiv> distinct (map fst d)"

abbreviation dict_set :: "'k \<Rightarrow> 'v \<Rightarrow> ('k \<times> 'v) list \<Rightarrow> ('k \<times> 'v) list" where
  "dict_set \<equiv> AList.update"

abbreviation dict_pop :: "'k \<Rightarrow> ('k \<times> 'v) list \<Rightarrow> ('k \<times> 'v) list" where
  "dict_pop \<equiv> AList.delete"

lemma lookup_set [dict_simps]: "map_of (dict_set k v d) j = (if j = k then Some v else map_of d j)"
  by (simp add: update_conv)

lemma lookup_pop [dict_simps]: "map_of (dict_pop k d) j = (if j = k then None else map_of d j)"
  by (simp add: delete_conv)

lemma dict_wf_set [dict_simps]: "dict_wf d \<Longrightarrow> dict_wf (dict_set k v d)"
  by (rule distinct_update)

lemma dict_wf_pop [dict_simps]: "dict_wf d \<Longrightarrow> dict_wf (dict_pop k d)"
  by (rule distinct_delete)

lemma dict_pop_absent: "k \<notin> fst ` set d \<Longrightarrow> dict_pop k d = d"
  by (induction d) auto

lemma sum_of_pop:
  "dict_wf d \<Longrightarrow> sum_of f (dict_pop k d) =
     sum_of f d - (case map_of d k of None \<Rightarrow> 0 | Some v \<Rightarrow> f (k, v))"
proof (induction d)
  case (Cons p d)
  obtain j w where p: "p = (j, w)" by (cases p)
  show ?case
  proof (cases "j = k")
    case True
    with Cons p have "dict_pop k d = d" by (intro dict_pop_absent) auto
    with True p show ?thesis by simp
  next
    case False
    with Cons p show ?thesis by simp
  qed
qed simp

lemma sum_of_set:
  "dict_wf d \<Longrightarrow> sum_of f (dict_set k v d) =
     sum_of f d + f (k, v) - (case map_of d k of None \<Rightarrow> 0 | Some w \<Rightarrow> f (k, w))"
proof (induction d)
  case (Cons p d)
  obtain j w where p: "p = (j, w)" by (cases p)
  show ?case using Cons p by (auto split: option.splits dest: map_of_SomeD)
qed simp

subsection \<open>Time\<close>

text \<open>
  An instant is its number of nanoseconds since the epoch, as pandas stores it; a day is
  counted from 1970-01-01, a Thursday (Monday is weekday 0).
\<close>

type_synonym instant = int

definition ns_per_s :: int where "ns_per_s = 1000000000"
definition ns_per_day :: int where "ns_per_day = 86400000000000"

definition day_of :: "instant \<Rightarrow> int" where "day_of t = t div ns_per_day"
definition midnight :: "instant \<Rightarrow> instant" where "midnight t = day_of t * ns_per_day"
definition weekday_of :: "instant \<Rightarrow> int" where "weekday_of t = (day_of t + 3) mod 7"

lemma midnight_le: "midnight t \<le> t"
proof -
  have "midnight t + t mod ns_per_day = t"
    by (simp add: midnight_def day_of_def)
  moreover have "0 \<le> t mod ns_per_day"
    by (simp add: ns_per_day_def)
  ultimately show ?thesis by linarith
qed

subsection \<open>Errors\<close>

text \<open>An exception is a left value; \<open>ebind\<close> stops at the first one, as a raise does.\<close>

definition ebind :: "'e + 'a \<Rightarrow> ('a \<Rightarrow> 'e + 'b) \<Rightarrow> 'e + 'b" where
  "ebind m f = (case m of Inl e \<Rightarrow> Inl e | Inr x \<Rightarrow> f x)"

text \<open>Unfolded in generated equations, so that an evaluation looks at \<open>f\<close> only once \<open>m\<close> is known.\<close>

declare ebind_def [code_unfold]

lemma ebind_simps [simp]: "ebind (Inl e) f = Inl e" "ebind (Inr x) f = f x"
  by (simp_all add: ebind_def)

lemma ebind_InrE:
  assumes "ebind m f = Inr y"
  obtains x where "m = Inr x" "f x = Inr y"
  using assms by (cases m) auto

text \<open>A loop whose body may raise: it stops at the first error.\<close>

fun efold :: "('e \<Rightarrow> 's \<Rightarrow> 'err + 's) \<Rightarrow> 'e list \<Rightarrow> 's \<Rightarrow> 'err + 's" where
  "efold f [] s = Inr s"
| "efold f (e # es) s = ebind (f e s) (efold f es)"

lemma efold_append: "efold f (xs @ ys) s = ebind (efold f xs s) (efold f ys)"
  by (induction xs arbitrary: s) (auto simp: ebind_def split: sum.splits)

subsection \<open>Interfaces shared by the stateful components\<close>

text \<open>
  A machine whose step keeps an invariant: the client runs it over any list of events and
  keeps the invariant. Each component interprets the locale on its own step.
\<close>

locale invariant_machine =
  fixes step :: "'e \<Rightarrow> 's \<Rightarrow> 's" and inv :: "'s \<Rightarrow> bool"
  assumes step_inv: "inv s \<Longrightarrow> inv (step e s)"
begin

lemma run_inv: "inv s \<Longrightarrow> inv (fold step es s)"
  by (induction es arbitrary: s) (auto intro: step_inv)

lemma run_inv_prefix: "inv s \<Longrightarrow> inv (fold step (take n es) s)"
  by (rule run_inv)

end

text \<open>A machine with a measure no step decreases (a high-water mark, an audit log's length).\<close>

locale monotone_machine = invariant_machine step inv
  for step :: "'e \<Rightarrow> 's \<Rightarrow> 's" and inv :: "'s \<Rightarrow> bool" +
  fixes level :: "'s \<Rightarrow> 'm::order"
  assumes step_mono: "inv s \<Longrightarrow> level s \<le> level (step e s)"
begin

lemma run_mono: "inv s \<Longrightarrow> level s \<le> level (fold step es s)"
proof (induction es arbitrary: s)
  case (Cons e es)
  then have "level s \<le> level (step e s)" "level (step e s) \<le> level (fold step es (step e s))"
    by (auto intro: step_mono step_inv)
  then show ?case by (auto intro: order_trans)
qed simp

end

text \<open>
  The same for a step that may raise, over the events a client may send: a run that ends keeps
  the invariant.
\<close>

locale partial_machine =
  fixes pstep :: "'e \<Rightarrow> 's \<Rightarrow> 'err + 's" and allowed :: "'e \<Rightarrow> bool" and pinv :: "'s \<Rightarrow> bool"
  assumes pstep_inv: "pinv s \<Longrightarrow> allowed e \<Longrightarrow> pstep e s = Inr t \<Longrightarrow> pinv t"
begin

lemma prun_inv: "pinv s \<Longrightarrow> list_all allowed es \<Longrightarrow> efold pstep es s = Inr t \<Longrightarrow> pinv t"
proof (induction es arbitrary: s)
  case (Cons e es)
  then show ?case by (auto elim!: ebind_InrE intro: pstep_inv)
qed simp

end

end
