(* ===== verification/Protection.thy ===== *)
theory Protection
  imports Prelude
begin

text \<open>
  Position protection (\<open>strategy_v2/protection.py\<close>): the normalised specification, the state a
  protected position carries, and the evaluator that both the backtest broker (bar by bar) and
  the live session (price by price) call. A raw number stands for what \<open>float(value)\<close> gives:
  \<open>None\<close> where the value is missing, not a number or NaN.
\<close>

subsection \<open>Conversions\<close>

definition number :: "real option \<Rightarrow> real \<Rightarrow> real" where
  "number v d = (case v of None \<Rightarrow> d | Some x \<Rightarrow> x)"

definition ratio :: "real option \<Rightarrow> real \<Rightarrow> real" where
  "ratio v maximum = min maximum (max 0 (number v 0))"

definition boolean :: "pyval \<Rightarrow> bool \<Rightarrow> bool" where
  "boolean v d =
     (case v of
        PNone \<Rightarrow> d
      | PBool b \<Rightarrow> b
      | PNum x \<Rightarrow> x \<noteq> 0
      | PNaN \<Rightarrow> True
      | PStr s \<Rightarrow>
          (let n = py_lower (py_strip s) in
           if n \<in> {''1'', ''true'', ''yes'', ''on''} then True
           else if n \<in> {''0'', ''false'', ''no'', ''off'', ''''} then False
           else s \<noteq> []))"

lemma ratio_bounds [simp]: "0 \<le> m \<Longrightarrow> 0 \<le> ratio v m" "ratio v m \<le> m"
  by (auto simp: ratio_def)

subsection \<open>Specification\<close>

record protection_spec =
  stop_loss_pct :: real
  take_profit_pct :: real
  trailing_stop_pct :: real
  trailing_activation_pct :: real
  time_limit_seconds :: int
  trailing_rebase_on_scale_in :: bool

text \<open>A mapping of raw values; \<open>int()\<close> truncates, and a negative limit becomes 0.\<close>

type_synonym raw_map = "(string \<times> real option) list"

definition raw_get :: "raw_map \<Rightarrow> string \<Rightarrow> real option" where
  "raw_get m k = (case map_of m k of None \<Rightarrow> None | Some v \<Rightarrow> v)"

definition make_spec ::
  "real option \<Rightarrow> real option \<Rightarrow> real option \<Rightarrow> real option \<Rightarrow> real option \<Rightarrow> pyval \<Rightarrow> protection_spec"
where
  "make_spec sl tp tr act secs rebase =
     \<lparr>stop_loss_pct = ratio sl 1,
      take_profit_pct = ratio tp 5,
      trailing_stop_pct = ratio tr 1,
      trailing_activation_pct = ratio act 5,
      time_limit_seconds = max 0 \<lfloor>number secs 0\<rfloor>,
      trailing_rebase_on_scale_in = boolean rebase True\<rparr>"

definition spec_enabled :: "protection_spec \<Rightarrow> bool" where
  "spec_enabled s \<longleftrightarrow> 0 < stop_loss_pct s \<or> 0 < take_profit_pct s \<or>
     0 < trailing_stop_pct s \<or> 0 < time_limit_seconds s"

definition spec_metadata :: "protection_spec \<Rightarrow> raw_map" where
  "spec_metadata s =
     [(''stop_loss_pct'', Some (stop_loss_pct s)),
      (''take_profit_pct'', Some (take_profit_pct s)),
      (''trailing_stop_pct'', Some (trailing_stop_pct s)),
      (''trailing_activation_pct'', Some (trailing_activation_pct s)),
      (''time_limit_seconds'', Some (of_int (time_limit_seconds s)))]"

text \<open>
  \<open>from_value\<close>: the value's entries, overridden by the non-missing keyword values, completed
  by the nested \<open>trailing\<close> mapping where the flat key is absent (\<open>setdefault\<close> keeps a present
  key even when its value is missing). The flag is passed separately.
\<close>

definition setdefault :: "string \<Rightarrow> real option \<Rightarrow> raw_map \<Rightarrow> raw_map" where
  "setdefault k v m = (case map_of m k of None \<Rightarrow> m @ [(k, v)] | Some _ \<Rightarrow> m)"

definition spec_from_value ::
  "raw_map \<Rightarrow> raw_map \<Rightarrow> raw_map option \<Rightarrow> pyval \<Rightarrow> protection_spec option"
where
  "spec_from_value value overrides trailing rebase =
     (let src = foldl (\<lambda>m (k, v). dict_set k v m) value (filter (\<lambda>(k, v). v \<noteq> None) overrides);
          src = (case trailing of
                   None \<Rightarrow> src
                 | Some t \<Rightarrow> setdefault ''trailing_activation_pct'' (raw_get t ''activation_pct'')
                              (setdefault ''trailing_stop_pct'' (raw_get t ''pct'') src));
          s = make_spec (raw_get src ''stop_loss_pct'') (raw_get src ''take_profit_pct'')
                (raw_get src ''trailing_stop_pct'') (raw_get src ''trailing_activation_pct'')
                (raw_get src ''time_limit_seconds'') rebase
      in if spec_enabled s then Some s else None)"

text \<open>What every specification the constructor returns satisfies.\<close>

definition spec_ok :: "protection_spec \<Rightarrow> bool" where
  "spec_ok s \<longleftrightarrow> 0 \<le> stop_loss_pct s \<and> stop_loss_pct s \<le> 1 \<and>
     0 \<le> take_profit_pct s \<and> take_profit_pct s \<le> 5 \<and>
     0 \<le> trailing_stop_pct s \<and> trailing_stop_pct s \<le> 1 \<and>
     0 \<le> trailing_activation_pct s \<and> trailing_activation_pct s \<le> 5 \<and>
     0 \<le> time_limit_seconds s"

lemma make_spec_ok: "spec_ok (make_spec sl tp tr act secs rb)"
  by (simp add: make_spec_def spec_ok_def)

lemma spec_from_value_ok:
  "spec_from_value v ov t rb = Some s \<Longrightarrow> spec_ok s \<and> spec_enabled s"
  by (auto simp: spec_from_value_def Let_def make_spec_ok split: if_splits)

lemma make_spec_fixed:
  "spec_ok s \<Longrightarrow> make_spec (Some (stop_loss_pct s)) (Some (take_profit_pct s))
     (Some (trailing_stop_pct s)) (Some (trailing_activation_pct s))
     (Some (of_int (time_limit_seconds s))) (PBool (trailing_rebase_on_scale_in s)) = s"
  by (simp add: make_spec_def spec_ok_def ratio_def number_def boolean_def)

lemma spec_from_metadata:
  "spec_ok s \<Longrightarrow> spec_enabled s \<Longrightarrow>
     spec_from_value (spec_metadata s) [] None (PBool (trailing_rebase_on_scale_in s)) = Some s"
  by (simp add: spec_from_value_def spec_metadata_def raw_get_def Let_def make_spec_fixed)

subsection \<open>State\<close>

record protection_state =
  ps_symbol :: string
  ps_side :: string
  ps_entry :: real
  ps_spec :: protection_spec
  ps_opened_at :: instant
  ps_high :: real
  ps_low :: real
  ps_trailing :: bool

definition open_state ::
  "string \<Rightarrow> string \<Rightarrow> real \<Rightarrow> protection_spec \<Rightarrow> instant \<Rightarrow> protection_state" where
  "open_state symbol side entry spec t =
     \<lparr>ps_symbol = symbol, ps_side = py_lower side, ps_entry = entry, ps_spec = spec,
      ps_opened_at = t, ps_high = entry, ps_low = entry, ps_trailing = False\<rparr>"

definition apply_scale_in ::
  "real \<Rightarrow> real \<Rightarrow> protection_spec option \<Rightarrow> instant option \<Rightarrow> protection_state \<Rightarrow> protection_state"
where
  "apply_scale_in entry fill spec tm s =
     (let s = s\<lparr>ps_entry := py_or entry (ps_entry s)\<rparr>;
          s = (case spec of None \<Rightarrow> s | Some sp \<Rightarrow> s\<lparr>ps_spec := sp\<rparr>);
          ref = py_or fill (ps_entry s);
          ref = (if ref \<le> 0 then ps_entry s else ref)
      in if trailing_rebase_on_scale_in (ps_spec s) then
           s\<lparr>ps_trailing := False, ps_high := max (ps_entry s) ref, ps_low := min (ps_entry s) ref,
             ps_opened_at := (case tm of None \<Rightarrow> ps_opened_at s | Some t \<Rightarrow> t)\<rparr>
         else if ps_trailing s then s
         else s\<lparr>ps_high := max (ps_entry s) ref, ps_low := min (ps_entry s) ref\<rparr>)"

text \<open>The snapshot of a state, and its reading back (the instant is kept exactly).\<close>

record state_metadata =
  md_symbol :: string
  md_side :: string
  md_entry :: "real option"
  md_spec :: raw_map
  md_rebase :: pyval
  md_opened_at :: "instant option"
  md_high :: "real option"
  md_low :: "real option"
  md_trailing :: bool

definition state_metadata_of :: "protection_state \<Rightarrow> state_metadata" where
  "state_metadata_of s =
     \<lparr>md_symbol = ps_symbol s, md_side = ps_side s, md_entry = Some (ps_entry s),
      md_spec = spec_metadata (ps_spec s),
      md_rebase = PBool (trailing_rebase_on_scale_in (ps_spec s)),
      md_opened_at = Some (ps_opened_at s), md_high = Some (ps_high s), md_low = Some (ps_low s),
      md_trailing = ps_trailing s\<rparr>"

definition state_from_metadata :: "instant \<Rightarrow> state_metadata \<Rightarrow> protection_state option" where
  "state_from_metadata now m =
     (case spec_from_value (md_spec m) [] None (md_rebase m) of
        None \<Rightarrow> None
      | Some spec \<Rightarrow>
          (let entry = number (md_entry m) 0;
               low = number (md_low m) entry
           in if entry \<le> 0 then None
              else Some ((open_state (md_symbol m)
                           (if md_side m = [] then ''long'' else md_side m) entry spec
                           (case md_opened_at m of None \<Rightarrow> now | Some t \<Rightarrow> t))
                         \<lparr>ps_high := max entry (number (md_high m) entry),
                          ps_low := min entry (if low > 0 then low else entry),
                          ps_trailing := md_trailing m\<rparr>)))"

subsection \<open>Evaluation\<close>

datatype exit_reason = StopLoss | TrailingStop | TakeProfit | TimeLimit

primrec reason_name :: "exit_reason \<Rightarrow> string" where
  "reason_name StopLoss = ''stop_loss''"
| "reason_name TrailingStop = ''trailing_stop''"
| "reason_name TakeProfit = ''take_profit''"
| "reason_name TimeLimit = ''time_limit''"

record decision =
  d_symbol :: string
  d_side :: string
  d_reason :: exit_reason
  d_price :: real
  d_trigger :: real
  d_time :: instant

datatype intrabar_mode = Conservative | Balanced | Aggressive

definition mode_of :: "string \<Rightarrow> intrabar_mode" where
  "mode_of s =
     (let m = py_lower (py_strip (if s = [] then ''conservative'' else s)) in
      if m = ''balanced'' then Balanced else if m = ''aggressive'' then Aggressive else Conservative)"

definition make_decision ::
  "protection_state \<Rightarrow> exit_reason \<Rightarrow> real \<Rightarrow> real \<Rightarrow> instant \<Rightarrow> decision" where
  "make_decision s r price trigger t =
     \<lparr>d_symbol = ps_symbol s, d_side = ps_side s, d_reason = r, d_price = price,
      d_trigger = trigger, d_time = t\<rparr>"

text \<open>\<open>_trailing_trigger\<close> activates the trailing stop as a side effect.\<close>

definition trailing_activates :: "protection_state \<Rightarrow> bool" where
  "trailing_activates s =
     (if ps_side s = ''long''
      then ps_high s \<ge> ps_entry s * (1 + trailing_activation_pct (ps_spec s))
      else ps_low s \<le> ps_entry s * (1 - trailing_activation_pct (ps_spec s)))"

definition trailing_trigger :: "protection_state \<Rightarrow> protection_state \<times> real option" where
  "trailing_trigger s =
     (if trailing_stop_pct (ps_spec s) \<le> 0 then (s, None)
      else let s' = (if \<not> ps_trailing s \<and> trailing_activates s then s\<lparr>ps_trailing := True\<rparr> else s)
           in if \<not> ps_trailing s' then (s', None)
              else if ps_side s = ''long''
                   then (s', Some (ps_high s' * (1 - trailing_stop_pct (ps_spec s))))
                   else (s', Some (ps_low s' * (1 + trailing_stop_pct (ps_spec s)))))"

definition time_limit_reached :: "protection_state \<Rightarrow> instant \<Rightarrow> bool" where
  "time_limit_reached s t \<longleftrightarrow> 0 < time_limit_seconds (ps_spec s) \<and>
     t - ps_opened_at s \<ge> time_limit_seconds (ps_spec s) * ns_per_s"

definition loss_trigger :: "protection_state \<Rightarrow> real" where
  "loss_trigger s = ps_entry s * (if ps_side s = ''long'' then 1 - stop_loss_pct (ps_spec s)
                                  else 1 + stop_loss_pct (ps_spec s))"

definition profit_trigger :: "protection_state \<Rightarrow> real" where
  "profit_trigger s = ps_entry s * (if ps_side s = ''long'' then 1 + take_profit_pct (ps_spec s)
                                    else 1 - take_profit_pct (ps_spec s))"

text \<open>
  A stop is touched from above by a long and from below by a short; when the bar already
  opens beyond the trigger the exit is at the open.
\<close>

definition stop_candidate ::
  "protection_state \<Rightarrow> exit_reason \<Rightarrow> real \<Rightarrow> instant \<Rightarrow> real \<Rightarrow> real \<Rightarrow> real \<Rightarrow> decision list"
where
  "stop_candidate s r trigger t op hi lo =
     (let long = (ps_side s = ''long'');
          touched = (if long then lo \<le> trigger else hi \<ge> trigger);
          gapped = (if long then op \<le> trigger else op \<ge> trigger)
      in if touched then [make_decision s r (if gapped then op else trigger) trigger t] else [])"

definition profit_candidate ::
  "protection_state \<Rightarrow> real \<Rightarrow> instant \<Rightarrow> real \<Rightarrow> real \<Rightarrow> real \<Rightarrow> decision list"
where
  "profit_candidate s trigger t op hi lo =
     (let long = (ps_side s = ''long'');
          touched = (if long then hi \<ge> trigger else lo \<le> trigger);
          gapped = (if long then op \<ge> trigger else op \<le> trigger)
      in if touched then [make_decision s TakeProfit (if gapped then op else trigger) trigger t]
         else [])"

definition bar_candidates ::
  "protection_state \<Rightarrow> instant \<Rightarrow> real \<Rightarrow> real \<Rightarrow> real \<Rightarrow> protection_state \<times> decision list"
where
  "bar_candidates s t op hi lo =
     (let stop = (if stop_loss_pct (ps_spec s) > 0
                  then stop_candidate s StopLoss (loss_trigger s) t op hi lo else []);
          (s', trailing) = trailing_trigger s;
          trail = (case trailing of None \<Rightarrow> []
                   | Some p \<Rightarrow> stop_candidate s' TrailingStop p t op hi lo);
          take = (if take_profit_pct (ps_spec s) > 0
                  then profit_candidate s' (profit_trigger s) t op hi lo else []);
          time = (if time_limit_reached s' t then [make_decision s' TimeLimit op op t] else [])
      in (s', stop @ trail @ take @ time))"

definition price_candidates ::
  "protection_state \<Rightarrow> instant \<Rightarrow> real \<Rightarrow> protection_state \<times> decision list"
where
  "price_candidates s t price =
     (let long = (ps_side s = ''long'');
          stop = (if stop_loss_pct (ps_spec s) > 0 \<and>
                     (if long then price \<le> loss_trigger s else price \<ge> loss_trigger s)
                  then [make_decision s StopLoss price (loss_trigger s) t] else []);
          (s', trailing) = trailing_trigger s;
          trail = (case trailing of None \<Rightarrow> []
                   | Some p \<Rightarrow> if (if long then price \<le> p else price \<ge> p)
                               then [make_decision s' TrailingStop price p t] else []);
          take = (if take_profit_pct (ps_spec s) > 0 \<and>
                     (if long then price \<ge> profit_trigger s else price \<le> profit_trigger s)
                  then [make_decision s' TakeProfit price (profit_trigger s) t] else []);
          time = (if time_limit_reached s' t then [make_decision s' TimeLimit price price t] else [])
      in (s', stop @ trail @ take @ time))"

primrec aggressive_rank :: "exit_reason \<Rightarrow> nat" where
  "aggressive_rank TakeProfit = 0"
| "aggressive_rank TrailingStop = 1"
| "aggressive_rank TimeLimit = 2"
| "aggressive_rank StopLoss = 3"

primrec conservative_rank :: "exit_reason \<Rightarrow> nat" where
  "conservative_rank StopLoss = 0"
| "conservative_rank TrailingStop = 1"
| "conservative_rank TimeLimit = 2"
| "conservative_rank TakeProfit = 3"

fun pick_exit :: "intrabar_mode \<Rightarrow> decision list \<Rightarrow> real \<Rightarrow> decision option" where
  "pick_exit _ [] _ = None"
| "pick_exit Aggressive (c # cs) _ = Some (min_by (\<lambda>d. aggressive_rank (d_reason d)) c cs)"
| "pick_exit Balanced (c # cs) ref = Some (min_by (\<lambda>d. \<bar>d_trigger d - ref\<bar>) c cs)"
| "pick_exit Conservative (c # cs) _ = Some (min_by (\<lambda>d. conservative_rank (d_reason d)) c cs)"

text \<open>The high and low a bar reports are first widened to contain its open.\<close>

definition evaluate_bar ::
  "intrabar_mode \<Rightarrow> protection_state \<Rightarrow> instant \<Rightarrow> real option \<Rightarrow> real option \<Rightarrow> real option \<Rightarrow>
     protection_state \<times> decision option"
where
  "evaluate_bar mode s t open_price high_price low_price =
     (let op = number open_price 0;
          hi = max op (number high_price op);
          lo = min op (number low_price op);
          (s', cs) = bar_candidates s t op hi lo;
          d = pick_exit mode cs op
      in (case d of
            None \<Rightarrow> s'\<lparr>ps_high := max (ps_high s') hi, ps_low := min (ps_low s') lo\<rparr>
          | Some _ \<Rightarrow> s', d))"

definition evaluate_price ::
  "intrabar_mode \<Rightarrow> protection_state \<Rightarrow> instant \<Rightarrow> real option \<Rightarrow> protection_state \<times> decision option"
where
  "evaluate_price mode s t price =
     (let cur = number price 0 in
      if cur \<le> 0 then (s, None)
      else let s1 = s\<lparr>ps_high := max (ps_high s) cur, ps_low := min (ps_low s) cur\<rparr>;
               (s', cs) = price_candidates s1 t cur
           in (s', pick_exit mode cs cur))"

subsection \<open>The exit a bar triggers\<close>

lemma stop_candidate_range:
  "d \<in> set (stop_candidate s r trigger t op hi lo) \<Longrightarrow> lo \<le> op \<Longrightarrow> op \<le> hi \<Longrightarrow>
     lo \<le> d_price d \<and> d_price d \<le> hi"
  by (auto simp: stop_candidate_def make_decision_def Let_def split: if_splits)

lemma profit_candidate_range:
  "d \<in> set (profit_candidate s trigger t op hi lo) \<Longrightarrow> lo \<le> op \<Longrightarrow> op \<le> hi \<Longrightarrow>
     lo \<le> d_price d \<and> d_price d \<le> hi"
  by (auto simp: profit_candidate_def make_decision_def Let_def split: if_splits)

lemma bar_candidates_range:
  assumes "d \<in> set (snd (bar_candidates s t op hi lo))" "lo \<le> op" "op \<le> hi"
  shows "lo \<le> d_price d \<and> d_price d \<le> hi"
  using assms
  by (auto simp: bar_candidates_def Let_def make_decision_def split: prod.splits option.splits if_splits
      dest!: stop_candidate_range profit_candidate_range)

lemma pick_exit_mem: "pick_exit mode cs r = Some d \<Longrightarrow> d \<in> set cs"
proof (cases cs)
  case (Cons c ds)
  assume "pick_exit mode cs r = Some d"
  then show ?thesis
    using Cons min_by_mem[of "\<lambda>d. conservative_rank (d_reason d)" c ds]
      min_by_mem[of "\<lambda>d. aggressive_rank (d_reason d)" c ds]
      min_by_mem[of "\<lambda>d. \<bar>d_trigger d - r\<bar>" c ds]
    by (cases mode) auto
qed simp

lemma pick_exit_None: "pick_exit mode cs r = None \<longleftrightarrow> cs = []"
  by (cases cs; cases mode) simp_all

lemma pick_exit_conservative_first:
  "d_reason c = StopLoss \<Longrightarrow> pick_exit Conservative (c # cs) r = Some c"
proof -
  have "d_reason c = StopLoss \<Longrightarrow> min_by (\<lambda>d. conservative_rank (d_reason d)) c cs = c"
    by (induction cs) auto
  then show "d_reason c = StopLoss \<Longrightarrow> pick_exit Conservative (c # cs) r = Some c" by simp
qed

lemma evaluate_bar_decision:
  "evaluate_bar mode s t op hi lo = (s', d) \<Longrightarrow>
     d = pick_exit mode (snd (bar_candidates s t (number op 0)
           (max (number op 0) (number hi (number op 0)))
           (min (number op 0) (number lo (number op 0))))) (number op 0)"
  by (auto simp: evaluate_bar_def Let_def split: prod.splits)

text \<open>
  every exit the evaluator takes on a bar, in every intrabar mode, is priced inside the
  bar's range (widened to its open): a stop or target is never filled at a price the bar did
  not trade.
\<close>

theorem exit_price_inside_bar:
  assumes "evaluate_bar mode s t (Some op) (Some hi) (Some lo) = (s', Some d)"
  shows "min op lo \<le> d_price d \<and> d_price d \<le> max op hi"
proof -
  have "d \<in> set (snd (bar_candidates s t op (max op hi) (min op lo)))"
    using evaluate_bar_decision[OF assms] by (simp add: number_def pick_exit_mem)
  then show ?thesis by (rule bar_candidates_range) auto
qed

definition demo_spec :: protection_spec where
  "demo_spec = make_spec (Some (1/10)) (Some (1/5)) (Some (1/20)) (Some (1/20)) None PNone"

definition demo_state :: protection_state where
  "demo_state = open_state ''A'' ''long'' 100 demo_spec 0"

lemmas demo_protection = demo_state_def demo_spec_def make_spec_def ratio_def number_def
  boolean_def open_state_def

lemma demo_side: "py_lower ''long'' = ''long''" "py_lower ''short'' = ''short''"
  by code_simp+

theorem exit_price_inside_bar_witness:
  "\<exists>s' d. evaluate_bar Conservative demo_state 60 (Some 95) (Some 97) (Some 80) = (s', Some d) \<and>
     d_price d = 90 \<and> min 95 80 \<le> d_price d \<and> d_price d \<le> max 95 97"
proof -
  obtain s' d where e: "evaluate_bar Conservative demo_state 60 (Some 95) (Some 97) (Some 80) = (s', Some d)"
    and p: "d_price d = 90"
    by (simp add: demo_protection demo_side evaluate_bar_def bar_candidates_def stop_candidate_def
        profit_candidate_def loss_trigger_def profit_trigger_def trailing_trigger_def
        trailing_activates_def time_limit_reached_def make_decision_def)
  from exit_price_inside_bar[OF e] e p show ?thesis by blast
qed

text \<open>
  in the default conservative mode a touched stop-loss always wins over every other
  trigger the same bar touches, and it is filled at the trigger, or at the open when the bar
  gaps through it (so never better than the trigger for the position's holder).
\<close>

theorem conservative_stop_loss_wins:
  assumes "0 < stop_loss_pct (ps_spec s)"
    and "if ps_side s = ''long'' then min op lo \<le> loss_trigger s else max op hi \<ge> loss_trigger s"
  shows "snd (evaluate_bar Conservative s t (Some op) (Some hi) (Some lo)) =
    Some (make_decision s StopLoss
      (if ps_side s = ''long'' then min op (loss_trigger s) else max op (loss_trigger s))
      (loss_trigger s) t)"
proof -
  let ?d = "make_decision s StopLoss
      (if ps_side s = ''long'' then min op (loss_trigger s) else max op (loss_trigger s))
      (loss_trigger s) t"
  obtain s' ds where c: "bar_candidates s t op (max op hi) (min op lo) = (s', ds)"
    by (cases "bar_candidates s t op (max op hi) (min op lo)")
  have "stop_candidate s StopLoss (loss_trigger s) t op (max op hi) (min op lo) = [?d]"
    using assms(2) by (auto simp: stop_candidate_def Let_def min_def max_def)
  with assms(1) c obtain cs where ds: "ds = ?d # cs"
    by (auto simp: bar_candidates_def Let_def split: prod.splits)
  have "pick_exit Conservative ds op = Some ?d"
    unfolding ds by (rule pick_exit_conservative_first) (simp add: make_decision_def)
  with c show ?thesis
    by (simp add: evaluate_bar_def number_def Let_def)
qed

theorem conservative_stop_loss_wins_witness:
  "0 < stop_loss_pct (ps_spec demo_state) \<and>
   snd (evaluate_bar Conservative demo_state 60 (Some 95) (Some 130) (Some 80)) =
     Some (make_decision demo_state StopLoss 90 90 60)"
proof -
  have f: "0 < stop_loss_pct (ps_spec demo_state)" "ps_side demo_state = ''long''"
    "loss_trigger demo_state = 90"
    by (simp_all add: demo_protection demo_side loss_trigger_def)
  from conservative_stop_loss_wins[of demo_state 95 80 130 60] f show ?thesis by simp
qed

subsection \<open>The trailing stop is a ratchet\<close>

datatype market_event =
    BarSeen instant "real option" "real option" "real option"
  | PriceSeen instant "real option"

fun observe :: "intrabar_mode \<Rightarrow> market_event \<Rightarrow> protection_state \<Rightarrow> protection_state" where
  "observe mode (BarSeen t op hi lo) s = fst (evaluate_bar mode s t op hi lo)"
| "observe mode (PriceSeen t p) s = fst (evaluate_price mode s t p)"

text \<open>What evaluating never changes, and what it only moves one way.\<close>

definition extends :: "protection_state \<Rightarrow> protection_state \<Rightarrow> bool" where
  "extends s s' \<longleftrightarrow> ps_spec s' = ps_spec s \<and> ps_side s' = ps_side s \<and> ps_entry s' = ps_entry s \<and>
     ps_symbol s' = ps_symbol s \<and> ps_opened_at s' = ps_opened_at s \<and>
     ps_high s \<le> ps_high s' \<and> ps_low s' \<le> ps_low s \<and> (ps_trailing s \<longrightarrow> ps_trailing s')"

lemma extends_refl [simp]: "extends s s"
  by (simp add: extends_def)

lemma extends_trans: "extends s t \<Longrightarrow> extends t u \<Longrightarrow> extends s u"
  by (auto simp: extends_def)

lemma extends_trailing_trigger: "extends s (fst (trailing_trigger s))"
  by (auto simp: trailing_trigger_def extends_def Let_def)

lemma bar_candidates_state: "fst (bar_candidates s t op hi lo) = fst (trailing_trigger s)"
  by (auto simp: bar_candidates_def Let_def split: prod.splits)

lemma price_candidates_state: "fst (price_candidates s t p) = fst (trailing_trigger s)"
  by (auto simp: price_candidates_def Let_def split: prod.splits)

lemma extends_extremes:
  "extends s s' \<Longrightarrow> extends s (s'\<lparr>ps_high := max (ps_high s') h, ps_low := min (ps_low s') l\<rparr>)"
  by (auto simp: extends_def)

lemma extends_observe: "extends s (observe mode e s)"
proof (cases e)
  case (BarSeen t op hi lo)
  have "extends s (fst (bar_candidates s t o' h l))" for o' h l
    by (simp add: bar_candidates_state extends_trailing_trigger)
  then show ?thesis unfolding BarSeen observe.simps evaluate_bar_def Let_def
    by (auto split: prod.splits option.splits intro!: extends_extremes) (metis fst_conv)+
next
  case (PriceSeen t p)
  let ?s = "s\<lparr>ps_high := max (ps_high s) (number p 0), ps_low := min (ps_low s) (number p 0)\<rparr>"
  have "extends s ?s" by (rule extends_extremes) simp
  moreover have "extends ?s (fst (price_candidates ?s t (number p 0)))"
    by (simp only: price_candidates_state extends_trailing_trigger)
  ultimately have "extends s (fst (price_candidates ?s t (number p 0)))" by (rule extends_trans)
  then show ?thesis unfolding PriceSeen observe.simps evaluate_price_def Let_def
    by (auto split: prod.splits)
qed

text \<open>The level below which a long's trailing stop would sell (above which a short's buys back).\<close>

definition trail_level :: "protection_state \<Rightarrow> real" where
  "trail_level s = (if ps_side s = ''long'' then ps_high s * (1 - trailing_stop_pct (ps_spec s))
                    else - (ps_low s * (1 + trailing_stop_pct (ps_spec s))))"

lemma extends_level: "spec_ok (ps_spec s) \<Longrightarrow> extends s s' \<Longrightarrow> trail_level s \<le> trail_level s'"
  by (auto simp: trail_level_def extends_def spec_ok_def intro: mult_right_mono)

interpretation protection_run:
  monotone_machine "observe mode" "\<lambda>s. spec_ok (ps_spec s)" trail_level for mode
proof unfold_locales
  show "spec_ok (ps_spec (observe mode e s))" if "spec_ok (ps_spec s)" for e s
    using that extends_observe[of s mode e] by (simp add: extends_def)
  show "trail_level s \<le> trail_level (observe mode e s)" if "spec_ok (ps_spec s)" for e s
    using that extends_observe by (rule extends_level)
qed

lemma extends_run: "extends s (fold (observe mode) es s)"
  by (induction es arbitrary: s) (auto intro: extends_trans extends_observe)

lemma trailing_trigger_level:
  "snd (trailing_trigger s) = Some p \<longleftrightarrow>
     0 < trailing_stop_pct (ps_spec s) \<and> (ps_trailing s \<or> trailing_activates s) \<and>
     p = (if ps_side s = ''long'' then trail_level s else - trail_level s)"
  by (auto simp: trailing_trigger_def trail_level_def Let_def)

lemma extends_activates: "extends s s' \<Longrightarrow> trailing_activates s \<Longrightarrow> trailing_activates s'"
  by (auto simp: extends_def trailing_activates_def)

text \<open>
  C38: once a trailing stop has a trigger, no later bar or price makes it looser: after any
  run of observations the trigger still exists, and for a long it is at least (for a short at
  most) what it was. Only a scale-in can restart it.
\<close>

theorem trailing_stop_never_loosens:
  assumes ok: "spec_ok (ps_spec s)" and p: "snd (trailing_trigger s) = Some p"
  shows "\<exists>q. snd (trailing_trigger (fold (observe mode) es s)) = Some q \<and>
           (if ps_side s = ''long'' then p \<le> q else q \<le> p)"
proof -
  let ?s = "fold (observe mode) es s"
  have ext: "extends s ?s" by (rule extends_run)
  have lvl: "trail_level s \<le> trail_level ?s" by (rule protection_run.run_mono[OF ok])
  from p ext have "snd (trailing_trigger ?s) =
      Some (if ps_side s = ''long'' then trail_level ?s else - trail_level ?s)"
    by (auto simp: trailing_trigger_level extends_def dest: extends_activates[OF ext])
  with p lvl show ?thesis by (auto simp: trailing_trigger_level split: if_splits)
qed

theorem trailing_stop_never_loosens_witness:
  "spec_ok (ps_spec (demo_state\<lparr>ps_high := 110\<rparr>)) \<and>
   snd (trailing_trigger (demo_state\<lparr>ps_high := 110\<rparr>)) = Some (209 / 2) \<and>
   (\<exists>q. snd (trailing_trigger (fold (observe Conservative) [PriceSeen 5 (Some 120)]
            (demo_state\<lparr>ps_high := 110\<rparr>))) = Some q \<and> 209 / 2 \<le> q)"
proof -
  have f: "spec_ok (ps_spec (demo_state\<lparr>ps_high := 110\<rparr>))"
    "snd (trailing_trigger (demo_state\<lparr>ps_high := 110\<rparr>)) = Some (209 / 2)"
    "ps_side (demo_state\<lparr>ps_high := 110\<rparr>) = ''long''"
    by (simp_all add: demo_protection demo_side spec_ok_def trailing_trigger_def trailing_activates_def)
  from trailing_stop_never_loosens[OF f(1,2), of Conservative "[PriceSeen 5 (Some 120)]"] f
  show ?thesis by auto
qed

subsection \<open>Snapshots\<close>

definition state_wf :: "protection_state \<Rightarrow> bool" where
  "state_wf s \<longleftrightarrow> spec_ok (ps_spec s) \<and> spec_enabled (ps_spec s) \<and> 0 < ps_entry s \<and>
     ps_entry s \<le> ps_high s \<and> 0 < ps_low s \<and> ps_low s \<le> ps_entry s \<and>
     (ps_side s = ''long'' \<or> ps_side s = ''short'')"

lemma open_state_wf:
  "spec_ok sp \<Longrightarrow> spec_enabled sp \<Longrightarrow> 0 < e \<Longrightarrow> side \<in> {''long'', ''short''} \<Longrightarrow>
     state_wf (open_state nm side e sp t)"
  by (auto simp: state_wf_def open_state_def demo_side)

lemma state_wf_scale_in:
  assumes "state_wf s" "0 < entry" "0 < fill" "case sp of None \<Rightarrow> True | Some x \<Rightarrow> spec_ok x \<and> spec_enabled x"
    and "trailing_rebase_on_scale_in (case sp of None \<Rightarrow> ps_spec s | Some x \<Rightarrow> x) \<or> \<not> ps_trailing s"
  shows "state_wf (apply_scale_in entry fill sp tm s)"
  using assms by (auto simp: state_wf_def apply_scale_in_def py_or_def Let_def split: option.splits)

lemma metadata_inverse:
  assumes "state_wf s"
  shows "state_from_metadata now (state_metadata_of s) = Some s"
proof -
  have "spec_from_value (spec_metadata (ps_spec s)) [] None
      (PBool (trailing_rebase_on_scale_in (ps_spec s))) = Some (ps_spec s)"
    using assms by (intro spec_from_metadata) (auto simp: state_wf_def)
  then show ?thesis using assms
    by (cases s) (auto simp: state_from_metadata_def state_metadata_of_def state_wf_def
        open_state_def number_def demo_side max_def min_def Let_def)
qed

text \<open>
  C39: a protection snapshot survives a restart: reading back the metadata of a well-formed
  state gives exactly that state, high-water marks, activation flag and opening instant
  included.
\<close>

theorem protection_snapshot_roundtrip:
  assumes "state_wf s"
  shows "state_from_metadata now (state_metadata_of s) = Some s"
  using assms by (rule metadata_inverse)

theorem protection_snapshot_roundtrip_witness:
  "state_wf demo_state \<and> state_from_metadata 7 (state_metadata_of demo_state) = Some demo_state"
proof -
  have "state_wf demo_state"
    by (simp add: state_wf_def demo_protection demo_side spec_ok_def spec_enabled_def)
  then show ?thesis using protection_snapshot_roundtrip[of demo_state 7] by blast
qed

end
