(* ===== verification/Orders.thy ===== *)
theory Orders
  imports Protection
begin

text \<open>
  The data the simulation and the live session exchange (\<open>strategy_v2/runtime.py\<close>): positions and
  their keys, the portfolio, order intents, the pending-order merge, the average-cost rule and
  the name of an execution. An order's kind is one of the five strings the order helpers pass;
  the order type and execution algorithm are those the queue accepts.
\<close>

subsection \<open>Positions\<close>

definition normalize_position_side :: "string \<Rightarrow> string" where
  "normalize_position_side v =
     (let s = py_lower (py_strip v) in if s \<in> {''long'', ''short''} then s else '''')"

definition position_key :: "string \<Rightarrow> string \<Rightarrow> string" where
  "position_key symbol side =
     (let s = normalize_position_side side in if s \<noteq> [] then symbol @ ''::'' @ s else symbol)"

lemma side_literals [simp, side_simps]:
  "normalize_position_side ''long'' = ''long''"
  "normalize_position_side ''short'' = ''short''"
  "normalize_position_side '''' = ''''"
  by code_simp+

lemma normalize_side_cases:
  "normalize_position_side v \<in> {''long'', ''short'', ''''}"
  by (auto simp: normalize_position_side_def Let_def)

lemma normalize_side_idem [simp, side_simps]:
  "normalize_position_side (normalize_position_side v) = normalize_position_side v"
  using normalize_side_cases[of v] by auto

lemma position_key_normal [simp, side_simps]:
  "position_key k (normalize_position_side v) = position_key k v"
  by (simp add: position_key_def)

record position =
  pos_symbol :: string
  amount :: real
  avg_cost :: real
  last_price :: real
  pos_side :: string

definition market_value :: "position \<Rightarrow> real" where
  "market_value p = amount p * last_price p"

definition fresh_position :: "string \<Rightarrow> string \<Rightarrow> position" where
  "fresh_position symbol side =
     \<lparr>pos_symbol = symbol, amount = 0, avg_cost = 0, last_price = 0,
      pos_side = normalize_position_side side\<rparr>"

record portfolio_state =
  starting_cash :: real
  available_cash :: real
  positions :: "position dict"
  total_value :: real

subsection \<open>Order intents\<close>

datatype order_kind = Quantity | QuoteValue | TargetQuantity | TargetValue | TargetPercent

definition is_target :: "order_kind \<Rightarrow> bool" where
  "is_target k \<longleftrightarrow> k \<in> {TargetQuantity, TargetValue, TargetPercent}"

datatype order_type = MarketOrder | LimitOrder
datatype execution_algo = MarketAlgo | LimitAlgo | MakerThenMarket

record order_intent =
  o_symbol :: string
  o_kind :: order_kind
  o_value :: real
  o_reason :: string
  o_protection :: "protection_spec option"
  o_signal_time :: "instant option"
  o_attempts :: int
  o_direction :: int
  o_type :: order_type
  o_limit_price :: real
  o_algo :: execution_algo
  o_maker_wait :: real
  o_maker_offset :: real
  o_side :: string
  o_client_id :: string

text \<open>The intent the code builds with the dataclass defaults for everything else.\<close>

definition plain_intent :: "string \<Rightarrow> order_kind \<Rightarrow> real \<Rightarrow> string \<Rightarrow> instant option \<Rightarrow> string \<Rightarrow> order_intent"
where
  "plain_intent symbol kind v reason t side =
     \<lparr>o_symbol = symbol, o_kind = kind, o_value = v, o_reason = reason, o_protection = None,
      o_signal_time = t, o_attempts = 0, o_direction = 0, o_type = MarketOrder, o_limit_price = 0,
      o_algo = MarketAlgo, o_maker_wait = 0, o_maker_offset = 0, o_side = side, o_client_id = ''''\<rparr>"

definition order_leg :: "order_intent \<Rightarrow> string \<times> string" where
  "order_leg o' = (o_symbol o', normalize_position_side (o_side o'))"

definition order_key :: "order_intent \<Rightarrow> string" where
  "order_key o' = position_key (o_symbol o') (o_side o')"

lemma order_key_leg: "order_key o' = position_key (fst (order_leg o')) (snd (order_leg o'))"
  by (simp add: order_key_def order_leg_def)

subsection \<open>Merging pending orders\<close>

definition merge_one :: "order_intent list \<Rightarrow> order_intent \<Rightarrow> order_intent list" where
  "merge_one out o' =
     (if is_target (o_kind o')
      then filter (\<lambda>i. \<not> (order_leg i = order_leg o' \<and> is_target (o_kind i))) out
      else out) @ [o']"

definition merge_pending :: "order_intent list \<Rightarrow> order_intent list \<Rightarrow> order_intent list" where
  "merge_pending current incoming = foldl merge_one current incoming"

text \<open>At most one pending target order per instrument leg.\<close>

definition targets_of :: "order_intent list \<Rightarrow> order_intent list" where
  "targets_of os = filter (\<lambda>i. is_target (o_kind i)) os"

definition one_target_per_leg :: "order_intent list \<Rightarrow> bool" where
  "one_target_per_leg os \<longleftrightarrow> distinct (map order_leg (targets_of os))"

lemma merge_one_targets:
  "targets_of (merge_one out o') =
     (if is_target (o_kind o') then filter (\<lambda>i. order_leg i \<noteq> order_leg o') (targets_of out) @ [o']
      else targets_of out)"
  by (induction out) (auto simp: merge_one_def targets_of_def)

lemma merge_one_keeps: "one_target_per_leg out \<Longrightarrow> one_target_per_leg (merge_one out o')"
  by (auto simp: one_target_per_leg_def merge_one_targets distinct_map_filter)

lemma merge_one_last: "last (merge_one out o') = o'" "merge_one out o' \<noteq> []"
  by (simp_all add: merge_one_def)

interpretation pending: invariant_machine "\<lambda>o' out. merge_one out o'" one_target_per_leg
  by unfold_locales (rule merge_one_keeps)

lemma merge_pending_fold: "merge_pending current incoming = fold (\<lambda>o' out. merge_one out o') incoming current"
  by (simp add: merge_pending_def foldl_conv_fold)

text \<open>The order that survives for a leg is the last one submitted for it.\<close>

lemma merge_pending_survivor:
  assumes "is_target (o_kind o')" "\<And>i. i \<in> set later \<Longrightarrow> \<not> (is_target (o_kind i) \<and> order_leg i = order_leg o')"
  shows "o' \<in> set (merge_pending current (earlier @ o' # later))"
proof -
  have "o' \<in> set out \<Longrightarrow> o' \<in> set (foldl merge_one out later)" for out
    using assms(2)
  proof (induction later arbitrary: out)
    case (Cons i rest)
    have "o' \<in> set (merge_one out i)"
      using Cons.prems(1) Cons.prems(2)[of i] by (auto simp: merge_one_def)
    then show ?case using Cons.IH Cons.prems(2) by auto
  qed simp
  then show ?thesis by (simp add: merge_pending_def merge_one_def)
qed

text \<open>
  merging never leaves two target orders for the same instrument leg: a later target
  replaces the earlier one, so a leg is never driven towards two targets at once, and every
  last-submitted target survives.
\<close>

theorem merge_pending_one_target:
  assumes "one_target_per_leg current"
  shows "one_target_per_leg (merge_pending current incoming) \<and>
    (\<forall>earlier o' later. incoming = earlier @ o' # later \<and> is_target (o_kind o') \<and>
       (\<forall>i. i \<in> set later \<longrightarrow> \<not> (is_target (o_kind i) \<and> order_leg i = order_leg o')) \<longrightarrow>
       o' \<in> set (merge_pending current incoming))"
proof
  show "one_target_per_leg (merge_pending current incoming)"
    unfolding merge_pending_fold using assms by (rule pending.run_inv)
qed (blast intro: merge_pending_survivor)

theorem merge_pending_one_target_witness:
  "one_target_per_leg [plain_intent ''A'' TargetQuantity 1 ''s'' None ''''] \<and>
   one_target_per_leg (merge_pending [plain_intent ''A'' TargetQuantity 1 ''s'' None '''']
     [plain_intent ''A'' TargetValue 5 ''s'' None '''', plain_intent ''A'' Quantity 5 ''s'' None ''''])"
proof -
  have "one_target_per_leg [plain_intent ''A'' TargetQuantity 1 ''s'' None '''']"
    by (simp add: one_target_per_leg_def targets_of_def)
  then show ?thesis using merge_pending_one_target by blast
qed

subsection \<open>Average cost and the name of an execution\<close>

definition next_average_cost :: "real \<Rightarrow> real \<Rightarrow> real \<Rightarrow> real \<Rightarrow> real" where
  "next_average_cost old_amount old_cost delta fill_price =
     (let new_amount = old_amount + delta in
      if \<bar>new_amount\<bar> \<le> eps12 then 0
      else if old_amount = 0 \<or> old_amount * delta > 0
           then (old_amount * old_cost + delta * fill_price) / new_amount
      else if old_amount * new_amount < 0 then fill_price
      else old_cost)"

datatype execution_type =
    OpenLong | AddLong | ReduceLong | CloseLong
  | OpenShort | AddShort | ReduceShort | CloseShort
  | ReverseToLong | ReverseToShort

definition execution_identity :: "real \<Rightarrow> real \<Rightarrow> real \<Rightarrow> execution_type \<times> string" where
  "execution_identity old_amount target delta =
     (if old_amount \<ge> 0 \<and> target \<ge> 0 then
        (if delta > 0 then (if \<bar>old_amount\<bar> \<le> eps12 then OpenLong else AddLong, ''long'')
         else (if \<bar>target\<bar> \<le> eps12 then CloseLong else ReduceLong, ''long''))
      else if old_amount \<le> 0 \<and> target \<le> 0 then
        (if delta < 0 then (if \<bar>old_amount\<bar> \<le> eps12 then OpenShort else AddShort, ''short'')
         else (if \<bar>target\<bar> \<le> eps12 then CloseShort else ReduceShort, ''short''))
      else (if target > 0 then ReverseToLong else ReverseToShort,
            if target > 0 then ''long'' else ''short''))"

lemma next_average_cost_between:
  assumes "0 < old * d" "eps12 < \<bar>old + d\<bar>" "0 < c" "0 < p"
  shows "min c p \<le> next_average_cost old c d p \<and> next_average_cost old c d p \<le> max c p"
proof -
  have nz: "old \<noteq> 0" "d \<noteq> 0" using assms(1) by auto
  have same: "0 < old \<and> 0 < d \<or> old < 0 \<and> d < 0"
    using assms(1) by (auto simp: zero_less_mult_iff)
  let ?w = "old / (old + d)"
  have w: "0 \<le> ?w" "?w \<le> 1"
    using same by (auto simp: divide_simps)
  have "1 - ?w = d / (old + d)"
    using same by (auto simp: divide_simps)
  then have v: "(old * c + d * p) / (old + d) = ?w * c + (1 - ?w) * p"
    by (simp add: add_divide_distrib)
  have "next_average_cost old c d p = ?w * c + (1 - ?w) * p"
    using assms(1,2) nz v by (simp add: next_average_cost_def Let_def)
  moreover have "min c p \<le> ?w * c + (1 - ?w) * p"
  proof -
    have "?w * min c p + (1 - ?w) * min c p \<le> ?w * c + (1 - ?w) * p"
      using w by (intro add_mono mult_left_mono) auto
    then show ?thesis by (simp add: algebra_simps)
  qed
  moreover have "?w * c + (1 - ?w) * p \<le> max c p"
  proof -
    have "?w * c + (1 - ?w) * p \<le> ?w * max c p + (1 - ?w) * max c p"
      using w by (intro add_mono mult_left_mono) auto
    then show ?thesis by (simp add: algebra_simps)
  qed
  ultimately show ?thesis by simp
qed

subsection \<open>Truthiness of a raw cell\<close>

definition truthy :: "pyval \<Rightarrow> bool" where
  "truthy v =
     (case v of
        PNone \<Rightarrow> False
      | PBool b \<Rightarrow> b
      | PNum x \<Rightarrow> x \<noteq> 0
      | PNaN \<Rightarrow> False
      | PStr s \<Rightarrow> py_lower (py_strip s) \<in> {''1'', ''true'', ''yes'', ''y''})"

end
