(* ===== verification/DataPortal.thy ===== *)
theory DataPortal
  imports Orders
begin

text \<open>
  The point-in-time data portal (\<open>strategy_v2/data.py\<close>) and the interface through which the broker
  sees it. A frame is the normalised list of (instant, bar) rows, strictly ascending in time;
  loading and normalising the pandas frame is outside the model. A key is one
  \<open>resolve_key\<close> has already resolved.
\<close>

subsection \<open>Bars, frames and the clock\<close>

record bar =
  b_open :: real
  b_high :: real
  b_low :: real
  b_close :: real
  b_volume :: real
  b_suspended :: pyval
  b_is_suspended :: pyval
  b_limit_up :: pyval
  b_is_limit_up :: pyval
  b_limit_down :: pyval
  b_is_limit_down :: pyval
  b_lot_size :: real

type_synonym frame = "(instant \<times> bar) list"

record portal =
  frames :: "frame dict"
  current_dt :: "instant option"
  visible_dt :: "instant option"

definition frame_wf :: "frame \<Rightarrow> bool" where
  "frame_wf rows \<longleftrightarrow> sorted_wrt (<) (map fst rows)"

definition portal_wf :: "portal \<Rightarrow> bool" where
  "portal_wf p \<longleftrightarrow> (\<forall>(k, rows) \<in> set (frames p). frame_wf rows)"

definition timestamps :: "portal \<Rightarrow> instant list" where
  "timestamps p = sort (remdups (concat (map (map fst \<circ> snd) (frames p))))"

definition set_clock :: "instant \<Rightarrow> bool \<Rightarrow> portal \<Rightarrow> portal" where
  "set_clock t include_current p =
     p\<lparr>current_dt := Some t,
       visible_dt := (if include_current then Some t
                      else let before = takeWhile (\<lambda>u. u < t) (timestamps p)
                           in if before = [] then None else Some (last before))\<rparr>"

subsection \<open>Reading\<close>

definition visible_frame :: "portal \<Rightarrow> string \<Rightarrow> int option \<Rightarrow> frame option" where
  "visible_frame p k count =
     map_option (\<lambda>rows.
       case visible_dt p of
         None \<Rightarrow> []
       | Some v \<Rightarrow>
           (let visible = takeWhile (\<lambda>(t, _). t \<le> v) rows in
            case count of
              None \<Rightarrow> visible
            | Some n \<Rightarrow> if n > 0 then drop (length visible - nat n) visible else visible))
     (map_of (frames p) k)"

definition portal_current :: "portal \<Rightarrow> string \<Rightarrow> real \<Rightarrow> real" where
  "portal_current p k d =
     (case visible_frame p k (Some 1) of
        None \<Rightarrow> d
      | Some rows \<Rightarrow> if rows = [] then d else b_close (snd (last rows)))"

definition portal_bar_at :: "portal \<Rightarrow> string \<Rightarrow> instant \<Rightarrow> bar option" where
  "portal_bar_at p k t = (case map_of (frames p) k of None \<Rightarrow> None | Some rows \<Rightarrow> map_of rows t)"

definition positive_field :: "(bar \<Rightarrow> real) \<Rightarrow> bar option \<Rightarrow> real option" where
  "positive_field f b =
     (let v = (case b of None \<Rightarrow> 0 | Some x \<Rightarrow> f x) in if v > 0 then Some v else None)"

definition portal_open_at :: "portal \<Rightarrow> string \<Rightarrow> instant \<Rightarrow> real option" where
  "portal_open_at p k t = positive_field b_open (portal_bar_at p k t)"

definition portal_close_at :: "portal \<Rightarrow> string \<Rightarrow> instant \<Rightarrow> real option" where
  "portal_close_at p k t = positive_field b_close (portal_bar_at p k t)"

subsection \<open>The feed the broker uses\<close>

record feed =
  bar_at :: "string \<Rightarrow> instant \<Rightarrow> bar option"
  close_at :: "string \<Rightarrow> instant \<Rightarrow> real option"
  current_close :: "string \<Rightarrow> real \<Rightarrow> real"

definition portal_feed :: "portal \<Rightarrow> feed" where
  "portal_feed p =
     \<lparr>bar_at = portal_bar_at p, close_at = portal_close_at p, current_close = portal_current p\<rparr>"

text \<open>
  What the broker may assume of its feed: a close it is given for an instant is the positive
  close of the bar at that instant.
\<close>

locale market_feed =
  fixes fd :: feed
  assumes close_positive: "close_at fd k t = Some c \<Longrightarrow> 0 < c"
    and close_of_bar: "close_at fd k t = Some c \<Longrightarrow> \<exists>b. bar_at fd k t = Some b \<and> b_close b = c"
begin

lemma no_bar_no_close: "bar_at fd k t = None \<Longrightarrow> close_at fd k t = None"
  using close_of_bar[of k t] by (cases "close_at fd k t") fastforce+

end

interpretation portal_market: market_feed "portal_feed p" for p
  by unfold_locales
    (auto simp: portal_feed_def portal_close_at_def positive_field_def Let_def split: if_splits option.splits)

subsection \<open>No look-ahead\<close>

text \<open>The rows of a frame strictly before an instant; two portals that agree on the past.\<close>

definition past :: "instant \<Rightarrow> frame \<Rightarrow> frame" where
  "past t rows = filter (\<lambda>(u, _). u < t) rows"

definition same_past :: "instant \<Rightarrow> portal \<Rightarrow> portal \<Rightarrow> bool" where
  "same_past t p q \<longleftrightarrow> map (\<lambda>(k, rows). (k, past t rows)) (frames p) =
     map (\<lambda>(k, rows). (k, past t rows)) (frames q)"

lemma takeWhile_sorted_filter:
  "sorted_wrt (<) (map f xs) \<Longrightarrow> takeWhile (\<lambda>x. f x \<le> (v :: int)) xs = filter (\<lambda>x. f x \<le> v) xs"
  by (induction xs) (auto simp: filter_empty_conv eq_commute[of "[]"])

lemma takeWhile_less_sorted: "sorted xs \<Longrightarrow> takeWhile (\<lambda>u. u < (t :: int)) xs = filter (\<lambda>u. u < t) xs"
  by (induction xs) (auto simp: filter_empty_conv eq_commute[of "[]"])

lemma filter_sort_remdups:
  "filter P (sort (remdups xs)) = sort (remdups (filter P xs))" for xs :: "int list"
  by (simp add: filter_sort remdups_filter)

lemma filter_concat_map: "filter P (concat (map f xs)) = concat (map (\<lambda>x. filter P (f x)) xs)"
  by (induction xs) auto

lemma timestamps_before:
  "filter (\<lambda>u. u < t) (timestamps p) =
     sort (remdups (concat (map (map fst \<circ> snd) (map (\<lambda>(k, rows). (k, past t rows)) (frames p)))))"
proof -
  have "filter (\<lambda>u. u < t) (map fst rows) = map fst (past t rows)" for rows :: frame
    by (induction rows) (auto simp: past_def)
  then show ?thesis
    by (simp add: timestamps_def filter_sort_remdups filter_concat_map comp_def split_def)
qed

lemma visible_before:
  "visible_dt (set_clock t False p) =
     (let b = filter (\<lambda>u. u < t) (timestamps p) in if b = [] then None else Some (last b))"
  by (simp add: set_clock_def takeWhile_less_sorted timestamps_def Let_def)

lemma visible_dt_less: "visible_dt (set_clock t False p) = Some v \<Longrightarrow> v < t"
proof -
  assume a: "visible_dt (set_clock t False p) = Some v"
  let ?b = "filter (\<lambda>u. u < t) (timestamps p)"
  from a have "?b \<noteq> []" "v = last ?b"
    by (auto simp: visible_before Let_def split: if_splits)
  then have "v \<in> set ?b" by (metis last_in_set)
  then show "v < t" by simp
qed

lemma visible_rows_past:
  "frame_wf rows \<Longrightarrow> v < t \<Longrightarrow> takeWhile (\<lambda>(u, _). u \<le> v) rows = filter (\<lambda>(u, _). u \<le> v) (past t rows)"
proof -
  assume a: "frame_wf rows" "v < t"
  have "takeWhile (\<lambda>x. fst x \<le> v) rows = filter (\<lambda>x. fst x \<le> v) rows"
    using a(1) by (intro takeWhile_sorted_filter) (simp add: frame_wf_def)
  also have "\<dots> = filter (\<lambda>x. fst x \<le> v) (past t rows)"
    using a(2) by (auto simp: past_def split_def intro!: filter_cong)
  finally show ?thesis by (simp add: split_def)
qed

lemma map_of_map_snd: "map_of (map (\<lambda>(k, v). (k, f v)) d) k = map_option f (map_of d k)"
  by (induction d) auto

lemma portal_wf_frame: "portal_wf p \<Longrightarrow> map_of (frames p) k = Some rows \<Longrightarrow> frame_wf rows"
  by (auto simp: portal_wf_def dest: map_of_SomeD)

definition past_frame :: "instant option \<Rightarrow> int option \<Rightarrow> frame \<Rightarrow> frame" where
  "past_frame vis count rows =
     (case vis of
        None \<Rightarrow> []
      | Some v \<Rightarrow>
          (let visible = filter (\<lambda>(u, _). u \<le> v) rows in
           case count of
             None \<Rightarrow> visible
           | Some n \<Rightarrow> if n > 0 then drop (length visible - nat n) visible else visible))"

lemma visible_frame_past:
  assumes "portal_wf p"
  shows "visible_frame (set_clock t False p) k count =
    map_option (past_frame (visible_dt (set_clock t False p)) count)
      (map_of (map (\<lambda>(k, rows). (k, past t rows)) (frames p)) k)"
proof (cases "map_of (frames p) k")
  case (Some rows)
  have fr: "frames (set_clock t False p) = frames p" by (simp add: set_clock_def)
  have wf: "frame_wf rows" using portal_wf_frame[OF assms Some] .
  show ?thesis
  proof (cases "visible_dt (set_clock t False p)")
    case (Some v)
    have "takeWhile (\<lambda>(u, _). u \<le> v) rows = filter (\<lambda>(u, _). u \<le> v) (past t rows)"
      by (rule visible_rows_past[OF wf visible_dt_less[OF Some]])
    with Some \<open>map_of (frames p) k = Some rows\<close> fr show ?thesis
      by (simp add: visible_frame_def past_frame_def map_of_map_snd)
  qed (use Some fr in \<open>simp add: visible_frame_def past_frame_def map_of_map_snd\<close>)
qed (simp add: visible_frame_def set_clock_def map_of_map_snd)

text \<open>
  no look-ahead. With the clock set to a bar that is not yet visible, everything a strategy
  can read (the visible frame of any length, the current close) depends only on the rows
  strictly before that bar: two markets with the same past are indistinguishable, whatever
  they do from that bar on, even when a row appears in another instrument only.
\<close>

theorem no_lookahead:
  assumes "portal_wf p" "portal_wf q" "same_past t p q"
  shows "visible_frame (set_clock t False p) k count = visible_frame (set_clock t False q) k count \<and>
    portal_current (set_clock t False p) k d = portal_current (set_clock t False q) k d"
proof -
  have v: "visible_dt (set_clock t False p) = visible_dt (set_clock t False q)"
    using assms(3) by (simp add: visible_before timestamps_before same_past_def)
  have "visible_frame (set_clock t False p) k c = visible_frame (set_clock t False q) k c" for c
    using assms v by (simp add: visible_frame_past same_past_def)
  then show ?thesis by (simp add: portal_current_def)
qed

definition demo_bar :: "real \<Rightarrow> bar" where
  "demo_bar c = \<lparr>b_open = c, b_high = c + 1, b_low = c - 1, b_close = c, b_volume = 1000,
     b_suspended = PNone, b_is_suspended = PNone, b_limit_up = PNone, b_is_limit_up = PNone,
     b_limit_down = PNone, b_is_limit_down = PNone, b_lot_size = 1\<rparr>"

definition demo_portal :: "real \<Rightarrow> portal" where
  "demo_portal c = \<lparr>frames = [(''A'', [(1, demo_bar 10), (2, demo_bar c)])],
     current_dt = None, visible_dt = None\<rparr>"

theorem no_lookahead_witness:
  "same_past 2 (demo_portal 11) (demo_portal 99) \<and>
   portal_current (set_clock 2 False (demo_portal 11)) ''A'' 0 =
     portal_current (set_clock 2 False (demo_portal 99)) ''A'' 0 \<and>
   portal_current (set_clock 2 False (demo_portal 99)) ''A'' 0 = 10"
proof -
  have w: "portal_wf (demo_portal c)" for c
    by (simp add: portal_wf_def demo_portal_def frame_wf_def)
  have s: "same_past 2 (demo_portal 11) (demo_portal 99)"
    by (simp add: same_past_def demo_portal_def past_def)
  have "portal_current (set_clock 2 False (demo_portal 99)) ''A'' 0 = 10"
    by (simp add: portal_current_def visible_frame_def set_clock_def demo_portal_def timestamps_def
        demo_bar_def)
  with s no_lookahead[OF w w s, of "''A''" None 0] show ?thesis by blast
qed

end
