(* ===== verification/Ledger.thy ===== *)
theory Ledger
  imports DataPortal
begin

text \<open>
  The simulation broker's books (\<open>MultiAssetSimulationBroker\<close> in \<open>strategy_v2/runtime.py\<close>): the order
  ledger with its compaction of resting limit orders, the executions, the open entries and the
  closed trades they become. Event times are whole seconds, as \<open>_backtest_time_iso\<close> writes them.
\<close>

subsection \<open>Times and identifiers\<close>

text \<open>\<open>_backtest_time_iso\<close>: the instant floored to the second (its ISO rendering is injective).\<close>

definition time_iso :: "instant \<Rightarrow> int" where
  "time_iso t = t div ns_per_s"

lemma time_iso_mono: "s \<le> t \<Longrightarrow> time_iso s \<le> time_iso t"
  by (simp add: time_iso_def ns_per_s_def zdiv_mono1)

type_synonym order_id = "instant \<times> nat"

subsection \<open>Order events\<close>

datatype order_status = Filled | Partial | Deferred | Rejected

record resting_window =
  w_first :: int
  w_last :: int
  w_last_id :: "order_id option"
  w_count :: nat
  w_min :: real
  w_max :: real

record order_event =
  ev_id :: order_id
  ev_client :: string
  ev_symbol :: string
  ev_side :: string
  ev_kind :: order_kind
  ev_value :: real
  ev_reason :: string
  ev_status :: order_status
  ev_status_reason :: string
  ev_signal_time :: int
  ev_time :: int
  ev_attempt :: int
  ev_requested :: real
  ev_filled :: real
  ev_price :: real
  ev_commission :: real
  ev_window :: "resting_window option"

definition order_event_of ::
  "order_id \<Rightarrow> order_intent \<Rightarrow> instant \<Rightarrow> order_status \<Rightarrow> string \<Rightarrow> real \<Rightarrow> real \<Rightarrow> real \<Rightarrow> real \<Rightarrow>
     order_event"
where
  "order_event_of oid o' t status reason requested filled price fee =
     \<lparr>ev_id = oid, ev_client = o_client_id o', ev_symbol = o_symbol o',
      ev_side = normalize_position_side (o_side o'), ev_kind = o_kind o', ev_value = o_value o',
      ev_reason = o_reason o', ev_status = status, ev_status_reason = reason,
      ev_signal_time = time_iso (case o_signal_time o' of None \<Rightarrow> t | Some s \<Rightarrow> s),
      ev_time = time_iso t, ev_attempt = o_attempts o' + 1, ev_requested = requested,
      ev_filled = filled, ev_price = price, ev_commission = fee, ev_window = None\<rparr>"

subsection \<open>Appending with compaction\<close>

text \<open>
  The ledger and the index of the row each client order currently rests in. A repeated
  "limit not reached" of the same client order updates that row; every other event of the
  client order closes the window.
\<close>

record event_book =
  eb_ledger :: "order_event list"
  eb_resting :: "(string \<times> nat) list"

definition is_resting_row :: "order_event \<Rightarrow> bool" where
  "is_resting_row e \<longleftrightarrow> ev_status e = Deferred \<and> ev_status_reason e = ''limit_not_reached''"

definition coalesce_row :: "order_event \<Rightarrow> order_event \<Rightarrow> order_event" where
  "coalesce_row old e =
     (let req = ev_requested e;
          w = (case ev_window old of
                 None \<Rightarrow> \<lparr>w_first = ev_time e, w_last = ev_time e, w_last_id = None, w_count = 1,
                          w_min = req, w_max = req\<rparr>
               | Some w \<Rightarrow> w)
      in old\<lparr>ev_requested := req,
             ev_window := Some (w\<lparr>w_last := ev_time e, w_last_id := Some (ev_id e),
               w_count := (if w_count w = 0 then 1 else w_count w) + 1,
               w_min := min (py_or (w_min w) req) req,
               w_max := max (py_or (w_max w) req) req\<rparr>)\<rparr>)"

definition open_window :: "order_event \<Rightarrow> order_event" where
  "open_window e = e\<lparr>ev_window := Some \<lparr>w_first = ev_time e, w_last = ev_time e, w_last_id = None,
     w_count = 1, w_min = ev_requested e, w_max = ev_requested e\<rparr>\<rparr>"

definition append_order_event :: "order_event \<Rightarrow> bool \<Rightarrow> event_book \<Rightarrow> event_book \<times> nat" where
  "append_order_event e coalesce bk =
     (let ref = py_strip (ev_client e);
          fresh = (\<lambda>e' resting. let i = length (eb_ledger bk) in
            (\<lparr>eb_ledger = eb_ledger bk @ [e'],
              eb_resting = (if coalesce \<and> ref \<noteq> [] then dict_set ref i resting else resting)\<rparr>, i))
      in if coalesce \<and> ref \<noteq> [] then
           (case map_of (eb_resting bk) ref of
              Some i \<Rightarrow>
                if i < length (eb_ledger bk) \<and> is_resting_row (eb_ledger bk ! i)
                then (bk\<lparr>eb_ledger := (eb_ledger bk)[i := coalesce_row (eb_ledger bk ! i) e]\<rparr>, i)
                else fresh (open_window e) (eb_resting bk)
            | None \<Rightarrow> fresh (open_window e) (eb_resting bk))
         else fresh e (if ref \<noteq> [] then dict_pop ref (eb_resting bk) else eb_resting bk))"

definition release_resting :: "string list \<Rightarrow> event_book \<Rightarrow> event_book" where
  "release_resting refs bk =
     bk\<lparr>eb_resting := foldl (\<lambda>r s. dict_pop (py_strip s) r) (eb_resting bk) refs\<rparr>"

subsection \<open>Occurrences are preserved by the compaction\<close>

definition occurrences :: "order_event \<Rightarrow> nat" where
  "occurrences e = (case ev_window e of None \<Rightarrow> 1 | Some w \<Rightarrow> max 1 (w_count w))"

definition ledger_occurrences :: "order_event list \<Rightarrow> nat" where
  "ledger_occurrences es = sum_list (map occurrences es)"

definition book_ok :: "event_book \<Rightarrow> bool" where
  "book_ok bk \<longleftrightarrow> (\<forall>k i. map_of (eb_resting bk) k = Some i \<longrightarrow>
     i < length (eb_ledger bk) \<and> ev_window (eb_ledger bk ! i) \<noteq> None)"

lemma occurrences_coalesce:
  "ev_window old \<noteq> None \<Longrightarrow> occurrences (coalesce_row old e) = Suc (occurrences old)"
  by (auto simp: occurrences_def coalesce_row_def Let_def)

lemma occurrences_open [simp]: "occurrences (open_window e) = 1"
  by (simp add: occurrences_def open_window_def)

lemma occurrences_new [simp]: "occurrences (order_event_of oid o' t st r a b c d) = 1"
  by (simp add: occurrences_def order_event_of_def)

lemma ledger_occurrences_append [simp]:
  "ledger_occurrences (es @ [e]) = ledger_occurrences es + occurrences e"
  by (simp add: ledger_occurrences_def)

lemma ledger_occurrences_update:
  "i < length es \<Longrightarrow> ledger_occurrences (es[i := e]) + occurrences (es ! i) =
     ledger_occurrences es + occurrences e"
proof (induction es arbitrary: i)
  case (Cons x xs)
  then show ?case by (cases i) (auto simp: ledger_occurrences_def)
qed simp

text \<open>Appending either appends the event (its window opened when it starts to rest) or folds it.\<close>

lemma append_cases:
  assumes "append_order_event e coalesce bk = (bk', i)"
  obtains (folded) j where "coalesce" "py_strip (ev_client e) \<noteq> []"
      "map_of (eb_resting bk) (py_strip (ev_client e)) = Some j" "j < length (eb_ledger bk)"
      "is_resting_row (eb_ledger bk ! j)" "i = j" "eb_resting bk' = eb_resting bk"
      "eb_ledger bk' = (eb_ledger bk)[j := coalesce_row (eb_ledger bk ! j) e]"
    | (rested) "coalesce" "py_strip (ev_client e) \<noteq> []" "i = length (eb_ledger bk)"
      "eb_ledger bk' = eb_ledger bk @ [open_window e]"
      "eb_resting bk' = dict_set (py_strip (ev_client e)) i (eb_resting bk)"
    | (plain) "\<not> (coalesce \<and> py_strip (ev_client e) \<noteq> [])" "i = length (eb_ledger bk)"
      "eb_ledger bk' = eb_ledger bk @ [e]"
      "eb_resting bk' = (if py_strip (ev_client e) \<noteq> []
         then dict_pop (py_strip (ev_client e)) (eb_resting bk) else eb_resting bk)"
  using assms by (auto simp: append_order_event_def Let_def split: option.splits if_splits)

lemma append_index_valid:
  assumes "append_order_event e c bk = (bk', i)"
  shows "i < length (eb_ledger bk')"
  using assms by (cases rule: append_cases) auto

lemma append_ledger_grows:
  assumes "append_order_event e c bk = (bk', i)"
  shows "length (eb_ledger bk) \<le> length (eb_ledger bk')"
  using assms by (cases rule: append_cases) auto

lemma window_coalesce [simp]: "\<exists>w. ev_window (coalesce_row a b) = Some w"
  by (simp add: coalesce_row_def Let_def)

lemma append_book_ok:
  assumes "append_order_event e c bk = (bk', i)" "book_ok bk"
  shows "book_ok bk'"
  using assms(1)
proof (cases rule: append_cases)
  case (folded j)
  then show ?thesis using assms(2) by (auto simp: book_ok_def nth_list_update)
next
  case rested
  then show ?thesis using assms(2)
    by (auto simp: book_ok_def nth_append dict_simps open_window_def less_Suc_eq split: if_splits)
next
  case plain
  then show ?thesis using assms(2)
    by (auto simp: book_ok_def nth_append dict_simps less_Suc_eq split: if_splits)
qed

lemma append_occurrences:
  assumes "book_ok bk" "occurrences e = 1"
  shows "ledger_occurrences (eb_ledger (fst (append_order_event e coalesce bk))) =
           Suc (ledger_occurrences (eb_ledger bk)) \<and> book_ok (fst (append_order_event e coalesce bk))"
proof -
  obtain bk' i where a: "append_order_event e coalesce bk = (bk', i)" by fastforce
  from a have "ledger_occurrences (eb_ledger bk') = Suc (ledger_occurrences (eb_ledger bk))"
  proof (cases rule: append_cases)
    case (folded j)
    then have "ev_window (eb_ledger bk ! j) \<noteq> None"
      using assms(1) by (auto simp: book_ok_def)
    with folded ledger_occurrences_update[of j "eb_ledger bk" "coalesce_row (eb_ledger bk ! j) e"]
    show ?thesis by (simp add: occurrences_coalesce)
  qed (use assms(2) in simp_all)
  with a append_book_ok[OF a assms(1)] show ?thesis by simp
qed

text \<open>
  the compaction loses nothing: every event logged adds exactly one occurrence, so the
  number of occurrences of the ledger is the number of events the broker emitted, however many
  polls of a resting limit order were folded into one row.
\<close>

theorem append_counts_every_event:
  assumes "book_ok bk" "occurrences e = 1"
  shows "ledger_occurrences (eb_ledger (fst (append_order_event e c bk))) =
           Suc (ledger_occurrences (eb_ledger bk)) \<and> book_ok (fst (append_order_event e c bk))"
  using assms by (rule append_occurrences)

definition demo_order :: order_intent where
  "demo_order = plain_intent ''A'' Quantity 1 ''s'' None ''''"

definition demo_event :: order_event where
  "demo_event = order_event_of (0, 1) (demo_order\<lparr>o_client_id := ''c''\<rparr>) 0 Deferred
     ''limit_not_reached'' 1 0 9 0"

theorem append_counts_every_event_witness:
  "ledger_occurrences (eb_ledger (fst (append_order_event demo_event True
     (fst (append_order_event demo_event True \<lparr>eb_ledger = [], eb_resting = []\<rparr>))))) = 2 \<and>
   length (eb_ledger (fst (append_order_event demo_event True
     (fst (append_order_event demo_event True \<lparr>eb_ledger = [], eb_resting = []\<rparr>))))) = 1"
proof -
  let ?b = "\<lparr>eb_ledger = [], eb_resting = []\<rparr> :: event_book"
  have o: "occurrences demo_event = 1" by (simp add: demo_event_def)
  have b: "book_ok ?b" by (simp add: book_ok_def)
  have s: "py_strip ''c'' = ''c''" by code_simp
  note step = append_counts_every_event[OF b o, of True]
  have "ledger_occurrences (eb_ledger (fst (append_order_event demo_event True
      (fst (append_order_event demo_event True ?b))))) = 2"
    using append_counts_every_event[OF conjunct2[OF step] o, of True] step
    by (simp add: ledger_occurrences_def)
  moreover have "length (eb_ledger (fst (append_order_event demo_event True
      (fst (append_order_event demo_event True ?b))))) = 1"
    by (simp add: append_order_event_def Let_def demo_event_def demo_order_def order_event_of_def
        plain_intent_def s open_window_def is_resting_row_def)
  ultimately show ?thesis by blast
qed

subsection \<open>Executions, entries and closed trades\<close>

datatype trade_side = Buy | Sell
datatype fill_reference = BarOpen | GapOpen | LimitRef

record execution =
  x_id :: order_id
  x_symbol :: string
  x_time :: int
  x_side :: trade_side
  x_type :: execution_type
  x_position_side :: string
  x_key :: string
  x_quantity :: real
  x_price :: real
  x_notional :: real
  x_commission :: real
  x_balance :: real
  x_reason :: string
  x_signal_time :: int
  x_reference :: fill_reference
  x_reference_price :: real
  x_is_limit :: bool
  x_limit_price :: real
  x_status :: order_status
  x_requested :: real

text \<open>The signed quantity of an execution, and what it moves out of the cash account.\<close>

definition signed_quantity :: "execution \<Rightarrow> real" where
  "signed_quantity x = (case x_side x of Buy \<Rightarrow> x_quantity x | Sell \<Rightarrow> - x_quantity x)"

definition cash_out :: "execution \<Rightarrow> real" where
  "cash_out x = signed_quantity x * x_price x + x_commission x"

record entry =
  e_time :: int
  e_price :: real
  e_quantity :: real
  e_commission :: real
  e_side :: string

record closed_trade =
  ct_symbol :: string
  ct_side :: string
  ct_entry_time :: int
  ct_exit_time :: int
  ct_entry_price :: real
  ct_exit_price :: real
  ct_quantity :: real
  ct_profit :: real
  ct_gross_profit :: real
  ct_entry_commission :: real
  ct_exit_commission :: real
  ct_balance :: real
  ct_reason :: string

record trade_book =
  tb_entries :: "entry dict"
  tb_closed :: "closed_trade list"

definition side_name :: "real \<Rightarrow> string" where
  "side_name a = (if a > 0 then ''long'' else ''short'')"

text \<open>How an execution splits into a closing and an opening part, and its fee with it.\<close>

definition closing_quantity :: "real \<Rightarrow> real \<Rightarrow> real" where
  "closing_quantity old d = (if old * d < 0 then min \<bar>old\<bar> \<bar>d\<bar> else 0)"

definition close_fee :: "execution \<Rightarrow> real \<Rightarrow> real" where
  "close_fee x old = x_commission x * closing_quantity old (signed_quantity x) /
     max \<bar>signed_quantity x\<bar> eps12"

definition close_part :: "execution \<Rightarrow> real \<Rightarrow> real \<Rightarrow> real \<Rightarrow> trade_book \<Rightarrow> trade_book" where
  "close_part x old old_cost target tb =
     (let k = x_key x;
          q = closing_quantity old (signed_quantity x);
          en = (case map_of (tb_entries tb) k of
                  Some e \<Rightarrow> e
                | None \<Rightarrow> \<lparr>e_time = x_time x, e_price = old_cost, e_quantity = \<bar>old\<bar>,
                           e_commission = 0, e_side = side_name old\<rparr>);
          entry_qty = max (e_quantity en) q;
          entry_fee = e_commission en * q / entry_qty;
          price = py_or (e_price en) old_cost;
          gross = (x_price x - price) * q * (if old > 0 then 1 else -1);
          fee = close_fee x old;
          trade = \<lparr>ct_symbol = k, ct_side = (if e_side en = [] then side_name old else e_side en),
                   ct_entry_time = e_time en, ct_exit_time = x_time x, ct_entry_price = price,
                   ct_exit_price = x_price x, ct_quantity = q, ct_profit = gross - entry_fee - fee,
                   ct_gross_profit = gross, ct_entry_commission = entry_fee,
                   ct_exit_commission = fee, ct_balance = x_balance x,
                   ct_reason = (if x_reason x = [] then ''strategy'' else x_reason x)\<rparr>;
          remaining = max 0 (entry_qty - q)
      in \<lparr>tb_entries =
             (if remaining > eps12 \<and> old * target \<ge> 0
              then dict_set k (en\<lparr>e_quantity := remaining,
                                  e_commission := max 0 (e_commission en - entry_fee)\<rparr>)
                     (tb_entries tb)
              else dict_pop k (tb_entries tb)),
           tb_closed = tb_closed tb @ [trade]\<rparr>)"

definition open_part :: "execution \<Rightarrow> real \<Rightarrow> real \<Rightarrow> trade_book \<Rightarrow> trade_book" where
  "open_part x old target tb =
     (let k = x_key x;
          q = max 0 (\<bar>signed_quantity x\<bar> - closing_quantity old (signed_quantity x));
          fee = x_commission x - close_fee x old;
          side = side_name target
      in case map_of (tb_entries tb) k of
           Some e \<Rightarrow>
             if e_side e = side
             then tb\<lparr>tb_entries := dict_set k
                    (e\<lparr>e_price := (py_or (e_price e) (x_price x) * e_quantity e + x_price x * q) /
                                    (e_quantity e + q),
                       e_quantity := e_quantity e + q,
                       e_commission := e_commission e + fee\<rparr>) (tb_entries tb)\<rparr>
             else tb\<lparr>tb_entries := dict_set k
                    \<lparr>e_time = x_time x, e_price = x_price x, e_quantity = q, e_commission = fee,
                     e_side = side\<rparr> (tb_entries tb)\<rparr>
         | None \<Rightarrow> tb\<lparr>tb_entries := dict_set k
                    \<lparr>e_time = x_time x, e_price = x_price x, e_quantity = q, e_commission = fee,
                     e_side = side\<rparr> (tb_entries tb)\<rparr>)"

definition record_closed_trade :: "execution \<Rightarrow> real \<Rightarrow> real \<Rightarrow> real \<Rightarrow> trade_book \<Rightarrow> trade_book" where
  "record_closed_trade x old old_cost target tb =
     (let q = closing_quantity old (signed_quantity x);
          opening = max 0 (\<bar>signed_quantity x\<bar> - q);
          tb1 = (if q > eps12 then close_part x old old_cost target tb else tb)
      in if opening > eps12 then open_part x old target tb1 else tb1)"

end
