(* ===== verification/Broker.thy ===== *)
theory Broker
  imports Ledger
begin

text \<open>
  The simulation broker (\<open>MultiAssetSimulationBroker\<close> in \<open>strategy_v2/runtime.py\<close>): its state, the
  sizing rules, the batch execution of order intents, bar-driven protection exits, forced
  liquidation and the equity records. Every branch of \<open>execute\<close> is a branch of the model; the
  exceptions Python raises on a missing or zero price are error values.
\<close>

subsection \<open>State\<close>

record rebalance_record =
  rb_time :: int
  rb_target_weights :: "real dict"
  rb_actual_weights :: "real dict"
  rb_cash_before :: real
  rb_cash_after :: real
  rb_equity_before :: real
  rb_equity_after :: real
  rb_turnover :: real
  rb_events :: "order_status list"

record equity_point =
  eq_time :: int
  eq_value :: real
  eq_cash :: real
  eq_gross :: real
  eq_net :: real

record liquidation_event =
  lq_time :: int
  lq_equity_before :: real
  lq_deficit :: real
  lq_closed :: nat

record broker = portfolio_state +
  leverage :: real
  commission :: real
  slippage :: real
  executions :: "execution list"
  trades :: trade_book
  protections :: "protection_state dict"
  protection_events :: "decision list"
  book :: event_book
  rebalances :: "rebalance_record list"
  holdings :: "(equity_point \<times> (string \<times> position \<times> real) list) list"
  equity_curve :: "equity_point list"
  order_sequence :: nat
  bankrupt :: bool
  liquidation_events :: "liquidation_event list"
  liquidation_adjustment :: real

definition new_broker :: "real \<Rightarrow> real \<Rightarrow> real \<Rightarrow> real \<Rightarrow> broker" where
  "new_broker capital lev comm slip =
     \<lparr>starting_cash = capital, available_cash = capital, positions = [], total_value = capital,
      leverage = max 1 lev, commission = max 0 comm, slippage = max 0 slip, executions = [],
      trades = \<lparr>tb_entries = [], tb_closed = []\<rparr>, protections = [], protection_events = [],
      book = \<lparr>eb_ledger = [], eb_resting = []\<rparr>, rebalances = [], holdings = [], equity_curve = [],
      order_sequence = 0, bankrupt = False, liquidation_events = [], liquidation_adjustment = 0\<rparr>"

datatype runtime_error = TypeError | ZeroDivisionError | ContractError string

subsection \<open>Valuation\<close>

definition portfolio_value :: "position dict \<Rightarrow> real" where
  "portfolio_value ps = sum_of (\<lambda>(k, p). market_value p) ps"

definition mark_position :: "feed \<Rightarrow> instant \<Rightarrow> position \<Rightarrow> position" where
  "mark_position fd t p =
     (let price = (case close_at fd (pos_symbol p) t of
                     Some c \<Rightarrow> c
                   | None \<Rightarrow> current_close fd (pos_symbol p) (last_price p))
      in p\<lparr>last_price := py_or price (py_or (last_price p) (avg_cost p))\<rparr>)"

definition mark_to_market :: "feed \<Rightarrow> instant \<Rightarrow> broker \<Rightarrow> broker" where
  "mark_to_market fd t b =
     (let ps = map (\<lambda>(k, p). (k, mark_position fd t p)) (positions b)
      in b\<lparr>positions := ps, total_value := available_cash b + portfolio_value ps\<rparr>)"

definition gross_value :: "string \<Rightarrow> broker \<Rightarrow> real" where
  "gross_value exclude b =
     sum_of (\<lambda>(k, p). \<bar>market_value p\<bar>) (filter (\<lambda>(k, p). k \<noteq> exclude) (positions b))"

subsection \<open>Sizing\<close>

definition py_div :: "real \<Rightarrow> real \<Rightarrow> runtime_error + real" where
  "py_div x y = (if y = 0 then Inl ZeroDivisionError else Inr (x / y))"

definition target_quantity ::
  "broker \<Rightarrow> order_intent \<Rightarrow> position \<Rightarrow> real \<Rightarrow> real \<Rightarrow> runtime_error + real" where
  "target_quantity b o' cur price equity =
     (case o_kind o' of
        Quantity \<Rightarrow> Inr (amount cur + o_value o')
      | QuoteValue \<Rightarrow> ebind (py_div (o_value o' * leverage b) price) (\<lambda>q. Inr (amount cur + q))
      | TargetQuantity \<Rightarrow> Inr (o_value o')
      | TargetValue \<Rightarrow> py_div (o_value o' * leverage b) price
      | TargetPercent \<Rightarrow>
          (let v = equity * o_value o' * leverage b;
               v = (if v > 0 then v / ((1 + slippage b) * (1 + commission b)) else v)
           in py_div v price))"

definition lot_size :: "string \<Rightarrow> bar option \<Rightarrow> real" where
  "lot_size symbol br =
     (let explicit = (case br of None \<Rightarrow> 0 | Some x \<Rightarrow> b_lot_size x) in
      if explicit > 0 then explicit
      else if py_startswith symbol ''Crypto:'' then eps8 else 1)"

definition round_to_lot :: "real \<Rightarrow> real \<Rightarrow> real" where
  "round_to_lot v lot =
     (if lot \<le> 0 then v
      else let units = \<lfloor>\<bar>v\<bar> / lot + eps8\<rfloor> in if units \<noteq> 0 then copysign (of_int units * lot) v else 0)"

definition liquidity_cap :: "bar option \<Rightarrow> real \<Rightarrow> real option" where
  "liquidity_cap br lot =
     (let volume = (case br of None \<Rightarrow> 0 | Some x \<Rightarrow> b_volume x) in
      if volume \<le> 0 then None
      else let units = \<lfloor>volume / 10 / lot + eps10\<rfloor> in
           Some (if units \<noteq> 0 then of_int units * lot else 0))"

definition current_position :: "broker \<Rightarrow> order_intent \<Rightarrow> position" where
  "current_position b o' =
     (case map_of (positions b) (order_key o') of
        Some p \<Rightarrow> p
      | None \<Rightarrow> fresh_position (o_symbol o') (o_side o'))"

text \<open>\<open>_execution_block_reason\<close>: the empty string lets the order through.\<close>

definition block_reason ::
  "broker \<Rightarrow> order_intent \<Rightarrow> bar option \<Rightarrow> real option \<Rightarrow> runtime_error + string" where
  "block_reason b o' br price =
     (case (br, price) of
        (Some x, Some p) \<Rightarrow>
          if p \<le> 0 then Inr ''no_price''
          else if truthy (b_suspended x) \<or> truthy (b_is_suspended x) then Inr ''suspended''
          else ebind (target_quantity b o' (current_position b o') p (max (total_value b) 0))
            (\<lambda>target. let delta = target - amount (current_position b o') in
               if delta > 0 \<and> (truthy (b_limit_up x) \<or> truthy (b_is_limit_up x)) then Inr ''limit_up''
               else if delta < 0 \<and> (truthy (b_limit_down x) \<or> truthy (b_is_limit_down x))
                    then Inr ''limit_down''
               else Inr '''')
      | _ \<Rightarrow> Inr ''no_price'')"

text \<open>The exposure caps: cash (with the borrowing the leverage allows), then gross exposure.\<close>

definition cash_floor :: "broker \<Rightarrow> real \<Rightarrow> real" where
  "cash_floor b equity = - equity * (leverage b - 1)"

definition cash_capped :: "broker \<Rightarrow> real \<Rightarrow> real \<Rightarrow> real \<Rightarrow> real \<times> string" where
  "cash_capped b delta price equity =
     (if delta > 0 then
        let spendable = max 0 (available_cash b - cash_floor b equity);
            cap = spendable / max (price * (1 + commission b)) eps12
        in if delta > cap then (cap, ''insufficient_cash'') else (delta, '''')
      else (delta, ''''))"

definition max_target :: "broker \<Rightarrow> real \<Rightarrow> real \<Rightarrow> string \<Rightarrow> real" where
  "max_target b price equity key =
     max 0 (equity * leverage b - gross_value key b) / max price eps12"

definition feasible_delta ::
  "broker \<Rightarrow> real \<Rightarrow> position \<Rightarrow> real \<Rightarrow> real \<Rightarrow> real \<Rightarrow> string \<Rightarrow> real \<times> string" where
  "feasible_delta b delta cur price equity lot key =
     (let (f, reason) = cash_capped b delta price equity;
          cap = max_target b price equity key;
          (f, reason) = (if \<bar>amount cur + f\<bar> > cap + eps12
                         then (copysign cap (amount cur + f) - amount cur, ''position_limit'')
                         else (f, reason))
      in if delta \<noteq> 0 \<and> sign_of f \<noteq> 0 \<and> sign_of f \<noteq> sign_of delta
         then (0, if reason = [] then ''position_limit'' else reason)
         else (round_to_lot f lot, reason))"

subsection \<open>Planning a fill\<close>

definition is_limit :: "order_intent \<Rightarrow> bool" where
  "is_limit o' \<longleftrightarrow> o_type o' = LimitOrder \<or> o_algo o' = LimitAlgo"

definition limit_fill :: "real \<Rightarrow> real \<Rightarrow> real \<Rightarrow> real \<Rightarrow> real \<Rightarrow> (real \<times> fill_reference) option" where
  "limit_fill delta op hi lo limit =
     (if delta > 0 \<and> op \<le> limit then Some (op, GapOpen)
      else if delta > 0 \<and> lo \<le> limit then Some (limit, LimitRef)
      else if delta < 0 \<and> op \<ge> limit then Some (op, GapOpen)
      else if delta < 0 \<and> hi \<ge> limit then Some (limit, LimitRef)
      else None)"

record fill_plan =
  fp_delta :: real
  fp_requested :: real
  fp_price :: real
  fp_reference :: fill_reference
  fp_lot :: real
  fp_cap :: "real option"
  fp_constraint :: string

datatype plan =
    Reject string real
  | Rest real
  | Fill fill_plan

definition is_forced :: "order_intent \<Rightarrow> bool" where
  "is_forced o' \<longleftrightarrow> o_reason o' = ''margin_liquidation''"

text \<open>Whether the order still wants to trade: the direction and minimum-size checks.\<close>

definition target_met :: "order_intent \<Rightarrow> position \<Rightarrow> real \<Rightarrow> real \<Rightarrow> bool" where
  "target_met o' cur target sizing =
     (let delta = target - amount cur;
          closes = (is_target (o_kind o') \<and> \<bar>target\<bar> \<le> eps12 \<and> \<bar>amount cur\<bar> > eps12)
      in (o_direction o' \<noteq> 0 \<and> sign_of delta \<noteq> o_direction o') \<or>
         \<bar>delta\<bar> \<le> eps12 \<or> (\<bar>delta * sizing\<bar> < 1 / 100 \<and> \<not> closes))"

definition reference_price :: "broker \<Rightarrow> order_intent \<Rightarrow> bar option \<Rightarrow> real \<Rightarrow> real \<Rightarrow>
    (real \<times> fill_reference) option" where
  "reference_price b o' br op delta =
     (if is_limit o' then
        limit_fill delta op (py_or (case br of None \<Rightarrow> 0 | Some x \<Rightarrow> b_high x) op)
          (py_or (case br of None \<Rightarrow> 0 | Some x \<Rightarrow> b_low x) op) (o_limit_price o')
      else Some (op * (if delta > 0 then 1 + slippage b else 1 - slippage b), BarOpen))"

definition capped_by_liquidity :: "real option \<Rightarrow> real \<Rightarrow> real" where
  "capped_by_liquidity cap delta =
     (case cap of Some c \<Rightarrow> if \<bar>delta\<bar> > c then copysign c delta else delta | None \<Rightarrow> delta)"

definition plan_order ::
  "broker \<Rightarrow> order_intent \<Rightarrow> bar option \<Rightarrow> real \<Rightarrow> position \<Rightarrow> real \<Rightarrow> real \<Rightarrow> real \<Rightarrow> plan" where
  "plan_order b o' br op cur equity sizing target =
     (let requested = target - amount cur in
      if target_met o' cur target sizing then Reject ''target_already_met'' 0
      else if is_limit o' \<and> o_limit_price o' \<le> 0 then Reject ''limit_price_required'' \<bar>requested\<bar>
      else case reference_price b o' br op requested of
        None \<Rightarrow> Rest \<bar>requested\<bar>
      | Some (price, ref) \<Rightarrow>
          (let lot = lot_size (o_symbol o') br;
               delta = round_to_lot requested lot
           in if \<bar>delta\<bar> < lot - eps12 then Reject ''minimum_trade_unit'' \<bar>requested\<bar>
              else let cap = (if is_forced o' then None else liquidity_cap br lot);
                       delta = capped_by_liquidity cap delta;
                       (f, reason) = (if is_forced o' then (delta, '''')
                          else feasible_delta b delta cur price equity lot (order_key o'))
                   in if \<bar>f\<bar> < lot - eps12
                      then Reject (if reason = [] then ''position_limit'' else reason) \<bar>requested\<bar>
                      else Fill \<lparr>fp_delta = f, fp_requested = requested, fp_price = price,
                                 fp_reference = ref, fp_lot = lot, fp_cap = cap,
                                 fp_constraint = reason\<rparr>))"

subsection \<open>Applying a fill\<close>

definition remaining_quantity :: "fill_plan \<Rightarrow> real" where
  "remaining_quantity f = max 0 (\<bar>fp_requested f\<bar> - \<bar>fp_delta f\<bar>)"

definition fill_status :: "fill_plan \<Rightarrow> order_status" where
  "fill_status f =
     (if remaining_quantity f + eps12 \<ge> fp_lot f \<and>
         remaining_quantity f * fp_price f + eps12 \<ge> 1 / 100
      then Partial else Filled)"

definition protect_fill ::
  "order_intent \<Rightarrow> instant \<Rightarrow> position \<Rightarrow> real \<Rightarrow> protection_state dict \<Rightarrow> protection_state dict" where
  "protect_fill o' t p price prot =
     (let k = order_key o';
          side = side_name (amount p);
          existing = map_of prot k;
          changed = (case existing of None \<Rightarrow> False | Some s \<Rightarrow> ps_side s \<noteq> side);
          spec = (case o_protection o' of Some s \<Rightarrow> Some s | None \<Rightarrow> map_option ps_spec existing)
      in if o_protection o' \<noteq> None \<or> changed then
           (case spec of
              None \<Rightarrow> prot
            | Some sp \<Rightarrow>
                (case existing of
                   Some s \<Rightarrow> if changed
                     then dict_set k (open_state (o_symbol o') side (avg_cost p) sp t) prot
                     else dict_set k (apply_scale_in (avg_cost p) price (Some sp) (Some t) s) prot
                 | None \<Rightarrow> dict_set k (open_state (o_symbol o') side (avg_cost p) sp t) prot))
         else prot)"

definition filled_position :: "position \<Rightarrow> real \<Rightarrow> real \<Rightarrow> position" where
  "filled_position cur delta price =
     cur\<lparr>amount := amount cur + delta,
         avg_cost := next_average_cost (amount cur) (avg_cost cur) delta price,
         last_price := price\<rparr>"

definition settle :: "order_intent \<Rightarrow> instant \<Rightarrow> position \<Rightarrow> fill_plan \<Rightarrow> broker \<Rightarrow> broker" where
  "settle o' t cur f b =
     (let d = fp_delta f; price = fp_price f; k = order_key o';
          fee = \<bar>d * price\<bar> * commission b;
          p = filled_position cur d price;
          flat = (\<bar>amount p\<bar> \<le> eps12);
          ps = (if flat then dict_pop k (positions b) else dict_set k p (positions b));
          cash = available_cash b - d * price - fee
      in b\<lparr>available_cash := cash, positions := ps,
           protections := (if flat then dict_pop k (protections b)
                           else protect_fill o' t p price (protections b)),
           total_value := cash + portfolio_value ps\<rparr>)"

definition execution_of ::
  "order_id \<Rightarrow> order_intent \<Rightarrow> instant \<Rightarrow> position \<Rightarrow> real \<Rightarrow> fill_plan \<Rightarrow> real \<Rightarrow> real \<Rightarrow> execution" where
  "execution_of oid o' t cur op f comm balance =
     (let d = fp_delta f; notional = \<bar>d * fp_price f\<bar>;
          (ty, inferred) = execution_identity (amount cur) (amount cur + d) d;
          side = normalize_position_side (o_side o')
      in \<lparr>x_id = oid, x_symbol = o_symbol o', x_time = time_iso t,
          x_side = (if d > 0 then Buy else Sell), x_type = ty,
          x_position_side = (if side = [] then inferred else side), x_key = order_key o',
          x_quantity = \<bar>d\<bar>, x_price = fp_price f, x_notional = notional,
          x_commission = notional * comm, x_balance = balance, x_reason = o_reason o',
          x_signal_time = time_iso (case o_signal_time o' of None \<Rightarrow> t | Some s \<Rightarrow> s),
          x_reference = fp_reference f, x_reference_price = op, x_is_limit = is_limit o',
          x_limit_price = (if is_limit o' then o_limit_price o' else 0),
          x_status = fill_status f, x_requested = \<bar>fp_requested f\<bar>\<rparr>)"

definition fill_reason :: "order_intent \<Rightarrow> fill_plan \<Rightarrow> string" where
  "fill_reason o' f =
     (if fill_status f = Partial then
        (if fp_constraint f \<noteq> [] then fp_constraint f
         else case fp_cap f of
                Some c \<Rightarrow> if \<bar>fp_requested f\<bar> > c then ''insufficient_liquidity'' else ''partial_fill''
              | None \<Rightarrow> ''partial_fill'')
      else if is_forced o' then ''margin_liquidation'' else ''filled'')"

text \<open>What is queued again after a partial fill.\<close>

definition requeue :: "order_intent \<Rightarrow> fill_plan \<Rightarrow> real \<Rightarrow> order_intent list" where
  "requeue o' f sizing =
     (if fill_status f = Partial \<and> (is_limit o' \<or> o_attempts o' < 4) then
        let o'' = o'\<lparr>o_attempts := (if is_limit o' then o_attempts o' else o_attempts o' + 1),
                    o_direction := (if fp_requested f > 0 then 1 else -1)\<rparr>
        in [case o_kind o' of
              Quantity \<Rightarrow> o''\<lparr>o_value := copysign (remaining_quantity f) (fp_requested f)\<rparr>
            | QuoteValue \<Rightarrow> o''\<lparr>o_value := copysign (remaining_quantity f * sizing) (fp_requested f)\<rparr>
            | _ \<Rightarrow> o'']
      else [])"

subsection \<open>Executing a batch\<close>

record batch =
  bt_broker :: broker
  bt_deferred :: "order_intent list"
  bt_weights :: "real dict"
  bt_events :: "nat list"

definition log_event :: "order_event \<Rightarrow> bool \<Rightarrow> batch \<Rightarrow> batch" where
  "log_event e coalesce bt =
     (let (bk, i) = append_order_event e coalesce (book (bt_broker bt))
      in bt\<lparr>bt_broker := (bt_broker bt)\<lparr>book := bk\<rparr>, bt_events := bt_events bt @ [i]\<rparr>)"

definition defer_orders :: "order_intent list \<Rightarrow> batch \<Rightarrow> batch" where
  "defer_orders os bt = bt\<lparr>bt_deferred := bt_deferred bt @ os\<rparr>"

definition block_order :: "order_id \<Rightarrow> order_intent \<Rightarrow> instant \<Rightarrow> string \<Rightarrow> batch \<Rightarrow> batch" where
  "block_order oid o' t reason bt =
     (let st = (if o_attempts o' \<ge> 4 then Rejected else Deferred)
      in defer_orders (if st = Deferred then [o'\<lparr>o_attempts := o_attempts o' + 1\<rparr>] else [])
           (log_event (order_event_of oid o' t st reason 0 0 0 0) False bt))"

definition book_fill ::
  "order_id \<Rightarrow> order_intent \<Rightarrow> instant \<Rightarrow> position \<Rightarrow> real \<Rightarrow> fill_plan \<Rightarrow> batch \<Rightarrow> batch" where
  "book_fill oid o' t cur op f bt =
     (let b = settle o' t cur f (bt_broker bt);
          x = execution_of oid o' t cur op f (commission b) (total_value b);
          bt = log_event (order_event_of oid o' t (fill_status f) (fill_reason o' f)
                 \<bar>fp_requested f\<bar> (x_quantity x) (fp_price f) (x_commission x)) False
                 (bt\<lparr>bt_broker := b\<lparr>executions := executions b @ [x]\<rparr>\<rparr>);
          b = bt_broker bt
      in bt\<lparr>bt_broker := b\<lparr>trades := record_closed_trade x (amount cur) (avg_cost cur)
                              (amount cur + fp_delta f) (trades b)\<rparr>\<rparr>)"

definition carry_out ::
  "order_id \<Rightarrow> order_intent \<Rightarrow> instant \<Rightarrow> position \<Rightarrow> real \<Rightarrow> real \<Rightarrow> plan \<Rightarrow> batch \<Rightarrow> batch" where
  "carry_out oid o' t cur op sizing pl bt =
     (case pl of
        Reject reason requested \<Rightarrow>
          log_event (order_event_of oid o' t Rejected reason requested 0 0 0) False bt
      | Rest requested \<Rightarrow>
          defer_orders [o'] (log_event (order_event_of oid o' t Deferred ''limit_not_reached'' requested 0
                                   (o_limit_price o') 0) True bt)
      | Fill f \<Rightarrow> defer_orders (requeue o' f sizing) (book_fill oid o' t cur op f bt))"

definition sizing_price :: "order_intent \<Rightarrow> real \<Rightarrow> real" where
  "sizing_price o' op = (if is_limit o' \<and> o_limit_price o' > 0 then o_limit_price o' else op)"

definition trade_order ::
  "feed \<Rightarrow> instant \<Rightarrow> order_id \<Rightarrow> order_intent \<Rightarrow> bar option \<Rightarrow> real \<Rightarrow> batch \<Rightarrow> runtime_error + batch"
where
  "trade_order fd t oid o' br op bt =
     (let b = mark_to_market fd t (bt_broker bt);
          equity = total_value b;
          cur = current_position b o';
          sizing = sizing_price o' op
      in ebind (target_quantity b o' cur sizing equity) (\<lambda>target.
           let weight = (if equity \<noteq> 0 then target * sizing / equity else 0);
               bt = bt\<lparr>bt_broker := b, bt_weights := dict_set (order_key o') weight (bt_weights bt)\<rparr>
           in Inr (carry_out oid o' t cur op sizing (plan_order b o' br op cur equity sizing target) bt)))"

text \<open>
  An order with no open price is only reached by the \<open>margin_liquidation\<close> bypass. Python then
  raises a \<open>TypeError\<close> at the first arithmetic on the missing price; the only way out before
  that is the rejection of a target already met.
\<close>

definition trade_unpriced ::
  "feed \<Rightarrow> instant \<Rightarrow> order_id \<Rightarrow> order_intent \<Rightarrow> batch \<Rightarrow> runtime_error + batch"
where
  "trade_unpriced fd t oid o' bt =
     (let b = mark_to_market fd t (bt_broker bt);
          equity = total_value b;
          cur = current_position b o';
          reject = (\<lambda>weight. log_event (order_event_of oid o' t Rejected ''target_already_met'' 0 0 0 0)
             False (bt\<lparr>bt_broker := b, bt_weights := dict_set (order_key o') weight (bt_weights bt)\<rparr>))
      in if is_limit o' \<and> o_limit_price o' > 0 then
           ebind (target_quantity b o' cur (o_limit_price o') equity) (\<lambda>target.
             if target_met o' cur target (o_limit_price o')
             then Inr (reject (if equity \<noteq> 0 then target * o_limit_price o' / equity else 0))
             else Inl TypeError)
         else if o_kind o' \<in> {Quantity, TargetQuantity} \<and> equity = 0 then
           ebind (target_quantity b o' cur 0 equity) (\<lambda>target.
             let delta = target - amount cur in
             if (o_direction o' \<noteq> 0 \<and> sign_of delta \<noteq> o_direction o') \<or> \<bar>delta\<bar> \<le> eps12
             then Inr (reject 0) else Inl TypeError)
         else Inl TypeError)"

definition number_order :: "batch \<Rightarrow> batch" where
  "number_order bt = bt\<lparr>bt_broker :=
     (bt_broker bt)\<lparr>order_sequence := order_sequence (bt_broker bt) + 1\<rparr>\<rparr>"

definition open_price :: "real dict \<Rightarrow> order_intent \<Rightarrow> bar option \<Rightarrow> real option" where
  "open_price overrides o' br =
     (case map_of overrides (o_symbol o') of Some p \<Rightarrow> Some p | None \<Rightarrow> map_option b_open br)"

definition exec_order ::
  "feed \<Rightarrow> instant \<Rightarrow> real dict \<Rightarrow> order_intent \<Rightarrow> batch \<Rightarrow> runtime_error + batch" where
  "exec_order fd t overrides o' bt0 =
     (let bt = number_order bt0;
          oid = (t, order_sequence (bt_broker bt));
          br = bar_at fd (o_symbol o') t;
          price = open_price overrides o' br
      in ebind (if is_forced o' then Inr '''' else block_reason (bt_broker bt) o' br price) (\<lambda>blocked.
           if blocked \<noteq> [] then Inr (block_order oid o' t blocked bt)
           else case price of
                  None \<Rightarrow> trade_unpriced fd t oid o' bt
                | Some op \<Rightarrow> trade_order fd t oid o' br op bt))"

definition record_rebalance ::
  "feed \<Rightarrow> instant \<Rightarrow> real \<Rightarrow> real \<Rightarrow> real dict \<Rightarrow> nat list \<Rightarrow> broker \<Rightarrow> broker" where
  "record_rebalance fd t equity_before cash_before weights idx b0 =
     (let b = mark_to_market fd t b0;
          equity = total_value b;
          events = map (\<lambda>i. eb_ledger (book b) ! i) idx;
          turnover = sum_of (\<lambda>e. ev_filled e * ev_price e) events
      in b\<lparr>rebalances := rebalances b @
           [\<lparr>rb_time = time_iso t, rb_target_weights = weights,
             rb_actual_weights = map (\<lambda>(k, p). (k, if equity \<noteq> 0 then market_value p / equity else 0))
                                   (positions b),
             rb_cash_before = cash_before, rb_cash_after = available_cash b,
             rb_equity_before = equity_before, rb_equity_after = equity,
             rb_turnover = (if equity_before \<noteq> 0 then turnover / equity_before else 0),
             rb_events = map ev_status events\<rparr>]\<rparr>)"

definition execute ::
  "feed \<Rightarrow> instant \<Rightarrow> real dict \<Rightarrow> order_intent list \<Rightarrow> broker \<Rightarrow>
     runtime_error + (broker \<times> order_intent list)"
where
  "execute fd t overrides os b0 =
     (if os = [] then Inr (b0, [])
      else let b = mark_to_market fd t b0 in
        ebind (efold (exec_order fd t overrides) os
                 \<lparr>bt_broker = b, bt_deferred = [], bt_weights = [], bt_events = []\<rparr>) (\<lambda>bt.
          Inr (record_rebalance fd t (total_value b) (available_cash b) (bt_weights bt)
                 (bt_events bt) (bt_broker bt), bt_deferred bt)))"

subsection \<open>Protection exits\<close>

definition sync_protection :: "position \<Rightarrow> instant \<Rightarrow> bar \<Rightarrow> protection_state \<Rightarrow>
    protection_state \<times> decision option" where
  "sync_protection p t br s =
     evaluate_bar Conservative (s\<lparr>ps_entry := avg_cost p\<rparr>) t (Some (b_open br)) (Some (b_high br))
       (Some (b_low br))"

definition protect_position ::
  "feed \<Rightarrow> instant \<Rightarrow> string \<times> protection_state \<Rightarrow> broker \<times> decision list \<Rightarrow>
     runtime_error + (broker \<times> decision list)"
where
  "protect_position fd t ks acc =
     (let (k, s) = ks; (b, ds) = acc in
      case map_of (positions b) k of
        None \<Rightarrow> Inr (b\<lparr>protections := dict_pop k (protections b)\<rparr>, ds)
      | Some p \<Rightarrow>
          (case bar_at fd (pos_symbol p) t of
             None \<Rightarrow> Inr (b, ds)
           | Some br \<Rightarrow>
               (let (s', d) = sync_protection p t br s;
                    b = b\<lparr>protections := dict_set k s' (protections b)\<rparr>
                in case d of
                     None \<Rightarrow> Inr (b, ds)
                   | Some d \<Rightarrow>
                       ebind (execute fd t [(pos_symbol p, d_price d)]
                                [plain_intent (pos_symbol p) TargetQuantity 0
                                   (reason_name (d_reason d)) (Some t) (pos_side p)] b)
                         (\<lambda>(b', _).
                           if length (executions b') = length (executions b) then
                             (if eb_ledger (book b') \<noteq> [] \<and>
                                 ev_status_reason (last (eb_ledger (book b'))) = ''target_already_met''
                              then Inr (b'\<lparr>protections := dict_pop k (protections b')\<rparr>, ds)
                              else Inr (b', ds))
                           else Inr (b'\<lparr>protection_events := protection_events b' @ [d]\<rparr>, ds @ [d])))))"

definition process_protections ::
  "feed \<Rightarrow> instant \<Rightarrow> broker \<Rightarrow> runtime_error + (broker \<times> decision list)" where
  "process_protections fd t b = efold (protect_position fd t) (protections b) (b, [])"

subsection \<open>Forced liquidation\<close>

definition liquidation_price :: "feed \<Rightarrow> instant \<Rightarrow> position \<Rightarrow> real option" where
  "liquidation_price fd t p =
     (let price = (case close_at fd (pos_symbol p) t of
                     Some c \<Rightarrow> if c > 0 then c else py_or (last_price p) (avg_cost p)
                   | None \<Rightarrow> py_or (last_price p) (avg_cost p))
      in if price > 0 then Some price else None)"

definition liquidation_orders ::
  "feed \<Rightarrow> instant \<Rightarrow> broker \<Rightarrow> (order_intent \<times> (string \<times> real)) list" where
  "liquidation_orders fd t b =
     concat (map (\<lambda>(k, p). case liquidation_price fd t p of
         None \<Rightarrow> []
       | Some price \<Rightarrow> [(plain_intent (pos_symbol p) TargetQuantity 0 ''margin_liquidation'' (Some t)
                           (pos_side p), (pos_symbol p, price))]) (positions b))"

definition absorb_deficit :: "feed \<Rightarrow> instant \<Rightarrow> real \<Rightarrow> nat \<Rightarrow> broker \<Rightarrow> broker" where
  "absorb_deficit fd t equity_before n b =
     (let deficit = max 0 (- available_cash b);
          b = (if deficit \<noteq> 0
               then b\<lparr>liquidation_adjustment := liquidation_adjustment b + deficit,
                      available_cash := available_cash b + deficit\<rparr> else b);
          b = mark_to_market fd t b
      in b\<lparr>total_value := max 0 (total_value b), bankrupt := True,
           liquidation_events := liquidation_events b @
             [\<lparr>lq_time = time_iso t, lq_equity_before = equity_before, lq_deficit = deficit,
               lq_closed = n\<rparr>]\<rparr>)"

definition liquidate_if_insolvent ::
  "feed \<Rightarrow> instant \<Rightarrow> broker \<Rightarrow> runtime_error + (broker \<times> bool)" where
  "liquidate_if_insolvent fd t b0 =
     (if bankrupt b0 then Inr (b0, True)
      else let b = mark_to_market fd t b0 in
        if total_value b > 0 then Inr (b, False)
        else let los = liquidation_orders fd t b in
          ebind (execute fd t (foldl (\<lambda>d (k, v). dict_set k v d) [] (map snd los)) (map fst los) b)
            (\<lambda>(b', _). Inr (absorb_deficit fd t (total_value b) (length los) b', True)))"

subsection \<open>Equity records\<close>

text \<open>Python's \<open>round(x, 8)\<close>: ties go to the even last digit.\<close>

definition round_half_even :: "real \<Rightarrow> int" where
  "round_half_even x =
     (let f = \<lfloor>x\<rfloor>; r = x - of_int f in
      if r < 1 / 2 then f else if r > 1 / 2 then f + 1 else if even f then f else f + 1)"

definition round8 :: "real \<Rightarrow> real" where
  "round8 x = of_int (round_half_even (x * 100000000)) / 100000000"

definition record_equity :: "feed \<Rightarrow> instant \<Rightarrow> broker \<Rightarrow> broker" where
  "record_equity fd t b0 =
     (let b = mark_to_market fd t b0;
          v = total_value b;
          gross = sum_of (\<lambda>(k, p). \<bar>market_value p\<bar>) (positions b);
          net = portfolio_value (positions b);
          pt = \<lparr>eq_time = time_iso t, eq_value = round8 v, eq_cash = round8 (available_cash b),
                eq_gross = (if v \<noteq> 0 then gross / v else 0), eq_net = (if v \<noteq> 0 then net / v else 0)\<rparr>
      in b\<lparr>equity_curve := equity_curve b @ [pt],
           holdings := holdings b @ [(pt, map (\<lambda>(k, p).
             (k, p, if v \<noteq> 0 then market_value p / v else 0)) (positions b))]\<rparr>)"

end
