(* ===== verification/BrokerSteps.thy ===== *)
theory BrokerSteps
  imports Broker
begin

text \<open>
  The broker as a transition system: the primitive effects of its operations, and the proof that
  every public operation is a path of them. An invariant of the primitive steps is then an
  invariant of the broker.
\<close>

subsection \<open>Primitive effects\<close>

definition fill_broker ::
  "order_id \<Rightarrow> order_intent \<Rightarrow> instant \<Rightarrow> position \<Rightarrow> real \<Rightarrow> fill_plan \<Rightarrow> broker \<Rightarrow> broker" where
  "fill_broker oid o' t cur op f b =
     (let b1 = settle o' t cur f b;
          x = execution_of oid o' t cur op f (commission b1) (total_value b1)
      in b1\<lparr>executions := executions b1 @ [x],
            trades := record_closed_trade x (amount cur) (avg_cost cur) (amount cur + fp_delta f)
                        (trades b1)\<rparr>)"

definition absorb_cash :: "real \<Rightarrow> broker \<Rightarrow> broker" where
  "absorb_cash d b = b\<lparr>liquidation_adjustment := liquidation_adjustment b + d,
                       available_cash := available_cash b + d\<rparr>"

inductive broker_step :: "feed \<Rightarrow> broker \<Rightarrow> broker \<Rightarrow> bool" for fd where
  mark: "broker_step fd b (mark_to_market fd t b)"
| next_number: "broker_step fd b (b\<lparr>order_sequence := n\<rparr>)"
| log: "occurrences e = 1 \<Longrightarrow> broker_step fd b (b\<lparr>book := fst (append_order_event e c (book b))\<rparr>)"
| release: "broker_step fd b (b\<lparr>book := release_resting refs (book b)\<rparr>)"
| fill: "cur = current_position b o' \<Longrightarrow> 0 < op \<Longrightarrow> equity = total_value b \<Longrightarrow>
     br = bar_at fd (o_symbol o') t \<Longrightarrow>
     plan_order b o' br op cur equity (sizing_price o' op) target = Fill f \<Longrightarrow>
     broker_step fd b (fill_broker oid o' t cur op f b)"
| protect_drop: "broker_step fd b (b\<lparr>protections := dict_pop k (protections b)\<rparr>)"
| protect_sync: "map_of (positions b) k = Some p \<Longrightarrow> map_of (protections b) k = Some s \<Longrightarrow>
     broker_step fd b (b\<lparr>protections := dict_set k (fst (sync_protection p t br s)) (protections b)\<rparr>)"
| protect_event: "broker_step fd b (b\<lparr>protection_events := ds\<rparr>)"
| rebalance: "broker_step fd b (b\<lparr>rebalances := rs\<rparr>)"
| equity_record: "broker_step fd b (b\<lparr>equity_curve := es, holdings := hs\<rparr>)"
| absorb: "d = max 0 (- available_cash b) \<Longrightarrow> broker_step fd b (absorb_cash d b)"
| bankrupt_step: "broker_step fd b (b\<lparr>total_value := v, bankrupt := True, liquidation_events := ls\<rparr>)"

abbreviation broker_path :: "feed \<Rightarrow> broker \<Rightarrow> broker \<Rightarrow> bool" where
  "broker_path fd \<equiv> (broker_step fd)\<^sup>*\<^sup>*"

lemmas path1 = r_into_rtranclp
lemmas path_trans = rtranclp_trans

lemma path_step: "broker_path fd a b \<Longrightarrow> broker_step fd b c \<Longrightarrow> broker_path fd a c"
  by (rule rtranclp.rtrancl_into_rtrancl)

text \<open>An invariant of the steps holds along every path.\<close>

lemma path_invariant:
  assumes "broker_path fd b b'" "P b" "\<And>x y. broker_step fd x y \<Longrightarrow> P x \<Longrightarrow> P y"
  shows "P b'"
  using assms(1,2) by (induction rule: rtranclp_induct) (auto intro: assms(3))

subsection \<open>Operations are paths\<close>

lemma log_event_broker:
  "bt_broker (log_event e c bt) =
     (bt_broker bt)\<lparr>book := fst (append_order_event e c (book (bt_broker bt)))\<rparr>"
  by (simp add: log_event_def split: prod.splits)

lemma defer_broker [simp]: "bt_broker (defer_orders os bt) = bt_broker bt"
  by (simp add: defer_orders_def)

lemma log_path:
  "occurrences e = 1 \<Longrightarrow> broker_path fd (bt_broker bt) (bt_broker (log_event e c bt))"
  unfolding log_event_broker by (rule path1, rule broker_step.log)

lemma settle_book [simp]: "book (settle o' t cur f b) = book b"
  by (simp add: settle_def Let_def)

lemma book_fill_broker:
  "\<exists>e. occurrences e = 1 \<and> bt_broker (book_fill oid o' t cur op f bt) =
     (fill_broker oid o' t cur op f (bt_broker bt))
       \<lparr>book := fst (append_order_event e False (book (bt_broker bt)))\<rparr>"
proof -
  let ?x = "execution_of oid o' t cur op f (commission (settle o' t cur f (bt_broker bt)))
     (total_value (settle o' t cur f (bt_broker bt)))"
  let ?e = "order_event_of oid o' t (fill_status f) (fill_reason o' f)
     \<bar>fp_requested f\<bar> (x_quantity ?x) (fp_price f) (x_commission ?x)"
  have "bt_broker (book_fill oid o' t cur op f bt) = (fill_broker oid o' t cur op f (bt_broker bt))
       \<lparr>book := fst (append_order_event ?e False (book (bt_broker bt)))\<rparr>"
    by (simp add: book_fill_def Let_def log_event_broker fill_broker_def)
  then show ?thesis using occurrences_new by blast
qed

lemma fill_broker_book [simp]: "book (fill_broker oid o' t cur op f b) = book b"
  by (simp add: fill_broker_def Let_def)

lemma carry_out_path:
  assumes "0 < op" "cur = current_position (bt_broker bt) o'" "br = bar_at fd (o_symbol o') t"
  shows "broker_path fd (bt_broker bt)
    (bt_broker (carry_out oid o' t cur op sizing
       (plan_order (bt_broker bt) o' br op cur (total_value (bt_broker bt)) (sizing_price o' op) target) bt))"
proof (cases "plan_order (bt_broker bt) o' br op cur (total_value (bt_broker bt)) (sizing_price o' op) target")
  case (Fill f)
  let ?b = "bt_broker bt"
  obtain e where e: "occurrences e = 1" "bt_broker (book_fill oid o' t cur op f bt) =
      (fill_broker oid o' t cur op f ?b)\<lparr>book := fst (append_order_event e False (book ?b))\<rparr>"
    using book_fill_broker by blast
  have "broker_step fd ?b (fill_broker oid o' t cur op f ?b)"
    using assms Fill by (intro broker_step.fill) auto
  moreover have "broker_step fd (fill_broker oid o' t cur op f ?b)
      ((fill_broker oid o' t cur op f ?b)\<lparr>book := fst (append_order_event e False (book ?b))\<rparr>)"
    using broker_step.log[OF e(1), of fd "fill_broker oid o' t cur op f ?b" False] by simp
  ultimately show ?thesis unfolding Fill carry_out_def
    by (simp add: e(2))
qed (simp_all add: carry_out_def log_path)

text \<open>
  An order that is not a forged forced liquidation is only traded at a positive price; the
  broker's own liquidations carry a positive price override.
\<close>

definition sound_order :: "real dict \<Rightarrow> order_intent \<Rightarrow> bool" where
  "sound_order ov o' \<longleftrightarrow> \<not> is_forced o' \<or> (\<exists>p > 0. map_of ov (o_symbol o') = Some p)"

lemma block_reason_price:
  "block_reason b o' br price = Inr '''' \<Longrightarrow> \<exists>p. price = Some p \<and> 0 < p"
  by (auto simp: block_reason_def split: option.splits if_splits)

text \<open>The three ways through the handling of one order.\<close>

lemma number_order_broker:
  "bt_broker (number_order bt) = (bt_broker bt)\<lparr>order_sequence := order_sequence (bt_broker bt) + 1\<rparr>"
  by (simp add: number_order_def)

lemma exec_order_cases:
  assumes "exec_order fd t ov o' bt = Inr bt'"
  obtains (blocked) oid r where "\<not> is_forced o'" "r \<noteq> []"
      "block_reason (bt_broker (number_order bt)) o' (bar_at fd (o_symbol o') t)
         (open_price ov o' (bar_at fd (o_symbol o') t)) = Inr r"
      "bt' = block_order oid o' t r (number_order bt)"
    | (unpriced) oid w m where "is_forced o'" "open_price ov o' (bar_at fd (o_symbol o') t) = None"
      "m = (number_order bt)\<lparr>bt_broker := mark_to_market fd t (bt_broker (number_order bt)), bt_weights := w\<rparr>"
      "bt' = log_event (order_event_of oid o' t Rejected ''target_already_met'' 0 0 0 0) False m"
    | (traded) oid op target w b m where "open_price ov o' (bar_at fd (o_symbol o') t) = Some op"
      "is_forced o' \<or> 0 < op" "b = mark_to_market fd t (bt_broker (number_order bt))"
      "target_quantity b o' (current_position b o') (sizing_price o' op) (total_value b) = Inr target"
      "m = (number_order bt)\<lparr>bt_broker := b, bt_weights := w\<rparr>"
      "bt' = carry_out oid o' t (current_position b o') op (sizing_price o' op)
         (plan_order b o' (bar_at fd (o_symbol o') t) op (current_position b o') (total_value b)
            (sizing_price o' op) target) m"
proof -
  let ?m = "number_order bt" and ?br = "bar_at fd (o_symbol o') t"
  let ?oid = "(t, order_sequence (bt_broker ?m))"
  from assms obtain r where r: "(if is_forced o' then Inr '''' else
      block_reason (bt_broker ?m) o' ?br (open_price ov o' ?br)) = Inr r"
    and res: "(if r \<noteq> [] then Inr (block_order ?oid o' t r ?m)
      else case open_price ov o' ?br of None \<Rightarrow> trade_unpriced fd t ?oid o' ?m
           | Some op \<Rightarrow> trade_order fd t ?oid o' ?br op ?m) = Inr bt'"
    unfolding exec_order_def Let_def by (rule ebind_InrE) blast
  show ?thesis
  proof (cases "r = []")
    case False
    with r res show ?thesis by (intro blocked[of r ?oid]) (auto split: if_splits)
  next
    case True
    have priced: "is_forced o' \<or> (\<exists>p. open_price ov o' ?br = Some p \<and> 0 < p)"
      using r True block_reason_price by (auto split: if_splits)
    show ?thesis
    proof (cases "open_price ov o' ?br")
      case None
      with True res have "trade_unpriced fd t ?oid o' ?m = Inr bt'" by simp
      then show ?thesis using priced None
        by (auto simp: trade_unpriced_def Let_def split: if_splits elim!: ebind_InrE intro: unpriced)
    next
      case (Some op)
      with True res have "trade_order fd t ?oid o' ?br op ?m = Inr bt'" by simp
      then show ?thesis using priced Some
        by (auto simp: trade_order_def Let_def elim!: ebind_InrE intro: traded)
    qed
  qed
qed

lemma exec_order_path:
  assumes "exec_order fd t ov o' bt = Inr bt'" "sound_order ov o'"
  shows "broker_path fd (bt_broker bt) (bt_broker bt')"
proof -
  let ?n = "bt_broker (number_order bt)"
  have n: "broker_path fd (bt_broker bt) ?n"
    unfolding number_order_broker by (rule path1, rule broker_step.next_number)
  have mk: "broker_path fd ?n (mark_to_market fd t ?n)" by (rule path1, rule broker_step.mark)
  from assms(1) have "broker_path fd ?n (bt_broker bt')"
  proof (cases rule: exec_order_cases)
    case (blocked oid r)
    then show ?thesis
      using log_path[of "order_event_of oid o' t
          (if o_attempts o' \<ge> 4 then Rejected else Deferred) r 0 0 0 0" fd "number_order bt" False]
      by (simp add: block_order_def Let_def)
  next
    case (unpriced oid w m)
    then have "broker_path fd (mark_to_market fd t ?n) (bt_broker bt')"
      using log_path[of _ fd m False] by simp
    with mk show ?thesis by (rule path_trans)
  next
    case (traded oid op target w b m)
    have "0 < op"
      using traded(1,2) assms(2) by (auto simp: sound_order_def open_price_def)
    then have "broker_path fd (mark_to_market fd t ?n) (bt_broker bt')"
      using carry_out_path[of op "current_position b o'" m o' "bar_at fd (o_symbol o') t" fd t oid
          "sizing_price o' op" target] traded(3,5,6) by simp
    with mk show ?thesis by (rule path_trans)
  qed
  with n show ?thesis by (rule path_trans)
qed

lemma exec_orders_path:
  assumes "efold (exec_order fd t ov) os bt = Inr bt'" "\<forall>o' \<in> set os. sound_order ov o'"
  shows "broker_path fd (bt_broker bt) (bt_broker bt')"
  using assms
proof (induction os arbitrary: bt)
  case (Cons o' os)
  then obtain m where "exec_order fd t ov o' bt = Inr m" "efold (exec_order fd t ov) os m = Inr bt'"
    by (auto elim: ebind_InrE)
  with Cons show ?case by (auto intro: path_trans exec_order_path)
qed simp

lemma record_rebalance_path:
  "broker_path fd b (record_rebalance fd t e c w idx b)"
  unfolding record_rebalance_def Let_def
  by (rule rtranclp.rtrancl_into_rtrancl[OF path1[of "broker_step fd"]])
    (rule broker_step.mark, rule broker_step.rebalance)

lemma execute_path:
  assumes "execute fd t ov os b = Inr (b', ds)" "\<forall>o' \<in> set os. sound_order ov o'"
  shows "broker_path fd b b'"
proof (cases "os = []")
  case False
  let ?bt = "\<lparr>bt_broker = mark_to_market fd t b, bt_deferred = [], bt_weights = [], bt_events = []\<rparr>"
  from False assms(1) obtain bt where bt: "efold (exec_order fd t ov) os ?bt = Inr bt"
    and b': "b' = record_rebalance fd t (total_value (mark_to_market fd t b))
       (available_cash (mark_to_market fd t b)) (bt_weights bt) (bt_events bt) (bt_broker bt)"
    by (auto simp: execute_def Let_def elim!: ebind_InrE)
  have "broker_path fd b (mark_to_market fd t b)" by (rule path1, rule broker_step.mark)
  moreover have "broker_path fd (mark_to_market fd t b) (bt_broker bt)"
    using exec_orders_path[OF bt assms(2)] by simp
  ultimately show ?thesis unfolding b' by (meson record_rebalance_path path_trans)
qed (use assms(1) in \<open>simp add: execute_def\<close>)

lemma protection_reason_not_forced [simp]:
  "\<not> is_forced (plain_intent k TargetQuantity 0 (reason_name r) t side)"
  by (cases r) (simp_all add: is_forced_def plain_intent_def)

text \<open>
  An exit touches the protection and the size of its own leg only, so the states the loop
  took its snapshot of stay the current ones until their turn.
\<close>

definition held :: "position dict \<Rightarrow> string \<Rightarrow> real" where
  "held ps k = (case map_of ps k of None \<Rightarrow> 0 | Some p \<Rightarrow> amount p)"

lemma held_mark [simp]: "held (positions (mark_to_market fd t b)) k = held (positions b) k"
proof -
  have "map_of (map (\<lambda>(k, p). (k, mark_position fd t p)) ps) k = map_option (mark_position fd t) (map_of ps k)"
    for ps by (rule map_of_map_snd)
  then show ?thesis
    by (simp add: held_def mark_to_market_def mark_position_def Let_def split: option.splits)
qed

definition same_except :: "string \<Rightarrow> broker \<Rightarrow> broker \<Rightarrow> bool" where
  "same_except k b b' \<longleftrightarrow> (\<forall>j. j \<noteq> k \<longrightarrow> map_of (protections b') j = map_of (protections b) j \<and>
     held (positions b') j = held (positions b) j)"

lemma same_except_trans: "same_except k a b \<Longrightarrow> same_except k b c \<Longrightarrow> same_except k a c"
  by (simp add: same_except_def)

lemma same_except_fields [simp]:
  "same_except k b (mark_to_market fd t b)" "same_except k b (b\<lparr>book := x\<rparr>)"
  "same_except k b (b\<lparr>order_sequence := n\<rparr>)" "same_except k b b"
  "same_except k b (record_rebalance fd t e c w idx b)"
  by (simp_all add: same_except_def record_rebalance_def Let_def)
    (simp_all add: mark_to_market_def Let_def)

lemma protect_fill_other:
  "j \<noteq> order_key o' \<Longrightarrow> map_of (protect_fill o' t p price prot) j = map_of prot j"
  by (auto simp: protect_fill_def Let_def dict_simps split: option.splits)

lemma same_except_fill: "same_except (order_key o') b (fill_broker oid o' t cur op f b)"
  by (auto simp: same_except_def fill_broker_def settle_def held_def Let_def protect_fill_other dict_simps)

lemma same_except_log: "same_except k (bt_broker bt) (bt_broker (log_event e c bt))"
  by (simp add: log_event_broker)

lemma same_except_carry:
  "same_except (order_key o') (bt_broker bt) (bt_broker (carry_out oid o' t cur op sizing pl bt))"
proof (cases pl)
  case (Fill f)
  obtain e where e: "bt_broker (book_fill oid o' t cur op f bt) = (fill_broker oid o' t cur op f
      (bt_broker bt))\<lparr>book := fst (append_order_event e False (book (bt_broker bt)))\<rparr>"
    using book_fill_broker by blast
  have "same_except (order_key o') (bt_broker bt) (bt_broker (book_fill oid o' t cur op f bt))"
    unfolding e by (rule same_except_trans[OF same_except_fill same_except_fields(2)])
  then show ?thesis by (simp add: Fill carry_out_def)
qed (simp_all add: carry_out_def same_except_log)

lemma same_except_exec:
  assumes "exec_order fd t ov o' bt = Inr bt'"
  shows "same_except (order_key o') (bt_broker bt) (bt_broker bt')"
proof -
  let ?n = "bt_broker (number_order bt)"
  have n: "same_except k (bt_broker bt) ?n" for k
    unfolding number_order_broker by simp
  have mk: "same_except k ?n (mark_to_market fd t ?n)" for k by simp
  from assms have "same_except (order_key o') ?n (bt_broker bt')"
  proof (cases rule: exec_order_cases)
    case (blocked oid r)
    then show ?thesis by (simp add: block_order_def Let_def same_except_log)
  next
    case (unpriced oid w m)
    then show ?thesis using same_except_trans[OF mk] same_except_log[of _ m] by simp
  next
    case (traded oid op target w b m)
    then show ?thesis using same_except_trans[OF mk] same_except_carry[of o' m] by simp
  qed
  with n show ?thesis by (rule same_except_trans)
qed

lemma same_except_execute:
  assumes "execute fd t ov [o'] b = Inr (b', ds)"
  shows "same_except (order_key o') b b'"
proof -
  let ?m = "mark_to_market fd t b"
  from assms obtain bt where e: "exec_order fd t ov o'
      \<lparr>bt_broker = ?m, bt_deferred = [], bt_weights = [], bt_events = []\<rparr> = Inr bt"
    and b': "b' = record_rebalance fd t (total_value ?m) (available_cash ?m) (bt_weights bt)
       (bt_events bt) (bt_broker bt)"
    by (auto simp: execute_def Let_def elim!: ebind_InrE)
  have "same_except (order_key o') ?m (bt_broker bt)" using same_except_exec[OF e] by simp
  then show ?thesis unfolding b' by (meson same_except_fields same_except_trans)
qed

subsection \<open>Well-formed brokers\<close>

text \<open>
  The keys of the books, no dust position, positive costs (when slippage is below 100%), and a
  protection for open positions only, on the side the position has.
\<close>

definition params_ok :: "broker \<Rightarrow> bool" where
  "params_ok b \<longleftrightarrow> 1 \<le> leverage b \<and> 0 \<le> commission b \<and> 0 \<le> slippage b"

definition position_ok :: "real \<Rightarrow> string \<Rightarrow> position \<Rightarrow> bool" where
  "position_ok slip k p \<longleftrightarrow> k = position_key (pos_symbol p) (pos_side p) \<and> eps12 < \<bar>amount p\<bar> \<and>
     (slip < 1 \<longrightarrow> 0 < avg_cost p)"

definition guards_ok :: "position dict \<Rightarrow> protection_state dict \<Rightarrow> bool" where
  "guards_ok ps prot \<longleftrightarrow> (\<forall>k s. map_of prot k = Some s \<longrightarrow>
     (\<exists>p. map_of ps k = Some p \<and> ps_side s = side_name (amount p)))"

definition broker_wf :: "broker \<Rightarrow> bool" where
  "broker_wf b \<longleftrightarrow> params_ok b \<and> dict_wf (positions b) \<and> dict_wf (protections b) \<and>
     (\<forall>k p. map_of (positions b) k = Some p \<longrightarrow> position_ok (slippage b) k p) \<and>
     guards_ok (positions b) (protections b)"

lemma broker_wfD:
  assumes "broker_wf b"
  shows "map_of (positions b) k = Some p \<Longrightarrow> position_ok (slippage b) k p"
    and "map_of (protections b) k = Some s \<Longrightarrow>
      \<exists>p. map_of (positions b) k = Some p \<and> ps_side s = side_name (amount p)"
    and "params_ok b" "dict_wf (positions b)" "dict_wf (protections b)"
  using assms unfolding broker_wf_def guards_ok_def by blast+

lemma new_broker_wf: "broker_wf (new_broker c l f s)"
  by (simp add: broker_wf_def new_broker_def params_ok_def guards_ok_def)

lemma lot_size_pos: "0 < lot_size s br"
  by (simp add: lot_size_def Let_def)

lemma plan_order_fill:
  assumes "plan_order b o' br op cur equity sizing target = Fill f"
  shows "reference_price b o' br op (target - amount cur) = Some (fp_price f, fp_reference f)"
    and "fp_requested f = target - amount cur"
    and "fp_lot f = lot_size (o_symbol o') br"
    and "fp_cap f = (if is_forced o' then None else liquidity_cap br (fp_lot f))"
    and "(fp_delta f, fp_constraint f) =
      (let d = capped_by_liquidity (fp_cap f) (round_to_lot (fp_requested f) (fp_lot f)) in
       if is_forced o' then (d, '''')
       else feasible_delta b d cur (fp_price f) equity (fp_lot f) (order_key o'))"
    and "fp_lot f - eps12 \<le> \<bar>fp_delta f\<bar>"
    and "\<not> target_met o' cur target sizing"
    and "is_limit o' \<Longrightarrow> 0 < o_limit_price o'"
  using assms
  by (auto simp: plan_order_def Let_def split: if_splits option.splits prod.splits)

lemma limit_fill_price:
  "limit_fill d op hi lo l = Some (p, r) \<Longrightarrow>
     (p = op \<or> p = l) \<and> (0 < d \<longrightarrow> p \<le> l) \<and> (d < 0 \<longrightarrow> l \<le> p) \<and> d \<noteq> 0"
  by (auto simp: limit_fill_def split: if_splits)

lemma fill_price_positive:
  assumes "plan_order b o' br op cur equity sizing target = Fill f" "0 < op" "0 \<le> slippage b" "slippage b < 1"
  shows "0 < fp_price f"
proof (cases "is_limit o'")
  case True
  with plan_order_fill(1)[OF assms(1)] have "fp_price f = op \<or> fp_price f = o_limit_price o'"
    by (auto simp: reference_price_def dest: limit_fill_price)
  then show ?thesis using assms(2) plan_order_fill(8)[OF assms(1) True] by auto
next
  case False
  with plan_order_fill(1)[OF assms(1)] have
    "fp_price f = op * (if target - amount cur > 0 then 1 + slippage b else 1 - slippage b)"
    by (auto simp: reference_price_def)
  moreover have "0 < (if target - amount cur > 0 then 1 + slippage b else 1 - slippage b)"
    using assms(3,4) by simp
  ultimately show ?thesis using assms(2) by (simp only: mult_pos_pos)
qed

lemma next_cost_positive:
  assumes "eps12 < \<bar>a + d\<bar>" "0 < p" "a \<noteq> 0 \<Longrightarrow> 0 < c"
  shows "0 < next_average_cost a c d p"
proof -
  consider "a = 0" | "a \<noteq> 0" "0 < a * d" | "a \<noteq> 0" "\<not> 0 < a * d" by blast
  then show ?thesis
  proof cases
    case 1
    then have "d \<noteq> 0" using assms(1) by auto
    then show ?thesis using 1 assms(1,2) by (simp add: next_average_cost_def Let_def)
  next
    case 2
    with next_average_cost_between[OF 2(2) assms(1) assms(3) assms(2)] assms(2,3) show ?thesis by linarith
  next
    case 3
    then show ?thesis using assms by (auto simp: next_average_cost_def Let_def)
  qed
qed

lemma mark_lookup [simp]:
  "map_of (positions (mark_to_market fd t b)) k = map_option (mark_position fd t) (map_of (positions b) k)"
  by (simp add: mark_to_market_def Let_def map_of_map_snd)

lemma mark_keys [simp]: "map fst (positions (mark_to_market fd t b)) = map fst (positions b)"
  by (simp add: mark_to_market_def Let_def comp_def split_def)

lemma mark_position_fields [simp]:
  "amount (mark_position fd t p) = amount p" "avg_cost (mark_position fd t p) = avg_cost p"
  "pos_symbol (mark_position fd t p) = pos_symbol p" "pos_side (mark_position fd t p) = pos_side p"
  by (simp_all add: mark_position_def Let_def)

lemma mark_fields [simp]:
  "protections (mark_to_market fd t b) = protections b" "slippage (mark_to_market fd t b) = slippage b"
  "leverage (mark_to_market fd t b) = leverage b" "commission (mark_to_market fd t b) = commission b"
  "available_cash (mark_to_market fd t b) = available_cash b"
  "executions (mark_to_market fd t b) = executions b" "book (mark_to_market fd t b) = book b"
  "starting_cash (mark_to_market fd t b) = starting_cash b"
  "liquidation_adjustment (mark_to_market fd t b) = liquidation_adjustment b"
  "trades (mark_to_market fd t b) = trades b" "bankrupt (mark_to_market fd t b) = bankrupt b"
  by (simp_all add: mark_to_market_def Let_def)

lemma fill_fields:
  "leverage (fill_broker oid o' t cur op f b) = leverage b"
  "commission (fill_broker oid o' t cur op f b) = commission b"
  "slippage (fill_broker oid o' t cur op f b) = slippage b"
  "starting_cash (fill_broker oid o' t cur op f b) = starting_cash b"
  "liquidation_adjustment (fill_broker oid o' t cur op f b) = liquidation_adjustment b"
  "positions (fill_broker oid o' t cur op f b) =
     (let p = filled_position cur (fp_delta f) (fp_price f) in
      if \<bar>amount p\<bar> \<le> eps12 then dict_pop (order_key o') (positions b)
      else dict_set (order_key o') p (positions b))"
  "protections (fill_broker oid o' t cur op f b) =
     (let p = filled_position cur (fp_delta f) (fp_price f) in
      if \<bar>amount p\<bar> \<le> eps12 then dict_pop (order_key o') (protections b)
      else protect_fill o' t p (fp_price f) (protections b))"
  by (simp_all add: fill_broker_def settle_def Let_def)

lemma protect_fill_wf: "dict_wf prot \<Longrightarrow> dict_wf (protect_fill o' t p price prot)"
  by (auto simp: protect_fill_def Let_def dict_simps split: option.splits)

lemma scale_in_side [simp]: "ps_side (apply_scale_in e f sp tm s) = ps_side s"
  by (simp add: apply_scale_in_def Let_def split: option.splits)

lemma open_state_side [simp]: "ps_side (open_state k (side_name a) e sp t) = side_name a"
proof -
  have "py_lower ''long'' = ''long''" "py_lower ''short'' = ''short''" by code_simp+
  then show ?thesis by (simp add: open_state_def side_name_def)
qed

lemma protect_fill_side:
  "map_of (protect_fill o' t p price prot) (order_key o') = Some s \<Longrightarrow> ps_side s = side_name (amount p)"
  by (auto simp: protect_fill_def Let_def dict_simps split: option.splits if_splits)

lemma sync_side [simp]: "ps_side (fst (sync_protection p t br s)) = ps_side s"
  using extends_observe[of "s\<lparr>ps_entry := avg_cost p\<rparr>" Conservative
      "BarSeen t (Some (b_open br)) (Some (b_high br)) (Some (b_low br))"]
  by (simp add: sync_protection_def extends_def)

lemma current_position_key:
  "\<forall>k p. map_of (positions b) k = Some p \<longrightarrow> position_ok s k p \<Longrightarrow>
     position_key (pos_symbol (current_position b o')) (pos_side (current_position b o')) = order_key o'"
  by (auto simp: current_position_def fresh_position_def position_ok_def order_key_def side_simps
      split: option.splits)

lemma current_position_cost:
  "\<forall>k p. map_of (positions b) k = Some p \<longrightarrow> position_ok s k p \<Longrightarrow> s < 1 \<Longrightarrow>
     amount (current_position b o') \<noteq> 0 \<Longrightarrow> 0 < avg_cost (current_position b o')"
  by (auto simp: current_position_def fresh_position_def position_ok_def split: option.splits)

lemma fill_wf:
  assumes wf: "broker_wf b" and cur: "cur = current_position b o'" and op: "0 < op"
    and pl: "plan_order b o' br op cur equity sizing target = Fill f"
  shows "broker_wf (fill_broker oid o' t cur op f b)"
proof -
  let ?p = "filled_position cur (fp_delta f) (fp_price f)"
  have pos: "\<forall>k p. map_of (positions b) k = Some p \<longrightarrow> position_ok (slippage b) k p"
    and par: "params_ok b" using wf by (simp_all add: broker_wf_def)
  have new: "position_ok (slippage b) (order_key o') ?p" if "eps12 < \<bar>amount ?p\<bar>"
  proof -
    have "0 < avg_cost ?p" if "slippage b < 1"
    proof -
      have "0 < fp_price f"
        using fill_price_positive[OF pl op] par that by (simp add: params_ok_def)
      then show ?thesis using current_position_cost[OF pos that] \<open>eps12 < \<bar>amount ?p\<bar>\<close> cur
        by (simp add: filled_position_def next_cost_positive)
    qed
    then show ?thesis using current_position_key[OF pos] that cur
      by (simp add: position_ok_def filled_position_def)
  qed
  have g: "guards_ok (positions b) (protections b)" using wf by (simp add: broker_wf_def)
  show ?thesis
  proof (cases "\<bar>amount ?p\<bar> \<le> eps12")
    case True
    with wf g show ?thesis
      by (auto simp: broker_wf_def params_ok_def fill_fields dict_simps guards_ok_def)
  next
    case False
    have "guards_ok (dict_set (order_key o') ?p (positions b))
        (protect_fill o' t ?p (fp_price f) (protections b))"
      using g protect_fill_side[of o' t ?p "fp_price f" "protections b"]
      by (auto simp: guards_ok_def dict_simps protect_fill_other)
    with False wf new show ?thesis
      by (auto simp: broker_wf_def params_ok_def fill_fields dict_simps protect_fill_wf)
  qed
qed

lemma mark_wf: "broker_wf b \<Longrightarrow> broker_wf (mark_to_market fd t b)"
proof -
  assume wf: "broker_wf b"
  have "guards_ok (positions (mark_to_market fd t b)) (protections b)"
    unfolding guards_ok_def using broker_wfD(2)[OF wf] by fastforce
  moreover have "\<forall>k p. map_of (positions (mark_to_market fd t b)) k = Some p \<longrightarrow> position_ok (slippage b) k p"
    using broker_wfD(1)[OF wf] by (auto simp: position_ok_def)
  ultimately show ?thesis using wf
    unfolding broker_wf_def params_ok_def mark_keys mark_fields by blast
qed

lemma protect_drop_wf: "broker_wf b \<Longrightarrow> broker_wf (b\<lparr>protections := dict_pop k (protections b)\<rparr>)"
  by (simp add: broker_wf_def params_ok_def guards_ok_def dict_simps)

lemma protect_sync_wf:
  "broker_wf b \<Longrightarrow> map_of (protections b) k = Some s \<Longrightarrow>
     broker_wf (b\<lparr>protections := dict_set k (fst (sync_protection p t br s)) (protections b)\<rparr>)"
  using broker_wfD(2)[of b k s]
  by (simp add: broker_wf_def params_ok_def guards_ok_def dict_simps)

lemma step_wf: "broker_step fd b b' \<Longrightarrow> broker_wf b \<Longrightarrow> broker_wf b'"
proof (induction rule: broker_step.induct)
  case (fill cur b o' op equity br t target f oid)
  then show ?case by (auto intro: fill_wf)
next
  case (protect_sync b k p s t br)
  then show ?case by (simp add: protect_sync_wf)
next
  case (mark b t)
  then show ?case by (rule mark_wf)
next
  case (protect_drop b k)
  then show ?case by (rule protect_drop_wf)
qed (simp_all add: broker_wf_def params_ok_def absorb_cash_def)

lemma path_wf: "broker_path fd b b' \<Longrightarrow> broker_wf b \<Longrightarrow> broker_wf b'"
  by (rule path_invariant[where P = broker_wf]) (auto intro: step_wf)

subsection \<open>Protection exits are paths\<close>

lemma protect_position_path:
  assumes "protect_position fd t (k, s) (b, ds) = Inr (b', ds')" "broker_wf b"
    "map_of (protections b) k = Some s"
  shows "broker_path fd b b' \<and> same_except k b b'"
proof -
  from broker_wfD(2)[OF assms(2,3)] obtain p where p: "map_of (positions b) k = Some p" by blast
  have k: "k = position_key (pos_symbol p) (pos_side p)"
    using broker_wfD(1)[OF assms(2) p] by (simp add: position_ok_def)
  show ?thesis
  proof (cases "bar_at fd (pos_symbol p) t")
    case None
    with p assms(1) show ?thesis by (simp add: protect_position_def)
  next
    case (Some br)
    obtain s' d where sd: "sync_protection p t br s = (s', d)" by fastforce
    let ?b = "b\<lparr>protections := dict_set k s' (protections b)\<rparr>"
    have "broker_step fd b ?b" using broker_step.protect_sync[OF p assms(3), of fd t br] sd by simp
    then have p1: "broker_path fd b ?b" by (rule path1)
    have s1: "same_except k b ?b" by (simp add: same_except_def dict_simps)
    show ?thesis
    proof (cases d)
      case None
      with Some p sd assms(1) p1 s1 show ?thesis by (simp add: protect_position_def)
    next
      case (Some dec)
      let ?o = "plain_intent (pos_symbol p) TargetQuantity 0 (reason_name (d_reason dec)) (Some t) (pos_side p)"
      from Some \<open>bar_at fd (pos_symbol p) t = Some br\<close> p sd assms(1)
      obtain b1 os where ex: "execute fd t [(pos_symbol p, d_price dec)] [?o] ?b = Inr (b1, os)"
        and b': "b' = b1 \<or> b' = b1\<lparr>protections := dict_pop k (protections b1)\<rparr> \<or>
           b' = b1\<lparr>protection_events := protection_events b1 @ [dec]\<rparr>"
        by (auto simp: protect_position_def split: prod.splits if_splits elim!: ebind_InrE)
      have "broker_path fd ?b b1"
        using ex by (rule execute_path) (simp add: sound_order_def)
      then have "broker_path fd b b1" using p1 by (rule path_trans[rotated])
      moreover have "order_key ?o = k" by (simp add: k plain_intent_def order_key_def)
      then have "same_except k ?b b1" using same_except_execute[OF ex] by simp
      with s1 have "same_except k b b1" by (rule same_except_trans)
      ultimately show ?thesis using b'
        by (auto intro: path_step broker_step.protect_drop broker_step.protect_event
            simp: same_except_def dict_simps)
    qed
  qed
qed

lemma protect_positions_path:
  assumes "efold (protect_position fd t) ps acc = Inr acc'" "broker_wf (fst acc)"
    "dict_wf ps" "\<forall>(k, s) \<in> set ps. map_of (protections (fst acc)) k = Some s"
  shows "broker_path fd (fst acc) (fst acc')"
  using assms
proof (induction ps arbitrary: acc)
  case (Cons ks ps)
  obtain k s where ks: "ks = (k, s)" by (cases ks)
  from Cons.prems(1) obtain m where m: "protect_position fd t (k, s) acc = Inr m"
    "efold (protect_position fd t) ps m = Inr acc'"
    by (auto simp: ks elim: ebind_InrE)
  have pm: "broker_path fd (fst acc) (fst m)" "same_except k (fst acc) (fst m)"
    using protect_position_path[of fd t k s "fst acc" "snd acc" "fst m" "snd m"] m(1) Cons.prems(2,4)
    by (auto simp: ks)
  have "map_of (protections (fst m)) j = Some u" if "(j, u) \<in> set ps" for j u
  proof -
    have "j \<noteq> k" using that Cons.prems(3) by (force simp: ks)
    then show ?thesis using pm(2) that Cons.prems(4) by (auto simp: same_except_def)
  qed
  then have "broker_path fd (fst m) (fst acc')"
    using Cons.IH[OF m(2) path_wf[OF pm(1) Cons.prems(2)]] Cons.prems(3) by (auto simp: ks)
  with pm(1) show ?case by (rule path_trans)
qed simp

lemma process_protections_path:
  assumes "process_protections fd t b = Inr (b', ds)" "broker_wf b"
  shows "broker_path fd b b'"
proof -
  have "dict_wf (protections b)" using assms(2) by (simp add: broker_wf_def)
  then have "\<forall>(k, s) \<in> set (protections b). map_of (protections b) k = Some s"
    by (auto intro: map_of_is_SomeI)
  then show ?thesis
    using protect_positions_path[of fd t "protections b" "(b, [])" "(b', ds)"] assms
    by (simp add: process_protections_def broker_wf_def)
qed

subsection \<open>Liquidation and records are paths\<close>

lemma foldl_dict_set_mem:
  "map_of (foldl (\<lambda>d (k, v). dict_set k v d) d kvs) k = Some v \<Longrightarrow>
     map_of d k = Some v \<or> (k, v) \<in> set kvs"
proof (induction kvs arbitrary: d)
  case (Cons kv kvs)
  obtain j w where kv: "kv = (j, w)" by (cases kv)
  from Cons.IH[of "dict_set j w d"] Cons.prems show ?case
    by (auto simp: kv dict_simps split: if_splits)
qed simp

lemma foldl_dict_set_dom:
  "k \<in> fst ` set kvs \<or> map_of d k \<noteq> None \<Longrightarrow> map_of (foldl (\<lambda>d (k, v). dict_set k v d) d kvs) k \<noteq> None"
proof (induction kvs arbitrary: d)
  case (Cons kv kvs)
  obtain j w where kv: "kv = (j, w)" by (cases kv)
  have "k \<in> fst ` set kvs \<or> map_of (dict_set j w d) k \<noteq> None"
    using Cons.prems by (auto simp: kv dict_simps)
  then show ?case using Cons.IH by (simp add: kv)
qed auto

lemma liquidation_price_positive: "liquidation_price fd t p = Some v \<Longrightarrow> 0 < v"
  unfolding liquidation_price_def Let_def by (simp split: if_splits)

lemma liquidation_orders_mem:
  assumes "(o', k, v) \<in> set (liquidation_orders fd t b)"
  shows "0 < v \<and> o_symbol o' = k"
proof -
  from assms obtain j p where "(o', k, v) \<in> set (case liquidation_price fd t p of
      None \<Rightarrow> [] | Some price \<Rightarrow> [(plain_intent (pos_symbol p) TargetQuantity 0
        ''margin_liquidation'' (Some t) (pos_side p), (pos_symbol p, price))])"
    by (auto simp only: liquidation_orders_def set_concat set_map UN_iff image_iff split_beta bex_simps)
  then show ?thesis
    by (cases "liquidation_price fd t p")
      (simp_all add: liquidation_price_positive plain_intent_def)
qed

lemma liquidation_orders_sound:
  assumes "o' \<in> set (map fst (liquidation_orders fd t b))"
  shows "sound_order (foldl (\<lambda>d (k, v). dict_set k v d) [] (map snd (liquidation_orders fd t b))) o'"
proof -
  let ?los = "liquidation_orders fd t b"
  from assms obtain k v where m: "(o', k, v) \<in> set ?los" by auto
  then have k: "o_symbol o' = k" using liquidation_orders_mem by blast
  have "k \<in> fst ` set (map snd ?los)" using m by force
  then obtain p where p: "map_of (foldl (\<lambda>d (k, v). dict_set k v d) [] (map snd ?los)) k = Some p"
    using foldl_dict_set_dom[of k "map snd ?los" "[]"] by auto
  then have "(k, p) \<in> set (map snd ?los)"
    using foldl_dict_set_mem by fastforce
  then have "0 < p" using liquidation_orders_mem by force
  with p k show ?thesis by (auto simp: sound_order_def)
qed

lemma absorb_deficit_path: "broker_path fd b (absorb_deficit fd t e n b)"
proof -
  let ?d = "max 0 (- available_cash b)"
  let ?b1 = "if ?d \<noteq> 0 then absorb_cash ?d b else b"
  have "broker_path fd b ?b1"
    by (auto intro!: path1 broker_step.absorb)
  moreover have "broker_path fd ?b1 (mark_to_market fd t ?b1)"
    by (rule path1, rule broker_step.mark)
  ultimately have "broker_path fd b (mark_to_market fd t ?b1)" by (rule path_trans)
  then show ?thesis
    unfolding absorb_deficit_def Let_def absorb_cash_def[symmetric]
    by (rule path_step) (rule broker_step.bankrupt_step)
qed

lemma liquidate_path:
  assumes "liquidate_if_insolvent fd t b = Inr (b', r)"
  shows "broker_path fd b b'"
proof -
  let ?m = "mark_to_market fd t b"
  let ?los = "liquidation_orders fd t ?m"
  let ?ov = "foldl (\<lambda>d (k, v). dict_set k v d) [] (map snd ?los)"
  have m: "broker_path fd b ?m" by (rule path1, rule broker_step.mark)
  consider "b' = b" | "b' = ?m" | b1 os where
    "execute fd t ?ov (map fst ?los) ?m = Inr (b1, os)" "b' = absorb_deficit fd t (total_value ?m) (length ?los) b1"
  proof -
    from assms consider "b' = b" | "b' = ?m" | "ebind (execute fd t ?ov (map fst ?los) ?m)
      (\<lambda>(b1, _). Inr (absorb_deficit fd t (total_value ?m) (length ?los) b1, True)) = Inr (b', r)"
      unfolding liquidate_if_insolvent_def Let_def by (simp split: if_splits)
    then show ?thesis
    proof cases
      case 3
      then obtain x where "execute fd t ?ov (map fst ?los) ?m = Inr x"
        "(case x of (b1, _) \<Rightarrow> Inr (absorb_deficit fd t (total_value ?m) (length ?los) b1, True))
           = (Inr (b', r) :: runtime_error + broker \<times> bool)"
        by (rule ebind_InrE)
      then show ?thesis using that(3) by (cases x) simp
    qed (use that in blast)+
  qed
  then show ?thesis
  proof cases
    case 3
    have "broker_path fd ?m b1"
      using 3(1) liquidation_orders_sound by (rule execute_path[OF _ ballI])
    with m 3(2) show ?thesis using absorb_deficit_path path_trans by metis
  qed (use m in auto)
qed

lemma record_equity_path: "broker_path fd b (record_equity fd t b)"
  unfolding record_equity_def Let_def
  by (rule path_step[OF path1[of "broker_step fd"]])
    (rule broker_step.mark, rule broker_step.equity_record)

lemmas operation_paths = execute_path process_protections_path liquidate_path record_equity_path

end
