(* ===== verification/Sizing.thy ===== *)
theory Sizing
  imports BrokerSteps
begin

text \<open>
  The laws of the broker's sizing rules (\<open>_round_to_lot\<close>, \<open>_liquidity_cap\<close>, \<open>_feasible_delta\<close> and
  the fill planned from them): what a single fill can and cannot do to the account.
\<close>

subsection \<open>Lots\<close>

lemma round_units:
  assumes "0 < lot"
  shows "0 \<le> \<lfloor>\<bar>v\<bar> / lot + eps8\<rfloor>" "of_int \<lfloor>\<bar>v\<bar> / lot + eps8\<rfloor> * lot \<le> \<bar>v\<bar> + eps8 * lot"
    "\<bar>v\<bar> - lot < of_int \<lfloor>\<bar>v\<bar> / lot + eps8\<rfloor> * lot"
proof -
  let ?q = "\<bar>v\<bar> / lot"
  have q: "0 \<le> ?q" "?q * lot = \<bar>v\<bar>" using assms by simp_all
  then show "0 \<le> \<lfloor>?q + eps8\<rfloor>" by (simp add: add_nonneg_nonneg)
  have "of_int \<lfloor>?q + eps8\<rfloor> * lot \<le> (?q + eps8) * lot"
    using assms by (intro mult_right_mono) auto
  then show "of_int \<lfloor>?q + eps8\<rfloor> * lot \<le> \<bar>v\<bar> + eps8 * lot"
    using q(2) by (simp add: distrib_right)
  have "?q - 1 < of_int \<lfloor>?q + eps8\<rfloor>"
    using floor_correct[of "?q + eps8"] eps_pos(3) by linarith
  then have "(?q - 1) * lot < of_int \<lfloor>?q + eps8\<rfloor> * lot" using assms by (intro mult_strict_right_mono)
  then show "\<bar>v\<bar> - lot < of_int \<lfloor>?q + eps8\<rfloor> * lot" using q(2) by (simp add: left_diff_distrib)
qed

lemma abs_round_to_lot:
  "0 < lot \<Longrightarrow> \<bar>round_to_lot v lot\<bar> = of_int \<lfloor>\<bar>v\<bar> / lot + eps8\<rfloor> * lot"
  using round_units(1)[of lot v] by (auto simp: round_to_lot_def Let_def)

lemma round_to_lot_sign:
  assumes "0 < lot"
  shows "0 \<le> v \<Longrightarrow> 0 \<le> round_to_lot v lot" "v \<le> 0 \<Longrightarrow> round_to_lot v lot \<le> 0"
proof -
  have "\<lfloor>\<bar>0\<bar> / lot + eps8\<rfloor> = 0" by (simp add: eps8_def floor_eq_iff)
  then show "0 \<le> v \<Longrightarrow> 0 \<le> round_to_lot v lot" "v \<le> 0 \<Longrightarrow> round_to_lot v lot \<le> 0"
    using assms round_units(1)[OF assms, of v]
    by (auto simp: round_to_lot_def Let_def copysign_def order.order_iff_strict)
qed

text \<open>
  rounding to the lot returns a whole number of lots on the side of the request, overshoots
  by at most a hundred-millionth of a lot and stays less than one lot below it.
\<close>

theorem round_to_lot_law:
  assumes "0 < lot"
  shows "\<exists>n :: int. 0 \<le> n \<and> \<bar>round_to_lot v lot\<bar> = of_int n * lot \<and> 0 \<le> v * round_to_lot v lot \<and>
    \<bar>round_to_lot v lot\<bar> \<le> \<bar>v\<bar> + eps8 * lot \<and> \<bar>v\<bar> - lot < \<bar>round_to_lot v lot\<bar>"
proof -
  have "0 \<le> v * round_to_lot v lot"
    using round_to_lot_sign[OF assms, of v] by (cases "0 \<le> v") (auto simp: mult_nonpos_nonpos)
  with round_units[OF assms, of v] abs_round_to_lot[OF assms, of v] show ?thesis
    by (intro exI[of _ "\<lfloor>\<bar>v\<bar> / lot + eps8\<rfloor>"]) simp
qed

lemma round_to_lot_le: "0 < lot \<Longrightarrow> \<bar>round_to_lot v lot\<bar> \<le> \<bar>v\<bar> + eps8 * lot"
  using round_units(2) abs_round_to_lot by metis

theorem round_to_lot_law_witness:
  "(0 :: real) < 100 \<and> round_to_lot (-250) 100 = -200 \<and>
   \<bar>round_to_lot (-250) 100\<bar> \<le> \<bar>-250\<bar> + eps8 * 100"
proof -
  have "\<lfloor>(5 :: real) / 2 + eps8\<rfloor> = 2" by (simp add: floor_eq_iff eps8_def)
  then have "round_to_lot (-250) 100 = -200" by (simp add: round_to_lot_def copysign_def)
  then show ?thesis using round_to_lot_law[of 100 "-250"] by auto
qed

lemma liquidity_cap_range:
  assumes "0 < lot" "liquidity_cap (Some br) lot = Some c"
  shows "0 \<le> c" "c \<le> b_volume br / 10 + eps10 * lot"
proof -
  let ?u = "\<lfloor>b_volume br / 10 / lot + eps10\<rfloor>"
  from assms(2) have v: "0 < b_volume br" and c: "c = of_int ?u * lot"
    by (auto simp: liquidity_cap_def Let_def split: if_splits)
  have "0 \<le> b_volume br / 10 / lot" using v assms(1) by simp
  then have "0 \<le> ?u" by (simp add: add_nonneg_nonneg)
  then show "0 \<le> c" using c assms(1) by simp
  have "of_int ?u * lot \<le> (b_volume br / 10 / lot + eps10) * lot"
    using assms(1) by (intro mult_right_mono) auto
  then show "c \<le> b_volume br / 10 + eps10 * lot"
    using c assms(1) by (simp add: distrib_right)
qed

lemma liquidity_cap_nonneg: "0 < lot \<Longrightarrow> liquidity_cap br lot = Some c \<Longrightarrow> 0 \<le> c"
  by (cases br) (auto intro: liquidity_cap_range simp: liquidity_cap_def)

lemma capped_by_liquidity_law:
  "(\<forall>c. cap = Some c \<longrightarrow> 0 \<le> c) \<Longrightarrow>
     \<bar>capped_by_liquidity cap d\<bar> \<le> \<bar>d\<bar> \<and> (\<forall>c. cap = Some c \<longrightarrow> \<bar>capped_by_liquidity cap d\<bar> \<le> c) \<and>
     (0 \<le> d \<longrightarrow> 0 \<le> capped_by_liquidity cap d) \<and> (d \<le> 0 \<longrightarrow> capped_by_liquidity cap d \<le> 0)"
  by (auto simp: capped_by_liquidity_def copysign_def split: option.splits)

subsection \<open>Caps\<close>

lemma cash_capped_law:
  assumes "0 < price" "0 \<le> commission b" "fst (cash_capped b d price equity) = f"
  shows "d \<le> 0 \<Longrightarrow> f = d"
    and "0 < d \<Longrightarrow> 0 \<le> f \<and> f \<le> d \<and>
      f * (price * (1 + commission b)) \<le> max 0 (available_cash b - cash_floor b equity)"
proof -
  show "d \<le> 0 \<Longrightarrow> f = d" using assms(3) by (auto simp: cash_capped_def)
  assume d: "0 < d"
  let ?q = "price * (1 + commission b)" and ?s = "max 0 (available_cash b - cash_floor b equity)"
  let ?cap = "?s / max ?q eps12"
  have q: "0 < ?q" using assms(1,2) by simp
  have m: "0 < max ?q eps12" by (simp add: less_max_iff_disj)
  have f: "f = min d ?cap" using assms(3) d by (auto simp: cash_capped_def Let_def split: if_splits)
  have cap0: "0 \<le> ?cap" using m by (intro divide_nonneg_pos) auto
  have "f * ?q \<le> ?cap * ?q" using f q by (intro mult_right_mono) auto
  also have "\<dots> \<le> ?cap * max ?q eps12" using cap0 by (intro mult_left_mono) auto
  also have "\<dots> = ?s" using m by simp
  finally show "0 \<le> f \<and> f \<le> d \<and> f * ?q \<le> ?s" using f d cap0 by simp
qed

text \<open>With the position inside its cap, the caps only ever shrink a request towards zero.\<close>

lemma feasible_delta_law:
  assumes "feasible_delta b d cur price equity lot key = (r, why)" "0 < price" "0 \<le> commission b"
    and "0 < lot" and cap: "\<bar>amount cur\<bar> \<le> max_target b price equity key"
  obtains f where "r = round_to_lot f lot" "0 \<le> d \<Longrightarrow> 0 \<le> f \<and> f \<le> d" "d \<le> 0 \<Longrightarrow> d \<le> f \<and> f \<le> 0"
    "\<bar>amount cur + f\<bar> \<le> max_target b price equity key + eps12"
    "0 < d \<Longrightarrow> f * (price * (1 + commission b)) \<le> max 0 (available_cash b - cash_floor b equity)"
proof -
  let ?cap = "max_target b price equity key" and ?a = "amount cur"
  obtain f1 r1 where c1: "cash_capped b d price equity = (f1, r1)" by fastforce
  note c = cash_capped_law[OF assms(2,3), of d equity f1, simplified c1 fst_conv, OF refl]
  define f where "f = (if \<bar>?a + f1\<bar> > ?cap + eps12 then copysign ?cap (?a + f1) - ?a else f1)"
  have cap0: "0 \<le> ?cap" using cap by linarith
  have up: "0 \<le> f \<and> f \<le> f1" if "0 \<le> f1"
  proof (cases "\<bar>?a + f1\<bar> > ?cap + eps12")
    case True
    then have "?cap < ?a + f1" using cap that eps_pos(1) by linarith
    then have "f = ?cap - ?a" using True cap0 by (simp add: f_def copysign_def)
    then show ?thesis using \<open>?cap < ?a + f1\<close> cap by linarith
  qed (use that in \<open>simp add: f_def\<close>)
  have down: "f1 \<le> f \<and> f \<le> 0" if "f1 \<le> 0"
  proof (cases "\<bar>?a + f1\<bar> > ?cap + eps12")
    case True
    then have "?a + f1 < - ?cap" using cap that eps_pos(1) by linarith
    then have "f = - ?cap - ?a" using True cap0 by (simp add: f_def copysign_def)
    then show ?thesis using \<open>?a + f1 < - ?cap\<close> cap by linarith
  qed (use that in \<open>simp add: f_def\<close>)
  have pos: "0 \<le> f \<and> f \<le> d" if "0 \<le> d"
  proof (cases "d = 0")
    case True
    then have "f1 = 0" using c(1) by simp
    then show ?thesis using up True by simp
  next
    case False
    then have "0 \<le> f1" "f1 \<le> d" using c(2) that by auto
    then show ?thesis using up by auto
  qed
  have neg: "d \<le> f \<and> f \<le> 0" if "d \<le> 0"
    using c(1)[OF that] down that by simp
  have lim: "\<bar>?a + f\<bar> \<le> ?cap + eps12"
    using cap0 by (auto simp: f_def)
  have spend: "f * (price * (1 + commission b)) \<le> max 0 (available_cash b - cash_floor b equity)" if "0 < d"
  proof -
    have "f * (price * (1 + commission b)) \<le> f1 * (price * (1 + commission b))"
      using up c(2)[OF that] assms(2,3) by (intro mult_right_mono) auto
    then show ?thesis using c(2)[OF that] by linarith
  qed
  have "\<not> (d \<noteq> 0 \<and> sign_of f \<noteq> 0 \<and> sign_of f \<noteq> sign_of d)"
    using pos neg by (cases "0 \<le> d") (auto simp: sign_of_def)
  then have "r = round_to_lot f lot"
    using assms(1) unfolding feasible_delta_def c1 Let_def split_conv
    by (auto simp: f_def split: if_splits)
  then show ?thesis using that pos neg lim spend by blast
qed

text \<open>What a plan can do when the position it starts from respects the exposure cap.\<close>

lemma plan_fill_law:
  assumes pl: "plan_order b o' br op cur equity sizing target = Fill f"
    and unforced: "\<not> is_forced o'" and price: "0 < fp_price f" and par: "params_ok b"
    and cap: "\<bar>amount cur\<bar> \<le> max_target b (fp_price f) equity (order_key o')"
  shows "\<exists>g. fp_delta f = round_to_lot g (fp_lot f) \<and>
    (0 \<le> fp_requested f \<longrightarrow> 0 \<le> g) \<and> (fp_requested f \<le> 0 \<longrightarrow> g \<le> 0) \<and>
    \<bar>g\<bar> \<le> \<bar>fp_requested f\<bar> + eps8 * fp_lot f \<and> (\<forall>c. fp_cap f = Some c \<longrightarrow> \<bar>g\<bar> \<le> c) \<and>
    \<bar>amount cur + g\<bar> \<le> max_target b (fp_price f) equity (order_key o') + eps12 \<and>
    (0 < g \<longrightarrow> g * (fp_price f * (1 + commission b)) \<le> max 0 (available_cash b - cash_floor b equity))"
proof -
  have lot: "0 < fp_lot f" using plan_order_fill(3)[OF pl] lot_size_pos by simp
  define d where "d = capped_by_liquidity (fp_cap f) (round_to_lot (fp_requested f) (fp_lot f))"
  have "feasible_delta b d cur (fp_price f) equity (fp_lot f) (order_key o') = (fp_delta f, fp_constraint f)"
    using plan_order_fill(5)[OF pl] unforced by (simp add: d_def Let_def)
  then obtain g where g: "fp_delta f = round_to_lot g (fp_lot f)" "0 \<le> d \<Longrightarrow> 0 \<le> g \<and> g \<le> d"
    "d \<le> 0 \<Longrightarrow> d \<le> g \<and> g \<le> 0" "\<bar>amount cur + g\<bar> \<le> max_target b (fp_price f) equity (order_key o') + eps12"
    "0 < d \<Longrightarrow> g * (fp_price f * (1 + commission b)) \<le> max 0 (available_cash b - cash_floor b equity)"
    using price par lot cap by (auto elim!: feasible_delta_law simp: params_ok_def)
  have caps: "\<forall>c. fp_cap f = Some c \<longrightarrow> 0 \<le> c"
    using plan_order_fill(4)[OF pl] unforced lot liquidity_cap_nonneg by auto
  note ld = capped_by_liquidity_law[OF caps, of "round_to_lot (fp_requested f) (fp_lot f)", folded d_def]
  have sg: "0 \<le> fp_requested f \<Longrightarrow> 0 \<le> d" "fp_requested f \<le> 0 \<Longrightarrow> d \<le> 0"
    using ld round_to_lot_sign[OF lot, of "fp_requested f"] by auto
  have gd: "\<bar>g\<bar> \<le> \<bar>d\<bar>" using g(2,3) by (cases "0 \<le> d") auto
  show ?thesis
  proof (intro exI[of _ g] conjI impI)
    show "\<bar>g\<bar> \<le> \<bar>fp_requested f\<bar> + eps8 * fp_lot f"
      using gd ld round_to_lot_le[OF lot, of "fp_requested f"] by linarith
    show "\<forall>c. fp_cap f = Some c \<longrightarrow> \<bar>g\<bar> \<le> c" using gd ld by force
    show "g * (fp_price f * (1 + commission b)) \<le> max 0 (available_cash b - cash_floor b equity)" if "0 < g"
      using that g(3,5) by (cases "0 < d") auto
  qed (use sg g(1-4) in auto)
qed

lemma between_abs: "0 \<le> r \<Longrightarrow> r \<le> g + e \<Longrightarrow> \<bar>a\<bar> \<le> c \<Longrightarrow> \<bar>a + g\<bar> \<le> c \<Longrightarrow> 0 \<le> e \<Longrightarrow> \<bar>a + r\<bar> \<le> c + e" for a :: real
  by linarith

lemma between_abs': "r \<le> 0 \<Longrightarrow> g - e \<le> r \<Longrightarrow> \<bar>a\<bar> \<le> c \<Longrightarrow> \<bar>a + g\<bar> \<le> c \<Longrightarrow> 0 \<le> e \<Longrightarrow> \<bar>a + r\<bar> \<le> c + e" for a :: real
  by linarith


lemma floor_lots [simp]:
  "\<lfloor>of_int n + eps8\<rfloor> = n" "\<lfloor>of_int n + eps10\<rfloor> = n"
  "\<lfloor>numeral k + eps8\<rfloor> = numeral k" "\<lfloor>numeral k + eps10\<rfloor> = numeral k"
  "\<lfloor>1 + eps8\<rfloor> = 1" "\<lfloor>eps8\<rfloor> = 0" "\<lfloor>eps10\<rfloor> = 0"
  by (simp_all add: floor_eq_iff eps_defs)

definition demo_broker :: broker where
  "demo_broker = new_broker 1000 1 0 0"

definition demo_plan :: plan where
  "demo_plan = plan_order demo_broker demo_order (Some (demo_bar 10)) 10
     (fresh_position ''A'' '''') 1000 10 5"

lemma demo_facts:
  "\<not> is_forced demo_order" "\<not> is_limit demo_order" "order_key demo_order = ''A''"
  "o_direction demo_order = 0" "o_kind demo_order = Quantity" "lot_size ''A'' (Some (demo_bar c)) = 1"
  "o_symbol demo_order = ''A''"
  by (simp_all add: demo_order_def plain_intent_def is_forced_def is_limit_def order_key_def
      position_key_def lot_size_def demo_bar_def)

lemma demo_broker_fields [simp]:
  "available_cash demo_broker = 1000" "leverage demo_broker = 1" "commission demo_broker = 0"
  "slippage demo_broker = 0" "positions demo_broker = []"
  by (simp_all add: demo_broker_def new_broker_def)

lemma demo_plan_fill:
  "demo_plan = Fill \<lparr>fp_delta = 5, fp_requested = 5, fp_price = 10, fp_reference = BarOpen,
     fp_lot = 1, fp_cap = Some 100, fp_constraint = ''''\<rparr>"
proof -
  have r: "round_to_lot 5 1 = 5" by (simp add: round_to_lot_def copysign_def)
  have l: "liquidity_cap (Some (demo_bar 10)) 1 = Some 100"
    by (simp add: liquidity_cap_def demo_bar_def)
  have c: "capped_by_liquidity (Some 100) 5 = 5" by (simp add: capped_by_liquidity_def)
  have a: "amount (fresh_position ''A'' '''') = 0" by (simp add: fresh_position_def)
  have f: "feasible_delta demo_broker 5 (fresh_position ''A'' '''') 10 1000 1 ''A'' = (5, '''')"
    by (simp add: feasible_delta_def cash_capped_def cash_floor_def max_target_def gross_value_def
        fresh_position_def eps_defs r)
  have t: "\<not> target_met demo_order (fresh_position ''A'' '''') 5 10"
    by (simp add: target_met_def demo_facts fresh_position_def is_target_def eps_defs)
  show ?thesis unfolding demo_plan_def plan_order_def
    using r l f t c a by (simp add: demo_facts reference_price_def Let_def eps_defs)
qed


text \<open>The cash a purchase leaves.\<close>

definition cash_after :: "broker \<Rightarrow> fill_plan \<Rightarrow> real" where
  "cash_after b f = available_cash b - fp_delta f * fp_price f - \<bar>fp_delta f * fp_price f\<bar> * commission b"



text \<open>
  limit protection. A filled limit order buys at most at its limit and sells at least at it,
  and a market order fills at the open moved against it by exactly the slippage.
\<close>

theorem fill_price_law:
  assumes "plan_order b o' br op cur equity sizing target = Fill f"
  shows "(is_limit o' \<longrightarrow> (0 < fp_requested f \<longrightarrow> fp_price f \<le> o_limit_price o') \<and>
      (fp_requested f < 0 \<longrightarrow> o_limit_price o' \<le> fp_price f)) \<and>
    (\<not> is_limit o' \<longrightarrow> fp_price f = op * (1 + (if 0 < fp_requested f then 1 else -1) * slippage b))"
proof (cases "is_limit o'")
  case True
  with plan_order_fill(1)[OF assms] limit_fill_price plan_order_fill(2)[OF assms] show ?thesis
    unfolding reference_price_def by fastforce
next
  case False
  with plan_order_fill(1)[OF assms] plan_order_fill(2)[OF assms] show ?thesis
    by (auto simp: reference_price_def)
qed

theorem fill_price_law_witness:
  "\<exists>f. demo_plan = Fill f \<and> fp_price f = 10 * (1 + 1 * slippage demo_broker)"
proof -
  obtain f where f: "demo_plan = Fill f" "fp_requested f = 5" using demo_plan_fill by auto
  show ?thesis
    using fill_price_law[OF f(1)[unfolded demo_plan_def]] f demo_facts(2) by auto
qed

subsection \<open>Where the caps misfire\<close>

text \<open>
  The position cap is applied to the resulting position, not to the order: when the position
  already exceeds the cap (a loss shrank the equity), an order to sell one unit is enlarged to
  the whole excess, past the requested quantity and past the liquidity cap.
\<close>

definition over_cap_position :: position where
  "over_cap_position = \<lparr>pos_symbol = ''A'', amount = 100, avg_cost = 10, last_price = 10, pos_side = ''''\<rparr>"

lemma position_cap_oversells:
  "feasible_delta demo_broker (-1) over_cap_position 10 500 1 ''A'' = (-50, ''position_limit'')"
  by (simp add: feasible_delta_def cash_capped_def max_target_def gross_value_def over_cap_position_def
      copysign_def eps_defs round_to_lot_def Let_def sign_of_def floor_eq_iff)

text \<open>
  And when the bar's liquidity rounds to zero lots the direction guard sees no requested
  direction: the purchase of such an order becomes a sale of the excess.
\<close>

lemma zero_liquidity_purchase_sells:
  "capped_by_liquidity (Some 0) 5 = 0"
  "feasible_delta demo_broker 0 over_cap_position 10 500 1 ''A'' = (-50, ''position_limit'')"
  by (simp_all add: capped_by_liquidity_def feasible_delta_def cash_capped_def max_target_def
      gross_value_def over_cap_position_def copysign_def eps_defs round_to_lot_def Let_def floor_eq_iff)

end
