(* ===== verification/BrokerLaws.thy ===== *)
theory BrokerLaws
  imports Sizing
begin

text \<open>
  The broker over whole histories: its public operations as one partial machine, and what holds
  after any run of them that does not raise. The invariants are proved once, on the primitive
  steps.
\<close>

subsection \<open>Histories\<close>

datatype broker_op =
    OpExecute instant "real dict" "order_intent list"
  | OpProtect instant
  | OpLiquidate instant
  | OpMark instant
  | OpRecord instant
  | OpRelease "string list"

fun apply_op :: "feed \<Rightarrow> broker_op \<Rightarrow> broker \<Rightarrow> runtime_error + broker" where
  "apply_op fd (OpExecute t ov os) b = ebind (execute fd t ov os b) (\<lambda>(b', _). Inr b')"
| "apply_op fd (OpProtect t) b = ebind (process_protections fd t b) (\<lambda>(b', _). Inr b')"
| "apply_op fd (OpLiquidate t) b = ebind (liquidate_if_insolvent fd t b) (\<lambda>(b', _). Inr b')"
| "apply_op fd (OpMark t) b = Inr (mark_to_market fd t b)"
| "apply_op fd (OpRecord t) b = Inr (record_equity fd t b)"
| "apply_op fd (OpRelease refs) b = Inr (b\<lparr>book := release_resting refs (book b)\<rparr>)"

text \<open>A history pairs every operation with the feed (the state of the data portal) it sees.\<close>

type_synonym timed_op = "feed \<times> broker_op"

definition apply_timed :: "timed_op \<Rightarrow> broker \<Rightarrow> runtime_error + broker" where
  "apply_timed e b = apply_op (fst e) (snd e) b"

text \<open>No strategy order forges the reason the broker reserves for its forced liquidations.\<close>

fun sound_op :: "broker_op \<Rightarrow> bool" where
  "sound_op (OpExecute t ov os) = list_all (sound_order ov) os"
| "sound_op _ = True"

definition broker_history :: "timed_op list \<Rightarrow> broker \<Rightarrow> broker \<Rightarrow> bool" where
  "broker_history ops b b' \<longleftrightarrow> list_all (\<lambda>e. sound_op (snd e)) ops \<and> efold apply_timed ops b = Inr b'"

lemma history_append:
  "broker_history xs a b \<Longrightarrow> broker_history ys b c \<Longrightarrow> broker_history (xs @ ys) a c"
  by (simp add: broker_history_def efold_append)

lemma history_empty [simp]: "broker_history [] a a"
  by (simp add: broker_history_def)

lemma apply_op_path:
  assumes "apply_op fd op b = Inr b'" "sound_op op" "broker_wf b"
  shows "broker_path fd b b'"
  using assms
  by (cases op) (auto elim!: ebind_InrE intro: execute_path process_protections_path liquidate_path
      record_equity_path path1 broker_step.mark broker_step.release simp: list_all_iff)

lemma apply_timed_wf:
  "broker_wf b \<Longrightarrow> sound_op (snd e) \<Longrightarrow> apply_timed e b = Inr b' \<Longrightarrow> broker_wf b'"
  unfolding apply_timed_def by (blast intro: path_wf apply_op_path)

interpretation broker_run: partial_machine apply_timed "\<lambda>e. sound_op (snd e)" broker_wf
  by unfold_locales (rule apply_timed_wf)

lemma history_wf: "broker_history ops b b' \<Longrightarrow> broker_wf b \<Longrightarrow> broker_wf b'"
  unfolding broker_history_def by (blast intro: broker_run.prun_inv)

text \<open>An invariant of the primitive steps holds at the end of every history.\<close>

lemma history_invariant:
  assumes "broker_history ops b b'" "broker_wf b" "P b"
    "\<And>fd x y. fd \<in> fst ` set ops \<Longrightarrow> broker_step fd x y \<Longrightarrow> broker_wf x \<Longrightarrow> P x \<Longrightarrow> P y"
  shows "P b'"
  using assms
proof (induction ops arbitrary: b)
  case (Cons e ops)
  from Cons.prems(1) obtain m where s: "sound_op (snd e)" and m: "apply_timed e b = Inr m"
    and rest: "broker_history ops m b'"
    by (auto simp: broker_history_def elim: ebind_InrE)
  have wf: "broker_wf m" using apply_timed_wf[OF Cons.prems(2) s m] .
  have "broker_path (fst e) b m" using m s Cons.prems(2) unfolding apply_timed_def by (rule apply_op_path)
  then have "broker_wf m \<and> P m" using conjI[OF Cons.prems(2,3)]
    by (rule path_invariant) (use Cons.prems(4)[of "fst e"] step_wf in auto)
  then have "P m" ..
  show ?case by (rule Cons.IH[OF rest wf \<open>P m\<close>]) (rule Cons.prems(4); simp)
qed (simp add: broker_history_def)

subsection \<open>What the books say\<close>



definition booked :: "execution list \<Rightarrow> string \<Rightarrow> real" where
  "booked xs k = sum_of signed_quantity (filter (\<lambda>x. x_key x = k) xs)"

definition fills_of :: "execution list \<Rightarrow> string \<Rightarrow> nat" where
  "fills_of xs k = length (filter (\<lambda>x. x_key x = k) xs)"

definition cash_ok :: "broker \<Rightarrow> bool" where
  "cash_ok b \<longleftrightarrow> available_cash b =
     starting_cash b - sum_of cash_out (executions b) + liquidation_adjustment b"

definition inventory_ok :: "broker \<Rightarrow> bool" where
  "inventory_ok b \<longleftrightarrow> (\<forall>k. \<bar>held (positions b) k - booked (executions b) k\<bar> \<le>
     eps12 * real (fills_of (executions b) k))"

definition fees_ok :: "broker \<Rightarrow> bool" where
  "fees_ok b \<longleftrightarrow> (\<forall>x \<in> set (executions b).
     0 \<le> x_quantity x \<and> x_notional x = \<bar>x_quantity x * x_price x\<bar> \<and>
     x_commission x = x_notional x * commission b)"

lemma execution_fields [simp]:
  "signed_quantity (execution_of oid o' t cur op f comm bal) = fp_delta f"
  "x_price (execution_of oid o' t cur op f comm bal) = fp_price f"
  "x_key (execution_of oid o' t cur op f comm bal) = order_key o'"
  "x_quantity (execution_of oid o' t cur op f comm bal) = \<bar>fp_delta f\<bar>"
  "x_notional (execution_of oid o' t cur op f comm bal) = \<bar>fp_delta f * fp_price f\<bar>"
  "x_commission (execution_of oid o' t cur op f comm bal) = \<bar>fp_delta f * fp_price f\<bar> * comm"
  by (auto simp: execution_of_def signed_quantity_def Let_def split: prod.splits)

lemma fill_books:
  "\<exists>bal. executions (fill_broker oid o' t cur op f b) =
     executions b @ [execution_of oid o' t cur op f (commission b) bal]"
  "available_cash (fill_broker oid o' t cur op f b) =
     available_cash b - fp_delta f * fp_price f - \<bar>fp_delta f * fp_price f\<bar> * commission b"
  by (auto simp: fill_broker_def settle_def Let_def)

lemma held_current: "held (positions b) (order_key o') = amount (current_position b o')"
  by (simp add: held_def current_position_def fresh_position_def split: option.splits)

lemma held_fill:
  "cur = current_position b o' \<Longrightarrow>
   held (positions (fill_broker oid o' t cur op f b)) k =
     (if k = order_key o' then (if \<bar>amount cur + fp_delta f\<bar> \<le> eps12 then 0 else amount cur + fp_delta f)
      else held (positions b) k)"
  by (auto simp: held_def fill_fields Let_def filled_position_def dict_simps)



lemma step_cash: "broker_step fd b b' \<Longrightarrow> cash_ok b \<Longrightarrow> cash_ok b'"
proof (induction rule: broker_step.induct)
  case (fill cur b o' op equity br t target f oid)
  obtain bal where "executions (fill_broker oid o' t cur op f b) =
      executions b @ [execution_of oid o' t cur op f (commission b) bal]"
    using fill_books(1) by blast
  with fill show ?case by (simp add: cash_ok_def fill_books(2) fill_fields cash_out_def)
qed (auto simp: cash_ok_def absorb_cash_def)

lemma step_inventory: "broker_step fd b b' \<Longrightarrow> inventory_ok b \<Longrightarrow> inventory_ok b'"
proof (induction rule: broker_step.induct)
  case (fill cur b o' op equity br t target f oid)
  obtain bal where x: "executions (fill_broker oid o' t cur op f b) =
      executions b @ [execution_of oid o' t cur op f (commission b) bal]"
    using fill_books(1) by blast
  show ?case unfolding inventory_ok_def
  proof
    fix k
    have i: "\<bar>held (positions b) k - booked (executions b) k\<bar> \<le> eps12 * real (fills_of (executions b) k)"
      using fill.prems by (simp add: inventory_ok_def)
    show "\<bar>held (positions (fill_broker oid o' t cur op f b)) k -
        booked (executions (fill_broker oid o' t cur op f b)) k\<bar>
      \<le> eps12 * real (fills_of (executions (fill_broker oid o' t cur op f b)) k)"
    proof (cases "k = order_key o'")
      case True
      have "held (positions b) k = amount cur" using held_current fill.hyps(1) True by simp
      have dust: "\<bar>(if \<bar>a + d\<bar> \<le> eps12 then 0 else a + d) - (q + d)\<bar> \<le> e + eps12"
        if "\<bar>a - q\<bar> \<le> e" for a d q e :: real
        using that eps_pos(1) by (cases "\<bar>a + d\<bar> \<le> eps12"; simp only: if_True if_False; linarith)
      from dust[of "amount cur" "booked (executions b) k" "eps12 * real (fills_of (executions b) k)" "fp_delta f"]
        i \<open>held (positions b) k = amount cur\<close> True
      show ?thesis
        by (simp add: x held_fill[OF fill.hyps(1)] booked_def fills_of_def distrib_left add.commute)
    next
      case False
      then show ?thesis using i
        by (simp add: x held_fill[OF fill.hyps(1)] booked_def fills_of_def)
    qed
  qed
qed (auto simp: inventory_ok_def absorb_cash_def)

lemma step_fees: "broker_step fd b b' \<Longrightarrow> fees_ok b \<Longrightarrow> fees_ok b'"
proof (induction rule: broker_step.induct)
  case (fill cur b o' op equity br t target f oid)
  obtain bal where "executions (fill_broker oid o' t cur op f b) =
      executions b @ [execution_of oid o' t cur op f (commission b) bal]"
    using fill_books(1) by blast
  with fill show ?case by (auto simp: fees_ok_def fill_fields abs_mult)
qed (auto simp: fees_ok_def absorb_cash_def)

lemma new_broker_books:
  "cash_ok (new_broker c l f s)" "inventory_ok (new_broker c l f s)" "fees_ok (new_broker c l f s)"
  by (auto simp: cash_ok_def inventory_ok_def fees_ok_def new_broker_def held_def booked_def fills_of_def)

text \<open>
  C3: conservation of cash. After any run of the broker (batches, protection exits, forced
  liquidations, equity records) the cash is the starting cash less what every recorded execution
  paid (its signed notional and its fee) plus what the liquidation adjustment absorbed; no cash
  moves outside the execution list, and every execution was charged exactly the commission rate
  on its notional.
\<close>

theorem cash_conserved:
  assumes "broker_history ops (new_broker capital lev comm slip) b"
  shows "available_cash b =
      starting_cash b - sum_of cash_out (executions b) + liquidation_adjustment b \<and>
    (\<forall>x \<in> set (executions b). x_commission x = \<bar>x_quantity x * x_price x\<bar> * commission b)"
proof -
  have "cash_ok b \<and> fees_ok b"
    using assms new_broker_wf conjI[OF new_broker_books(1,3)]
    by (rule history_invariant) (use step_cash step_fees in blast)
  then show ?thesis by (simp add: cash_ok_def fees_ok_def)
qed

text \<open>
  C5: conservation of inventory. For every position key the quantity held is the signed sum of
  the executions booked on that key, up to one dust threshold per execution (a residue within
  1e-12 is dropped when a position is flat).
\<close>

theorem inventory_conserved:
  assumes "broker_history ops (new_broker capital lev comm slip) b"
  shows "\<bar>held (positions b) k - booked (executions b) k\<bar> \<le> eps12 * real (fills_of (executions b) k)"
proof -
  have "inventory_ok b"
    using assms new_broker_wf new_broker_books(2) by (rule history_invariant) (rule step_inventory)
  then show ?thesis by (simp add: inventory_ok_def)
qed

text \<open>
  no orphan protection. After any run every armed protection belongs to an open position of
  its key and watches the side that position has: a closed or reversed position never leaves a
  stop behind that could open a new trade.
\<close>

theorem protections_match_positions:
  assumes "broker_history ops (new_broker capital lev comm slip) b"
    and "map_of (protections b) k = Some s"
  shows "\<exists>p. map_of (positions b) k = Some p \<and> ps_side s = side_name (amount p) \<and>
    eps12 < \<bar>amount p\<bar> \<and> k = position_key (pos_symbol p) (pos_side p)"
proof -
  have "broker_wf b"
    using history_wf[OF assms(1) new_broker_wf] .
  then show ?thesis using assms(2) broker_wfD(1,2) by (fastforce simp: position_ok_def)
qed

subsection \<open>A concrete run\<close>

text \<open>Buying five units at 10 with a 20% take profit; the next bar reaches the trigger at 12.\<close>

definition demo_feed :: feed where "demo_feed = portal_feed (demo_portal 11)"

definition demo_ops :: "timed_op list" where
  "demo_ops = map (Pair demo_feed)
     [OpExecute 1 [] [demo_order\<lparr>o_value := 5, o_protection := Some demo_spec\<rparr>], OpProtect 2, OpRecord 2]"

definition demo_run :: "nat \<Rightarrow> runtime_error + broker" where
  "demo_run n = efold apply_timed (take n demo_ops) demo_broker"

lemma demo_history: "n \<in> {1, 3} \<Longrightarrow> broker_history (take n demo_ops) (new_broker 1000 1 0 0) (projr (demo_run n))"
proof -
  assume n: "n \<in> {1, 3}"
  have "\<not> isl (demo_run 1)" "\<not> isl (demo_run 3)" by code_simp+
  moreover have "list_all (\<lambda>e. sound_op (snd e)) demo_ops"
    by (simp add: demo_ops_def sound_order_def demo_order_def plain_intent_def is_forced_def)
  then have "list_all (\<lambda>e. sound_op (snd e)) (take n demo_ops)"
    by (auto simp: list_all_iff dest: in_set_takeD)
  ultimately show ?thesis using n
    by (cases "demo_run n") (auto simp: broker_history_def demo_run_def demo_broker_def)
qed

theorem cash_conserved_witness:
  "available_cash (projr (demo_run 3)) = 1010 \<and> length (executions (projr (demo_run 3))) = 2 \<and>
   available_cash (projr (demo_run 3)) = starting_cash (projr (demo_run 3)) -
     sum_of cash_out (executions (projr (demo_run 3))) + liquidation_adjustment (projr (demo_run 3))"
proof -
  have "available_cash (projr (demo_run 3)) = 1010" "length (executions (projr (demo_run 3))) = 2"
    by code_simp+
  then show ?thesis using cash_conserved[OF demo_history] by blast
qed

theorem inventory_conserved_witness:
  "held (positions (projr (demo_run 1))) ''A'' = 5 \<and>
   \<bar>held (positions (projr (demo_run 1))) ''A'' - booked (executions (projr (demo_run 1))) ''A''\<bar>
     \<le> eps12 * real (fills_of (executions (projr (demo_run 1))) ''A'')"
proof -
  have "held (positions (projr (demo_run 1))) ''A'' = 5" by code_simp
  then show ?thesis using inventory_conserved[OF demo_history, of 1 "''A''"] by blast
qed

theorem protections_match_positions_witness:
  "\<exists>s. map_of (protections (projr (demo_run 1))) ''A'' = Some s \<and> ps_side s = ''long'' \<and>
    (\<exists>p. map_of (positions (projr (demo_run 1))) ''A'' = Some p \<and> eps12 < \<bar>amount p\<bar>)"
proof -
  have "map_option ps_side (map_of (protections (projr (demo_run 1))) ''A'') = Some ''long''"
    by code_simp
  then obtain s where s: "map_of (protections (projr (demo_run 1))) ''A'' = Some s" "ps_side s = ''long''"
    by auto
  show ?thesis using protections_match_positions[OF demo_history s(1)] s by blast
qed

end
