(* ===== verification/Profit.thy ===== *)
theory Profit
  imports BrokerLaws
begin

text \<open>
  The closed-trade book (\<open>_record_closed_trade\<close>) against the cash account: the open entries mirror
  the positions, and realised profit, cost basis and cash are tied by one identity.
\<close>

subsection \<open>One fill\<close>

definition entry_matches :: "entry option \<Rightarrow> real \<Rightarrow> real \<Rightarrow> bool" where
  "entry_matches e a c \<longleftrightarrow>
     (if \<bar>a\<bar> \<le> eps12 then e = None
      else \<exists>x. e = Some x \<and> e_price x = c \<and> e_quantity x = \<bar>a\<bar> \<and> e_side x = side_name a)"

definition gross_sum :: "trade_book \<Rightarrow> real" where
  "gross_sum tb = sum_of ct_gross_profit (tb_closed tb)"

definition realised :: "real \<Rightarrow> real \<Rightarrow> real \<Rightarrow> real \<Rightarrow> real" where
  "realised old c d p = (if old * d < 0 then (p - c) * min \<bar>old\<bar> \<bar>d\<bar> * (if old > 0 then 1 else -1) else 0)"

lemma close_part_effect:
  assumes "eps12 < closing_quantity old (signed_quantity x)" "map_of (tb_entries tb) (x_key x) = Some e"
    "e_price e = c" "e_quantity e = \<bar>old\<bar>" "e_side e = side_name old" "0 < c" "dict_wf (tb_entries tb)"
    "old * signed_quantity x < 0" "target = old + signed_quantity x"
  shows "gross_sum (close_part x old c target tb) = gross_sum tb + realised old c (signed_quantity x) (x_price x)"
    and "\<exists>fee. map_of (tb_entries (close_part x old c target tb)) (x_key x) =
      (if eps12 < \<bar>old\<bar> - closing_quantity old (signed_quantity x) \<and> 0 \<le> old * target
       then Some (e\<lparr>e_quantity := \<bar>old\<bar> - closing_quantity old (signed_quantity x), e_commission := fee\<rparr>)
       else None)"
    and "j \<noteq> x_key x \<Longrightarrow> map_of (tb_entries (close_part x old c target tb)) j = map_of (tb_entries tb) j"
    and "dict_wf (tb_entries (close_part x old c target tb))"
proof -
  let ?q = "closing_quantity old (signed_quantity x)"
  have q: "?q = min \<bar>old\<bar> \<bar>signed_quantity x\<bar>" using assms(8) by (simp add: closing_quantity_def)
  have m: "max (e_quantity e) ?q = \<bar>old\<bar>" using q assms(4) by simp
  have r: "max 0 (\<bar>old\<bar> - ?q) = \<bar>old\<bar> - ?q" using q by simp
  have p: "py_or c c = c" by (simp add: py_or_def)
  show "gross_sum (close_part x old c target tb) = gross_sum tb + realised old c (signed_quantity x) (x_price x)"
    using assms(2,3,6,8) by (simp add: close_part_def Let_def gross_sum_def realised_def q p)
  show "\<exists>fee. map_of (tb_entries (close_part x old c target tb)) (x_key x) =
      (if eps12 < \<bar>old\<bar> - ?q \<and> 0 \<le> old * target
       then Some (e\<lparr>e_quantity := \<bar>old\<bar> - ?q, e_commission := fee\<rparr>) else None)"
    using assms(2) by (auto simp: close_part_def Let_def m r dict_simps)
  show "j \<noteq> x_key x \<Longrightarrow> map_of (tb_entries (close_part x old c target tb)) j = map_of (tb_entries tb) j"
    by (simp add: close_part_def Let_def dict_simps)
  show "dict_wf (tb_entries (close_part x old c target tb))"
    using assms(7) by (simp add: close_part_def Let_def dict_simps)
qed

lemma open_part_other:
  "j \<noteq> x_key x \<Longrightarrow> map_of (tb_entries (open_part x old target tb)) j = map_of (tb_entries tb) j"
  "gross_sum (open_part x old target tb) = gross_sum tb"
  "dict_wf (tb_entries tb) \<Longrightarrow> dict_wf (tb_entries (open_part x old target tb))"
  by (auto simp: open_part_def Let_def dict_simps gross_sum_def split: option.splits)

lemma open_part_fresh:
  "map_of (tb_entries tb) (x_key x) = None \<Longrightarrow>
   map_of (tb_entries (open_part x old target tb)) (x_key x) =
     Some \<lparr>e_time = x_time x, e_price = x_price x,
       e_quantity = max 0 (\<bar>signed_quantity x\<bar> - closing_quantity old (signed_quantity x)),
       e_commission = x_commission x - close_fee x old, e_side = side_name target\<rparr>"
  by (simp add: open_part_def Let_def dict_simps)

text \<open>Recording a fill keeps the entry of its key in step with the position.\<close>

lemma record_trade_effect:
  assumes d: "eps12 < \<bar>signed_quantity x\<bar>" and p: "0 < x_price x"
    and e: "entry_matches (map_of (tb_entries tb) (x_key x)) old c" and old: "old = 0 \<or> eps12 < \<bar>old\<bar> \<and> 0 < c"
    and wf: "dict_wf (tb_entries tb)" and target: "target = old + signed_quantity x"
  defines "tb' \<equiv> record_closed_trade x old c target tb"
  shows "entry_matches (map_of (tb_entries tb') (x_key x)) target (next_average_cost old c (signed_quantity x) (x_price x))
      \<and> gross_sum tb' = gross_sum tb + realised old c (signed_quantity x) (x_price x)
      \<and> (\<forall>j. j \<noteq> x_key x \<longrightarrow> map_of (tb_entries tb') j = map_of (tb_entries tb) j) \<and> dict_wf (tb_entries tb')"
proof -
  let ?d = "signed_quantity x" and ?p = "x_price x" and ?k = "x_key x"
  consider (fresh) "old = 0" | (add) "eps12 < \<bar>old\<bar>" "0 < c" "0 < old * ?d" | (close) "eps12 < \<bar>old\<bar>" "0 < c" "old * ?d < 0"
  proof -
    have "?d \<noteq> 0" using d by auto
    then have "old \<noteq> 0 \<Longrightarrow> old * ?d \<noteq> 0" by simp
    then show ?thesis using old that by (metis linorder_neqE_linordered_idom)
  qed
  then show ?thesis
  proof cases
    case fresh
    then have none: "map_of (tb_entries tb) ?k = None" using e by (simp add: entry_matches_def)
    have t: "tb' = open_part x old target tb"
      using fresh d by (simp add: tb'_def record_closed_trade_def closing_quantity_def)
    have "entry_matches (map_of (tb_entries tb') ?k) target (next_average_cost old c ?d ?p)"
    proof -
      have "?d \<noteq> 0" using d by auto
      then show ?thesis unfolding t open_part_fresh[OF none] using fresh target d
        by (simp add: entry_matches_def closing_quantity_def next_average_cost_def)
    qed
    then show ?thesis using fresh by (simp add: t open_part_other wf realised_def)
  next
    case add
    from e add(1) obtain en where en: "map_of (tb_entries tb) ?k = Some en" "e_price en = c"
      "e_quantity en = \<bar>old\<bar>" "e_side en = side_name old" by (auto simp: entry_matches_def)
    have sg: "0 < old \<and> 0 < ?d \<or> old < 0 \<and> ?d < 0" using add(3) by (auto simp: zero_less_mult_iff)
    then have ab: "\<bar>target\<bar> = \<bar>old\<bar> + \<bar>?d\<bar>" and sd: "side_name target = side_name old"
      and nz: "\<not> \<bar>target\<bar> \<le> eps12" using target add(1) by (auto simp: side_name_def)
    have q0: "closing_quantity old ?d = 0" using add(3) by (simp add: closing_quantity_def)
    have t: "tb' = open_part x old target tb" using d by (simp add: tb'_def record_closed_trade_def q0)
    have pr: "(c * \<bar>old\<bar> + ?p * \<bar>?d\<bar>) / (\<bar>old\<bar> + \<bar>?d\<bar>) = next_average_cost old c ?d ?p"
    proof -
      have "next_average_cost old c ?d ?p = (old * c + ?d * ?p) / (old + ?d)"
        using add(3) nz target by (simp add: next_average_cost_def Let_def)
      moreover have "(c * \<bar>old\<bar> + ?p * \<bar>?d\<bar>) / (\<bar>old\<bar> + \<bar>?d\<bar>) = (old * c + ?d * ?p) / (old + ?d)"
      proof (cases "0 < old")
        case False
        then have "\<bar>old\<bar> = - old" "\<bar>?d\<bar> = - ?d" using sg by auto
        then have "(c * \<bar>old\<bar> + ?p * \<bar>?d\<bar>) / (\<bar>old\<bar> + \<bar>?d\<bar>) = (- (old * c + ?d * ?p)) / (- (old + ?d))"
          by (simp add: algebra_simps)
        then show ?thesis by (simp only: minus_divide_divide)
      qed (use sg in \<open>auto simp: mult.commute\<close>)
      ultimately show ?thesis by simp
    qed
    have py: "py_or c ?p = c" using add(2) by (simp add: py_or_def)
    have "entry_matches (map_of (tb_entries tb') ?k) target (next_average_cost old c ?d ?p)"
      using nz ab pr sd by (simp add: t open_part_def Let_def en q0 dict_simps entry_matches_def py)
    then show ?thesis using add(3) by (simp add: t open_part_other wf realised_def)
  next
    case close
    from e close(1) obtain en where en: "map_of (tb_entries tb) ?k = Some en" "e_price en = c"
      "e_quantity en = \<bar>old\<bar>" "e_side en = side_name old" by (auto simp: entry_matches_def)
    let ?q = "closing_quantity old ?d"
    have q: "?q = min \<bar>old\<bar> \<bar>?d\<bar>" using close(3) by (simp add: closing_quantity_def)
    have qe: "eps12 < ?q" using q d close(1) by simp
    let ?c = "close_part x old c target tb"
    note cl = close_part_effect[OF qe en(1-4) close(2) wf close(3) target]
    obtain fee where fee: "map_of (tb_entries ?c) ?k = (if eps12 < \<bar>old\<bar> - ?q \<and> 0 \<le> old * target
       then Some (en\<lparr>e_quantity := \<bar>old\<bar> - ?q, e_commission := fee\<rparr>) else None)" using cl(2) by blast
    have sg: "0 < old \<and> ?d < 0 \<or> old < 0 \<and> 0 < ?d" using close(3) by (auto simp: mult_less_0_iff)
    show ?thesis
    proof (cases "\<bar>?d\<bar> < \<bar>old\<bar>")
      case True
      have same: "0 < old * target" "\<bar>target\<bar> = \<bar>old\<bar> - ?q" "side_name target = side_name old"
        using sg True target q by (auto simp: zero_less_mult_iff side_name_def)
      have t: "tb' = ?c" using qe q True by (simp add: tb'_def record_closed_trade_def)
      have nc: "\<not> \<bar>target\<bar> \<le> eps12 \<Longrightarrow> next_average_cost old c ?d ?p = c"
        using same(1) close target by (auto simp: next_average_cost_def Let_def zero_less_mult_iff mult_less_0_iff)
      have "entry_matches (map_of (tb_entries tb') ?k) target (next_average_cost old c ?d ?p)"
      proof (cases "\<bar>target\<bar> \<le> eps12")
        case True
        then show ?thesis using fee same(2) by (simp add: t entry_matches_def)
      next
        case False
        then show ?thesis unfolding t fee using same nc en by (simp add: entry_matches_def)
      qed
      then show ?thesis using cl by (simp add: t)
    next
      case False
      then have qo: "?q = \<bar>old\<bar>" using q by simp
      have op: "\<bar>?d\<bar> - ?q = \<bar>target\<bar>" using False sg target qo by auto
      have none: "map_of (tb_entries ?c) ?k = None" using fee qo by simp
      show ?thesis
      proof (cases "\<bar>target\<bar> \<le> eps12")
        case True
        then have t: "tb' = ?c" using qe op by (simp add: tb'_def record_closed_trade_def)
        show ?thesis using cl none True by (simp add: t entry_matches_def)
      next
        case ne: False
        then have t: "tb' = open_part x old target ?c" using qe op by (simp add: tb'_def record_closed_trade_def Let_def)
        have "target \<noteq> 0" using ne by auto
        then have "old * target < 0" using sg False target by (auto simp: mult_less_0_iff)
        then have "next_average_cost old c ?d ?p = ?p"
          using close(3) ne target by (auto simp: next_average_cost_def Let_def)
        then have "entry_matches (map_of (tb_entries tb') ?k) target (next_average_cost old c ?d ?p)"
          unfolding t open_part_fresh[OF none] using ne op by (simp add: entry_matches_def)
        then show ?thesis using cl by (simp add: t open_part_other)
      qed
    qed
  qed
qed

text \<open>What a fill does to cash plus cost basis is the profit it realises, up to a dropped dust.\<close>

definition basis_after :: "real \<Rightarrow> real \<Rightarrow> real \<Rightarrow> real \<Rightarrow> real" where
  "basis_after old c d p = (if \<bar>old + d\<bar> \<le> eps12 then 0 else (old + d) * next_average_cost old c d p)"

lemma fill_identity:
  assumes "eps12 < \<bar>d\<bar>" "0 < p" "p \<le> P" "old = 0 \<and> c = 0 \<or> eps12 < \<bar>old\<bar> \<and> 0 < c \<and> c \<le> P"
  shows "\<bar>(- d * p + basis_after old c d p - old * c) - realised old c d p\<bar> \<le> eps12 * P"
proof -
  have P: "0 \<le> eps12 * P" using assms(2,3) by simp
  consider (fresh) "old = 0" "c = 0" | (add) "0 < old * d" "eps12 < \<bar>old\<bar>"
    | (close) "old * d < 0" "eps12 < \<bar>old\<bar>" "0 < c" "c \<le> P"
  proof -
    have "d \<noteq> 0" using assms(1) by auto
    then show ?thesis using assms(4) that
      by (metis eps_not_neg(1) abs_zero linorder_neqE_linordered_idom mult_eq_0_iff)
  qed
  then show ?thesis
  proof cases
    case fresh
    then show ?thesis using assms(1) P by (simp add: basis_after_def realised_def next_average_cost_def)
  next
    case add
    then have sg: "0 < old \<and> 0 < d \<or> old < 0 \<and> d < 0" by (auto simp: zero_less_mult_iff)
    then have nz: "\<not> \<bar>old + d\<bar> \<le> eps12" "old + d \<noteq> 0" using add(2) by auto
    have "basis_after old c d p = old * c + d * p"
      using add(1) nz by (simp add: basis_after_def next_average_cost_def Let_def)
    then show ?thesis using add(1) P by (simp add: realised_def)
  next
    case close
    then have sg: "0 < old \<and> d < 0 \<or> old < 0 \<and> 0 < d" by (auto simp: mult_less_0_iff)
    have rl: "realised old c d p = (if \<bar>d\<bar> \<le> \<bar>old\<bar> then - d * (p - c) else old * (p - c))"
      using sg close(1) by (auto simp: realised_def min_def algebra_simps)
    show ?thesis
    proof (cases "\<bar>old + d\<bar> \<le> eps12")
      case True
      then have b: "basis_after old c d p = 0" by (simp add: basis_after_def)
      have "(- d * p + 0 - old * c) - realised old c d p = - (old + d) * (if \<bar>d\<bar> \<le> \<bar>old\<bar> then c else p)"
        by (simp add: rl algebra_simps)
      moreover have "\<bar>- (old + d) * (if \<bar>d\<bar> \<le> \<bar>old\<bar> then c else p)\<bar> \<le> eps12 * P"
        unfolding abs_mult abs_minus_cancel using True close(3,4) assms(2,3) by (intro mult_mono) auto
      ultimately show ?thesis by (simp add: b)
    next
      case False
      show ?thesis
      proof (cases "\<bar>d\<bar> \<le> \<bar>old\<bar>")
        case True
        have "next_average_cost old c d p = c"
          using True False close(1) sg
          by (auto simp: next_average_cost_def Let_def mult_less_0_iff zero_less_mult_iff)
        then have "basis_after old c d p = (old + d) * c" using False by (simp add: basis_after_def)
        then show ?thesis using True P by (simp add: rl algebra_simps)
      next
        case lt: False
        then have "old * (old + d) < 0" using sg by (auto simp: mult_less_0_iff)
        then have "next_average_cost old c d p = p"
          using False close(1) by (auto simp: next_average_cost_def Let_def)
        then have "basis_after old c d p = (old + d) * p" using False by (simp add: basis_after_def)
        then show ?thesis using lt P by (simp add: rl algebra_simps)
      qed
    qed
  qed
qed

lemma next_cost_le:
  assumes "eps12 < \<bar>a + d\<bar>" "0 < p" "p \<le> P" "a \<noteq> 0 \<Longrightarrow> 0 < c \<and> c \<le> P"
  shows "next_average_cost a c d p \<le> P"
proof -
  have P: "0 \<le> P" using assms(2,3) by simp
  consider "a = 0" | "a \<noteq> 0" "0 < a * d" | "a \<noteq> 0" "\<not> 0 < a * d" by blast
  then show ?thesis
  proof cases
    case 1
    then show ?thesis using assms P by (auto simp: next_average_cost_def Let_def)
  next
    case 2
    from next_average_cost_between[OF 2(2) assms(1) _ assms(2)] assms(3) assms(4)[OF 2(1)]
    show ?thesis by fastforce
  next
    case 3
    then show ?thesis using assms P by (auto simp: next_average_cost_def Let_def)
  qed
qed

subsection \<open>The identity over a history\<close>

definition cost_of :: "position dict \<Rightarrow> string \<Rightarrow> real" where
  "cost_of ps k = (case map_of ps k of None \<Rightarrow> 0 | Some p \<Rightarrow> avg_cost p)"

definition cost_basis :: "position dict \<Rightarrow> real" where
  "cost_basis ps = sum_of (\<lambda>(k, p). amount p * avg_cost p) ps"

definition pnl_gap :: "broker \<Rightarrow> real" where
  "pnl_gap b = (available_cash b + cost_basis (positions b)) -
     (starting_cash b + liquidation_adjustment b + gross_sum (trades b) - sum_of x_commission (executions b))"

definition prices_below :: "real \<Rightarrow> execution list \<Rightarrow> bool" where
  "prices_below P xs \<longleftrightarrow> 0 \<le> P \<and> (\<forall>x \<in> set xs. x_price x \<le> P)"

definition entries_ok :: "broker \<Rightarrow> bool" where
  "entries_ok b \<longleftrightarrow> dict_wf (tb_entries (trades b)) \<and>
     (\<forall>k. entry_matches (map_of (tb_entries (trades b)) k) (held (positions b) k) (cost_of (positions b) k))"

definition gap_ok :: "real \<Rightarrow> broker \<Rightarrow> bool" where
  "gap_ok P b \<longleftrightarrow> (prices_below P (executions b) \<longrightarrow> (\<forall>k. cost_of (positions b) k \<le> P) \<and>
     \<bar>pnl_gap b\<bar> \<le> eps12 * P * real (length (executions b)))"

text \<open>Lots above the dust threshold.\<close>

definition lots_ok :: "feed \<Rightarrow> bool" where
  "lots_ok fd \<longleftrightarrow> (\<forall>k t br. bar_at fd k t = Some br \<longrightarrow> b_lot_size br \<le> 0 \<or> 2 * eps12 < b_lot_size br)"

lemma lots_ok_lot: "lots_ok fd \<Longrightarrow> 2 * eps12 < lot_size s (bar_at fd s' t)"
  by (fastforce simp: lots_ok_def lot_size_def Let_def eps_defs split: option.splits)

lemma cost_mark [simp]: "cost_of (positions (mark_to_market fd t b)) k = cost_of (positions b) k"
  by (simp add: cost_of_def split: option.splits)

lemma basis_mark [simp]: "cost_basis (positions (mark_to_market fd t b)) = cost_basis (positions b)"
  by (simp add: cost_basis_def mark_to_market_def Let_def comp_def split_def)

lemma cost_current:
  "cost_of (positions b) (order_key o') = avg_cost (current_position b o')"
  by (simp add: cost_of_def current_position_def fresh_position_def split: option.splits)

lemma cost_fill:
  "cur = current_position b o' \<Longrightarrow>
   cost_of (positions (fill_broker oid o' t cur op f b)) k =
     (if k = order_key o' then
        (if \<bar>amount cur + fp_delta f\<bar> \<le> eps12 then 0
         else next_average_cost (amount cur) (avg_cost cur) (fp_delta f) (fp_price f))
      else cost_of (positions b) k)"
  by (auto simp: cost_of_def fill_fields Let_def filled_position_def dict_simps)

lemma basis_fill:
  assumes "cur = current_position b o'" "dict_wf (positions b)"
  shows "cost_basis (positions (fill_broker oid o' t cur op f b)) = cost_basis (positions b) +
    basis_after (amount cur) (avg_cost cur) (fp_delta f) (fp_price f) - amount cur * avg_cost cur"
proof -
  have old: "(case map_of (positions b) (order_key o') of None \<Rightarrow> 0
      | Some w \<Rightarrow> (\<lambda>(k, p). amount p * avg_cost p) (order_key o', w)) = amount cur * avg_cost cur"
    by (simp add: assms(1) current_position_def fresh_position_def split: option.splits)
  show ?thesis
    using sum_of_pop[OF assms(2), of "\<lambda>(k, p). amount p * avg_cost p" "order_key o'"]
      sum_of_set[OF assms(2), of "\<lambda>(k, p). amount p * avg_cost p" "order_key o'"] old
    by (simp add: cost_basis_def fill_fields Let_def basis_after_def filled_position_def)
qed

lemma current_ok:
  assumes "broker_wf b" "slippage b < 1" "cur = current_position b o'"
  shows "amount cur = 0 \<and> avg_cost cur = 0 \<or> eps12 < \<bar>amount cur\<bar> \<and> 0 < avg_cost cur"
  using broker_wfD(1)[OF assms(1), of "order_key o'"] assms(2,3)
  by (auto simp: current_position_def fresh_position_def position_ok_def split: option.splits)

lemma fill_profit:
  assumes cur: "cur = current_position b o'" and op: "0 < op" and br: "br = bar_at fd (o_symbol o') t"
    and pl: "plan_order b o' br op cur equity sz target = Fill f"
    and wf: "broker_wf b" and slip: "slippage b < 1" and lots: "lots_ok fd" and ok: "entries_ok b"
  shows "entries_ok (fill_broker oid o' t cur op f b)"
    and "gap_ok P b \<Longrightarrow> gap_ok P (fill_broker oid o' t cur op f b)"
proof -
  let ?b = "fill_broker oid o' t cur op f b" and ?d = "fp_delta f" and ?p = "fp_price f" and ?k = "order_key o'"
  have par: "params_ok b" using wf by (rule broker_wfD)
  have p: "0 < ?p" using fill_price_positive[OF pl op] par slip by (simp add: params_ok_def)
  have d: "eps12 < \<bar>?d\<bar>"
    using plan_order_fill(3,6)[OF pl] lots_ok_lot[OF lots, of "o_symbol o'" "o_symbol o'" t] br by simp
  have c: "amount cur = 0 \<and> avg_cost cur = 0 \<or> eps12 < \<bar>amount cur\<bar> \<and> 0 < avg_cost cur"
    by (rule current_ok[OF wf slip cur])
  define x where "x = execution_of oid o' t cur op f (commission b) (total_value (settle o' t cur f b))"
  have x: "signed_quantity x = ?d" "x_price x = ?p" "x_key x = ?k"
    "x_commission x = \<bar>?d * ?p\<bar> * commission b" by (simp_all add: x_def)
  have ex: "executions ?b = executions b @ [x]"
    and tr: "trades ?b = record_closed_trade x (amount cur) (avg_cost cur) (amount cur + ?d) (trades b)"
    by (simp_all add: fill_broker_def settle_def Let_def x_def)
  have em: "entry_matches (map_of (tb_entries (trades b)) (x_key x)) (amount cur) (avg_cost cur)"
    using ok[unfolded entries_ok_def, THEN conjunct2, THEN spec, of ?k]
    by (simp add: held_current cost_current cur x)
  have ew: "dict_wf (tb_entries (trades b))" using ok by (simp add: entries_ok_def)
  have dx: "eps12 < \<bar>signed_quantity x\<bar>" and px: "0 < x_price x" using d p by (simp_all add: x)
  have co: "amount cur = 0 \<or> eps12 < \<bar>amount cur\<bar> \<and> 0 < avg_cost cur" using c by blast
  note eff = record_trade_effect[OF dx px em co ew refl, unfolded x, folded tr]
  show "entries_ok ?b" unfolding entries_ok_def
  proof (intro conjI allI)
    show "dict_wf (tb_entries (trades ?b))" using eff by blast
    fix k
    show "entry_matches (map_of (tb_entries (trades ?b)) k) (held (positions ?b) k) (cost_of (positions ?b) k)"
    proof (cases "k = ?k")
      case True
      have "entry_matches (map_of (tb_entries (trades ?b)) ?k) (amount cur + ?d)
          (next_average_cost (amount cur) (avg_cost cur) ?d ?p)" using eff by blast
      then show ?thesis unfolding True held_fill[OF cur] cost_fill[OF cur]
        by (simp add: entry_matches_def split: if_splits)
    next
      case False
      then show ?thesis using eff ok by (simp add: held_fill[OF cur] cost_fill[OF cur] entries_ok_def)
    qed
  qed
  show "gap_ok P ?b" if gap: "gap_ok P b" unfolding gap_ok_def
  proof (intro impI conjI allI)
    assume "prices_below P (executions ?b)"
    then have pb: "prices_below P (executions b)" "?p \<le> P" "0 \<le> P"
      by (simp_all add: prices_below_def ex x)
    have cb: "cost_of (positions b) j \<le> P" for j using gap pb by (simp add: gap_ok_def)
    have cc: "avg_cost cur \<le> P" using cb[of ?k] cost_current[of b o'] cur by simp
    show "cost_of (positions ?b) j \<le> P" for j
      using cb[of j] next_cost_le[of "amount cur" ?d ?p P "avg_cost cur"] c cc p pb
      by (auto simp: cost_fill[OF cur])
    have id: "\<bar>(- ?d * ?p + basis_after (amount cur) (avg_cost cur) ?d ?p - amount cur * avg_cost cur) -
        realised (amount cur) (avg_cost cur) ?d ?p\<bar> \<le> eps12 * P"
      using c cc p pb(2) d by (intro fill_identity) auto
    have gs: "gross_sum (trades ?b) = gross_sum (trades b) + realised (amount cur) (avg_cost cur) ?d ?p"
      using eff by blast
    have "pnl_gap ?b = pnl_gap b + ((- ?d * ?p + basis_after (amount cur) (avg_cost cur) ?d ?p -
        amount cur * avg_cost cur) - realised (amount cur) (avg_cost cur) ?d ?p)"
      by (simp add: pnl_gap_def fill_fields(4,5) fill_books(2) basis_fill[OF cur broker_wfD(4)[OF wf]] gs ex x)
    moreover have "\<bar>pnl_gap b\<bar> \<le> eps12 * P * real (length (executions b))" using gap pb by (simp add: gap_ok_def)
    ultimately show "\<bar>pnl_gap ?b\<bar> \<le> eps12 * P * real (length (executions ?b))"
      using id by (simp add: ex distrib_left)
  qed
qed

lemma step_slippage: "broker_step fd b b' \<Longrightarrow> slippage b' = slippage b"
  by (induction rule: broker_step.induct) (auto simp: fill_fields absorb_cash_def)

definition profit_ok :: "broker \<Rightarrow> bool" where
  "profit_ok b \<longleftrightarrow> slippage b < 1 \<and> entries_ok b \<and> (\<forall>P. gap_ok P b)"

lemma step_profit:
  "broker_step fd b b' \<Longrightarrow> lots_ok fd \<Longrightarrow> broker_wf b \<Longrightarrow> profit_ok b \<Longrightarrow> profit_ok b'"
proof (induction rule: broker_step.induct)
  case (fill cur b o' op equity br t target f oid)
  then show ?case using fill_profit[OF fill(1,2,4,5)] by (simp add: profit_ok_def fill_fields(3))
qed (auto simp: profit_ok_def entries_ok_def gap_ok_def pnl_gap_def absorb_cash_def)

text \<open>
  C24: the profit and loss identity. After any run, with slippage below 100% and lots above the
  dust threshold, the cash plus the cost of the open positions equals the starting cash plus the
  gross profit of the closed trades less all fees paid (plus what a liquidation absorbed), up to
  one dust threshold times the highest fill price per execution: the closed-trade report accounts
  for every unit of currency the account gained or lost. And the open entry of every key carries
  exactly its position's size and average cost.
\<close>

theorem profit_identity:
  assumes "broker_history ops (new_broker capital lev comm slip) b" "\<forall>e \<in> set ops. lots_ok (fst e)" "slip < 1"
    and "\<forall>x \<in> set (executions b). x_price x \<le> P" "0 \<le> P"
  shows "\<bar>(available_cash b + cost_basis (positions b)) -
      (starting_cash b + liquidation_adjustment b + gross_sum (trades b) - sum_of x_commission (executions b))\<bar>
      \<le> eps12 * P * real (length (executions b)) \<and>
    (\<forall>k p. map_of (positions b) k = Some p \<longrightarrow> (\<exists>e. map_of (tb_entries (trades b)) k = Some e \<and>
       e_quantity e = \<bar>amount p\<bar> \<and> e_price e = avg_cost p \<and> e_side e = side_name (amount p)))"
proof -
  let ?n = "new_broker capital lev comm slip"
  have "profit_ok ?n"
    using assms(3) by (auto simp: profit_ok_def entries_ok_def gap_ok_def pnl_gap_def new_broker_def
        entry_matches_def held_def cost_of_def cost_basis_def gross_sum_def prices_below_def)
  then have ok: "profit_ok b"
    by (rule history_invariant[OF assms(1) new_broker_wf]) (use step_profit assms(2) in auto)
  then have "gap_ok P b" by (simp add: profit_ok_def)
  then have g: "\<bar>pnl_gap b\<bar> \<le> eps12 * P * real (length (executions b))"
    using assms(4,5) by (simp add: gap_ok_def prices_below_def)
  have wf: "broker_wf b"
    using history_wf[OF assms(1) new_broker_wf] .
  have "\<exists>e. map_of (tb_entries (trades b)) k = Some e \<and> e_quantity e = \<bar>amount p\<bar> \<and>
      e_price e = avg_cost p \<and> e_side e = side_name (amount p)" if k: "map_of (positions b) k = Some p" for k p
  proof -
    have "entry_matches (map_of (tb_entries (trades b)) k) (amount p) (avg_cost p)"
      using ok k by (auto simp: profit_ok_def entries_ok_def held_def cost_of_def
          dest!: spec[of _ k])
    then show ?thesis using broker_wfD(1)[OF wf k] by (auto simp: entry_matches_def position_ok_def)
  qed
  with g show ?thesis by (auto simp: pnl_gap_def)
qed

lemma demo_lots: "lots_ok demo_feed"
proof -
  have "b_lot_size br = 1" if "portal_bar_at (demo_portal 11) k t = Some br" for k t br
    using that by (auto simp: portal_bar_at_def demo_portal_def demo_bar_def split: if_splits)
  then show ?thesis by (auto simp: lots_ok_def demo_feed_def portal_feed_def eps_defs)
qed

theorem profit_identity_witness:
  "gross_sum (trades (projr (demo_run 3))) = 10 \<and>
   \<bar>(available_cash (projr (demo_run 3)) + cost_basis (positions (projr (demo_run 3)))) -
      (starting_cash (projr (demo_run 3)) + liquidation_adjustment (projr (demo_run 3)) +
       gross_sum (trades (projr (demo_run 3))) - sum_of x_commission (executions (projr (demo_run 3))))\<bar>
      \<le> eps12 * 12 * real (length (executions (projr (demo_run 3))))"
proof -
  have p: "\<forall>x \<in> set (executions (projr (demo_run 3))). x_price x \<le> 12" by code_simp
  have g: "gross_sum (trades (projr (demo_run 3))) = 10" by code_simp
  have h: "broker_history (take 3 demo_ops) (new_broker 1000 1 0 0) (projr (demo_run 3))"
    by (rule demo_history) simp
  have l: "\<forall>e \<in> set (take 3 demo_ops). lots_ok (fst e)" by (auto simp: demo_ops_def demo_lots)
  show ?thesis using profit_identity[OF h l _ p] g by simp
qed

end
