(* ===== verification/Instruments.thy ===== *)
theory Instruments
  imports DataPortal
begin

text \<open>
  Instrument parsing (\<open>strategy_v2/instruments.py\<close>, \<open>models.py\<close>) and the key resolution of the data
  portal. Strings are ASCII: \<open>upper\<close>, \<open>lower\<close> and the digit class of the patterns are read on ASCII
  characters.
\<close>

subsection \<open>Splitting\<close>

text \<open>\<open>s.split(c, 1)\<close> and \<open>s.rsplit(c, 1)\<close>; \<open>None\<close> when the character does not occur.\<close>

definition split_first :: "char \<Rightarrow> string \<Rightarrow> (string \<times> string) option" where
  "split_first c s =
     (if c \<in> set s then Some (takeWhile (\<lambda>x. x \<noteq> c) s, tl (dropWhile (\<lambda>x. x \<noteq> c) s)) else None)"

definition split_last :: "char \<Rightarrow> string \<Rightarrow> (string \<times> string) option" where
  "split_last c s =
     map_option (\<lambda>(a, b). (rev b, rev a)) (split_first c (rev s))"

lemma split_first_append: "c \<notin> set a \<Longrightarrow> split_first c (a @ c # b) = Some (a, b)"
  by (induction a) (auto simp: split_first_def)

lemma split_first_none [simp]: "c \<notin> set s \<Longrightarrow> split_first c s = None"
  by (simp add: split_first_def)

lemma split_last_append: "c \<notin> set b \<Longrightarrow> split_last c (a @ c # b) = Some (a, b)"
  using split_first_append[of c "rev b" "rev a"] by (simp add: split_last_def)

lemma split_last_none [simp]: "c \<notin> set s \<Longrightarrow> split_last c s = None"
  by (simp add: split_last_def)

subsection \<open>Normalisation\<close>

record instrument =
  i_market :: string
  i_symbol :: string
  i_exchange :: string
  i_type :: string
  i_raw :: string

definition market_names :: "(string \<times> string) list" where
  "market_names =
     [(''cnstock'', ''CNStock''), (''usstock'', ''USStock''), (''hkstock'', ''HKStock''),
      (''crypto'', ''Crypto''), (''forex'', ''Forex''), (''futures'', ''Futures''), (''moex'', ''MOEX'')]"

definition normalize_market :: "string \<Rightarrow> string" where
  "normalize_market v =
     (let raw = py_strip v in
      if raw = [] then []
      else case map_of market_names (py_lower raw) of
             Some m \<Rightarrow> m
           | None \<Rightarrow> if raw \<in> set (map snd market_names) then raw else [])"

fun replace_suffix :: "(string \<times> string) list \<Rightarrow> string \<Rightarrow> string" where
  "replace_suffix [] s = s"
| "replace_suffix ((old, new) # rs) s =
     (if py_endswith s old then take (length s - length old) s @ new else replace_suffix rs s)"

definition normalize_symbol :: "string \<Rightarrow> string" where
  "normalize_symbol v =
     replace_suffix [(''.XSHG'', ''.SH''), (''.XSHE'', ''.SZ''), (''.XBJS'', ''.BJ''), (''.XHKG'', ''.HK'')]
       (py_upper (py_strip v))"

fun split_quote :: "string list \<Rightarrow> string \<Rightarrow> string" where
  "split_quote [] s = s"
| "split_quote (q # qs) s =
     (if py_endswith s q \<and> length s > length q then take (length s - length q) s @ ''/'' @ q
      else split_quote qs s)"

definition slash :: char where "slash = CHR ''/''"

definition pair_char :: "char \<Rightarrow> char" where
  "pair_char c = (if c = CHR ''-'' \<or> c = CHR ''_'' then slash else c)"

definition crypto_quotes :: "string list" where
  "crypto_quotes = [''USDT'', ''USDC'', ''USD'', ''BTC'', ''ETH'']"

definition normalize_crypto_symbol :: "string \<Rightarrow> string" where
  "normalize_crypto_symbol v =
     (let raw = map pair_char (py_upper (py_strip v)) in
      if slash \<notin> set raw then split_quote crypto_quotes raw else raw)"

definition is_digit :: "char \<Rightarrow> bool" where
  "is_digit c = (let n = (of_char c :: nat) in 48 \<le> n \<and> n \<le> 57)"

definition is_upper :: "char \<Rightarrow> bool" where
  "is_upper c = (let n = (of_char c :: nat) in 65 \<le> n \<and> n \<le> 90)"

definition us_ticker :: "string \<Rightarrow> bool" where
  "us_ticker s = (case s of [] \<Rightarrow> False | c # cs \<Rightarrow>
     is_upper c \<and> length cs \<le> 14 \<and>
     list_all (\<lambda>d. is_upper d \<or> is_digit d \<or> d = CHR ''.'' \<or> d = CHR ''-'') cs)"

definition infer_market :: "string \<Rightarrow> string" where
  "infer_market symbol =
     (let v = py_upper (py_strip symbol) in
      if v = [] then []
      else if slash \<in> set v \<or> py_endswith v ''USDT'' \<or> py_endswith v ''USDC'' then ''Crypto''
      else if py_endswith v ''.HK'' \<or> py_endswith v ''.XHKG'' then ''HKStock''
      else if list_ex (py_endswith v) [''.SH'', ''.SZ'', ''.BJ'', ''.XSHG'', ''.XSHE'', ''.XBJS''] then ''CNStock''
      else if length v = 6 \<and> list_all is_digit v then ''CNStock''
      else if us_ticker v then ''USStock'' else [])"

definition crypto_types :: "string list" where "crypto_types = [''spot'', ''swap'']"

datatype instrument_error = InstrumentRequired | MarketUnknown string

definition venue_of :: "string \<Rightarrow> string \<times> string" where
  "venue_of venue =
     (let (ex, ty) =
        (if py_lower (py_strip venue) \<in> set crypto_types then ([], venue)
         else case split_first (CHR '':'') venue of Some (e, t) \<Rightarrow> (e, t) | None \<Rightarrow> (venue, []))
      in (py_lower (py_strip ex), py_lower (py_strip ty)))"

definition parse_instrument :: "string \<Rightarrow> string \<Rightarrow> instrument_error + instrument" where
  "parse_instrument default_market v =
     (let raw = py_strip v in
      if raw = [] then Inl InstrumentRequired
      else let (market, body) =
             (case split_first (CHR '':'') raw of
                Some (prefix, candidate) \<Rightarrow>
                  if normalize_market prefix \<noteq> [] then (normalize_market prefix, candidate)
                  else (normalize_market default_market, raw)
              | None \<Rightarrow> (normalize_market default_market, raw));
             (body, exchange, mtype) =
             (case split_last (CHR ''@'') body of
                Some (b, venue) \<Rightarrow> (b, venue_of venue)
              | None \<Rightarrow> (body, [], []));
             symbol = normalize_symbol body;
             market = (if market = [] then infer_market symbol else market)
           in if market = [] then Inl (MarketUnknown raw)
              else if market = ''Crypto'' then
                Inr \<lparr>i_market = market, i_symbol = normalize_crypto_symbol symbol, i_exchange = exchange,
                     i_type = (if mtype \<in> set crypto_types then mtype else ''spot''), i_raw = raw\<rparr>
              else Inr \<lparr>i_market = market, i_symbol = symbol, i_exchange = [], i_type = [], i_raw = raw\<rparr>)"

definition instrument_key :: "instrument \<Rightarrow> string" where
  "instrument_key i =
     i_market i @ '':'' @ i_symbol i @
     (if i_exchange i \<noteq> [] then ''@'' @ i_exchange i @ (if i_type i \<noteq> [] then '':'' @ i_type i else [])
      else if i_type i \<noteq> [] then ''@'' @ i_type i else [])"

subsection \<open>Key resolution in the portal\<close>

definition key_symbol :: "string \<Rightarrow> string" where
  "key_symbol k =
     (let body = (case split_first (CHR '':'') k of Some (_, b) \<Rightarrow> b | None \<Rightarrow> k)
      in case split_first (CHR ''@'') body of Some (b, _) \<Rightarrow> b | None \<Rightarrow> body)"

definition resolve_key :: "string dict \<Rightarrow> portal \<Rightarrow> string \<Rightarrow> string option" where
  "resolve_key aliases p symbol =
     (let raw = py_strip symbol; keys = map fst (frames p) in
      if raw \<in> set keys then Some raw
      else case map_of aliases raw of
        Some k \<Rightarrow> Some k
      | None \<Rightarrow>
          (case parse_instrument [] raw of
             Inl _ \<Rightarrow> None
           | Inr i \<Rightarrow>
               if instrument_key i \<in> set keys then Some (instrument_key i)
               else (case filter (\<lambda>k. key_symbol k = i_symbol i) keys of
                       [k] \<Rightarrow> Some k | _ \<Rightarrow> None)))"

text \<open>The aliases the portal builds from the raw keys it is given.\<close>

definition portal_aliases :: "string list \<Rightarrow> string dict" where
  "portal_aliases raws =
     foldl (\<lambda>d r. case parse_instrument [] r of
        Inl _ \<Rightarrow> d
      | Inr i \<Rightarrow> dict_set r (instrument_key i) (dict_set (i_symbol i) (instrument_key i) d)) [] raws"

subsection \<open>Canonical keys\<close>

text \<open>Stripped strings, and the character maps that keep them so.\<close>

definition stripped :: "string \<Rightarrow> bool" where
  "stripped s \<longleftrightarrow> s = [] \<or> \<not> is_space (hd s) \<and> \<not> is_space (last s)"

lemma strip_stripped: "stripped s \<Longrightarrow> py_strip s = s"
proof (cases "s = []")
  case False
  assume "stripped s"
  then have h: "\<not> is_space (hd s)" "\<not> is_space (hd (rev s))" using False
    by (auto simp: stripped_def hd_rev)
  have "dropWhile is_space s = s" using h(1) by (cases s) auto
  moreover have "dropWhile is_space (rev s) = rev s" using h(2) by (cases "rev s") auto
  ultimately show ?thesis by (simp add: py_strip_def)
qed (simp add: py_strip_def)

lemma stripped_strip [simp]: "stripped (py_strip s)"
proof -
  let ?a = "dropWhile is_space s"
  let ?b = "dropWhile is_space (rev ?a)"
  have "stripped (rev ?b)"
  proof (cases "?b = []")
    case False
    then have b: "\<not> is_space (hd ?b)" by (rule hd_dropWhile)
    have "?a \<noteq> []"
    proof
      assume "?a = []"
      then have "?b = []" by (simp only: rev.simps dropWhile.simps)
      with False show False ..
    qed
    then have a: "\<not> is_space (hd ?a)" by (rule hd_dropWhile)
    have "last ?b = last (rev ?a)"
      using a \<open>?a \<noteq> []\<close> by (intro dropWhile_last[of "hd ?a"]) auto
    then show ?thesis using a b by (simp add: stripped_def hd_rev last_rev)
  qed (simp add: stripped_def)
  then show ?thesis by (simp add: py_strip_def)
qed

lemma strip_idem [simp]: "py_strip (py_strip s) = py_strip s"
  by (rule strip_stripped) simp

lemma set_strip: "set (py_strip s) \<subseteq> set s"
  unfolding py_strip_def by (auto dest!: set_dropWhileD)

lemma upper_char_facts:
  "is_space (upper_char c) = is_space c" "upper_char (upper_char c) = upper_char c"
proof -
  have n: "(of_char c :: nat) < 256" by simp
  show "is_space (upper_char c) = is_space c"
    using n by (auto simp: upper_char_def is_space_def Let_def)
  show "upper_char (upper_char c) = upper_char c"
    using n by (auto simp: upper_char_def Let_def)
qed

lemma char_code_eq: "(char_of (n :: nat) = c) = (n mod 256 = of_char c)"
  by (metis char_of_char of_char_of)

lemma lower_char_facts:
  "is_space (lower_char c) = is_space c" "lower_char (lower_char c) = lower_char c"
  "(lower_char c = CHR '':'') = (c = CHR '':'')" "(lower_char c = CHR ''@'') = (c = CHR ''@'')"
proof -
  have n: "(of_char c :: nat) < 256" by simp
  show "is_space (lower_char c) = is_space c"
    using n by (auto simp: lower_char_def is_space_def Let_def)
  show "lower_char (lower_char c) = lower_char c"
    using n by (auto simp: lower_char_def Let_def)
  show "(lower_char c = CHR '':'') = (c = CHR '':'')" "(lower_char c = CHR ''@'') = (c = CHR ''@'')"
    using n by (auto simp: lower_char_def Let_def char_code_eq)
qed

lemma stripped_map:
  assumes "\<And>c. is_space (f c) = is_space c" "stripped s"
  shows "stripped (map f s)"
proof (cases "s = []")
  case False
  then have "hd (map f s) = f (hd s)" "last (map f s) = f (last s)" by (simp_all add: hd_map last_map)
  then show ?thesis using assms(2) False assms(1)[of "hd s"] assms(1)[of "last s"]
    unfolding stripped_def by metis
qed (simp add: stripped_def)

lemma upper_facts: "stripped s \<Longrightarrow> stripped (py_upper s)" "py_upper (py_upper s) = py_upper s"
  by (simp_all add: py_upper_def stripped_map upper_char_facts comp_def)

lemma lower_facts: "stripped s \<Longrightarrow> stripped (py_lower s)" "py_lower (py_lower s) = py_lower s"
  by (simp_all add: py_lower_def stripped_map lower_char_facts comp_def)

lemma lower_strip_fix: "py_lower (py_strip (py_lower (py_strip s))) = py_lower (py_strip s)"
  by (simp add: strip_stripped lower_facts)

lemma endswith_split: "py_endswith s q \<longleftrightarrow> (\<exists>p. s = p @ q)"
proof
  assume "py_endswith s q"
  then have "s = take (length s - length q) s @ q"
    unfolding py_endswith_def by (metis append_take_drop_id)
  then show "\<exists>p. s = p @ q" by blast
qed auto

lemma endswith_last: "py_endswith s q \<Longrightarrow> q \<noteq> [] \<Longrightarrow> s \<noteq> [] \<and> last s = last q"
  by (auto simp: endswith_split)

text \<open>Normalised stock symbols are fixed points.\<close>

definition plain_symbol :: "string \<Rightarrow> bool" where
  "plain_symbol s \<longleftrightarrow> stripped s \<and> py_upper s = s \<and>
     list_all (\<lambda>q. \<not> py_endswith s q) [''.XSHG'', ''.XSHE'', ''.XBJS'', ''.XHKG'']"

lemma normalize_plain: "plain_symbol s \<Longrightarrow> normalize_symbol s = s"
  by (simp add: plain_symbol_def normalize_symbol_def strip_stripped)

lemma replaced_plain:
  assumes "stripped s" "py_upper s = s" "s = p @ old" "old \<noteq> []" "hd new = CHR ''.''"
    "new \<in> set [''.SH'', ''.SZ'', ''.BJ'', ''.HK'']"
  shows "plain_symbol (p @ new)"
proof -
  have n: "new \<noteq> []" "\<not> is_space (hd new)" "\<not> is_space (last new)" "py_upper new = new"
    "last new \<notin> {CHR ''G'', CHR ''E'', CHR ''S''}"
    using assms(6) by (auto simp: is_space_def py_upper_def upper_char_def)
  have "py_upper p = p" using assms(2,3) by (auto simp: py_upper_def)
  moreover have "stripped (p @ new)"
    using assms(1,3) n by (cases p) (auto simp: stripped_def)
  moreover have "\<not> py_endswith (p @ new) q" if "q \<in> set [''.XSHG'', ''.XSHE'', ''.XBJS'', ''.XHKG'']" for q
    using endswith_last[of "p @ new" q] that n by auto
  ultimately show ?thesis using n by (auto simp: plain_symbol_def py_upper_def)
qed

lemma normalize_symbol_plain: "plain_symbol (normalize_symbol v)"
proof -
  let ?s = "py_upper (py_strip v)"
  have s: "stripped ?s" "py_upper ?s = ?s" by (simp_all add: upper_facts)
  have "plain_symbol (replace_suffix rs ?s)"
    if "\<forall>(o', n) \<in> set rs. o' \<noteq> [] \<and> hd n = CHR ''.'' \<and> n \<in> set [''.SH'', ''.SZ'', ''.BJ'', ''.HK'']"
      "list_all (\<lambda>q. py_endswith ?s q \<longrightarrow> q \<in> fst ` set rs) [''.XSHG'', ''.XSHE'', ''.XBJS'', ''.XHKG'']" for rs
    using that
  proof (induction rs)
    case Nil
    then show ?case using s by (simp add: plain_symbol_def)
  next
    case (Cons r rs)
    obtain o' n where r: "r = (o', n)" by (cases r)
    show ?case
    proof (cases "py_endswith ?s o'")
      case True
      then obtain p where p: "?s = p @ o'" unfolding endswith_split by blast
      then show ?thesis using replaced_plain[OF s p, of n] Cons.prems(1) True by (simp add: r)
    next
      case False
      then show ?thesis using Cons by (auto simp: r)
    qed
  qed
  from this[of "[(''.XSHG'', ''.SH''), (''.XSHE'', ''.SZ''), (''.XBJS'', ''.BJ''), (''.XHKG'', ''.HK'')]"]
  show ?thesis by (simp add: normalize_symbol_def)
qed

text \<open>So are normalised crypto symbols.\<close>

lemma split_quote_cases:
  "split_quote qs s = s \<and> list_all (\<lambda>q. \<not> (py_endswith s q \<and> length s > length q)) qs \<or>
   (\<exists>q \<in> set qs. \<exists>p. s = p @ q \<and> p \<noteq> [] \<and> split_quote qs s = p @ ''/'' @ q)"
proof (induction qs)
  case (Cons q qs)
  show ?case
  proof (cases "py_endswith s q \<and> length s > length q")
    case True
    then obtain p where "s = p @ q" unfolding endswith_split by blast
    then have "p \<noteq> []" using True by auto
    with True \<open>s = p @ q\<close> have "split_quote (q # qs) s = p @ ''/'' @ q" by simp
    with \<open>s = p @ q\<close> \<open>p \<noteq> []\<close> have "\<exists>p. s = p @ q \<and> p \<noteq> [] \<and> split_quote (q # qs) s = p @ ''/'' @ q"
      by blast
    then show ?thesis by (intro disjI2 bexI[of _ q]) (simp_all only: list.set_intros)
  next
    case False
    then have e: "split_quote (q # qs) s = split_quote qs s" by (simp only: split_quote.simps if_False)
    from Cons show ?thesis unfolding e
    proof (elim disjE)
      assume "split_quote qs s = s \<and> list_all (\<lambda>q. \<not> (py_endswith s q \<and> length s > length q)) qs"
      then show "split_quote qs s = s \<and> list_all (\<lambda>q. \<not> (py_endswith s q \<and> length s > length q)) (q # qs) \<or>
          (\<exists>r \<in> set (q # qs). \<exists>p. s = p @ r \<and> p \<noteq> [] \<and> split_quote qs s = p @ ''/'' @ r)"
        using False by simp
    next
      assume "\<exists>r \<in> set qs. \<exists>p. s = p @ r \<and> p \<noteq> [] \<and> split_quote qs s = p @ ''/'' @ r"
      then show "split_quote qs s = s \<and> list_all (\<lambda>q. \<not> (py_endswith s q \<and> length s > length q)) (q # qs) \<or>
          (\<exists>r \<in> set (q # qs). \<exists>p. s = p @ r \<and> p \<noteq> [] \<and> split_quote qs s = p @ ''/'' @ r)"
        by (meson list.set_intros(2))
    qed
  qed
qed simp

lemma split_quote_stays:
  "list_all (\<lambda>q. \<not> (py_endswith s q \<and> length s > length q)) qs \<Longrightarrow> split_quote qs s = s"
  by (induction qs) auto

definition pair_symbol :: "string \<Rightarrow> bool" where
  "pair_symbol s \<longleftrightarrow> plain_symbol s \<and> map pair_char s = s \<and>
     (slash \<in> set s \<or> list_all (\<lambda>q. \<not> (py_endswith s q \<and> length s > length q)) crypto_quotes)"

lemma pair_symbol_fixed: "pair_symbol s \<Longrightarrow> normalize_crypto_symbol (normalize_symbol s) = s"
  by (auto simp: pair_symbol_def normalize_plain normalize_crypto_symbol_def plain_symbol_def strip_stripped
      split_quote_stays Let_def)

lemma pair_char_facts:
  "is_space (pair_char c) = is_space c" "pair_char (pair_char c) = pair_char c"
  "upper_char (pair_char c) = pair_char (upper_char c)"
proof -
  have d: "is_space CHR ''-'' = False" "is_space CHR ''_'' = False" "is_space slash = False"
    by (simp_all add: is_space_def slash_def)
  show "is_space (pair_char c) = is_space c" using d by (auto simp: pair_char_def)
  show "pair_char (pair_char c) = pair_char c" by (simp add: pair_char_def slash_def)
  have u: "upper_char CHR ''-'' = CHR ''-''" "upper_char CHR ''_'' = CHR ''_''" "upper_char slash = slash"
    by (simp_all add: upper_char_def slash_def)
  have "upper_char c = CHR ''-'' \<longleftrightarrow> c = CHR ''-''" "upper_char c = CHR ''_'' \<longleftrightarrow> c = CHR ''_''"
    by (auto simp: upper_char_def Let_def char_code_eq)
  then show "upper_char (pair_char c) = pair_char (upper_char c)" using u by (auto simp: pair_char_def)
qed

lemma pair_char_suffix:
  assumes "map pair_char s = p @ q" "slash \<notin> set q"
  shows "py_endswith s q"
proof -
  have "map pair_char (drop (length s - length q) s) = q"
    using assms(1) by (metis append_eq_conv_conj diff_add_inverse2 drop_map length_append length_map)
  moreover have "pair_char c \<noteq> slash \<Longrightarrow> pair_char c = c" for c by (auto simp: pair_char_def split: if_splits)
  ultimately have "drop (length s - length q) s = q"
    using assms(2) by (metis map_idI set_map imageI)
  moreover have "length q \<le> length s" using assms(1) by (metis length_append length_map le_add2)
  ultimately show ?thesis by (simp add: py_endswith_def)
qed

lemma normalize_crypto_pair: "pair_symbol (normalize_crypto_symbol (normalize_symbol v))"
proof -
  let ?x = "normalize_symbol v"
  have x: "plain_symbol ?x" by (rule normalize_symbol_plain)
  then have sx: "stripped ?x" "py_upper ?x = ?x" by (simp_all add: plain_symbol_def)
  let ?m = "map pair_char ?x"
  have up: "py_upper ?m = ?m"
  proof -
    have "py_upper ?m = map pair_char (py_upper ?x)" by (simp add: py_upper_def pair_char_facts(3))
    then show ?thesis by (simp only: sx(2))
  qed
  have st: "stripped ?m" using sx(1) by (rule stripped_map[OF pair_char_facts(1)])
  have fx: "map pair_char ?m = ?m" by (simp add: pair_char_facts(2) comp_def)
  have ends: "\<not> py_endswith ?m q" if "q \<in> set [''.XSHG'', ''.XSHE'', ''.XBJS'', ''.XHKG'']" for q
  proof
    assume "py_endswith ?m q"
    then obtain p where "?m = p @ q" unfolding endswith_split by blast
    moreover have "slash \<notin> set q" using that by (auto simp: slash_def)
    ultimately have "py_endswith ?x q" by (rule pair_char_suffix)
    then show False using x that by (auto simp: plain_symbol_def)
  qed
  have pm: "plain_symbol ?m" using up st ends by (simp add: plain_symbol_def)
  have n: "normalize_crypto_symbol ?x = (if slash \<notin> set ?m then split_quote crypto_quotes ?m else ?m)"
    by (simp add: normalize_crypto_symbol_def strip_stripped sx Let_def)
  show ?thesis
  proof (cases "slash \<in> set ?m")
    case True
    then show ?thesis using pm fx by (simp only: n pair_symbol_def) simp
  next
    case False
    from split_quote_cases[of crypto_quotes ?m] show ?thesis
    proof (elim disjE conjE bexE exE)
      assume "split_quote crypto_quotes ?m = ?m"
        "list_all (\<lambda>q. \<not> (py_endswith ?m q \<and> length ?m > length q)) crypto_quotes"
      then show ?thesis using pm fx False by (simp only: n pair_symbol_def) simp
    next
      fix q p
      assume q: "q \<in> set crypto_quotes" and m: "?m = p @ q" and p: "p \<noteq> []"
        and sq: "split_quote crypto_quotes ?m = p @ ''/'' @ q"
      have qf: "q \<noteq> []" "last q \<in> {CHR ''T'', CHR ''C'', CHR ''D'', CHR ''H''}"
        using q by (auto simp: crypto_quotes_def)
      have "stripped (p @ ''/'' @ q)" using st p qf(1) by (auto simp: m stripped_def)
      moreover have "py_upper (p @ ''/'' @ q) = p @ ''/'' @ q"
        using up by (auto simp: m py_upper_def upper_char_def)
      moreover have "\<not> py_endswith (p @ ''/'' @ q) r" if "r \<in> set [''.XSHG'', ''.XSHE'', ''.XBJS'', ''.XHKG'']" for r
        using endswith_last[of "p @ ''/'' @ q" r] that qf by auto
      moreover have "map pair_char (p @ ''/'' @ q) = p @ ''/'' @ q"
        using fx by (auto simp: m pair_char_def slash_def)
      ultimately have "pair_symbol (p @ ''/'' @ q)"
        by (auto simp: pair_symbol_def plain_symbol_def slash_def)
      then show ?thesis using False sq by (simp add: n)
    qed
  qed
qed

text \<open>Venues.\<close>

lemma lower_strip_chars:
  assumes "c \<in> {CHR '':'', CHR ''@''}" "c \<notin> set s"
  shows "c \<notin> set (py_lower (py_strip s))"
proof
  assume "c \<in> set (py_lower (py_strip s))"
  then obtain d where d: "d \<in> set (py_strip s)" "c = lower_char d" unfolding py_lower_def set_map by blast
  then have "d = c" using assms(1) lower_char_facts(3,4)[of d] by (elim insertE) simp_all
  then show False using d(1) set_strip[of s] assms(2) by blast
qed

lemma venue_facts:
  assumes "venue_of v = (e, t)" "CHR ''@'' \<notin> set v"
  shows "CHR '':'' \<notin> set e" "CHR ''@'' \<notin> set e" "py_lower (py_strip e) = e"
proof -
  obtain e0 where e0: "e = py_lower (py_strip e0)" "CHR '':'' \<notin> set e0" "CHR ''@'' \<notin> set e0"
  proof (cases "py_lower (py_strip v) \<in> set crypto_types")
    case True
    then show ?thesis using assms(1) that[of "[]"] by (simp add: venue_of_def)
  next
    case False
    show ?thesis
    proof (cases "CHR '':'' \<in> set v")
      case True
      have "CHR '':'' \<notin> set (takeWhile (\<lambda>x. x \<noteq> CHR '':'') v)"
        "CHR ''@'' \<notin> set (takeWhile (\<lambda>x. x \<noteq> CHR '':'') v)"
        using assms(2) by (auto dest: set_takeWhileD)
      with False True assms(1) that[of "takeWhile (\<lambda>x. x \<noteq> CHR '':'') v"] show ?thesis
        by (simp add: venue_of_def split_first_def)
    next
      case no: False
      with False assms that[of v] show ?thesis by (simp add: venue_of_def)
    qed
  qed
  show "CHR '':'' \<notin> set e" "CHR ''@'' \<notin> set e" using e0 lower_strip_chars by auto
  show "py_lower (py_strip e) = e" using e0(1) by (simp add: lower_strip_fix)
qed

lemma crypto_type_facts:
  "t \<in> set crypto_types \<Longrightarrow> CHR '':'' \<notin> set t \<and> CHR ''@'' \<notin> set t \<and> py_lower (py_strip t) = t \<and> t \<noteq> []"
proof -
  have "py_lower (py_strip ''spot'') = ''spot''" "py_lower (py_strip ''swap'') = ''swap''" by code_simp+
  then show "t \<in> set crypto_types \<Longrightarrow> CHR '':'' \<notin> set t \<and> CHR ''@'' \<notin> set t \<and> py_lower (py_strip t) = t \<and> t \<noteq> []"
    by (auto simp: crypto_types_def)
qed

lemma venue_roundtrip:
  assumes "CHR '':'' \<notin> set e" "py_lower (py_strip e) = e" "t \<in> set crypto_types"
  shows "venue_of (if e \<noteq> [] then e @ '':'' @ t else t) = (e, t)"
proof (cases "e = []")
  case True
  then show ?thesis using crypto_type_facts[OF assms(3)] assms(3) by (simp add: venue_of_def py_strip_def py_lower_def)
next
  case False
  have s: "split_first (CHR '':'') (e @ '':'' @ t) = Some (e, t)"
    using split_first_append[OF assms(1), of t] by simp
  have "CHR '':'' \<in> set (py_strip (e @ '':'' @ t))"
  proof -
    have "stripped (e @ '':'' @ t)"
    proof -
      have "stripped e" using assms(2) lower_facts(1)[of "py_strip e"] by simp
      moreover have "stripped t" using crypto_type_facts[OF assms(3)] lower_facts(1)[of "py_strip t"] by simp
      ultimately show ?thesis using False crypto_type_facts[OF assms(3)] by (auto simp: stripped_def)
    qed
    then show ?thesis by (simp add: strip_stripped)
  qed
  then have "CHR '':'' \<in> set (py_lower (py_strip (e @ '':'' @ t)))"
    unfolding py_lower_def set_map using lower_char_facts(3) by (metis image_eqI)
  then have "py_lower (py_strip (e @ '':'' @ t)) \<notin> set crypto_types"
    using crypto_type_facts by blast
  then show ?thesis using False s crypto_type_facts[OF assms(3)] assms(2) by (simp add: venue_of_def)
qed

text \<open>Markets.\<close>

lemma market_range: "normalize_market v = [] \<or> normalize_market v \<in> set (map snd market_names)"
proof (cases "map_of market_names (py_lower (py_strip v))")
  case (Some m)
  then have "m \<in> set (map snd market_names)" by (force dest: map_of_SomeD)
  with Some show ?thesis by (simp only: normalize_market_def Let_def) simp
qed (simp add: normalize_market_def Let_def)

lemma infer_range: "infer_market s \<in> {[], ''Crypto'', ''HKStock'', ''CNStock'', ''USStock''}"
  by (simp add: infer_market_def Let_def)

lemma market_facts:
  assumes "m \<in> set (map snd market_names)"
  shows "normalize_market m = m" "CHR '':'' \<notin> set m" "m \<noteq> []" "\<not> is_space (hd m)"
proof -
  have "list_all (\<lambda>m. normalize_market m = m \<and> CHR '':'' \<notin> set m \<and> m \<noteq> [] \<and> \<not> is_space (hd m))
      (map snd market_names)" by code_simp
  then show "normalize_market m = m" "CHR '':'' \<notin> set m" "m \<noteq> []" "\<not> is_space (hd m)"
    using assms unfolding list_all_iff by blast+
qed

text \<open>What every parsed instrument satisfies.\<close>

definition canonical :: "instrument \<Rightarrow> bool" where
  "canonical i \<longleftrightarrow> i_market i \<in> set (map snd market_names) \<and>
     (if i_market i = ''Crypto''
      then pair_symbol (i_symbol i) \<and> i_type i \<in> set crypto_types \<and> CHR '':'' \<notin> set (i_exchange i) \<and>
           CHR ''@'' \<notin> set (i_exchange i) \<and> py_lower (py_strip (i_exchange i)) = i_exchange i
      else plain_symbol (i_symbol i) \<and> i_exchange i = [] \<and> i_type i = [])"

lemma split_last_venue: "split_last c s = Some (a, b) \<Longrightarrow> c \<notin> set b"
  by (auto simp: split_last_def split_first_def dest: set_takeWhileD split: if_splits)

lemma parse_canonical:
  assumes "parse_instrument d v = Inr i"
  shows "canonical i"
proof -
  let ?raw = "py_strip v"
  obtain m0 body where mb: "(case split_first (CHR '':'') ?raw of
      Some (prefix, candidate) \<Rightarrow> if normalize_market prefix \<noteq> [] then (normalize_market prefix, candidate)
        else (normalize_market d, ?raw)
    | None \<Rightarrow> (normalize_market d, ?raw)) = (m0, body)" by fastforce
  obtain b e t where bet: "(case split_last (CHR ''@'') body of
      Some (b, venue) \<Rightarrow> (b, venue_of venue) | None \<Rightarrow> (body, [], [])) = (b, e, t)" by (metis surj_pair)
  have ex: "CHR '':'' \<notin> set e \<and> CHR ''@'' \<notin> set e \<and> py_lower (py_strip e) = e"
  proof (cases "split_last (CHR ''@'') body")
    case None
    with bet show ?thesis by (simp add: py_strip_def py_lower_def)
  next
    case (Some bv)
    obtain b' ven where bv: "bv = (b', ven)" by (cases bv)
    then have "venue_of ven = (e, t)" using bet Some by simp
    moreover have "CHR ''@'' \<notin> set ven" using split_last_venue Some bv by blast
    ultimately show ?thesis using venue_facts by blast
  qed
  let ?s = "normalize_symbol b"
  let ?m = "if m0 = [] then infer_market ?s else m0"
  have m0: "m0 = [] \<or> m0 \<in> set (map snd market_names)"
  proof (cases "split_first (CHR '':'') ?raw")
    case None
    then show ?thesis using mb market_range[of d] by auto
  next
    case (Some pc)
    obtain pr ca where "pc = (pr, ca)" by (cases pc)
    then show ?thesis using mb Some market_range[of d] market_range[of pr] by (simp split: if_splits)
  qed
  have mm: "?m = [] \<or> ?m \<in> set (map snd market_names)"
    using m0 infer_range[of ?s] by (auto simp: market_names_def)
  have i: "i = (if ?m = ''Crypto'' then \<lparr>i_market = ?m, i_symbol = normalize_crypto_symbol ?s, i_exchange = e,
        i_type = (if t \<in> set crypto_types then t else ''spot''), i_raw = ?raw\<rparr>
      else \<lparr>i_market = ?m, i_symbol = ?s, i_exchange = [], i_type = [], i_raw = ?raw\<rparr>)" and "?m \<noteq> []"
    using assms unfolding parse_instrument_def Let_def mb split_conv bet by (simp_all split: if_splits)
  have "''spot'' \<in> set crypto_types" by (simp add: crypto_types_def)
  show ?thesis
  proof (cases "?m = ''Crypto''")
    case True
    then have "i_market i = ''Crypto''" "i_symbol i = normalize_crypto_symbol ?s" "i_exchange i = e"
      "i_type i = (if t \<in> set crypto_types then t else ''spot'')" using i by simp_all
    then show ?thesis using ex normalize_crypto_pair[of b] \<open>''spot'' \<in> set crypto_types\<close>
      by (simp add: canonical_def market_names_def)
  next
    case False
    then have "i_market i = ?m" "i_symbol i = ?s" "i_exchange i = []" "i_type i = []" using i by simp_all
    then show ?thesis using False mm \<open>?m \<noteq> []\<close> normalize_symbol_plain[of b] by (simp add: canonical_def)
  qed
qed

lemma colon_not_space: "\<not> is_space CHR '':''"
  by (simp add: is_space_def)

text \<open>
  canonical keys. The key of a parsed instrument parses back, under any default market, to
  the same market, symbol, exchange and market type: resolving an instrument twice never changes
  it, so a key can be stored and used again. (A stock symbol with an at-sign in it is the exception
  the hypothesis excludes: its tail would be read as a venue.)
\<close>

theorem instrument_key_canonical:
  assumes "parse_instrument d v = Inr i" "i_market i = ''Crypto'' \<or> CHR ''@'' \<notin> set (i_symbol i)"
  shows "parse_instrument d' (instrument_key i) = Inr (i\<lparr>i_raw := instrument_key i\<rparr>)"
proof -
  have can: "canonical i" using assms(1) by (rule parse_canonical)
  then have mk: "i_market i \<in> set (map snd market_names)" by (simp add: canonical_def)
  note mf = market_facts[OF mk]
  show ?thesis
  proof (cases "i_market i = ''Crypto''")
    case True
    let ?venue = "if i_exchange i \<noteq> [] then i_exchange i @ '':'' @ i_type i else i_type i"
    have c: "pair_symbol (i_symbol i)" "i_type i \<in> set crypto_types" "CHR '':'' \<notin> set (i_exchange i)"
      "CHR ''@'' \<notin> set (i_exchange i)" "py_lower (py_strip (i_exchange i)) = i_exchange i"
      using can True by (simp_all add: canonical_def)
    note tf = crypto_type_facts[OF c(2)]
    have key: "instrument_key i = i_market i @ CHR '':'' # (i_symbol i @ CHR ''@'' # ?venue)"
      using tf by (simp add: instrument_key_def)
    have "\<not> is_space (last (i_type i))" using c(2) by (auto simp: crypto_types_def is_space_def)
    then have st: "stripped (instrument_key i)"
      unfolding key using mf tf by (auto simp: stripped_def)
    have ven: "CHR ''@'' \<notin> set ?venue" using c(4) tf by auto
    have s1: "split_first (CHR '':'') (instrument_key i) = Some (i_market i, i_symbol i @ CHR ''@'' # ?venue)"
      unfolding key by (rule split_first_append[OF mf(2)])
    have s2: "split_last (CHR ''@'') (i_symbol i @ CHR ''@'' # ?venue) = Some (i_symbol i, ?venue)"
      by (rule split_last_append[OF ven])
    have v: "venue_of ?venue = (i_exchange i, i_type i)" by (rule venue_roundtrip[OF c(3,5,2)])
    have ne: "instrument_key i \<noteq> []" unfolding key by simp
    have cs: "normalize_crypto_symbol (normalize_symbol (i_symbol i)) = i_symbol i" by (rule pair_symbol_fixed[OF c(1)])
    show ?thesis
      unfolding parse_instrument_def Let_def strip_stripped[OF st] s1
      using ne mf(1,3) True c(2) by (simp add: s2 v cs)
  next
    case False
    have c: "plain_symbol (i_symbol i)" "i_exchange i = []" "i_type i = []"
      using can False by (simp_all add: canonical_def)
    have at: "CHR ''@'' \<notin> set (i_symbol i)" using assms(2) False by simp
    have key: "instrument_key i = i_market i @ CHR '':'' # i_symbol i"
      by (simp add: instrument_key_def c)
    have "stripped (i_symbol i)" using c(1) by (simp add: plain_symbol_def)
    then have st: "stripped (instrument_key i)"
      unfolding key using mf colon_not_space by (auto simp: stripped_def)
    have s1: "split_first (CHR '':'') (instrument_key i) = Some (i_market i, i_symbol i)"
      unfolding key by (rule split_first_append[OF mf(2)])
    have ne: "instrument_key i \<noteq> []" unfolding key by simp
    show ?thesis
      unfolding parse_instrument_def Let_def strip_stripped[OF st] s1
      using ne mf(1,3) False at c(2,3) by (simp add: normalize_plain[OF c(1)])
  qed
qed

theorem instrument_key_canonical_witness:
  "\<exists>i. parse_instrument [] ''Crypto:btc-usdt@Binance:swap'' = Inr i \<and>
     instrument_key i = ''Crypto:BTC/USDT@binance:swap'' \<and>
     parse_instrument [] (instrument_key i) = Inr (i\<lparr>i_raw := instrument_key i\<rparr>)"
proof -
  let ?p = "parse_instrument [] ''Crypto:btc-usdt@Binance:swap''"
  have "\<not> isl ?p" "instrument_key (projr ?p) = ''Crypto:BTC/USDT@binance:swap''"
    "i_market (projr ?p) = ''Crypto''" by code_simp+
  then obtain i where i: "?p = Inr i" "instrument_key i = ''Crypto:BTC/USDT@binance:swap''" "i_market i = ''Crypto''"
    by (cases ?p) auto
  show ?thesis using instrument_key_canonical[OF i(1), of "[]"] i by blast
qed

end
