(* ===== verification/Context.thy ===== *)
theory Context
  imports Broker Instruments
begin

text \<open>
  The strategy's view of the runtime (\<open>StrategyRuntimeContext\<close> in \<open>strategy_v2/runtime.py\<close>): the order
  helpers and their validation, order statuses, cancellations and exit reasons. Indicators,
  factors and fundamentals read data and change no state; they are not modelled. The rendering of
  an instant (pandas' \<open>isoformat\<close>) and the key resolution of the portal are parameters.
\<close>

subsection \<open>Raw keyword values\<close>

text \<open>A number the strategy passes: absent, a finite number, or a value \<open>float\<close> rejects.\<close>

datatype rawnum = RNone | RNum real | RBad

definition contract_error :: "string \<Rightarrow> runtime_error + 'a" where
  "contract_error code = Inl (ContractError code)"

definition number_or_zero :: "string \<Rightarrow> rawnum \<Rightarrow> runtime_error + real" where
  "number_or_zero code v = (case v of RNone \<Rightarrow> Inr 0 | RNum x \<Rightarrow> Inr x | RBad \<Rightarrow> contract_error code)"

definition first_string :: "string list \<Rightarrow> string" where
  "first_string ss = (case filter (\<lambda>s. s \<noteq> []) ss of [] \<Rightarrow> [] | s # _ \<Rightarrow> s)"

record order_kwargs =
  kw_protection :: raw_map
  kw_trailing :: "raw_map option"
  kw_inline :: raw_map
  kw_rebase :: pyval
  kw_order_type :: string
  kw_type :: string
  kw_algo :: string
  kw_limit_price :: rawnum
  kw_price :: rawnum
  kw_maker_wait :: rawnum
  kw_maker_offset :: rawnum
  kw_client_id :: string
  kw_reason :: string
  kw_side :: string

definition no_kwargs :: order_kwargs where
  "no_kwargs = \<lparr>kw_protection = [], kw_trailing = None, kw_inline = [], kw_rebase = PNone,
     kw_order_type = [], kw_type = [], kw_algo = [], kw_limit_price = RNone, kw_price = RNone,
     kw_maker_wait = RNone, kw_maker_offset = RNone, kw_client_id = [], kw_reason = [], kw_side = []\<rparr>"

subsection \<open>State\<close>

record order_summary =
  os_client :: string
  os_status :: string
  os_filled :: "real option"
  os_notional :: "real option"
  os_fee :: "real option"
  os_reason :: "string option"

record runtime_context =
  cx_now :: "instant option"
  cx_orders :: "order_intent list"
  cx_logs :: "string list"
  cx_default :: "protection_spec option"
  cx_sequence :: nat
  cx_statuses :: "order_summary dict"
  cx_cancelled :: "string list"
  cx_exit_reasons :: "string dict"

definition new_context :: runtime_context where
  "new_context = \<lparr>cx_now = None, cx_orders = [], cx_logs = [], cx_default = None, cx_sequence = 0,
     cx_statuses = [], cx_cancelled = [], cx_exit_reasons = []\<rparr>"

subsection \<open>Queueing an order\<close>

fun nat_string :: "nat \<Rightarrow> string" where
  "nat_string n = (if n < 10 then [char_of (48 + n)] else nat_string (n div 10) @ [char_of (48 + n mod 10)])"

declare nat_string.simps [simp del]

definition order_reference :: "(instant \<Rightarrow> string) \<Rightarrow> instant option \<Rightarrow> nat \<Rightarrow> string" where
  "order_reference fmt now n =
     ''strategy-v2:'' @ (case now of None \<Rightarrow> ''discovery'' | Some t \<Rightarrow> fmt t) @ '':'' @ nat_string n"

definition parse_order_type :: "string \<Rightarrow> runtime_error + order_type" where
  "parse_order_type s =
     (let v = py_lower (py_strip (first_string [s, ''market''])) in
      if v = ''market'' then Inr MarketOrder else if v = ''limit'' then Inr LimitOrder
      else contract_error ''strategyV2.orderTypeUnsupported'')"

definition parse_algo :: "order_type \<Rightarrow> string \<Rightarrow> runtime_error + execution_algo" where
  "parse_algo ty s =
     (let v = py_lower (py_strip s);
          v = (if v = [] then (if ty = LimitOrder then ''limit'' else ''market'') else v)
      in if v \<in> {''maker'', ''limit_then_market'', ''maker_then_market''} then Inr MakerThenMarket
         else if v = ''market'' then Inr MarketAlgo else if v = ''limit'' then Inr LimitAlgo
         else contract_error ''strategyV2.executionAlgoUnsupported'')"

definition queued_summary :: "string \<Rightarrow> order_summary" where
  "queued_summary ref = \<lparr>os_client = ref, os_status = ''queued'', os_filled = Some 0, os_notional = Some 0,
     os_fee = Some 0, os_reason = None\<rparr>"

definition order_protection :: "runtime_context \<Rightarrow> order_kwargs \<Rightarrow> protection_spec option" where
  "order_protection cx kw =
     (case spec_from_value (kw_protection kw) (kw_inline kw) (kw_trailing kw) (kw_rebase kw) of
        Some s \<Rightarrow> Some s | None \<Rightarrow> cx_default cx)"

definition add_intent :: "(instant \<Rightarrow> string) \<Rightarrow> string \<Rightarrow> order_kind \<Rightarrow> real \<Rightarrow> order_type \<Rightarrow> execution_algo \<Rightarrow>
    real \<Rightarrow> real \<Rightarrow> real \<Rightarrow> order_kwargs \<Rightarrow> runtime_context \<Rightarrow> runtime_context \<times> string option"
where
  "add_intent fmt key kind x ty algo limit wait offset kw cx =
     (let n = cx_sequence cx + 1;
          given = py_strip (kw_client_id kw);
          ref = take 100 (if given = [] then order_reference fmt (cx_now cx) n else given);
          o' = \<lparr>o_symbol = key, o_kind = kind, o_value = x,
                o_reason = first_string [kw_reason kw, ''strategy''],
                o_protection = order_protection cx kw, o_signal_time = cx_now cx, o_attempts = 0,
                o_direction = 0, o_type = ty, o_limit_price = limit, o_algo = algo,
                o_maker_wait = wait, o_maker_offset = offset,
                o_side = normalize_position_side (kw_side kw), o_client_id = ref\<rparr>
      in (cx\<lparr>cx_sequence := n,
             cx_statuses := (case map_of (cx_statuses cx) ref of
                Some _ \<Rightarrow> cx_statuses cx
              | None \<Rightarrow> dict_set ref (queued_summary ref) (cx_statuses cx)),
             cx_orders := cx_orders cx @ [o']\<rparr>,
          if given = [] then None else Some ref))"

definition queue :: "(string \<Rightarrow> string option) \<Rightarrow> (instant \<Rightarrow> string) \<Rightarrow> string \<Rightarrow> order_kind \<Rightarrow> rawnum \<Rightarrow>
    order_kwargs \<Rightarrow> runtime_context \<Rightarrow> runtime_error + (runtime_context \<times> string option)"
where
  "queue resolve fmt symbol kind v kw cx =
     (case resolve symbol of
        None \<Rightarrow> contract_error ''strategyV2.dataUnavailable''
      | Some key \<Rightarrow>
        (case v of
           RNum x \<Rightarrow>
             ebind (parse_order_type (first_string [kw_order_type kw, kw_type kw])) (\<lambda>ty.
             ebind (parse_algo ty (kw_algo kw)) (\<lambda>algo.
             ebind (number_or_zero ''strategyV2.invalidOrderPrice''
                (if kw_limit_price kw = RNone \<and> ty = LimitOrder then kw_price kw else kw_limit_price kw)) (\<lambda>limit.
             ebind (number_or_zero ''strategyV2.invalidOrderPrice'' (kw_maker_wait kw)) (\<lambda>wait.
             ebind (number_or_zero ''strategyV2.invalidOrderPrice'' (kw_maker_offset kw)) (\<lambda>offset.
             if algo = LimitAlgo \<and> limit \<le> 0 then contract_error ''strategyV2.limitPriceRequired''
             else Inr (add_intent fmt key kind x ty algo limit (max 0 wait) (max 0 offset) kw cx))))))
         | _ \<Rightarrow> contract_error ''strategyV2.orderValueInvalid''))"

subsection \<open>Statuses, cancellation, exit reasons\<close>

definition set_default_protection :: "raw_map \<Rightarrow> raw_map option \<Rightarrow> pyval \<Rightarrow> runtime_context \<Rightarrow> runtime_context" where
  "set_default_protection values trailing rebase cx =
     cx\<lparr>cx_default := spec_from_value values [] trailing rebase\<rparr>"

definition get_order_status :: "string \<Rightarrow> runtime_context \<Rightarrow> order_summary" where
  "get_order_status ref cx =
     (let r = py_strip ref in
      case map_of (cx_statuses cx) r of
        Some s \<Rightarrow> s
      | None \<Rightarrow> \<lparr>os_client = r, os_status = ''unknown'', os_filled = Some 0, os_notional = Some 0,
                 os_fee = Some 0, os_reason = None\<rparr>)"

definition cancel_order :: "string \<Rightarrow> runtime_context \<Rightarrow> runtime_context \<times> bool" where
  "cancel_order ref cx =
     (let r = py_strip ref;
          cur = (case map_of (cx_statuses cx) r of
                   Some s \<Rightarrow> s
                 | None \<Rightarrow> \<lparr>os_client = r, os_status = [], os_filled = None, os_notional = None,
                            os_fee = None, os_reason = None\<rparr>)
      in if r = [] \<or> py_lower (py_strip (os_status cur)) = ''filled'' then (cx, False)
         else (cx\<lparr>cx_statuses := dict_set r (cur\<lparr>os_client := r, os_status := ''cancelled'',
                     os_reason := Some ''cancelled_by_strategy''\<rparr>) (cx_statuses cx),
                  cx_cancelled := List.insert r (cx_cancelled cx)\<rparr>, True))"

definition flush_cancelled :: "runtime_context \<Rightarrow> runtime_context \<times> string list" where
  "flush_cancelled cx = (cx\<lparr>cx_cancelled := []\<rparr>, cx_cancelled cx)"

definition update_order_statuses :: "order_summary dict \<Rightarrow> runtime_context \<Rightarrow> runtime_context" where
  "update_order_statuses vs cx =
     cx\<lparr>cx_statuses := foldl (\<lambda>d (k, s). if py_strip k = [] then d else dict_set (py_strip k) s d)
        (cx_statuses cx) vs\<rparr>"

definition set_last_exit_reason :: "string \<Rightarrow> string \<Rightarrow> runtime_context \<Rightarrow> runtime_context" where
  "set_last_exit_reason symbol reason cx =
     cx\<lparr>cx_exit_reasons := dict_set symbol reason (cx_exit_reasons cx)\<rparr>"

definition consume_last_exit_reason :: "string \<Rightarrow> runtime_context \<Rightarrow> runtime_context \<times> string" where
  "consume_last_exit_reason symbol cx =
     (cx\<lparr>cx_exit_reasons := dict_pop symbol (cx_exit_reasons cx)\<rparr>,
      case map_of (cx_exit_reasons cx) symbol of None \<Rightarrow> [] | Some r \<Rightarrow> r)"

definition flush_orders :: "runtime_context \<Rightarrow> runtime_context \<times> order_intent list" where
  "flush_orders cx = (cx\<lparr>cx_orders := []\<rparr>, cx_orders cx)"

definition flush_logs :: "runtime_context \<Rightarrow> runtime_context \<times> string list" where
  "flush_logs cx = (cx\<lparr>cx_logs := []\<rparr>, cx_logs cx)"

definition log_message :: "string \<Rightarrow> runtime_context \<Rightarrow> runtime_context" where
  "log_message m cx = cx\<lparr>cx_logs := cx_logs cx @ [m]\<rparr>"

text \<open>\<open>get_position\<close> on one symbol: the open position, or an empty one at the visible price.\<close>

definition get_position :: "(string \<Rightarrow> string option) \<Rightarrow> portal \<Rightarrow> position dict \<Rightarrow> string \<Rightarrow> string \<Rightarrow> position" where
  "get_position resolve p ps symbol side =
     (let key = (case resolve symbol of Some k \<Rightarrow> k | None \<Rightarrow> symbol) in
      case map_of ps (position_key key side) of
        Some q \<Rightarrow> q
      | None \<Rightarrow> \<lparr>pos_symbol = key, amount = 0, avg_cost = 0, last_price = portal_current p key 0,
                 pos_side = normalize_position_side side\<rparr>)"

subsection \<open>What a strategy can do to its context\<close>

text \<open>
  One call of the API that changes the context. A handler acts by such calls only; what it
  computes in between is its own.
\<close>

inductive api_step :: "(string \<Rightarrow> string option) \<Rightarrow> (instant \<Rightarrow> string) \<Rightarrow> runtime_context \<Rightarrow> runtime_context \<Rightarrow> bool"
  for resolve fmt where
  order: "queue resolve fmt symbol kind v kw cx = Inr (cx', r) \<Longrightarrow> api_step resolve fmt cx cx'"
| default: "api_step resolve fmt cx (set_default_protection vs tr rb cx)"
| cancel: "api_step resolve fmt cx (fst (cancel_order ref cx))"
| consume: "api_step resolve fmt cx (fst (consume_last_exit_reason symbol cx))"
| log: "api_step resolve fmt cx (log_message m cx)"

abbreviation api_path where "api_path resolve fmt \<equiv> (api_step resolve fmt)\<^sup>*\<^sup>*"

inductive_simps api_step_simps: "api_step resolve fmt cx cx'"

text \<open>The order an accepted call queues.\<close>

definition valid_intent :: "order_intent \<Rightarrow> bool" where
  "valid_intent o' \<longleftrightarrow> (o_algo o' = LimitAlgo \<longrightarrow> 0 < o_limit_price o') \<and>
     (o_type o' = LimitOrder \<longrightarrow> o_algo o' \<noteq> LimitAlgo \<or> 0 < o_limit_price o') \<and>
     0 \<le> o_maker_wait o' \<and> 0 \<le> o_maker_offset o' \<and> o_attempts o' = 0 \<and> o_direction o' = 0 \<and>
     o_side o' \<in> {''long'', ''short'', ''''} \<and> length (o_client_id o') \<le> 100 \<and>
     (\<forall>s. o_protection o' = Some s \<longrightarrow> spec_ok s \<and> spec_enabled s)"

definition context_wf :: "runtime_context \<Rightarrow> bool" where
  "context_wf cx \<longleftrightarrow> dict_wf (cx_statuses cx) \<and>
     (\<forall>s. cx_default cx = Some s \<longrightarrow> spec_ok s \<and> spec_enabled s)"

lemma queue_adds:
  assumes "queue resolve fmt symbol kind v kw cx = Inr (cx', r)" "context_wf cx"
  obtains key x o' where "resolve symbol = Some key" "v = RNum x"
    "cx_orders cx' = cx_orders cx @ [o']" "o_symbol o' = key" "o_kind o' = kind" "o_value o' = x"
    "o_signal_time o' = cx_now cx" "valid_intent o'" "o_reason o' = first_string [kw_reason kw, ''strategy'']"
    "map_of (cx_statuses cx') (o_client_id o') \<noteq> None" "cx_sequence cx' = cx_sequence cx + 1"
    "cx_cancelled cx' = cx_cancelled cx" "cx_now cx' = cx_now cx" "cx_default cx' = cx_default cx"
    "dict_wf (cx_statuses cx')" "cx_exit_reasons cx' = cx_exit_reasons cx"
proof -
  obtain key x where kn: "resolve symbol = Some key" "v = RNum x"
    using assms(1) by (auto simp: queue_def contract_error_def split: option.splits rawnum.splits)
  obtain ty algo limit wait offset where
    p': "add_intent fmt key kind x ty algo limit (max 0 wait) (max 0 offset) kw cx = (cx', r)"
    "\<not> (algo = LimitAlgo \<and> limit \<le> 0)"
    using assms(1) unfolding queue_def kn option.case rawnum.case
    by (elim ebind_InrE) (simp add: contract_error_def split: if_splits)
  have p: "(cx', r) = add_intent fmt key kind x ty algo limit (max 0 wait) (max 0 offset) kw cx"
    "algo = LimitAlgo \<longrightarrow> 0 < limit" using p' by auto
  have pr: "\<And>s. order_protection cx kw = Some s \<Longrightarrow> spec_ok s \<and> spec_enabled s"
    using assms(2) spec_from_value_ok by (auto simp: order_protection_def context_wf_def split: option.splits)
  define o' where "o' = last (cx_orders cx')"
  have o': "cx_orders cx' = cx_orders cx @ [o']" "o_symbol o' = key" "o_kind o' = kind" "o_value o' = x"
    "o_signal_time o' = cx_now cx" "o_reason o' = first_string [kw_reason kw, ''strategy'']"
    using p(1) by (simp_all add: add_intent_def Let_def o'_def)
  have "valid_intent o'"
    using p pr normalize_side_cases[of "kw_side kw"]
    by (simp add: add_intent_def Let_def o'_def valid_intent_def)
  moreover have "map_of (cx_statuses cx') (o_client_id o') \<noteq> None" "dict_wf (cx_statuses cx')"
    using p(1) assms(2) by (auto simp: add_intent_def Let_def o'_def context_wf_def dict_simps split: option.splits)
  moreover have "cx_sequence cx' = cx_sequence cx + 1" "cx_cancelled cx' = cx_cancelled cx"
    "cx_now cx' = cx_now cx" "cx_default cx' = cx_default cx" "cx_exit_reasons cx' = cx_exit_reasons cx"
    using p(1) by (simp_all add: add_intent_def Let_def)
  ultimately show ?thesis using that kn o' by blast
qed

text \<open>
  only valid orders are queued. When an order helper accepts a call, exactly one intent is
  appended; it carries the resolved instrument, the finite value and the time of the call, a limit
  execution has a positive limit price, waits and offsets are not negative, the protection it
  carries is enabled and within its bounds, its reference is tracked in the status table, and
  nothing already queued changes. (Every other call raises and queues nothing.)
\<close>

theorem queue_accepts_only_valid_orders:
  assumes "queue resolve fmt symbol kind v kw cx = Inr (cx', r)" "context_wf cx"
  shows "context_wf cx' \<and> (\<exists>o'. cx_orders cx' = cx_orders cx @ [o'] \<and> valid_intent o' \<and>
    resolve symbol = Some (o_symbol o') \<and> v = RNum (o_value o') \<and> o_signal_time o' = cx_now cx \<and>
    map_of (cx_statuses cx') (o_client_id o') \<noteq> None)"
  using assms(1)
proof (rule queue_adds[OF _ assms(2)])
  fix key x o'
  assume a: "resolve symbol = Some key" "v = RNum x" "cx_orders cx' = cx_orders cx @ [o']"
    "o_symbol o' = key" "o_value o' = x" "o_signal_time o' = cx_now cx" "valid_intent o'"
    "map_of (cx_statuses cx') (o_client_id o') \<noteq> None" "cx_default cx' = cx_default cx" "dict_wf (cx_statuses cx')"
  have "context_wf cx'" using a assms(2) by (simp add: context_wf_def)
  then show ?thesis using a by auto
qed

definition demo_resolve :: "string \<Rightarrow> string option" where
  "demo_resolve s = resolve_key [] (demo_portal 11) s"

definition demo_fmt :: "instant \<Rightarrow> string" where
  "demo_fmt t = nat_string (nat t)"

theorem queue_accepts_only_valid_orders_witness:
  "\<exists>cx r. queue demo_resolve demo_fmt ''A'' Quantity (RNum 2)
      (no_kwargs\<lparr>kw_order_type := ''limit'', kw_price := RNum 9, kw_client_id := ''c1''\<rparr>) new_context = Inr (cx, r) \<and>
     r = Some ''c1'' \<and> (\<exists>o'. cx_orders cx = [o'] \<and> valid_intent o')"
proof -
  let ?q = "queue demo_resolve demo_fmt ''A'' Quantity (RNum 2)
      (no_kwargs\<lparr>kw_order_type := ''limit'', kw_price := RNum 9, kw_client_id := ''c1''\<rparr>) new_context"
  have "\<not> isl ?q" "snd (projr ?q) = Some ''c1''" by code_simp+
  then obtain cx r where q: "?q = Inr (cx, r)" "r = Some ''c1''" by (cases ?q) auto
  have "context_wf new_context" by (simp add: context_wf_def new_context_def)
  from queue_accepts_only_valid_orders[OF q(1) this] q show ?thesis by (auto simp: new_context_def)
qed

subsection \<open>References\<close>

lemma nat_string_digits: "c \<in> set (nat_string n) \<Longrightarrow> is_digit c"
proof (induction n rule: nat_string.induct)
  case (1 n)
  have d: "is_digit (char_of (48 + m))" if "m < 10" for m :: nat using that by (simp add: is_digit_def)
  from 1 d[of n] d[of "n mod 10"] show ?case
    by (subst (asm) (2) nat_string.simps) (auto split: if_splits)
qed

fun digits_value :: "string \<Rightarrow> nat" where
  "digits_value s = foldl (\<lambda>a c. a * 10 + (of_char c - 48)) 0 s"

lemma nat_string_value: "digits_value (nat_string n) = n"
proof (induction n rule: nat_string.induct)
  case (1 n)
  then show ?case by (subst nat_string.simps) auto
qed

lemma nat_string_inj: "nat_string m = nat_string n \<Longrightarrow> m = n"
  by (metis nat_string_value)

text \<open>
  generated references are unique. The references the runtime makes up differ whenever their
  sequence numbers differ, whatever the clock showed, as long as neither is cut at a hundred
  characters; so two orders of one session never share a status entry by accident.
\<close>

theorem order_references_unique:
  assumes "length (order_reference fmt s m) \<le> 100" "length (order_reference fmt t n) \<le> 100" "m \<noteq> n"
  shows "take 100 (order_reference fmt s m) \<noteq> take 100 (order_reference fmt t n)"
proof
  assume "take 100 (order_reference fmt s m) = take 100 (order_reference fmt t n)"
  then have eq: "order_reference fmt s m = order_reference fmt t n" using assms(1,2) by simp
  have c: "CHR '':'' \<notin> set (nat_string k)" for k
    using nat_string_digits[of "CHR '':''" k] by (auto simp: is_digit_def)
  have "split_last CHR '':'' (order_reference fmt u k) =
      Some (''strategy-v2:'' @ (case u of None \<Rightarrow> ''discovery'' | Some x \<Rightarrow> fmt x), nat_string k)" for u k
    using split_last_append[OF c, of "''strategy-v2:'' @ (case u of None \<Rightarrow> ''discovery'' | Some x \<Rightarrow> fmt x)" k]
    by (simp add: order_reference_def)
  with eq have "nat_string m = nat_string n" by (metis option.inject prod.inject)
  then show False using nat_string_inj assms(3) by blast
qed

theorem order_references_unique_witness:
  "length (order_reference demo_fmt (Some 1) 12) \<le> 100 \<and>
   take 100 (order_reference demo_fmt (Some 1) 12) \<noteq> take 100 (order_reference demo_fmt (Some 11) 2)"
proof -
  have "length (order_reference demo_fmt (Some 1) 12) \<le> 100" "length (order_reference demo_fmt (Some 11) 2) \<le> 100"
    by code_simp+
  then show ?thesis using order_references_unique[of demo_fmt "Some 1" 12 "Some 11" 2] by simp
qed

end
