(* ===== verification/Values.thy ===== *)
theory Values
  imports Prelude
begin

text \<open>
  Values that arrive as text or JSON, as the live components read them: Python's \<open>int\<close> and \<open>float\<close> on
  strings, the truth value and the numeric reading of a JSON value, chains of \<open>or\<close> over dict lookups,
  and the rounding a \<open>DECIMAL(20,8)\<close> column applies to what is written into it.
\<close>

subsection \<open>Integers and decimals in strings\<close>

text \<open>Python's \<open>int\<close> on a string: blanks around, a sign, digits with single underscores between.\<close>

definition digit_value :: "char \<Rightarrow> int option" where
  "digit_value c = (let n = (of_char c :: int) in if 48 \<le> n \<and> n \<le> 57 then Some (n - 48) else None)"

fun digits_int :: "int \<Rightarrow> string \<Rightarrow> int option" where
  "digits_int acc [] = Some acc"
| "digits_int acc (c # s) =
     (if c = CHR ''_'' then
        (case s of [] \<Rightarrow> None
         | d # s' \<Rightarrow> (case digit_value d of None \<Rightarrow> None | Some v \<Rightarrow> digits_int (10 * acc + v) s'))
      else case digit_value c of None \<Rightarrow> None | Some v \<Rightarrow> digits_int (10 * acc + v) s)"

definition unsigned_int :: "string \<Rightarrow> int option" where
  "unsigned_int s = (case s of [] \<Rightarrow> None
     | c # s' \<Rightarrow> (case digit_value c of None \<Rightarrow> None | Some v \<Rightarrow> digits_int v s'))"

definition py_int :: "string \<Rightarrow> int option" where
  "py_int s = (case py_strip s of
      [] \<Rightarrow> None
    | c # s' \<Rightarrow> if c = CHR ''-'' then map_option uminus (unsigned_int s')
                else if c = CHR ''+'' then unsigned_int s' else unsigned_int (c # s'))"

text \<open>
  Python's \<open>float\<close> on a string: the decimal literals. The words \<open>inf\<close> and \<open>nan\<close>, which have no real
  value, are read as unreadable.
\<close>

definition signed_by :: "(string \<Rightarrow> 'a::uminus option) \<Rightarrow> string \<Rightarrow> 'a option" where
  "signed_by f s = (case s of
      [] \<Rightarrow> None
    | c # s' \<Rightarrow> if c = CHR ''-'' then map_option uminus (f s') else if c = CHR ''+'' then f s' else f s)"

definition digits_or_0 :: "string \<Rightarrow> int option" where
  "digits_or_0 s = (if s = [] then Some 0 else unsigned_int s)"

definition mantissa :: "string \<Rightarrow> real option" where
  "mantissa s =
     (let i = takeWhile (\<lambda>c. c \<noteq> CHR ''.'') s; f = tl (dropWhile (\<lambda>c. c \<noteq> CHR ''.'') s) in
      if i = [] \<and> f = [] then None
      else case (digits_or_0 i, digits_or_0 f) of
             (Some a, Some b) \<Rightarrow> Some (of_int a + of_int b / 10 ^ length (filter (\<lambda>c. c \<noteq> CHR ''_'') f))
           | _ \<Rightarrow> None)"

definition scale10 :: "real \<Rightarrow> int \<Rightarrow> real" where
  "scale10 x e = (if 0 \<le> e then x * 10 ^ nat e else x / 10 ^ nat (- e))"

definition is_exp :: "char \<Rightarrow> bool" where
  "is_exp c = (c = CHR ''e'' \<or> c = CHR ''E'')"

definition unsigned_float :: "string \<Rightarrow> real option" where
  "unsigned_float s =
     (let r = dropWhile (\<lambda>c. \<not> is_exp c) s in
      case (mantissa (takeWhile (\<lambda>c. \<not> is_exp c) s), if r = [] then Some 0 else signed_by unsigned_int (tl r)) of
        (Some m, Some e) \<Rightarrow> Some (scale10 m e)
      | _ \<Rightarrow> None)"

definition py_float :: "string \<Rightarrow> real option" where
  "py_float s = signed_by unsigned_float (py_strip s)"

lemma py_float_demo:
  "py_float ''-12.50'' = Some (- 25 / 2)" "py_float ''1e-3'' = Some (1 / 1000)"
  "py_float ''.5'' = Some (1 / 2)" "py_float ''0x1'' = None" "py_float ''.'' = None"
  by code_simp+

subsection \<open>JSON values\<close>

datatype json = JNull | JBool bool | JNum real | JStr string | JList "json list" | JDict "(string \<times> json) list"

fun json_truthy :: "json \<Rightarrow> bool" where
  "json_truthy JNull = False"
| "json_truthy (JBool b) = b"
| "json_truthy (JNum x) = (x \<noteq> 0)"
| "json_truthy (JStr s) = (s \<noteq> [])"
| "json_truthy (JList xs) = (xs \<noteq> [])"
| "json_truthy (JDict d) = (d \<noteq> [])"

definition json_or :: "json \<Rightarrow> json \<Rightarrow> json" where
  "json_or x y = (if json_truthy x then x else y)"

fun is_dict :: "json \<Rightarrow> bool" where
  "is_dict (JDict d) = True"
| "is_dict _ = False"

definition as_dict :: "json \<Rightarrow> json" where
  "as_dict x = (if is_dict x then x else JDict [])"

text \<open>\<open>x.get(k)\<close>, for a dict; what is not a dict has no entries.\<close>

fun entries :: "json \<Rightarrow> (string \<times> json) list" where
  "entries (JDict d) = d"
| "entries _ = []"

definition get :: "json \<Rightarrow> string \<Rightarrow> json" where
  "get x k = (case map_of (entries x) k of None \<Rightarrow> JNull | Some v \<Rightarrow> v)"

text \<open>\<open>x.get(k1) or x.get(k2) or ...\<close>\<close>

fun get_any :: "json \<Rightarrow> string list \<Rightarrow> json" where
  "get_any x [] = JNull"
| "get_any x [k] = get x k"
| "get_any x (k # ks) = json_or (get x k) (get_any x ks)"

text \<open>\<open>float(x or 0.0)\<close>; no value where it raises.\<close>

fun float_or_0 :: "json \<Rightarrow> real option" where
  "float_or_0 (JNum x) = Some x"
| "float_or_0 (JBool b) = Some (if b then 1 else 0)"
| "float_or_0 (JStr s) = (if s = [] then Some 0 else py_float s)"
| "float_or_0 JNull = Some 0"
| "float_or_0 (JList xs) = (if xs = [] then Some 0 else None)"
| "float_or_0 (JDict d) = (if d = [] then Some 0 else None)"

lemma float_or_0_falsy: "\<not> json_truthy x \<Longrightarrow> float_or_0 x = Some 0"
  by (cases x) auto

text \<open>The same inside \<open>try: ... except: 0.0\<close>.\<close>

definition float_safe :: "json \<Rightarrow> real" where
  "float_safe x = (case float_or_0 x of None \<Rightarrow> 0 | Some v \<Rightarrow> v)"

text \<open>\<open>float(x)\<close>; no value where it raises.\<close>

fun py_float_of :: "json \<Rightarrow> real option" where
  "py_float_of (JNum x) = Some x"
| "py_float_of (JBool b) = Some (if b then 1 else 0)"
| "py_float_of (JStr s) = py_float s"
| "py_float_of _ = None"

text \<open>\<open>str(x or "")\<close> of a scalar; other values are not used as text by the code.\<close>

fun str_or_empty :: "json \<Rightarrow> string" where
  "str_or_empty (JStr s) = s"
| "str_or_empty _ = []"

subsection \<open>Decimal columns\<close>

text \<open>What a \<open>DECIMAL(20,8)\<close> or \<open>DECIMAL(24,8)\<close> column keeps of a value: eight decimals, half away from zero.\<close>

definition decimal8 :: "real \<Rightarrow> real" where
  "decimal8 x = (if x < 0 then - of_int \<lfloor>- x * 100000000 + 1 / 2\<rfloor> / 100000000
                 else of_int \<lfloor>x * 100000000 + 1 / 2\<rfloor> / 100000000)"

text \<open>The values a column holds exactly.\<close>

definition exact8 :: "real \<Rightarrow> bool" where
  "exact8 x \<longleftrightarrow> (\<exists>n. x = of_int n / 100000000)"

definition half8 :: real where "half8 = 1 / 200000000"

lemma half8_pos [simp]: "0 < half8" "0 \<le> half8"
  by (simp_all add: half8_def)

lemma floor_half: "\<bar>of_int \<lfloor>y + 1 / 2\<rfloor> - (y::real)\<bar> \<le> 1 / 2"
  by linarith

lemma decimal8_error: "\<bar>decimal8 x - x\<bar> \<le> half8"
proof (cases "x < 0")
  case True
  define n :: real where "n = of_int \<lfloor>- x * 100000000 + 1 / 2\<rfloor>"
  have "\<bar>n - (- x * 100000000)\<bar> \<le> 1 / 2" unfolding n_def by (rule floor_half)
  moreover have "decimal8 x = - n / 100000000" using True by (simp add: decimal8_def n_def)
  ultimately have "- half8 \<le> decimal8 x - x" "decimal8 x - x \<le> half8" unfolding half8_def by linarith+
  then show ?thesis by (simp add: abs_le_iff)
next
  case False
  define n :: real where "n = of_int \<lfloor>x * 100000000 + 1 / 2\<rfloor>"
  have "\<bar>n - x * 100000000\<bar> \<le> 1 / 2" unfolding n_def by (rule floor_half)
  moreover have "decimal8 x = n / 100000000" using False by (simp add: decimal8_def n_def)
  ultimately have "- half8 \<le> decimal8 x - x" "decimal8 x - x \<le> half8" unfolding half8_def by linarith+
  then show ?thesis by (simp add: abs_le_iff)
qed

lemma decimal8_nonneg: "0 \<le> x \<Longrightarrow> 0 \<le> decimal8 x"
  by (simp add: decimal8_def)

lemma decimal8_0 [simp]: "decimal8 0 = 0"
  by (simp add: decimal8_def)

lemma exact8_decimal8 [simp, intro]: "exact8 (decimal8 x)"
  unfolding exact8_def decimal8_def
  by (metis (no_types, opaque_lifting) of_int_minus minus_divide_left)

lemma floor_int_half: "\<lfloor>of_int n + 1 / 2 :: real\<rfloor> = n"
  by linarith

lemma decimal8_exact: "exact8 x \<Longrightarrow> decimal8 x = x"
proof -
  assume "exact8 x"
  then obtain n where x: "x = of_int n / 100000000" by (auto simp: exact8_def)
  then show ?thesis
    using floor_int_half[of n] floor_int_half[of "- n"] by (simp add: decimal8_def)
qed

lemma exact8_add: "exact8 x \<Longrightarrow> exact8 y \<Longrightarrow> exact8 (x + y)"
proof -
  assume "exact8 x" "exact8 y"
  then obtain m n where "x = of_int m / 100000000" "y = of_int n / 100000000"
    unfolding exact8_def by blast
  then have "x + y = of_int (m + n) / 100000000" by (simp add: add_divide_distrib)
  then show ?thesis unfolding exact8_def by blast
qed

lemma exact8_diff: "exact8 x \<Longrightarrow> exact8 y \<Longrightarrow> exact8 (x - y)"
proof -
  assume "exact8 x" "exact8 y"
  then obtain m n where "x = of_int m / 100000000" "y = of_int n / 100000000"
    unfolding exact8_def by blast
  then have "x - y = of_int (m - n) / 100000000" by (simp add: diff_divide_distrib)
  then show ?thesis unfolding exact8_def by blast
qed

lemma exact8_0 [simp]: "exact8 0"
  unfolding exact8_def by (rule exI[of _ 0]) simp

end
