(* ===== verification/Schedule.thy ===== *)
theory Schedule
  imports Values
begin

text \<open>
  When a scheduled callback is due (\<open>_schedule_due\<close>, \<open>_parse_schedule_time\<close> and
  \<open>_is_intraday_frequency\<close> in \<open>strategy_v2/runtime.py\<close>). Instants are UTC or naive: a day has 24 hours.
  The civil calendar is the proleptic Gregorian one of the standard library.
\<close>

subsection \<open>The civil calendar\<close>

text \<open>Year, month and day of a day number (days since 1970-01-01), and back.\<close>

definition civil_of_day :: "int \<Rightarrow> int \<times> int \<times> int" where
  "civil_of_day n =
     (let z = n + 719468; era = z div 146097; doe = z mod 146097;
          yoe = (doe - doe div 1460 + doe div 36524 - doe div 146096) div 365;
          doy = doe - (365 * yoe + yoe div 4 - yoe div 100);
          mp = (5 * doy + 2) div 153;
          m = (if mp < 10 then mp + 3 else mp - 9)
      in (yoe + era * 400 + (if m \<le> 2 then 1 else 0), m, doy - (153 * mp + 2) div 5 + 1))"

definition day_of_civil :: "int \<Rightarrow> int \<Rightarrow> int \<Rightarrow> int" where
  "day_of_civil y m d =
     (let y' = (if m \<le> 2 then y - 1 else y); era = y' div 400; yoe = y' mod 400;
          doy = (153 * (if m > 2 then m - 3 else m + 9) + 2) div 5 + d - 1
      in era * 146097 + (yoe * 365 + yoe div 4 - yoe div 100 + doy) - 719468)"

definition is_leap :: "int \<Rightarrow> bool" where
  "is_leap y \<longleftrightarrow> 4 dvd y \<and> (\<not> 100 dvd y \<or> 400 dvd y)"

definition days_in_month :: "int \<Rightarrow> int \<Rightarrow> int" where
  "days_in_month y m = (if m = 2 then (if is_leap y then 29 else 28)
     else if m \<in> {4, 6, 9, 11} then 30 else 31)"

definition year_month :: "instant \<Rightarrow> int \<times> int" where
  "year_month t = (let (y, m, d) = civil_of_day (day_of t) in (y, m))"

subsection \<open>Reading the times\<close>

definition is_intraday :: "string \<Rightarrow> bool" where
  "is_intraday frequency =
     (let v = py_lower (py_strip (if frequency = [] then ''1d'' else frequency))
      in py_endswith v ''m'' \<or> py_endswith v ''h'')"

definition ns_per_minute :: int where "ns_per_minute = 60 * ns_per_s"

text \<open>An unreadable time is midnight.\<close>

definition parse_schedule_time :: "string \<Rightarrow> int" where
  "parse_schedule_time v =
     (let s = (if v = [] then ''00:00'' else v) in
      if CHR '':'' \<in> set s then
        (case (py_int (takeWhile (\<lambda>c. c \<noteq> CHR '':'') s), py_int (tl (dropWhile (\<lambda>c. c \<noteq> CHR '':'') s))) of
           (Some h, Some m) \<Rightarrow> h * 60 * ns_per_minute + m * ns_per_minute
         | _ \<Rightarrow> 0)
      else 0)"

subsection \<open>Schedules\<close>

record schedule =
  sc_frequency :: string
  sc_callback :: string
  sc_time :: string
  sc_weekday :: "int option"
  sc_monthday :: "int option"

text \<open>\<open>int(x or 1)\<close>.\<close>

definition or_one :: "int option \<Rightarrow> int" where
  "or_one x = (case x of None \<Rightarrow> 1 | Some v \<Rightarrow> if v = 0 then 1 else v)"

definition scheduled_day :: "schedule \<Rightarrow> instant \<Rightarrow> int option" where
  "scheduled_day sc t =
     (if sc_frequency sc = ''weekly'' then
        Some (day_of t + (max 1 (min 7 (or_one (sc_weekday sc))) - 1 - weekday_of t))
      else if sc_frequency sc = ''monthly'' then
        (let (y, m) = year_month t in
         Some (day_of_civil y m (min (max 1 (or_one (sc_monthday sc))) (days_in_month y m))))
      else if sc_frequency sc = ''daily'' then Some (day_of t) else None)"

definition scheduled_instant :: "schedule \<Rightarrow> string \<Rightarrow> instant \<Rightarrow> instant option" where
  "scheduled_instant sc frequency t =
     map_option (\<lambda>d. d * ns_per_day +
       (if is_intraday frequency \<and> sc_time sc \<noteq> [] then parse_schedule_time (sc_time sc) else 0))
       (scheduled_day sc t)"

definition schedule_due :: "schedule \<Rightarrow> instant \<Rightarrow> instant option \<Rightarrow> string \<Rightarrow> bool" where
  "schedule_due sc t previous frequency =
     (case scheduled_instant sc frequency t of
        None \<Rightarrow> False
      | Some due \<Rightarrow>
          if t < due then False
          else case previous of
                 None \<Rightarrow> True
               | Some p \<Rightarrow> if sc_frequency sc = ''daily'' \<and> \<not> is_intraday frequency
                           then day_of t \<noteq> day_of p
                           else p < due \<and> due \<le> t)"

subsection \<open>Once per period\<close>

text \<open>The calendar period a schedule counts in: the day, the week from Monday, the month.\<close>

definition period_of :: "schedule \<Rightarrow> instant \<Rightarrow> int \<times> int" where
  "period_of sc t =
     (if sc_frequency sc = ''weekly'' then (day_of t - weekday_of t, 0)
      else if sc_frequency sc = ''monthly'' then year_month t
      else (day_of t, 0))"

text \<open>The instants of a clock at which the schedule is due.\<close>

fun due_times :: "schedule \<Rightarrow> string \<Rightarrow> instant option \<Rightarrow> instant list \<Rightarrow> instant list" where
  "due_times sc f previous [] = []"
| "due_times sc f previous (t # ts) =
     (if schedule_due sc t previous f then t # due_times sc f (Some t) ts else due_times sc f (Some t) ts)"

lemma period_instant: "period_of sc t = period_of sc u \<Longrightarrow> scheduled_instant sc f t = scheduled_instant sc f u"
  by (auto simp: period_of_def scheduled_instant_def scheduled_day_def split: if_splits)

lemma due_times_subset: "set (due_times sc f p ts) \<subseteq> set ts"
  by (induction ts arbitrary: p) auto

lemma day_mono: "s \<le> t \<Longrightarrow> day_of s \<le> day_of t"
  by (simp add: day_of_def ns_per_day_def zdiv_mono1)

lemma day_le_iff: "d * ns_per_day \<le> t \<longleftrightarrow> d \<le> day_of t"
proof
  assume "d * ns_per_day \<le> t"
  then have "d * ns_per_day div ns_per_day \<le> t div ns_per_day"
    by (rule zdiv_mono1) (simp add: ns_per_day_def)
  then show "d \<le> day_of t" by (simp add: day_of_def ns_per_day_def)
next
  assume "d \<le> day_of t"
  then have "d * ns_per_day \<le> midnight t" by (simp add: midnight_def ns_per_day_def)
  then show "d * ns_per_day \<le> t" using midnight_le[of t] by linarith
qed

lemma due_reached:
  "schedule_due sc u q f \<Longrightarrow> \<exists>d. scheduled_instant sc f u = Some d \<and> d \<le> u"
  by (auto simp: schedule_due_def split: option.splits if_splits)

lemma due_after:
  assumes "schedule_due sc t (Some p) f" "schedule_due sc u q f" "u \<le> p" "p < t"
  shows "period_of sc t \<noteq> period_of sc u"
proof
  assume eq: "period_of sc t = period_of sc u"
  from due_reached[OF assms(2)] obtain d where d: "scheduled_instant sc f u = Some d" "d \<le> u" by blast
  with period_instant[OF eq] have "scheduled_instant sc f t = Some d" by simp
  with assms(1,3) d(2) have day: "sc_frequency sc = ''daily''" "day_of t \<noteq> day_of p"
    by (auto simp: schedule_due_def split: if_splits)
  then have "day_of t = day_of u" using eq by (simp add: period_of_def)
  with day_mono[OF assms(3)] day_mono[of p t] assms(4) day(2) show False by simp
qed

lemma due_times_fresh:
  assumes "sorted_wrt (<) (p # ts)"
  shows "distinct (map (period_of sc) (due_times sc f (Some p) ts)) \<and>
    (\<forall>u q. u \<le> p \<longrightarrow> schedule_due sc u q f \<longrightarrow> period_of sc u \<notin> period_of sc ` set (due_times sc f (Some p) ts))"
  using assms
proof (induction ts arbitrary: p)
  case (Cons t ts)
  have IH: "distinct (map (period_of sc) (due_times sc f (Some t) ts))"
    "\<And>u q. u \<le> t \<Longrightarrow> schedule_due sc u q f \<Longrightarrow>
       period_of sc u \<notin> period_of sc ` set (due_times sc f (Some t) ts)"
    using Cons.IH[of t] Cons.prems by auto
  have pt: "p < t" using Cons.prems by simp
  show ?case
  proof (intro conjI allI impI)
    show "distinct (map (period_of sc) (due_times sc f (Some p) (t # ts)))"
      using IH(1) IH(2)[OF order_refl, of "Some p"] by (auto simp: image_iff)
  next
    fix u q assume u: "u \<le> p" "schedule_due sc u q f"
    then have "period_of sc u \<notin> period_of sc ` set (due_times sc f (Some t) ts)"
      using IH(2)[of u q] pt by simp
    moreover have "schedule_due sc t (Some p) f \<Longrightarrow> period_of sc t \<noteq> period_of sc u"
      using due_after[OF _ u(2,1) pt] .
    ultimately show "period_of sc u \<notin> period_of sc ` set (due_times sc f (Some p) (t # ts))"
      by auto
  qed
qed simp

lemma due_times_distinct: "sorted_wrt (<) ts \<Longrightarrow> distinct (map (period_of sc) (due_times sc f None ts))"
proof (cases ts)
  case (Cons t us)
  assume "sorted_wrt (<) ts"
  with due_times_fresh[of t us sc f] Cons show ?thesis by auto
qed simp

text \<open>Inside a day or a week the scheduled instant and the bars after it share the period.\<close>

lemma week_start: "day_of t - weekday_of t = 7 * ((day_of t + 3) div 7) - 3"
  by (simp add: weekday_of_def minus_mod_eq_mult_div[symmetric])

lemma period_between:
  assumes "sc_frequency sc \<in> {''daily'', ''weekly''}" "0 \<le> parse_schedule_time (sc_time sc)"
    and "scheduled_instant sc f t = Some d" "d \<le> p" "p \<le> t"
  shows "period_of sc p = period_of sc t"
proof -
  obtain n where n: "scheduled_day sc t = Some n" "n * ns_per_day \<le> d"
    using assms(2,3) by (auto simp: scheduled_instant_def split: if_splits)
  then have lo: "n \<le> day_of p" using assms(4) day_le_iff[of n p] by simp
  have hi: "day_of p \<le> day_of t" using assms(5) by (rule day_mono)
  show ?thesis
  proof (cases "sc_frequency sc = ''daily''")
    case True
    then show ?thesis using n(1) lo hi by (simp add: scheduled_day_def period_of_def)
  next
    case False
    then have w: "sc_frequency sc = ''weekly''" using assms(1) by simp
    then have "day_of t - weekday_of t \<le> n" using n(1) by (auto simp: scheduled_day_def)
    then have "7 * ((day_of t + 3) div 7) \<le> day_of p + 3" using lo by (simp add: week_start)
    then have "(day_of t + 3) div 7 \<le> (day_of p + 3) div 7" by presburger
    moreover have "(day_of p + 3) div 7 \<le> (day_of t + 3) div 7" using hi by (simp add: zdiv_mono1)
    ultimately show ?thesis using w by (simp add: period_of_def week_start)
  qed
qed

lemma fires_at_or_before:
  assumes "sc_frequency sc \<in> {''daily'', ''weekly''}" "0 \<le> parse_schedule_time (sc_time sc)"
    and "sorted_wrt (<) (p # ts)" "t \<in> set ts" "scheduled_instant sc f t = Some d" "d \<le> t"
    and "d \<le> p \<Longrightarrow> period_of sc p \<noteq> period_of sc t"
  shows "\<exists>u \<in> set (due_times sc f (Some p) ts). period_of sc u = period_of sc t"
  using assms
proof (induction ts arbitrary: p)
  case (Cons s ts)
  show ?case
  proof (cases "d \<le> s \<and> period_of sc s = period_of sc t")
    case True
    then have inst: "scheduled_instant sc f s = Some d" using Cons.prems(5) period_instant by metis
    have ps: "p < s" using Cons.prems(3) by simp
    have "p < d"
    proof (rule ccontr)
      assume "\<not> p < d"
      then show False using Cons.prems(7) True
          period_between[OF Cons.prems(1,2) inst, of p] ps by auto
    qed
    moreover have "day_of s \<noteq> day_of p" if "sc_frequency sc = ''daily''" "\<not> is_intraday f"
    proof -
      have "d = day_of s * ns_per_day" using inst that by (simp add: scheduled_instant_def scheduled_day_def)
      then show ?thesis using \<open>p < d\<close> day_le_iff[of "day_of s" p] by auto
    qed
    ultimately have "schedule_due sc s (Some p) f" using inst True by (auto simp: schedule_due_def)
    then show ?thesis using True by auto
  next
    case False
    then have "t \<in> set ts" using Cons.prems(4,6) by auto
    with Cons.IH[of s] Cons.prems False show ?thesis by auto
  qed
qed simp

text \<open>
  a schedule fires exactly once per period. Over any increasing clock no day (week, month) has
  two firings of a daily (weekly, monthly) schedule; and a daily or weekly schedule does fire in
  every period that has a bar at or after the scheduled instant. (A period whose bars all come
  before that instant has none: that occurrence is lost, not postponed.)
\<close>

theorem schedule_fires_once:
  assumes "sorted_wrt (<) ts"
  shows "distinct (map (period_of sc) (due_times sc f None ts)) \<and>
    (sc_frequency sc \<in> {''daily'', ''weekly''} \<longrightarrow> 0 \<le> parse_schedule_time (sc_time sc) \<longrightarrow>
      (\<forall>t \<in> set ts. \<forall>d. scheduled_instant sc f t = Some d \<longrightarrow> d \<le> t \<longrightarrow>
        (\<exists>u \<in> set (due_times sc f None ts). period_of sc u = period_of sc t)))"
proof (intro conjI impI ballI allI due_times_distinct[OF assms])
  fix t d
  assume a: "sc_frequency sc \<in> {''daily'', ''weekly''}" "0 \<le> parse_schedule_time (sc_time sc)"
    "t \<in> set ts" "scheduled_instant sc f t = Some d" "d \<le> t"
  from a(3) obtain s us where ts: "ts = s # us" by (cases ts) auto
  show "\<exists>u \<in> set (due_times sc f None ts). period_of sc u = period_of sc t"
  proof (cases "d \<le> s \<and> period_of sc s = period_of sc t")
    case True
    then have "scheduled_instant sc f s = Some d" using a(4) period_instant by metis
    then have "schedule_due sc s None f" using True by (simp add: schedule_due_def)
    then show ?thesis using True ts by auto
  next
    case False
    then have "t \<in> set us" using a(3,5) ts by auto
    with fires_at_or_before[OF a(1,2) _ _ a(4,5), of s us] assms ts False
    show ?thesis by auto
  qed
qed

text \<open>A daily 09:30 schedule over hourly bars of two days; a month-end one over business days.\<close>

definition demo_daily :: schedule where
  "demo_daily = \<lparr>sc_frequency = ''daily'', sc_callback = ''rebalance'', sc_time = ''09:30'',
     sc_weekday = None, sc_monthday = None\<rparr>"

definition hour_ns :: int where "hour_ns = 60 * ns_per_minute"

definition demo_clock :: "instant list" where
  "demo_clock = map (\<lambda>h. h * hour_ns) [8, 10, 11, 32, 34, 35]"

theorem schedule_fires_once_witness:
  "sorted_wrt (<) demo_clock \<and> due_times demo_daily ''1h'' None demo_clock = [10 * hour_ns, 34 * hour_ns] \<and>
   distinct (map (period_of demo_daily) (due_times demo_daily ''1h'' None demo_clock))"
proof -
  have "sorted_wrt (<) demo_clock" "due_times demo_daily ''1h'' None demo_clock = [10 * hour_ns, 34 * hour_ns]"
    by code_simp+
  then show ?thesis using schedule_fires_once by blast
qed

text \<open>
  An occurrence is lost: a schedule for the last day of the month over the business days around
  the end of January 1970 (a Saturday) does not fire, in January or on Monday 2 February.
\<close>

lemma month_end_skipped:
  "due_times \<lparr>sc_frequency = ''monthly'', sc_callback = ''rebalance'', sc_time = [], sc_weekday = None,
     sc_monthday = Some 31\<rparr> ''1d'' None (map (\<lambda>d. d * ns_per_day) [28, 29, 32, 33]) = []"
  by code_simp

lemma calendar_examples:
  "civil_of_day 0 = (1970, 1, 1)" "civil_of_day 19782 = (2024, 2, 29)" "day_of_civil 2024 2 29 = 19782"
  "days_in_month 1900 2 = 28" "days_in_month 2000 2 = 29"
  by code_simp+

end
