(* ===== verification/Execution.thy ===== *)
theory Execution
  imports BrokerLaws
begin

text \<open>
  The batch execution of orders (\<open>execute\<close>): the audit trail it leaves, the orders it hands back
  for the next bar, and what a forced liquidation achieves.
\<close>

subsection \<open>The audit trail\<close>

definition trail :: "broker \<Rightarrow> nat" where
  "trail b = ledger_occurrences (eb_ledger (book b))"

definition audit_ok :: "nat \<Rightarrow> broker \<Rightarrow> bool" where
  "audit_ok n b \<longleftrightarrow> trail b = n \<and> book_ok (book b)"

lemma log_event_audit:
  "audit_ok n (bt_broker bt) \<Longrightarrow> occurrences e = 1 \<Longrightarrow> audit_ok (Suc n) (bt_broker (log_event e c bt))"
  using append_occurrences[of "book (bt_broker bt)" e c]
  by (auto simp: audit_ok_def trail_def log_event_broker)

lemma book_fill_audit:
  "audit_ok n (bt_broker bt) \<Longrightarrow> audit_ok (Suc n) (bt_broker (book_fill oid o' t cur op f bt))"
proof -
  assume a: "audit_ok n (bt_broker bt)"
  obtain e where e: "occurrences e = 1" "bt_broker (book_fill oid o' t cur op f bt) =
      (fill_broker oid o' t cur op f (bt_broker bt))
        \<lparr>book := fst (append_order_event e False (book (bt_broker bt)))\<rparr>"
    using book_fill_broker by blast
  show ?thesis using a append_occurrences[OF _ e(1), of "book (bt_broker bt)" False]
    by (auto simp: e(2) audit_ok_def trail_def)
qed

lemma carry_out_audit:
  "audit_ok n (bt_broker bt) \<Longrightarrow> audit_ok (Suc n) (bt_broker (carry_out oid o' t cur op sz pl bt))"
  by (cases pl) (simp_all add: carry_out_def log_event_audit book_fill_audit)

lemma mark_audit [simp]: "audit_ok n (mark_to_market fd t b) = audit_ok n b"
  by (simp add: audit_ok_def trail_def)

lemma exec_order_audit:
  assumes "exec_order fd t ov o' bt = Inr bt'" "audit_ok n (bt_broker bt)"
  shows "audit_ok (Suc n) (bt_broker bt')"
proof -
  have m: "audit_ok n (bt_broker (number_order bt))"
    using assms(2) by (simp add: audit_ok_def trail_def number_order_broker)
  from assms(1) show ?thesis
  proof (cases rule: exec_order_cases)
    case (blocked oid r)
    then show ?thesis using m by (simp add: block_order_def Let_def log_event_audit)
  next
    case (unpriced oid w b)
    then show ?thesis using m log_event_audit[of n b] by simp
  next
    case (traded oid op target w b bm)
    then show ?thesis using m carry_out_audit[of n bm] by simp
  qed
qed

lemma exec_orders_audit:
  "efold (exec_order fd t ov) os bt = Inr bt' \<Longrightarrow> audit_ok n (bt_broker bt) \<Longrightarrow>
     audit_ok (n + length os) (bt_broker bt')"
proof (induction os arbitrary: bt n)
  case (Cons o' os)
  then obtain m where "exec_order fd t ov o' bt = Inr m" "efold (exec_order fd t ov) os m = Inr bt'"
    by (auto elim: ebind_InrE)
  then show ?case using Cons.IH[of m "Suc n"] Cons.prems(2) exec_order_audit by fastforce
qed simp

text \<open>
  a complete audit trail. Executing a batch records exactly one order event for every order
  of the batch, whatever its fate (filled, partly filled, deferred, rejected, or one more poll
  folded into a resting row); no order disappears and none is reported twice.
\<close>

theorem execute_audits_every_order:
  assumes "execute fd t ov os b = Inr (b', ds)" "book_ok (book b)"
  shows "ledger_occurrences (eb_ledger (book b')) = ledger_occurrences (eb_ledger (book b)) + length os \<and>
    book_ok (book b')"
proof (cases "os = []")
  case False
  let ?bt = "\<lparr>bt_broker = mark_to_market fd t b, bt_deferred = [], bt_weights = [], bt_events = []\<rparr>"
  from False assms(1) obtain bt where bt: "efold (exec_order fd t ov) os ?bt = Inr bt"
    and b': "b' = record_rebalance fd t (total_value (mark_to_market fd t b))
       (available_cash (mark_to_market fd t b)) (bt_weights bt) (bt_events bt) (bt_broker bt)"
    by (auto simp: execute_def Let_def elim!: ebind_InrE)
  have "audit_ok (trail b + length os) (bt_broker bt)"
    by (rule exec_orders_audit[OF bt]) (simp add: audit_ok_def trail_def assms(2))
  then show ?thesis by (simp add: b' audit_ok_def trail_def record_rebalance_def Let_def)
qed (use assms in \<open>simp add: execute_def\<close>)

theorem execute_audits_every_order_witness:
  "\<exists>b ds. execute demo_feed 1 [] [demo_order, demo_order] demo_broker = Inr (b, ds) \<and>
     ledger_occurrences (eb_ledger (book b)) = 2"
proof -
  have "\<not> isl (execute demo_feed 1 [] [demo_order, demo_order] demo_broker)" by code_simp
  then obtain b ds where e: "execute demo_feed 1 [] [demo_order, demo_order] demo_broker = Inr (b, ds)"
    by (cases "execute demo_feed 1 [] [demo_order, demo_order] demo_broker") auto
  have "book_ok (book demo_broker)" by (simp add: book_ok_def demo_broker_def new_broker_def)
  from execute_audits_every_order[OF e this] e show ?thesis
    by (simp add: demo_broker_def new_broker_def ledger_occurrences_def)
qed

subsection \<open>Orders handed back\<close>

text \<open>The same order again: one attempt later and at most the fourth, or a limit order as it was.\<close>

definition resubmits :: "order_intent \<Rightarrow> order_intent \<Rightarrow> bool" where
  "resubmits o' d \<longleftrightarrow> order_leg d = order_leg o' \<and> o_kind d = o_kind o' \<and>
     o_client_id d = o_client_id o' \<and> o_protection d = o_protection o' \<and>
     o_reason d = o_reason o' \<and> o_signal_time d = o_signal_time o' \<and>
     (o_attempts d = o_attempts o' + 1 \<and> o_attempts d \<le> 4 \<or>
      is_limit o' \<and> o_attempts d = o_attempts o')"

lemma defer_deferred [simp]: "bt_deferred (defer_orders os bt) = bt_deferred bt @ os"
  by (simp add: defer_orders_def)

lemma log_deferred [simp]: "bt_deferred (log_event e c bt) = bt_deferred bt"
  by (simp add: log_event_def split: prod.splits)

lemma book_fill_deferred [simp]: "bt_deferred (book_fill oid o' t cur op f bt) = bt_deferred bt"
  by (simp add: book_fill_def Let_def)

lemma requeue_resubmits: "d \<in> set (requeue o' f sz) \<Longrightarrow> resubmits o' d"
  by (auto simp: requeue_def resubmits_def order_leg_def Let_def split: if_splits order_kind.splits)

lemma requeue_length: "length (requeue o' f sz) \<le> 1"
  by (simp add: requeue_def Let_def)

lemma carry_out_deferred:
  "plan_order b o' br op cur e sz target = pl \<Longrightarrow>
   \<exists>ds. bt_deferred (carry_out oid o' t cur op sz pl bt) = bt_deferred bt @ ds \<and>
     length ds \<le> 1 \<and> (\<forall>d \<in> set ds. resubmits o' d)"
proof (cases pl)
  case (Rest q)
  assume "plan_order b o' br op cur e sz target = pl"
  with Rest have "is_limit o'"
    by (auto simp: plan_order_def reference_price_def Let_def split: if_splits option.splits prod.splits)
  with Rest show ?thesis by (auto simp: carry_out_def resubmits_def)
qed (use requeue_length in \<open>auto simp: carry_out_def dest: requeue_resubmits\<close>)

lemma exec_order_deferred:
  assumes "exec_order fd t ov o' bt = Inr bt'"
  shows "\<exists>ds. bt_deferred bt' = bt_deferred bt @ ds \<and> length ds \<le> 1 \<and> (\<forall>d \<in> set ds. resubmits o' d)"
  using assms
proof (cases rule: exec_order_cases)
  case (blocked oid r)
  then show ?thesis
    by (auto simp: block_order_def Let_def resubmits_def order_leg_def number_order_def)
next
  case (traded oid op target w b m)
  then show ?thesis using carry_out_deferred[OF refl, where bt = m] by (simp add: number_order_def)
qed (simp add: number_order_def)

lemma exec_orders_deferred:
  "efold (exec_order fd t ov) os bt = Inr bt' \<Longrightarrow>
   \<exists>ds. bt_deferred bt' = bt_deferred bt @ ds \<and> length ds \<le> length os \<and>
     (\<forall>d \<in> set ds. \<exists>o' \<in> set os. resubmits o' d)"
proof (induction os arbitrary: bt)
  case (Cons o' os)
  then obtain m where m: "exec_order fd t ov o' bt = Inr m" "efold (exec_order fd t ov) os m = Inr bt'"
    by (auto elim: ebind_InrE)
  from exec_order_deferred[OF m(1)] obtain ds where
    "bt_deferred m = bt_deferred bt @ ds" "length ds \<le> 1" "\<forall>d \<in> set ds. resubmits o' d" by blast
  moreover from Cons.IH[OF m(2)] obtain es where
    "bt_deferred bt' = bt_deferred m @ es" "length es \<le> length os" "\<forall>d \<in> set es. \<exists>o' \<in> set os. resubmits o' d"
    by blast
  ultimately show ?case by (intro exI[of _ "ds @ es"]) auto
qed simp

lemma execute_resubmits:
  assumes "execute fd t ov os b = Inr (b', ds)"
  shows "length ds \<le> length os \<and> (\<forall>d \<in> set ds. \<exists>o' \<in> set os. resubmits o' d)"
proof (cases "os = []")
  case False
  let ?bt = "\<lparr>bt_broker = mark_to_market fd t b, bt_deferred = [], bt_weights = [], bt_events = []\<rparr>"
  from False assms obtain bt where "efold (exec_order fd t ov) os ?bt = Inr bt" "ds = bt_deferred bt"
    by (auto simp: execute_def Let_def elim!: ebind_InrE)
  with exec_orders_deferred[of fd t ov os ?bt bt] show ?thesis by auto
qed (use assms in \<open>simp add: execute_def\<close>)

text \<open>
  bounded retries. Every order a batch hands back is one of the orders it was given, on the
  same leg and with the same kind, protection, reason, signal time and client id; each gives back at most one. A
  market order comes back one attempt older and never beyond the fourth, so it is tried on at
  most five bars; only a resting limit order may come back unchanged.
\<close>

theorem deferred_orders_expire:
  assumes "execute fd t ov os b = Inr (b', ds)"
  shows "length ds \<le> length os \<and> (\<forall>d \<in> set ds. \<exists>o' \<in> set os. resubmits o' d)"
  using assms by (rule execute_resubmits)

theorem deferred_orders_expire_witness:
  "\<exists>b ds. execute demo_feed 7 [] [demo_order\<lparr>o_attempts := 3\<rparr>, demo_order\<lparr>o_attempts := 4\<rparr>]
     demo_broker = Inr (b, ds) \<and> map o_attempts ds = [4] \<and> length ds \<le> 2"
proof -
  let ?e = "execute demo_feed 7 [] [demo_order\<lparr>o_attempts := 3\<rparr>, demo_order\<lparr>o_attempts := 4\<rparr>] demo_broker"
  have "\<not> isl ?e" "map o_attempts (snd (projr ?e)) = [4]" by code_simp+
  then obtain b ds where e: "?e = Inr (b, ds)" "map o_attempts ds = [4]" by (cases ?e) auto
  from deferred_orders_expire[OF e(1)] e show ?thesis by auto
qed

lemma partial_remainder:
  assumes "fill_status f = Partial" "eps12 < fp_lot f" "0 \<le> fp_requested f * fp_delta f"
  shows "copysign (remaining_quantity f) (fp_requested f) = fp_requested f - fp_delta f"
proof -
  have r: "0 < remaining_quantity f" using assms(1,2) by (auto simp: fill_status_def split: if_splits)
  then have q: "remaining_quantity f = \<bar>fp_requested f\<bar> - \<bar>fp_delta f\<bar>"
    by (auto simp: remaining_quantity_def)
  show ?thesis using r assms(3) unfolding q
    by (auto simp: copysign_def zero_le_mult_iff)
qed

lemma resubmitted_target:
  assumes "requeue o' f sizing = [d]" "eps12 < fp_lot f" "0 \<le> fp_requested f * fp_delta f" "0 < sizing"
  shows "o_kind o' = Quantity \<Longrightarrow>
      target_quantity b d (cur\<lparr>amount := amount cur + fp_delta f\<rparr>) sizing e = Inr (amount cur + fp_requested f)"
    and "o_kind o' = QuoteValue \<Longrightarrow>
      target_quantity b d (cur\<lparr>amount := amount cur + fp_delta f\<rparr>) sizing e =
        Inr (amount cur + fp_delta f + leverage b * (fp_requested f - fp_delta f))"
proof -
  have st: "fill_status f = Partial" using assms(1) by (simp add: requeue_def split: if_splits)
  note r = partial_remainder[OF st assms(2,3)]
  show "o_kind o' = Quantity \<Longrightarrow>
      target_quantity b d (cur\<lparr>amount := amount cur + fp_delta f\<rparr>) sizing e = Inr (amount cur + fp_requested f)"
    using assms(1) by (auto simp: requeue_def target_quantity_def r Let_def split: if_splits)
  have "copysign (remaining_quantity f * sizing) (fp_requested f) =
      copysign (remaining_quantity f) (fp_requested f) * sizing"
    using assms(4) by (simp add: copysign_def abs_mult)
  then have c: "copysign (remaining_quantity f * sizing) (fp_requested f) = (fp_requested f - fp_delta f) * sizing"
    by (simp only: r)
  show "target_quantity b d (cur\<lparr>amount := amount cur + fp_delta f\<rparr>) sizing e =
      Inr (amount cur + fp_delta f + leverage b * (fp_requested f - fp_delta f))" if "o_kind o' = QuoteValue"
  proof -
    have "o_kind d = QuoteValue" "o_value d = (fp_requested f - fp_delta f) * sizing"
      using assms(1) that by (auto simp: requeue_def c Let_def split: if_splits)
    then show ?thesis using assms(4) by (simp add: target_quantity_def py_div_def)
  qed
qed

text \<open>
  a resubmitted remainder aims where the order aimed. From the position after the partial
  fill, a quantity order handed back targets exactly the quantity the original order targeted,
  and so does a value order on an unleveraged account.
\<close>

theorem requeue_keeps_target:
  assumes "requeue o' f sizing = [d]" "eps12 < fp_lot f" "0 \<le> fp_requested f * fp_delta f" "0 < sizing"
    and "o_kind o' = Quantity \<or> o_kind o' = QuoteValue \<and> leverage b = 1"
  shows "target_quantity b d (cur\<lparr>amount := amount cur + fp_delta f\<rparr>) sizing e =
    Inr (amount cur + fp_requested f)"
  using resubmitted_target[OF assms(1-4)] assms(5) by auto

definition demo_partial :: fill_plan where
  "demo_partial = \<lparr>fp_delta = 3, fp_requested = 5, fp_price = 10, fp_reference = BarOpen, fp_lot = 1,
     fp_cap = Some 3, fp_constraint = ''''\<rparr>"

theorem requeue_keeps_target_witness:
  "\<exists>d. requeue demo_order demo_partial 10 = [d] \<and> o_value d = 2 \<and>
     target_quantity demo_broker d ((fresh_position ''A'' '''')\<lparr>amount := 3\<rparr>) 10 1000 = Inr 5"
proof -
  let ?d = "demo_order\<lparr>o_attempts := 1, o_direction := 1, o_value := 2\<rparr>"
  have r: "requeue demo_order demo_partial 10 = [?d]"
    by (simp add: requeue_def demo_partial_def fill_status_def remaining_quantity_def demo_facts
        copysign_def eps_defs) (simp add: demo_order_def plain_intent_def)
  have a: "amount (fresh_position ''A'' '''') = 0" by (simp add: fresh_position_def)
  show ?thesis
    using requeue_keeps_target[OF r, of demo_broker "fresh_position ''A'' ''''" 1000] r a demo_facts
    by (simp add: demo_partial_def eps_defs)
qed

text \<open>
  The condition on the leverage is needed: a partly filled value order is queued again with the
  value of its remaining quantity, which the next bar multiplies by the leverage once more.
\<close>

lemma leveraged_remainder_overshoots:
  assumes "requeue o' f sizing = [d]" "eps12 < fp_lot f" "0 \<le> fp_requested f * fp_delta f" "0 < sizing"
    and "o_kind o' = QuoteValue" "leverage b = 3" "fp_requested f - fp_delta f = 2"
  shows "target_quantity b d (cur\<lparr>amount := amount cur + fp_delta f\<rparr>) sizing e =
    Inr (amount cur + fp_requested f + 4)"
  using resubmitted_target(2)[OF assms(1-5)] assms(6,7) by simp

subsection \<open>Forced liquidation\<close>

definition liquidation_order :: "instant \<Rightarrow> position \<Rightarrow> order_intent" where
  "liquidation_order t p =
     plain_intent (pos_symbol p) TargetQuantity 0 ''margin_liquidation'' (Some t) (pos_side p)"

lemma liquidation_order_fields:
  "is_forced (liquidation_order t p)" "\<not> is_limit (liquidation_order t p)"
  "o_kind (liquidation_order t p) = TargetQuantity" "o_value (liquidation_order t p) = 0"
  "o_direction (liquidation_order t p) = 0" "o_symbol (liquidation_order t p) = pos_symbol p"
  "order_key (liquidation_order t p) = position_key (pos_symbol p) (pos_side p)"
  by (simp_all add: liquidation_order_def plain_intent_def is_forced_def is_limit_def order_key_def)

text \<open>A forced order sells what the lot allows: less than one lot is left.\<close>

lemma forced_plan:
  assumes "eps12 < \<bar>amount cur\<bar>" "o' = liquidation_order t p"
  shows "case plan_order b o' br op cur e sz 0 of
      Reject _ _ \<Rightarrow> \<bar>amount cur\<bar> < lot_size (pos_symbol p) br
    | Rest _ \<Rightarrow> False
    | Fill f \<Rightarrow> \<bar>amount cur + fp_delta f\<bar> < lot_size (pos_symbol p) br"
proof -
  let ?lot = "lot_size (pos_symbol p) br"
  let ?d = "round_to_lot (- amount cur) ?lot"
  have lot: "0 < ?lot" by (rule lot_size_pos)
  note u = round_units[OF lot, of "- amount cur", folded abs_round_to_lot[OF lot]]
  note sg = round_to_lot_sign[OF lot, of "- amount cur"]
  have nm: "\<not> target_met o' cur 0 sz"
    using assms by (simp add: target_met_def liquidation_order_fields is_target_def Let_def)
  have small: "eps8 * ?lot < ?lot" using lot by (simp add: eps8_def)
  have left: "\<bar>amount cur + ?d\<bar> < ?lot"
  proof (cases "0 \<le> amount cur")
    case True
    then have "?d \<le> 0" using sg by simp
    then show ?thesis using True u(2,3) small abs_round_to_lot[OF lot, of "- amount cur"] by linarith
  next
    case False
    then have "0 \<le> ?d" using sg by simp
    then show ?thesis using False u(2,3) small abs_round_to_lot[OF lot, of "- amount cur"] by linarith
  qed
  have none: "\<bar>amount cur\<bar> < ?lot" if "\<bar>?d\<bar> < ?lot - eps12"
  proof -
    have "of_int \<lfloor>\<bar>- amount cur\<bar> / ?lot + eps8\<rfloor> * ?lot < 1 * ?lot"
      using that eps_pos(1) abs_round_to_lot[OF lot, of "- amount cur"] by linarith
    then have "\<lfloor>\<bar>- amount cur\<bar> / ?lot + eps8\<rfloor> < 1" using lot by (simp only: mult_less_cancel_right) simp
    then have "\<lfloor>\<bar>- amount cur\<bar> / ?lot + eps8\<rfloor> = 0" using u(1) by linarith
    then have "?d = 0" using abs_round_to_lot[OF lot, of "- amount cur"] by simp
    then show ?thesis using left by simp
  qed
  show ?thesis using nm left none assms(2)
    by (simp add: plan_order_def liquidation_order_fields reference_price_def capped_by_liquidity_def Let_def)
qed

lemma forced_exec:
  assumes ex: "exec_order fd t ov (liquidation_order t p) bt = Inr bt'"
    and ov: "map_of ov (pos_symbol p) \<noteq> None"
    and k: "k = position_key (pos_symbol p) (pos_side p)"
    and a: "held (positions (bt_broker bt)) k = 0 \<or> eps12 < \<bar>held (positions (bt_broker bt)) k\<bar>"
  shows "\<bar>held (positions (bt_broker bt')) k\<bar> < lot_size (pos_symbol p) (bar_at fd (pos_symbol p) t)"
  using ex
proof (cases rule: exec_order_cases)
  case (blocked oid r)
  then show ?thesis by (simp add: liquidation_order_fields)
next
  case (unpriced oid w m)
  then show ?thesis using ov by (auto simp: open_price_def liquidation_order_fields split: option.splits)
next
  case (traded oid op target w b m)
  let ?o = "liquidation_order t p" and ?lot = "lot_size (pos_symbol p) (bar_at fd (pos_symbol p) t)"
  let ?cur = "current_position b ?o"
  let ?pl = "plan_order b ?o (bar_at fd (pos_symbol p) t) op ?cur (total_value b) (sizing_price ?o op) 0"
  have target: "target = 0" using traded(4) by (simp add: target_quantity_def liquidation_order_fields)
  have mb: "bt_broker m = b" using traded(5) by simp
  have amt: "amount ?cur = held (positions (bt_broker bt)) k"
    using held_current[of b ?o] traded(3) k by (simp add: liquidation_order_fields number_order_broker)
  have bt': "bt' = carry_out oid ?o t ?cur op (sizing_price ?o op) ?pl m"
    using traded(6) target by (simp add: liquidation_order_fields)
  have lot: "0 < ?lot" by (rule lot_size_pos)
  show ?thesis
  proof (cases ?pl)
    case (Reject r q)
    have "\<bar>amount ?cur\<bar> < ?lot"
      using forced_plan[of ?cur ?o t p, where b = b and br = "bar_at fd (pos_symbol p) t" and op = op
          and e = "total_value b" and sz = "sizing_price ?o op"] Reject a amt lot by fastforce
    moreover have "held (positions (bt_broker bt')) k = amount ?cur"
      using held_current[of b ?o] by (simp add: bt' Reject carry_out_def log_event_broker mb k liquidation_order_fields)
    ultimately show ?thesis by simp
  next
    case (Rest q)
    then show ?thesis by (auto simp: plan_order_def reference_price_def liquidation_order_fields Let_def
          split: if_splits prod.splits)
  next
    case (Fill f)
    have nz: "eps12 < \<bar>amount ?cur\<bar>"
    proof (rule ccontr)
      assume "\<not> eps12 < \<bar>amount ?cur\<bar>"
      then have "target_met ?o ?cur 0 (sizing_price ?o op)" using a amt by (simp add: target_met_def Let_def)
      then show False using plan_order_fill(7)[OF Fill] by simp
    qed
    obtain e where e: "bt_broker (book_fill oid ?o t ?cur op f m) =
        (fill_broker oid ?o t ?cur op f b)\<lparr>book := fst (append_order_event e False (book b))\<rparr>"
      using book_fill_broker[of oid ?o t ?cur op f m] mb by auto
    have "held (positions (bt_broker bt')) k =
        (if \<bar>amount ?cur + fp_delta f\<bar> \<le> eps12 then 0 else amount ?cur + fp_delta f)"
      by (simp add: bt' Fill carry_out_def e held_fill[OF refl] k liquidation_order_fields)
    moreover have "\<bar>amount ?cur + fp_delta f\<bar> < ?lot"
      using forced_plan[OF nz refl, where p = p and t = t and b = b and br = "bar_at fd (pos_symbol p) t" and op = op
          and e = "total_value b" and sz = "sizing_price ?o op"] Fill by simp
    ultimately show ?thesis using lot by simp
  qed
qed

lemma forced_batch:
  assumes "efold (exec_order fd t ov) (map (\<lambda>(k, p). liquidation_order t p) ps) bt = Inr bt'"
    "\<forall>(k, p) \<in> set ps. map_of ov (pos_symbol p) \<noteq> None \<and> k = position_key (pos_symbol p) (pos_side p) \<and>
       eps12 < \<bar>held (positions (bt_broker bt)) k\<bar>"
    "dict_wf ps"
  shows "(\<forall>(k, p) \<in> set ps. \<bar>held (positions (bt_broker bt')) k\<bar> < lot_size (pos_symbol p) (bar_at fd (pos_symbol p) t)) \<and>
    (\<forall>k. k \<notin> fst ` set ps \<longrightarrow> held (positions (bt_broker bt')) k = held (positions (bt_broker bt)) k)"
  using assms
proof (induction ps arbitrary: bt)
  case (Cons kp ps)
  obtain k p where kp: "kp = (k, p)" by (cases kp)
  from Cons.prems(1) obtain m where m: "exec_order fd t ov (liquidation_order t p) bt = Inr m"
    "efold (exec_order fd t ov) (map (\<lambda>(k, p). liquidation_order t p) ps) m = Inr bt'"
    by (auto simp: kp elim: ebind_InrE)
  have k: "k = position_key (pos_symbol p) (pos_side p)" and o: "map_of ov (pos_symbol p) \<noteq> None"
    and h: "eps12 < \<bar>held (positions (bt_broker bt)) k\<bar>" using Cons.prems(2) by (auto simp: kp)
  have closed: "\<bar>held (positions (bt_broker m)) k\<bar> < lot_size (pos_symbol p) (bar_at fd (pos_symbol p) t)"
    using forced_exec[OF m(1) o k] h by simp
  have frame: "held (positions (bt_broker m)) j = held (positions (bt_broker bt)) j" if "j \<noteq> k" for j
    using same_except_exec[OF m(1)] that k by (simp add: same_except_def liquidation_order_fields)
  have nk: "k \<notin> fst ` set ps" using Cons.prems(3) by (simp add: kp)
  have "\<forall>(j, q) \<in> set ps. map_of ov (pos_symbol q) \<noteq> None \<and> j = position_key (pos_symbol q) (pos_side q) \<and>
       eps12 < \<bar>held (positions (bt_broker m)) j\<bar>"
  proof clarify
    fix j q assume jq: "(j, q) \<in> set ps"
    then have "j \<noteq> k" using nk by force
    then show "map_of ov (pos_symbol q) \<noteq> None \<and> j = position_key (pos_symbol q) (pos_side q) \<and>
       eps12 < \<bar>held (positions (bt_broker m)) j\<bar>"
      using Cons.prems(2) jq frame by (auto simp: kp)
  qed
  from Cons.IH[OF m(2) this] Cons.prems(3) have ih:
    "\<forall>(k, p) \<in> set ps. \<bar>held (positions (bt_broker bt')) k\<bar> < lot_size (pos_symbol p) (bar_at fd (pos_symbol p) t)"
    "\<forall>j. j \<notin> fst ` set ps \<longrightarrow> held (positions (bt_broker bt')) j = held (positions (bt_broker m)) j"
    by (simp_all add: kp)
  then show ?case using closed frame nk by (auto simp: kp)
qed simp

definition liquidation_priced :: "feed \<Rightarrow> instant \<Rightarrow> string \<times> position \<Rightarrow> bool" where
  "liquidation_priced fd t kp \<longleftrightarrow> liquidation_price fd t (snd kp) \<noteq> None"

lemma liquidation_orders_map:
  "map fst (liquidation_orders fd t b) =
     map (\<lambda>(k, p). liquidation_order t p) (filter (liquidation_priced fd t) (positions b))"
proof -
  have "map fst (concat (map (\<lambda>(k, p). case liquidation_price fd t p of None \<Rightarrow> []
       | Some price \<Rightarrow> [(plain_intent (pos_symbol p) TargetQuantity 0 ''margin_liquidation'' (Some t)
                           (pos_side p), (pos_symbol p, price))]) ps)) =
     map (\<lambda>(k, p). liquidation_order t p) (filter (liquidation_priced fd t) ps)" for ps
    by (induction ps) (auto simp: liquidation_priced_def liquidation_order_def)
  then show ?thesis by (simp add: liquidation_orders_def)
qed

lemma priced_override:
  assumes "(k, p) \<in> set (filter (liquidation_priced fd t) (positions b))"
  shows "map_of (foldl (\<lambda>d (k, v). dict_set k v d) [] (map snd (liquidation_orders fd t b))) (pos_symbol p) \<noteq> None"
proof (rule foldl_dict_set_dom)
  from assms obtain v where kp: "(k, p) \<in> set (positions b)" and v: "liquidation_price fd t p = Some v"
    by (auto simp: liquidation_priced_def)
  have "(pos_symbol p, v) \<in> set (map snd (liquidation_orders fd t b))"
    using kp v by (force simp: liquidation_orders_def)
  then show "pos_symbol p \<in> fst ` set (map snd (liquidation_orders fd t b)) \<or>
      map_of [] (pos_symbol p) \<noteq> None" by force
qed

lemma held_rebalance [simp]: "held (positions (record_rebalance fd t e c w i b)) k = held (positions b) k"
  by (simp add: record_rebalance_def Let_def)

lemma held_absorb [simp]: "held (positions (absorb_deficit fd t e n b)) k = held (positions b) k"
  by (simp add: absorb_deficit_def Let_def)

lemma held_lookup: "map_of (positions b) k = Some p \<Longrightarrow> held (positions b) k = amount p"
  by (simp add: held_def)

text \<open>
  C27: forced liquidation works. When the account is insolvent the broker is bankrupt afterwards,
  no cash deficit is left, and every position whose instrument has a price is closed down to less
  than one lot, whatever its side, its leverage and the other positions.
\<close>

theorem liquidation_closes_positions:
  assumes "liquidate_if_insolvent fd t b = Inr (b', True)" "broker_wf b" "\<not> bankrupt b"
    and "map_of (positions (mark_to_market fd t b)) k = Some p" "liquidation_price fd t p \<noteq> None"
  shows "bankrupt b' \<and> 0 \<le> available_cash b' \<and> 0 \<le> total_value b' \<and>
    \<bar>held (positions b') k\<bar> < lot_size (pos_symbol p) (bar_at fd (pos_symbol p) t)"
proof -
  let ?m = "mark_to_market fd t b"
  let ?ps = "filter (liquidation_priced fd t) (positions ?m)"
  let ?los = "liquidation_orders fd t ?m"
  let ?ov = "foldl (\<lambda>d (k, v). dict_set k v d) [] (map snd ?los)"
  have wf: "broker_wf ?m" using assms(2) by (rule mark_wf)
  have mem: "(k, p) \<in> set ?ps"
    using map_of_SomeD[OF assms(4)] assms(5) by (simp add: liquidation_priced_def)
  from assms(1,3) obtain b1 os where ex: "execute fd t ?ov (map fst ?los) ?m = Inr (b1, os)"
    and b': "b' = absorb_deficit fd t (total_value ?m) (length ?los) b1"
    unfolding liquidate_if_insolvent_def Let_def
    by (simp split: if_splits) (erule ebind_InrE, force)
  have "?ps \<noteq> []" using mem by (intro notI) (simp only: list.set empty_iff)
  then have ne: "map fst ?los \<noteq> []" unfolding liquidation_orders_map by (simp only: list.map_disc_iff)
    simp
  let ?bt = "\<lparr>bt_broker = mark_to_market fd t ?m, bt_deferred = [], bt_weights = [], bt_events = []\<rparr>"
  from ex ne obtain bt where bt: "efold (exec_order fd t ?ov) (map fst ?los) ?bt = Inr bt"
    and b1: "\<And>j. held (positions b1) j = held (positions (bt_broker bt)) j"
    by (auto simp: execute_def Let_def elim!: ebind_InrE)
  have dp: "dict_wf ?ps"
    using broker_wfD(4)[OF wf] by (rule distinct_map_filter)
  have "\<forall>(j, q) \<in> set ?ps. map_of ?ov (pos_symbol q) \<noteq> None \<and> j = position_key (pos_symbol q) (pos_side q) \<and>
      eps12 < \<bar>held (positions (bt_broker ?bt)) j\<bar>"
  proof clarify
    fix j q assume jq: "(j, q) \<in> set ?ps"
    then have "(j, q) \<in> set (positions ?m)" by simp
    with broker_wfD(4)[OF wf] have "map_of (positions ?m) j = Some q" by (rule map_of_is_SomeI)
    with broker_wfD(1)[OF wf this] held_lookup[OF this] priced_override[OF jq]
    show "map_of ?ov (pos_symbol q) \<noteq> None \<and> j = position_key (pos_symbol q) (pos_side q) \<and>
      eps12 < \<bar>held (positions (bt_broker ?bt)) j\<bar>" by (simp add: position_ok_def)
  qed
  from forced_batch[OF bt[unfolded liquidation_orders_map] this dp] mem
  have "\<bar>held (positions (bt_broker bt)) k\<bar> < lot_size (pos_symbol p) (bar_at fd (pos_symbol p) t)" by auto
  moreover have "0 \<le> available_cash (absorb_deficit fd t e n b1)" for e n
    by (cases "0 \<le> available_cash b1") (auto simp: absorb_deficit_def Let_def)
  ultimately show ?thesis unfolding b' by (simp add: b1) (simp add: absorb_deficit_def Let_def)
qed

text \<open>An account leveraged ten times that bought at 10 and sees the close at 1.\<close>

definition ruined :: "runtime_error + broker" where
  "ruined = apply_op (portal_feed (demo_portal 1)) (OpExecute 1 [] [demo_order\<lparr>o_value := 100\<rparr>])
     (new_broker 500 10 0 0)"

theorem liquidation_closes_positions_witness:
  "\<exists>b'. liquidate_if_insolvent (portal_feed (demo_portal 1)) 2 (projr ruined) = Inr (b', True) \<and>
     held (positions (projr ruined)) ''A'' = 100 \<and> bankrupt b' \<and> \<bar>held (positions b') ''A''\<bar> < 1"
proof -
  let ?fd = "portal_feed (demo_portal 1)" and ?b = "projr ruined"
  let ?r = "liquidate_if_insolvent ?fd 2 ?b"
  have "\<not> isl ?r" "snd (projr ?r)" by code_simp+
  then obtain b' where r: "?r = Inr (b', True)" by (cases ?r) auto
  have "\<not> isl ruined" by code_simp
  then have "apply_op ?fd (OpExecute 1 [] [demo_order\<lparr>o_value := 100\<rparr>]) (new_broker 500 10 0 0) = Inr ?b"
    unfolding ruined_def by (rule sum.collapse(2)[symmetric])
  moreover have "sound_op (OpExecute 1 [] [demo_order\<lparr>o_value := 100\<rparr>])"
    by (simp add: sound_order_def demo_order_def plain_intent_def is_forced_def)
  ultimately have wf: "broker_wf ?b"
    using path_wf[OF apply_op_path[OF _ _ new_broker_wf] new_broker_wf] by blast
  have nb: "\<not> bankrupt ?b" by code_simp
  have h: "held (positions ?b) ''A'' = 100" by code_simp
  have "map_of (positions (mark_to_market ?fd 2 ?b)) ''A'' \<noteq> None" by code_simp
  then obtain p where p: "map_of (positions (mark_to_market ?fd 2 ?b)) ''A'' = Some p" by blast
  have s: "map_option pos_symbol (map_of (positions (mark_to_market ?fd 2 ?b)) ''A'') = Some ''A''"
    "map_option (liquidation_price ?fd 2) (map_of (positions (mark_to_market ?fd 2 ?b)) ''A'') = Some (Some 1)"
    "lot_size ''A'' (bar_at ?fd ''A'' 2) = 1"
    by code_simp+
  have "pos_symbol p = ''A''" "liquidation_price ?fd 2 p = Some 1"
    using s(1,2) unfolding p by simp_all
  with liquidation_closes_positions[OF r wf nb p] s(3) r h show ?thesis by simp
qed

end
