(* ===== verification/Reconcile.thy ===== *)
theory Reconcile
  imports Profit Execution "HOL-Library.List_Lexorder" "HOL-Library.Char_ord"
begin

text \<open>
  The report of a backtest (\<open>StrategyV2BacktestRunner._reconcile\<close>, \<open>_attribution\<close> and the trade and
  drawdown statistics of \<open>_result\<close>): the self-audit recomputes the account from the execution list
  alone. The annualised figures (volatility, Sharpe ratio, annualised return) are not modelled.
\<close>

subsection \<open>The self-audit\<close>

definition mismatch_tolerance :: "real \<Rightarrow> real" where
  "mismatch_tolerance expected = max eps8 (\<bar>expected\<bar> * (1 / 1000000000))"

definition fee_mismatch :: "real \<Rightarrow> execution \<Rightarrow> bool" where
  "fee_mismatch comm x \<longleftrightarrow>
     \<bar>x_commission x - x_notional x * comm\<bar> > mismatch_tolerance (x_notional x * comm)"

definition expected_price :: "real \<Rightarrow> execution \<Rightarrow> real" where
  "expected_price slip x =
     (case x_reference x of
        LimitRef \<Rightarrow> x_limit_price x
      | GapOpen \<Rightarrow> x_reference_price x
      | BarOpen \<Rightarrow> x_reference_price x * (if x_side x = Buy then 1 + slip else 1 - slip))"

definition fill_mismatch :: "real \<Rightarrow> execution \<Rightarrow> bool" where
  "fill_mismatch slip x \<longleftrightarrow> x_reference_price x \<le> 0 \<or>
     \<bar>x_price x - expected_price slip x\<bar> > mismatch_tolerance (expected_price slip x)"

definition timing_mismatch :: "execution \<Rightarrow> bool" where
  "timing_mismatch x \<longleftrightarrow> x_time x < x_signal_time x"

definition mismatch_indexes :: "(execution \<Rightarrow> bool) \<Rightarrow> execution list \<Rightarrow> nat list" where
  "mismatch_indexes bad xs = map fst (filter (\<lambda>(i, x). bad x) (enumerate 0 xs))"

definition ledger_quantities :: "execution list \<Rightarrow> real dict" where
  "ledger_quantities xs =
     foldl (\<lambda>q x. dict_set (x_key x)
        ((case map_of q (x_key x) of None \<Rightarrow> 0 | Some v \<Rightarrow> v) + signed_quantity x) q) [] xs"

definition ledger_cash :: "real \<Rightarrow> execution list \<Rightarrow> real" where
  "ledger_cash initial xs =
     foldl (\<lambda>c x. c - (signed_quantity x * x_price x + x_commission x)) initial xs"

definition position_mismatches :: "execution list \<Rightarrow> position dict \<Rightarrow> string list" where
  "position_mismatches xs ps =
     (let q = ledger_quantities xs in
      filter (\<lambda>k. \<bar>(case map_of q k of None \<Rightarrow> 0 | Some v \<Rightarrow> v) -
                  (case map_of ps k of None \<Rightarrow> 0 | Some p \<Rightarrow> amount p)\<bar> > eps8)
        (sort (remdups (map fst q @ map fst ps))))"

record audit_report =
  au_passed :: bool
  au_fee :: "nat list"
  au_fill :: "nat list"
  au_timing :: "nat list"
  au_positions :: "string list"
  au_cash_before :: real
  au_cash :: real
  au_equity :: real
  au_reported :: real
  au_difference :: real

definition reconcile :: "broker \<Rightarrow> audit_report" where
  "reconcile b =
     (let xs = executions b;
          fees = mismatch_indexes (fee_mismatch (commission b)) xs;
          fills = mismatch_indexes (fill_mismatch (slippage b)) xs;
          timing = mismatch_indexes timing_mismatch xs;
          pos = position_mismatches xs (positions b);
          before = ledger_cash (starting_cash b) xs;
          cash = before + liquidation_adjustment b;
          equity = cash + portfolio_value (positions b);
          difference = equity - total_value b
      in \<lparr>au_passed = (fees = [] \<and> fills = [] \<and> timing = [] \<and> pos = [] \<and> \<bar>difference\<bar> \<le> 1 / 1000000),
          au_fee = fees, au_fill = fills, au_timing = timing, au_positions = pos,
          au_cash_before = before, au_cash = cash, au_equity = equity, au_reported = total_value b,
          au_difference = difference\<rparr>)"

subsection \<open>The audit of a run\<close>

lemma mismatch_none: "mismatch_indexes bad xs = [] \<longleftrightarrow> (\<forall>x \<in> set xs. \<not> bad x)"
proof -
  have "mismatch_indexes bad xs = [] \<longleftrightarrow> (\<forall>p \<in> set (enumerate 0 xs). \<not> bad (snd p))"
    by (auto simp: mismatch_indexes_def filter_empty_conv)
  also have "\<dots> \<longleftrightarrow> (\<forall>x \<in> snd ` set (enumerate 0 xs). \<not> bad x)" by auto
  also have "snd ` set (enumerate 0 xs) = set xs"
    by (metis map_snd_enumerate set_map)
  finally show ?thesis .
qed

lemma ledger_cash_sum: "ledger_cash c xs = c - sum_of cash_out xs"
proof -
  have "foldl (\<lambda>c x. c - (signed_quantity x * x_price x + x_commission x)) c xs = c - sum_of cash_out xs"
    by (induction xs arbitrary: c) (auto simp: cash_out_def)
  then show ?thesis by (simp add: ledger_cash_def)
qed

lemma ledger_quantity_lookup:
  "(case map_of (ledger_quantities xs) k of None \<Rightarrow> 0 | Some v \<Rightarrow> v) = booked xs k"
proof -
  let ?f = "\<lambda>q x. dict_set (x_key x)
        ((case map_of q (x_key x) of None \<Rightarrow> 0 | Some v \<Rightarrow> v) + signed_quantity x) q"
  have "(case map_of (foldl ?f q xs) k of None \<Rightarrow> 0 | Some v \<Rightarrow> v) =
      (case map_of q k of None \<Rightarrow> 0 | Some v \<Rightarrow> v) + booked xs k" for q
  proof (induction xs arbitrary: q)
    case (Cons x xs)
    show ?case using Cons.IH[of "?f q x"] by (auto simp: booked_def dict_simps)
  qed (simp add: booked_def)
  from this[of "[]"] show ?thesis by (simp add: ledger_quantities_def)
qed

definition valued :: "broker \<Rightarrow> bool" where
  "valued b \<longleftrightarrow> total_value b = available_cash b + portfolio_value (positions b)"

lemma record_equity_valued: "valued (record_equity fd t b)"
  by (simp add: valued_def record_equity_def mark_to_market_def Let_def)

lemma fills_le: "fills_of xs k \<le> length xs"
  by (simp add: fills_of_def)

lemma audit_of_books:
  assumes "cash_ok b" "fees_ok b" "inventory_ok b" "valued b" "length (executions b) \<le> 10000"
  shows "au_fee (reconcile b) = []" "au_positions (reconcile b) = []"
    "au_cash (reconcile b) = available_cash b" "au_difference (reconcile b) = 0"
    "au_passed (reconcile b) \<longleftrightarrow> au_fill (reconcile b) = [] \<and> au_timing (reconcile b) = []"
proof -
  have fee: "mismatch_indexes (fee_mismatch (commission b)) (executions b) = []"
    using assms(2) by (auto simp: mismatch_none fee_mismatch_def fees_ok_def mismatch_tolerance_def)
  have "\<bar>booked (executions b) k - held (positions b) k\<bar> \<le> eps8" for k
  proof -
    have "\<bar>held (positions b) k - booked (executions b) k\<bar> \<le> eps12 * real (fills_of (executions b) k)"
      using assms(3) by (simp add: inventory_ok_def)
    also have "\<dots> \<le> eps12 * 10000"
      using fills_le[of "executions b" k] assms(5) by (intro mult_left_mono) auto
    also have "\<dots> \<le> eps8" by (simp add: eps_defs)
    finally show ?thesis by (simp add: abs_minus_commute)
  qed
  then have pos: "position_mismatches (executions b) (positions b) = []"
    unfolding position_mismatches_def Let_def ledger_quantity_lookup held_def[symmetric]
    by (simp add: filter_empty_conv not_less)
  have cash: "ledger_cash (starting_cash b) (executions b) + liquidation_adjustment b = available_cash b"
    using assms(1) by (simp add: ledger_cash_sum cash_ok_def)
  show "au_fee (reconcile b) = []" "au_positions (reconcile b) = []"
    "au_cash (reconcile b) = available_cash b" "au_difference (reconcile b) = 0"
    "au_passed (reconcile b) \<longleftrightarrow> au_fill (reconcile b) = [] \<and> au_timing (reconcile b) = []"
    using fee pos cash assms(4) by (auto simp: reconcile_def Let_def valued_def)
qed

lemma history_books:
  assumes "broker_history ops (new_broker capital lev comm slip) b"
  shows "cash_ok b" "fees_ok b" "inventory_ok b"
proof -
  have "cash_ok b \<and> fees_ok b \<and> inventory_ok b"
    by (rule history_invariant[OF assms new_broker_wf])
      (use new_broker_books step_cash step_fees step_inventory in auto)
  then show "cash_ok b" "fees_ok b" "inventory_ok b" by auto
qed

text \<open>
  the self-audit agrees with the books. At the end of any run that closes with an equity
  record, recomputing the account from the executions alone finds no fee mismatch, no position
  mismatch (up to ten thousand executions, the audit's own tolerance), the same cash and exactly
  the reported equity; so the audit passes precisely when no fill price and no fill time is off.
\<close>

theorem reconcile_agrees:
  assumes "broker_history (ops @ [(fd, OpRecord t)]) (new_broker capital lev comm slip) b"
    and "length (executions b) \<le> 10000"
  shows "au_fee (reconcile b) = [] \<and> au_positions (reconcile b) = [] \<and>
    au_cash (reconcile b) = available_cash b \<and> au_difference (reconcile b) = 0 \<and>
    (au_passed (reconcile b) \<longleftrightarrow> au_fill (reconcile b) = [] \<and> au_timing (reconcile b) = [])"
proof -
  have "efold apply_timed (ops @ [(fd, OpRecord t)]) (new_broker capital lev comm slip) = Inr b"
    using assms(1) by (simp add: broker_history_def)
  then have "valued b" by (auto simp: efold_append apply_timed_def record_equity_valued elim!: ebind_InrE)
  from audit_of_books[OF history_books[OF assms(1)] this assms(2)] show ?thesis by simp
qed

theorem reconcile_agrees_witness:
  "au_passed (reconcile (projr (demo_run 3))) \<and> length (executions (projr (demo_run 3))) = 2 \<and>
   au_difference (reconcile (projr (demo_run 3))) = 0"
proof -
  have l: "length (executions (projr (demo_run 3))) = 2" by code_simp
  have "take 3 demo_ops = take 2 demo_ops @ [(demo_feed, OpRecord 2)]" by (simp add: demo_ops_def)
  then have h: "broker_history (take 2 demo_ops @ [(demo_feed, OpRecord 2)]) (new_broker 1000 1 0 0) (projr (demo_run 3))"
    using demo_history[of 3] by simp
  have "au_fill (reconcile (projr (demo_run 3))) = []" "au_timing (reconcile (projr (demo_run 3))) = []"
    by code_simp+
  then show ?thesis using reconcile_agrees[OF h] l by simp
qed

subsection \<open>Fill prices\<close>

lemma execution_audit_fields [simp]:
  "x_reference (execution_of oid o' t cur op f comm bal) = fp_reference f"
  "x_reference_price (execution_of oid o' t cur op f comm bal) = op"
  "x_limit_price (execution_of oid o' t cur op f comm bal) = (if is_limit o' then o_limit_price o' else 0)"
  "x_side (execution_of oid o' t cur op f comm bal) = (if fp_delta f > 0 then Buy else Sell)"
  "x_time (execution_of oid o' t cur op f comm bal) = time_iso t"
  "x_signal_time (execution_of oid o' t cur op f comm bal) =
     time_iso (case o_signal_time o' of None \<Rightarrow> t | Some s \<Rightarrow> s)"
  by (simp_all add: execution_of_def Let_def split: prod.splits)

lemma limit_fill_reference:
  "limit_fill d op hi lo l = Some (p, r) \<Longrightarrow> r = GapOpen \<and> p = op \<or> r = LimitRef \<and> p = l"
  by (auto simp: limit_fill_def split: if_splits)

text \<open>
  the audit's price check is the fill rule. A fill on the side that was requested, at a
  positive price, is never reported as a price mismatch.
\<close>

theorem audit_accepts_fill:
  assumes "plan_order b o' br op cur equity sizing target = Fill f" "0 < op"
    and "0 < fp_requested f * fp_delta f"
  shows "\<not> fill_mismatch (slippage b) (execution_of oid o' t cur op f comm bal)"
proof -
  have sg: "0 < fp_delta f \<longleftrightarrow> 0 < target - amount cur"
    using assms(3) plan_order_fill(2)[OF assms(1)] by (auto simp: zero_less_mult_iff)
  note ref = plan_order_fill(1)[OF assms(1)]
  have "expected_price (slippage b) (execution_of oid o' t cur op f comm bal) = fp_price f"
  proof (cases "is_limit o'")
    case True
    then have "limit_fill (target - amount cur) op (py_or (case br of None \<Rightarrow> 0 | Some x \<Rightarrow> b_high x) op)
        (py_or (case br of None \<Rightarrow> 0 | Some x \<Rightarrow> b_low x) op) (o_limit_price o') = Some (fp_price f, fp_reference f)"
      using ref by (simp add: reference_price_def)
    from limit_fill_reference[OF this] True show ?thesis by (auto simp: expected_price_def)
  next
    case False
    then show ?thesis using ref sg by (auto simp: reference_price_def expected_price_def)
  qed
  then show ?thesis using assms(2) by (simp add: fill_mismatch_def mismatch_tolerance_def)
qed

theorem audit_accepts_fill_witness:
  "\<exists>f. demo_plan = Fill f \<and> fp_delta f = 5 \<and>
     \<not> fill_mismatch (slippage demo_broker)
        (execution_of (1, 1) demo_order 1 (fresh_position ''A'' '''') 10 f 0 1000)"
proof -
  obtain f where f: "demo_plan = Fill f" "fp_delta f = 5" "fp_requested f = 5"
    using demo_plan_fill by auto
  show ?thesis using audit_accepts_fill[OF f(1)[unfolded demo_plan_def], of "(1, 1)" 1 0 1000] f
    by (intro exI[of _ f]) simp
qed

subsection \<open>Fill times\<close>

definition timely :: "instant \<Rightarrow> order_intent \<Rightarrow> bool" where
  "timely t o' \<longleftrightarrow> (\<forall>s. o_signal_time o' = Some s \<longrightarrow> s \<le> t)"

definition on_time :: "broker \<Rightarrow> bool" where
  "on_time b \<longleftrightarrow> (\<forall>x \<in> set (executions b). \<not> timing_mismatch x)"

lemma audit_on_time: "on_time b \<Longrightarrow> au_timing (reconcile b) = []"
  by (simp add: reconcile_def Let_def mismatch_none on_time_def)

lemma execution_on_time:
  "timely t o' \<Longrightarrow> \<not> timing_mismatch (execution_of oid o' t cur op f comm bal)"
  by (auto simp: timing_mismatch_def timely_def not_less intro: time_iso_mono split: option.splits)

lemma carry_out_on_time:
  assumes "timely t o'" "on_time (bt_broker bt)"
  shows "on_time (bt_broker (carry_out oid o' t cur op sz pl bt))"
proof (cases pl)
  case (Fill f)
  obtain e where e: "bt_broker (book_fill oid o' t cur op f bt) = (fill_broker oid o' t cur op f
      (bt_broker bt))\<lparr>book := fst (append_order_event e False (book (bt_broker bt)))\<rparr>"
    using book_fill_broker by blast
  obtain bal where "executions (fill_broker oid o' t cur op f (bt_broker bt)) =
      executions (bt_broker bt) @ [execution_of oid o' t cur op f (commission (bt_broker bt)) bal]"
    using fill_books(1) by blast
  then show ?thesis using assms execution_on_time by (auto simp: Fill carry_out_def e on_time_def)
qed (use assms in \<open>simp_all add: carry_out_def log_event_broker on_time_def\<close>)

lemma exec_order_on_time:
  assumes "exec_order fd t ov o' bt = Inr bt'" "timely t o'" "on_time (bt_broker bt)"
  shows "on_time (bt_broker bt')"
  using assms(1)
proof (cases rule: exec_order_cases)
  case (blocked oid r)
  then show ?thesis using assms(3)
    by (simp add: block_order_def Let_def log_event_broker number_order_broker on_time_def)
next
  case (unpriced oid w m)
  then show ?thesis using assms(3) by (simp add: log_event_broker number_order_broker on_time_def)
next
  case (traded oid op target w b m)
  then have "on_time (bt_broker m)" using assms(3) by (simp add: number_order_broker on_time_def)
  then show ?thesis using carry_out_on_time[OF assms(2)] traded(6) by simp
qed

lemma execute_on_time:
  assumes "execute fd t ov os b = Inr (b', ds)" "\<forall>o' \<in> set os. timely t o'" "on_time b"
  shows "on_time b'"
proof (cases "os = []")
  case False
  have steps: "on_time (bt_broker bt')"
    if "efold (exec_order fd t ov) os' bt = Inr bt'" "\<forall>o' \<in> set os'. timely t o'" "on_time (bt_broker bt)"
    for os' bt bt'
    using that
  proof (induction os' arbitrary: bt)
    case (Cons o' os')
    then show ?case by (auto elim!: ebind_InrE intro: exec_order_on_time)
  qed simp
  show ?thesis using False assms
    by (auto simp: execute_def Let_def on_time_def record_rebalance_def elim!: ebind_InrE
        dest!: steps)
qed (use assms in \<open>simp add: execute_def\<close>)

lemma on_time_fields [simp]:
  "on_time (b\<lparr>protections := p\<rparr>) = on_time b" "on_time (b\<lparr>protection_events := d\<rparr>) = on_time b"
  "on_time (b\<lparr>book := k\<rparr>) = on_time b"
  "on_time (mark_to_market fd t b) = on_time b" "on_time (record_equity fd t b) = on_time b"
  "on_time (absorb_deficit fd t e n b) = on_time b"
  by (simp_all add: on_time_def record_equity_def absorb_deficit_def Let_def)

lemma protect_position_on_time:
  assumes "protect_position fd t ks acc = Inr acc'" "on_time (fst acc)"
  shows "on_time (fst acc')"
proof -
  have tm: "timely t (plan)" if "o_signal_time plan = Some t" for plan :: order_intent
    using that by (simp add: timely_def)
  show ?thesis using assms
    by (auto simp: protect_position_def Let_def plain_intent_def split: prod.splits option.splits if_splits
        elim!: ebind_InrE dest!: execute_on_time intro: tm)
qed

lemma process_protections_on_time:
  assumes "process_protections fd t b = Inr (b', ds)" "on_time b"
  shows "on_time b'"
proof -
  have "on_time (fst acc')" if "efold (protect_position fd t) ps acc = Inr acc'" "on_time (fst acc)" for ps acc acc'
    using that
  proof (induction ps arbitrary: acc)
    case (Cons p ps)
    then show ?case by (auto elim!: ebind_InrE dest: protect_position_on_time)
  qed simp
  from this[of "protections b" "(b, [])" "(b', ds)"] assms show ?thesis by (simp add: process_protections_def)
qed

lemma liquidate_on_time:
  assumes "liquidate_if_insolvent fd t b = Inr (b', r)" "on_time b"
  shows "on_time b'"
proof -
  have "timely t (liquidation_order t p)" for p
    by (simp add: timely_def liquidation_order_def plain_intent_def)
  then have tm: "\<forall>o' \<in> set (map fst (liquidation_orders fd t m)). timely t o'" for m
    unfolding liquidation_orders_map by auto
  from assms show ?thesis unfolding liquidate_if_insolvent_def Let_def
    by (auto split: if_splits elim!: ebind_InrE dest!: execute_on_time[OF _ tm])
qed

text \<open>Orders reach the broker no earlier than they were signalled.\<close>

fun timely_op :: "broker_op \<Rightarrow> bool" where
  "timely_op (OpExecute t ov os) = list_all (timely t) os"
| "timely_op _ = True"

lemma apply_op_on_time:
  "apply_op fd op b = Inr b' \<Longrightarrow> timely_op op \<Longrightarrow> on_time b \<Longrightarrow> on_time b'"
  by (cases op) (auto elim!: ebind_InrE intro: process_protections_on_time liquidate_on_time
      dest!: execute_on_time simp: list_all_iff)

lemma apply_timed_on_time:
  "on_time b \<Longrightarrow> timely_op (snd e) \<Longrightarrow> apply_timed e b = Inr b' \<Longrightarrow> on_time b'"
  unfolding apply_timed_def by (rule apply_op_on_time)

interpretation timely_run: partial_machine apply_timed "\<lambda>e. timely_op (snd e)" on_time
  by unfold_locales (rule apply_timed_on_time)



subsection \<open>Drawdown\<close>

record drawdown_state =
  dr_peak :: real
  dr_peak_time :: int
  dr_max :: real
  dr_max_peak :: real
  dr_max_trough :: real
  dr_max_peak_time :: int
  dr_max_trough_time :: int
  dr_rows :: "(equity_point \<times> real) list"

definition drawdown_of :: "real \<Rightarrow> real \<Rightarrow> real" where
  "drawdown_of peak v = (if peak > 0 then (v / peak - 1) * 100 else 0)"

definition drawdown_step :: "equity_point \<Rightarrow> drawdown_state \<Rightarrow> drawdown_state" where
  "drawdown_step pt s =
     (let v = eq_value pt; tm = eq_time pt;
          s = (if dr_peak s \<le> 0 \<or> v > dr_peak s then s\<lparr>dr_peak := v, dr_peak_time := tm\<rparr> else s);
          dd = drawdown_of (dr_peak s) v;
          s = s\<lparr>dr_rows := dr_rows s @ [(pt, dd)]\<rparr>
      in if dd < dr_max s
         then s\<lparr>dr_max := dd, dr_max_peak := dr_peak s, dr_max_trough := v,
                dr_max_peak_time := dr_peak_time s, dr_max_trough_time := tm\<rparr>
         else s)"

text \<open>The empty time string of an empty curve is written 0; it is never read then.\<close>

definition drawdown_start :: "real \<Rightarrow> equity_point list \<Rightarrow> drawdown_state" where
  "drawdown_start initial curve =
     \<lparr>dr_peak = initial, dr_peak_time = (case curve of [] \<Rightarrow> 0 | pt # _ \<Rightarrow> eq_time pt), dr_max = 0,
      dr_max_peak = initial, dr_max_trough = initial, dr_max_peak_time = 0, dr_max_trough_time = 0,
      dr_rows = []\<rparr>"

definition drawdown :: "real \<Rightarrow> equity_point list \<Rightarrow> drawdown_state" where
  "drawdown initial curve = fold drawdown_step curve (drawdown_start initial curve)"

text \<open>The peak dominates what was seen, and the maximum drawdown what was drawn down.\<close>

definition drawdown_inv :: "real list \<Rightarrow> drawdown_state \<Rightarrow> bool" where
  "drawdown_inv vs s \<longleftrightarrow> dr_max s \<le> 0 \<and>
     (\<forall>v \<in> set vs. 0 < v \<longrightarrow> v \<le> dr_peak s) \<and>
     (\<forall>i j. i \<le> j \<longrightarrow> j < length vs \<longrightarrow> 0 < vs ! i \<longrightarrow> dr_max s \<le> (vs ! j / vs ! i - 1) * 100) \<and>
     (dr_max s = 0 \<or> dr_max s = (dr_max_trough s / dr_max_peak s - 1) * 100 \<and> 0 < dr_max_peak s)"

lemma drawdown_step_inv:
  assumes "drawdown_inv vs s" "\<forall>v \<in> set vs. 0 \<le> v" "0 \<le> eq_value pt"
  shows "drawdown_inv (vs @ [eq_value pt]) (drawdown_step pt s)"
proof -
  let ?v = "eq_value pt" and ?s = "drawdown_step pt s"
  let ?peak = "if dr_peak s \<le> 0 \<or> ?v > dr_peak s then ?v else dr_peak s"
  let ?dd = "drawdown_of ?peak ?v"
  have pk: "dr_peak ?s = ?peak" and mx: "dr_max ?s = min (dr_max s) ?dd"
    by (simp_all add: drawdown_step_def Let_def)
  have dom: "\<forall>v \<in> set (vs @ [?v]). 0 < v \<longrightarrow> v \<le> ?peak"
    using assms(1) by (auto simp: drawdown_inv_def)
  have at: "dr_max ?s \<le> ((vs @ [?v]) ! j / (vs @ [?v]) ! i - 1) * 100"
    if ij: "i \<le> j" "j < length (vs @ [?v])" "0 < (vs @ [?v]) ! i" for i j
  proof (cases "j < length vs")
    case True
    then have "dr_max s \<le> (vs ! j / vs ! i - 1) * 100"
      using ij assms(1) by (auto simp: drawdown_inv_def nth_append)
    then show ?thesis using True ij(1) mx by (simp add: nth_append)
  next
    case False
    then have j: "(vs @ [?v]) ! j = ?v" using ij(2) by (simp add: nth_append)
    let ?u = "(vs @ [?v]) ! i"
    have "?u \<in> set (vs @ [?v])" using ij by (intro nth_mem) simp
    then have up: "?u \<le> ?peak" using dom ij(3) by blast
    then have pp: "0 < ?peak" using ij(3) by linarith
    have "?v / ?peak \<le> ?v / ?u"
      using ij(3) up assms(3) by (intro divide_left_mono) (auto intro: mult_pos_pos)
    then have "(?v / ?peak - 1) * 100 \<le> (?v / ?u - 1) * 100" by (intro mult_right_mono diff_right_mono) simp_all
    then have "?dd \<le> (?v / ?u - 1) * 100" using pp by (simp only: drawdown_of_def if_True)
    then show ?thesis using j mx by simp
  qed
  have rep: "dr_max ?s = 0 \<or> dr_max ?s = (dr_max_trough ?s / dr_max_peak ?s - 1) * 100 \<and> 0 < dr_max_peak ?s"
  proof (cases "?dd < dr_max s")
    case True
    then have "?dd \<noteq> 0" using assms(1) by (auto simp: drawdown_inv_def)
    then have "0 < ?peak" by (auto simp: drawdown_of_def split: if_splits)
    then show ?thesis using True by (auto simp: drawdown_step_def Let_def drawdown_of_def)
  next
    case False
    then show ?thesis using assms(1) by (auto simp: drawdown_step_def Let_def drawdown_inv_def)
  qed
  show ?thesis using dom at rep mx pk assms(1) by (auto simp: drawdown_inv_def)
qed

text \<open>
  the reported maximum drawdown is the worst decline. For a curve of non-negative equities
  (the broker absorbs every deficit) the maximum drawdown is at most zero, no recorded value lies
  further below an earlier positive one than it says, and a drawdown below zero is attained by
  the peak and trough the report names.
\<close>

theorem drawdown_is_worst_decline:
  assumes "\<forall>pt \<in> set curve. 0 \<le> eq_value pt" "i \<le> j" "j < length curve" "0 < eq_value (curve ! i)"
  shows "dr_max (drawdown initial curve) \<le> 0 \<and>
    dr_max (drawdown initial curve) \<le> (eq_value (curve ! j) / eq_value (curve ! i) - 1) * 100 \<and>
    (dr_max (drawdown initial curve) < 0 \<longrightarrow> dr_max (drawdown initial curve) =
       (dr_max_trough (drawdown initial curve) / dr_max_peak (drawdown initial curve) - 1) * 100)"
proof -
  have "drawdown_inv (vs @ map eq_value c) (fold drawdown_step c s)"
    if "drawdown_inv vs s" "\<forall>v \<in> set vs. 0 \<le> v" "\<forall>pt \<in> set c. 0 \<le> eq_value pt" for vs c s
    using that
  proof (induction c arbitrary: vs s)
    case (Cons pt c)
    have "drawdown_inv (vs @ [eq_value pt]) (drawdown_step pt s)"
      using Cons.prems by (intro drawdown_step_inv) auto
    from Cons.IH[OF this] Cons.prems show ?case by auto
  qed simp
  moreover have "drawdown_inv [] (drawdown_start initial curve)"
    by (simp add: drawdown_inv_def drawdown_start_def)
  ultimately have "drawdown_inv (map eq_value curve) (drawdown initial curve)"
    using assms(1) unfolding drawdown_def by fastforce
  then show ?thesis using assms(2-4) by (auto simp: drawdown_inv_def)
qed

definition demo_curve :: "equity_point list" where
  "demo_curve = map (\<lambda>(t, v). \<lparr>eq_time = t, eq_value = v, eq_cash = v, eq_gross = 0, eq_net = 0\<rparr>)
     [(1, 100), (2, 80), (3, 120), (4, 90)]"

theorem drawdown_is_worst_decline_witness:
  "dr_max (drawdown 100 demo_curve) = -25 \<and>
   dr_max (drawdown 100 demo_curve) \<le> (eq_value (demo_curve ! 3) / eq_value (demo_curve ! 2) - 1) * 100"
proof -
  have "dr_max (drawdown 100 demo_curve) = -25" by code_simp
  moreover have "\<forall>pt \<in> set demo_curve. 0 \<le> eq_value pt" "3 < length demo_curve" "0 < eq_value (demo_curve ! 2)"
    by (auto simp: demo_curve_def)
  ultimately show ?thesis using drawdown_is_worst_decline[of demo_curve 2 3 100] by simp
qed

subsection \<open>Trade statistics and attribution\<close>

record trade_stats =
  ts_total_return :: real
  ts_win_rate :: real
  ts_wins :: nat
  ts_losses :: nat
  ts_gross_profit :: real
  ts_gross_loss :: real
  ts_average_win :: real
  ts_average_loss :: real
  ts_profit_factor :: real
  ts_profit_loss_ratio :: real
  ts_best :: real
  ts_worst :: real
  ts_average :: real
  ts_commission :: real

definition list_mean :: "real list \<Rightarrow> real" where
  "list_mean xs = (if xs = [] then 0 else sum_list xs / real (length xs))"

definition trade_statistics :: "broker \<Rightarrow> trade_stats" where
  "trade_statistics b =
     (let initial = starting_cash b; final = total_value b;
          profits = map ct_profit (tb_closed (trades b));
          wins = filter (\<lambda>v. v > 0) profits; losses = filter (\<lambda>v. v < 0) profits;
          average_win = list_mean wins; average_loss = \<bar>list_mean losses\<bar>;
          gp = sum_list wins; gl = \<bar>sum_list losses\<bar>
      in \<lparr>ts_total_return = (if initial \<noteq> 0 then (final / initial - 1) * 100 else 0),
          ts_win_rate = (if profits \<noteq> [] then real (length wins) / real (length profits) * 100 else 0),
          ts_wins = length wins, ts_losses = length losses, ts_gross_profit = gp, ts_gross_loss = gl,
          ts_average_win = average_win, ts_average_loss = (if losses \<noteq> [] then - average_loss else 0),
          ts_profit_factor = (if gl > 0 then gp / gl else if gp > 0 then gp else 0),
          ts_profit_loss_ratio = (if average_loss > 0 then average_win / average_loss else 0),
          ts_best = foldr max (tl profits) (if profits = [] then 0 else hd profits),
          ts_worst = foldr min (tl profits) (if profits = [] then 0 else hd profits),
          ts_average = list_mean profits,
          ts_commission = sum_of x_commission (executions b)\<rparr>)"

record attribution_row =
  at_symbol :: string
  at_realised :: real
  at_unrealised :: real
  at_commission :: real
  at_net :: real

definition add_to :: "string \<Rightarrow> real \<Rightarrow> real dict \<Rightarrow> real dict" where
  "add_to k v d = dict_set k ((case map_of d k of None \<Rightarrow> 0 | Some w \<Rightarrow> w) + v) d"

definition lookup0 :: "real dict \<Rightarrow> string \<Rightarrow> real" where
  "lookup0 d k = (case map_of d k of None \<Rightarrow> 0 | Some w \<Rightarrow> w)"

definition attribution_rows :: "real \<Rightarrow> broker \<Rightarrow> attribution_row list" where
  "attribution_rows initial b =
     (let fees = foldl (\<lambda>d x. add_to (x_key x) (x_commission x) d) [] (executions b);
          gains = foldl (\<lambda>d c. add_to (ct_symbol c) (ct_profit c) d) [] (tb_closed (trades b))
      in map (\<lambda>k.
           let unreal = (case map_of (positions b) k of None \<Rightarrow> 0
                         | Some p \<Rightarrow> (last_price p - avg_cost p) * amount p)
           in \<lparr>at_symbol = k, at_realised = lookup0 gains k, at_unrealised = unreal,
               at_commission = lookup0 fees k,
               at_net = (if initial \<noteq> 0 then (lookup0 gains k + unreal) / initial else 0)\<rparr>)
         (sort (remdups (map fst fees @ map fst gains @ map fst (positions b)))))"

definition status_counts :: "broker \<Rightarrow> order_status \<Rightarrow> nat" where
  "status_counts b st = sum_list (map occurrences (filter (\<lambda>e. ev_status e = st) (eb_ledger (book b))))"

text \<open>Every event of the ledger is counted under exactly one status.\<close>

lemma status_counts_total:
  "status_counts b Filled + status_counts b Partial + status_counts b Deferred + status_counts b Rejected =
     ledger_occurrences (eb_ledger (book b))"
proof -
  have "sum_list (map occurrences (filter (\<lambda>e. ev_status e = Filled) es)) +
      sum_list (map occurrences (filter (\<lambda>e. ev_status e = Partial) es)) +
      sum_list (map occurrences (filter (\<lambda>e. ev_status e = Deferred) es)) +
      sum_list (map occurrences (filter (\<lambda>e. ev_status e = Rejected) es)) = ledger_occurrences es" for es
    by (induction es) (auto simp: ledger_occurrences_def intro: order_status.exhaust)
  then show ?thesis by (simp add: status_counts_def)
qed

end
