(* ===== verification/Runner.thy ===== *)
theory Runner
  imports Context Schedule Reconcile Execution
begin

text \<open>
  The backtest loop (\<open>StrategyV2BacktestRunner\<close> in \<open>strategy_v2/runtime.py\<close>): one pass over the
  timestamps in which pending orders fill at the open, protections are evaluated, the handlers
  run in order, opening orders execute, an insolvent account is liquidated, and what the handlers
  queue waits for the next bar. The strategy's handlers are parameters: each sees the rows that
  are visible, the portfolio and the context, keeps its own state, and may raise.
\<close>

subsection \<open>Programs\<close>

type_synonym rows = "string \<Rightarrow> int option \<Rightarrow> frame option"

type_synonym 'u handler =
  "rows \<Rightarrow> portfolio_state \<Rightarrow> runtime_context \<times> 'u \<Rightarrow> runtime_error + (runtime_context \<times> 'u)"

record 'u program =
  pr_before :: "'u handler option"
  pr_rebalance :: "'u handler option"
  pr_handle :: "'u handler option"
  pr_after :: "'u handler option"
  pr_callback :: "string \<Rightarrow> 'u handler option"
  pr_schedules :: "schedule list"
  pr_portfolio :: bool
  pr_frequency :: string

record 'u runner =
  rn_broker :: broker
  rn_context :: runtime_context
  rn_portal :: portal
  rn_user :: 'u
  rn_pending :: "order_intent list"
  rn_opening :: "order_intent list"
  rn_previous :: "instant option"
  rn_logs :: "string list"
  rn_cursor :: nat
  rn_summaries :: "order_summary dict"

subsection \<open>Calling a handler\<close>

abbreviation runner_feed :: "'u runner \<Rightarrow> feed" where
  "runner_feed rn \<equiv> portal_feed (rn_portal rn)"

definition invoke :: "'u handler option \<Rightarrow> 'u runner \<Rightarrow> runtime_error + 'u runner" where
  "invoke h rn =
     (case h of
        None \<Rightarrow> Inr rn
      | Some f \<Rightarrow> ebind (f (visible_frame (rn_portal rn)) (portfolio_state.truncate (rn_broker rn))
                            (rn_context rn, rn_user rn))
                   (\<lambda>(cx, u). Inr (rn\<lparr>rn_context := cx, rn_user := u\<rparr>)))"

definition remove_cancelled :: "'u runner \<Rightarrow> 'u runner" where
  "remove_cancelled rn =
     (let (cx, refs) = flush_cancelled (rn_context rn); b = rn_broker rn in
      if refs = [] then rn\<lparr>rn_context := cx\<rparr>
      else rn\<lparr>rn_context := cx, rn_broker := b\<lparr>book := release_resting refs (book b)\<rparr>,
              rn_pending := filter (\<lambda>o'. o_client_id o' \<notin> set refs) (rn_pending rn)\<rparr>)"

definition call :: "'u handler option \<Rightarrow> 'u runner \<Rightarrow> runtime_error + 'u runner" where
  "call h rn = ebind (invoke h rn) (\<lambda>rn. Inr (remove_cancelled rn))"

text \<open>What a handler queued: for the opening batch of this bar, or for the next bar.\<close>

definition collect_opening :: "'u runner \<Rightarrow> 'u runner" where
  "collect_opening rn =
     (let (cx, os) = flush_orders (rn_context rn)
      in rn\<lparr>rn_context := cx, rn_opening := rn_opening rn @ os\<rparr>)"

definition collect_pending :: "'u runner \<Rightarrow> 'u runner" where
  "collect_pending rn =
     (let (cx, os) = flush_orders (rn_context rn)
      in rn\<lparr>rn_context := cx, rn_pending := merge_pending (rn_pending rn) os\<rparr>)"

subsection \<open>Order statuses\<close>

definition unknown_summary :: "string \<Rightarrow> order_summary" where
  "unknown_summary ref = \<lparr>os_client = ref, os_status = ''unknown'', os_filled = Some 0, os_notional = Some 0,
     os_fee = Some 0, os_reason = Some []\<rparr>"

fun status_name :: "order_status \<Rightarrow> string" where
  "status_name Filled = ''filled''" | "status_name Partial = ''partial''"
| "status_name Deferred = ''deferred''" | "status_name Rejected = ''rejected''"

definition num_or_0 :: "real option \<Rightarrow> real" where
  "num_or_0 x = (case x of None \<Rightarrow> 0 | Some v \<Rightarrow> v)"

definition add_event :: "order_event \<Rightarrow> order_summary \<Rightarrow> order_summary" where
  "add_event e s =
     (let q = max 0 (ev_filled e); price = max 0 (ev_price e) in
      s\<lparr>os_filled := Some (num_or_0 (os_filled s) + q),
        os_notional := Some (num_or_0 (os_notional s) + q * price),
        os_fee := Some (num_or_0 (os_fee s) + max 0 (ev_commission e)),
        os_status := status_name (ev_status e), os_reason := Some (ev_status_reason e)\<rparr>)"

definition sync_event :: "order_event \<Rightarrow> order_summary dict \<times> order_summary dict \<Rightarrow>
    order_summary dict \<times> order_summary dict" where
  "sync_event e acc =
     (let (summaries, changed) = acc; ref = py_strip (ev_client e) in
      if ref = [] then acc
      else let s = add_event e (case map_of summaries ref of None \<Rightarrow> unknown_summary ref | Some s \<Rightarrow> s)
           in (dict_set ref s summaries, dict_set ref s changed))"

definition sync_statuses :: "'u runner \<Rightarrow> 'u runner" where
  "sync_statuses rn =
     (let ledger = eb_ledger (book (rn_broker rn));
          (summaries, changed) = fold sync_event (drop (rn_cursor rn) ledger) (rn_summaries rn, [])
      in rn\<lparr>rn_summaries := summaries, rn_cursor := length ledger,
            rn_context := update_order_statuses changed (rn_context rn)\<rparr>)"

subsection \<open>The stages of a bar\<close>

definition at_clock :: "instant \<Rightarrow> bool \<Rightarrow> 'u runner \<Rightarrow> 'u runner" where
  "at_clock t include_current rn = rn\<lparr>rn_portal := set_clock t include_current (rn_portal rn)\<rparr>"

definition fill_pending :: "instant \<Rightarrow> 'u runner \<Rightarrow> runtime_error + 'u runner" where
  "fill_pending t rn =
     (if rn_pending rn = [] then Inr rn
      else ebind (execute (runner_feed rn) t [] (rn_pending rn) (rn_broker rn)) (\<lambda>(b, os).
        Inr (sync_statuses (rn\<lparr>rn_broker := b, rn_pending := os\<rparr>))))"

definition run_protections :: "instant \<Rightarrow> 'u runner \<Rightarrow> runtime_error + 'u runner" where
  "run_protections t rn =
     ebind (process_protections (runner_feed rn) t (rn_broker rn)) (\<lambda>(b, ds).
       Inr (rn\<lparr>rn_broker := b, rn_context :=
         fold (\<lambda>d. set_last_exit_reason (d_symbol d) (reason_name (d_reason d))) ds (rn_context rn)\<rparr>))"

definition run_schedule :: "'u program \<Rightarrow> instant \<Rightarrow> schedule \<Rightarrow> 'u runner \<Rightarrow> runtime_error + 'u runner" where
  "run_schedule prog t sc rn =
     (if schedule_due sc t (rn_previous rn) (pr_frequency prog)
      then ebind (call (pr_callback prog (sc_callback sc)) rn) (\<lambda>rn. Inr (collect_opening rn))
      else Inr rn)"

definition run_opening_handlers :: "'u program \<Rightarrow> instant \<Rightarrow> 'u runner \<Rightarrow> runtime_error + 'u runner" where
  "run_opening_handlers prog t rn =
     ebind (call (pr_before prog) rn) (\<lambda>rn.
     ebind (efold (run_schedule prog t) (pr_schedules prog) (collect_opening (rn\<lparr>rn_opening := []\<rparr>))) (\<lambda>rn.
     if pr_portfolio prog \<and> pr_schedules prog = []
     then ebind (call (pr_rebalance prog) rn) (\<lambda>rn. Inr (collect_opening rn)) else Inr rn))"

definition fill_opening :: "instant \<Rightarrow> 'u runner \<Rightarrow> runtime_error + 'u runner" where
  "fill_opening t rn =
     (if rn_opening rn = [] then Inr rn
      else ebind (execute (runner_feed rn) t [] (rn_opening rn) (rn_broker rn)) (\<lambda>(b, os).
        Inr (sync_statuses (rn\<lparr>rn_broker := b, rn_pending := merge_pending (rn_pending rn) os\<rparr>))))"

definition end_bar :: "instant \<Rightarrow> 'u runner \<Rightarrow> 'u runner" where
  "end_bar t rn = rn\<lparr>rn_broker := record_equity (runner_feed rn) t (rn_broker rn), rn_previous := Some t\<rparr>"

definition collect_logs :: "'u runner \<Rightarrow> 'u runner" where
  "collect_logs rn =
     (let (cx, ls) = flush_logs (rn_context rn) in rn\<lparr>rn_context := cx, rn_logs := rn_logs rn @ ls\<rparr>)"

definition drop_orders :: "'u runner \<Rightarrow> 'u runner" where
  "drop_orders rn = rn\<lparr>rn_pending := [], rn_context := fst (flush_orders (rn_context rn))\<rparr>"

definition close_bar :: "'u program \<Rightarrow> instant \<Rightarrow> 'u runner \<Rightarrow> runtime_error + 'u runner" where
  "close_bar prog t rn =
     ebind (liquidate_if_insolvent (runner_feed rn) t (rn_broker rn)) (\<lambda>(b, liquidated).
     let rn = rn\<lparr>rn_broker := b\<rparr> in
     if liquidated then Inr (end_bar t (collect_logs (drop_orders rn)))
     else ebind (call (pr_handle prog) rn) (\<lambda>rn.
          ebind (call (pr_after prog) (collect_pending rn)) (\<lambda>rn.
          Inr (end_bar t (collect_logs (collect_pending rn))))))"

definition start_bar :: "instant \<Rightarrow> 'u runner \<Rightarrow> 'u runner" where
  "start_bar t rn = rn\<lparr>rn_context := (rn_context rn)\<lparr>cx_now := Some t\<rparr>\<rparr>"

definition run_bar :: "'u program \<Rightarrow> instant \<Rightarrow> 'u runner \<Rightarrow> runtime_error + 'u runner" where
  "run_bar prog t rn0 =
     (let rn = start_bar t rn0 in
      if bankrupt (rn_broker rn) then Inr (end_bar t (at_clock t True rn))
      else ebind (fill_pending t (at_clock t False rn)) (\<lambda>rn.
           ebind (run_protections t rn) (\<lambda>rn.
           ebind (run_opening_handlers prog t rn) (\<lambda>rn.
           ebind (fill_opening t rn) (\<lambda>rn.
           close_bar prog t (at_clock t True rn))))))"

definition in_range :: "instant option \<Rightarrow> instant option \<Rightarrow> instant \<Rightarrow> bool" where
  "in_range start stop t \<longleftrightarrow> (case start of None \<Rightarrow> True | Some s \<Rightarrow> s \<le> t) \<and>
     (case stop of None \<Rightarrow> True | Some s \<Rightarrow> t \<le> s)"

definition run :: "'u program \<Rightarrow> instant option \<Rightarrow> instant option \<Rightarrow> 'u runner \<Rightarrow> runtime_error + 'u runner" where
  "run prog start stop rn =
     (let ts = filter (in_range start stop) (timestamps (rn_portal rn)) in
      if ts = [] then contract_error ''strategyV2.backtestRangeEmpty''
      else efold (run_bar prog) ts (rn\<lparr>rn_previous := None, rn_pending := []\<rparr>))"

definition new_runner :: "portal \<Rightarrow> real \<Rightarrow> real \<Rightarrow> real \<Rightarrow> real \<Rightarrow> 'u \<Rightarrow> 'u runner" where
  "new_runner p capital lev comm slip u =
     \<lparr>rn_broker = new_broker capital lev comm slip, rn_context = new_context, rn_portal = p, rn_user = u,
      rn_pending = [], rn_opening = [], rn_previous = None, rn_logs = [], rn_cursor = 0, rn_summaries = []\<rparr>"

text \<open>Building the runner: leverage is refused unless the strategy declares it.\<close>

definition create_runner :: "portal \<Rightarrow> bool \<Rightarrow> real \<Rightarrow> real \<Rightarrow> real \<Rightarrow> real \<Rightarrow> bool \<Rightarrow> real \<Rightarrow> 'u \<Rightarrow>
    runtime_error + 'u runner" where
  "create_runner p leverage_allowed max_leverage capital comm slip leverage_enabled lev u =
     (let requested = (if leverage_enabled then max 1 (py_or lev 1) else 1) in
      if requested > 1 \<and> \<not> leverage_allowed then contract_error ''strategyV2.leverageNotAllowed''
      else if requested > max_leverage then contract_error ''strategyV2.leverageExceedsStrategyLimit''
      else Inr (new_runner p capital requested comm slip u))"

end
