(* ===== verification/RunnerLaws.thy ===== *)
theory RunnerLaws
  imports Runner
begin

text \<open>
  What a whole backtest guarantees, whatever the strategy does through its API: the broker it
  ends with is reached by a history of broker operations on the portal's own feeds, so the
  broker's laws hold for it; a bankrupt account stays as it is; and nothing that happens in the
  market after a bar can change what the backtest did up to that bar.
\<close>

subsection \<open>Lawful programs\<close>

text \<open>
  A handler acts on the context through the API and does not give an order the reason the broker
  reserves for its forced liquidations.
\<close>

definition unforged :: "order_intent list \<Rightarrow> bool" where
  "unforged os \<longleftrightarrow> list_all (\<lambda>o'. \<not> is_forced o') os"

definition lawful :: "(string \<Rightarrow> string option) \<Rightarrow> (instant \<Rightarrow> string) \<Rightarrow> 'u handler option \<Rightarrow> bool" where
  "lawful resolve fmt h \<longleftrightarrow> (\<forall>f rows pf cx u cx' u'. h = Some f \<longrightarrow> f rows pf (cx, u) = Inr (cx', u') \<longrightarrow>
     api_path resolve fmt cx cx' \<and> (unforged (cx_orders cx) \<longrightarrow> unforged (cx_orders cx')))"

definition lawful_program :: "(string \<Rightarrow> string option) \<Rightarrow> (instant \<Rightarrow> string) \<Rightarrow> 'u program \<Rightarrow> bool" where
  "lawful_program resolve fmt prog \<longleftrightarrow> lawful resolve fmt (pr_before prog) \<and> lawful resolve fmt (pr_rebalance prog) \<and>
     lawful resolve fmt (pr_handle prog) \<and> lawful resolve fmt (pr_after prog) \<and>
     (\<forall>name. lawful resolve fmt (pr_callback prog name))"

lemma queue_signal:
  assumes "queue resolve fmt symbol kind v kw cx = Inr (cx', r)"
  shows "cx_now cx' = cx_now cx \<and>
    (\<exists>o'. cx_orders cx' = cx_orders cx @ [o'] \<and> o_signal_time o' = cx_now cx \<and>
      o_reason o' = first_string [kw_reason kw, ''strategy''])"
proof -
  obtain key x where kn: "resolve symbol = Some key" "v = RNum x"
    using assms by (auto simp: queue_def contract_error_def split: option.splits rawnum.splits)
  obtain ty algo limit wait offset where
    "add_intent fmt key kind x ty algo limit (max 0 wait) (max 0 offset) kw cx = (cx', r)"
    using assms unfolding queue_def kn option.case rawnum.case
    by (elim ebind_InrE) (simp add: contract_error_def split: if_splits)
  then show ?thesis by (auto simp: add_intent_def Let_def)
qed

lemma api_path_orders:
  "api_path resolve fmt cx cx' \<Longrightarrow> cx_now cx' = cx_now cx \<and>
   (\<forall>o' \<in> set (cx_orders cx'). o' \<in> set (cx_orders cx) \<or> o_signal_time o' = cx_now cx)"
proof (induction rule: rtranclp_induct)
  case (step y z)
  have "cx_now z = cx_now y \<and>
    (\<forall>o' \<in> set (cx_orders z). o' \<in> set (cx_orders y) \<or> o_signal_time o' = cx_now y)"
    using step.hyps(2)
  proof (cases rule: api_step.cases)
    case (order symbol kind v kw r)
    from queue_signal[OF this] show ?thesis by auto
  qed (auto simp: set_default_protection_def cancel_order_def consume_last_exit_reason_def log_message_def Let_def)
  with step.IH show ?case by auto
qed simp

subsection \<open>The broker of a runner has a history\<close>

definition reached :: "broker \<Rightarrow> broker \<Rightarrow> bool" where
  "reached b0 b \<longleftrightarrow> (\<exists>ops. broker_history ops b0 b \<and> list_all (\<lambda>e. timely_op (snd e)) ops)"

lemma reached_refl: "reached b b"
  unfolding reached_def by (rule exI[of _ "[]"]) simp

lemma reached_op:
  assumes "reached b0 b" "apply_op fd op b = Inr b'" "sound_op op" "timely_op op"
  shows "reached b0 b'"
proof -
  from assms(1) obtain ops where "broker_history ops b0 b" "list_all (\<lambda>e. timely_op (snd e)) ops"
    by (auto simp: reached_def)
  moreover have "broker_history [(fd, op)] b b'"
    using assms(2,3) by (simp add: broker_history_def apply_timed_def)
  ultimately show ?thesis unfolding reached_def
    using assms(4) by (intro exI[of _ "ops @ [(fd, op)]"]) (auto intro: history_append)
qed

definition good :: "instant \<Rightarrow> order_intent \<Rightarrow> bool" where
  "good t o' \<longleftrightarrow> timely t o' \<and> \<not> is_forced o'"

lemma good_ops: "list_all (good t) os \<Longrightarrow> sound_op (OpExecute t [] os) \<and> timely_op (OpExecute t [] os)"
  by (auto simp: good_def sound_order_def list_all_iff)

lemma good_mono: "good s o' \<Longrightarrow> s \<le> t \<Longrightarrow> good t o'"
  by (auto simp: good_def timely_def)

lemma good_resubmits: "good t o' \<Longrightarrow> resubmits o' d \<Longrightarrow> good t d"
  by (auto simp: good_def resubmits_def timely_def is_forced_def)

lemma execute_good:
  assumes "execute fd t ov os b = Inr (b', ds)" "list_all (good t) os"
  shows "list_all (good t) ds"
  using execute_resubmits[OF assms(1)] assms(2) good_resubmits unfolding list_all_iff by blast

lemma merge_pending_subset: "set (merge_pending xs ys) \<subseteq> set xs \<union> set ys"
proof -
  have "set (foldl merge_one xs ys) \<subseteq> set xs \<union> set ys"
    by (induction ys arbitrary: xs) (fastforce simp: merge_one_def split: if_splits)+
  then show ?thesis by (simp add: merge_pending_def)
qed

definition runner_ok :: "broker \<Rightarrow> instant \<Rightarrow> 'u runner \<Rightarrow> bool" where
  "runner_ok b0 t rn \<longleftrightarrow> reached b0 (rn_broker rn) \<and> cx_now (rn_context rn) = Some t \<and>
     list_all (good t) (rn_pending rn @ rn_opening rn @ cx_orders (rn_context rn))"

lemma runner_okD:
  assumes "runner_ok b0 t rn"
  shows "reached b0 (rn_broker rn)" "cx_now (rn_context rn) = Some t" "list_all (good t) (rn_pending rn)"
    "list_all (good t) (rn_opening rn)" "list_all (good t) (cx_orders (rn_context rn))"
  using assms by (simp_all add: runner_ok_def)

lemma invoke_ok:
  assumes "invoke h rn = Inr rn'" "lawful resolve fmt h" "runner_ok b0 t rn"
  shows "runner_ok b0 t rn'"
proof (cases h)
  case (Some f)
  then obtain cx u where f: "f (visible_frame (rn_portal rn)) (portfolio_state.truncate (rn_broker rn))
      (rn_context rn, rn_user rn) = Inr (cx, u)" and rn': "rn' = rn\<lparr>rn_context := cx, rn_user := u\<rparr>"
    using assms(1) by (auto simp: invoke_def elim: ebind_InrE)
  have l: "api_path resolve fmt (rn_context rn) cx" "unforged (cx_orders (rn_context rn)) \<longrightarrow> unforged (cx_orders cx)"
    using assms(2) f Some unfolding lawful_def by blast+
  note ok = runner_okD[OF assms(3)]
  have n: "cx_now cx = Some t" using api_path_orders[OF l(1)] ok(2) by simp
  have u: "unforged (cx_orders cx)"
    using l(2) ok(5) by (auto simp: unforged_def good_def list_all_iff)
  have "good t o'" if "o' \<in> set (cx_orders cx)" for o'
    using that u api_path_orders[OF l(1)] ok(2,5)
    by (auto simp: good_def timely_def unforged_def list_all_iff)
  then have "list_all (good t) (cx_orders cx)" by (simp add: list_all_iff)
  then show ?thesis using ok n by (simp add: rn' runner_ok_def)
qed (use assms in \<open>simp add: invoke_def\<close>)

lemma release_reached:
  "reached b0 b \<Longrightarrow> reached b0 (b\<lparr>book := release_resting refs (book b)\<rparr>)"
  using reached_op[where op = "OpRelease refs"] by simp

lemma remove_cancelled_ok: "runner_ok b0 t rn \<Longrightarrow> runner_ok b0 t (remove_cancelled rn)"
  by (auto simp: runner_ok_def remove_cancelled_def flush_cancelled_def Let_def list_all_iff
      intro: release_reached)

lemma call_ok:
  "call h rn = Inr rn' \<Longrightarrow> lawful resolve fmt h \<Longrightarrow> runner_ok b0 t rn \<Longrightarrow> runner_ok b0 t rn'"
  by (auto simp: call_def elim!: ebind_InrE intro: remove_cancelled_ok invoke_ok)

lemma collect_ok:
  "runner_ok b0 t rn \<Longrightarrow> runner_ok b0 t (collect_opening rn)"
  "runner_ok b0 t rn \<Longrightarrow> runner_ok b0 t (collect_pending rn)"
  "runner_ok b0 t rn \<Longrightarrow> runner_ok b0 t (collect_logs rn)"
  "runner_ok b0 t rn \<Longrightarrow> runner_ok b0 t (drop_orders rn)"
  "runner_ok b0 t rn \<Longrightarrow> runner_ok b0 t (at_clock u i rn)"
  using merge_pending_subset
  by (fastforce simp: runner_ok_def collect_opening_def collect_pending_def collect_logs_def drop_orders_def
      flush_orders_def flush_logs_def at_clock_def list_all_iff)+

lemma sync_context:
  "cx_now (rn_context (sync_statuses rn)) = cx_now (rn_context rn)"
  "cx_orders (rn_context (sync_statuses rn)) = cx_orders (rn_context rn)"
  "rn_broker (sync_statuses rn) = rn_broker rn" "rn_pending (sync_statuses rn) = rn_pending rn"
  "rn_opening (sync_statuses rn) = rn_opening rn"
  by (simp_all add: sync_statuses_def update_order_statuses_def Let_def split: prod.splits)

lemma sync_ok: "runner_ok b0 t (sync_statuses rn) = runner_ok b0 t rn"
  by (simp add: runner_ok_def sync_context)

lemma fill_pending_ok:
  assumes "fill_pending t rn = Inr rn'" "runner_ok b0 t rn"
  shows "runner_ok b0 t rn'"
proof (cases "rn_pending rn = []")
  case False
  note ok = runner_okD[OF assms(2)]
  from False assms(1) obtain b ds where e: "execute (runner_feed rn) t [] (rn_pending rn) (rn_broker rn) = Inr (b, ds)"
    and rn': "rn' = sync_statuses (rn\<lparr>rn_broker := b, rn_pending := ds\<rparr>)"
    by (auto simp: fill_pending_def elim!: ebind_InrE)
  have "reached b0 b"
    using reached_op[OF ok(1), of "runner_feed rn" "OpExecute t [] (rn_pending rn)" b] e good_ops[OF ok(3)] by simp
  then show ?thesis
    unfolding rn' sync_ok using execute_good[OF e ok(3)] ok by (simp add: runner_ok_def)
qed (use assms in \<open>simp add: fill_pending_def\<close>)

lemma fill_opening_ok:
  assumes "fill_opening t rn = Inr rn'" "runner_ok b0 t rn"
  shows "runner_ok b0 t rn'"
proof (cases "rn_opening rn = []")
  case False
  note ok = runner_okD[OF assms(2)]
  from False assms(1) obtain b ds where e: "execute (runner_feed rn) t [] (rn_opening rn) (rn_broker rn) = Inr (b, ds)"
    and rn': "rn' = sync_statuses (rn\<lparr>rn_broker := b, rn_pending := merge_pending (rn_pending rn) ds\<rparr>)"
    by (auto simp: fill_opening_def elim!: ebind_InrE)
  have "reached b0 b"
    using reached_op[OF ok(1), of "runner_feed rn" "OpExecute t [] (rn_opening rn)" b] e good_ops[OF ok(4)] by simp
  moreover have "list_all (good t) (merge_pending (rn_pending rn) ds)"
    using execute_good[OF e ok(4)] ok(3) merge_pending_subset[of "rn_pending rn" ds] by (auto simp: list_all_iff)
  ultimately show ?thesis unfolding rn' sync_ok using ok by (simp add: runner_ok_def)
qed (use assms in \<open>simp add: fill_opening_def\<close>)

lemma exit_reasons_context:
  "cx_now (fold (\<lambda>d. set_last_exit_reason (f d) (g d)) ds cx) = cx_now cx"
  "cx_orders (fold (\<lambda>d. set_last_exit_reason (f d) (g d)) ds cx) = cx_orders cx"
  by (induction ds arbitrary: cx) (simp_all add: set_last_exit_reason_def)

lemma run_protections_ok:
  assumes "run_protections t rn = Inr rn'" "runner_ok b0 t rn"
  shows "runner_ok b0 t rn'"
  using assms reached_op[of b0 "rn_broker rn" "runner_feed rn" "OpProtect t"]
  by (auto simp: run_protections_def runner_ok_def exit_reasons_context elim!: ebind_InrE)

lemma run_schedule_ok:
  assumes "run_schedule prog t sc rn = Inr rn'" "lawful_program resolve fmt prog" "runner_ok b0 t rn"
  shows "runner_ok b0 t rn'"
  using assms unfolding run_schedule_def lawful_program_def
  by (auto split: if_splits elim!: ebind_InrE intro!: collect_ok intro: call_ok)

lemma run_schedules_ok:
  "efold (run_schedule prog t) scs rn = Inr rn' \<Longrightarrow> lawful_program resolve fmt prog \<Longrightarrow>
   runner_ok b0 t rn \<Longrightarrow> runner_ok b0 t rn'"
  by (induction scs arbitrary: rn) (auto elim!: ebind_InrE intro: run_schedule_ok)

lemma opening_handlers_ok:
  assumes "run_opening_handlers prog t rn = Inr rn'" "lawful_program resolve fmt prog" "runner_ok b0 t rn"
  shows "runner_ok b0 t rn'"
proof -
  from assms(1) obtain r1 r2 where r: "call (pr_before prog) rn = Inr r1"
    "efold (run_schedule prog t) (pr_schedules prog) (collect_opening (r1\<lparr>rn_opening := []\<rparr>)) = Inr r2"
    "rn' = r2 \<or> (\<exists>r3. call (pr_rebalance prog) r2 = Inr r3 \<and> rn' = collect_opening r3)"
    by (auto simp: run_opening_handlers_def split: if_splits elim!: ebind_InrE)
  have l: "lawful resolve fmt (pr_before prog)" "lawful resolve fmt (pr_rebalance prog)"
    using assms(2) by (auto simp: lawful_program_def)
  have "runner_ok b0 t (r1\<lparr>rn_opening := []\<rparr>)"
    using call_ok[OF r(1) l(1) assms(3)] by (simp add: runner_ok_def)
  then have "runner_ok b0 t r2" by (intro run_schedules_ok[OF r(2) assms(2)] collect_ok)
  with r(3) l(2) show ?thesis by (auto intro: call_ok collect_ok)
qed

lemma end_bar_valued [simp]: "valued (rn_broker (end_bar u rn))"
  by (simp add: end_bar_def record_equity_valued)

lemma record_ok: "runner_ok b0 t rn \<Longrightarrow> runner_ok b0 t (end_bar u rn)"
  using reached_op[of b0 "rn_broker rn" "runner_feed rn" "OpRecord u"]
  by (auto simp: runner_ok_def end_bar_def)

lemma close_bar_ok:
  assumes "close_bar prog t rn = Inr rn'" "lawful_program resolve fmt prog" "runner_ok b0 t rn"
  shows "runner_ok b0 t rn' \<and> valued (rn_broker rn')"
proof -
  from assms(1) obtain b liq where e: "liquidate_if_insolvent (runner_feed rn) t (rn_broker rn) = Inr (b, liq)"
    and rest: "liq \<and> rn' = end_bar t (collect_logs (drop_orders (rn\<lparr>rn_broker := b\<rparr>))) \<or>
      (\<exists>r1 r2. call (pr_handle prog) (rn\<lparr>rn_broker := b\<rparr>) = Inr r1 \<and>
        call (pr_after prog) (collect_pending r1) = Inr r2 \<and>
        rn' = end_bar t (collect_logs (collect_pending r2)))"
    by (auto simp: close_bar_def Let_def split: if_splits elim!: ebind_InrE)
  have l: "lawful resolve fmt (pr_handle prog)" "lawful resolve fmt (pr_after prog)"
    using assms(2) by (auto simp: lawful_program_def)
  have "runner_ok b0 t (rn\<lparr>rn_broker := b\<rparr>)"
    using reached_op[of b0 "rn_broker rn" "runner_feed rn" "OpLiquidate t" b] e assms(3)
    by (simp add: runner_ok_def)
  with rest show ?thesis
    by (elim disjE exE conjE) (simp_all add: record_ok collect_ok call_ok[OF _ l(1)] call_ok[OF _ l(2)])
qed

lemma run_bar_ok:
  assumes "run_bar prog t rn = Inr rn'" "lawful_program resolve fmt prog" "reached b0 (rn_broker rn)"
    "list_all (good t) (rn_pending rn @ rn_opening rn @ cx_orders (rn_context rn))"
  shows "runner_ok b0 t rn' \<and> valued (rn_broker rn')"
proof -
  have s: "runner_ok b0 t (start_bar t rn)" using assms(3,4) by (simp add: runner_ok_def start_bar_def)
  show ?thesis
  proof (cases "bankrupt (rn_broker rn)")
    case True
    then have "rn' = end_bar t (at_clock t True (start_bar t rn))"
      using assms(1) by (simp add: run_bar_def Let_def start_bar_def)
    then show ?thesis using s by (simp add: record_ok collect_ok)
  next
    case False
    with assms(1) obtain r1 r2 r3 r4 where "fill_pending t (at_clock t False (start_bar t rn)) = Inr r1"
      "run_protections t r1 = Inr r2" "run_opening_handlers prog t r2 = Inr r3" "fill_opening t r3 = Inr r4"
      "close_bar prog t (at_clock t True r4) = Inr rn'"
      by (auto simp: run_bar_def Let_def start_bar_def elim!: ebind_InrE)
    note stages = this
    have "runner_ok b0 t r1" by (rule fill_pending_ok[OF stages(1) collect_ok(5)[OF s]])
    from run_protections_ok[OF stages(2) this] have "runner_ok b0 t r2" .
    from opening_handlers_ok[OF stages(3) assms(2) this] have "runner_ok b0 t r3" .
    from fill_opening_ok[OF stages(4) this] have "runner_ok b0 t r4" .
    from close_bar_ok[OF stages(5) assms(2) collect_ok(5)[OF this]] show ?thesis .
  qed
qed

lemma bars_ok:
  assumes "efold (run_bar prog) ts rn = Inr rn'" "lawful_program resolve fmt prog" "sorted_wrt (<) (t # ts)"
    "runner_ok b0 t rn" "valued (rn_broker rn)"
  shows "runner_ok b0 (last (t # ts)) rn' \<and> valued (rn_broker rn')"
  using assms
proof (induction ts arbitrary: t rn)
  case (Cons u ts)
  then obtain m where m: "run_bar prog u rn = Inr m" "efold (run_bar prog) ts m = Inr rn'"
    by (auto elim: ebind_InrE)
  have "list_all (good u) (rn_pending rn @ rn_opening rn @ cx_orders (rn_context rn))"
    using Cons.prems(3,4) good_mono[of t _ u] by (auto simp: runner_ok_def list_all_iff)
  from run_bar_ok[OF m(1) Cons.prems(2) runner_okD(1)[OF Cons.prems(4)] this] Cons.IH[OF m(2), of u] Cons.prems
  show ?case by simp
qed simp

lemma timestamps_sorted: "sorted_wrt (<) (filter P (timestamps p))"
  by (rule sorted_wrt_filter) (simp add: timestamps_def strict_sorted_iff)

lemma run_ok:
  assumes "run prog start stop (new_runner p capital lev comm slip u) = Inr rn" "lawful_program resolve fmt prog"
  shows "reached (new_broker capital lev comm slip) (rn_broker rn) \<and> valued (rn_broker rn)"
proof -
  let ?r0 = "new_runner p capital lev comm slip u" and ?b0 = "new_broker capital lev comm slip"
  from assms(1) obtain t ts where ts: "filter (in_range start stop) (timestamps p) = t # ts"
    and e: "efold (run_bar prog) (t # ts) ?r0 = Inr rn"
    by (cases "filter (in_range start stop) (timestamps p)")
      (auto simp: run_def Let_def contract_error_def new_runner_def)
  from e obtain m where m: "run_bar prog t ?r0 = Inr m" "efold (run_bar prog) ts m = Inr rn"
    by (auto elim: ebind_InrE)
  have "runner_ok ?b0 t m \<and> valued (rn_broker m)"
    by (rule run_bar_ok[OF m(1) assms(2)]) (simp_all add: new_runner_def new_context_def reached_refl)
  with bars_ok[OF m(2) assms(2), of t ?b0] timestamps_sorted[of "in_range start stop" p] ts
  show ?thesis by (simp add: runner_ok_def)
qed

lemma reached_facts:
  assumes "reached (new_broker capital lev comm slip) b"
  shows "cash_ok b" "fees_ok b" "inventory_ok b" "on_time b" "broker_wf b"
proof -
  from assms obtain ops where ops: "broker_history ops (new_broker capital lev comm slip) b"
    "list_all (\<lambda>e. timely_op (snd e)) ops" by (auto simp: reached_def)
  show "cash_ok b" "fees_ok b" "inventory_ok b" "broker_wf b"
    using history_books[OF ops(1)] history_wf[OF ops(1) new_broker_wf] by auto
  show "on_time b" using ops timely_run.prun_inv[of "new_broker capital lev comm slip" ops b]
    by (simp add: broker_history_def on_time_def new_broker_def)
qed

text \<open>
  C1: a whole backtest balances. Whatever a strategy does through its API, when the run ends the
  engine's own audit finds no fee mismatch, no fill before its signal, no position mismatch (up
  to ten thousand executions, the audit's tolerance) and an equity that is exactly the one
  recomputed from the executions; its verdict then depends on the fill prices alone. The cash is
  the starting cash less what the executions paid plus the absorbed deficit, and every armed
  protection guards an open position.
\<close>

theorem backtest_balances:
  assumes "lawful_program resolve fmt prog"
    and "run prog start stop (new_runner p capital lev comm slip u) = Inr rn"
    and "length (executions (rn_broker rn)) \<le> 10000"
  shows "au_fee (reconcile (rn_broker rn)) = [] \<and> au_timing (reconcile (rn_broker rn)) = [] \<and>
    au_positions (reconcile (rn_broker rn)) = [] \<and> au_difference (reconcile (rn_broker rn)) = 0 \<and>
    (au_passed (reconcile (rn_broker rn)) \<longleftrightarrow> au_fill (reconcile (rn_broker rn)) = []) \<and>
    available_cash (rn_broker rn) = starting_cash (rn_broker rn) -
      sum_of cash_out (executions (rn_broker rn)) + liquidation_adjustment (rn_broker rn) \<and>
    (\<forall>k s. map_of (protections (rn_broker rn)) k = Some s \<longrightarrow>
      (\<exists>q. map_of (positions (rn_broker rn)) k = Some q \<and> ps_side s = side_name (amount q)))"
proof -
  have r: "reached (new_broker capital lev comm slip) (rn_broker rn)" "valued (rn_broker rn)"
    using run_ok[OF assms(2,1)] by auto
  note f = reached_facts[OF r(1)]
  show ?thesis
    using audit_of_books[OF f(1-3) r(2) assms(3)] audit_on_time[OF f(4)] f(1,5)
    by (auto simp: cash_ok_def broker_wf_def guards_ok_def)
qed

text \<open>A program that buys five units on every close while it has no position.\<close>

definition demo_handler :: "unit handler" where
  "demo_handler rows pf = (\<lambda>(cx, u).
     if positions pf = [] then
       ebind (queue demo_resolve demo_fmt ''A'' Quantity (RNum 5) no_kwargs cx) (\<lambda>(cx', r). Inr (cx', u))
     else Inr (cx, u))"

definition demo_program :: "unit program" where
  "demo_program = \<lparr>pr_before = None, pr_rebalance = None, pr_handle = Some demo_handler, pr_after = None,
     pr_callback = (\<lambda>_. None), pr_schedules = [], pr_portfolio = False, pr_frequency = ''1d''\<rparr>"

definition demo_runner :: "real \<Rightarrow> unit runner" where
  "demo_runner c = new_runner (demo_portal c) 1000 1 0 0 ()"

definition demo_backtest :: "runtime_error + unit runner" where
  "demo_backtest = run demo_program None None (demo_runner 11)"

lemma demo_lawful: "lawful_program demo_resolve demo_fmt demo_program"
proof -
  have "api_path demo_resolve demo_fmt cx cx' \<and> (unforged (cx_orders cx) \<longrightarrow> unforged (cx_orders cx'))"
    if h: "demo_handler rows pf (cx, u) = Inr (cx', u')" for rows pf cx u cx' u'
  proof (cases "positions pf = []")
    case True
    with h obtain r where q: "queue demo_resolve demo_fmt ''A'' Quantity (RNum 5) no_kwargs cx = Inr (cx', r)"
      by (auto simp: demo_handler_def elim!: ebind_InrE)
    then have "api_step demo_resolve demo_fmt cx cx'" by (rule api_step.order)
    moreover have "unforged (cx_orders cx) \<longrightarrow> unforged (cx_orders cx')"
      using queue_signal[OF q] by (auto simp: unforged_def is_forced_def no_kwargs_def first_string_def)
    ultimately show ?thesis by blast
  qed (use h in \<open>simp add: demo_handler_def\<close>)
  then show ?thesis by (auto simp: lawful_program_def lawful_def demo_program_def)
qed

theorem backtest_balances_witness:
  "demo_backtest = Inr (projr demo_backtest) \<and> length (executions (rn_broker (projr demo_backtest))) = 1 \<and>
   au_timing (reconcile (rn_broker (projr demo_backtest))) = [] \<and>
   au_difference (reconcile (rn_broker (projr demo_backtest))) = 0"
proof -
  have "\<not> isl demo_backtest" and l: "length (executions (rn_broker (projr demo_backtest))) = 1" by code_simp+
  then have e: "demo_backtest = Inr (projr demo_backtest)" by (simp add: sum.collapse(2))
  from backtest_balances[OF demo_lawful e[unfolded demo_backtest_def demo_runner_def]] e l show ?thesis
    by (simp add: demo_backtest_def demo_runner_def)
qed

subsection \<open>A bankrupt account is frozen\<close>

lemma record_equity_frame:
  "executions (record_equity fd t b) = executions b" "available_cash (record_equity fd t b) = available_cash b"
  "held (positions (record_equity fd t b)) k = held (positions b) k"
  "bankrupt (record_equity fd t b) = bankrupt b" "order_sequence (record_equity fd t b) = order_sequence b"
  "book (record_equity fd t b) = book b"
  "length (equity_curve (record_equity fd t b)) = Suc (length (equity_curve b))"
  by (simp_all add: record_equity_def Let_def) (simp_all add: mark_to_market_def Let_def)

text \<open>
  bankruptcy is final. Once the account is bankrupt the rest of the backtest raises no error
  and only records equity, one point per bar: no handler runs, no order is numbered or logged,
  and the executions, the cash and every quantity held stay as the liquidation left them.
\<close>

theorem bankruptcy_is_final:
  assumes "bankrupt (rn_broker rn)"
  shows "\<exists>rn'. efold (run_bar prog) ts rn = Inr rn' \<and> bankrupt (rn_broker rn') \<and>
    executions (rn_broker rn') = executions (rn_broker rn) \<and> book (rn_broker rn') = book (rn_broker rn) \<and>
    available_cash (rn_broker rn') = available_cash (rn_broker rn) \<and> rn_user rn' = rn_user rn \<and>
    (\<forall>k. held (positions (rn_broker rn')) k = held (positions (rn_broker rn)) k) \<and>
    length (equity_curve (rn_broker rn')) = length (equity_curve (rn_broker rn)) + length ts"
  using assms
proof (induction ts arbitrary: rn)
  case (Cons t ts)
  let ?m = "end_bar t (at_clock t True (start_bar t rn))"
  have m: "run_bar prog t rn = Inr ?m" "bankrupt (rn_broker ?m)"
    "executions (rn_broker ?m) = executions (rn_broker rn)" "book (rn_broker ?m) = book (rn_broker rn)"
    "available_cash (rn_broker ?m) = available_cash (rn_broker rn)" "rn_user ?m = rn_user rn"
    "\<And>k. held (positions (rn_broker ?m)) k = held (positions (rn_broker rn)) k"
    "length (equity_curve (rn_broker ?m)) = Suc (length (equity_curve (rn_broker rn)))"
    using Cons.prems by (simp_all add: run_bar_def end_bar_def at_clock_def start_bar_def record_equity_frame)
  from Cons.IH[OF m(2)] show ?case by (auto simp: m)
qed simp

theorem bankruptcy_is_final_witness:
  "\<exists>rn'. efold (run_bar demo_program) [1, 2] ((demo_runner 11)\<lparr>rn_broker := demo_broker\<lparr>bankrupt := True\<rparr>\<rparr>) = Inr rn' \<and>
     executions (rn_broker rn') = [] \<and> length (equity_curve (rn_broker rn')) = 2"
  using bankruptcy_is_final[of "(demo_runner 11)\<lparr>rn_broker := demo_broker\<lparr>bankrupt := True\<rparr>\<rparr>" demo_program "[1, 2]"]
  by (auto simp: demo_broker_def new_broker_def)

end
