(* ===== verification/Hindsight.thy ===== *)
theory Hindsight
  imports RunnerLaws
begin

text \<open>
  The backtest as a whole looks at no bar later than the one it processes: two markets that agree
  up to an instant give the same backtest up to that instant. The stages of a bar are related one
  by one, as the relators of sums and runners.
\<close>

subsection \<open>The broker reads its feed at the current instant only\<close>

definition same_feed :: "instant \<Rightarrow> feed \<Rightarrow> feed \<Rightarrow> bool" where
  "same_feed t fd fd' \<longleftrightarrow> (\<forall>k. bar_at fd k t = bar_at fd' k t \<and> close_at fd k t = close_at fd' k t) \<and>
     current_close fd = current_close fd'"

lemma same_feedD:
  assumes "same_feed t fd fd'"
  shows "bar_at fd k t = bar_at fd' k t" "close_at fd k t = close_at fd' k t"
    "current_close fd = current_close fd'"
  using assms by (simp_all add: same_feed_def)

lemma mark_feed:
  assumes "same_feed t fd fd'"
  shows "mark_to_market fd t = mark_to_market fd' t"
proof -
  have "mark_position fd t = mark_position fd' t"
    unfolding mark_position_def same_feedD[OF assms] ..
  note eqs = this
  show ?thesis unfolding mark_to_market_def eqs ..
qed

lemma exec_order_feed:
  assumes "same_feed t fd fd'"
  shows "exec_order fd t = exec_order fd' t"
proof -
  have "trade_order fd t = trade_order fd' t" "trade_unpriced fd t = trade_unpriced fd' t"
    unfolding trade_order_def trade_unpriced_def mark_feed[OF assms] by (rule refl)+
  note eqs = this
  show ?thesis unfolding exec_order_def same_feedD[OF assms] eqs ..
qed

lemma execute_feed:
  assumes "same_feed t fd fd'"
  shows "execute fd t = execute fd' t"
  unfolding execute_def record_rebalance_def mark_feed[OF assms] exec_order_feed[OF assms] ..

lemma protections_feed:
  assumes "same_feed t fd fd'"
  shows "process_protections fd t = process_protections fd' t"
proof -
  have "protect_position fd t = protect_position fd' t"
    unfolding protect_position_def same_feedD[OF assms] execute_feed[OF assms] ..
  note eqs = this
  show ?thesis unfolding process_protections_def eqs ..
qed

lemma liquidate_feed:
  assumes "same_feed t fd fd'"
  shows "liquidate_if_insolvent fd t = liquidate_if_insolvent fd' t"
proof -
  have "liquidation_price fd t = liquidation_price fd' t"
    unfolding liquidation_price_def same_feedD[OF assms] ..
  note eqs = this
  have "liquidation_orders fd t = liquidation_orders fd' t"
    unfolding liquidation_orders_def eqs ..
  note eqs = this
  show ?thesis
    unfolding liquidate_if_insolvent_def absorb_deficit_def mark_feed[OF assms] execute_feed[OF assms] eqs ..
qed

lemma record_feed:
  assumes "same_feed t fd fd'"
  shows "record_equity fd t = record_equity fd' t"
  unfolding record_equity_def mark_feed[OF assms] ..

lemmas feed_cong = execute_feed protections_feed liquidate_feed record_feed

subsection \<open>Portals with the same past\<close>

lemma same_past_clock: "same_past t (set_clock u i p) (set_clock v j q) = same_past t p q"
  by (simp add: same_past_def set_clock_def)

lemma portal_wf_clock [simp]: "portal_wf (set_clock u i p) = portal_wf p"
  by (simp add: portal_wf_def set_clock_def)

lemma map_of_past: "u < t \<Longrightarrow> map_of (past t rows) u = map_of rows u"
  by (induction rows) (auto simp: past_def)

lemma past_lookup:
  assumes "same_past t p q"
  shows "map_option (past t) (map_of (frames p) k) = map_option (past t) (map_of (frames q) k)"
  using arg_cong[OF assms[unfolded same_past_def], of "\<lambda>m. map_of m k"] by (simp add: map_of_map_snd)

lemma bar_at_past:
  assumes "same_past t p q" "u < t"
  shows "portal_bar_at p k u = portal_bar_at q k u"
proof -
  have "portal_bar_at r k u = (case map_option (past t) (map_of (frames r) k) of None \<Rightarrow> None | Some rows \<Rightarrow> map_of rows u)"
    for r using map_of_past[OF assms(2)] by (simp add: portal_bar_at_def split: option.splits)
  note eq = this
  show ?thesis unfolding eq past_lookup[OF assms(1)] ..
qed

lemma past_past: "u \<le> t \<Longrightarrow> past u (past t rows) = past u rows"
  by (auto simp: past_def intro!: filter_cong)

lemma same_past_earlier:
  assumes "same_past t p q" "u \<le> t"
  shows "same_past u p q"
proof -
  have "map (\<lambda>(k, rows). (k, past u rows)) fs = map (\<lambda>(k, rows). (k, past u rows)) (map (\<lambda>(k, rows). (k, past t rows)) fs)"
    for fs :: "frame dict" using past_past[OF assms(2)] by (simp add: comp_def split_def)
  then show ?thesis using assms(1) unfolding same_past_def by metis
qed

lemma visible_frame_now:
  assumes "portal_wf p" "u < t"
  shows "visible_frame (set_clock u True p) k count =
    map_option (past_frame (Some u) count) (map_option (past t) (map_of (frames p) k))"
proof (cases "map_of (frames p) k")
  case (Some rows)
  have "takeWhile (\<lambda>(v, _). v \<le> u) rows = filter (\<lambda>(v, _). v \<le> u) (past t rows)"
    using visible_rows_past[OF portal_wf_frame[OF assms(1) Some] assms(2)] .
  then show ?thesis using Some
    by (simp add: visible_frame_def past_frame_def set_clock_def)
qed (simp add: visible_frame_def set_clock_def)

lemma visible_frame_before:
  assumes "portal_wf p" "portal_wf q" "same_past t p q"
  shows "visible_frame (set_clock t False p) k count = visible_frame (set_clock t False q) k count"
proof -
  have "visible_dt (set_clock t False p) = visible_dt (set_clock t False q)"
    using assms(3) by (simp add: visible_before timestamps_before same_past_def)
  then show ?thesis using assms by (simp add: visible_frame_past same_past_def)
qed

lemma visible_frame_same:
  assumes "portal_wf p" "portal_wf q" "same_past t p q" "u < t"
  shows "visible_frame (set_clock u i p) = visible_frame (set_clock u i q)"
proof (intro ext)
  fix k count
  show "visible_frame (set_clock u i p) k count = visible_frame (set_clock u i q) k count"
    using visible_frame_before[OF assms(1,2) same_past_earlier[OF assms(3)], of u]
      visible_frame_now[OF assms(1,4)] visible_frame_now[OF assms(2,4)] past_lookup[OF assms(3)] assms(4)
    by (cases i) simp_all
qed

lemma portal_feed_same:
  assumes "portal_wf p" "portal_wf q" "same_past t p q" "u < t"
  shows "same_feed u (portal_feed (set_clock u i p)) (portal_feed (set_clock u i q))"
proof -
  have "portal_bar_at (set_clock u i p) k u = portal_bar_at (set_clock u i q) k u" for k
    using bar_at_past[of t "set_clock u i p" "set_clock u i q" u k] assms(3,4) by (simp add: same_past_clock)
  moreover have "portal_current (set_clock u i p) = portal_current (set_clock u i q)"
    by (intro ext) (simp add: portal_current_def visible_frame_same[OF assms])
  ultimately show ?thesis by (simp add: same_feed_def portal_feed_def portal_close_at_def)
qed

subsection \<open>Related runners\<close>

text \<open>The same runner on two portals that agree before \<open>t\<close>; and, in a bar, also on what is visible.\<close>

definition kin :: "instant \<Rightarrow> 'u runner \<Rightarrow> 'u runner \<Rightarrow> bool" where
  "kin t rn rn' \<longleftrightarrow> (\<exists>q. rn' = rn\<lparr>rn_portal := q\<rparr> \<and> portal_wf (rn_portal rn) \<and> portal_wf q \<and>
     same_past t (rn_portal rn) q)"

definition alike :: "instant \<Rightarrow> instant \<Rightarrow> 'u runner \<Rightarrow> 'u runner \<Rightarrow> bool" where
  "alike t u rn rn' \<longleftrightarrow> (\<exists>q. rn' = rn\<lparr>rn_portal := q\<rparr> \<and> portal_wf (rn_portal rn) \<and> portal_wf q \<and>
     same_past t (rn_portal rn) q \<and> visible_frame (rn_portal rn) = visible_frame q \<and>
     same_feed u (portal_feed (rn_portal rn)) (portal_feed q))"

definition outcome :: "'u runner \<Rightarrow> broker \<times> runtime_context \<times> 'u \<times> order_intent list \<times> string list" where
  "outcome rn = (rn_broker rn, rn_context rn, rn_user rn, rn_pending rn, rn_logs rn)"

abbreviation same_result :: "instant \<Rightarrow> instant \<Rightarrow> runtime_error + 'u runner \<Rightarrow> runtime_error + 'u runner \<Rightarrow> bool" where
  "same_result t u \<equiv> rel_sum (=) (alike t u)"

lemma ebind_same:
  "rel_sum (=) R m m' \<Longrightarrow> (\<And>x y. R x y \<Longrightarrow> rel_sum (=) S (f x) (g y)) \<Longrightarrow> rel_sum (=) S (ebind m f) (ebind m' g)"
  by (auto elim!: rel_sum.cases)

text \<open>Stages that do not touch the portal and read it through the rows and the feed.\<close>

lemma alikeE:
  fixes rn rn' :: "'u runner"
  assumes "alike t u rn rn'"
  obtains q where "rn' = rn\<lparr>rn_portal := q\<rparr>" "visible_frame (rn_portal rn) = visible_frame q"
    "same_feed u (portal_feed (rn_portal rn)) (portal_feed q)"
    "\<And>m m' :: 'u runner. m' = m\<lparr>rn_portal := q\<rparr> \<Longrightarrow> rn_portal m = rn_portal rn \<Longrightarrow> alike t u m m'"
  using assms by (auto simp: alike_def)

lemma alike_updates:
  fixes rn rn' :: "'u runner"
  assumes "alike t u rn rn'"
  shows "alike t u (collect_opening rn) (collect_opening rn')" "alike t u (collect_pending rn) (collect_pending rn')"
    "alike t u (collect_logs rn) (collect_logs rn')" "alike t u (drop_orders rn) (drop_orders rn')"
    "alike t u (remove_cancelled rn) (remove_cancelled rn')" "alike t u (sync_statuses rn) (sync_statuses rn')"
    "alike t u (rn\<lparr>rn_opening := os\<rparr>) (rn'\<lparr>rn_opening := os\<rparr>)"
    "alike t u (rn\<lparr>rn_broker := b, rn_pending := os\<rparr>) (rn'\<lparr>rn_broker := b, rn_pending := os\<rparr>)"
    "alike t u (rn\<lparr>rn_broker := b, rn_context := cx\<rparr>) (rn'\<lparr>rn_broker := b, rn_context := cx\<rparr>)"
    "alike t u (rn\<lparr>rn_context := cx, rn_user := w\<rparr>) (rn'\<lparr>rn_context := cx, rn_user := w\<rparr>)"
    "alike t u (rn\<lparr>rn_broker := b\<rparr>) (rn'\<lparr>rn_broker := b\<rparr>)"
    "alike t u (end_bar u rn) (end_bar u rn')"
proof -
  from assms obtain q where q: "rn' = rn\<lparr>rn_portal := q\<rparr>" and f: "same_feed u (portal_feed (rn_portal rn)) (portal_feed q)"
    and K: "\<And>m m' :: 'u runner. m' = m\<lparr>rn_portal := q\<rparr> \<Longrightarrow> rn_portal m = rn_portal rn \<Longrightarrow> alike t u m m'"
    by (rule alikeE) blast
  show "alike t u (collect_opening rn) (collect_opening rn')"
    by (rule K; cases rn; simp add: q collect_opening_def flush_orders_def)
  show "alike t u (collect_pending rn) (collect_pending rn')"
    by (rule K; cases rn; simp add: q collect_pending_def flush_orders_def)
  show "alike t u (collect_logs rn) (collect_logs rn')"
    by (rule K; cases rn; simp add: q collect_logs_def flush_logs_def)
  show "alike t u (drop_orders rn) (drop_orders rn')"
    by (rule K; cases rn; simp add: q drop_orders_def flush_orders_def)
  show "alike t u (remove_cancelled rn) (remove_cancelled rn')"
    by (rule K; cases rn; simp add: q remove_cancelled_def flush_cancelled_def)
  show "alike t u (sync_statuses rn) (sync_statuses rn')"
    by (rule K; cases rn; simp add: q sync_statuses_def Let_def split: prod.splits)
  show "alike t u (end_bar u rn) (end_bar u rn')"
    by (rule K; cases rn; use record_feed[OF f] in \<open>simp add: q end_bar_def\<close>)
  show "alike t u (rn\<lparr>rn_opening := os\<rparr>) (rn'\<lparr>rn_opening := os\<rparr>)"
    by (rule K; cases rn; simp add: q)
  show "alike t u (rn\<lparr>rn_broker := b, rn_pending := os\<rparr>) (rn'\<lparr>rn_broker := b, rn_pending := os\<rparr>)"
    by (rule K; cases rn; simp add: q)
  show "alike t u (rn\<lparr>rn_broker := b, rn_context := cx\<rparr>) (rn'\<lparr>rn_broker := b, rn_context := cx\<rparr>)"
    by (rule K; cases rn; simp add: q)
  show "alike t u (rn\<lparr>rn_context := cx, rn_user := w\<rparr>) (rn'\<lparr>rn_context := cx, rn_user := w\<rparr>)"
    by (rule K; cases rn; simp add: q)
  show "alike t u (rn\<lparr>rn_broker := b\<rparr>) (rn'\<lparr>rn_broker := b\<rparr>)"
    by (rule K; cases rn; simp add: q)
qed

lemma invoke_alike:
  assumes "alike t u rn rn'"
  shows "same_result t u (invoke h rn) (invoke h rn')"
proof -
  from assms obtain q where q: "rn' = rn\<lparr>rn_portal := q\<rparr>" "visible_frame (rn_portal rn) = visible_frame q"
    by (rule alikeE) blast
  show ?thesis
  proof (cases h)
    case (Some f)
    show ?thesis
      by (cases "f (visible_frame q) (portfolio_state.truncate (rn_broker rn)) (rn_context rn, rn_user rn)")
        (use alike_updates(10)[OF assms] in \<open>auto simp: invoke_def Some q\<close>)
  qed (simp add: invoke_def assms)
qed

lemma call_alike: "alike t u rn rn' \<Longrightarrow> same_result t u (call h rn) (call h rn')"
  unfolding call_def by (rule ebind_same[OF invoke_alike]) (auto intro: alike_updates)

lemma fill_pending_alike:
  assumes "alike t u rn rn'"
  shows "same_result t u (fill_pending u rn) (fill_pending u rn')"
proof -
  from assms obtain q where q: "rn' = rn\<lparr>rn_portal := q\<rparr>" "same_feed u (portal_feed (rn_portal rn)) (portal_feed q)"
    by (rule alikeE) blast
  show ?thesis
    by (cases "execute (portal_feed q) u [] (rn_pending rn) (rn_broker rn)")
      (use assms alike_updates(6)[OF alike_updates(8)[OF assms]] in
        \<open>auto simp: fill_pending_def q(1) execute_feed[OF q(2)]\<close>)
qed

lemma fill_opening_alike:
  assumes "alike t u rn rn'"
  shows "same_result t u (fill_opening u rn) (fill_opening u rn')"
proof -
  from assms obtain q where q: "rn' = rn\<lparr>rn_portal := q\<rparr>" "same_feed u (portal_feed (rn_portal rn)) (portal_feed q)"
    by (rule alikeE) blast
  show ?thesis
    by (cases "execute (portal_feed q) u [] (rn_opening rn) (rn_broker rn)")
      (use assms alike_updates(6)[OF alike_updates(8)[OF assms]] in
        \<open>auto simp: fill_opening_def q(1) execute_feed[OF q(2)]\<close>)
qed

lemma run_protections_alike:
  assumes "alike t u rn rn'"
  shows "same_result t u (run_protections u rn) (run_protections u rn')"
proof -
  from assms obtain q where q: "rn' = rn\<lparr>rn_portal := q\<rparr>" "same_feed u (portal_feed (rn_portal rn)) (portal_feed q)"
    by (rule alikeE) blast
  show ?thesis
    by (cases "process_protections (portal_feed q) u (rn_broker rn)")
      (use alike_updates(9)[OF assms] in \<open>auto simp: run_protections_def q(1) protections_feed[OF q(2)]\<close>)
qed

lemma run_schedule_alike:
  assumes "alike t u rn rn'"
  shows "same_result t u (run_schedule prog u sc rn) (run_schedule prog u sc rn')"
proof -
  have "rn_previous rn' = rn_previous rn" using assms by (auto simp: alike_def)
  then show ?thesis using assms unfolding run_schedule_def
    by (auto intro!: ebind_same[OF call_alike] alike_updates)
qed

lemma run_schedules_alike:
  "alike t u rn rn' \<Longrightarrow> same_result t u (efold (run_schedule prog u) scs rn) (efold (run_schedule prog u) scs rn')"
  by (induction scs arbitrary: rn rn') (auto intro: ebind_same[OF run_schedule_alike])

lemma opening_handlers_alike:
  "alike t u rn rn' \<Longrightarrow>
   same_result t u (run_opening_handlers prog u rn) (run_opening_handlers prog u rn')"
  unfolding run_opening_handlers_def
  by (auto intro!: ebind_same[OF call_alike] ebind_same[OF run_schedules_alike] alike_updates)

lemma close_bar_alike:
  assumes "alike t u rn rn'"
  shows "same_result t u (close_bar prog u rn) (close_bar prog u rn')"
proof -
  from assms obtain q where q: "rn' = rn\<lparr>rn_portal := q\<rparr>" "same_feed u (portal_feed (rn_portal rn)) (portal_feed q)"
    by (rule alikeE) blast
  have e: "liquidate_if_insolvent (runner_feed rn') u (rn_broker rn') =
      liquidate_if_insolvent (runner_feed rn) u (rn_broker rn)"
    by (simp add: q(1) liquidate_feed[OF q(2)])
  show ?thesis unfolding close_bar_def e Let_def
    by (cases "liquidate_if_insolvent (runner_feed rn) u (rn_broker rn)")
      (auto intro!: ebind_same[OF call_alike] alike_updates assms split: prod.splits)
qed

text \<open>Setting the clock to an instant before \<open>t\<close> makes the two portals agree there.\<close>

lemma alike_kin: "alike t u rn rn' \<Longrightarrow> kin t rn rn'"
  by (auto simp: alike_def kin_def)

lemma at_clock_alike:
  assumes "kin t rn rn'" "u < t"
  shows "alike t u (at_clock u i rn) (at_clock u i rn')"
proof -
  from assms obtain q where q: "rn' = rn\<lparr>rn_portal := q\<rparr>" "portal_wf (rn_portal rn)" "portal_wf q"
    "same_past t (rn_portal rn) q" by (auto simp: kin_def)
  show ?thesis unfolding alike_def
    using visible_frame_same[OF q(2-4) assms(2)] portal_feed_same[OF q(2-4) assms(2)] q
    by (intro exI[of _ "set_clock u i q"]) (simp add: at_clock_def same_past_clock)
qed

lemma start_bar_kin: "kin t rn rn' \<Longrightarrow> kin t (start_bar u rn) (start_bar u rn')"
  by (cases rn) (auto simp: kin_def start_bar_def)

lemma run_bar_alike:
  assumes "kin t rn rn'" "u < t"
  shows "same_result t u (run_bar prog u rn) (run_bar prog u rn')"
proof -
  note s = start_bar_kin[OF assms(1), of u]
  have b: "rn_broker (start_bar u rn') = rn_broker (start_bar u rn)"
    using s by (auto simp: kin_def)
  show ?thesis unfolding run_bar_def Let_def b
    by (auto intro!: ebind_same[OF fill_pending_alike] ebind_same[OF run_protections_alike]
        ebind_same[OF opening_handlers_alike] ebind_same[OF fill_opening_alike] close_bar_alike
        alike_updates at_clock_alike[OF _ assms(2)] s intro: alike_kin)
qed

lemma run_bars_alike:
  "kin t rn rn' \<Longrightarrow> \<forall>u \<in> set us. u < t \<Longrightarrow>
   rel_sum (=) (kin t) (efold (run_bar prog) us rn) (efold (run_bar prog) us rn')"
proof (induction us arbitrary: rn rn')
  case (Cons u us)
  show ?case unfolding efold.simps
    by (rule ebind_same[OF run_bar_alike[OF Cons.prems(1)]]) (use Cons in \<open>auto intro: alike_kin\<close>)
qed simp

lemma clock_before:
  assumes "same_past t p q" "stop < t"
  shows "filter (in_range start (Some stop)) (timestamps p) = filter (in_range start (Some stop)) (timestamps q)"
proof -
  have "filter (in_range start (Some stop)) (timestamps r) =
      filter (in_range start (Some stop)) (filter (\<lambda>u. u < t) (timestamps r))" for r
    using assms(2) by (auto simp: in_range_def intro!: filter_cong)
  then show ?thesis using assms(1) by (simp only: timestamps_before same_past_def)
qed

lemma kin_outcome: "rel_sum (=) (kin t) m m' \<Longrightarrow> map_sum id outcome m = map_sum id outcome m'"
  by (auto elim!: rel_sum.cases simp: kin_def outcome_def)

text \<open>
  C2: no hindsight. A backtest that stops before an instant depends only on the rows before that
  instant: in two markets with the same past it raises the same error or ends with the same
  broker (positions, cash, executions, ledger, equity curve), the same context, the same strategy
  state, pending orders and logs, whatever the strategy computes from what it is shown.
\<close>

theorem backtest_ignores_future:
  assumes "portal_wf p" "portal_wf q" "same_past t p q" "stop < t"
  shows "map_sum id outcome (run prog start (Some stop) (new_runner p capital lev comm slip u)) =
    map_sum id outcome (run prog start (Some stop) (new_runner q capital lev comm slip u))"
proof -
  let ?r = "\<lambda>p. new_runner p capital lev comm slip u"
  let ?us = "filter (in_range start (Some stop)) (timestamps p)"
  have "\<forall>u \<in> set ?us. u < t" using assms(4) by (auto simp: in_range_def)
  moreover have "kin t (?r p) (?r q)" using assms by (simp add: kin_def new_runner_def)
  ultimately have "rel_sum (=) (kin t) (efold (run_bar prog) ?us (?r p)) (efold (run_bar prog) ?us (?r q))"
    by (intro run_bars_alike)
  note same = kin_outcome[OF this]
  have "map_sum id outcome (run prog start (Some stop) (?r r)) = (if ?us = []
      then map_sum id outcome (contract_error ''strategyV2.backtestRangeEmpty'' :: runtime_error + 'a runner)
      else map_sum id outcome (efold (run_bar prog) ?us (?r r)))" if "r \<in> {p, q}" for r
    using that clock_before[OF assms(3,4), of start] by (auto simp: run_def Let_def new_runner_def)
  then show ?thesis using same by simp
qed

text \<open>The two demo markets differ from the second bar on only.\<close>

theorem backtest_ignores_future_witness:
  "same_past 2 (demo_portal 11) (demo_portal 99) \<and>
   map_sum id outcome (run demo_program None (Some 1) (demo_runner 11)) =
   map_sum id outcome (run demo_program None (Some 1) (demo_runner 99))"
proof -
  have w: "portal_wf (demo_portal c)" for c
    by (simp add: portal_wf_def demo_portal_def frame_wf_def)
  have s: "same_past 2 (demo_portal 11) (demo_portal 99)"
    by (simp add: same_past_def demo_portal_def past_def)
  from backtest_ignores_future[OF w w s, of 1] s show ?thesis by (simp add: demo_runner_def)
qed

end
