(* ===== verification/Live.thy ===== *)
theory Live
  imports Runner
begin

text \<open>
  The live session (\<open>StrategyV2LiveSession\<close> in \<open>strategy_v2/runtime.py\<close>): one bar event at a time
  over a fresh portal, the positions synchronised from the account, the protections evaluated on
  every price tick, and the snapshot that survives a restart. Instants are UTC; the schedule
  clock arrives converted. Strategy handlers are parameters as in the backtest.
\<close>

subsection \<open>State\<close>

record live_session = portfolio_state +
  lv_context :: runtime_context
  lv_portal :: portal
  lv_aliases :: "string dict"
  lv_last :: "instant option"
  lv_last_check :: "instant option"
  lv_specs :: "protection_spec dict"
  lv_states :: "protection_state dict"
  lv_exiting :: "string list"

definition new_session :: "portal \<Rightarrow> string dict \<Rightarrow> real \<Rightarrow> live_session" where
  "new_session p aliases capital =
     \<lparr>starting_cash = capital, available_cash = capital, positions = [], total_value = capital,
      lv_context = new_context, lv_portal = p, lv_aliases = aliases, lv_last = None, lv_last_check = None,
      lv_specs = [], lv_states = [], lv_exiting = []\<rparr>"

definition live_resolve :: "live_session \<Rightarrow> string \<Rightarrow> string option" where
  "live_resolve lv = resolve_key (lv_aliases lv) (lv_portal lv)"

subsection \<open>Bar events\<close>

text \<open>The exit keys are a set: adding keeps one copy of each.\<close>

definition capture_intent :: "order_intent \<Rightarrow> live_session \<Rightarrow> live_session" where
  "capture_intent o' lv =
     (let k = order_key o';
          lv = (case o_protection o' of None \<Rightarrow> lv | Some sp \<Rightarrow> lv\<lparr>lv_specs := dict_set k sp (lv_specs lv)\<rparr>)
      in if is_target (o_kind o') \<and> \<bar>o_value o'\<bar> \<le> eps12
         then lv\<lparr>lv_exiting := List.insert k (lv_exiting lv)\<rparr> else lv)"

definition capture_intents :: "order_intent list \<Rightarrow> live_session \<Rightarrow> live_session" where
  "capture_intents os lv = fold capture_intent os lv"

type_synonym 'u session = "live_session \<times> 'u"

definition live_call :: "'u handler option \<Rightarrow> 'u session \<Rightarrow> runtime_error + 'u session" where
  "live_call h s =
     (case h of
        None \<Rightarrow> Inr s
      | Some f \<Rightarrow> (let (lv, u) = s in
          ebind (f (visible_frame (lv_portal lv)) (portfolio_state.truncate lv) (lv_context lv, u))
            (\<lambda>(cx, u'). Inr (lv\<lparr>lv_context := cx\<rparr>, u'))))"

definition set_now :: "instant \<Rightarrow> 'u session \<Rightarrow> 'u session" where
  "set_now t s = (let (lv, u) = s in (lv\<lparr>lv_context := (lv_context lv)\<lparr>cx_now := Some t\<rparr>\<rparr>, u))"

text \<open>The orders and logs an event hands to the caller.\<close>

definition drain :: "'u session \<Rightarrow> 'u session \<times> order_intent list \<times> string list" where
  "drain s =
     (let (lv, u) = s;
          (cx, os) = flush_orders (lv_context lv);
          lv = capture_intents os (lv\<lparr>lv_context := cx\<rparr>);
          (cx, ls) = flush_logs (lv_context lv)
      in ((lv\<lparr>lv_context := cx\<rparr>, u), os, ls))"

definition bar_advanced :: "live_session \<Rightarrow> instant \<Rightarrow> bool" where
  "bar_advanced lv t \<longleftrightarrow> (case lv_last lv of None \<Rightarrow> True | Some l \<Rightarrow> l < t)"

definition new_day :: "live_session \<Rightarrow> instant \<Rightarrow> bool" where
  "new_day lv t \<longleftrightarrow> (case lv_last lv of None \<Rightarrow> True | Some l \<Rightarrow> day_of t \<noteq> day_of l)"

definition run_live_schedule :: "'u program \<Rightarrow> instant \<Rightarrow> instant \<Rightarrow> schedule \<Rightarrow> 'u session \<Rightarrow>
    runtime_error + 'u session" where
  "run_live_schedule prog clock previous sc s =
     (if schedule_due sc clock (Some previous) ''1m'' then live_call (pr_callback prog (sc_callback sc)) s
      else Inr s)"

definition run_live_schedules :: "'u program \<Rightarrow> instant \<Rightarrow> 'u session \<Rightarrow> runtime_error + 'u session" where
  "run_live_schedules prog clock s =
     (case lv_last_check (fst s) of
        None \<Rightarrow> Inr s
      | Some previous \<Rightarrow>
          if previous < clock
          then efold (run_live_schedule prog clock previous) (pr_schedules prog) (set_now clock s)
          else Inr s)"

definition live_bar :: "'u program \<Rightarrow> instant \<Rightarrow> 'u session \<Rightarrow> runtime_error + 'u session" where
  "live_bar prog t s =
     ebind (if pr_portfolio prog \<and> pr_schedules prog = [] then live_call (pr_rebalance prog) (set_now t s)
            else Inr (set_now t s)) (live_call (pr_handle prog))"

text \<open>The stages of an event: the new portal and the first bar of a day, then the bar, then the hand-over.\<close>

definition open_event :: "'u program \<Rightarrow> portal \<Rightarrow> string dict \<Rightarrow> instant \<Rightarrow> 'u session \<Rightarrow> runtime_error + 'u session" where
  "open_event prog p aliases t s =
     (let (lv, u) = s; s' = (lv\<lparr>lv_portal := set_clock t True p, lv_aliases := aliases\<rparr>, u)
      in if bar_advanced lv t \<and> new_day lv t then live_call (pr_before prog) (set_now t s') else Inr s')"

definition check_at :: "instant \<Rightarrow> 'u session \<Rightarrow> 'u session" where
  "check_at clock s = apfst (\<lambda>lv. lv\<lparr>lv_last_check := Some clock\<rparr>) s"

definition bar_event :: "'u program \<Rightarrow> bool \<Rightarrow> instant \<Rightarrow> 'u session \<Rightarrow> runtime_error + 'u session" where
  "bar_event prog advanced t s = (if advanced then live_bar prog t s else Inr s)"

definition finish_event :: "bool \<Rightarrow> instant \<Rightarrow> 'u session \<Rightarrow> 'u session \<times> order_intent list \<times> string list \<times> instant" where
  "finish_event advanced t s =
     (let ((lv, u), os, ls) = drain s
      in ((if advanced then lv\<lparr>lv_last := Some t\<rparr> else lv, u), os, ls, t))"

definition process :: "'u program \<Rightarrow> portal \<Rightarrow> string dict \<Rightarrow> instant \<Rightarrow> 'u session \<Rightarrow>
    runtime_error + ('u session \<times> order_intent list \<times> string list \<times> instant)" where
  "process prog p aliases clock s0 =
     (if timestamps p = [] then contract_error ''strategyV2.noMarketData''
      else let t = last (timestamps p); advanced = bar_advanced (fst s0) t in
        ebind (open_event prog p aliases t s0) (\<lambda>s.
        ebind (run_live_schedules prog clock s) (\<lambda>s.
        ebind (bar_event prog advanced t (check_at clock s)) (\<lambda>s.
        Inr (finish_event advanced t s)))))"

subsection \<open>Account synchronisation\<close>

record raw_position =
  rp_amount :: real
  rp_side :: string
  rp_position_side :: string
  rp_avg_cost :: real
  rp_last_price :: real

text \<open>\<open>rpartition("::")\<close>: the text before and after the last double colon.\<close>

fun colon_split :: "string \<Rightarrow> (string \<times> string) option" where
  "colon_split (c # d # s) =
     (if c = CHR '':'' \<and> d = CHR '':'' then Some ([], s)
      else map_option (\<lambda>(a, b). (c # a, b)) (colon_split (d # s)))"
| "colon_split _ = None"

definition rpartition_colons :: "string \<Rightarrow> (string \<times> string) option" where
  "rpartition_colons s = map_option (\<lambda>(a, b). (rev b, rev a)) (colon_split (rev s))"

definition source_leg :: "string \<Rightarrow> string \<times> string" where
  "source_leg key =
     (case rpartition_colons key of
        None \<Rightarrow> (key, '''')
      | Some (symbol, suffix) \<Rightarrow>
          (let side = normalize_position_side suffix in if side \<noteq> [] then (symbol, side) else (key, '''')))"

definition synced_position :: "(string \<Rightarrow> string option) \<Rightarrow> string \<Rightarrow> raw_position \<Rightarrow> string \<times> position" where
  "synced_position resolve key raw =
     (let (source, suffix_side) = source_leg key;
          symbol = (case resolve source of Some k \<Rightarrow> k | None \<Rightarrow> source);
          side = py_lower (py_strip (if rp_side raw = [] then ''long'' else rp_side raw));
          amt = (if side = ''short'' \<and> rp_amount raw > 0 then - rp_amount raw else rp_amount raw);
          leg = (if suffix_side \<noteq> [] then suffix_side else normalize_position_side (rp_position_side raw))
      in (position_key symbol leg,
          \<lparr>pos_symbol = symbol, amount = amt, avg_cost = rp_avg_cost raw, last_price = rp_last_price raw,
           pos_side = leg\<rparr>))"

definition synced_positions :: "(string \<Rightarrow> string option) \<Rightarrow> (string \<times> raw_position) list \<Rightarrow> position dict" where
  "synced_positions resolve raws =
     foldl (\<lambda>d (key, raw). case synced_position resolve key raw of (k, p) \<Rightarrow> dict_set k p d) [] raws"

text \<open>The protection of one synchronised position: opened, rebased on a new average, or kept.\<close>

definition sync_state :: "instant \<Rightarrow> string \<times> position \<Rightarrow> live_session \<Rightarrow> live_session" where
  "sync_state now kp lv =
     (let (k, p) = kp; now_cx = cx_now (lv_context lv) in
      case map_of (lv_specs lv) k of
        None \<Rightarrow> lv
      | Some spec \<Rightarrow>
          if \<bar>amount p\<bar> \<le> eps12 \<or> avg_cost p \<le> 0 then lv
          else let side = side_name (amount p) in
            (case map_of (lv_states lv) k of
               None \<Rightarrow> lv\<lparr>lv_states := dict_set k (open_state k side (avg_cost p) spec
                         (case now_cx of Some t \<Rightarrow> t | None \<Rightarrow> now)) (lv_states lv)\<rparr>
             | Some st \<Rightarrow>
                 if ps_side st \<noteq> side then
                   lv\<lparr>lv_states := dict_set k (open_state k side (avg_cost p) spec
                         (case now_cx of Some t \<Rightarrow> t | None \<Rightarrow> now)) (lv_states lv)\<rparr>
                 else if \<bar>avg_cost p - ps_entry st\<bar> > max eps12 (\<bar>ps_entry st\<bar> * eps10) then
                   lv\<lparr>lv_states := dict_set k (apply_scale_in (avg_cost p) (py_or (last_price p) (avg_cost p))
                         (Some spec) now_cx st) (lv_states lv)\<rparr>
                 else lv))"

definition drop_exited :: "string \<Rightarrow> live_session \<Rightarrow> live_session" where
  "drop_exited k lv =
     lv\<lparr>lv_exiting := filter (\<lambda>j. j \<noteq> k) (lv_exiting lv), lv_specs := dict_pop k (lv_specs lv),
        lv_states := dict_pop k (lv_states lv)\<rparr>"

definition synchronize_positions :: "instant \<Rightarrow> (string \<times> raw_position) list \<Rightarrow> real option \<Rightarrow> real option \<Rightarrow>
    live_session \<Rightarrow> live_session" where
  "synchronize_positions now raws cash equity lv0 =
     (let synced = synced_positions (live_resolve lv0) raws;
          lv = fold (sync_state now) synced (lv0\<lparr>positions := synced\<rparr>);
          lv = fold drop_exited (filter (\<lambda>k. k \<notin> fst ` set synced) (lv_exiting lv)) lv;
          lv = (case cash of None \<Rightarrow> lv | Some c \<Rightarrow> lv\<lparr>available_cash := c\<rparr>)
      in case equity of None \<Rightarrow> lv | Some v \<Rightarrow> lv\<lparr>total_value := v\<rparr>)"

subsection \<open>Protection exits on a price tick\<close>

definition tick_price :: "real dict \<Rightarrow> string \<Rightarrow> position \<Rightarrow> real option" where
  "tick_price prices k p =
     (case map_of prices (pos_symbol p) of Some x \<Rightarrow> Some x | None \<Rightarrow> map_of prices k)"

definition protective_exit :: "position \<Rightarrow> decision \<Rightarrow> order_intent" where
  "protective_exit p d = plain_intent (pos_symbol p) TargetQuantity 0 (reason_name (d_reason d)) None (pos_side p)"

definition evaluate_key :: "real dict \<Rightarrow> instant \<Rightarrow> string \<times> protection_state \<Rightarrow>
    live_session \<times> (string \<times> order_intent) list \<Rightarrow> live_session \<times> (string \<times> order_intent) list" where
  "evaluate_key prices t ks acc =
     (let (k, st) = ks; (lv, exits) = acc in
      if k \<in> set (lv_exiting lv) then acc
      else case map_of (positions lv) k of
        None \<Rightarrow> acc
      | Some p \<Rightarrow>
          if \<bar>amount p\<bar> \<le> eps12 then acc
          else case tick_price prices k p of
            None \<Rightarrow> acc
          | Some x \<Rightarrow>
              (let (st', d) = evaluate_price Conservative st t (Some x);
                   lv = lv\<lparr>lv_states := dict_set k st' (lv_states lv)\<rparr>
               in case d of
                    None \<Rightarrow> (lv, exits)
                  | Some d \<Rightarrow>
                      (lv\<lparr>lv_context := set_last_exit_reason (pos_symbol p) (reason_name (d_reason d))
                            (set_last_exit_reason k (reason_name (d_reason d)) (lv_context lv)),
                          lv_exiting := List.insert k (lv_exiting lv)\<rparr>,
                       exits @ [(k, protective_exit p d)])))"

text \<open>The exits, each with the key it closes (the code returns the orders).\<close>

definition evaluate_keys :: "real dict \<Rightarrow> instant \<Rightarrow> live_session \<Rightarrow> live_session \<times> (string \<times> order_intent) list" where
  "evaluate_keys prices t lv = fold (evaluate_key prices t) (lv_states lv) (lv, [])"

definition evaluate_protections :: "real dict \<Rightarrow> instant \<Rightarrow> live_session \<Rightarrow> live_session \<times> order_intent list" where
  "evaluate_protections prices t lv = apsnd (map snd) (evaluate_keys prices t lv)"

definition release_protection_exit :: "string \<Rightarrow> string \<Rightarrow> live_session \<Rightarrow> live_session" where
  "release_protection_exit symbol side lv =
     lv\<lparr>lv_exiting := filter (\<lambda>j. j \<noteq> position_key symbol side) (lv_exiting lv)\<rparr>"

subsection \<open>Optional hooks\<close>

definition evaluate_equity_risk :: "'u handler option \<Rightarrow> ('u \<Rightarrow> string) \<Rightarrow> instant \<Rightarrow> 'u session \<Rightarrow>
    runtime_error + ('u session \<times> order_intent list \<times> string list \<times> string)" where
  "evaluate_equity_risk hook stop_reason t s =
     (case hook of
        None \<Rightarrow> Inr (s, [], [], [])
      | Some h \<Rightarrow> ebind (live_call (Some h) (set_now t s)) (\<lambda>s.
          let (s, os, ls) = drain s; reason = py_strip (stop_reason (snd s))
          in Inr (s, os, ls, if reason = [] \<and> os \<noteq> [] then py_strip (o_reason (hd os)) else reason)))"

definition tick_prices :: "(string \<Rightarrow> string option) \<Rightarrow> (string \<times> real option) list \<Rightarrow> real dict" where
  "tick_prices resolve prices =
     foldl (\<lambda>d (raw, price). case (resolve raw, price) of
        (Some k, Some x) \<Rightarrow> if x > 0 then dict_set k x d else d | _ \<Rightarrow> d) [] prices"

definition evaluate_price_tick :: "(real dict \<Rightarrow> 'u handler) option \<Rightarrow> (string \<times> real option) list \<Rightarrow> instant \<Rightarrow>
    'u session \<Rightarrow> runtime_error + ('u session \<times> order_intent list \<times> string list)" where
  "evaluate_price_tick hook prices t s =
     (case hook of
        None \<Rightarrow> Inr (s, [], [])
      | Some h \<Rightarrow>
          (let norm = tick_prices (live_resolve (fst s)) prices in
           if norm = [] then Inr (s, [], [])
           else ebind (live_call (Some (h norm)) (set_now t s)) (\<lambda>s. Inr (drain s))))"

subsection \<open>Snapshots\<close>

text \<open>
  The strategy's own attributes, as far as a snapshot can hold them. The text of an instant and
  its reading (pandas' \<open>isoformat\<close> and \<open>Timestamp\<close>) are parameters; the session's own two instants
  are kept as they are.
\<close>

datatype state_value = Atom pyval | Moment instant | Items "state_value list" | Table "(string \<times> state_value) list"

definition type_tag :: string where "type_tag = ''__strategy_v2_type__''"

fun snapshot_value :: "(instant \<Rightarrow> string) \<Rightarrow> state_value \<Rightarrow> state_value" where
  "snapshot_value fmt (Moment t) =
     Table [(type_tag, Atom (PStr ''timestamp'')), (''value'', Atom (PStr (fmt t)))]"
| "snapshot_value fmt (Table d) = Table (map (\<lambda>(k, v). (k, snapshot_value fmt v)) d)"
| "snapshot_value fmt (Items vs) = Items (map (snapshot_value fmt) vs)"
| "snapshot_value fmt (Atom a) = Atom a"

fun restore_value :: "(state_value option \<Rightarrow> state_value) \<Rightarrow> state_value \<Rightarrow> state_value" where
  "restore_value parse (Table d) =
     (if map_of d type_tag = Some (Atom (PStr ''timestamp'')) then parse (map_of d ''value'')
      else Table (map (\<lambda>(k, v). (k, restore_value parse v)) d))"
| "restore_value parse (Items vs) = Items (map (restore_value parse) vs)"
| "restore_value parse v = v"

record protection_snapshot =
  sp_specs :: "(string \<times> raw_map \<times> pyval) list"
  sp_states :: "(string \<times> state_metadata) list"
  sp_exiting :: "string list"

record session_snapshot =
  sn_protection :: "protection_snapshot option"
  sn_state :: "(string \<times> state_value) list option"
  sn_last :: "instant option"
  sn_check :: "instant option"
  sn_statuses :: "order_summary dict"
  sn_reasons :: "string dict"

definition take_protection_snapshot :: "live_session \<Rightarrow> protection_snapshot" where
  "take_protection_snapshot lv =
     \<lparr>sp_specs = map (\<lambda>(k, s). (k, spec_metadata s, PBool (trailing_rebase_on_scale_in s))) (lv_specs lv),
      sp_states = map (\<lambda>(k, s). (k, state_metadata_of s)) (lv_states lv), sp_exiting = sort (lv_exiting lv)\<rparr>"

definition dict_of :: "(string \<times> 'v) list \<Rightarrow> 'v dict" where
  "dict_of kvs = foldl (\<lambda>d (k, v). dict_set k v d) [] kvs"

definition restore_protection_snapshot :: "instant \<Rightarrow> protection_snapshot \<Rightarrow> live_session \<Rightarrow> live_session" where
  "restore_protection_snapshot now sp lv =
     lv\<lparr>lv_specs := dict_of (List.map_filter (\<lambda>(k, m, rb). map_option (Pair k) (spec_from_value m [] None rb)) (sp_specs sp)),
        lv_states := dict_of (List.map_filter (\<lambda>(k, m). map_option (Pair k) (state_from_metadata now m)) (sp_states sp)),
        lv_exiting := remdups (sp_exiting sp)\<rparr>"

definition take_session_snapshot :: "bool \<Rightarrow> (instant \<Rightarrow> string) \<Rightarrow> live_session \<Rightarrow> state_value dict \<Rightarrow> session_snapshot" where
  "take_session_snapshot persist fmt lv vars =
     (if persist then
        \<lparr>sn_protection = Some (take_protection_snapshot lv),
         sn_state = Some (map (\<lambda>(k, v). (k, snapshot_value fmt v)) vars),
         sn_last = lv_last lv, sn_check = lv_last_check lv,
         sn_statuses = cx_statuses (lv_context lv), sn_reasons = cx_exit_reasons (lv_context lv)\<rparr>
      else \<lparr>sn_protection = Some (take_protection_snapshot lv), sn_state = None, sn_last = None,
            sn_check = None, sn_statuses = [], sn_reasons = []\<rparr>)"

definition restore_session_snapshot :: "bool \<Rightarrow> (state_value option \<Rightarrow> state_value) \<Rightarrow> instant \<Rightarrow> session_snapshot \<Rightarrow>
    live_session \<times> state_value dict \<Rightarrow> live_session \<times> state_value dict" where
  "restore_session_snapshot persist parse now sn s =
     (let (lv, vars) = s;
          lv = (case sn_protection sn of None \<Rightarrow> lv | Some sp \<Rightarrow> restore_protection_snapshot now sp lv)
      in if \<not> persist then (lv, vars)
         else (lv\<lparr>lv_context := (update_order_statuses (sn_statuses sn) (lv_context lv))
                    \<lparr>cx_exit_reasons := dict_of (sn_reasons sn)\<rparr>,
                  lv_last := (case sn_last sn of None \<Rightarrow> lv_last lv | Some t \<Rightarrow> Some t),
                  lv_last_check := (case sn_check sn of None \<Rightarrow> lv_last_check lv | Some t \<Rightarrow> Some t)\<rparr>,
               (case sn_state sn of
                  None \<Rightarrow> vars
                | Some st \<Rightarrow> foldl (\<lambda>d (k, v). dict_set k (restore_value parse v) d) vars st)))"

end
