(* ===== verification/LiveLaws.thy ===== *)
theory LiveLaws
  imports Live RunnerLaws
begin

text \<open>
  What the live session guarantees: a protective exit is dispatched once until it is released or
  the position is gone, a bar is handled once, and a snapshot brings back the session it was
  taken from.
\<close>

subsection \<open>One exit in flight per position\<close>

datatype live_op =
    LTick "real dict" instant
  | LSync instant "(string \<times> raw_position) list" "real option" "real option"
  | LRelease string string
  | LCapture "order_intent list"

fun live_step :: "live_op \<Rightarrow> live_session \<Rightarrow> live_session \<times> (string \<times> order_intent) list" where
  "live_step (LTick prices t) lv = evaluate_keys prices t lv"
| "live_step (LSync now raws cash equity) lv = (synchronize_positions now raws cash equity lv, [])"
| "live_step (LRelease symbol side) lv = (release_protection_exit symbol side lv, [])"
| "live_step (LCapture os) lv = (capture_intents os lv, [])"

fun live_run :: "live_op list \<Rightarrow> live_session \<Rightarrow> live_session \<times> (string \<times> order_intent) list" where
  "live_run [] lv = (lv, [])"
| "live_run (e # es) lv =
     (let (lv1, xs) = live_step e lv; (lv2, ys) = live_run es lv1 in (lv2, xs @ ys))"

text \<open>The events that allow a new exit on a key: its release, or an account without the position.\<close>

fun frees :: "(string \<Rightarrow> string option) \<Rightarrow> string \<Rightarrow> live_op \<Rightarrow> bool" where
  "frees resolve k (LSync now raws cash equity) \<longleftrightarrow> k \<notin> fst ` set (synced_positions resolve raws)"
| "frees resolve k (LRelease symbol side) \<longleftrightarrow> position_key symbol side = k"
| "frees resolve k _ \<longleftrightarrow> False"

definition exits_on :: "string \<Rightarrow> (string \<times> order_intent) list \<Rightarrow> nat" where
  "exits_on k xs = length (filter (\<lambda>x. fst x = k) xs)"

lemma exits_on_append [simp]: "exits_on k (xs @ ys) = exits_on k xs + exits_on k ys"
  by (simp add: exits_on_def)

lemma exits_on_simps [simp]: "exits_on k [] = 0" "exits_on k [x] = (if fst x = k then 1 else 0)"
  by (simp_all add: exits_on_def)

definition armed :: "string \<Rightarrow> live_session \<Rightarrow> nat" where
  "armed k lv = (if k \<in> set (lv_exiting lv) then 0 else 1)"

lemma evaluate_key_exits:
  assumes "evaluate_key prices t ks (lv, xs) = (lv', xs')"
  shows "exits_on k xs' + armed k lv' = exits_on k xs + armed k lv" "live_resolve lv' = live_resolve lv"
  using assms
  by (auto simp: evaluate_key_def armed_def live_resolve_def Let_def split: prod.splits if_splits option.splits)

lemma evaluate_keys_exits:
  assumes "evaluate_keys prices t lv = (lv', xs)"
  shows "exits_on k xs + armed k lv' = armed k lv \<and> live_resolve lv' = live_resolve lv"
proof -
  have "exits_on k xs' + armed k lv' = exits_on k xs + armed k lv \<and> live_resolve lv' = live_resolve lv"
    if "fold (evaluate_key prices t) ks (lv, xs) = (lv', xs')" for ks lv xs lv' xs'
    using that
  proof (induction ks arbitrary: lv xs)
    case (Cons ks' ks)
    obtain m ys where m: "evaluate_key prices t ks' (lv, xs) = (m, ys)"
      by (cases "evaluate_key prices t ks' (lv, xs)")
    with Cons.IH[of m ys] Cons.prems evaluate_key_exits(1)[OF m] evaluate_key_exits(2)[OF m] show ?case by simp
  qed simp
  from this[of "lv_states lv" lv "[]" lv' xs] assms show ?thesis by (simp add: evaluate_keys_def)
qed

lemma sync_state_frame:
  "lv_exiting (sync_state now kp lv) = lv_exiting lv" "live_resolve (sync_state now kp lv) = live_resolve lv"
  by (auto simp: sync_state_def live_resolve_def Let_def split: prod.splits option.splits)

lemma fold_frame:
  "(\<And>x s. f (g x s) = f s) \<Longrightarrow> f (fold g xs s) = f s"
  by (induction xs arbitrary: s) auto

lemma drop_exited_fold:
  "lv_exiting (fold drop_exited ks lv) = filter (\<lambda>j. j \<notin> set ks) (lv_exiting lv)"
  "live_resolve (fold drop_exited ks lv) = live_resolve lv"
  by (induction ks arbitrary: lv) (auto simp: drop_exited_def live_resolve_def conj_commute intro!: filter_cong)

lemma sync_frame:
  "set (lv_exiting (synchronize_positions now raws cash equity lv)) =
     set (lv_exiting lv) \<inter> fst ` set (synced_positions (live_resolve lv) raws)"
  "live_resolve (synchronize_positions now raws cash equity lv) = live_resolve lv"
proof -
  let ?s = "synced_positions (live_resolve lv) raws"
  let ?m = "fold (sync_state now) ?s (lv\<lparr>positions := ?s\<rparr>)"
  have "live_resolve (lv\<lparr>positions := ?s\<rparr>) = live_resolve lv" by (simp add: live_resolve_def)
  then have m: "lv_exiting ?m = lv_exiting lv" "live_resolve ?m = live_resolve lv"
    using fold_frame[of lv_exiting "sync_state now"] fold_frame[of live_resolve "sync_state now"]
    by (simp_all add: sync_state_frame)
  show "set (lv_exiting (synchronize_positions now raws cash equity lv)) =
     set (lv_exiting lv) \<inter> fst ` set ?s"
    by (cases cash; cases equity) (auto simp: synchronize_positions_def Let_def drop_exited_fold m)
  show "live_resolve (synchronize_positions now raws cash equity lv) = live_resolve lv"
    using drop_exited_fold(2)[of _ ?m] m(2)
    by (cases cash; cases equity) (simp_all add: synchronize_positions_def Let_def live_resolve_def m)
qed

lemma capture_frame:
  "set (lv_exiting lv) \<subseteq> set (lv_exiting (capture_intents os lv))"
  "live_resolve (capture_intents os lv) = live_resolve lv"
proof -
  have s: "set (lv_exiting lv) \<subseteq> set (lv_exiting (capture_intent o' lv)) \<and>
      live_resolve (capture_intent o' lv) = live_resolve lv" for o' lv
    by (auto simp: capture_intent_def live_resolve_def Let_def split: option.splits)
  have "set (lv_exiting lv) \<subseteq> set (lv_exiting (fold capture_intent os lv)) \<and>
      live_resolve (fold capture_intent os lv) = live_resolve lv"
  proof (induction os arbitrary: lv)
    case (Cons o' os)
    with s[of lv o'] Cons.IH[of "capture_intent o' lv"] show ?case by auto
  qed simp
  then show "set (lv_exiting lv) \<subseteq> set (lv_exiting (capture_intents os lv))"
    "live_resolve (capture_intents os lv) = live_resolve lv" by (simp_all add: capture_intents_def)
qed

lemma live_step_exits:
  assumes "live_step e lv = (lv', xs)" "\<not> frees (live_resolve lv) k e"
  shows "exits_on k xs + armed k lv' \<le> armed k lv \<and> live_resolve lv' = live_resolve lv"
proof (cases e)
  case (LTick prices t)
  then show ?thesis using assms evaluate_keys_exits[of prices t lv lv' xs k] by simp
next
  case (LSync now raws cash equity)
  then show ?thesis using assms sync_frame[of now raws cash equity lv] by (auto simp: armed_def)
next
  case (LRelease symbol side)
  then show ?thesis using assms by (auto simp: armed_def release_protection_exit_def live_resolve_def)
next
  case (LCapture os)
  then show ?thesis using assms capture_frame[where os = os and lv = lv] by (auto simp: armed_def)
qed

lemma live_run_exits:
  "\<forall>e \<in> set es. \<not> frees (live_resolve lv) k e \<Longrightarrow> exits_on k (snd (live_run es lv)) \<le> armed k lv"
proof (induction es arbitrary: lv)
  case (Cons e es)
  obtain m xs where m: "live_step e lv = (m, xs)" by (cases "live_step e lv")
  have "exits_on k xs + armed k m \<le> armed k lv" "live_resolve m = live_resolve lv"
    using live_step_exits[OF m] Cons.prems by auto
  with Cons.IH[of m] Cons.prems show ?case by (auto simp: m split: prod.splits)
qed simp

text \<open>
  a protective close is dispatched once. Over any sequence of price ticks, account
  synchronisations, releases and captured orders, a position key gets at most one protective exit
  as long as its exit is not released and every synchronisation still shows the position; a key
  whose exit is already in flight gets none. (A second queued close could sell inventory the
  strategy does not own.)
\<close>

theorem one_exit_in_flight:
  assumes "\<forall>e \<in> set es. \<not> frees (live_resolve lv) k e"
  shows "exits_on k (snd (live_run es lv)) \<le> 1 \<and>
    (k \<in> set (lv_exiting lv) \<longrightarrow> exits_on k (snd (live_run es lv)) = 0)"
  using live_run_exits[OF assms] by (auto simp: armed_def split: if_splits)

definition demo_live :: live_session where
  "demo_live = (new_session (demo_portal 11) [] 1000)\<lparr>lv_specs := [(''A'', demo_spec)]\<rparr>"

definition demo_account :: "(string \<times> raw_position) list" where
  "demo_account = [(''A'', \<lparr>rp_amount = 5, rp_side = ''long'', rp_position_side = [], rp_avg_cost = 10, rp_last_price = 10\<rparr>)]"

definition demo_live_ops :: "live_op list" where
  "demo_live_ops = [LSync 0 demo_account None None, LTick [(''A'', 13)] 1, LTick [(''A'', 14)] 2,
     LSync 3 demo_account None None, LTick [(''A'', 15)] 4]"

theorem one_exit_in_flight_witness:
  "list_all (\<lambda>e. \<not> frees (live_resolve demo_live) ''A'' e) demo_live_ops \<and>
   exits_on ''A'' (snd (live_run demo_live_ops demo_live)) = 1"
proof -
  have l: "list_all (\<lambda>e. \<not> frees (live_resolve demo_live) ''A'' e) demo_live_ops" by code_simp
  then have f: "\<forall>e \<in> set demo_live_ops. \<not> frees (live_resolve demo_live) ''A'' e" by (simp add: list_all_iff)
  have "exits_on ''A'' (snd (live_run demo_live_ops demo_live)) \<noteq> 0" by code_simp
  with one_exit_in_flight[OF f] l show ?thesis by simp
qed

subsection \<open>Snapshots bring the session back\<close>

lemma update_absent: "k \<notin> fst ` set d \<Longrightarrow> dict_set k v d = d @ [(k, v)]"
  by (induction d) auto

lemma foldl_set_append:
  "dict_wf (d @ map (\<lambda>(k, v). (k, f v)) xs) \<Longrightarrow>
   foldl (\<lambda>d (k, v). dict_set k (f v) d) d xs = d @ map (\<lambda>(k, v). (k, f v)) xs"
proof (induction xs arbitrary: d)
  case (Cons x xs)
  obtain k v where x: "x = (k, v)" by (cases x)
  have "k \<notin> fst ` set d" using Cons.prems by (auto simp: x)
  then show ?case using Cons.IH[of "d @ [(k, f v)]"] Cons.prems by (simp add: x update_absent)
qed simp

lemma dict_of_wf: "dict_wf d \<Longrightarrow> dict_of d = d"
  using foldl_set_append[of "[]" "\<lambda>v. v" d] by (simp add: dict_of_def)

lemma lookup_foldl_set:
  "dict_wf xs \<Longrightarrow> map_of (foldl (\<lambda>d (k, v). dict_set k (f v) d) d xs) k =
     (case map_of xs k of None \<Rightarrow> map_of d k | Some v \<Rightarrow> Some (f v))"
proof (induction xs arbitrary: d)
  case (Cons x xs)
  obtain j v where x: "x = (j, v)" by (cases x)
  have "map_of xs j = None" using Cons.prems by (simp add: x map_of_eq_None_iff)
  then show ?case using Cons.IH[of "dict_set j (f v) d"] Cons.prems
    by (auto simp: x dict_simps split: option.splits)
qed simp

text \<open>The keys of a table may not be the type tag with the value the snapshot gives instants.\<close>

fun storable :: "state_value \<Rightarrow> bool" where
  "storable (Table d) \<longleftrightarrow> map_of d type_tag = None \<and> list_all (\<lambda>(k, v). storable v) d"
| "storable (Items vs) \<longleftrightarrow> list_all storable vs"
| "storable _ \<longleftrightarrow> True"

lemma map_of_map_value: "map_of (map (\<lambda>(k, v). (k, f v)) d) k = map_option f (map_of d k)"
  by (induction d) auto

lemma restore_snapshot_value:
  assumes "\<And>t. parse (Some (Atom (PStr (fmt t)))) = Moment t"
  shows "storable v \<Longrightarrow> restore_value parse (snapshot_value fmt v) = v"
proof (induction v)
  case (Table d)
  then have "map_of (map (\<lambda>(k, v). (k, snapshot_value fmt v)) d) type_tag = None"
    by (simp add: map_of_map_value)
  moreover have "map (\<lambda>(k, v). (k, restore_value parse v)) (map (\<lambda>(k, v). (k, snapshot_value fmt v)) d) = d"
    using Table by (intro map_idI[of d, unfolded o_def] trans[OF map_map])
      (auto simp: list_all_iff intro!: map_idI)
  ultimately show ?case by (simp del: map_map)
next
  case (Items vs)
  then show ?case by (auto simp: list_all_iff intro!: map_idI)
qed (simp_all add: assms type_tag_def)

definition session_wf :: "live_session \<Rightarrow> bool" where
  "session_wf lv \<longleftrightarrow> dict_wf (lv_specs lv) \<and> dict_wf (lv_states lv) \<and> dict_wf (cx_exit_reasons (lv_context lv)) \<and>
     dict_wf (cx_statuses (lv_context lv)) \<and> distinct (lv_exiting lv) \<and>
     (\<forall>(k, sp) \<in> set (lv_specs lv). spec_ok sp \<and> spec_enabled sp) \<and>
     (\<forall>(k, st) \<in> set (lv_states lv). state_wf st) \<and>
     (\<forall>(k, s) \<in> set (cx_statuses (lv_context lv)). k \<noteq> [] \<and> py_strip k = k)"

lemma restored_specs:
  assumes "\<forall>(k, sp) \<in> set ss. spec_ok sp \<and> spec_enabled sp"
  shows "List.map_filter (\<lambda>(k, m, rb). map_option (Pair k) (spec_from_value m [] None rb))
     (map (\<lambda>(k, s). (k, spec_metadata s, PBool (trailing_rebase_on_scale_in s))) ss) = ss"
  using assms by (induction ss) (auto simp: List.map_filter_simps spec_from_metadata)

lemma restored_states:
  assumes "\<forall>(k, st) \<in> set ss. state_wf st"
  shows "List.map_filter (\<lambda>(k, m). map_option (Pair k) (state_from_metadata now m))
     (map (\<lambda>(k, s). (k, state_metadata_of s)) ss) = ss"
  using assms by (induction ss) (auto simp: List.map_filter_simps metadata_inverse)

lemma restored_statuses:
  assumes "dict_wf ss" "\<forall>(k, s) \<in> set ss. k \<noteq> [] \<and> py_strip k = k"
  shows "cx_statuses (update_order_statuses ss new_context) = ss"
proof -
  have "foldl (\<lambda>d (k, s). if py_strip k = [] then d else dict_set (py_strip k) s d) d ss =
      foldl (\<lambda>d (k, s). dict_set k s d) d ss" for d
    using assms(2) by (induction ss arbitrary: d) auto
  then show ?thesis using dict_of_wf[OF assms(1)]
    by (simp add: update_order_statuses_def new_context_def dict_of_def)
qed


text \<open>A text for instants that is easy to read back.\<close>

definition demo_text :: "instant \<Rightarrow> string" where
  "demo_text t = (if 0 \<le> t then replicate (nat t) (CHR ''p'') else replicate (nat (- t)) (CHR ''n''))"

definition demo_parse :: "state_value option \<Rightarrow> state_value" where
  "demo_parse v = (case v of
     Some (Atom (PStr s)) \<Rightarrow> Moment (if s \<noteq> [] \<and> hd s = CHR ''n'' then - int (length s) else int (length s))
   | _ \<Rightarrow> Atom PNone)"

lemma demo_parse_text: "demo_parse (Some (Atom (PStr (demo_text t)))) = Moment t"
  by (auto simp: demo_parse_def demo_text_def)

definition demo_saved :: live_session where
  "demo_saved = fst (live_run demo_live_ops demo_live)"

definition demo_vars :: "state_value dict" where
  "demo_vars = [(''entered'', Moment 2), (''levels'', Items [Atom (PNum 1), Table [(''at'', Moment 1)]])]"


subsection \<open>A bar is handled once\<close>

lemma live_call_frame:
  assumes "live_call h s = Inr s'"
  shows "\<exists>cx. fst s' = (fst s)\<lparr>lv_context := cx\<rparr>"
proof (cases h)
  case None
  then show ?thesis using assms by (intro exI[of _ "lv_context (fst s)"]) (simp add: live_call_def)
qed (use assms in \<open>auto simp: live_call_def split: prod.splits elim!: ebind_InrE\<close>)

lemma live_call_last:
  "live_call h s = Inr s' \<Longrightarrow> lv_last (fst s') = lv_last (fst s) \<and> lv_last_check (fst s') = lv_last_check (fst s)"
  using live_call_frame by fastforce

lemma set_now_last [simp]:
  "lv_last (fst (set_now t s)) = lv_last (fst s)" "lv_last_check (fst (set_now t s)) = lv_last_check (fst s)"
  by (simp_all add: set_now_def split: prod.splits)

lemma live_schedules_last:
  "efold (run_live_schedule prog clock q) scs s = Inr s' \<Longrightarrow> lv_last (fst s') = lv_last (fst s)"
  by (induction scs arbitrary: s)
    (auto simp: run_live_schedule_def split: if_splits elim!: ebind_InrE dest!: live_call_last)

lemma schedules_last:
  assumes "run_live_schedules prog clock s = Inr s'"
  shows "lv_last (fst s') = lv_last (fst s)"
  using assms live_schedules_last[of prog clock _ "pr_schedules prog" "set_now clock s" s']
  by (auto simp: run_live_schedules_def split: option.splits if_splits)

lemma live_bar_last: "live_bar prog t s = Inr s' \<Longrightarrow> lv_last_check (fst s') = lv_last_check (fst s)"
  by (auto simp: live_bar_def split: if_splits elim!: ebind_InrE dest!: live_call_last)

lemma capture_fields [simp]:
  "lv_context (capture_intents os lv) = lv_context lv" "lv_last (capture_intents os lv) = lv_last lv"
  "lv_last_check (capture_intents os lv) = lv_last_check lv" "lv_portal (capture_intents os lv) = lv_portal lv"
proof -
  have "lv_context (capture_intent o' lv) = lv_context lv \<and> lv_last (capture_intent o' lv) = lv_last lv \<and>
      lv_last_check (capture_intent o' lv) = lv_last_check lv \<and> lv_portal (capture_intent o' lv) = lv_portal lv" for o' lv
    by (simp add: capture_intent_def Let_def split: option.splits)
  then show "lv_context (capture_intents os lv) = lv_context lv" "lv_last (capture_intents os lv) = lv_last lv"
    "lv_last_check (capture_intents os lv) = lv_last_check lv" "lv_portal (capture_intents os lv) = lv_portal lv"
    unfolding capture_intents_def by (induction os arbitrary: lv) auto
qed

lemma drain_result:
  assumes "drain s = ((lv, u), os, ls)"
  shows "cx_orders (lv_context lv) = []" "cx_logs (lv_context lv) = []" "u = snd s"
    "lv_last lv = lv_last (fst s)" "lv_last_check lv = lv_last_check (fst s)"
    "os = cx_orders (lv_context (fst s))" "ls = cx_logs (lv_context (fst s))"
  using assms by (auto simp: drain_def flush_orders_def flush_logs_def Let_def split: prod.splits)

lemma process_result:
  assumes "process prog p al clock s = Inr ((lv, u), os, ls, t)"
  shows "t = last (timestamps p)" "\<not> bar_advanced lv t" "cx_orders (lv_context lv) = []"
    "cx_logs (lv_context lv) = []" "lv_last_check lv = Some clock"
proof -
  let ?t = "last (timestamps p)" and ?adv = "bar_advanced (fst s) (last (timestamps p))"
  from assms obtain s1 s2 s3 where s1: "open_event prog p al ?t s = Inr s1"
    and s2: "run_live_schedules prog clock s1 = Inr s2"
    and s3: "bar_event prog ?adv ?t (check_at clock s2) = Inr s3"
    and f: "finish_event ?adv ?t s3 = ((lv, u), os, ls, t)"
    by (auto simp: process_def Let_def contract_error_def split: if_splits elim!: ebind_InrE)
  obtain lv3 u3 os3 ls3 where dd: "drain s3 = ((lv3, u3), os3, ls3)" by (metis surj_pair)
  have eqs: "(if ?adv then lv3\<lparr>lv_last := Some ?t\<rparr> else lv3) = lv" "u3 = u" "os3 = os" "ls3 = ls" "?t = t"
    using f unfolding finish_event_def dd Let_def prod.case prod.inject by blast+
  have d: "drain s3 = ((lv3, u), os, ls)" "lv = (if ?adv then lv3\<lparr>lv_last := Some ?t\<rparr> else lv3)" "t = ?t"
    by (simp only: dd eqs(2-4), rule eqs(1)[symmetric], rule eqs(5)[symmetric])
  have l1: "lv_last (fst s1) = lv_last (fst s)"
    using s1 by (auto simp: open_event_def split_def Let_def split: if_splits dest!: live_call_last)
  have l3: "lv_last_check (fst s3) = Some clock"
    using s3 by (auto simp: bar_event_def check_at_def split: if_splits dest!: live_bar_last)
  note dr = drain_result[OF d(1)]
  show "t = ?t" by (rule d(3))
  show "cx_orders (lv_context lv) = []" "cx_logs (lv_context lv) = []" "lv_last_check lv = Some clock"
    using d(2) dr l3 by (auto split: if_splits)
  show "\<not> bar_advanced lv t"
  proof (cases ?adv)
    case False
    then have "lv_last (fst s3) = lv_last (fst s)"
      using s3 schedules_last[OF s2] l1 by (auto simp: bar_event_def check_at_def)
    then show ?thesis using False d dr(4) by (simp add: bar_advanced_def)
  qed (use d in \<open>simp add: bar_advanced_def\<close>)
qed

text \<open>
  a bar is handled once. After a bar event was processed, polling again with data that ends at
  the same bar or earlier, and with no schedule due in between, calls no handler: it succeeds,
  returns no order and no log, and leaves the strategy's state exactly as it was.
\<close>

theorem bar_handled_once:
  assumes "process prog p al clock s = Inr ((lv, u), os, ls, t)"
    and "timestamps q \<noteq> []" "last (timestamps q) \<le> t"
    and "clock < clock' \<Longrightarrow> \<forall>sc \<in> set (pr_schedules prog). \<not> schedule_due sc clock' (Some clock) ''1m''"
  shows "\<exists>lv'. process prog q al' clock' (lv, u) = Inr ((lv', u), [], [], last (timestamps q)) \<and> lv_last lv' = lv_last lv"
proof -
  note r = process_result[OF assms(1)]
  have na: "\<not> bar_advanced lv (last (timestamps q))"
    using r(2) assms(3) by (auto simp: bar_advanced_def split: option.splits)
  let ?s = "(lv\<lparr>lv_portal := set_clock (last (timestamps q)) True q, lv_aliases := al'\<rparr>, u)"
  have skip: "efold (run_live_schedule prog clock' clock) scs x = Inr x"
    if "\<forall>sc \<in> set scs. \<not> schedule_due sc clock' (Some clock) ''1m''" for scs x
    using that by (induction scs) (simp_all add: run_live_schedule_def)
  obtain s2 where s2: "run_live_schedules prog clock' ?s = Inr s2" "snd s2 = u"
    "cx_orders (lv_context (fst s2)) = []" "cx_logs (lv_context (fst s2)) = []" "lv_last (fst s2) = lv_last lv"
    using r(3-5) assms(4) by (cases "clock < clock'") (auto simp: run_live_schedules_def skip set_now_def)
  obtain lv' u' os' ls' where d: "drain (check_at clock' s2) = ((lv', u'), os', ls')"
    by (metis surj_pair)
  from drain_result[OF d] s2 have dr: "u' = u" "os' = []" "ls' = []" "lv_last lv' = lv_last lv"
    by (auto simp: check_at_def)
  have "open_event prog q al' (last (timestamps q)) (lv, u) = Inr ?s" using na by (simp add: open_event_def)
  then show ?thesis using assms(2) na s2(1) d dr
    by (auto simp: process_def bar_event_def finish_event_def Let_def)
qed

theorem bar_handled_once_witness:
  "\<exists>lv os t lv'. process demo_program (demo_portal 11) [] 5 (new_session (demo_portal 11) [] 1000, ()) =
       Inr ((lv, ()), os, [], t) \<and> length os = 1 \<and>
     process demo_program (demo_portal 11) [] 6 (lv, ()) = Inr ((lv', ()), [], [], 2)"
proof -
  let ?r = "process demo_program (demo_portal 11) [] 5 (new_session (demo_portal 11) [] 1000, ())"
  have "\<not> isl ?r" "length (fst (snd (projr ?r))) = 1" "fst (snd (snd (projr ?r))) = []"
    "snd (snd (snd (projr ?r))) = 2" "timestamps (demo_portal 11) = [1, 2]"
    by code_simp+
  then obtain lv os where r: "?r = Inr ((lv, ()), os, [], 2)" "length os = 1" and ts: "timestamps (demo_portal 11) = [1, 2]"
    by (cases ?r) auto
  have "pr_schedules demo_program = []" by (simp add: demo_program_def)
  with bar_handled_once[OF r(1), of "demo_portal 11" 6 "[]"] ts r show ?thesis by auto
qed

text \<open>
  A protection state outlives its position when the position closes without a captured exit: the
  account synchronisation drops states of exits in flight only, so a later position of the same
  side meets the old high-water mark.
\<close>

lemma stale_state_survives:
  assumes "lv_exiting lv = []"
  shows "lv_states (synchronize_positions now [] cash equity lv) = lv_states lv \<and>
    positions (synchronize_positions now [] cash equity lv) = []"
  by (cases cash; cases equity)
    (simp_all add: synchronize_positions_def synced_positions_def assms Let_def)

end
