(* ===== verification/Symbols.thy ===== *)
theory Symbols
  imports Values
begin

text \<open>
  Names of instruments, legs and markets as the live ledger writes them: \<open>normalize_strategy_symbol\<close> and
  \<open>_position_symbol_candidates\<close> of \<open>live_trading/records.py\<close>, the leg context of
  \<open>live_trading/leg_context.py\<close>, and the exchange lookups that tolerate both spellings of a pair.
\<close>

subsection \<open>Symbols\<close>

fun split_quotes :: "string \<Rightarrow> string list \<Rightarrow> string" where
  "split_quotes s [] = s"
| "split_quotes s (q # qs) =
     (if py_endswith s q \<and> length s > length q then take (length s - length q) s @ ''/'' @ q
      else split_quotes s qs)"

definition quotes :: "string list" where
  "quotes = [''USDT'', ''USDC'', ''USD'', ''BUSD'', ''EUR'']"

definition normalize_strategy_symbol :: "string \<Rightarrow> string" where
  "normalize_strategy_symbol symbol =
     (let s = replace_char CHR ''-'' [] (py_upper (py_strip symbol)) in
      if s = [] then [] else if CHR ''/'' \<in> set s then s else split_quotes s quotes)"

definition add_new :: "string list \<Rightarrow> string \<Rightarrow> string list" where
  "add_new out x = (if x \<noteq> [] \<and> x \<notin> set out then out @ [x] else out)"

definition symbol_candidates :: "string \<Rightarrow> string list" where
  "symbol_candidates symbol =
     (let raw = py_strip symbol; norm = normalize_strategy_symbol raw;
          compact = replace_char CHR ''/'' [] norm;
          raw_compact = replace_char CHR ''-'' [] (replace_char CHR ''/'' [] (py_upper raw))
      in if raw = [] then [] else foldl add_new [] [raw, py_upper raw, norm, compact, raw_compact])"

text \<open>The key a row is written under.\<close>

definition write_symbol :: "string \<Rightarrow> string" where
  "write_symbol symbol =
     (let n = normalize_strategy_symbol symbol in if n = [] then py_strip symbol else n)"

text \<open>A quote suffix hides a longer one listed after it: the pair BTC/BUSD is read as BTCB/USD.\<close>

lemma busd_misread:
  "normalize_strategy_symbol ''BTCBUSD'' = ''BTCB/USD''"
  "normalize_strategy_symbol ''BTC/BUSD'' = ''BTC/BUSD''"
  by code_simp+

lemma normalize_demo:
  "normalize_strategy_symbol '' btc-usdt'' = ''BTC/USDT''" "normalize_strategy_symbol ''AAPL'' = ''AAPL''"
  "symbol_candidates ''btc/usdt'' = [''btc/usdt'', ''BTC/USDT'', ''BTCUSDT'']"
  by code_simp+

text \<open>
  A spelling all of whose aliases name the same pair (\<open>BTCUSDT\<close>, \<open>btc-usdt\<close>, \<open>BTC/USDT\<close>); a pair whose
  quote the code does not list is only reached under its own spelling.
\<close>

definition resolvable :: "string \<Rightarrow> bool" where
  "resolvable symbol =
     (let n = normalize_strategy_symbol symbol in
      n \<noteq> [] \<and> py_strip n = n \<and> normalize_strategy_symbol n = n \<and> n \<in> set (symbol_candidates symbol) \<and>
      n \<in> set (symbol_candidates n) \<and>
      list_all (\<lambda>c. normalize_strategy_symbol c = n) (symbol_candidates symbol) \<and>
      list_all (\<lambda>c. normalize_strategy_symbol c = n) (symbol_candidates n))"

lemma resolvable_demo:
  "resolvable ''BTC/USDT''" "resolvable ''btc-usdt''" "resolvable ''ETHUSDC''" "resolvable ''AAPL''"
  by code_simp+

lemma resolvableD:
  assumes "resolvable s"
  shows "write_symbol s = normalize_strategy_symbol s" "normalize_strategy_symbol s \<noteq> []"
    "py_strip (normalize_strategy_symbol s) = normalize_strategy_symbol s"
    "normalize_strategy_symbol (normalize_strategy_symbol s) = normalize_strategy_symbol s"
    "normalize_strategy_symbol s \<in> set (symbol_candidates s)"
    "normalize_strategy_symbol s \<in> set (symbol_candidates (normalize_strategy_symbol s))"
    "c \<in> set (symbol_candidates s) \<Longrightarrow> normalize_strategy_symbol c = normalize_strategy_symbol s"
    "c \<in> set (symbol_candidates (normalize_strategy_symbol s)) \<Longrightarrow>
       normalize_strategy_symbol c = normalize_strategy_symbol s"
  using assms by (auto simp: resolvable_def Let_def write_symbol_def list_all_iff)

lemma resolvable_normal:
  assumes "resolvable s" shows "write_symbol (normalize_strategy_symbol s) = normalize_strategy_symbol s"
  using resolvableD[OF assms] by (simp add: write_symbol_def)

subsection \<open>Legs\<close>

definition futures_names :: "string list" where
  "futures_names = [''futures'', ''future'', ''perp'', ''perpetual'']"

definition swap_market :: "string \<Rightarrow> string" where
  "swap_market mt = (if mt \<in> set futures_names then ''swap'' else mt)"

definition default_text :: "string \<Rightarrow> string \<Rightarrow> string" where
  "default_text s d = (if s = [] then d else s)"

definition lower_strip :: "string \<Rightarrow> string" where
  "lower_strip s = py_lower (py_strip s)"

record leg_context =
  leg_market_type :: string
  leg_credential :: int
  leg_inst :: string
  leg_fill_source :: string
  leg_pending :: int

definition leg_market :: "leg_context \<Rightarrow> string" where
  "leg_market leg = default_text (swap_market (lower_strip (default_text (leg_market_type leg) ''swap''))) ''swap''"

lemma leg_market_set: "leg_market leg \<noteq> []"
  by (simp add: leg_market_def default_text_def)

text \<open>\<open>v\<close> as an id: the first positive one of the two keys; a value that is no number counts as 0.\<close>

fun int_of_json :: "json \<Rightarrow> int option" where
  "int_of_json (JNum x) = Some (if x < 0 then - \<lfloor>- x\<rfloor> else \<lfloor>x\<rfloor>)"
| "int_of_json (JBool b) = Some (if b then 1 else 0)"
| "int_of_json (JStr s) = py_int s"
| "int_of_json _ = None"

definition int_or_0 :: "json \<Rightarrow> int option" where
  "int_or_0 x = (if json_truthy x then int_of_json x else Some 0)"

definition credential_id_from_exchange_config :: "json \<Rightarrow> int" where
  "credential_id_from_exchange_config cfg =
     (let v = (\<lambda>k. case int_or_0 (get cfg k) of None \<Rightarrow> 0 | Some n \<Rightarrow> n) in
      if v ''credential_id'' > 0 then v ''credential_id''
      else if v ''credentials_id'' > 0 then v ''credentials_id'' else 0)"

lemma credential_nonneg: "0 \<le> credential_id_from_exchange_config cfg"
  by (simp add: credential_id_from_exchange_config_def Let_def)

text \<open>\<open>canon.split("/", 1)\<close>.\<close>

definition split_slash :: "string \<Rightarrow> string \<times> string" where
  "split_slash s = (takeWhile (\<lambda>c. c \<noteq> CHR ''/'') s, tl (dropWhile (\<lambda>c. c \<noteq> CHR ''/'') s))"

definition inst_id_for_symbol :: "string \<Rightarrow> string \<Rightarrow> string \<Rightarrow> string" where
  "inst_id_for_symbol symbol market_type exchange_id =
     (let canon = write_symbol symbol; (base, quote) = split_slash canon;
          mt = lower_strip (default_text market_type ''swap''); ex = lower_strip exchange_id in
      if canon = [] \<or> CHR ''/'' \<notin> set canon then []
      else if mt = ''spot'' then
        (if ex \<in> {''okx'', ''okex''} then base @ ''-'' @ quote else replace_char CHR ''/'' [] canon)
      else if ex \<in> {''okx'', ''okex''} then base @ ''-'' @ quote @ ''-SWAP''
      else if ex \<in> {''binance'', ''binanceusdm'', ''binancefutures''} then base @ quote
      else base @ ''-'' @ quote @ ''-SWAP'')"

lemma inst_id_demo:
  "inst_id_for_symbol ''BTCUSDT'' ''swap'' ''okx'' = ''BTC-USDT-SWAP''"
  "inst_id_for_symbol ''BTC/USDT'' ''spot'' ''binance'' = ''BTCUSDT''"
  by code_simp+

subsection \<open>What the exchange holds\<close>

definition side_names :: "string list" where "side_names = [''long'', ''short'']"

definition venue_symbol :: "string \<Rightarrow> string" where
  "venue_symbol k = py_upper (normalize_strategy_symbol (py_strip k))"

text \<open>\<open>norm_index\<close>: the sizes by canonical symbol; the larger of two spellings counts.\<close>

definition leg_value :: "real dict \<Rightarrow> string \<Rightarrow> real" where
  "leg_value sides leg = (case map_of sides leg of None \<Rightarrow> 0 | Some v \<Rightarrow> v)"

type_synonym buckets = "(real \<times> real) dict"

definition bucket :: "buckets \<Rightarrow> string \<Rightarrow> real \<times> real" where
  "bucket idx n = (case map_of idx n of None \<Rightarrow> (0, 0) | Some b \<Rightarrow> b)"

definition index_size :: "string \<times> real dict \<Rightarrow> buckets \<Rightarrow> buckets" where
  "index_size kv idx =
     (let n = venue_symbol (fst kv) in
      if n = [] then idx
      else dict_set n (max (fst (bucket idx n)) (leg_value (snd kv) ''long''),
                       max (snd (bucket idx n)) (leg_value (snd kv) ''short'')) idx)"

definition index_price :: "string \<times> real dict \<Rightarrow> buckets \<Rightarrow> buckets" where
  "index_price kv idx =
     (let n = venue_symbol (fst kv);
          pick = (\<lambda>old new. if new > 0 then new else old) in
      if n = [] then idx
      else dict_set n (pick (fst (bucket idx n)) (leg_value (snd kv) ''long''),
                       pick (snd (bucket idx n)) (leg_value (snd kv) ''short'')) idx)"

definition bucket_side :: "string \<Rightarrow> real \<times> real \<Rightarrow> real" where
  "bucket_side side b = (if side = ''long'' then fst b else snd b)"

text \<open>The first candidate present in the index decides.\<close>

fun first_hit :: "buckets \<Rightarrow> string list \<Rightarrow> string option" where
  "first_hit idx [] = None"
| "first_hit idx (c # cs) =
     (let n = py_upper (normalize_strategy_symbol c) in if n \<in> set (map fst idx) then Some n else first_hit idx cs)"

definition lookup_bucket :: "buckets \<Rightarrow> string \<Rightarrow> string \<Rightarrow> real" where
  "lookup_bucket idx symbol side =
     (case first_hit idx (symbol_candidates symbol) of
        None \<Rightarrow> 0 | Some n \<Rightarrow> bucket_side side (bucket idx n))"

definition lookup_exchange_side_qty :: "real dict dict \<Rightarrow> string \<Rightarrow> string \<Rightarrow> real" where
  "lookup_exchange_side_qty exch symbol side =
     (if lower_strip side \<notin> set side_names then 0
      else lookup_bucket (fold index_size exch []) symbol (lower_strip side))"

definition lookup_exchange_entry_price :: "real dict dict \<Rightarrow> string \<Rightarrow> string \<Rightarrow> real" where
  "lookup_exchange_entry_price exch symbol side =
     (if lower_strip side \<notin> set side_names then 0
      else lookup_bucket (fold index_price exch []) symbol (lower_strip side))"

text \<open>The size found is the largest the exchange reports under any spelling of the symbol.\<close>

definition spelled_sizes :: "real dict dict \<Rightarrow> string \<Rightarrow> string \<Rightarrow> real list" where
  "spelled_sizes exch n side =
     map (\<lambda>kv. leg_value (snd kv) side) (filter (\<lambda>kv. venue_symbol (fst kv) = n) exch)"

lemma bucket_step:
  "n \<noteq> [] \<Longrightarrow> bucket (index_size kv idx) n =
     (if venue_symbol (fst kv) = n then
        (max (leg_value (snd kv) ''long'') (fst (bucket idx n)), max (leg_value (snd kv) ''short'') (snd (bucket idx n)))
      else bucket idx n)"
  by (auto simp: index_size_def Let_def bucket_def lookup_set max.commute)

lemma bucket_index:
  "n \<noteq> [] \<Longrightarrow> bucket (fold index_size exch idx) n =
     (fold max (spelled_sizes exch n ''long'') (fst (bucket idx n)),
      fold max (spelled_sizes exch n ''short'') (snd (bucket idx n)))"
proof (induction exch arbitrary: idx)
  case (Cons kv exch)
  show ?case using Cons.IH[OF Cons.prems, of "index_size kv idx"] Cons.prems
    by (simp add: bucket_step spelled_sizes_def)
qed (simp add: spelled_sizes_def)

lemma index_keys:
  "n \<in> set (map fst (fold index_size exch idx)) \<longleftrightarrow>
     n \<in> set (map fst idx) \<or> n \<noteq> [] \<and> (\<exists>kv \<in> set exch. venue_symbol (fst kv) = n)"
proof (induction exch arbitrary: idx)
  case (Cons kv exch)
  show ?case using Cons.IH[of "index_size kv idx"]
    by (auto simp: index_size_def Let_def dom_update)
qed simp

lemma first_hit_same:
  assumes "\<And>c. c \<in> set cs \<Longrightarrow> py_upper (normalize_strategy_symbol c) = n" "cs \<noteq> []"
  shows "first_hit idx cs = (if n \<in> set (map fst idx) then Some n else None)"
  using assms
proof (induction cs)
  case (Cons c cs)
  then show ?case by (cases cs) (auto simp: Let_def)
qed simp

lemma spelled_none: "(\<forall>kv \<in> set exch. venue_symbol (fst kv) \<noteq> n) \<Longrightarrow> spelled_sizes exch n side = []"
  by (induction exch) (auto simp: spelled_sizes_def)

lemma exchange_size_is_largest_spelling:
  assumes "resolvable symbol" "side \<in> {''long'', ''short''}"
  shows "lookup_exchange_side_qty exch symbol side =
    fold max (spelled_sizes exch (py_upper (normalize_strategy_symbol symbol)) side) 0"
proof -
  define n where "n = py_upper (normalize_strategy_symbol symbol)"
  let ?idx = "fold index_size exch []"
  have n: "n \<noteq> []" using resolvableD(2)[OF assms(1)] by (simp add: n_def py_upper_def)
  have side: "lower_strip side = side" "side \<in> set side_names"
    using assms(2) by (auto simp: side_names_def) (code_simp)+
  have c: "py_upper (normalize_strategy_symbol c) = n" if "c \<in> set (symbol_candidates symbol)" for c
    using resolvableD(7)[OF assms(1) that] by (simp add: n_def)
  have ne: "symbol_candidates symbol \<noteq> []" using resolvableD(5)[OF assms(1)] by auto
  have hit: "first_hit ?idx (symbol_candidates symbol) = (if n \<in> set (map fst ?idx) then Some n else None)"
    by (rule first_hit_same[OF c ne])
  show ?thesis
  proof (cases "n \<in> set (map fst ?idx)")
    case True
    have "bucket_side side (bucket ?idx n) = fold max (spelled_sizes exch n side) 0"
      using bucket_index[OF n, of exch "[]"] assms(2) by (auto simp: bucket_side_def bucket_def)
    with True show ?thesis by (simp add: lookup_exchange_side_qty_def side lookup_bucket_def hit n_def)
  next
    case False
    then have "\<forall>kv \<in> set exch. venue_symbol (fst kv) \<noteq> n" using index_keys[of n exch "[]"] n by auto
    then have "spelled_sizes exch n side = []" by (rule spelled_none)
    with False show ?thesis by (simp add: lookup_exchange_side_qty_def side lookup_bucket_def hit n_def)
  qed
qed

end
