(* ===== verification/GridConfig.thy ===== *)
theory GridConfig
  imports Symbols
begin

text \<open>
  The configuration of a grid robot: \<open>grid/config.py\<close>, the price lines and cells of \<open>grid/levels.py\<close> and
  the check before a live start, \<open>grid/validator.py\<close>. Text fields of the configuration are text.
\<close>

subsection \<open>Reading the configuration\<close>

definition cfg_float :: "json \<Rightarrow> real \<Rightarrow> real" where
  "cfg_float v d = (case py_float_of v of None \<Rightarrow> d | Some x \<Rightarrow> x)"

definition cfg_int :: "json \<Rightarrow> int \<Rightarrow> int" where
  "cfg_int v d = (case int_of_json v of None \<Rightarrow> d | Some n \<Rightarrow> n)"

text \<open>30 and 0.3 both read as thirty per cent.\<close>

definition cfg_pct :: "json \<Rightarrow> real \<Rightarrow> real" where
  "cfg_pct v d = (let x = cfg_float v d in if x > 1 then x / 100 else max 0 x)"

text \<open>\<open>str(x or y or "default").strip().lower()\<close>.\<close>

definition cfg_text :: "json \<Rightarrow> string list \<Rightarrow> string \<Rightarrow> string" where
  "cfg_text d ks def = lower_strip (str_or_empty (json_or (get_any d ks) (JStr def)))"

definition grid_direction_of :: "json \<Rightarrow> string" where
  "grid_direction_of bp = cfg_text bp [''gridDirection'', ''grid_direction''] ''long''"

text \<open>A neutral grid takes no initial position, whatever the saved parameters say.\<close>

definition sanitize_grid_bot_params :: "json \<Rightarrow> json" where
  "sanitize_grid_bot_params params =
     (let bp = as_dict params in
      if grid_direction_of bp = ''neutral''
      then JDict (dict_pop ''initial_position_pct'' (dict_set ''initialPositionPct'' (JNum 0) (entries bp)))
      else bp)"

record grid_config =
  gc_upper :: real
  gc_lower :: real
  gc_count :: int
  gc_amount :: real
  gc_mode :: string
  gc_direction :: string
  gc_initial_pct :: real
  gc_order_mode :: string
  gc_boundary :: string
  gc_leverage :: real
  gc_market :: string
  gc_margin :: string
  gc_unit :: string
  gc_max_open :: int
  gc_min_spread :: real
  gc_frequency :: int
  gc_amount_pct :: real

definition one_of :: "string list \<Rightarrow> string \<Rightarrow> string \<Rightarrow> string" where
  "one_of xs x d = (if x \<in> set xs then x else d)"

definition grid_config_from :: "json \<Rightarrow> grid_config" where
  "grid_config_from trading_config =
     (let tc = as_dict trading_config;
          bp = sanitize_grid_bot_params (as_dict (get tc ''bot_params''));
          f = (\<lambda>ks. get_any bp ks)
      in \<lparr>gc_upper = cfg_float (f [''upperPrice'', ''upper_price'']) 0,
          gc_lower = cfg_float (f [''lowerPrice'', ''lower_price'']) 0,
          gc_count = max 2 (cfg_int (f [''gridCount'', ''grid_count'']) 10),
          gc_amount = cfg_float (f [''amountPerGrid'', ''amount_per_grid'']) 0,
          gc_mode = cfg_text bp [''gridMode'', ''grid_mode''] ''arithmetic'',
          gc_direction = one_of [''long'', ''short'', ''neutral''] (grid_direction_of bp) ''long'',
          gc_initial_pct = cfg_pct (f [''initialPositionPct'', ''initial_position_pct'']) 0,
          gc_order_mode = lower_strip (str_or_empty (json_or (f [''orderMode'', ''order_mode''])
             (json_or (get tc ''order_mode'') (JStr ''maker'')))),
          gc_boundary = one_of [''pause'', ''stop_loss'', ''hold'']
             (cfg_text bp [''boundaryAction'', ''boundary_action''] ''pause'') ''pause'',
          gc_leverage = max 1 (cfg_float (get tc ''leverage'') 1),
          gc_market = swap_market (cfg_text tc [''market_type''] ''swap''),
          gc_margin = cfg_text tc [''margin_mode'', ''marginMode''] ''cross'',
          gc_unit = one_of [''lines'', ''cells''] (cfg_text bp [''gridCountUnit'', ''grid_count_unit''] ''lines'') ''lines'',
          gc_max_open = max 1 (cfg_int (f [''maxOpenOrders'', ''max_open_orders'']) 999999),
          gc_min_spread = cfg_pct (f [''minSpreadBetweenOrders'', ''min_spread_between_orders'']) 0,
          gc_frequency = max 0 (cfg_int (f [''orderFrequency'', ''order_frequency'']) 0),
          gc_amount_pct = cfg_pct (f [''amountPerGridPct'', ''amount_per_grid_pct'']) 0\<rparr>)"

definition grid_line_count :: "grid_config \<Rightarrow> int" where
  "grid_line_count c = (if gc_unit c = ''cells'' then gc_count c + 1 else gc_count c)"

definition tradable_cell_count :: "grid_config \<Rightarrow> int" where
  "tradable_cell_count c = max 1 (grid_line_count c - 1)"

text \<open>Upper and lower bound, overridden by the runtime parameters.\<close>

definition effective_bounds :: "grid_config \<Rightarrow> json \<Rightarrow> real \<times> real" where
  "effective_bounds c rp = (cfg_float (get rp ''upperPrice'') (gc_upper c), cfg_float (get rp ''lowerPrice'') (gc_lower c))"

subsection \<open>Lines and cells\<close>

definition generate_levels :: "real \<Rightarrow> real \<Rightarrow> int \<Rightarrow> string \<Rightarrow> real list" where
  "generate_levels lower upper grid_count mode =
     (let n = nat (max 2 grid_count) in
      if upper \<le> lower then []
      else if py_lower mode = ''geometric'' \<and> lower > 0 \<and> upper > lower then
        (let ratio = (upper / lower) powr (1 / real (n - 1)) in map (\<lambda>i. lower * ratio ^ i) [0..<n])
      else (let step = (upper - lower) / real (n - 1) in map (\<lambda>i. lower + step * real i) [0..<n]))"

record cell_spec =
  cs_index :: nat
  cs_lower :: real
  cs_upper :: real

definition generate_cells :: "real list \<Rightarrow> cell_spec list" where
  "generate_cells levels =
     map (\<lambda>i. \<lparr>cs_index = i, cs_lower = levels ! i, cs_upper = levels ! (i + 1)\<rparr>)
       (filter (\<lambda>i. levels ! (i + 1) > levels ! i) [0..<length levels - 1])"

definition grid_cells :: "grid_config \<Rightarrow> cell_spec list" where
  "grid_cells c = generate_cells (generate_levels (gc_lower c) (gc_upper c) (grid_line_count c) (gc_mode c))"

subsection \<open>The check before a live start\<close>

datatype grid_problem = BoundsInverted | AmountMissing | CellsMissing | DirectionUnsupported | InitialPctInvalid
  | FeesNotCovered cell_spec | SpreadTooSmall cell_spec

definition fee_margin :: "real \<Rightarrow> cell_spec \<Rightarrow> real" where
  "fee_margin fee_rate c =
     (cs_upper c - cs_lower c) - (cs_lower c + cs_upper c) * max 0 fee_rate * (5 / 4)"

definition priced_cell :: "cell_spec \<Rightarrow> bool" where
  "priced_cell c = (cs_lower c > 0 \<and> cs_upper c > cs_lower c)"

text \<open>The cell with the least margin, the first of them.\<close>

fun worst_cell :: "real \<Rightarrow> cell_spec option \<Rightarrow> cell_spec list \<Rightarrow> cell_spec option" where
  "worst_cell fee w [] = w"
| "worst_cell fee w (c # cs) =
     (if \<not> priced_cell c then worst_cell fee w cs
      else case w of None \<Rightarrow> worst_cell fee (Some c) cs
           | Some v \<Rightarrow> worst_cell fee (Some (if fee_margin fee c < fee_margin fee v then c else v)) cs)"

definition effective_amount :: "grid_config \<Rightarrow> real \<Rightarrow> real" where
  "effective_amount c capital = (if gc_amount_pct c > 0 \<and> capital > 0 then capital * gc_amount_pct c else gc_amount c)"

definition narrow_cell :: "real \<Rightarrow> cell_spec \<Rightarrow> bool" where
  "narrow_cell spread c = (priced_cell c \<and> (cs_upper c - cs_lower c) / cs_lower c < spread)"

text \<open>The first problem, and whether the initial position is worth a warning.\<close>

definition validate_grid_config :: "grid_config \<Rightarrow> real \<Rightarrow> real \<Rightarrow> grid_problem option \<times> bool" where
  "validate_grid_config c capital fee_rate =
     (let amount = effective_amount c capital; cells = grid_cells c; worst = worst_cell fee_rate None cells;
          narrow = (if gc_min_spread c > 0 then find (narrow_cell (gc_min_spread c)) cells else None);
          warn = (capital > 0 \<and> gc_initial_pct c > 0 \<and> capital * gc_initial_pct c < amount * (1 / 2))
      in if gc_upper c \<le> gc_lower c then (Some BoundsInverted, False)
         else if amount \<le> 0 then (Some AmountMissing, False)
         else if length cells < 1 then (Some CellsMissing, False)
         else if gc_direction c \<notin> {''long'', ''short'', ''neutral''} then (Some DirectionUnsupported, False)
         else if gc_initial_pct c < 0 \<or> gc_initial_pct c > 1 then (Some InitialPctInvalid, False)
         else case worst of
           Some w \<Rightarrow> if fee_margin fee_rate w \<le> 0 then (Some (FeesNotCovered w), False)
                     else (case narrow of Some k \<Rightarrow> (Some (SpreadTooSmall k), False) | None \<Rightarrow> (None, warn))
         | None \<Rightarrow> (case narrow of Some k \<Rightarrow> (Some (SpreadTooSmall k), False) | None \<Rightarrow> (None, warn)))"

definition validate_for_executor :: "json \<Rightarrow> real \<Rightarrow> grid_problem option" where
  "validate_for_executor trading_config capital =
     fst (validate_grid_config (grid_config_from trading_config) capital (1 / 1000))"

subsection \<open>Every configuration is well-formed\<close>

definition grid_config_ok :: "grid_config \<Rightarrow> bool" where
  "grid_config_ok c \<longleftrightarrow> 2 \<le> gc_count c \<and> 1 \<le> gc_leverage c \<and> gc_direction c \<in> {''long'', ''short'', ''neutral''} \<and>
     gc_boundary c \<in> {''pause'', ''stop_loss'', ''hold''} \<and> gc_unit c \<in> {''lines'', ''cells''} \<and>
     1 \<le> gc_max_open c \<and> 0 \<le> gc_frequency c \<and> 0 \<le> gc_initial_pct c \<and> 0 \<le> gc_min_spread c \<and> 0 \<le> gc_amount_pct c \<and>
     gc_market c \<notin> set futures_names \<and> (gc_direction c = ''neutral'' \<longrightarrow> gc_initial_pct c = 0)"

lemma cfg_pct_nonneg: "0 \<le> cfg_pct v d"
  by (simp add: cfg_pct_def Let_def)

lemma one_of_mem: "d \<in> set xs \<Longrightarrow> one_of xs x d \<in> set xs"
  by (simp add: one_of_def)

lemma swap_market_named: "swap_market mt \<notin> set futures_names"
  by (simp add: swap_market_def) (simp add: futures_names_def)

lemma grid_direction_sanitized:
  "grid_direction_of (sanitize_grid_bot_params bp) = ''neutral'' \<Longrightarrow>
   get_any (sanitize_grid_bot_params bp) [''initialPositionPct'', ''initial_position_pct''] = JNull"
proof -
  assume n: "grid_direction_of (sanitize_grid_bot_params bp) = ''neutral''"
  have "grid_direction_of (as_dict bp) = ''neutral''"
    using n by (auto simp: sanitize_grid_bot_params_def Let_def split: if_splits)
  then show ?thesis
    by (simp add: sanitize_grid_bot_params_def Let_def get_def lookup_pop lookup_set json_or_def)
qed

lemma one_of_neutral: "one_of [''long'', ''short'', ''neutral''] g ''long'' = ''neutral'' \<longleftrightarrow> g = ''neutral''"
  by (simp add: one_of_def)

lemma cfg_pct_null: "cfg_pct JNull 0 = 0"
  by (simp add: cfg_pct_def cfg_float_def)

lemmas config_fields = grid_config_from_def Let_def grid_config.simps

lemma grid_config_numbers:
  "2 \<le> gc_count (grid_config_from tc)" "1 \<le> gc_leverage (grid_config_from tc)" "1 \<le> gc_max_open (grid_config_from tc)"
  "0 \<le> gc_frequency (grid_config_from tc)" "0 \<le> gc_initial_pct (grid_config_from tc)" "0 \<le> gc_min_spread (grid_config_from tc)"
  "0 \<le> gc_amount_pct (grid_config_from tc)"
  by (simp_all only: config_fields max.cobounded1 cfg_pct_nonneg)

lemma grid_config_texts:
  "gc_direction (grid_config_from tc) \<in> set [''long'', ''short'', ''neutral'']"
  "gc_boundary (grid_config_from tc) \<in> set [''pause'', ''stop_loss'', ''hold'']"
  "gc_unit (grid_config_from tc) \<in> set [''lines'', ''cells'']"
  "gc_market (grid_config_from tc) \<notin> set futures_names"
  unfolding config_fields by (rule one_of_mem, simp)+ (rule swap_market_named)

lemma grid_config_neutral:
  "gc_direction (grid_config_from tc) = ''neutral'' \<Longrightarrow> gc_initial_pct (grid_config_from tc) = 0"
  unfolding config_fields one_of_neutral by (simp only: grid_direction_sanitized cfg_pct_null)

lemma grid_config_well_formed: "grid_config_ok (grid_config_from tc)"
  using grid_config_numbers[of tc] grid_config_texts[of tc] grid_config_neutral[of tc]
  unfolding grid_config_ok_def by simp

subsection \<open>The lines span the range\<close>

lemma powr_root:
  assumes "0 < lo" "lo < hi" "0 < k" shows "((hi / lo) powr (1 / real k)) ^ k = hi / lo" "1 < (hi / lo) powr (1 / real k)"
proof -
  have p: "0 < hi / lo" "1 < hi / lo" using assms by auto
  have k: "1 / real k * real k = 1" using assms(3) by simp
  show "((hi / lo) powr (1 / real k)) ^ k = hi / lo"
    using p assms by (simp only: powr_power k) simp
  show "1 < (hi / lo) powr (1 / real k)" using p assms by (simp add: gr_one_powr)
qed

lemma generate_levels_span:
  fixes lo hi :: real and n :: int and mode :: string
  assumes "lo < hi"
  defines "ls \<equiv> generate_levels lo hi n mode"
  shows "length ls = nat (max 2 n)" "ls ! 0 = lo" "last ls = hi" "\<And>i. Suc i < length ls \<Longrightarrow> ls ! i < ls ! Suc i"
proof -
  define k where "k = nat (max 2 n) - 1"
  have k: "nat (max 2 n) = Suc k" "0 < k" by (auto simp: k_def)
  show len: "length ls = nat (max 2 n)" using assms(1) by (simp add: ls_def generate_levels_def Let_def)
  have "ls ! 0 = lo \<and> last ls = hi \<and> (\<forall>i. Suc i < length ls \<longrightarrow> ls ! i < ls ! Suc i)"
  proof (cases "py_lower mode = ''geometric'' \<and> lo > 0")
    case True
    define r where "r = (hi / lo) powr (1 / real k)"
    have r: "r ^ k = hi / lo" "1 < r" using powr_root[of lo hi k] True assms(1) k(2) by (auto simp: r_def)
    have ls: "ls = map (\<lambda>i. lo * r ^ i) [0..<Suc k]"
      using True assms(1) k by (simp add: ls_def generate_levels_def Let_def r_def del: upt_Suc)
    show ?thesis using True r by (auto simp: ls nth_append simp del: upt_Suc) (simp add: last_map)
  next
    case False
    define st where "st = (hi - lo) / real k"
    have st: "0 < st" "st * real k = hi - lo" using assms(1) k by (auto simp: st_def)
    have ls: "ls = map (\<lambda>i. lo + st * real i) [0..<Suc k]"
      using False assms(1) k by (auto simp: ls_def generate_levels_def Let_def st_def simp del: upt_Suc)
    show ?thesis using st by (auto simp: ls algebra_simps simp del: upt_Suc) (simp add: last_map algebra_simps)
  qed
  then show "ls ! 0 = lo" "last ls = hi" "\<And>i. Suc i < length ls \<Longrightarrow> ls ! i < ls ! Suc i" by auto
qed

subsection \<open>The cells tile the range\<close>

lemma generate_cells_all:
  assumes "\<And>i. Suc i < length ls \<Longrightarrow> ls ! i < ls ! Suc i"
  shows "generate_cells ls = map (\<lambda>i. \<lparr>cs_index = i, cs_lower = ls ! i, cs_upper = ls ! Suc i\<rparr>) [0..<length ls - 1]"
proof -
  have "filter (\<lambda>i. ls ! (i + 1) > ls ! i) [0..<length ls - 1] = [0..<length ls - 1]"
    using assms by (intro filter_True) auto
  then show ?thesis by (simp add: generate_cells_def)
qed

text \<open>Cells numbered from 0, each on top of the one before, from the lower to the upper bound.\<close>

definition tiles :: "cell_spec list \<Rightarrow> real \<Rightarrow> real \<Rightarrow> bool" where
  "tiles cs lo hi \<longleftrightarrow> cs \<noteq> [] \<and> cs_lower (hd cs) = lo \<and> cs_upper (last cs) = hi \<and>
     list_all (\<lambda>i. cs_index (cs ! i) = i \<and> cs_lower (cs ! i) < cs_upper (cs ! i) \<and>
        (Suc i < length cs \<longrightarrow> cs_upper (cs ! i) = cs_lower (cs ! Suc i))) [0..<length cs]"

lemma grid_cells_tile:
  assumes "gc_lower c < gc_upper c"
  shows "tiles (grid_cells c) (gc_lower c) (gc_upper c)" "int (length (grid_cells c)) = max 2 (grid_line_count c) - 1"
proof -
  define ls where "ls = generate_levels (gc_lower c) (gc_upper c) (grid_line_count c) (gc_mode c)"
  note sp = generate_levels_span[OF assms, where n = "grid_line_count c" and mode = "gc_mode c", folded ls_def]
  have cs: "grid_cells c = map (\<lambda>i. \<lparr>cs_index = i, cs_lower = ls ! i, cs_upper = ls ! Suc i\<rparr>) [0..<length ls - 1]"
    unfolding grid_cells_def ls_def[symmetric] by (rule generate_cells_all) (rule sp(4))
  have n: "2 \<le> length ls" using sp(1) by simp
  then obtain k where k: "length ls = Suc (Suc k)" by (metis add_2_eq_Suc le_Suc_ex)
  have "ls \<noteq> []" using k by auto
  then have l: "ls ! Suc k = last ls" using k by (simp add: last_conv_nth)
  show "int (length (grid_cells c)) = max 2 (grid_line_count c) - 1" using sp(1) n by (simp add: cs)
  show "tiles (grid_cells c) (gc_lower c) (gc_upper c)"
    using sp(2,3,4) k l by (auto simp: tiles_def cs list_all_iff hd_map last_map nth_append simp del: upt_Suc)
qed

subsection \<open>What the check guarantees\<close>

lemma worst_cell_le:
  "worst_cell fee w cs = Some v \<Longrightarrow> (w = Some u \<longrightarrow> fee_margin fee v \<le> fee_margin fee u) \<and>
     (c \<in> set cs \<longrightarrow> priced_cell c \<longrightarrow> fee_margin fee v \<le> fee_margin fee c)"
proof (induction cs arbitrary: w u)
  case (Cons d cs)
  show ?case
  proof (cases "priced_cell d")
    case False
    then show ?thesis using Cons by auto
  next
    case p: True
    show ?thesis
    proof (cases w)
      case None
      then show ?thesis using Cons.IH[of "Some d" d] Cons.prems p by auto
    next
      case (Some x)
      let ?m = "if fee_margin fee d < fee_margin fee x then d else x"
      have "fee_margin fee ?m \<le> fee_margin fee d" "fee_margin fee ?m \<le> fee_margin fee x" by auto
      moreover have "worst_cell fee (Some ?m) cs = Some v" using Cons.prems p Some by simp
      ultimately show ?thesis using Cons.IH[of "Some ?m" ?m] Some by (auto intro: order_trans)
    qed
  qed
qed simp

lemma worst_cell_some: "worst_cell fee (Some u) cs \<noteq> None"
  by (induction cs arbitrary: u) auto

lemma worst_cell_none: "worst_cell fee None cs = None \<Longrightarrow> c \<in> set cs \<Longrightarrow> \<not> priced_cell c"
  by (induction cs) (auto simp: worst_cell_some split: if_splits)

text \<open>What a round trip through a cell earns per unit, after the commission on both sides.\<close>

definition round_trip :: "real \<Rightarrow> cell_spec \<Rightarrow> real" where
  "round_trip fee_rate c = (cs_upper c - cs_lower c) - fee_rate * cs_lower c - fee_rate * cs_upper c"

lemma margin_profit: "0 \<le> fee_rate \<Longrightarrow> priced_cell c \<Longrightarrow> 0 < fee_margin fee_rate c \<Longrightarrow> 0 < round_trip fee_rate c"
proof -
  assume a: "0 \<le> fee_rate" "priced_cell c" "0 < fee_margin fee_rate c"
  have "0 \<le> (cs_lower c + cs_upper c) * fee_rate * (1 / 4)" using a by (auto simp: priced_cell_def)
  moreover have "round_trip fee_rate c = fee_margin fee_rate c + (cs_lower c + cs_upper c) * fee_rate * (1 / 4)"
    using a by (simp add: fee_margin_def round_trip_def max_def field_simps)
  ultimately show "0 < round_trip fee_rate c" using a by linarith
qed

lemma valid_grid:
  assumes "fst (validate_grid_config c capital fee_rate) = None" "0 \<le> fee_rate" "0 < gc_lower c"
  shows "gc_lower c < gc_upper c" "0 < effective_amount c capital"
    "list_all (\<lambda>k. 0 < cs_lower k \<and> 0 < round_trip fee_rate k \<and> gc_min_spread c * cs_lower k \<le> cs_upper k - cs_lower k) (grid_cells c)"
proof -
  show lu: "gc_lower c < gc_upper c" and "0 < effective_amount c capital"
    using assms(1) by (auto simp: validate_grid_config_def Let_def split: if_splits)
  have w: "case worst_cell fee_rate None (grid_cells c) of None \<Rightarrow> True | Some w \<Rightarrow> 0 < fee_margin fee_rate w"
    using assms(1) by (auto simp: validate_grid_config_def Let_def split: if_splits option.splits)
  have nr: "gc_min_spread c > 0 \<Longrightarrow> find (narrow_cell (gc_min_spread c)) (grid_cells c) = None"
    using assms(1) by (auto simp: validate_grid_config_def Let_def split: if_splits option.splits)
  have t: "tiles (grid_cells c) (gc_lower c) (gc_upper c)" by (rule grid_cells_tile(1)[OF lu])
  have idx: "cs_lower (grid_cells c ! i) < cs_upper (grid_cells c ! i) \<and>
      (Suc i < length (grid_cells c) \<longrightarrow> cs_upper (grid_cells c ! i) = cs_lower (grid_cells c ! Suc i))"
    if "i < length (grid_cells c)" for i using t that by (auto simp: tiles_def list_all_iff)
  have pos: "0 < cs_lower (grid_cells c ! i)" if "i < length (grid_cells c)" for i
    using that
  proof (induction i)
    case 0
    then show ?case using t assms(3) by (simp add: tiles_def hd_conv_nth)
  next
    case (Suc i)
    then show ?case using idx[of i] by simp
  qed
  show "list_all (\<lambda>k. 0 < cs_lower k \<and> 0 < round_trip fee_rate k \<and> gc_min_spread c * cs_lower k \<le> cs_upper k - cs_lower k) (grid_cells c)"
    unfolding list_all_length
  proof (intro allI impI)
    fix i assume i: "i < length (grid_cells c)"
    let ?k = "grid_cells c ! i"
    have p: "priced_cell ?k" using pos[OF i] idx[OF i] by (simp add: priced_cell_def)
    have m: "0 < fee_margin fee_rate ?k"
    proof (cases "worst_cell fee_rate None (grid_cells c)")
      case None
      then show ?thesis using worst_cell_none[OF None, of ?k] p i by simp
    next
      case (Some v)
      then show ?thesis using worst_cell_le[OF Some, of ?k ?k] p i w Some by simp
    qed
    have s: "gc_min_spread c * cs_lower ?k \<le> cs_upper ?k - cs_lower ?k"
    proof (cases "gc_min_spread c > 0")
      case True
      then have "\<not> narrow_cell (gc_min_spread c) ?k" using nr i by (auto simp: find_None_iff)
      then show ?thesis using p pos[OF i] by (simp add: narrow_cell_def pos_le_divide_eq not_less)
    next
      case False
      then have "gc_min_spread c * cs_lower ?k \<le> 0" using pos[OF i] by (simp add: mult_nonpos_nonneg)
      then show ?thesis using p by (simp add: priced_cell_def)
    qed
    show "0 < cs_lower ?k \<and> 0 < round_trip fee_rate ?k \<and> gc_min_spread c * cs_lower ?k \<le> cs_upper ?k - cs_lower ?k"
      using pos[OF i] margin_profit[OF assms(2) p m] s by simp
  qed
qed

subsection \<open>Properties\<close>

text \<open>C37: Whatever the stored trading configuration holds, the grid configuration read from it is well-formed:
  at least two lines, leverage and order limit at least one, known direction, boundary action and count unit, no negative
  share or frequency, and no initial position for a neutral grid.\<close>

theorem grid_config_is_well_formed: "grid_config_ok (grid_config_from trading_config)"
  by (rule grid_config_well_formed)

text \<open>C31: A grid that passes the check before a live start earns on every round trip: the cells number one less than
  the lines and tile the configured range without gap or overlap, and buying at the lower and selling at the upper
  line of any of them is profitable after the commission on both sides and no narrower than the
  configured minimum spread.\<close>

theorem valid_grid_is_profitable:
  assumes "fst (validate_grid_config c capital fee_rate) = None" "0 \<le> fee_rate" "0 < gc_lower c"
  shows "tiles (grid_cells c) (gc_lower c) (gc_upper c) \<and>
    int (length (grid_cells c)) = max 2 (grid_line_count c) - 1 \<and>
    list_all (\<lambda>k. 0 < cs_lower k \<and> 0 < round_trip fee_rate k \<and> gc_min_spread c * cs_lower k \<le> cs_upper k - cs_lower k) (grid_cells c)"
  using grid_cells_tile[OF valid_grid(1)[OF assms]] valid_grid(3)[OF assms] by blast

definition demo_config :: grid_config where
  "demo_config = grid_config_from (JDict [(''bot_params'', JDict [(''upperPrice'', JNum 120), (''lowerPrice'', JStr ''100''),
     (''gridCount'', JNum 5), (''amountPerGrid'', JNum 50), (''gridDirection'', JStr ''long'')]), (''leverage'', JNum 2)])"

theorem valid_grid_is_profitable_witness:
  "tiles (grid_cells demo_config) 100 120 \<and> length (grid_cells demo_config) = 4"
proof -
  have v: "fst (validate_grid_config demo_config 1000 (1 / 1000)) = None" by code_simp
  have b: "gc_lower demo_config = 100" "gc_upper demo_config = 120" "grid_line_count demo_config = 5" by code_simp+
  have "tiles (grid_cells demo_config) (gc_lower demo_config) (gc_upper demo_config) \<and>
    int (length (grid_cells demo_config)) = max 2 (grid_line_count demo_config) - 1"
    using valid_grid_is_profitable[OF v] b(1) by simp
  then show ?thesis using b by simp
qed

end
