(* ===== verification/Tables.thy ===== *)
theory Tables
  imports Prelude
begin

text \<open>
  Database tables with a UNIQUE key, as lists of rows in insertion order: the SELECT, the
  INSERT ... ON CONFLICT DO UPDATE and the DELETE the live components issue, their laws, and the
  interface of a component that keeps one entry per leg: an operation on one leg changes that leg by
  an abstract update and leaves every other leg alone.
\<close>

named_theorems table_simps "lookups after writes to a keyed table"

subsection \<open>Keyed tables\<close>

text \<open>The row under a key: the first, and with distinct keys the only one.\<close>

definition row_at :: "('r \<Rightarrow> 'k) \<Rightarrow> 'k \<Rightarrow> 'r list \<Rightarrow> 'r option" where
  "row_at key k t = find (\<lambda>r. key r = k) t"

text \<open>INSERT ... ON CONFLICT (key) DO UPDATE: \<open>merge\<close> combines the stored row with the proposed one.\<close>

definition upsert_row :: "('r \<Rightarrow> 'k) \<Rightarrow> ('r \<Rightarrow> 'r \<Rightarrow> 'r) \<Rightarrow> 'r \<Rightarrow> 'r list \<Rightarrow> 'r list" where
  "upsert_row key merge new t =
     (if row_at key (key new) t = None then t @ [new]
      else map (\<lambda>r. if key r = key new then merge r new else r) t)"

definition delete_rows :: "('r \<Rightarrow> bool) \<Rightarrow> 'r list \<Rightarrow> 'r list" where
  "delete_rows p t = filter (\<lambda>r. \<not> p r) t"

abbreviation keys_distinct :: "('r \<Rightarrow> 'k) \<Rightarrow> 'r list \<Rightarrow> bool" where
  "keys_distinct key t \<equiv> distinct (map key t)"

lemma row_at_SomeD: "row_at key k t = Some r \<Longrightarrow> r \<in> set t \<and> key r = k"
  unfolding row_at_def by (induction t) (auto split: if_splits)

lemma row_at_None: "row_at key k t = None \<longleftrightarrow> k \<notin> key ` set t"
  by (auto simp: row_at_def find_None_iff)

lemma row_at_append: "row_at key k (t @ u) = (case row_at key k t of None \<Rightarrow> row_at key k u | Some r \<Rightarrow> Some r)"
  unfolding row_at_def by (induction t) auto

lemma row_at_single: "row_at key k [r] = (if key r = k then Some r else None)"
  by (simp add: row_at_def)

lemma row_at_map:
  "(\<And>r. key (f r) = key r) \<Longrightarrow> row_at key k (map f t) = map_option f (row_at key k t)"
  unfolding row_at_def by (induction t) auto

lemma row_at_set: "keys_distinct key t \<Longrightarrow> r \<in> set t \<Longrightarrow> row_at key (key r) t = Some r"
  unfolding row_at_def by (induction t) force+

lemma map_if_key:
  "(\<And>r. key (merge r new) = key r) \<Longrightarrow>
   map key (map (\<lambda>r. if key r = key new then merge r new else r) t) = map key t"
  by (induction t) auto

lemma row_at_upsert [table_simps]:
  assumes "\<And>r. key (merge r new) = key r"
  shows "row_at key k (upsert_row key merge new t) =
    (if k = key new then Some (case row_at key k t of None \<Rightarrow> new | Some r \<Rightarrow> merge r new) else row_at key k t)"
proof (cases "row_at key (key new) t")
  case None
  then show ?thesis by (auto simp: upsert_row_def row_at_append row_at_single split: option.splits)
next
  case (Some r)
  let ?f = "\<lambda>r. if key r = key new then merge r new else r"
  have m: "row_at key k (map ?f t) = map_option ?f (row_at key k t)" using assms by (intro row_at_map) auto
  show ?thesis
  proof (cases "row_at key k t")
    case None
    then show ?thesis using m Some by (auto simp: upsert_row_def)
  next
    case (Some q)
    then show ?thesis using m \<open>row_at key (key new) t = Some r\<close> row_at_SomeD[OF Some]
      by (auto simp: upsert_row_def)
  qed
qed

lemma keys_upsert [table_simps]:
  assumes "\<And>r. key (merge r new) = key r"
  shows "keys_distinct key t \<Longrightarrow> keys_distinct key (upsert_row key merge new t)"
    "key ` set (upsert_row key merge new t) = insert (key new) (key ` set t)"
proof -
  have m: "map key (map (\<lambda>r. if key r = key new then merge r new else r) t) = map key t"
    by (rule map_if_key) (rule assms)
  show "keys_distinct key t \<Longrightarrow> keys_distinct key (upsert_row key merge new t)"
    unfolding upsert_row_def by (simp only: m split: if_split) (auto simp: row_at_None)
  show "key ` set (upsert_row key merge new t) = insert (key new) (key ` set t)"
  proof (cases "row_at key (key new) t")
    case None
    then show ?thesis by (auto simp: upsert_row_def)
  next
    case (Some r)
    then have "upsert_row key merge new t = map (\<lambda>r. if key r = key new then merge r new else r) t"
      by (simp add: upsert_row_def)
    then have "set (map key (upsert_row key merge new t)) = set (map key t)" by (simp only: m)
    then have "key ` set (upsert_row key merge new t) = set (map key t)" by (simp only: set_map)
    moreover have "key new \<in> key ` set t" using row_at_SomeD[OF Some] by (metis imageI)
    ultimately show ?thesis by (simp add: insert_absorb)
  qed
qed

lemma row_at_delete [table_simps]:
  assumes "keys_distinct key t"
  shows "row_at key k (delete_rows p t) = (case row_at key k t of None \<Rightarrow> None | Some r \<Rightarrow> if p r then None else Some r)"
  using assms
proof (induction t)
  case (Cons r t)
  show ?case
  proof (cases "key r = k")
    case True
    then have "row_at key k t = None" using Cons.prems by (auto simp: row_at_None)
    then have "row_at key k (delete_rows p t) = None" using Cons by simp
    then show ?thesis using True by (auto simp: row_at_def delete_rows_def)
  next
    case False
    then show ?thesis using Cons by (auto simp: row_at_def delete_rows_def)
  qed
qed (simp add: row_at_def delete_rows_def)

lemma keys_delete [table_simps]: "keys_distinct key t \<Longrightarrow> keys_distinct key (delete_rows p t)"
  unfolding delete_rows_def by (induction t) auto

lemma set_delete: "set (delete_rows p t) = {r \<in> set t. \<not> p r}"
  by (auto simp: delete_rows_def)

lemma delete_none: "(\<And>r. r \<in> set t \<Longrightarrow> \<not> p r) \<Longrightarrow> delete_rows p t = t"
  unfolding delete_rows_def by (induction t) auto

lemma set_upsert:
  "r \<in> set (upsert_row key merge new t) \<Longrightarrow> r = new \<or> r \<in> set t \<or> (\<exists>q \<in> set t. r = merge q new \<and> key q = key new)"
  by (auto simp: upsert_row_def split: if_splits)

subsection \<open>One entry per leg\<close>

text \<open>
  A component whose events each concern one leg: \<open>look\<close> reads the entry of a leg out of the state, an
  event on a leg updates this entry by \<open>upd\<close> and no other.
\<close>

locale leg_machine =
  fixes act :: "'e \<Rightarrow> 's \<Rightarrow> 's" and inv :: "'s \<Rightarrow> bool" and fit :: "'e \<Rightarrow> bool"
    and leg :: "'e \<Rightarrow> 'k" and look :: "'s \<Rightarrow> 'k \<Rightarrow> 'v" and upd :: "'e \<Rightarrow> 'v \<Rightarrow> 'v"
  assumes act_inv: "inv s \<Longrightarrow> fit e \<Longrightarrow> inv (act e s)"
    and act_look: "inv s \<Longrightarrow> fit e \<Longrightarrow> look (act e s) (leg e) = upd e (look s (leg e))"
    and act_other: "inv s \<Longrightarrow> fit e \<Longrightarrow> k \<noteq> leg e \<Longrightarrow> look (act e s) k = look s k"
begin

lemma run_inv: "inv s \<Longrightarrow> list_all fit es \<Longrightarrow> inv (fold act es s)"
  by (induction es arbitrary: s) (auto intro: act_inv)

lemma run_look:
  "inv s \<Longrightarrow> list_all fit es \<Longrightarrow> look (fold act es s) k = fold upd (filter (\<lambda>e. leg e = k) es) (look s k)"
proof (induction es arbitrary: s)
  case (Cons e es)
  have "look (act e s) k = (if leg e = k then upd e (look s k) else look s k)"
    using act_look[of s e] act_other[of s e k] Cons.prems by auto
  then show ?case using Cons by (simp add: act_inv)
qed simp

lemma run_untouched:
  assumes "inv s" "list_all fit es" "\<forall>e \<in> set es. leg e \<noteq> k"
  shows "look (fold act es s) k = look s k"
proof -
  have "filter (\<lambda>e. leg e = k) es = []" using assms(3) by auto
  then show ?thesis using run_look[OF assms(1,2), of k] by simp
qed

end

end
