(* ===== verification/LocalPositions.thy ===== *)
theory LocalPositions
  imports Symbols Tables
begin

text \<open>
  The local ledger of live strategies, \<open>live_trading/records.py\<close>: the tables of strategy positions and
  trades, the reads that tolerate several spellings of a symbol, and \<open>apply_fill_to_local_position\<close>,
  which turns a fill into the new position row and the leg_profit profit. Amounts are stored with eight
  decimals; the overflow of a DECIMAL column at 10^12 and the time stamps are left out.
\<close>

subsection \<open>Tables\<close>

record position_row =
  pr_id :: int
  pr_user :: int
  pr_strategy :: int
  pr_symbol :: string
  pr_canonical :: string
  pr_side :: string
  pr_size :: real
  pr_entry :: real
  pr_current :: real
  pr_high :: real
  pr_low :: real
  pr_market :: string
  pr_credential :: int
  pr_inst :: string

record trade_row =
  tr_id :: int
  tr_user :: int
  tr_strategy :: int
  tr_symbol :: string
  tr_canonical :: string
  tr_type :: string
  tr_price :: real
  tr_amount :: real
  tr_value :: real
  tr_commission :: real
  tr_commission_ccy :: string
  tr_commission_quote :: "real option"
  tr_profit :: "real option"
  tr_close_reason :: string
  tr_matched_entry :: real
  tr_grid_profit :: real
  tr_market :: string
  tr_credential :: int
  tr_inst :: string
  tr_fill_source :: string
  tr_pending :: int
  tr_grid_order :: int
  tr_run :: int
  tr_intent :: int
  tr_event :: int
  tr_fill_id :: string
  tr_fee_status :: string
  tr_fee_source :: string

record live_db =
  ld_owners :: "(int \<times> int) list"
  ld_positions :: "position_row list"
  ld_next_position :: int
  ld_trades :: "trade_row list"
  ld_next_trade :: int

definition row_key :: "position_row \<Rightarrow> int \<times> string \<times> string" where
  "row_key r = (pr_strategy r, pr_symbol r, pr_side r)"

definition user_of_strategy :: "live_db \<Rightarrow> int \<Rightarrow> int" where
  "user_of_strategy db sid = (case map_of (ld_owners db) sid of None \<Rightarrow> 1 | Some u \<Rightarrow> if u = 0 then 1 else u)"

subsection \<open>Reading positions\<close>

definition fetch_position :: "live_db \<Rightarrow> int \<Rightarrow> string \<Rightarrow> string \<Rightarrow> position_row option" where
  "fetch_position db sid symbol side = row_at row_key (sid, symbol, side) (ld_positions db)"

fun first_open :: "live_db \<Rightarrow> int \<Rightarrow> string \<Rightarrow> string list \<Rightarrow> position_row option" where
  "first_open db sid side [] = None"
| "first_open db sid side (c # cs) =
     (case fetch_position db sid c side of
        None \<Rightarrow> first_open db sid side cs
      | Some r \<Rightarrow> if pr_size r > 0 then Some r else first_open db sid side cs)"

definition fetch_position_fuzzy :: "live_db \<Rightarrow> int \<Rightarrow> string \<Rightarrow> string \<Rightarrow> position_row option \<times> string" where
  "fetch_position_fuzzy db sid symbol side =
     (first_open db sid (lower_strip side) (symbol_candidates symbol), write_symbol symbol)"

definition fetch_position_size_for_side :: "live_db \<Rightarrow> int \<Rightarrow> string \<Rightarrow> string \<Rightarrow> real" where
  "fetch_position_size_for_side db sid symbol side =
     (case fst (fetch_position_fuzzy db sid symbol side) of None \<Rightarrow> 0 | Some r \<Rightarrow> max 0 (pr_size r))"

definition in_scope :: "int \<Rightarrow> int \<Rightarrow> position_row \<Rightarrow> bool" where
  "in_scope sid cred r =
     (if cred > 0 \<and> sid > 0 then pr_credential r = cred \<or> pr_strategy r = sid
      else if cred > 0 then pr_credential r = cred else pr_strategy r = sid)"

definition fetch_allocated_position_size :: "live_db \<Rightarrow> int \<Rightarrow> int \<Rightarrow> string \<Rightarrow> string \<Rightarrow> string \<Rightarrow> real" where
  "fetch_allocated_position_size db sid cred market_type symbol side =
     (let side_l = lower_strip side; mt = swap_market (lower_strip (default_text market_type ''swap'')) in
      if side_l \<notin> set side_names \<or> \<not> (cred > 0 \<or> sid > 0) then 0
      else sum_of (\<lambda>r. max 0 (pr_size r))
        (filter (\<lambda>r. pr_side r = side_l \<and> pr_market r = mt \<and> pr_size r > 0 \<and> in_scope sid cred r \<and>
             normalize_strategy_symbol (default_text (pr_canonical r) (pr_symbol r)) =
               normalize_strategy_symbol symbol) (ld_positions db)))"

definition strategy_has_trades_for_symbol :: "live_db \<Rightarrow> int \<Rightarrow> string \<Rightarrow> bool" where
  "strategy_has_trades_for_symbol db sid symbol =
     (sid > 0 \<and> list_ex (\<lambda>t. tr_strategy t = sid \<and> tr_symbol t \<in> set (symbol_candidates symbol)) (ld_trades db))"

subsection \<open>Writing positions\<close>

definition merge_position :: "position_row \<Rightarrow> position_row \<Rightarrow> position_row" where
  "merge_position old new = old\<lparr>
     pr_canonical := pr_canonical new, pr_size := pr_size new, pr_entry := pr_entry new,
     pr_current := pr_current new,
     pr_high := (if pr_high new > 0 then pr_high new else pr_high old),
     pr_low := (if pr_low new > 0 then pr_low new else pr_low old),
     pr_market := pr_market new,
     pr_credential := (if pr_credential new > 0 then pr_credential new else pr_credential old),
     pr_inst := (if pr_inst new \<noteq> [] then pr_inst new else pr_inst old)\<rparr>"

definition is_alias_row :: "int \<Rightarrow> string \<Rightarrow> string \<Rightarrow> position_row \<Rightarrow> bool" where
  "is_alias_row sid side canon r =
     (pr_strategy r = sid \<and> pr_side r = side \<and> py_strip (pr_symbol r) \<notin> {[], canon} \<and>
      normalize_strategy_symbol (py_strip (pr_symbol r)) = canon)"

definition purge_duplicates :: "int \<Rightarrow> string \<Rightarrow> string \<Rightarrow> live_db \<Rightarrow> live_db" where
  "purge_duplicates sid side canonical db =
     (let canon = write_symbol canonical in
      if canon = [] then db
      else db\<lparr>ld_positions := delete_rows (is_alias_row sid (lower_strip side) canon) (ld_positions db)\<rparr>)"

text \<open>The row \<open>upsert_position\<close> proposes.\<close>

definition proposed_row ::
  "int \<Rightarrow> string \<Rightarrow> string \<Rightarrow> real \<Rightarrow> real \<Rightarrow> real \<Rightarrow> real \<Rightarrow> real \<Rightarrow> int option \<Rightarrow> leg_context option \<Rightarrow>
   string \<Rightarrow> int \<Rightarrow> string \<Rightarrow> live_db \<Rightarrow> position_row" where
  "proposed_row sid sym_key side qty entry current high low user leg market cred inst db =
     (let mt0 = lower_strip market;
          mt = (case leg of None \<Rightarrow> mt0 | Some l \<Rightarrow> default_text mt0 (leg_market l));
          c = (case leg of None \<Rightarrow> cred | Some l \<Rightarrow> if cred = 0 then leg_credential l else cred);
          i = (case leg of None \<Rightarrow> py_strip inst | Some l \<Rightarrow> default_text (py_strip inst) (leg_inst l))
      in \<lparr>pr_id = ld_next_position db,
          pr_user = (case user of None \<Rightarrow> user_of_strategy db sid | Some u \<Rightarrow> u),
          pr_strategy = sid, pr_symbol = sym_key, pr_canonical = sym_key, pr_side = side,
          pr_size = decimal8 qty, pr_entry = decimal8 entry, pr_current = decimal8 current,
          pr_high = decimal8 high, pr_low = decimal8 low,
          pr_market = default_text (swap_market mt) ''swap'', pr_credential = c, pr_inst = i\<rparr>)"

definition upsert_position ::
  "int \<Rightarrow> string \<Rightarrow> string \<Rightarrow> real \<Rightarrow> real \<Rightarrow> real \<Rightarrow> real \<Rightarrow> real \<Rightarrow> int option \<Rightarrow> leg_context option \<Rightarrow>
   string \<Rightarrow> int \<Rightarrow> string \<Rightarrow> live_db \<Rightarrow> live_db" where
  "upsert_position sid symbol side qty entry current high low user leg market cred inst db =
     (let sym_key = write_symbol symbol;
          new = proposed_row sid sym_key side qty entry current high low user leg market cred inst db
      in purge_duplicates sid side sym_key
           (db\<lparr>ld_positions := upsert_row row_key merge_position new (ld_positions db),
               ld_next_position := ld_next_position db + 1\<rparr>))"

definition delete_position :: "int \<Rightarrow> string \<Rightarrow> string \<Rightarrow> live_db \<Rightarrow> live_db" where
  "delete_position sid symbol side db =
     db\<lparr>ld_positions := delete_rows (\<lambda>r. pr_strategy r = sid \<and> pr_side r = lower_strip side \<and>
          pr_symbol r \<in> set (symbol_candidates symbol)) (ld_positions db)\<rparr>"

definition patch_position_markers ::
  "int \<Rightarrow> string \<Rightarrow> string \<Rightarrow> real \<Rightarrow> real \<Rightarrow> real \<Rightarrow> live_db \<Rightarrow> bool \<times> live_db" where
  "patch_position_markers sid symbol side current high low db =
     (let side_l = lower_strip side; (row, sym_key) = fetch_position_fuzzy db sid symbol side_l;
          hit = (\<lambda>r. row_key r = (sid, sym_key, side_l) \<and> pr_size r > 0);
          patch = (\<lambda>r. r\<lparr>pr_current := decimal8 current,
             pr_high := (if high > 0 then decimal8 high else pr_high r),
             pr_low := (if low > 0 then decimal8 low else pr_low r)\<rparr>)
      in if side_l \<notin> set side_names \<or> current \<le> 0 \<or> row = None then (False, db)
         else (list_ex hit (ld_positions db),
               db\<lparr>ld_positions := map (\<lambda>r. if hit r then patch r else r) (ld_positions db)\<rparr>))"

subsection \<open>Fills\<close>

definition signal_side :: "string \<Rightarrow> string option" where
  "signal_side sig =
     (if py_contains sig ''long'' then Some ''long''
      else if py_contains sig ''short'' then Some ''short'' else None)"

definition opens_leg :: "string \<Rightarrow> bool" where
  "opens_leg sig = (py_startswith sig ''open_'' \<or> py_startswith sig ''add_'')"

definition closes_leg :: "string \<Rightarrow> bool" where
  "closes_leg sig = (py_startswith sig ''close_'' \<or> py_startswith sig ''reduce_'')"

type_synonym fill_result = "real option \<times> position_row option \<times> real option"

definition leg_profit :: "string \<Rightarrow> real \<Rightarrow> real \<Rightarrow> real \<Rightarrow> real" where
  "leg_profit side px entry qty = (if side = ''long'' then (px - entry) * qty else (entry - px) * qty)"

definition apply_fill_to_local_position ::
  "int \<Rightarrow> string \<Rightarrow> string \<Rightarrow> real \<Rightarrow> real \<Rightarrow> leg_context option \<Rightarrow> live_db \<Rightarrow> fill_result \<times> live_db" where
  "apply_fill_to_local_position sid symbol signal_type filled px leg db =
     (let sig = lower_strip signal_type in
      if filled \<le> 0 \<or> px \<le> 0 then ((None, None, None), db)
      else case signal_side sig of
        None \<Rightarrow> ((None, None, None), db)
      | Some side \<Rightarrow>
        (let cur = fst (fetch_position_fuzzy db sid symbol side);
             val = (\<lambda>f. case cur of None \<Rightarrow> 0 | Some r \<Rightarrow> f r);
             cur_size = val pr_size; cur_entry = val pr_entry;
             sym_key = write_symbol symbol;
             new_high = max (py_or (val pr_high) px) px; new_low = min (py_or (val pr_low) px) px
         in
         if opens_leg sig then
           (let new_size = cur_size + filled;
                new_entry = (if cur_size > 0 \<and> cur_entry > 0
                             then (cur_size * cur_entry + filled * px) / new_size else px);
                db1 = upsert_position sid sym_key side new_size new_entry px new_high new_low None leg [] 0 [] db
            in if new_size \<le> 0 then ((None, None, None), db)
               else ((None, fetch_position db1 sid sym_key side, None), db1))
         else if closes_leg sig then
           (let priced = cur_size > 0 \<and> cur_entry > 0;
                profit = (if priced then Some (leg_profit side px cur_entry (min cur_size filled)) else None);
                matched = (if priced then Some cur_entry else None);
                new_size = cur_size - filled;
                db1 = upsert_position sid sym_key side new_size (if cur_entry > 0 then cur_entry else px)
                        px new_high new_low None leg [] 0 [] db
            in if new_size \<le> 0 then ((profit, None, matched), delete_position sid sym_key side db)
               else ((profit, fetch_position db1 sid sym_key side, matched), db1))
         else ((None, None, None), db)))"

subsection \<open>Trades\<close>

record trade_input =
  ti_symbol :: string
  ti_type :: string
  ti_price :: real
  ti_amount :: real
  ti_commission :: real
  ti_commission_ccy :: string
  ti_commission_quote :: "real option"
  ti_profit :: "real option"
  ti_close_reason :: string
  ti_user :: "int option"
  ti_matched_entry :: "real option"
  ti_grid_profit :: "real option"
  ti_leg :: "leg_context option"
  ti_market :: string
  ti_credential :: int
  ti_inst :: string
  ti_fill_source :: string
  ti_pending :: int
  ti_grid_order :: int
  ti_run :: int
  ti_intent :: int
  ti_event :: int
  ti_fill_id :: string
  ti_fee_status :: string
  ti_fee_source :: string

definition some_or_0 :: "real option \<Rightarrow> real" where
  "some_or_0 x = (case x of None \<Rightarrow> 0 | Some v \<Rightarrow> v)"

definition trade_of_input :: "int \<Rightarrow> trade_input \<Rightarrow> live_db \<Rightarrow> trade_row" where
  "trade_of_input sid t db =
     (let mt0 = lower_strip (ti_market t); leg = ti_leg t;
          with_leg = (\<lambda>x f. case leg of None \<Rightarrow> x | Some l \<Rightarrow> default_text x (f l));
          int_leg = (\<lambda>x f. case leg of None \<Rightarrow> x | Some l \<Rightarrow> if x = 0 then f l else x);
          mt = default_text (swap_market (with_leg mt0 leg_market)) ''swap''
      in \<lparr>tr_id = ld_next_trade db,
          tr_user = (case ti_user t of None \<Rightarrow> user_of_strategy db sid | Some u \<Rightarrow> u),
          tr_strategy = sid, tr_symbol = write_symbol (ti_symbol t), tr_canonical = write_symbol (ti_symbol t),
          tr_type = ti_type t, tr_price = decimal8 (ti_price t), tr_amount = decimal8 (ti_amount t),
          tr_value = decimal8 (ti_amount t * ti_price t), tr_commission = decimal8 (ti_commission t),
          tr_commission_ccy = ti_commission_ccy t,
          tr_commission_quote = map_option decimal8 (ti_commission_quote t),
          tr_profit = map_option decimal8 (ti_profit t), tr_close_reason = py_strip (ti_close_reason t),
          tr_matched_entry = decimal8 (some_or_0 (ti_matched_entry t)),
          tr_grid_profit = decimal8 (some_or_0 (ti_grid_profit t)), tr_market = mt,
          tr_credential = int_leg (ti_credential t) leg_credential,
          tr_inst = with_leg (py_strip (ti_inst t)) leg_inst,
          tr_fill_source = with_leg (py_strip (ti_fill_source t)) leg_fill_source,
          tr_pending = int_leg (ti_pending t) leg_pending, tr_grid_order = ti_grid_order t,
          tr_run = ti_run t, tr_intent = ti_intent t, tr_event = ti_event t, tr_fill_id = ti_fill_id t,
          tr_fee_status = default_text (ti_fee_status t) ''pending'', tr_fee_source = ti_fee_source t\<rparr>)"

text \<open>A conflict on a positive execution event stores nothing and returns 0; the serial number is spent either way.\<close>

definition record_trade :: "int \<Rightarrow> trade_input \<Rightarrow> live_db \<Rightarrow> int \<times> live_db" where
  "record_trade sid t db =
     (let row = trade_of_input sid t db; db1 = db\<lparr>ld_next_trade := ld_next_trade db + 1\<rparr> in
      if ti_event t > 0 \<and> list_ex (\<lambda>r. tr_event r = ti_event t) (ld_trades db) then (0, db1)
      else (tr_id row, db1\<lparr>ld_trades := ld_trades db @ [row]\<rparr>))"

text \<open>\<open>rebuild_positions_from_trades\<close>: only from an empty position table of the strategy.\<close>

definition replay_leg :: "trade_row \<Rightarrow> leg_context" where
  "replay_leg t = \<lparr>leg_market_type = default_text (swap_market (lower_strip (default_text (tr_market t) ''swap''))) ''swap'',
     leg_credential = tr_credential t, leg_inst = tr_inst t,
     leg_fill_source = default_text (tr_fill_source t) ''replay'', leg_pending = 0\<rparr>"

definition replay_trade :: "int \<Rightarrow> trade_row \<Rightarrow> live_db \<Rightarrow> live_db" where
  "replay_trade sid t db =
     snd (apply_fill_to_local_position sid
       (default_text (normalize_strategy_symbol (tr_symbol t)) (tr_symbol t))
       (tr_type t) (tr_amount t) (tr_price t) (Some (replay_leg t)) db)"

definition rebuild_positions_from_trades :: "int \<Rightarrow> live_db \<Rightarrow> bool \<times> live_db" where
  "rebuild_positions_from_trades sid db =
     (let trades = filter (\<lambda>t. tr_strategy t = sid) (ld_trades db) in
      if sid \<le> 0 \<or> list_ex (\<lambda>r. pr_strategy r = sid) (ld_positions db) \<or> trades = [] then (False, db)
      else (True, fold (replay_trade sid) trades db))"

end
