(* ===== verification/PositionLaws.thy ===== *)
theory PositionLaws
  imports LocalPositions
begin

text \<open>
  Laws of the local ledger: every fill moves exactly one leg, by the abstract book of size and average
  entry (refinement), the leg_profit profits of a leg account for its cash flow up to the rounding of the
  stored entry prices, and an execution event is booked as one trade at most.
\<close>

subsection \<open>The canonical table\<close>

definition canonical_row :: "position_row \<Rightarrow> bool" where
  "canonical_row r \<longleftrightarrow> pr_symbol r \<noteq> [] \<and> py_strip (pr_symbol r) = pr_symbol r \<and>
     normalize_strategy_symbol (pr_symbol r) = pr_symbol r"

definition ledger_ok :: "live_db \<Rightarrow> bool" where
  "ledger_ok db \<longleftrightarrow> keys_distinct row_key (ld_positions db) \<and> list_all canonical_row (ld_positions db)"

lemma ledger_okI:
  "keys_distinct row_key (ld_positions db) \<Longrightarrow> (\<And>r. r \<in> set (ld_positions db) \<Longrightarrow> canonical_row r) \<Longrightarrow>
   ledger_ok db"
  by (simp add: ledger_ok_def list_all_iff)

lemma ledger_okD:
  assumes "ledger_ok db"
  shows "keys_distinct row_key (ld_positions db)" "r \<in> set (ld_positions db) \<Longrightarrow> canonical_row r"
  using assms by (auto simp: ledger_ok_def list_all_iff)

lemma merge_row_key [simp]: "row_key (merge_position r new) = row_key r"
  by (simp add: merge_position_def row_key_def)

lemma merge_canonical [simp]: "canonical_row (merge_position r new) = canonical_row r"
  by (simp add: merge_position_def canonical_row_def)

lemma merge_values [simp]:
  "pr_size (merge_position r new) = pr_size new" "pr_entry (merge_position r new) = pr_entry new"
  by (simp_all add: merge_position_def)

text \<open>In a canonical table no row is an alias of another.\<close>

lemma no_alias: "canonical_row r \<Longrightarrow> \<not> is_alias_row sid side canon r"
  by (auto simp: is_alias_row_def canonical_row_def)

lemma purge_nothing: "ledger_ok db \<Longrightarrow> purge_duplicates sid side c db = db"
  by (simp add: purge_duplicates_def Let_def delete_none[OF no_alias] ledger_okD(2))

subsection \<open>The leg of a key\<close>

type_synonym leg_key = "int \<times> string \<times> string"

definition open_row :: "live_db \<Rightarrow> leg_key \<Rightarrow> position_row option" where
  "open_row db k = (case row_at row_key k (ld_positions db) of
      None \<Rightarrow> None | Some r \<Rightarrow> if pr_size r > 0 then Some r else None)"

definition leg_of :: "live_db \<Rightarrow> leg_key \<Rightarrow> (real \<times> real) option" where
  "leg_of db k = map_option (\<lambda>r. (pr_size r, pr_entry r)) (open_row db k)"

lemma first_open_none:
  "(\<And>c. c \<in> set cs \<Longrightarrow> fetch_position db sid c side = None) \<Longrightarrow> first_open db sid side cs = None"
  by (induction cs) auto

lemma fetch_canonical:
  assumes "ledger_ok db" "fetch_position db sid c side = Some r"
  shows "normalize_strategy_symbol c = c"
  using row_at_SomeD[OF assms(2)[unfolded fetch_position_def]] ledger_okD(2)[OF assms(1)]
  by (auto simp: row_key_def canonical_row_def)

lemma first_open_canonical:
  assumes ok: "ledger_ok db" and same: "\<And>c. c \<in> set cs \<Longrightarrow> normalize_strategy_symbol c = n" and n: "n \<in> set cs"
  shows "first_open db sid side cs = open_row db (sid, n, side)"
  using same n
proof (induction cs)
  case (Cons c cs)
  have other: "fetch_position db sid d side = None" if "d \<in> set (c # cs)" "d \<noteq> n" for d
    using fetch_canonical[OF ok, of sid d side] Cons.prems(1)[OF that(1)] that(2) by (cases "fetch_position db sid d side") auto
  have fetch: "open_row db (sid, n, side) = (case fetch_position db sid n side of
      None \<Rightarrow> None | Some r \<Rightarrow> if pr_size r > 0 then Some r else None)"
    by (simp add: open_row_def fetch_position_def)
  show ?case
  proof (cases "n \<in> set cs")
    case True
    with Cons have "first_open db sid side cs = open_row db (sid, n, side)" by simp
    then show ?thesis using other[of c] fetch by (cases "c = n") (auto split: option.splits)
  next
    case False
    then have c: "c = n" using Cons.prems(2) by simp
    have "first_open db sid side cs = None" using other False by (intro first_open_none) auto
    then show ?thesis using c fetch by (auto split: option.splits)
  qed
qed simp

lemma fuzzy_canonical:
  assumes "ledger_ok db" "resolvable symbol" "lower_strip side = side"
  shows "fetch_position_fuzzy db sid symbol side =
    (open_row db (sid, normalize_strategy_symbol symbol, side), normalize_strategy_symbol symbol)"
  using first_open_canonical[OF assms(1) resolvableD(7)[OF assms(2)] resolvableD(5)[OF assms(2)]] assms(3)
  by (simp add: fetch_position_fuzzy_def resolvableD(1)[OF assms(2)])

lemma leg_sides [simp]: "lower_strip ''long'' = ''long''" "lower_strip ''short'' = ''short''"
  by code_simp+

subsection \<open>What the writes do to the legs\<close>

lemma upsert_leg:
  fixes q e cur hi lo :: real and sid :: int and side mt inst :: string and user :: "int option"
    and leg :: "leg_context option" and cred :: int and k :: leg_key
  assumes "ledger_ok db" "resolvable symbol"
  defines "n \<equiv> normalize_strategy_symbol symbol"
  defines "db1 \<equiv> upsert_position sid n side q e cur hi lo user leg mt cred inst db"
  shows "ledger_ok db1 \<and> leg_of db1 k =
    (if k = (sid, n, side) then (if decimal8 q > 0 then Some (decimal8 q, decimal8 e) else None) else leg_of db k)"
proof -
  define new where "new = proposed_row sid n side q e cur hi lo user leg mt cred inst db"
  have key: "row_key new = (sid, n, side)" "pr_size new = decimal8 q" "pr_entry new = decimal8 e"
      "pr_symbol new = n"
    by (simp_all add: new_def proposed_row_def Let_def row_key_def)
  have db1: "db1 = purge_duplicates sid side n (db\<lparr>ld_positions := upsert_row row_key merge_position new (ld_positions db),
        ld_next_position := ld_next_position db + 1\<rparr>)" (is "_ = purge_duplicates _ _ _ ?mid")
    using resolvable_normal[OF assms(2)] by (simp add: db1_def upsert_position_def Let_def n_def new_def)
  have can: "canonical_row new"
    using key(4) resolvableD[OF assms(2)] by (simp add: canonical_row_def n_def)
  have ok: "ledger_ok ?mid"
  proof (rule ledger_okI)
    show "keys_distinct row_key (ld_positions ?mid)"
      using ledger_okD(1)[OF assms(1)] by (simp add: keys_upsert)
    show "canonical_row r" if "r \<in> set (ld_positions ?mid)" for r
      using set_upsert[of r row_key merge_position new "ld_positions db"] that can ledger_okD(2)[OF assms(1)] by auto
  qed
  have "row_at row_key k (ld_positions ?mid) =
      (if k = (sid, n, side) then Some (case row_at row_key k (ld_positions db) of None \<Rightarrow> new | Some r \<Rightarrow> merge_position r new)
       else row_at row_key k (ld_positions db))"
    by (simp add: row_at_upsert key(1))
  then have "leg_of ?mid k = (if k = (sid, n, side) then (if decimal8 q > 0 then Some (decimal8 q, decimal8 e) else None)
      else leg_of db k)"
    by (auto simp: leg_of_def open_row_def key split: option.splits)
  with ok show ?thesis by (simp add: db1 purge_nothing[OF ok])
qed

lemma delete_leg:
  fixes sid :: int and k :: leg_key
  assumes "ledger_ok db" "resolvable symbol" "lower_strip side = side"
  defines "n \<equiv> normalize_strategy_symbol symbol"
  defines "db1 \<equiv> delete_position sid n side db"
  shows "ledger_ok db1 \<and> leg_of db1 k = (if k = (sid, n, side) then None else leg_of db k)"
proof -
  let ?p = "\<lambda>r. pr_strategy r = sid \<and> pr_side r = side \<and> pr_symbol r \<in> set (symbol_candidates n)"
  have db1: "ld_positions db1 = delete_rows ?p (ld_positions db)" by (simp add: db1_def delete_position_def assms(3))
  have p: "?p r \<longleftrightarrow> row_key r = (sid, n, side)" if "canonical_row r" for r
    using that resolvableD(6,8)[OF assms(2)] by (auto simp: row_key_def canonical_row_def n_def)
  have ok: "ledger_ok db1"
    using ledger_okD[OF assms(1)] by (intro ledger_okI) (auto simp: db1 keys_delete set_delete)
  have "row_at row_key k (ld_positions db1) =
      (if k = (sid, n, side) then None else row_at row_key k (ld_positions db))"
  proof (cases "row_at row_key k (ld_positions db)")
    case None
    then show ?thesis by (simp add: db1 row_at_delete ledger_okD(1)[OF assms(1)])
  next
    case (Some r)
    then have "canonical_row r" "row_key r = k" using row_at_SomeD[OF Some] ledger_okD(2)[OF assms(1)] by auto
    then show ?thesis using p[of r] by (simp add: db1 row_at_delete ledger_okD(1)[OF assms(1)] Some)
  qed
  then have "leg_of db1 k = (if k = (sid, n, side) then None else leg_of db k)"
    by (simp add: leg_of_def open_row_def)
  with ok show ?thesis by blast
qed

subsection \<open>Fills on the abstract book\<close>

record fill =
  fl_strategy :: int
  fl_symbol :: string
  fl_signal :: string
  fl_qty :: real
  fl_price :: real
  fl_leg :: "leg_context option"

definition apply_fill :: "fill \<Rightarrow> live_db \<Rightarrow> fill_result \<times> live_db" where
  "apply_fill e = apply_fill_to_local_position (fl_strategy e) (fl_symbol e) (fl_signal e) (fl_qty e) (fl_price e) (fl_leg e)"

definition fill_side :: "fill \<Rightarrow> string" where
  "fill_side e = (case signal_side (lower_strip (fl_signal e)) of None \<Rightarrow> [] | Some s \<Rightarrow> s)"

definition is_opening :: "fill \<Rightarrow> bool" where
  "is_opening e = opens_leg (lower_strip (fl_signal e))"

definition fill_leg :: "fill \<Rightarrow> leg_key" where
  "fill_leg e = (fl_strategy e, normalize_strategy_symbol (fl_symbol e), fill_side e)"

text \<open>A fill the ledger acts on: a leg, an open or close signal, a quantity and a price.\<close>

definition proper_fill :: "fill \<Rightarrow> bool" where
  "proper_fill e = (resolvable (fl_symbol e) \<and> signal_side (lower_strip (fl_signal e)) \<noteq> None \<and>
     (is_opening e \<or> closes_leg (lower_strip (fl_signal e))) \<and> fl_qty e > 0 \<and> fl_price e > 0)"

text \<open>The contract: a book holds a size and an average entry, stored with eight decimals.\<close>

definition leg_row :: "real \<Rightarrow> real \<Rightarrow> (real \<times> real) option" where
  "leg_row s e = (if decimal8 s > 0 then Some (decimal8 s, decimal8 e) else None)"

definition leg_fill :: "fill \<Rightarrow> (real \<times> real) option \<Rightarrow> (real \<times> real) option" where
  "leg_fill f v =
     (case v of
        None \<Rightarrow> if is_opening f then leg_row (fl_qty f) (fl_price f) else None
      | Some (s, e) \<Rightarrow>
          if is_opening f then
            leg_row (s + fl_qty f) (if e > 0 then (s * e + fl_qty f * fl_price f) / (s + fl_qty f) else fl_price f)
          else if s - fl_qty f \<le> 0 then None
          else leg_row (s - fl_qty f) (if e > 0 then e else fl_price f))"

definition fill_profit :: "fill \<Rightarrow> (real \<times> real) option \<Rightarrow> real option" where
  "fill_profit f v =
     (case v of None \<Rightarrow> None | Some (s, e) \<Rightarrow>
        if is_opening f \<or> \<not> e > 0 then None else Some (leg_profit (fill_side f) (fl_price f) e (min s (fl_qty f))))"

lemma signal_side_cases: "signal_side s = Some x \<Longrightarrow> x = ''long'' \<or> x = ''short''"
  by (auto simp: signal_side_def split: if_splits)

lemma leg_of_row: "open_row db k = Some r \<Longrightarrow> leg_of db k = Some (pr_size r, pr_entry r) \<and> pr_size r > 0"
  by (auto simp: leg_of_def open_row_def split: option.splits if_splits)

lemma leg_of_no_row: "open_row db k = None \<Longrightarrow> leg_of db k = None"
  by (simp add: leg_of_def)

lemma apply_fill_refines:
  assumes ok: "ledger_ok db" and fit: "proper_fill f"
  shows "ledger_ok (snd (apply_fill f db)) \<and>
    (\<forall>k. leg_of (snd (apply_fill f db)) k =
       (if k = fill_leg f then leg_fill f (leg_of db (fill_leg f)) else leg_of db k)) \<and>
    fst (fst (apply_fill f db)) = fill_profit f (leg_of db (fill_leg f))"
proof -
  obtain sid sym sg q p lg where f: "f = \<lparr>fl_strategy = sid, fl_symbol = sym, fl_signal = sg, fl_qty = q, fl_price = p, fl_leg = lg\<rparr>"
    by (cases f)
  obtain side where side: "signal_side (lower_strip sg) = Some side" using fit by (auto simp: proper_fill_def f)
  define n where "n = normalize_strategy_symbol sym"
  define k0 where "k0 = (sid, n, side)"
  have res: "resolvable sym" and qp: "q > 0" "p > 0" "\<not> q \<le> 0" "\<not> p \<le> 0"
    and sig: "opens_leg (lower_strip sg) \<or> closes_leg (lower_strip sg)"
    using fit by (auto simp: proper_fill_def f is_opening_def)
  have ls: "lower_strip side = side" using signal_side_cases[OF side] by auto
  have wn: "write_symbol sym = n" using resolvableD(1)[OF res] by (simp add: n_def)
  have leg: "fill_leg f = k0" by (simp add: fill_leg_def f fill_side_def side k0_def n_def)
  have fz: "fst (fetch_position_fuzzy db sid sym side) = open_row db k0"
    using fuzzy_canonical[OF ok res ls, of sid] by (simp add: k0_def n_def)
  note up = upsert_leg[OF ok res, folded n_def, of sid side, folded k0_def]
  note del = delete_leg[OF ok res ls, folded n_def, of sid, folded k0_def]
  have run: "apply_fill f db = apply_fill_to_local_position sid sym sg q p lg db" by (simp add: apply_fill_def f)
  show ?thesis
  proof (cases "open_row db k0")
    case None
    note n0 = None leg_of_no_row[OF None]
    show ?thesis
      unfolding run leg
      using up del qp sig side ok
      by (cases "opens_leg (lower_strip sg)") (simp_all add: apply_fill_to_local_position_def Let_def fz n0 wn leg_fill_def fill_profit_def is_opening_def f leg_row_def)
  next
    case (Some r)
    note r0 = Some leg_of_row[OF Some, THEN conjunct1]
    have s: "pr_size r > 0" "\<not> pr_size r + q \<le> 0" using leg_of_row[OF Some] qp by auto
    show ?thesis
      unfolding run leg
      using up del qp sig side s ok
      by (cases "opens_leg (lower_strip sg)") (simp_all add: apply_fill_to_local_position_def Let_def fz r0 wn leg_fill_def fill_profit_def is_opening_def f leg_row_def
          fill_side_def)
  qed
qed

interpretation ledger: leg_machine "\<lambda>f db. snd (apply_fill f db)" ledger_ok proper_fill fill_leg leg_of leg_fill
  by unfold_locales (auto simp: apply_fill_refines)

subsection \<open>Realised profit accounts for the cash flow\<close>

text \<open>The profits the fills of a leg report, and the leg's cash flow.\<close>

fun profit_on :: "leg_key \<Rightarrow> fill list \<Rightarrow> live_db \<Rightarrow> real" where
  "profit_on k [] db = 0"
| "profit_on k (f # fs) db =
     (if fill_leg f = k then some_or_0 (fst (fst (apply_fill f db))) else 0) + profit_on k fs (snd (apply_fill f db))"

fun book_profits :: "fill list \<Rightarrow> (real \<times> real) option \<Rightarrow> real" where
  "book_profits [] v = 0"
| "book_profits (f # fs) v = some_or_0 (fill_profit f v) + book_profits fs (leg_fill f v)"

definition signed_flow :: "fill \<Rightarrow> real" where
  "signed_flow f = (if is_opening f then - 1 else 1) * fl_qty f * fl_price f"

definition leg_sign :: "leg_key \<Rightarrow> real" where
  "leg_sign k = (if snd (snd k) = ''long'' then 1 else - 1)"

definition book_cost :: "(real \<times> real) option \<Rightarrow> real" where
  "book_cost v = (case v of None \<Rightarrow> 0 | Some (s, e) \<Rightarrow> s * e)"

definition size_of :: "(real \<times> real) option \<Rightarrow> real" where
  "size_of v = (case v of None \<Rightarrow> 0 | Some (s, e) \<Rightarrow> s)"

text \<open>No fill closes more than the leg holds.\<close>

fun covered :: "real \<Rightarrow> fill list \<Rightarrow> bool" where
  "covered s [] = True"
| "covered s (f # fs) = (if is_opening f then covered (s + fl_qty f) fs else fl_qty f \<le> s \<and> covered (s - fl_qty f) fs)"

text \<open>Quantities a column holds exactly, prices it does not round to zero.\<close>

definition stored_exactly :: "fill \<Rightarrow> bool" where
  "stored_exactly f \<longleftrightarrow> exact8 (fl_qty f) \<and> half8 \<le> fl_price f"

definition opened :: "fill list \<Rightarrow> real" where
  "opened fs = sum_of fl_qty (filter is_opening fs)"

lemma profit_on_book:
  "ledger_ok db \<Longrightarrow> list_all proper_fill fs \<Longrightarrow>
   profit_on k fs db = book_profits (filter (\<lambda>f. fill_leg f = k) fs) (leg_of db k)"
proof (induction fs arbitrary: db)
  case (Cons f fs)
  then have r: "ledger_ok (snd (apply_fill f db))"
      "leg_of (snd (apply_fill f db)) k = (if k = fill_leg f then leg_fill f (leg_of db (fill_leg f)) else leg_of db k)"
      "fst (fst (apply_fill f db)) = fill_profit f (leg_of db (fill_leg f))"
    using apply_fill_refines[of db f] by (simp_all del: split_paired_All)
  show ?case unfolding profit_on.simps Cons.IH[OF r(1) Cons.prems(2)[simplified, THEN conjunct2]]
    by (simp add: r(2,3))
qed simp

text \<open>The books a leg goes through: an exact positive size at a positive price.\<close>

definition sound_book :: "(real \<times> real) option \<Rightarrow> bool" where
  "sound_book v \<longleftrightarrow> (case v of None \<Rightarrow> True | Some (s, e) \<Rightarrow> exact8 s \<and> exact8 e \<and> s > 0 \<and> half8 \<le> e)"

lemma decimal8_half8: "half8 \<le> x \<Longrightarrow> half8 \<le> decimal8 x"
proof -
  assume x: "half8 \<le> x"
  define n where "n = \<lfloor>x * 100000000 + 1 / 2\<rfloor>"
  have "1 \<le> n" using x unfolding half8_def n_def by linarith
  then have "1 \<le> real_of_int n" by simp
  moreover have "decimal8 x = of_int n / 100000000"
    using x half8_pos(2) by (simp add: decimal8_def n_def del: half8_pos)
  ultimately show ?thesis unfolding half8_def by linarith
qed

lemma book_row_exact: "exact8 s \<Longrightarrow> s > 0 \<Longrightarrow> leg_row s e = Some (s, decimal8 e)"
  by (simp add: leg_row_def decimal8_exact)

lemma average_half8:
  fixes s e q p :: real
  assumes "s > 0" "q > 0" "half8 \<le> e" "half8 \<le> p" shows "half8 \<le> (s * e + q * p) / (s + q)"
proof -
  have "s * half8 + q * half8 \<le> s * e + q * p" using assms by (intro add_mono mult_left_mono) auto
  then show ?thesis using assms by (simp add: pos_le_divide_eq algebra_simps)
qed

lemma leg_sign_error: "\<bar>y\<bar> \<le> b \<Longrightarrow> \<bar>leg_sign k * y\<bar> \<le> b"
  by (simp add: leg_sign_def)

lemma rounded_cost:
  assumes "s > 0" shows "\<bar>s * decimal8 x - s * x\<bar> \<le> half8 * s"
proof -
  have "\<bar>s * decimal8 x - s * x\<bar> = s * \<bar>decimal8 x - x\<bar>"
    using assms by (simp add: abs_mult flip: right_diff_distrib)
  also have "\<dots> \<le> s * half8" using assms decimal8_error[of x] by (intro mult_left_mono) auto
  finally show ?thesis by (simp add: mult.commute)
qed

text \<open>One fill: the profit it reports is its cash flow plus the change of the book's cost, up to the rounding.\<close>

lemma book_step:
  assumes v: "sound_book v" and f: "proper_fill f" "stored_exactly f" and c: "\<not> is_opening f \<Longrightarrow> fl_qty f \<le> size_of v"
    and k: "fill_leg f = k"
  shows "sound_book (leg_fill f v)"
    "size_of (leg_fill f v) = (if is_opening f then size_of v + fl_qty f else size_of v - fl_qty f)"
    "\<bar>some_or_0 (fill_profit f v) - leg_sign k * (signed_flow f + book_cost (leg_fill f v) - book_cost v)\<bar>
       \<le> (if is_opening f then half8 * size_of (leg_fill f v) else 0)"
proof -
  define q p where "q = fl_qty f" and "p = fl_price f"
  have qp: "q > 0" "exact8 q" "half8 \<le> p" "p > 0"
    using f by (auto simp: proper_fill_def stored_exactly_def q_def p_def)
  have side: "leg_sign k = (if fill_side f = ''long'' then 1 else - 1)" by (simp add: leg_sign_def fill_leg_def flip: k)
  have "sound_book (leg_fill f v) \<and>
    size_of (leg_fill f v) = (if is_opening f then size_of v + q else size_of v - q) \<and>
    \<bar>some_or_0 (fill_profit f v) - leg_sign k * (signed_flow f + book_cost (leg_fill f v) - book_cost v)\<bar>
       \<le> (if is_opening f then half8 * size_of (leg_fill f v) else 0)"
  proof (cases v)
    case None
    then have o: "is_opening f" using c qp by (auto simp: size_of_def q_def)
    have b: "leg_fill f v = Some (q, decimal8 p)"
      using None o qp by (simp add: leg_fill_def book_row_exact q_def p_def)
    have "\<bar>leg_sign k * (q * decimal8 p - q * p)\<bar> \<le> half8 * q"
      by (rule leg_sign_error[OF rounded_cost[OF qp(1)]])
    moreover have "some_or_0 (fill_profit f v) - leg_sign k * (signed_flow f + book_cost (leg_fill f v) - book_cost v) =
        - (leg_sign k * (q * decimal8 p - q * p))"
      using o by (simp add: b None[symmetric]) (simp add: None fill_profit_def some_or_0_def signed_flow_def book_cost_def
          algebra_simps q_def p_def)
    ultimately show ?thesis
      using o qp decimal8_half8[OF qp(3)] None
      by (simp add: b[unfolded None] sound_book_def size_of_def)
  next
    case (Some se)
    obtain s e where se: "v = Some (s, e)" using Some by (cases se) auto
    have s: "exact8 s" "exact8 e" "s > 0" "half8 \<le> e" "e > 0" using v half8_pos(1) by (auto simp: sound_book_def se simp del: half8_pos)
    show ?thesis
    proof (cases "is_opening f")
      case True
      define a where "a = (s * e + q * p) / (s + q)"
      have a: "(s + q) * a = s * e + q * p" using s qp by (simp add: a_def)
      have b: "leg_fill f v = Some (s + q, decimal8 a)"
        using se True s qp by (simp add: leg_fill_def book_row_exact exact8_add a_def q_def p_def)
      have "\<bar>leg_sign k * ((s + q) * decimal8 a - (s + q) * a)\<bar> \<le> half8 * (s + q)"
        using s qp by (intro leg_sign_error rounded_cost) auto
      moreover have "some_or_0 (fill_profit f v) - leg_sign k * (signed_flow f + book_cost (leg_fill f v) - book_cost v) =
          - (leg_sign k * ((s + q) * decimal8 a - (s + q) * a))"
        unfolding a using True
        by (simp add: b) (simp add: se fill_profit_def some_or_0_def signed_flow_def book_cost_def algebra_simps q_def p_def)
      ultimately show ?thesis
        using True s qp decimal8_half8[OF average_half8[OF s(3) qp(1) s(4) qp(3)], folded a_def] se
        by (simp add: b[unfolded se] sound_book_def size_of_def exact8_add flip: q_def)
    next
      case False
      then have qs: "q \<le> s" using c by (simp add: size_of_def se q_def)
      have r: "leg_sign k * (q * p - q * e) = leg_profit (fill_side f) p e q"
        by (simp add: side leg_profit_def algebra_simps)
      show ?thesis
      proof (cases "q = s")
        case True
        then show ?thesis using False se s qp r
          by (simp add: leg_fill_def sound_book_def size_of_def fill_profit_def some_or_0_def signed_flow_def book_cost_def
              algebra_simps flip: q_def p_def)
      next
        case ne: False
        then have b: "leg_fill f v = Some (s - q, e)"
          using False se s qp qs by (simp add: leg_fill_def book_row_exact exact8_diff decimal8_exact flip: q_def p_def)
        show ?thesis using False se s qp qs ne r
          by (simp add: b[unfolded se] sound_book_def size_of_def fill_profit_def some_or_0_def signed_flow_def book_cost_def exact8_diff
              algebra_simps flip: q_def p_def)
      qed
    qed
  qed
  then show "sound_book (leg_fill f v)"
    "size_of (leg_fill f v) = (if is_opening f then size_of v + fl_qty f else size_of v - fl_qty f)"
    "\<bar>some_or_0 (fill_profit f v) - leg_sign k * (signed_flow f + book_cost (leg_fill f v) - book_cost v)\<bar>
       \<le> (if is_opening f then half8 * size_of (leg_fill f v) else 0)"
    by (simp_all add: q_def)
qed

text \<open>The size never exceeds what it started with and what was opened since.\<close>

lemma opened_cons: "opened (f # fs) = (if is_opening f then fl_qty f else 0) + opened fs"
  by (simp add: opened_def)

lemma opened_nonneg: "list_all proper_fill fs \<Longrightarrow> 0 \<le> opened fs"
  by (induction fs) (auto simp: opened_cons opened_def proper_fill_def)

lemma book_accounts:
  assumes "sound_book v" "list_all proper_fill fs" "list_all stored_exactly fs" "covered (size_of v) fs"
    "\<And>f. f \<in> set fs \<Longrightarrow> fill_leg f = k"
  shows "\<bar>book_profits fs v - leg_sign k * (sum_of signed_flow fs + book_cost (fold leg_fill fs v) - book_cost v)\<bar>
    \<le> half8 * real (length fs) * (size_of v + opened fs)"
  using assms
proof (induction fs arbitrary: v)
  case (Cons f fs)
  let ?w = "leg_fill f v"
  have f: "proper_fill f" "stored_exactly f" and fs: "list_all proper_fill fs" "list_all stored_exactly fs"
    using Cons.prems by auto
  have c: "\<not> is_opening f \<Longrightarrow> fl_qty f \<le> size_of v" using Cons.prems(4) by auto
  note st = book_step[OF Cons.prems(1) f c Cons.prems(5)[of f, simplified]]
  have q: "0 < fl_qty f" using f by (simp add: proper_fill_def)
  have v0: "0 \<le> size_of v" using Cons.prems(1) by (auto simp: size_of_def sound_book_def split: option.splits)
  have cw: "covered (size_of ?w) fs" using Cons.prems(4) st(2) by (auto split: if_splits)
  have w: "size_of ?w + opened fs \<le> size_of v + opened (f # fs)" "size_of ?w \<le> size_of v + opened (f # fs)"
    using st(2) q opened_nonneg[OF fs(1)] by (auto simp: opened_cons)
  have e1: "(if is_opening f then half8 * size_of ?w else 0) \<le> half8 * (size_of v + opened (f # fs))"
    using w(2) v0 q opened_nonneg[OF fs(1)] by (auto simp: opened_cons intro!: mult_nonneg_nonneg)
  have e2: "half8 * real (length fs) * (size_of ?w + opened fs) \<le> half8 * real (length fs) * (size_of v + opened (f # fs))"
    using w(1) by (intro mult_left_mono) auto
  have "\<bar>book_profits fs ?w - leg_sign k * (sum_of signed_flow fs + book_cost (fold leg_fill fs ?w) - book_cost ?w)\<bar>
      \<le> half8 * real (length fs) * (size_of ?w + opened fs)"
    using Cons.IH[OF st(1) fs cw] Cons.prems(5) by auto
  with st(3) e1 e2 have
    "\<bar>some_or_0 (fill_profit f v) - leg_sign k * (signed_flow f + book_cost ?w - book_cost v) +
      (book_profits fs ?w - leg_sign k * (sum_of signed_flow fs + book_cost (fold leg_fill fs ?w) - book_cost ?w))\<bar>
      \<le> half8 * (size_of v + opened (f # fs)) + half8 * real (length fs) * (size_of v + opened (f # fs))"
    by linarith
  then show ?case by (simp add: algebra_simps)
qed simp

lemma ledger_accounts:
  assumes "ledger_ok db" "list_all proper_fill fs" "list_all stored_exactly (filter (\<lambda>f. fill_leg f = k) fs)"
    "covered 0 (filter (\<lambda>f. fill_leg f = k) fs)" "leg_of db k = None"
  shows "\<bar>profit_on k fs db - leg_sign k * (sum_of signed_flow (filter (\<lambda>f. fill_leg f = k) fs) +
      book_cost (leg_of (fold (\<lambda>f db. snd (apply_fill f db)) fs db) k))\<bar>
    \<le> half8 * real (length (filter (\<lambda>f. fill_leg f = k) fs)) * opened (filter (\<lambda>f. fill_leg f = k) fs)"
proof -
  let ?fs = "filter (\<lambda>f. fill_leg f = k) fs"
  have p: "list_all proper_fill ?fs" using assms(2) by (auto simp: list_all_iff)
  have "\<bar>book_profits ?fs None - leg_sign k * (sum_of signed_flow ?fs + book_cost (fold leg_fill ?fs None) - book_cost None)\<bar>
    \<le> half8 * real (length ?fs) * (size_of None + opened ?fs)"
    by (rule book_accounts) (use assms p in \<open>auto simp: sound_book_def size_of_def\<close>)
  then show ?thesis
    using profit_on_book[OF assms(1,2), of k] ledger.run_look[OF assms(1,2), of k]
    by (simp add: assms(5) book_cost_def size_of_def)
qed

subsection \<open>Properties\<close>

definition demo_fill :: "string \<Rightarrow> string \<Rightarrow> real \<Rightarrow> real \<Rightarrow> fill" where
  "demo_fill symbol signal q p = \<lparr>fl_strategy = 7, fl_symbol = symbol, fl_signal = signal, fl_qty = q, fl_price = p, fl_leg = None\<rparr>"

definition demo_db :: live_db where
  "demo_db = \<lparr>ld_owners = [(7, 3)], ld_positions = [], ld_next_position = 1, ld_trades = [], ld_next_trade = 1\<rparr>"

lemma demo_db_ok [simp]: "ledger_ok demo_db"
  by (simp add: demo_db_def ledger_ok_def)

definition demo_fills :: "fill list" where
  "demo_fills = [demo_fill ''BTC/USDT'' ''open_long'' 2 100, demo_fill ''btc-usdt'' ''add_long'' 1 103,
     demo_fill ''ETHUSDT'' ''open_short'' 5 10, demo_fill ''BTCUSDT'' ''close_long'' 1 110]"

text \<open>C9: A fill moves exactly one leg of the local ledger, whatever spelling of the symbol it comes with:
  size, average entry and leg_profit profit are those of the abstract book of the leg (open: weighted average;
  close: reduce or remove), stored with eight decimals, and every other leg, of this or another strategy,
  stays as it was; the table stays canonical, one row per leg.\<close>

theorem local_fill_refines_book:
  assumes "ledger_ok db" "proper_fill f"
  shows "ledger_ok (snd (apply_fill f db)) \<and>
    (\<forall>k. leg_of (snd (apply_fill f db)) k =
       (if k = fill_leg f then leg_fill f (leg_of db (fill_leg f)) else leg_of db k)) \<and>
    fst (fst (apply_fill f db)) = fill_profit f (leg_of db (fill_leg f))"
  by (rule apply_fill_refines[OF assms])

theorem local_fill_refines_book_witness:
  "leg_of (snd (apply_fill (demo_fill ''BTCUSDT'' ''open_long'' 2 100) demo_db)) (7, ''BTC/USDT'', ''long'') = Some (2, 100)"
proof -
  have p: "proper_fill (demo_fill ''BTCUSDT'' ''open_long'' 2 100)" by code_simp
  have l: "fill_leg (demo_fill ''BTCUSDT'' ''open_long'' 2 100) = (7, ''BTC/USDT'', ''long'')" by code_simp
  have "leg_fill (demo_fill ''BTCUSDT'' ''open_long'' 2 100) None = Some (2, 100)" by code_simp
  moreover have "leg_of demo_db (7, ''BTC/USDT'', ''long'') = None" by code_simp
  ultimately show ?thesis using local_fill_refines_book[OF demo_db_ok p] unfolding l by (simp del: split_paired_All)
qed

text \<open>C33: The profits the ledger reports for a leg account for its cash: over any sequence of fills,
  interleaved with those of other legs and never closing more than is held, the sum of the leg_profit profits
  is what closing received minus what opening paid, plus the stored cost of what is still open (signs
  reversed for a short leg), up to half a unit of the eighth decimal per fill and unit opened.\<close>

theorem realised_profits_account:
  assumes "ledger_ok db" "list_all proper_fill fs" "list_all stored_exactly (filter (\<lambda>f. fill_leg f = k) fs)"
    "covered 0 (filter (\<lambda>f. fill_leg f = k) fs)" "leg_of db k = None"
  shows "\<bar>profit_on k fs db - leg_sign k * (sum_of signed_flow (filter (\<lambda>f. fill_leg f = k) fs) +
      book_cost (leg_of (fold (\<lambda>f db. snd (apply_fill f db)) fs db) k))\<bar>
    \<le> half8 * real (length (filter (\<lambda>f. fill_leg f = k) fs)) * opened (filter (\<lambda>f. fill_leg f = k) fs)"
  by (rule ledger_accounts[OF assms])

lemma demo_stored: "list_all stored_exactly demo_fills"
proof -
  have e: "exact8 1" "exact8 2" "exact8 5"
    by (auto simp: exact8_def intro: exI[of _ 100000000] exI[of _ 200000000] exI[of _ 500000000])
  then show ?thesis by (simp add: demo_fills_def stored_exactly_def demo_fill_def half8_def)
qed

theorem realised_profits_account_witness:
  "\<bar>profit_on (7, ''BTC/USDT'', ''long'') demo_fills demo_db -
     (110 - 303 + book_cost (leg_of (fold (\<lambda>f db. snd (apply_fill f db)) demo_fills demo_db) (7, ''BTC/USDT'', ''long'')))\<bar>
   \<le> half8 * 9"
proof -
  let ?k = "(7, ''BTC/USDT'', ''long'') :: leg_key"
  have p: "list_all proper_fill demo_fills" by code_simp
  have f: "filter (\<lambda>f. fill_leg f = ?k) demo_fills = [demo_fills ! 0, demo_fills ! 1, demo_fills ! 3]" by code_simp
  have c: "covered 0 (filter (\<lambda>f. fill_leg f = ?k) demo_fills)" unfolding f by code_simp
  have s: "list_all stored_exactly (filter (\<lambda>f. fill_leg f = ?k) demo_fills)"
    using demo_stored by (auto simp: list_all_iff)
  have l: "leg_of demo_db ?k = None" by code_simp
  have v: "sum_of signed_flow [demo_fills ! 0, demo_fills ! 1, demo_fills ! 3] = 110 - 303" "leg_sign ?k = 1"
    "opened [demo_fills ! 0, demo_fills ! 1, demo_fills ! 3] = 3" by code_simp+
  show ?thesis using realised_profits_account[OF demo_db_ok p s c l] unfolding f v by simp
qed

end
