(* ===== verification/Directions.thy ===== *)
theory Directions
  imports Symbols
begin

text \<open>
  Which legs a live strategy may own: \<open>strategy_direction.py\<close>, the resolution of the declared direction
  and the start guard of \<open>strategy_live_guard.py\<close>, which keeps two running strategies off one leg of one
  account. The resolution of stored credentials (\<open>resolve_exchange_config\<close>) and the reading of the
  direction from the strategy's source text, which uses the Python parser, are parameters.
\<close>

subsection \<open>Direction modes\<close>

definition direction_modes :: "string list" where
  "direction_modes = [''long_only'', ''short_only'', ''both'', ''neutral'']"

definition direction_aliases :: "string dict" where
  "direction_aliases = [(''long'', ''long_only''), (''buy'', ''long_only''), (''1'', ''long_only''),
     (''1.0'', ''long_only''), (''+1'', ''long_only''), (''longonly'', ''long_only''),
     (''short'', ''short_only''), (''sell'', ''short_only''), (''_1'', ''short_only''),
     (''_1.0'', ''short_only''), (''-1'', ''short_only''), (''shortonly'', ''short_only''),
     (''dual'', ''both''), (''hedged'', ''both''), (''bidirectional'', ''both''), (''two_way'', ''both'')]"

text \<open>\<open>str(value or "")\<close>; of the numbers only 1 and -1 have an alias, any other text names no mode.\<close>

fun direction_text :: "json \<Rightarrow> string" where
  "direction_text (JStr s) = s"
| "direction_text (JNum x) = (if x = 0 then [] else if x = 1 then ''1'' else if x = - 1 then ''-1'' else ''?'')"
| "direction_text (JBool b) = (if b then ''True'' else [])"
| "direction_text x = (if json_truthy x then ''?'' else [])"

definition normalize_direction_mode :: "json \<Rightarrow> string" where
  "normalize_direction_mode v =
     (let t = replace_char CHR ''-'' ''_'' (lower_strip (direction_text v));
          r = (case map_of direction_aliases t of None \<Rightarrow> t | Some m \<Rightarrow> m)
      in if r \<in> set direction_modes then r else [])"

definition direction_mode_position_side :: "json \<Rightarrow> string" where
  "direction_mode_position_side v =
     (let mode = normalize_direction_mode v in
      if mode = ''long_only'' then ''long'' else if mode = ''short_only'' then ''short''
      else if mode \<in> {''both'', ''neutral''} then ''neutral'' else [])"

definition direction_mode_owned_legs :: "json \<Rightarrow> string set" where
  "direction_mode_owned_legs v =
     (let mode = normalize_direction_mode v in
      if mode = ''long_only'' then {''long''} else if mode = ''short_only'' then {''short''}
      else {''long'', ''short''})"

definition direction_mode_allows :: "json \<Rightarrow> string \<Rightarrow> bool" where
  "direction_mode_allows v position_side =
     (let mode = normalize_direction_mode v; side = lower_strip position_side in
      side \<notin> set side_names \<or> mode \<in> {''both'', ''neutral''} \<or>
      (mode = ''long_only'' \<and> side = ''long'') \<or> (mode = ''short_only'' \<and> side = ''short''))"

fun first_mode :: "json list \<Rightarrow> string" where
  "first_mode [] = []"
| "first_mode (v # vs) = (let m = normalize_direction_mode v in if m \<noteq> [] then m else first_mode vs)"

definition direction_mode_from_manifest :: "json \<Rightarrow> string" where
  "direction_mode_from_manifest manifest =
     (if \<not> is_dict manifest then []
      else let meta = as_dict (get manifest ''metadata'') in
        first_mode [get manifest ''directionMode'', get manifest ''direction_mode'', get meta ''direction_mode'',
          get meta ''directionMode'', get meta ''trade_direction'', get meta ''position_side'', get meta ''side''])"

lemma normalize_direction_cases:
  "normalize_direction_mode v \<in> {[], ''long_only'', ''short_only'', ''both'', ''neutral''}"
  by (auto simp: normalize_direction_mode_def Let_def direction_modes_def)

lemma direction_modes_fixed:
  "m \<in> set direction_modes \<Longrightarrow> normalize_direction_mode (JStr m) = m"
proof -
  have "list_all (\<lambda>m. normalize_direction_mode (JStr m) = m) direction_modes" by code_simp
  then show "m \<in> set direction_modes \<Longrightarrow> normalize_direction_mode (JStr m) = m" by (simp add: list_all_iff)
qed

subsection \<open>The strategy's direction\<close>

text \<open>Positive integers of a stored field; unreadable ones make the caller's \<open>int\<close> raise.\<close>

definition resolve_strategy_direction_mode :: "(json \<Rightarrow> string) \<Rightarrow> json \<Rightarrow> string" where
  "resolve_strategy_direction_mode infer strategy =
     (let tc = as_dict (get strategy ''trading_config'');
          market = lower_strip (str_or_empty (json_or (get_any tc [''market_type'']) (json_or (get strategy ''market_type'') (JStr ''swap''))));
          ex = as_dict (get tc ''executor_config'');
          manifest = as_dict (get tc ''strategy_manifest'');
          meta = as_dict (get_any manifest [''metadata'', ''metadataFields'', ''metadata_fields'']);
          bot = as_dict (get tc ''bot_params'');
          declared = first_mode [get strategy ''direction_mode'', get tc ''direction_mode'',
            JStr (direction_mode_from_manifest manifest), get strategy ''position_side'', get strategy ''trade_direction'',
            get tc ''position_side'', get tc ''trade_direction'', get tc ''direction'', get tc ''side'', get ex ''side'',
            get bot ''side'', get bot ''grid_direction'', get meta ''position_side'', get meta ''trade_direction'',
            get meta ''direction'', get meta ''side'']
      in if market = ''spot'' then ''long_only''
         else if declared \<noteq> [] then declared
         else case int_or_0 (get tc ''script_source_id'') of
                Some n \<Rightarrow> if n > 0 then infer strategy else []
              | None \<Rightarrow> [])"

definition resolve_strategy_position_side :: "(json \<Rightarrow> string) \<Rightarrow> json \<Rightarrow> string" where
  "resolve_strategy_position_side infer strategy =
     direction_mode_position_side (JStr (resolve_strategy_direction_mode infer strategy))"

datatype direction_error = DirectionModeViolation string string

definition validate_strategy_signal_direction ::
  "(json \<Rightarrow> string) \<Rightarrow> json \<Rightarrow> string \<Rightarrow> direction_error + unit" where
  "validate_strategy_signal_direction infer strategy signal_type =
     (let signal = lower_strip signal_type;
          side = (if py_contains signal ''short'' then ''short''
                  else if py_contains signal ''long'' then ''long'' else []);
          mode = resolve_strategy_direction_mode infer strategy
      in if py_startswith signal ''close_'' \<or> py_startswith signal ''reduce_'' then Inr ()
         else if mode \<noteq> [] \<and> side \<noteq> [] \<and> \<not> direction_mode_allows (JStr mode) side
         then Inl (DirectionModeViolation mode side) else Inr ())"

subsection \<open>One live owner per leg\<close>

text \<open>The account part of the lock key: user, credential, exchange, market, symbol.\<close>

datatype credential_key = CredentialId int | Inline string

type_synonym account_key = "int \<times> credential_key \<times> string \<times> string \<times> string"

definition first_nonzero :: "int \<Rightarrow> json \<Rightarrow> int \<Rightarrow> int option" where
  "first_nonzero u x d = (if u \<noteq> 0 then Some u else if json_truthy x then int_of_json x else Some d)"

definition strategy_live_lock_key ::
  "(json \<Rightarrow> string) \<Rightarrow> (json \<Rightarrow> int \<Rightarrow> json) \<Rightarrow> json \<Rightarrow> int \<Rightarrow> (account_key \<times> string) option" where
  "strategy_live_lock_key infer resolve strategy user =
     (let tc = as_dict (get strategy ''trading_config''); ec = as_dict (get strategy ''exchange_config'') in
      if lower_strip (str_or_empty (json_or (get strategy ''execution_mode'') (JStr ''signal''))) \<noteq> ''live'' then None
      else case (first_nonzero user (get strategy ''user_id'') 1, first_nonzero user (get strategy ''user_id'') 0) of
        (Some ru, Some uid) \<Rightarrow>
          (let rx = resolve ec ru;
               exchange = lower_strip (str_or_empty (json_or (get rx ''exchange_id'') (get ec ''exchange_id'')));
               cred = (let c = credential_id_from_exchange_config rx in
                       if c \<noteq> 0 then c else credential_id_from_exchange_config ec);
               market = swap_market (lower_strip (str_or_empty (json_or (get tc ''market_type'')
                 (json_or (get strategy ''market_type'') (json_or (get rx ''market_type'') (JStr ''swap''))))));
               symbol = venue_symbol (str_or_empty (json_or (get strategy ''symbol'') (get tc ''symbol'')));
               side = resolve_strategy_position_side infer strategy
           in if exchange = [] \<or> symbol = [] then None
              else Some ((uid, if cred > 0 then CredentialId cred else Inline exchange, exchange, market, symbol),
                         default_text side ''unknown''))
      | _ \<Rightarrow> None)"

text \<open>A row of \<open>qd_strategies_trading\<close>: id, user, status and execution mode next to the loaded strategy.\<close>

record strategy_row =
  sr_id :: int
  sr_user :: int
  sr_status :: string
  sr_mode :: string
  sr_strategy :: json

definition owned_legs :: "(json \<Rightarrow> string) \<Rightarrow> json \<Rightarrow> string set" where
  "owned_legs infer s = direction_mode_owned_legs (JStr (resolve_strategy_direction_mode infer s))"

definition clashes ::
  "(json \<Rightarrow> string) \<Rightarrow> (json \<Rightarrow> int \<Rightarrow> json) \<Rightarrow> bool \<Rightarrow> json \<Rightarrow> json \<Rightarrow> int \<Rightarrow> bool" where
  "clashes infer resolve allow_opposite a b user =
     (case (strategy_live_lock_key infer resolve a user, strategy_live_lock_key infer resolve b user) of
        (Some ka, Some kb) \<Rightarrow> fst kb = fst ka \<and> (\<not> allow_opposite \<or> owned_legs infer a \<inter> owned_legs infer b \<noteq> {})
      | _ \<Rightarrow> False)"

definition running_live :: "int \<Rightarrow> int \<Rightarrow> strategy_row \<Rightarrow> bool" where
  "running_live user sid r = (sr_user r = user \<and> sr_status r = ''running'' \<and> sr_mode r = ''live'' \<and> sr_id r \<noteq> sid)"

definition find_live_strategy_conflict ::
  "(json \<Rightarrow> string) \<Rightarrow> (json \<Rightarrow> int \<Rightarrow> json) \<Rightarrow> bool \<Rightarrow> int \<Rightarrow> json \<Rightarrow> int \<Rightarrow> strategy_row list \<Rightarrow> int option" where
  "find_live_strategy_conflict infer resolve allow_opposite sid strategy user rows =
     (case strategy_live_lock_key infer resolve strategy user of
        None \<Rightarrow> None
      | Some k \<Rightarrow> map_option sr_id
          (find (\<lambda>r. running_live user sid r \<and> clashes infer resolve allow_opposite strategy (sr_strategy r) user) rows))"

subsection \<open>Starting and stopping strategies\<close>

text \<open>A start the guard lets through marks the row as running; a stop marks it stopped.\<close>

datatype guard_op = StartLive int int | StopLive int int

definition set_status :: "int \<Rightarrow> int \<Rightarrow> string \<Rightarrow> strategy_row list \<Rightarrow> strategy_row list" where
  "set_status user sid st rows = map (\<lambda>r. if sr_user r = user \<and> sr_id r = sid then r\<lparr>sr_status := st\<rparr> else r) rows"

definition guarded_step ::
  "(json \<Rightarrow> string) \<Rightarrow> (json \<Rightarrow> int \<Rightarrow> json) \<Rightarrow> guard_op \<Rightarrow> strategy_row list \<Rightarrow> strategy_row list" where
  "guarded_step infer resolve e rows =
     (case e of
        StartLive user sid \<Rightarrow>
          (case find (\<lambda>r. sr_user r = user \<and> sr_id r = sid) rows of
             None \<Rightarrow> rows
           | Some r \<Rightarrow> if find_live_strategy_conflict infer resolve True sid (sr_strategy r) user rows = None
                       then set_status user sid ''running'' rows else rows)
      | StopLive user sid \<Rightarrow> set_status user sid ''stopped'' rows)"

definition exclusive_legs :: "(json \<Rightarrow> string) \<Rightarrow> (json \<Rightarrow> int \<Rightarrow> json) \<Rightarrow> strategy_row list \<Rightarrow> bool" where
  "exclusive_legs infer resolve rows \<longleftrightarrow> distinct (map sr_id rows) \<and>
     (\<forall>a \<in> set rows. \<forall>b \<in> set rows. sr_user a = sr_user b \<and> sr_id a \<noteq> sr_id b \<and>
        sr_status a = ''running'' \<and> sr_status b = ''running'' \<and> sr_mode a = ''live'' \<and> sr_mode b = ''live'' \<longrightarrow>
        \<not> clashes infer resolve True (sr_strategy a) (sr_strategy b) (sr_user a))"

lemma clashes_sym: "clashes infer resolve o1 a b u = clashes infer resolve o1 b a u"
  by (auto simp: clashes_def split: option.splits)

lemma no_conflictD:
  assumes "find_live_strategy_conflict infer resolve True sid s user rows = None" "r \<in> set rows" "running_live user sid r"
  shows "\<not> clashes infer resolve True s (sr_strategy r) user"
proof (cases "strategy_live_lock_key infer resolve s user")
  case None
  then show ?thesis by (simp add: clashes_def)
next
  case (Some k)
  then have "find (\<lambda>r. running_live user sid r \<and> clashes infer resolve True s (sr_strategy r) user) rows = None"
    using assms(1) by (simp add: find_live_strategy_conflict_def)
  then show ?thesis using assms(2,3) by (auto simp: find_None_iff)
qed

lemma set_status_ids [simp]: "map sr_id (set_status u i st rows) = map sr_id rows"
  by (auto simp: set_status_def)

lemma in_set_status:
  "q \<in> set (set_status u i st rows) \<Longrightarrow>
   \<exists>r \<in> set rows. q = (if sr_user r = u \<and> sr_id r = i then r\<lparr>sr_status := st\<rparr> else r)"
  by (auto simp: set_status_def)

lemma exclusive_legsI:
  assumes "distinct (map sr_id rows)"
    "\<And>a b. a \<in> set rows \<Longrightarrow> b \<in> set rows \<Longrightarrow> sr_user a = sr_user b \<Longrightarrow> sr_id a \<noteq> sr_id b \<Longrightarrow>
        sr_status a = ''running'' \<Longrightarrow> sr_status b = ''running'' \<Longrightarrow> sr_mode a = ''live'' \<Longrightarrow> sr_mode b = ''live'' \<Longrightarrow>
        \<not> clashes infer resolve True (sr_strategy a) (sr_strategy b) (sr_user a)"
  shows "exclusive_legs infer resolve rows"
  using assms by (simp add: exclusive_legs_def)

lemma exclusive_legsD:
  assumes "exclusive_legs infer resolve rows" "a \<in> set rows" "b \<in> set rows" "sr_user a = sr_user b" "sr_id a \<noteq> sr_id b"
    "sr_status a = ''running''" "sr_status b = ''running''" "sr_mode a = ''live''" "sr_mode b = ''live''"
  shows "\<not> clashes infer resolve True (sr_strategy a) (sr_strategy b) (sr_user a)"
  using assms by (simp add: exclusive_legs_def)

lemma set_status_stop:
  assumes "exclusive_legs infer resolve rows" shows "exclusive_legs infer resolve (set_status u i ''stopped'' rows)"
proof (rule exclusive_legsI)
  show "distinct (map sr_id (set_status u i ''stopped'' rows))" using assms by (simp add: exclusive_legs_def del: map_map)
next
  fix a b
  assume ab: "a \<in> set (set_status u i ''stopped'' rows)" "b \<in> set (set_status u i ''stopped'' rows)"
    "sr_user a = sr_user b" "sr_id a \<noteq> sr_id b" "sr_status a = ''running''" "sr_status b = ''running''"
    "sr_mode a = ''live''" "sr_mode b = ''live''"
  have m: "q \<in> set rows" if "q \<in> set (set_status u i ''stopped'' rows)" "sr_status q = ''running''" for q
    using in_set_status[OF that(1)] that(2) by (auto split: if_splits)
  from m[OF ab(1,5)] m[OF ab(2,6)] show "\<not> clashes infer resolve True (sr_strategy a) (sr_strategy b) (sr_user a)"
    using exclusive_legsD[OF assms] ab by blast
qed

lemma set_status_start:
  assumes ex: "exclusive_legs infer resolve rows" and r: "r \<in> set rows" "sr_user r = u" "sr_id r = i"
    and free: "find_live_strategy_conflict infer resolve True i (sr_strategy r) u rows = None"
  shows "exclusive_legs infer resolve (set_status u i ''running'' rows)"
proof -
  have d: "distinct (map sr_id rows)" using ex by (simp add: exclusive_legs_def)
  have same: "q = r" if "q \<in> set rows" "sr_id q = i" for q
    using d that r by (metis distinct_map inj_onD)
  have new: "\<not> clashes infer resolve True (sr_strategy r) (sr_strategy q) u"
    if "q \<in> set rows" "sr_user q = u" "sr_id q \<noteq> i" "sr_status q = ''running''" "sr_mode q = ''live''" for q
    using no_conflictD[OF free that(1)] that by (simp add: running_live_def)
  let ?f = "\<lambda>q. if sr_user q = u \<and> sr_id q = i then q\<lparr>sr_status := ''running''\<rparr> else q"
  have "\<not> clashes infer resolve True (sr_strategy a) (sr_strategy b) (sr_user a)"
    if ab: "a \<in> set rows" "b \<in> set rows" "sr_user a = sr_user b" "sr_id a \<noteq> sr_id b"
      "sr_status (?f a) = ''running''" "sr_status (?f b) = ''running''" "sr_mode a = ''live''" "sr_mode b = ''live''" for a b
  proof -
    consider "sr_id a = i" "sr_user a = u" | "sr_id b = i" "sr_user b = u" | "\<not> (sr_user a = u \<and> sr_id a = i)" "\<not> (sr_user b = u \<and> sr_id b = i)"
      by blast
    then show ?thesis
    proof cases
      case 1
      then have "a = r" "sr_id b \<noteq> i" using same ab by auto
      then show ?thesis using new[of b] ab 1 by auto
    next
      case 2
      then have "b = r" "sr_id a \<noteq> i" using same ab by auto
      then show ?thesis using new[of a] ab 2 clashes_sym by auto
    next
      case 3
      then show ?thesis using ex ab unfolding exclusive_legs_def by auto
    qed
  qed
  note pair = this
  show ?thesis
  proof (rule exclusive_legsI)
    show "distinct (map sr_id (set_status u i ''running'' rows))" using d by (simp del: map_map)
  next
    fix a b
    assume ab: "a \<in> set (set_status u i ''running'' rows)" "b \<in> set (set_status u i ''running'' rows)"
      "sr_user a = sr_user b" "sr_id a \<noteq> sr_id b" "sr_status a = ''running''" "sr_status b = ''running''"
      "sr_mode a = ''live''" "sr_mode b = ''live''"
    obtain p q where pq: "p \<in> set rows" "a = ?f p" "q \<in> set rows" "b = ?f q"
      using in_set_status[OF ab(1)] in_set_status[OF ab(2)] by blast
    then have "sr_user p = sr_user q" "sr_id p \<noteq> sr_id q" "sr_mode p = ''live''" "sr_mode q = ''live''"
      "sr_strategy a = sr_strategy p" "sr_strategy b = sr_strategy q" "sr_user a = sr_user p"
      using ab by (auto split: if_splits)
    then show "\<not> clashes infer resolve True (sr_strategy a) (sr_strategy b) (sr_user a)"
      using pair[OF pq(1,3)] ab(5,6) pq(2,4) by auto
  qed
qed

lemma guarded_step_exclusive:
  assumes "exclusive_legs infer resolve rows" shows "exclusive_legs infer resolve (guarded_step infer resolve e rows)"
proof (cases e)
  case (StartLive u i)
  show ?thesis
  proof (cases "find (\<lambda>r. sr_user r = u \<and> sr_id r = i) rows")
    case None
    then show ?thesis using assms by (simp add: guarded_step_def StartLive)
  next
    case (Some r)
    then have r: "r \<in> set rows" "sr_user r = u" "sr_id r = i" by (auto simp: find_Some_iff)
    show ?thesis using set_status_start[OF assms r] assms by (simp add: guarded_step_def StartLive Some)
  qed
next
  case (StopLive u i)
  then show ?thesis using set_status_stop[OF assms] by (simp add: guarded_step_def)
qed

interpretation start_guard: invariant_machine "guarded_step infer resolve" "exclusive_legs infer resolve" for infer resolve
  by unfold_locales (rule guarded_step_exclusive)

subsection \<open>Properties\<close>


definition demo_strategy :: "int \<Rightarrow> string \<Rightarrow> strategy_row" where
  "demo_strategy i side = \<lparr>sr_id = i, sr_user = 1, sr_status = ''stopped'', sr_mode = ''live'',
     sr_strategy = JDict [(''execution_mode'', JStr ''live''), (''symbol'', JStr ''BTCUSDT''), (''position_side'', JStr side),
       (''exchange_config'', JDict [(''exchange_id'', JStr ''okx''), (''credential_id'', JNum 4)])]\<rparr>"

definition demo_rows :: "strategy_row list" where
  "demo_rows = [demo_strategy 1 ''long'', demo_strategy 2 ''short'', demo_strategy 3 ''both'']"

definition demo_infer :: "json \<Rightarrow> string" where "demo_infer s = []"
definition demo_exchange :: "json \<Rightarrow> int \<Rightarrow> json" where "demo_exchange ec u = ec"


end
