(* ===== verification/Ownership.thy ===== *)
theory Ownership
  imports PositionLaws Directions "HOL-Library.Char_ord" "HOL-Library.List_Lexorder" "HOL-Library.Product_Lexorder"
begin

text \<open>
  Ownership of an account leg shared by strategies and manual holdings: \<open>live_trading/position_ownership.py\<close>
  (drift evaluation, protected quantity, the user's repair actions), the entry guard of
  \<open>pending_orders/entry_position_guard.py\<close> and the reduce-only sizing of \<open>live_trading/position_query.py\<close>.
  What the exchange reports is a parameter.
\<close>

subsection \<open>Names\<close>

definition normalize_market_type :: "string \<Rightarrow> string" where
  "normalize_market_type v = swap_market (lower_strip (default_text v ''swap''))"

definition coexistence_exchanges :: "string list" where
  "coexistence_exchanges = [''binance'', ''bitget'', ''bybit'', ''gate'', ''htx'', ''okx'']"

definition supports_position_coexistence :: "string \<Rightarrow> string \<Rightarrow> bool" where
  "supports_position_coexistence v exchange_id =
     (let market = normalize_market_type v; exchange = lower_strip exchange_id in
      market \<in> {''spot'', ''swap''} \<and> (market = ''swap'' \<or> exchange = [] \<or> exchange \<in> set coexistence_exchanges))"

definition normalize_side :: "string \<Rightarrow> string" where
  "normalize_side v = (let s = lower_strip v in if s \<in> set side_names then s else [])"

definition canonical_symbol :: "string \<Rightarrow> string" where
  "canonical_symbol v = py_upper (normalize_strategy_symbol v)"

subsection \<open>Evaluating a leg\<close>

record ownership =
  ow_symbol :: string
  ow_side :: string
  ow_account :: real
  ow_strategy :: real
  ow_protected :: real
  ow_expected :: real
  ow_unknown :: real
  ow_tolerance :: real
  ow_mode :: string
  ow_status :: string
  ow_reason :: string
  ow_allowed :: bool
  ow_log :: bool

text \<open>Status, reason and verdict on the unexplained quantity.\<close>

definition drift_verdict :: "real \<Rightarrow> real \<Rightarrow> string \<times> string \<times> bool" where
  "drift_verdict tolerance unknown =
     (if \<bar>unknown\<bar> \<le> tolerance then (''ok'', [], True)
      else if unknown > 0 then (''drift_blocked'', ''unallocated_account_position'', False)
      else (''drift_blocked'', ''account_below_protected_allocation'', False))"

definition calculate_position_ownership ::
  "string \<Rightarrow> string \<Rightarrow> real \<Rightarrow> real \<Rightarrow> real \<Rightarrow> string \<Rightarrow> string \<Rightarrow> string \<Rightarrow> real \<Rightarrow> ownership" where
  "calculate_position_ownership symbol side account_qty strategy_qty protected_qty mode_in prev_status prev_reason tol =
     (let account = max 0 account_qty; strategy = max 0 strategy_qty;
          mode = (if py_lower mode_in = ''advanced'' then ''advanced'' else ''strict'');
          protected = (if mode = ''strict'' then 0 else max 0 protected_qty);
          expected = strategy + protected;
          tolerance = max eps8 (max (expected * (1 / 1000)) (max 0 tol));
          unknown = account - expected;
          verdict = drift_verdict tolerance unknown;
          status = fst verdict; reason = fst (snd verdict); allowed = snd (snd verdict)
      in \<lparr>ow_symbol = canonical_symbol symbol, ow_side = normalize_side side, ow_account = account,
          ow_strategy = strategy, ow_protected = protected, ow_expected = expected, ow_unknown = unknown,
          ow_tolerance = tolerance, ow_mode = mode, ow_status = status, ow_reason = reason, ow_allowed = allowed,
          ow_log = (status = ''drift_blocked'' \<and> (prev_status \<noteq> ''drift_blocked'' \<or> prev_reason \<noteq> reason))\<rparr>)"

lemma drift_verdict_cases:
  obtains "\<bar>u\<bar> \<le> t" "drift_verdict t u = (''ok'', [], True)"
  | "t < u" "drift_verdict t u = (''drift_blocked'', ''unallocated_account_position'', False)"
  | "u < - t" "drift_verdict t u = (''drift_blocked'', ''account_below_protected_allocation'', False)"
  by (cases "\<bar>u\<bar> \<le> t"; cases "u > 0") (auto simp: drift_verdict_def)

subsection \<open>The reservation table\<close>

record reservation =
  rs_user :: int
  rs_cred :: int
  rs_exchange :: string
  rs_market :: string
  rs_inst :: string
  rs_symbol :: string
  rs_canonical :: string
  rs_side :: string
  rs_mode :: string
  rs_manual :: real
  rs_observed :: real
  rs_allocated :: real
  rs_status :: string
  rs_reason :: string
  rs_last_log :: "int option"

type_synonym leg_id = "int \<times> int \<times> string \<times> string \<times> string"

definition reservation_key :: "reservation \<Rightarrow> leg_id" where
  "reservation_key r = (rs_user r, rs_cred r, rs_market r, rs_canonical r, rs_side r)"

text \<open>A leg as callers name it.\<close>

record leg_name =
  ln_user :: int
  ln_cred :: int
  ln_market :: string
  ln_symbol :: string
  ln_side :: string

definition leg_key_of :: "leg_name \<Rightarrow> leg_id" where
  "leg_key_of l = (ln_user l, ln_cred l, normalize_market_type (ln_market l), canonical_symbol (ln_symbol l),
     normalize_side (ln_side l))"

definition fetch_reservation :: "leg_name \<Rightarrow> reservation list \<Rightarrow> reservation option" where
  "fetch_reservation l t = row_at reservation_key (leg_key_of l) t"

definition row_text :: "(reservation \<Rightarrow> string) \<Rightarrow> reservation option \<Rightarrow> string" where
  "row_text f r = (case r of None \<Rightarrow> [] | Some x \<Rightarrow> f x)"

definition row_num :: "(reservation \<Rightarrow> real) \<Rightarrow> reservation option \<Rightarrow> real" where
  "row_num f r = (case r of None \<Rightarrow> 0 | Some x \<Rightarrow> f x)"

text \<open>What one evaluation of a leg sees: the quantities, the tolerance and the time.\<close>

record observation =
  ob_leg :: leg_name
  ob_exchange :: string
  ob_account :: real
  ob_strategy :: real
  ob_inst :: string
  ob_tolerance :: real
  ob_now :: int

definition assess :: "observation \<Rightarrow> reservation option \<Rightarrow> ownership" where
  "assess ob row = calculate_position_ownership (ln_symbol (ob_leg ob)) (ln_side (ob_leg ob)) (ob_account ob) (ob_strategy ob)
     (row_num rs_manual row) (default_text (row_text rs_mode row) ''strict'') (row_text rs_status row)
     (row_text rs_reason row) (ob_tolerance ob)"

definition proposed_reservation :: "observation \<Rightarrow> ownership \<Rightarrow> reservation" where
  "proposed_reservation ob s = \<lparr>rs_user = ln_user (ob_leg ob), rs_cred = ln_cred (ob_leg ob),
     rs_exchange = lower_strip (ob_exchange ob), rs_market = normalize_market_type (ln_market (ob_leg ob)),
     rs_inst = py_strip (ob_inst ob), rs_symbol = normalize_strategy_symbol (ln_symbol (ob_leg ob)),
     rs_canonical = ow_symbol s, rs_side = ow_side s, rs_mode = ow_mode s, rs_manual = decimal8 (ow_protected s),
     rs_observed = decimal8 (ow_account s), rs_allocated = decimal8 (ow_strategy s), rs_status = ow_status s,
     rs_reason = ow_reason s, rs_last_log = (if ow_log s then Some (ob_now ob) else None)\<rparr>"

text \<open>ON CONFLICT of an evaluation: the mode and the reserve the user set stay.\<close>

definition merge_evaluation :: "bool \<Rightarrow> int \<Rightarrow> reservation \<Rightarrow> reservation \<Rightarrow> reservation" where
  "merge_evaluation logged now old new = old\<lparr>
     rs_exchange := rs_exchange new, rs_inst := (if rs_inst new \<noteq> [] then rs_inst new else rs_inst old),
     rs_symbol := rs_symbol new, rs_observed := rs_observed new, rs_allocated := rs_allocated new,
     rs_status := rs_status new, rs_reason := rs_reason new,
     rs_last_log := (if logged then Some now else rs_last_log old)\<rparr>"

definition evaluate_and_record_ownership :: "observation \<Rightarrow> reservation list \<Rightarrow> ownership \<times> reservation list" where
  "evaluate_and_record_ownership ob t =
     (let s = assess ob (fetch_reservation (ob_leg ob) t)
      in (s, upsert_row reservation_key (merge_evaluation (ow_log s) (ob_now ob)) (proposed_reservation ob s) t))"

definition is_position_leg_blocked :: "leg_name \<Rightarrow> reservation list \<Rightarrow> bool" where
  "is_position_leg_blocked l t = (row_text rs_status (fetch_reservation l t) = ''drift_blocked'')"

definition protected_quantity :: "leg_name \<Rightarrow> reservation list \<Rightarrow> real" where
  "protected_quantity l t =
     (let row = fetch_reservation l t in
      if default_text (row_text rs_mode row) ''strict'' \<noteq> ''advanced'' then 0 else max 0 (row_num rs_manual row))"

subsection \<open>Repair\<close>

datatype repair_error = InvalidRepairAction | CoexistenceMarketUnsupported | AccountBelowStrategyAllocation

text \<open>ON CONFLICT of a repair: the user's mode and reserve are written, the log mark is cleared.\<close>

definition merge_repair :: "reservation \<Rightarrow> reservation \<Rightarrow> reservation" where
  "merge_repair old new = old\<lparr>
     rs_exchange := rs_exchange new, rs_inst := (if rs_inst new \<noteq> [] then rs_inst new else rs_inst old),
     rs_symbol := rs_symbol new, rs_mode := rs_mode new, rs_manual := rs_manual new,
     rs_observed := rs_observed new, rs_allocated := rs_allocated new,
     rs_status := rs_status new, rs_reason := rs_reason new, rs_last_log := None\<rparr>"

definition repair_position_ownership ::
  "observation \<Rightarrow> string \<Rightarrow> reservation list \<Rightarrow> repair_error + ownership \<times> reservation list" where
  "repair_position_ownership ob action t =
     (let l = ob_leg ob; act = lower_strip action; old = fetch_reservation l t;
          mode0 = default_text (row_text rs_mode old) ''strict''; manual0 = max 0 (row_num rs_manual old);
          mode = (if act = ''protect_manual'' then ''advanced'' else if act = ''strict_mode'' then ''strict'' else mode0);
          manual = (if act = ''protect_manual'' then max 0 (ob_account ob - ob_strategy ob)
                    else if act = ''strict_mode'' then 0 else manual0);
          s = calculate_position_ownership (ln_symbol l) (ln_side l) (ob_account ob) (ob_strategy ob) manual mode [] [] 0;
          new = (proposed_reservation ob s)\<lparr>rs_exchange := py_lower (ob_exchange ob), rs_inst := ob_inst ob,
             rs_mode := mode, rs_manual := decimal8 manual, rs_last_log := None\<rparr>
      in if act \<notin> {''protect_manual'', ''strict_mode'', ''recheck''} then Inl InvalidRepairAction
         else if act = ''protect_manual'' \<and> \<not> supports_position_coexistence (ln_market l) (ob_exchange ob)
         then Inl CoexistenceMarketUnsupported
         else if act = ''protect_manual'' \<and> ob_account ob + eps8 < ob_strategy ob
         then Inl AccountBelowStrategyAllocation
         else Inr (s, upsert_row reservation_key merge_repair new t))"

subsection \<open>Reports\<close>

record account_row =
  ac_symbol :: string
  ac_side :: string
  ac_size :: real

definition aggregate_rows :: "account_row list \<Rightarrow> ((string \<times> string) \<times> real) list" where
  "aggregate_rows rows = fold (\<lambda>r d. let k = (canonical_symbol (ac_symbol r), normalize_side (ac_side r)) in
      if fst k = [] \<or> snd k = [] then d
      else dict_set k ((case map_of d k of None \<Rightarrow> 0 | Some v \<Rightarrow> v) + max 0 (ac_size r)) d) rows []"

definition qty_of :: "((string \<times> string) \<times> real) list \<Rightarrow> string \<times> string \<Rightarrow> real" where
  "qty_of d k = (case map_of d k of None \<Rightarrow> 0 | Some v \<Rightarrow> v)"

definition ownership_row ::
  "((string \<times> string) \<times> real) list \<Rightarrow> ((string \<times> string) \<times> real) list \<Rightarrow> ((string \<times> string) \<times> reservation) list \<Rightarrow>
   string \<times> string \<Rightarrow> ownership" where
  "ownership_row account allocated reserved k =
     (let row = map_of reserved k in
      calculate_position_ownership (fst k) (snd k) (qty_of account k) (qty_of allocated k)
        (row_num rs_manual row) (default_text (row_text rs_mode row) ''strict'') [] [] 0)"

definition reserved_rows :: "reservation list \<Rightarrow> ((string \<times> string) \<times> reservation) list" where
  "reserved_rows rows = fold (\<lambda>r. dict_set
     (canonical_symbol (default_text (rs_canonical r) (rs_symbol r)), normalize_side (rs_side r)) r) rows []"

definition build_ownership_rows :: "account_row list \<Rightarrow> account_row list \<Rightarrow> reservation list \<Rightarrow> ownership list" where
  "build_ownership_rows account_rows allocated_rows reservation_rows =
     (let account = aggregate_rows account_rows; allocated = aggregate_rows allocated_rows;
          reserved = reserved_rows reservation_rows
      in map (ownership_row account allocated reserved)
           (sort (remdups (map fst account @ map fst allocated @ map fst reserved))))"

subsection \<open>The entry guard\<close>

datatype guard_error = PositionDrift ownership | OppositeSnapshotFailed | OppositeStillOpen string real real

record guard_result =
  gr_ownership :: ownership
  gr_error :: "guard_error option"
  gr_log :: bool

definition guard_tolerance :: "json \<Rightarrow> real \<Rightarrow> real" where
  "guard_tolerance strategy price =
     (let tc = as_dict (get strategy ''trading_config'');
          raw = json_or (get tc ''position_drift_tolerance_quote'')
                  (json_or (get strategy ''position_drift_tolerance_quote'') (JNum 1));
          quote = min 5 (max 0 (case float_or_0 raw of None \<Rightarrow> 1 | Some v \<Rightarrow> v));
          p = max 0 price
      in if quote > 0 \<and> p > 0 then quote / p else 0)"

text \<open>\<open>venue\<close> is the strict exchange query for one side; it has no value where the query raises.\<close>

definition evaluate_entry_position_guard ::
  "(json \<Rightarrow> string) \<Rightarrow> (string \<Rightarrow> real option) \<Rightarrow> int \<Rightarrow> json \<Rightarrow> leg_name \<Rightarrow> string \<Rightarrow> real \<Rightarrow> real \<Rightarrow> int \<Rightarrow>
   live_db \<Rightarrow> reservation list \<Rightarrow> guard_result \<times> reservation list" where
  "evaluate_entry_position_guard infer venue sid strategy l exchange account price now db t =
     (let owned = fetch_allocated_position_size db sid (ln_cred l) (ln_market l) (ln_symbol l) (ln_side l);
          ob = \<lparr>ob_leg = l\<lparr>ln_user := (if ln_user l = 0 then 1 else ln_user l)\<rparr>, ob_exchange = exchange,
                ob_account = account, ob_strategy = owned, ob_inst = [],
                ob_tolerance = guard_tolerance strategy price, ob_now = now\<rparr>;
          (s, t') = evaluate_and_record_ownership ob t;
          pass = \<lparr>gr_ownership = s, gr_error = None, gr_log = False\<rparr>;
          opposite = (if ln_side l = ''long'' then ''short'' else ''long'');
          mine = fetch_position_size_for_side db sid (ln_symbol l) opposite
      in (if \<not> ow_allowed s then \<lparr>gr_ownership = s, gr_error = Some (PositionDrift s), gr_log = ow_log s\<rparr>
          else if normalize_market_type (ln_market l) = ''spot'' then pass
          else if resolve_strategy_direction_mode infer strategy \<in> {''both'', ''neutral''} then pass
          else if mine \<le> eps8 then pass
          else case venue opposite of
                 None \<Rightarrow> pass\<lparr>gr_error := Some OppositeSnapshotFailed\<rparr>
               | Some live \<Rightarrow> if live \<le> eps8 then pass
                   else pass\<lparr>gr_error := Some (OppositeStillOpen opposite live mine), gr_log := True\<rparr>,
          t'))"

subsection \<open>Sizing an exit\<close>

definition symbols_equivalent :: "string \<Rightarrow> string \<Rightarrow> bool" where
  "symbols_equivalent a b =
     (let na = normalize_strategy_symbol a; nb = normalize_strategy_symbol b in
      na \<noteq> [] \<and> nb \<noteq> [] \<and> (na = nb \<or> replace_char CHR ''/'' [] na = replace_char CHR ''/'' [] nb))"

text \<open>What the sizing reports besides the amount: the two sizes and, when the account is known, what is left above the reserve.\<close>

record exit_meta =
  em_db_size :: real
  em_exchange_size :: real
  em_available :: "real option"

definition resolve_reduce_only_quantity ::
  "bool \<Rightarrow> int \<Rightarrow> leg_name \<Rightarrow> real \<Rightarrow> real \<Rightarrow> live_db \<Rightarrow> reservation list \<Rightarrow> real \<times> exit_meta" where
  "resolve_reduce_only_quantity fallback sid l requested exch db t =
     (let amount0 = max 0 requested;
          owned = fetch_position_size_for_side db sid (ln_symbol l) (ln_side l);
          amount1 = (if owned > 0 then (if amount0 \<le> 0 then owned else min amount0 owned)
                     else if fallback then amount0 else 0);
          amount2 = (if exch > 0 then (if amount1 \<le> 0 \<and> fallback then exch
                                       else if amount1 > exch then exch else amount1)
                     else amount1);
          available = max 0 (exch - protected_quantity l t)
      in if ln_user l > 0 \<and> ln_cred l > 0
         then (min amount2 available, \<lparr>em_db_size = owned, em_exchange_size = exch, em_available = Some available\<rparr>)
         else (amount2, \<lparr>em_db_size = owned, em_exchange_size = exch, em_available = None\<rparr>))"

subsection \<open>Laws of the table\<close>

lemma merge_evaluation_key [simp]: "reservation_key (merge_evaluation lg now r new) = reservation_key r"
  by (simp add: merge_evaluation_def reservation_key_def)

lemma merge_repair_key [simp]: "reservation_key (merge_repair r new) = reservation_key r"
  by (simp add: merge_repair_def reservation_key_def)

lemma calculate_names [simp]:
  "ow_symbol (calculate_position_ownership sy si a b c m ps pr tol) = canonical_symbol sy"
  "ow_side (calculate_position_ownership sy si a b c m ps pr tol) = normalize_side si"
  by (simp_all only: calculate_position_ownership_def Let_def ownership.simps)

lemma calculate_measures:
  "ow_unknown (calculate_position_ownership sy si a b c m ps pr tol) =
     max 0 a - ow_expected (calculate_position_ownership sy si a b c m ps pr tol)"
  "ow_tolerance (calculate_position_ownership sy si a b c m ps pr tol) =
     max eps8 (max (ow_expected (calculate_position_ownership sy si a b c m ps pr tol) * (1 / 1000)) (max 0 tol))"
  "ow_expected (calculate_position_ownership sy si a b c m ps pr tol) =
     max 0 b + (if py_lower m = ''advanced'' then max 0 c else 0)"
  by (simp_all only: calculate_position_ownership_def Let_def ownership.simps) simp

lemma proposed_key: "reservation_key (proposed_reservation ob (assess ob row)) = leg_key_of (ob_leg ob)"
  by (simp add: reservation_key_def proposed_reservation_def leg_key_of_def assess_def)

text \<open>The row of a leg after an evaluation, as a function of the row before.\<close>

definition evaluated_row :: "observation \<Rightarrow> reservation option \<Rightarrow> reservation option" where
  "evaluated_row ob row =
     (let s = assess ob row; new = proposed_reservation ob s in
      Some (case row of None \<Rightarrow> new | Some r \<Rightarrow> merge_evaluation (ow_log s) (ob_now ob) r new))"

lemma evaluate_row:
  "row_at reservation_key k (snd (evaluate_and_record_ownership ob t)) =
     (if k = leg_key_of (ob_leg ob) then evaluated_row ob (fetch_reservation (ob_leg ob) t)
      else row_at reservation_key k t)"
  by (simp add: evaluate_and_record_ownership_def Let_def row_at_upsert proposed_key evaluated_row_def fetch_reservation_def)

lemma evaluate_snapshot: "fst (evaluate_and_record_ownership ob t) = assess ob (fetch_reservation (ob_leg ob) t)"
  by (simp add: evaluate_and_record_ownership_def Let_def)

interpretation reservations: leg_machine
  "\<lambda>ob t. snd (evaluate_and_record_ownership ob t)" "keys_distinct reservation_key" "\<lambda>_. True"
  "\<lambda>ob. leg_key_of (ob_leg ob)" "\<lambda>t k. row_at reservation_key k t" evaluated_row
  by unfold_locales
    (auto simp: evaluate_row fetch_reservation_def, simp add: evaluate_and_record_ownership_def Let_def keys_upsert)

subsection \<open>Drift is reported once\<close>

text \<open>The snapshots a run of evaluations takes of one leg.\<close>

fun snapshots_of :: "leg_id \<Rightarrow> observation list \<Rightarrow> reservation list \<Rightarrow> ownership list" where
  "snapshots_of k [] t = []"
| "snapshots_of k (ob # obs) t =
     (if leg_key_of (ob_leg ob) = k then [fst (evaluate_and_record_ownership ob t)] else []) @
     snapshots_of k obs (snd (evaluate_and_record_ownership ob t))"

lemma calculate_verdict:
  fixes s :: ownership
  assumes "s = calculate_position_ownership sy si a b c m ps pr tol"
  shows "(ow_status s, ow_reason s, ow_allowed s) = drift_verdict (ow_tolerance s) (ow_unknown s)"
    "ow_log s \<longleftrightarrow> ow_status s = ''drift_blocked'' \<and> (ps \<noteq> ''drift_blocked'' \<or> pr \<noteq> ow_reason s)"
  by (simp_all only: assms calculate_position_ownership_def Let_def ownership.simps prod.collapse)

lemma calculate_reason:
  fixes s :: ownership
  assumes "s = calculate_position_ownership sy si a b c m ps pr tol"
  shows "ow_reason s = [] \<longleftrightarrow> ow_allowed s" "ow_status s = (if ow_reason s = [] then ''ok'' else ''drift_blocked'')"
    "ow_log s \<longleftrightarrow> ow_reason s \<noteq> [] \<and> (ps \<noteq> ''drift_blocked'' \<or> pr \<noteq> ow_reason s)"
  by (rule drift_verdict_cases[of "ow_unknown s" "ow_tolerance s"];
      use calculate_verdict[OF assms] in simp)+

lemma evaluated_row_marks:
  "row_text rs_status (evaluated_row ob row) = ow_status (assess ob row)"
  "row_text rs_reason (evaluated_row ob row) = ow_reason (assess ob row)"
  by (auto simp: evaluated_row_def Let_def row_text_def proposed_reservation_def merge_evaluation_def split: option.splits)

lemma assess_marks:
  "ow_log (assess ob row) \<longleftrightarrow> ow_reason (assess ob row) \<noteq> [] \<and>
     (row_text rs_status row \<noteq> ''drift_blocked'' \<or> row_text rs_reason row \<noteq> ow_reason (assess ob row))"
  "ow_status (assess ob row) = (if ow_reason (assess ob row) = [] then ''ok'' else ''drift_blocked'')"
  unfolding assess_def by (auto simp: calculate_reason[OF refl])

lemma logged_before:
  "row_text rs_status (row_at reservation_key k t) = ''drift_blocked'' \<Longrightarrow> row_text rs_reason (row_at reservation_key k t) = r \<Longrightarrow>
   (\<And>s. s \<in> set (snapshots_of k obs t) \<Longrightarrow> ow_reason s = r) \<Longrightarrow> filter ow_log (snapshots_of k obs t) = []"
proof (induction obs arbitrary: t)
  case (Cons ob obs)
  let ?t = "snd (evaluate_and_record_ownership ob t)"
  show ?case
  proof (cases "leg_key_of (ob_leg ob) = k")
    case True
    let ?s = "assess ob (row_at reservation_key k t)"
    have r: "ow_reason ?s = r" using Cons.prems(3) True by (auto simp: evaluate_snapshot fetch_reservation_def)
    have nr: "\<not> ow_log ?s" using assess_marks(1)[of ob "row_at reservation_key k t"] Cons.prems(1,2) r by simp
    have row: "row_at reservation_key k ?t = evaluated_row ob (row_at reservation_key k t)"
      using True by (simp add: evaluate_row fetch_reservation_def)
    have "row_text rs_status (row_at reservation_key k ?t) = ''drift_blocked'' \<or> r = []"
      using assess_marks(2)[of ob "row_at reservation_key k t"] r by (simp add: row evaluated_row_marks)
    moreover have "row_text rs_reason (row_at reservation_key k ?t) = r" by (simp add: row evaluated_row_marks r)
    moreover have "filter ow_log (snapshots_of k obs ?t) = []" if "r = []"
    proof -
      have "\<not> ow_log s" if "s \<in> set (snapshots_of k obs' t')" "\<And>s. s \<in> set (snapshots_of k obs' t') \<Longrightarrow> ow_reason s = []" for s obs' t'
        using that
      proof (induction obs' arbitrary: t')
        case (Cons ob' obs')
        then show ?case using assess_marks(1)[of ob' "fetch_reservation (ob_leg ob') t'"]
          by (auto simp: evaluate_snapshot split: if_splits)
      qed simp
      then show ?thesis using Cons.prems(3) that by (auto simp: filter_empty_conv)
    qed
    ultimately have "filter ow_log (snapshots_of k obs ?t) = []"
      using Cons.IH[of ?t] Cons.prems(3) by auto
    then show ?thesis using nr True by (simp add: evaluate_snapshot fetch_reservation_def)
  next
    case False
    then have "row_at reservation_key k ?t = row_at reservation_key k t" by (simp add: evaluate_row)
    then show ?thesis using Cons.IH[of ?t] Cons.prems False by auto
  qed
qed simp

lemma drift_logs:
  assumes "\<forall>s \<in> set (snapshots_of k obs t). ow_reason s = r"
  shows "length (filter ow_log (snapshots_of k obs t)) \<le> 1"
  using assms
proof (induction obs arbitrary: t)
  case (Cons ob obs)
  let ?t = "snd (evaluate_and_record_ownership ob t)"
  have tail: "\<forall>s \<in> set (snapshots_of k obs ?t). ow_reason s = r" using Cons.prems by auto
  show ?case
  proof (cases "leg_key_of (ob_leg ob) = k")
    case True
    let ?row = "row_at reservation_key k t"
    have s: "fst (evaluate_and_record_ownership ob t) = assess ob ?row"
      using True by (simp add: evaluate_snapshot fetch_reservation_def)
    have r: "ow_reason (assess ob ?row) = r" using Cons.prems True by (simp add: s)
    show ?thesis
    proof (cases "r = []")
      case True
      then have "\<not> ow_log (assess ob ?row)" using assess_marks(1)[of ob ?row] r by simp
      then show ?thesis using Cons.IH[OF tail] \<open>leg_key_of (ob_leg ob) = k\<close> by (simp add: s)
    next
      case False
      have row: "row_at reservation_key k ?t = evaluated_row ob ?row"
        using True by (simp add: evaluate_row fetch_reservation_def)
      have "filter ow_log (snapshots_of k obs ?t) = []"
        using assess_marks(2)[of ob ?row] False r tail
        by (intro logged_before[of k ?t r]) (auto simp: row evaluated_row_marks)
      then show ?thesis using True by (simp add: s)
    qed
  next
    case False
    then show ?thesis using Cons.IH[OF tail] by simp
  qed
qed simp

subsection \<open>Repair and protection\<close>

definition surplus :: "observation \<Rightarrow> real" where
  "surplus ob = max 0 (ob_account ob - ob_strategy ob)"

text \<open>The row a successful protection leaves: advanced mode, the surplus in reserve, no block.\<close>

definition protects :: "observation \<Rightarrow> reservation option \<Rightarrow> bool" where
  "protects ob row \<longleftrightarrow> (\<exists>r. row = Some r \<and> rs_mode r = ''advanced'' \<and> rs_manual r = decimal8 (surplus ob) \<and>
     rs_status r = ''ok'' \<and> rs_reason r = [])"

lemma advanced_lower [simp]: "py_lower ''advanced'' = ''advanced''" "lower_strip ''protect_manual'' = ''protect_manual''"
  by code_simp+

lemma protected_snapshot:
  assumes "0 \<le> b" "b \<le> a + eps8" "\<bar>p - max 0 (a - b)\<bar> \<le> half8" "0 \<le> p" "a < b \<Longrightarrow> p = 0"
  shows "ow_allowed (calculate_position_ownership sy si a b p ''advanced'' ps pr tol)"
proof -
  define s where "s = calculate_position_ownership sy si a b p ''advanced'' ps pr tol"
  have t: "eps8 \<le> ow_tolerance s" by (simp only: s_def calculate_position_ownership_def Let_def ownership.simps max.cobounded1)
  have u: "ow_unknown s = max 0 a - (max 0 b + max 0 p)"
    by (simp add: s_def calculate_position_ownership_def Let_def)
  have h: "half8 \<le> eps8" by (simp add: half8_def eps8_def)
  have "\<bar>ow_unknown s\<bar> \<le> eps8"
  proof (cases "a < b")
    case True
    then show ?thesis using u assms(1,2,5) by (simp add: abs_le_iff max_def)
  next
    case False
    then show ?thesis using u assms(1,3,4) h by (simp add: abs_le_iff max_def)
  qed
  with t have "\<bar>ow_unknown s\<bar> \<le> ow_tolerance s" by linarith
  then show ?thesis using calculate_verdict(1)[OF s_def] by (simp add: drift_verdict_def s_def)
qed

lemma repair_leaves_protection:
  assumes "repair_position_ownership ob ''protect_manual'' t = Inr (s, t')" "0 \<le> ob_strategy ob"
  shows "ow_allowed s" "ob_strategy ob \<le> ob_account ob + eps8" "protects ob (fetch_reservation (ob_leg ob) t')"
proof -
  let ?l = "ob_leg ob"
  let ?new = "(proposed_reservation ob s)\<lparr>rs_exchange := py_lower (ob_exchange ob), rs_inst := ob_inst ob,
     rs_mode := ''advanced'', rs_manual := decimal8 (surplus ob), rs_last_log := None\<rparr>"
  have ne: "\<not> ob_account ob + eps8 < ob_strategy ob"
    and s: "s = calculate_position_ownership (ln_symbol ?l) (ln_side ?l) (ob_account ob) (ob_strategy ob) (surplus ob) ''advanced'' [] [] 0"
    and t: "t' = upsert_row reservation_key merge_repair ?new t"
    using assms(1) by (auto simp: repair_position_ownership_def Let_def surplus_def split: if_splits)
  show le: "ob_strategy ob \<le> ob_account ob + eps8" using ne by simp
  show al: "ow_allowed s" unfolding s using le assms(2) by (intro protected_snapshot) (auto simp: surplus_def)
  have key: "reservation_key ?new = leg_key_of ?l"
    by (simp add: reservation_key_def proposed_reservation_def leg_key_of_def s)
  have st: "ow_reason s = []" "ow_status s = ''ok''" using al calculate_reason(1,2)[OF s] by simp_all
  have row: "fetch_reservation ?l t' =
      Some (case row_at reservation_key (leg_key_of ?l) t of None \<Rightarrow> ?new | Some r \<Rightarrow> merge_repair r ?new)"
    unfolding t fetch_reservation_def by (subst row_at_upsert) (simp_all only: merge_repair_key key simp_thms if_True)
  show "protects ob (fetch_reservation ?l t')"
    unfolding row by (auto simp: protects_def merge_repair_def proposed_reservation_def st split: option.splits)
qed

lemma surplus_stored: "\<bar>decimal8 (surplus ob) - surplus ob\<bar> \<le> half8" "0 \<le> decimal8 (surplus ob)"
  by (simp_all add: decimal8_error decimal8_nonneg surplus_def)

lemma protects_quantity:
  assumes "protects ob (fetch_reservation l t)" shows "protected_quantity l t = decimal8 (surplus ob)"
  using assms surplus_stored(2)[of ob]
  by (auto simp: protects_def protected_quantity_def row_text_def row_num_def default_text_def)

text \<open>An evaluation never changes the mode or the reserve of a stored row.\<close>

definition keeps_reserve :: "real \<Rightarrow> reservation option \<Rightarrow> bool" where
  "keeps_reserve q row \<longleftrightarrow> (\<exists>r. row = Some r \<and> rs_mode r = ''advanced'' \<and> rs_manual r = q)"

lemma evaluate_keeps_reserve:
  "keeps_reserve q (row_at reservation_key k t) \<Longrightarrow>
   keeps_reserve q (row_at reservation_key k (snd (evaluate_and_record_ownership ob t)))"
  by (auto simp: evaluate_row evaluated_row_def keeps_reserve_def fetch_reservation_def Let_def merge_evaluation_def)

lemma evaluations_keep_reserve:
  "keeps_reserve q (row_at reservation_key k t) \<Longrightarrow>
   keeps_reserve q (row_at reservation_key k (fold (\<lambda>ob t. snd (evaluate_and_record_ownership ob t)) obs t))"
  by (induction obs arbitrary: t) (auto intro: evaluate_keeps_reserve)

lemma reserve_quantity:
  "keeps_reserve q (fetch_reservation l t) \<Longrightarrow> protected_quantity l t = max 0 q"
  by (auto simp: keeps_reserve_def protected_quantity_def row_text_def row_num_def default_text_def)

lemma sized_exit_quantity:
  assumes "ln_user l > 0" "ln_cred l > 0"
  shows "fst (resolve_reduce_only_quantity fb sid l req exch db t) =
    (let amount0 = max 0 req; owned = fetch_position_size_for_side db sid (ln_symbol l) (ln_side l);
         amount1 = (if owned > 0 then (if amount0 \<le> 0 then owned else min amount0 owned) else if fb then amount0 else 0);
         amount2 = (if exch > 0 then (if amount1 \<le> 0 \<and> fb then exch else if amount1 > exch then exch else amount1) else amount1)
     in min amount2 (max 0 (exch - protected_quantity l t)))"
  by (simp only: resolve_reduce_only_quantity_def Let_def assms simp_thms if_True fst_conv)

lemma exit_bounds:
  assumes "ln_user l > 0" "ln_cred l > 0" "0 \<le> exch"
  shows "0 \<le> fst (resolve_reduce_only_quantity fb sid l req exch db t)"
    "fst (resolve_reduce_only_quantity fb sid l req exch db t) \<le> max 0 (exch - protected_quantity l t)"
    "\<not> fb \<Longrightarrow> fst (resolve_reduce_only_quantity fb sid l req exch db t) \<le> fetch_position_size_for_side db sid (ln_symbol l) (ln_side l)"
proof -
  have o: "0 \<le> fetch_position_size_for_side db sid (ln_symbol l) (ln_side l)"
    by (simp add: fetch_position_size_for_side_def split: option.splits)
  then show "0 \<le> fst (resolve_reduce_only_quantity fb sid l req exch db t)"
    using assms(3) unfolding sized_exit_quantity[OF assms(1,2)] Let_def by (simp add: min_le_iff_disj)
  show "fst (resolve_reduce_only_quantity fb sid l req exch db t) \<le> max 0 (exch - protected_quantity l t)"
    unfolding sized_exit_quantity[OF assms(1,2)] Let_def by (rule min.cobounded2)
  show "\<not> fb \<Longrightarrow> fst (resolve_reduce_only_quantity fb sid l req exch db t) \<le> fetch_position_size_for_side db sid (ln_symbol l) (ln_side l)"
    using o unfolding sized_exit_quantity[OF assms(1,2)] Let_def by (simp add: min_le_iff_disj)
qed

subsection \<open>What the entry guard checks\<close>

definition reserve_in_force :: "reservation option \<Rightarrow> real" where
  "reserve_in_force row =
     (if py_lower (default_text (row_text rs_mode row) ''strict'') = ''advanced'' then max 0 (row_num rs_manual row) else 0)"

definition user_leg :: "leg_name \<Rightarrow> leg_name" where
  "user_leg l = l\<lparr>ln_user := (if ln_user l = 0 then 1 else ln_user l)\<rparr>"

text \<open>The account holds what the strategies and the user's reserve explain.\<close>

definition explained :: "real \<Rightarrow> real \<Rightarrow> real \<Rightarrow> real \<Rightarrow> bool" where
  "explained account owned reserve tol =
     (\<bar>max 0 account - (owned + reserve)\<bar> \<le> max eps8 (max ((owned + reserve) / 1000) (max 0 tol)))"

definition no_opposite :: "(string \<Rightarrow> real option) \<Rightarrow> string \<Rightarrow> real \<Rightarrow> bool" where
  "no_opposite venue side mine = (mine \<le> eps8 \<or> (case venue side of None \<Rightarrow> False | Some live \<Rightarrow> live \<le> eps8))"

lemma allocated_nonneg: "0 \<le> fetch_allocated_position_size db sid cred mt sy si"
  by (simp add: fetch_allocated_position_size_def Let_def sum_of_nonneg)

lemma assess_allowed:
  assumes "0 \<le> ob_strategy ob"
  shows "ow_allowed (assess ob row) = explained (ob_account ob) (ob_strategy ob) (reserve_in_force row) (ob_tolerance ob)"
proof -
  define s where "s = assess ob row"
  have e: "ow_expected s = ob_strategy ob + reserve_in_force row"
    unfolding s_def assess_def calculate_measures(3) reserve_in_force_def using assms by simp
  then have u: "ow_unknown s = max 0 (ob_account ob) - (ob_strategy ob + reserve_in_force row)"
    "ow_tolerance s = max eps8 (max ((ob_strategy ob + reserve_in_force row) / 1000) (max 0 (ob_tolerance ob)))"
    by (simp_all add: s_def assess_def calculate_measures(1,2))
  have v: "(ow_status s, ow_reason s, ow_allowed s) = drift_verdict (ow_tolerance s) (ow_unknown s)"
    by (rule calculate_verdict(1)) (simp add: s_def assess_def)
  have "ow_allowed s \<longleftrightarrow> \<bar>ow_unknown s\<bar> \<le> ow_tolerance s"
    by (rule drift_verdict_cases[of "ow_unknown s" "ow_tolerance s"]) (use v in auto)
  then show ?thesis unfolding s_def[symmetric] explained_def u .
qed

lemma entry_guard_verdict:
  fixes venue :: "string \<Rightarrow> real option"
  defines "owned sid l db \<equiv> fetch_allocated_position_size db sid (ln_cred l) (ln_market l) (ln_symbol l) (ln_side l)"
  defines "other l \<equiv> (if ln_side l = ''long'' then ''short'' else ''long'')"
  shows "gr_error (fst (evaluate_entry_position_guard infer venue sid strategy l exchange account price now db t)) = None \<longleftrightarrow>
    explained account (owned sid l db) (reserve_in_force (fetch_reservation (user_leg l) t)) (guard_tolerance strategy price) \<and>
    (normalize_market_type (ln_market l) = ''spot'' \<or> resolve_strategy_direction_mode infer strategy \<in> {''both'', ''neutral''} \<or>
     no_opposite venue (other l) (fetch_position_size_for_side db sid (ln_symbol l) (other l)))"
proof -
  define ob where "ob = \<lparr>ob_leg = user_leg l, ob_exchange = exchange, ob_account = account, ob_strategy = owned sid l db,
    ob_inst = [], ob_tolerance = guard_tolerance strategy price, ob_now = now\<rparr>"
  define g where "g = fst (evaluate_entry_position_guard infer venue sid strategy l exchange account price now db t)"
  define s where "s = assess ob (fetch_reservation (user_leg l) t)"
  have a: "ow_allowed s = explained account (owned sid l db) (reserve_in_force (fetch_reservation (user_leg l) t)) (guard_tolerance strategy price)"
    using assess_allowed[of ob "fetch_reservation (user_leg l) t"] allocated_nonneg by (simp add: s_def ob_def owned_def)
  define mine where "mine = fetch_position_size_for_side db sid (ln_symbol l) (other l)"
  have g: "gr_error g = (if \<not> ow_allowed s then Some (PositionDrift s)
      else if normalize_market_type (ln_market l) = ''spot'' then None
      else if resolve_strategy_direction_mode infer strategy \<in> {''both'', ''neutral''} then None
      else if mine \<le> eps8 then None
      else case venue (other l) of None \<Rightarrow> Some OppositeSnapshotFailed
        | Some live \<Rightarrow> if live \<le> eps8 then None else Some (OppositeStillOpen (other l) live mine))"
    unfolding g_def evaluate_entry_position_guard_def Let_def owned_def[symmetric] user_leg_def[symmetric] ob_def[symmetric]
      other_def[symmetric] mine_def[symmetric] split_beta evaluate_snapshot fst_conv
    by (auto simp: s_def ob_def split: option.splits)
  show ?thesis unfolding g_def[symmetric] mine_def[symmetric] a[symmetric] g no_opposite_def
    by (auto split: option.splits)
qed

subsection \<open>Properties\<close>

definition demo_leg :: leg_name where
  "demo_leg = \<lparr>ln_user = 1, ln_cred = 4, ln_market = ''swap'', ln_symbol = ''BTC/USDT'', ln_side = ''long''\<rparr>"

definition demo_obs :: "real \<Rightarrow> int \<Rightarrow> observation" where
  "demo_obs account now = \<lparr>ob_leg = demo_leg, ob_exchange = ''okx'', ob_account = account, ob_strategy = 3, ob_inst = [],
     ob_tolerance = 0, ob_now = now\<rparr>"

text \<open>C6: Once the user has protected the manual holdings of a leg, no exit of a strategy sells them: after a
  successful protect_manual repair and any number of later evaluations of any legs, a reduce-only order sized
  against what the exchange reports (in recovery mode too) leaves at least the protected surplus on the
  account, up to half a unit of the eighth decimal, or, when the account holds less, all of it.\<close>

theorem exits_leave_manual_holdings:
  fixes fallback :: bool and sid :: int and requested exch :: real and db :: live_db and obs :: "observation list"
  assumes "repair_position_ownership ob ''protect_manual'' t = Inr (s, t')" "0 \<le> ob_strategy ob"
    "ln_user (ob_leg ob) > 0" "ln_cred (ob_leg ob) > 0" "0 \<le> exch"
  defines "amount \<equiv> fst (resolve_reduce_only_quantity fallback sid (ob_leg ob) requested exch db
      (fold (\<lambda>ob t. snd (evaluate_and_record_ownership ob t)) obs t'))"
  shows "0 \<le> amount \<and> min exch (surplus ob - half8) \<le> exch - amount"
proof -
  let ?t = "fold (\<lambda>ob t. snd (evaluate_and_record_ownership ob t)) obs t'"
  have "keeps_reserve (decimal8 (surplus ob)) (fetch_reservation (ob_leg ob) t')"
    using repair_leaves_protection(3)[OF assms(1,2)] by (auto simp: protects_def keeps_reserve_def)
  then have "keeps_reserve (decimal8 (surplus ob)) (fetch_reservation (ob_leg ob) ?t)"
    unfolding fetch_reservation_def by (rule evaluations_keep_reserve)
  then have q: "protected_quantity (ob_leg ob) ?t = max 0 (decimal8 (surplus ob))" by (rule reserve_quantity)
  show ?thesis
    using exit_bounds(1,2)[OF assms(3-5), of fallback sid requested db ?t] surplus_stored[of ob] assms(5)
    unfolding amount_def q by (auto simp: abs_le_iff max_def min_def split: if_splits)
qed


text \<open>A drift is logged once: over any run of evaluations, interleaved with those of other legs, in
  which a leg keeps the same verdict, at most one evaluation of it asks for a log line.\<close>

theorem drift_is_logged_once:
  assumes "\<forall>s \<in> set (snapshots_of k obs t). ow_reason s = r"
  shows "length (filter ow_log (snapshots_of k obs t)) \<le> 1"
  by (rule drift_logs[OF assms])

lemma demo_obs_fields [simp]:
  "ob_leg (demo_obs a n) = demo_leg" "ob_account (demo_obs a n) = a" "ob_strategy (demo_obs a n) = 3"
  "ln_user demo_leg = 1" "ln_cred demo_leg = 4" "surplus (demo_obs 10 0) = 7"
  by (simp_all add: demo_obs_def demo_leg_def surplus_def)

definition demo_protected :: "ownership \<times> reservation list" where
  "demo_protected = (case repair_position_ownership (demo_obs 10 0) ''protect_manual'' [] of Inl e \<Rightarrow> undefined | Inr r \<Rightarrow> r)"

lemma demo_repair: "repair_position_ownership (demo_obs 10 0) ''protect_manual'' [] = Inr demo_protected"
proof -
  have "isl (repair_position_ownership (demo_obs 10 0) ''protect_manual'' []) = False" by code_simp
  then show ?thesis unfolding demo_protected_def
    by (cases "repair_position_ownership (demo_obs 10 0) ''protect_manual'' []") auto
qed

theorem exits_leave_manual_holdings_witness:
  "min 9 (7 - half8) \<le> 9 - fst (resolve_reduce_only_quantity True 7 demo_leg 9 9 demo_db
     (fold (\<lambda>ob t. snd (evaluate_and_record_ownership ob t)) [demo_obs 12 1, demo_obs 10 2] (snd demo_protected)))"
proof -
  have r: "repair_position_ownership (demo_obs 10 0) ''protect_manual'' [] = Inr (fst demo_protected, snd demo_protected)"
    by (simp add: demo_repair)
  show ?thesis
    using exits_leave_manual_holdings[OF r, of 9 True 7 9 demo_db "[demo_obs 12 1, demo_obs 10 2]"]
    by (simp only: demo_obs_fields)
qed


theorem drift_is_logged_once_witness:
  "length (filter ow_log (snapshots_of (leg_key_of demo_leg) [demo_obs 10 0, demo_obs 11 1, demo_obs 9 2] [])) \<le> 1 \<and>
   list_ex ow_log (snapshots_of (leg_key_of demo_leg) [demo_obs 10 0, demo_obs 11 1, demo_obs 9 2] [])"
proof -
  let ?s = "snapshots_of (leg_key_of demo_leg) [demo_obs 10 0, demo_obs 11 1, demo_obs 9 2] []"
  have "list_all (\<lambda>s. ow_reason s = ''unallocated_account_position'') ?s" by code_simp
  then have r: "\<forall>s \<in> set ?s. ow_reason s = ''unallocated_account_position''" by (simp add: list_all_iff)
  have "list_ex ow_log ?s" by code_simp
  with drift_is_logged_once[OF r] show ?thesis by blast
qed

text \<open>C35: The entry guard fails closed: an entry is let through exactly when the account leg is explained by what
  the strategies own and the user's reserve, within the tolerance, and, for a derivative strategy of one direction,
  the opposite leg is gone from the ledger or verifiably from the exchange; a failing exchange query refuses.\<close>

theorem entry_guard_fails_closed:
  "gr_error (fst (evaluate_entry_position_guard infer venue sid strategy l exchange account price now db t)) = None \<longleftrightarrow>
    explained account (fetch_allocated_position_size db sid (ln_cred l) (ln_market l) (ln_symbol l) (ln_side l))
      (reserve_in_force (fetch_reservation (user_leg l) t)) (guard_tolerance strategy price) \<and>
    (normalize_market_type (ln_market l) = ''spot'' \<or> resolve_strategy_direction_mode infer strategy \<in> {''both'', ''neutral''} \<or>
     no_opposite venue (if ln_side l = ''long'' then ''short'' else ''long'')
       (fetch_position_size_for_side db sid (ln_symbol l) (if ln_side l = ''long'' then ''short'' else ''long'')))"
  by (rule entry_guard_verdict)

end
