(* ===== verification/Fees.thy ===== *)
theory Fees
  imports LocalPositions
begin

text \<open>
  Fees and limits of submitted orders: \<open>pending_orders/fee_reconciliation.py\<close> with the conversion of
  \<open>live_trading/fee_quote.py\<close>, the recovery helpers of \<open>pending_orders/sent_order_recovery.py\<close> and the
  notional limit of \<open>pending_orders/order_budget.py\<close>. The JSON of a stored exchange response is given
  parsed, and the exchange's ticker is a parameter.
\<close>

subsection \<open>What a response reports\<close>

type_synonym fees = "real dict"

definition eps18 :: real where "eps18 = 1 / 1000000000000000000"

definition fee_key :: "string \<Rightarrow> string" where
  "fee_key c = default_text (py_upper (py_strip c)) ''UNKNOWN''"

definition add_fee :: "string \<times> json \<Rightarrow> fees \<Rightarrow> fees" where
  "add_fee kv fees =
     (let fee = float_safe (snd kv); k = fee_key (fst kv) in
      if \<bar>fee\<bar> > eps18 then dict_set k ((case map_of fees k of None \<Rightarrow> 0 | Some v \<Rightarrow> v) + fee) fees else fees)"

definition fee_breakdown_snapshot :: "json \<Rightarrow> fees" where
  "fee_breakdown_snapshot raw =
     (let data = as_dict raw; phases = as_dict (get data ''phases'');
          top = json_or (get data ''fees_by_ccy'') (get data ''fee_breakdown'');
          breakdown = (if is_dict top then top else get phases ''fee_breakdown'');
          fees = fold add_fee (entries breakdown) [];
          commission = float_safe (json_or (get data ''commission'') (get data ''fee''));
          ccy = fee_key (str_or_empty (json_or (get data ''commission_ccy'') (get data ''fee_ccy'')))
      in if fees \<noteq> [] then fees
         else if \<bar>commission\<bar> > eps18 then [(ccy, commission)] else [])"

text \<open>One currency with its amount; several currencies have no single amount.\<close>

definition fee_storage_values :: "fees \<Rightarrow> real \<times> string" where
  "fee_storage_values fees =
     (case fees of
        [] \<Rightarrow> (0, [])
      | [(c, a)] \<Rightarrow> (a, if c = ''UNKNOWN'' then [] else c)
      | _ \<Rightarrow> (0, ''MIXED''))"

definition commission_snapshot :: "json \<Rightarrow> real \<times> string" where
  "commission_snapshot raw = fee_storage_values (fee_breakdown_snapshot raw)"

text \<open>\<open>stored\<close> is the parsed \<open>exchange_response_json\<close> of a row; no value when it is empty or unreadable.\<close>

definition previous_fee_breakdown :: "json option \<Rightarrow> fees" where
  "previous_fee_breakdown stored =
     (case stored of None \<Rightarrow> []
      | Some d \<Rightarrow> let sync = get d ''live_fill_sync'' in fee_breakdown_snapshot (if is_dict sync then sync else d))"

definition previous_commission :: "json option \<Rightarrow> real" where
  "previous_commission stored =
     (let fees = previous_fee_breakdown stored in if length fees = 1 then sum_of snd fees else 0)"

definition fee_of :: "fees \<Rightarrow> string \<Rightarrow> real" where
  "fee_of fees c = (case map_of fees c of None \<Rightarrow> 0 | Some v \<Rightarrow> v)"

definition incremental_fees :: "fees \<Rightarrow> fees \<Rightarrow> fees" where
  "incremental_fees cumulative previous =
     map (\<lambda>(c, a). (c, a - fee_of previous c)) (filter (\<lambda>(c, a). \<bar>a - fee_of previous c\<bar> > eps12) cumulative)"

subsection \<open>Conversion to the quote currency\<close>

definition stable_quotes :: "string list" where
  "stable_quotes = [''USD'', ''USDT'', ''USDC'', ''BUSD'', ''FDUSD'', ''TUSD'']"

definition symbol_currencies :: "string \<Rightarrow> string \<times> string" where
  "symbol_currencies symbol =
     (let n = normalize_strategy_symbol symbol; (base, quote) = split_slash n in
      if CHR ''/'' \<notin> set n then ([], [])
      else (py_upper base, py_upper (takeWhile (\<lambda>c. c \<noteq> CHR '':'') quote)))"

text \<open>The first positive price of a ticker.\<close>

fun ticker_price :: "json \<Rightarrow> string list \<Rightarrow> real option" where
  "ticker_price t [] = None"
| "ticker_price t (k # ks) = (let p = float_safe (get t k) in if p > 0 then Some p else ticker_price t ks)"

definition price_fields :: "string list" where
  "price_fields = [''last'', ''lastPrice'', ''lastPr'', ''close'', ''price'']"

text \<open>\<open>ticker\<close> is the client's \<open>get_ticker\<close>: no value when the client has none or the call fails.\<close>

definition fee_to_quote :: "(string \<Rightarrow> json option) \<Rightarrow> string \<Rightarrow> real \<Rightarrow> string \<Rightarrow> real \<Rightarrow> real option" where
  "fee_to_quote ticker symbol fee fee_ccy fill_price =
     (let sign = (if fee < 0 then - 1 else 1); amount = \<bar>fee\<bar>; ccy = py_upper (py_strip fee_ccy);
          (base, quote) = symbol_currencies symbol
      in if amount \<le> 0 then Some 0
         else if ccy = [] then None
         else if quote = [] \<and> ccy \<in> set stable_quotes then Some (sign * amount)
         else if ccy = quote \<or> (ccy \<in> set stable_quotes \<and> quote \<in> set stable_quotes) then Some (sign * amount)
         else if ccy = base \<and> fill_price > 0 then Some (sign * amount * fill_price)
         else if quote = [] then None
         else case ticker (ccy @ ''/'' @ quote) of
                None \<Rightarrow> None
              | Some t \<Rightarrow> if \<not> is_dict t then None
                  else map_option (\<lambda>p. sign * amount * p) (ticker_price t price_fields))"

fun fee_breakdown_to_quote :: "(string \<Rightarrow> json option) \<Rightarrow> string \<Rightarrow> fees \<Rightarrow> real \<Rightarrow> real option" where
  "fee_breakdown_to_quote ticker symbol [] fill_price = Some 0"
| "fee_breakdown_to_quote ticker symbol ((c, a) # fees) fill_price =
     (case fee_to_quote ticker symbol a (if c = ''UNKNOWN'' then [] else c) fill_price of
        None \<Rightarrow> None
      | Some v \<Rightarrow> map_option (\<lambda>rest. v + rest) (fee_breakdown_to_quote ticker symbol fees fill_price))"

subsection \<open>Backfill of late fees\<close>

definition lacks_fee :: "trade_row \<Rightarrow> bool" where
  "lacks_fee t = (tr_commission t = 0 \<or> some_or_0 (tr_commission_quote t) = 0)"

definition trade_weight :: "trade_row \<Rightarrow> real" where
  "trade_weight t = max 0 (py_or (tr_value t) (tr_amount t))"

text \<open>The rows to repair with their weights; equal weights when none is positive.\<close>

definition backfill_weights :: "trade_row list \<Rightarrow> real list \<times> real" where
  "backfill_weights rows =
     (let ws = map trade_weight rows; w = sum_list ws in
      if w \<le> 0 then (map (\<lambda>_. 1) rows, real (length rows)) else (ws, w))"

definition fill_fee :: "real \<Rightarrow> string \<Rightarrow> real option \<Rightarrow> real \<Rightarrow> trade_row \<Rightarrow> trade_row" where
  "fill_fee native ccy quote ratio t = t\<lparr>
     tr_commission := (if tr_commission t = 0 then decimal8 (native * ratio) else tr_commission t),
     tr_commission_ccy := (if tr_commission t = 0 then ccy else tr_commission_ccy t),
     tr_commission_quote := (if some_or_0 (tr_commission_quote t) = 0
        then map_option (\<lambda>q. decimal8 (q * ratio)) quote else tr_commission_quote t)\<rparr>"

definition update_fee :: "real \<Rightarrow> string \<Rightarrow> real option \<Rightarrow> trade_row \<times> real \<Rightarrow> trade_row list \<Rightarrow> trade_row list" where
  "update_fee native ccy quote rw ts =
     map (\<lambda>t. if tr_id t = tr_id (fst rw) \<and> lacks_fee t then fill_fee native ccy quote (snd rw) t else t) ts"

definition backfill_rows :: "int \<Rightarrow> live_db \<Rightarrow> trade_row list" where
  "backfill_rows order_id db = filter (\<lambda>t. tr_pending t = order_id \<and> lacks_fee t) (ld_trades db)"

definition backfill_zero_commission_trades :: "int \<Rightarrow> fees \<Rightarrow> real option \<Rightarrow> live_db \<Rightarrow> nat \<times> live_db" where
  "backfill_zero_commission_trades order_id fees quote db =
     (let (native, ccy) = fee_storage_values fees; rows = backfill_rows order_id db; (ws, w) = backfill_weights rows in
      if order_id \<le> 0 \<or> fees = [] \<or> rows = [] then (0, db)
      else (length rows, db\<lparr>ld_trades :=
              fold (update_fee native ccy quote) (zip rows (map (\<lambda>x. x / w) ws)) (ld_trades db)\<rparr>))"

subsection \<open>Recovering a submitted order\<close>

definition normalize_live_order_status :: "string \<Rightarrow> string" where
  "normalize_live_order_status status =
     (let n = replace_char CHR ''_'' [] (lower_strip status) in
      if n \<in> {''filled'', ''complete'', ''completed''} then ''filled''
      else if n \<in> {''cancelled'', ''canceled'', ''apicancelled'', ''inactive'', ''expired'', ''rejected''} then ''cancelled''
      else if n \<in> {''partiallyfilled'', ''partial'', ''partialfill''} then ''partial''
      else if n \<in> {''submitted'', ''presubmitted'', ''pendingsubmit'', ''pendingcancel'', ''open'', ''new''} then ''open''
      else ''unknown'')"

definition is_final_fill :: "real \<Rightarrow> real \<Rightarrow> real \<Rightarrow> string \<Rightarrow> bool" where
  "is_final_fill requested filled avg_price status =
     (let r = max 0 requested; f = max 0 filled in
      r > 0 \<and> f > 0 \<and> avg_price > 0 \<and>
      (normalize_live_order_status status = ''filled'' \<or> f \<ge> r * (999999 / 1000000)))"

text \<open>
  \<open>stored\<close> is the parsed response, no value where reading it raises; order ids are stored as text.
  \<open>x or {}\<close> followed by \<open>.get\<close>: what is neither false nor a dict raises, and every error falls back.
\<close>

definition dict_or_raise :: "json \<Rightarrow> json option" where
  "dict_or_raise x = (if json_truthy x then if is_dict x then Some x else None else Some (JDict []))"

definition pair_of :: "json \<Rightarrow> string \<Rightarrow> string \<Rightarrow> (real \<times> real) option" where
  "pair_of d a b = (case (float_or_0 (get d a), float_or_0 (get d b)) of
     (Some x, Some y) \<Rightarrow> Some (max 0 x, max 0 y) | _ \<Rightarrow> None)"

definition executor_summary :: "json \<Rightarrow> json option" where
  "executor_summary response =
     (case dict_or_raise (get response ''phases'') of
        None \<Rightarrow> None
      | Some phases \<Rightarrow> map_option (\<lambda>ex. json_or (get ex ''market_summary'') (JDict []))
          (dict_or_raise (get phases ''executor'')))"

definition recorded_baseline :: "json \<Rightarrow> string \<Rightarrow> (real \<times> real) option" where
  "recorded_baseline response order_id =
     (let sync = get response ''live_fill_sync'' in
      if ''tracked_filled'' \<in> set (map fst (entries sync)) then pair_of sync ''tracked_filled'' ''tracked_avg_price''
      else case executor_summary response of
             None \<Rightarrow> None
           | Some summary \<Rightarrow>
               if is_dict summary \<and> str_or_empty (get summary ''exchange_order_id'') = order_id
               then pair_of summary ''filled_qty'' ''avg_price'' else None)"

definition tracked_fill_baseline :: "json option \<Rightarrow> string \<Rightarrow> real \<Rightarrow> real \<Rightarrow> real \<times> real" where
  "tracked_fill_baseline stored order_id previous_filled previous_avg =
     (case (case stored of None \<Rightarrow> None | Some d \<Rightarrow> dict_or_raise d) of
        None \<Rightarrow> (max 0 previous_filled, max 0 previous_avg)
      | Some response \<Rightarrow>
          (case recorded_baseline response order_id of
             None \<Rightarrow> (max 0 previous_filled, max 0 previous_avg) | Some p \<Rightarrow> p))"

subsection \<open>The notional limit of entries\<close>

definition entry_actions :: "string list" where
  "entry_actions = [''open_long'', ''add_long'', ''open_short'', ''add_short'']"

record budget =
  bu_allowed :: bool
  bu_action :: string
  bu_side :: string
  bu_quantity :: real
  bu_price :: real
  bu_order_notional :: real
  bu_current :: real
  bu_projected :: real
  bu_capacity :: real
  bu_limit :: real
  bu_reason :: string

text \<open>A current position: its side, its size and, where the size is missing, its quantity.\<close>

type_synonym held = "string \<times> real \<times> real"

definition held_on_side :: "string \<Rightarrow> held list \<Rightarrow> real" where
  "held_on_side side rows =
     sum_of (\<lambda>(sd, sz, q). \<bar>py_or sz q\<bar>) (filter (\<lambda>(sd, sz, q). lower_strip (default_text sd ''long'') = side) rows)"

definition strategy_order_budget_snapshot ::
  "string \<Rightarrow> real \<Rightarrow> real \<Rightarrow> real \<Rightarrow> real \<Rightarrow> string \<Rightarrow> held list \<Rightarrow> real \<Rightarrow> budget" where
  "strategy_order_budget_snapshot action quantity price initial_capital leverage market_type positions buffer_ratio =
     (let act = lower_strip action; qty = max 0 quantity; mark = max 0 price; capital = max 0 initial_capital;
          market = lower_strip (default_text market_type ''spot'');
          lev = (if market \<noteq> ''spot'' then max 1 (py_or leverage 1) else 1);
          capacity = capital * lev; buffer = min (1 / 10) (max 0 buffer_ratio); limit = capacity * (1 + buffer);
          side = (if py_endswith act ''_long'' then ''long'' else ''short'');
          current = held_on_side side positions;
          order_notional = qty * mark; projected = (current + qty) * mark;
          verifiable = capacity > 0 \<and> mark > 0;
          allowed = act \<notin> set entry_actions \<or>
            (verifiable \<and> order_notional \<le> limit + eps8 \<and> projected \<le> limit + eps8)
      in \<lparr>bu_allowed = allowed, bu_action = act, bu_side = side, bu_quantity = qty, bu_price = mark,
          bu_order_notional = order_notional, bu_current = current, bu_projected = projected,
          bu_capacity = capacity, bu_limit = limit,
          bu_reason = (if allowed then [] else if \<not> verifiable then ''budget_unverifiable''
                       else ''strategy_budget_exceeded'')\<rparr>)"

subsection \<open>Increments add up\<close>

text \<open>
  The fee increments posted for one currency over a sequence of cumulative snapshots, each
  compared with the one before.
\<close>

fun posted_fee :: "string \<Rightarrow> fees \<Rightarrow> fees list \<Rightarrow> real" where
  "posted_fee c previous [] = 0"
| "posted_fee c previous (f # fs) = fee_of (incremental_fees f previous) c + posted_fee c f fs"

lemma fee_of_absent: "c \<notin> fst ` set d \<Longrightarrow> fee_of d c = 0"
proof -
  assume "c \<notin> fst ` set d"
  then have "map_of d c = None" by (simp add: map_of_eq_None_iff)
  then show ?thesis by (simp add: fee_of_def)
qed

lemma incremental_fee:
  assumes "dict_wf f" "c \<in> fst ` set f"
  shows "\<bar>fee_of (incremental_fees f p) c - (fee_of f c - fee_of p c)\<bar> \<le> eps12"
  using assms
proof (induction f)
  case (Cons x f)
  obtain k a where x: "x = (k, a)" by (cases x)
  show ?case
  proof (cases "k = c")
    case True
    then have c: "c \<notin> fst ` set f" using Cons.prems x by auto
    then have "c \<notin> fst ` set (incremental_fees f p)" by (force simp: incremental_fees_def)
    then have "fee_of (incremental_fees f p) c = 0" by (rule fee_of_absent)
    then show ?thesis using True by (auto simp: x incremental_fees_def fee_of_def)
  next
    case False
    then have "fee_of (incremental_fees (x # f) p) c = fee_of (incremental_fees f p) c" "fee_of (x # f) c = fee_of f c"
      by (auto simp: x incremental_fees_def fee_of_def)
    then show ?thesis using Cons x False by auto
  qed
qed simp

lemma posted_fees:
  assumes "\<And>f. f \<in> set fs \<Longrightarrow> dict_wf f \<and> c \<in> fst ` set f"
  shows "\<bar>posted_fee c p fs - (fee_of (last (p # fs)) c - fee_of p c)\<bar> \<le> real (length fs) * eps12"
  using assms
proof (induction fs arbitrary: p)
  case (Cons f fs)
  have f: "dict_wf f" "c \<in> fst ` set f" using Cons.prems[of f] by simp_all
  have "\<bar>posted_fee c f fs - (fee_of (last (f # fs)) c - fee_of f c)\<bar> \<le> real (length fs) * eps12"
    using Cons.IH[of f] Cons.prems by auto
  with incremental_fee[OF f, of p] have
    "\<bar>posted_fee c p (f # fs) - (fee_of (last (f # fs)) c - fee_of p c)\<bar> \<le> eps12 + real (length fs) * eps12"
    by simp
  then show ?case by (simp add: algebra_simps)
qed simp

subsection \<open>The backfill distributes the fee\<close>

lemma update_fee_simps: "update_fee nt ccy q rw [] = []"
  by (simp add: update_fee_def)

lemma fill_fee_id [simp]: "tr_id (fill_fee nt ccy q r t) = tr_id t" "tr_pending (fill_fee nt ccy q r t) = tr_pending t"
  by (simp_all add: fill_fee_def)

text \<open>What the whole loop does to one row: at most one entry of the list bears its id.\<close>

definition filled_row :: "real \<Rightarrow> string \<Rightarrow> real option \<Rightarrow> (trade_row \<times> real) list \<Rightarrow> trade_row \<Rightarrow> trade_row" where
  "filled_row nt ccy q rws t =
     (case find (\<lambda>rw. tr_id (fst rw) = tr_id t) rws of
        None \<Rightarrow> t | Some rw \<Rightarrow> if lacks_fee t then fill_fee nt ccy q (snd rw) t else t)"

lemma filled_row_nil: "(\<And>rw. rw \<in> set rws \<Longrightarrow> tr_id (fst rw) \<noteq> tr_id t) \<Longrightarrow> filled_row nt ccy q rws t = t"
proof -
  assume "\<And>rw. rw \<in> set rws \<Longrightarrow> tr_id (fst rw) \<noteq> tr_id t"
  then have "find (\<lambda>rw. tr_id (fst rw) = tr_id t) rws = None" by (auto simp: find_None_iff)
  then show ?thesis by (simp add: filled_row_def)
qed

lemma fold_update_fee:
  "distinct (map (tr_id \<circ> fst) rws) \<Longrightarrow>
   fold (update_fee nt ccy q) rws ts = map (filled_row nt ccy q rws) ts"
proof (induction rws arbitrary: ts)
  case Nil
  show ?case by (simp add: filled_row_def)
next
  case (Cons rw rws)
  let ?u = "\<lambda>t. if tr_id t = tr_id (fst rw) \<and> lacks_fee t then fill_fee nt ccy q (snd rw) t else t"
  have "filled_row nt ccy q rws (?u t) = filled_row nt ccy q (rw # rws) t" for t
  proof (cases "tr_id (fst rw) = tr_id t")
    case True
    have "filled_row nt ccy q rws (?u t) = ?u t"
      by (rule filled_row_nil) (use Cons.prems True in \<open>auto simp: comp_def image_iff\<close>)
    then show ?thesis using True by (simp add: filled_row_def)
  next
    case False
    then show ?thesis by (simp add: filled_row_def)
  qed
  then show ?case using Cons by (simp add: update_fee_def comp_def)
qed

lemma find_zip:
  "length ws = length rows \<Longrightarrow> distinct (map tr_id rows) \<Longrightarrow>
   map (\<lambda>t. find (\<lambda>rw. tr_id (fst rw) = tr_id t) (zip rows ws)) rows = map Some (zip rows ws)"
proof (induction rows arbitrary: ws)
  case (Cons t rows)
  then obtain w ws' where ws: "ws = w # ws'" by (cases ws) auto
  let ?f = "\<lambda>rows ws u. find (\<lambda>rw. tr_id (fst rw) = tr_id u) (zip rows ws)"
  have tail: "map (?f (t # rows) ws) rows = map (?f rows ws') rows"
    using Cons.prems(2) by (intro map_cong refl) (auto simp: ws image_iff)
  have ih: "map (?f rows ws') rows = map Some (zip rows ws')" using Cons by (simp add: ws)
  have "map (?f (t # rows) ws) (t # rows) = Some (t, w) # map (?f (t # rows) ws) rows" by (simp add: ws)
  also have "\<dots> = map Some (zip (t # rows) ws)" unfolding tail ih by (simp add: ws)
  finally show ?case .
qed simp

lemma sum_zip_snd: "length rs = length rows \<Longrightarrow> sum_of (\<lambda>x. f (snd x)) (zip rows rs) = sum_of f rs"
  by (induction rs rows rule: list_induct2) auto

lemma sum_scaled: "sum_of (\<lambda>x. c * (x / w)) ws = c * (sum_list ws / w)" for c w :: real
  by (induction ws) (auto simp: algebra_simps add_divide_distrib)

lemma sum_rounded:
  "\<bar>sum_of (\<lambda>x. decimal8 (f x)) xs - sum_of f xs\<bar> \<le> real (length xs) * half8"
proof (induction xs)
  case (Cons x xs)
  have "\<bar>decimal8 (f x) - f x\<bar> \<le> half8" by (rule decimal8_error)
  with Cons show ?case by (simp add: algebra_simps)
qed simp

lemma weights_ok:
  assumes "rows \<noteq> []" "backfill_weights rows = (ws, w)"
  shows "length ws = length rows" "w > 0" "sum_list ws = w"
proof -
  have n: "0 \<le> sum_list (map trade_weight rows)" by (intro sum_list_nonneg) (auto simp: trade_weight_def)
  show "length ws = length rows" "w > 0" "sum_list ws = w"
    using assms n by (auto simp: backfill_weights_def Let_def sum_list_triv split: if_splits)
qed

definition order_commission :: "int \<Rightarrow> live_db \<Rightarrow> real" where
  "order_commission order_id db = sum_of tr_commission (filter (\<lambda>t. tr_pending t = order_id) (ld_trades db))"

lemma order_commission_rows:
  assumes "distinct (map tr_id (ld_trades db))" "\<And>t. t \<in> set (ld_trades db) \<Longrightarrow> tr_pending t = oid \<Longrightarrow> tr_commission t = 0"
    "oid > 0" "backfill_rows oid db \<noteq> []"
  shows "\<bar>order_commission oid (snd (backfill_zero_commission_trades oid [(c, a)] quote db)) - a\<bar>
    \<le> real (length (backfill_rows oid db)) * half8"
proof -
  define rows where "rows = backfill_rows oid db"
  obtain ws w where w: "backfill_weights rows = (ws, w)" by fastforce
  note wk = weights_ok[OF assms(4)[folded rows_def] w]
  define rs where "rs = map (\<lambda>x. x / w) ws"
  define ccy where "ccy = (if c = ''UNKNOWN'' then [] else c)"
  have rows: "rows = filter (\<lambda>t. tr_pending t = oid) (ld_trades db)"
    unfolding rows_def backfill_rows_def using assms(2) by (intro filter_cong) (auto simp: lacks_fee_def)
  have d: "distinct (map tr_id rows)" unfolding rows using assms(1) by (rule distinct_map_filter)
  have len: "length rs = length rows" by (simp add: rs_def wk(1))
  have dz: "distinct (map (tr_id \<circ> fst) (zip rows rs))" using d len by (simp flip: map_map)
  have fs: "fee_storage_values [(c, a)] = (a, ccy)" by (simp add: fee_storage_values_def ccy_def)
  let ?g = "filled_row a ccy quote (zip rows rs)"
  have db: "ld_trades (snd (backfill_zero_commission_trades oid [(c, a)] quote db)) = map ?g (ld_trades db)"
    using assms(3,4) w by (simp add: backfill_zero_commission_trades_def fs rows_def[symmetric] fold_update_fee[OF dz[unfolded rs_def]]
        rs_def)
  have pend: "tr_pending (?g t) = tr_pending t" for t by (simp add: filled_row_def split: option.splits)
  have zero: "tr_commission t = 0" "lacks_fee t" if "t \<in> set rows" for t
    using that assms(2) by (auto simp: rows lacks_fee_def)
  have "order_commission oid (snd (backfill_zero_commission_trades oid [(c, a)] quote db)) = sum_of (tr_commission \<circ> ?g) rows"
    by (simp only: order_commission_def db filter_map comp_def pend rows[symmetric] map_map)
  also have "\<dots> = sum_list (map (\<lambda>x. case x of None \<Rightarrow> 0 | Some rw \<Rightarrow> decimal8 (a * snd rw))
      (map (\<lambda>t. find (\<lambda>rw. tr_id (fst rw) = tr_id t) (zip rows rs)) rows))"
    unfolding map_map by (intro arg_cong[where f = sum_list] map_cong refl)
      (auto simp: filled_row_def zero fill_fee_def split: option.splits)
  also have "\<dots> = sum_of (\<lambda>r. decimal8 (a * r)) rs"
    unfolding find_zip[OF len d] map_map using sum_zip_snd[OF len, of "\<lambda>r. decimal8 (a * r)"] by (simp add: comp_def)
  finally have e: "order_commission oid (snd (backfill_zero_commission_trades oid [(c, a)] quote db)) = sum_of (\<lambda>r. decimal8 (a * r)) rs" .
  have s: "sum_of (\<lambda>r. a * r) rs = a" using sum_scaled[of a w ws] wk by (simp add: rs_def comp_def)
  show ?thesis using sum_rounded[of "\<lambda>r. a * r" rs] unfolding e s len rows_def[symmetric] .
qed

subsection \<open>Properties\<close>


definition demo_trade :: "int \<Rightarrow> real \<Rightarrow> real \<Rightarrow> trade_input" where
  "demo_trade ev value fee = \<lparr>ti_symbol = ''BTCUSDT'', ti_type = ''open_long'', ti_price = 1, ti_amount = value,
     ti_commission = fee, ti_commission_ccy = ''USDT'', ti_commission_quote = None, ti_profit = None, ti_close_reason = [],
     ti_user = None, ti_matched_entry = None, ti_grid_profit = None, ti_leg = None, ti_market = [], ti_credential = 0,
     ti_inst = [], ti_fill_source = [], ti_pending = 5, ti_grid_order = 0, ti_run = 0, ti_intent = 0, ti_event = ev,
     ti_fill_id = [], ti_fee_status = [], ti_fee_source = []\<rparr>"

definition empty_db :: live_db where
  "empty_db = \<lparr>ld_owners = [(7, 3)], ld_positions = [], ld_next_position = 1, ld_trades = [], ld_next_trade = 1\<rparr>"

definition demo_trades :: "real \<Rightarrow> live_db" where
  "demo_trades fee = snd (record_trade 7 (demo_trade 2 3 0) (snd (record_trade 7 (demo_trade 1 1 fee) empty_db)))"


text \<open>Where one trade already carries its share, that share of the reported fee is not booked at all.\<close>

lemma booked_share_is_lost:
  "order_commission 5 (demo_trades (1 / 4)) = 1 / 4"
  "map tr_commission (ld_trades (snd (backfill_zero_commission_trades 5 [(''BNB'', 2)] None (demo_trades (1 / 4))))) = [1 / 4, 3 / 2]"
  by code_simp+

text \<open>The fee increments posted while the exchange's cumulative fee of an order grows add up to the last
  cumulative fee, per currency, up to 10^-12 per update, as long as every report names the currency.\<close>

theorem fee_increments_add_up:
  assumes "\<And>f. f \<in> set fs \<Longrightarrow> dict_wf f \<and> c \<in> fst ` set f"
  shows "\<bar>posted_fee c p fs - (fee_of (last (p # fs)) c - fee_of p c)\<bar> \<le> real (length fs) * eps12"
  by (rule posted_fees[OF assms])

theorem fee_increments_add_up_witness:
  "\<bar>posted_fee ''BNB'' [] [[(''BNB'', 1)], [(''USDT'', 4), (''BNB'', 3)]] - 3\<bar> \<le> 2 * eps12"
proof -
  have m: "f \<in> set [[(''BNB'', 1)], [(''USDT'', 4), (''BNB'', 3)]] \<Longrightarrow> dict_wf f \<and> ''BNB'' \<in> fst ` set f" for f :: fees
    by auto
  have l: "fee_of (last ([] # [[(''BNB'', 1)], [(''USDT'', 4), (''BNB'', 3)]])) ''BNB'' - fee_of [] ''BNB'' = 3"
    by (simp add: fee_of_def)
  have "\<bar>posted_fee ''BNB'' [] [[(''BNB'', 1)], [(''USDT'', 4), (''BNB'', 3)]] -
      (fee_of (last ([] # [[(''BNB'', 1)], [(''USDT'', 4), (''BNB'', 3)]])) ''BNB'' - fee_of [] ''BNB'')\<bar>
    \<le> real (length [[(''BNB'', 1)], [(''USDT'', 4), (''BNB'', 3 :: real)]]) * eps12"
    by (rule fee_increments_add_up) (rule m)
  then show ?thesis unfolding l by simp
qed

text \<open>The order budget fails closed: an entry is allowed exactly when the configured capital and the price
  are positive and both the order and the leg it would leave, at the order's price, fit into capital times
  leverage plus a buffer of at most ten per cent; orders that are no entries always pass.\<close>

theorem budget_fails_closed:
  "bu_allowed (strategy_order_budget_snapshot action qty price capital leverage market positions buffer) =
     (if lower_strip action \<notin> set entry_actions then True
      else let lev = (if lower_strip (default_text market ''spot'') = ''spot'' then 1 else max 1 (py_or leverage 1));
          room = max 0 capital * lev * (1 + min (1 / 10) (max 0 buffer)) + eps8;
          held = held_on_side (if py_endswith (lower_strip action) ''_long'' then ''long'' else ''short'') positions
      in capital > 0 \<and> price > 0 \<and> max 0 qty * price \<le> room \<and> (held + max 0 qty) * price \<le> room)"
proof -
  have "0 < max 0 capital * lev \<longleftrightarrow> 0 < capital" if "1 \<le> lev" for lev :: real
    using that by (auto simp: max_def zero_less_mult_iff)
  then show ?thesis
    by (auto simp: strategy_order_budget_snapshot_def Let_def max_def split: if_splits)
qed

end
