(* ===== verification/GridState.thy ===== *)
theory GridState
  imports GridConfig Ownership Fees
begin

text \<open>
  The persistent state of a grid robot: its resting orders (\<open>grid/resting_orders_repo.py\<close>), its cells
  (\<open>live_trading/grid_cells.py\<close>) and the posting of its fills to the local ledger
  (\<open>grid/fill_handler.py\<close>). The tables answer: a failing database is left out, except for the unique
  client order id an insert may violate. Time stamps and the free-form \<open>extra\<close> columns are left out.
\<close>

subsection \<open>Resting orders\<close>

record grid_order =
  go_id :: int
  go_strategy :: int
  go_symbol :: string
  go_cell :: int
  go_purpose :: string
  go_side :: string
  go_pos_side :: string
  go_reduce :: bool
  go_price :: real
  go_quantity :: real
  go_quote :: real
  go_client :: string
  go_exchange :: string
  go_status :: string
  go_filled :: real
  go_avg :: real
  go_processed :: real

definition open_statuses :: "string list" where
  "open_statuses = [''pending'', ''open'', ''partial'']"

definition is_open :: "grid_order \<Rightarrow> bool" where
  "is_open o' = (go_status o' \<in> set open_statuses)"

definition stored_order :: "int \<Rightarrow> grid_order \<Rightarrow> grid_order" where
  "stored_order i o' = o'\<lparr>go_id := i, go_price := decimal8 (go_price o'), go_quantity := decimal8 (go_quantity o'),
     go_quote := decimal8 (go_quote o'), go_status := default_text (go_status o') ''open'',
     go_filled := decimal8 (go_filled o'), go_avg := decimal8 (go_avg o'), go_processed := decimal8 (go_processed o')\<rparr>"

record order_table =
  ot_rows :: "grid_order list"
  ot_next :: int

text \<open>The new id; none when the client order id is taken.\<close>

definition insert_order :: "grid_order \<Rightarrow> order_table \<Rightarrow> int option \<times> order_table" where
  "insert_order o' t =
     (let i = ot_next t; t' = t\<lparr>ot_next := i + 1\<rparr> in
      if go_client o' \<noteq> [] \<and>
         list_ex (\<lambda>r. go_strategy r = go_strategy o' \<and> go_client r = go_client o') (ot_rows t)
      then (None, t') else (Some i, t'\<lparr>ot_rows := ot_rows t @ [stored_order i o']\<rparr>))"

definition update_order :: "int \<Rightarrow> (grid_order \<Rightarrow> grid_order) \<Rightarrow> order_table \<Rightarrow> order_table" where
  "update_order i f t = t\<lparr>ot_rows := map (\<lambda>r. if go_id r = i then f r else r) (ot_rows t)\<rparr>"

definition update_status ::
  "int \<Rightarrow> string \<Rightarrow> real option \<Rightarrow> real option \<Rightarrow> real option \<Rightarrow> order_table \<Rightarrow> order_table" where
  "update_status i status filled avg processed =
     (let keep = (\<lambda>new old. case new of None \<Rightarrow> old | Some v \<Rightarrow> decimal8 v) in
      update_order i (\<lambda>r. r\<lparr>go_status := status, go_filled := keep filled (go_filled r),
        go_avg := keep avg (go_avg r), go_processed := keep processed (go_processed r)\<rparr>))"

definition cancel_order_row :: "int \<Rightarrow> order_table \<Rightarrow> order_table" where
  "cancel_order_row i = update_status i ''cancelled'' None None None"

text \<open>Rows are stored in the order of their ids.\<close>

definition list_open :: "int \<Rightarrow> order_table \<Rightarrow> grid_order list" where
  "list_open sid t = filter (\<lambda>r. go_strategy r = sid \<and> is_open r) (ot_rows t)"

definition list_unprocessed :: "int \<Rightarrow> order_table \<Rightarrow> grid_order list" where
  "list_unprocessed sid t =
     filter (\<lambda>r. go_strategy r = sid \<and> go_filled r > 0 \<and> go_processed r + eps12 < go_filled r) (ot_rows t)"

definition has_open_for_cell :: "int \<Rightarrow> int \<Rightarrow> string \<Rightarrow> order_table \<Rightarrow> bool" where
  "has_open_for_cell sid cell purpose t =
     list_ex (\<lambda>r. go_strategy r = sid \<and> go_cell r = cell \<and> go_purpose r = purpose \<and> is_open r) (ot_rows t)"

definition cancel_all_orders :: "int \<Rightarrow> string \<Rightarrow> order_table \<Rightarrow> order_table" where
  "cancel_all_orders sid symbol t = t\<lparr>ot_rows := map (\<lambda>r.
     if go_strategy r = sid \<and> (symbol = [] \<or> go_symbol r = symbol) \<and> is_open r
     then r\<lparr>go_status := ''cancelled''\<rparr> else r) (ot_rows t)\<rparr>"

definition remaining_qty :: "grid_order \<Rightarrow> real" where
  "remaining_qty r = go_quantity r - go_processed r"

subsection \<open>Cells\<close>

datatype cell_state = Idle | BuyOpen | LongHeld | SellOpen | ShortHeld

definition state_text :: "cell_state \<Rightarrow> string" where
  "state_text s = (case s of Idle \<Rightarrow> ''idle'' | BuyOpen \<Rightarrow> ''buy_open'' | LongHeld \<Rightarrow> ''long_held''
     | SellOpen \<Rightarrow> ''sell_open'' | ShortHeld \<Rightarrow> ''short_held'')"

definition parse_state :: "string \<Rightarrow> cell_state" where
  "parse_state raw =
     (let s = lower_strip raw in
      case find (\<lambda>c. state_text c = s) [Idle, BuyOpen, LongHeld, SellOpen, ShortHeld] of
        None \<Rightarrow> Idle | Some c \<Rightarrow> c)"

lemma parse_state_text [simp]: "parse_state (state_text s) = s"
proof -
  have "list_all (\<lambda>s. parse_state (state_text s) = s) [Idle, BuyOpen, LongHeld, SellOpen, ShortHeld]" by code_simp
  then show ?thesis by (cases s) auto
qed

record grid_cell =
  gl_strategy :: int
  gl_symbol :: string
  gl_index :: int
  gl_lower :: real
  gl_upper :: real
  gl_state :: cell_state
  gl_size :: real
  gl_entry :: real
  gl_working :: string

definition cell_key :: "grid_cell \<Rightarrow> int \<times> string \<times> int" where
  "cell_key c = (gl_strategy c, gl_symbol c, gl_index c)"

text \<open>The lines that are positive, sorted; cell \<open>i\<close> lies between the \<open>i\<close>-th and the next.\<close>

definition bootstrap_cell :: "int \<Rightarrow> string \<Rightarrow> real list \<Rightarrow> nat \<Rightarrow> grid_cell list \<Rightarrow> grid_cell list" where
  "bootstrap_cell sid symbol ls i t =
     (if ls ! (i + 1) \<le> ls ! i then t
      else upsert_row cell_key (\<lambda>old new. old)
        \<lparr>gl_strategy = sid, gl_symbol = symbol, gl_index = int i, gl_lower = decimal8 (ls ! i),
         gl_upper = decimal8 (ls ! (i + 1)), gl_state = Idle, gl_size = 0, gl_entry = 0, gl_working = []\<rparr> t)"

definition bootstrap_idle_cells :: "int \<Rightarrow> string \<Rightarrow> real list \<Rightarrow> grid_cell list \<Rightarrow> grid_cell list" where
  "bootstrap_idle_cells sid symbol levels t =
     (let ls = sort (filter (\<lambda>x. x > 0) levels) in
      if length levels < 2 \<or> length ls < 2 then t
      else fold (bootstrap_cell sid symbol ls) [0..<length ls - 1] t)"

definition list_cells :: "int \<Rightarrow> string \<Rightarrow> grid_cell list \<Rightarrow> grid_cell list" where
  "list_cells sid symbol t =
     sort_key gl_index (filter (\<lambda>c. gl_strategy c = sid \<and> gl_symbol c = symbol) t)"

definition update_cell ::
  "int \<Rightarrow> string \<Rightarrow> int \<Rightarrow> cell_state \<Rightarrow> real option \<Rightarrow> real option \<Rightarrow> string option \<Rightarrow> grid_cell list \<Rightarrow> grid_cell list" where
  "update_cell sid symbol i st sz entry working t =
     map (\<lambda>c. if cell_key c = (sid, symbol, i) then
       c\<lparr>gl_state := st, gl_size := (case sz of None \<Rightarrow> gl_size c | Some v \<Rightarrow> decimal8 v),
         gl_entry := (case entry of None \<Rightarrow> gl_entry c | Some v \<Rightarrow> decimal8 v),
         gl_working := (case working of None \<Rightarrow> gl_working c | Some v \<Rightarrow> v)\<rparr> else c) t"

definition release_cell :: "grid_cell \<Rightarrow> grid_cell" where
  "release_cell c =
     (if gl_state c \<in> {BuyOpen, SellOpen} then c\<lparr>gl_state := Idle, gl_size := 0, gl_entry := 0, gl_working := []\<rparr>
      else if gl_state c \<in> {LongHeld, ShortHeld} then c\<lparr>gl_working := []\<rparr> else c)"

definition release_cancelled_working_orders :: "int \<Rightarrow> string \<Rightarrow> grid_cell list \<Rightarrow> grid_cell list" where
  "release_cancelled_working_orders sid symbol t =
     map (\<lambda>c. if gl_strategy c = sid \<and> (symbol = [] \<or> gl_symbol c = symbol) then release_cell c else c) t"

text \<open>
  The engine numbers its cells from the lowest configured line, the table from the lowest positive one:
  with a lower bound that is not positive the two numberings disagree.
\<close>

lemma demo_levels: "generate_levels 0 30 4 ''arithmetic'' = [0, 10, 20, 30]"
  by code_simp

lemma cells_shift_below_zero:
  "map (\<lambda>c. (cs_index c, cs_lower c)) (generate_cells (generate_levels 0 30 4 ''arithmetic'')) = [(0, 0), (1, 10), (2, 20)]"
  "map (\<lambda>c. (gl_index c, gl_lower c)) (bootstrap_idle_cells 1 ''BTC/USDT'' (generate_levels 0 30 4 ''arithmetic'') []) =
     [(0, 10), (1, 20)]"
  unfolding demo_levels by code_simp+

subsection \<open>Posting fills\<close>

definition signal_of_purpose :: "string \<Rightarrow> string" where
  "signal_of_purpose p =
     (case map_of [(''long_entry'', ''open_long''), (''long_exit'', ''close_long''),
        (''short_entry'', ''open_short''), (''short_exit'', ''close_short'')] p of None \<Rightarrow> [] | Some s \<Rightarrow> s)"

definition is_exit_purpose :: "string \<Rightarrow> bool" where
  "is_exit_purpose p = (p \<in> {''long_exit'', ''short_exit''})"

text \<open>Cost basis of an exit: the cell's entry price, else the line the cell is entered at.\<close>

definition matched_grid_entry_price :: "int \<Rightarrow> string \<Rightarrow> grid_order \<Rightarrow> grid_cell list \<Rightarrow> real" where
  "matched_grid_entry_price sid symbol o' cells =
     (if \<not> is_exit_purpose (go_purpose o') then 0
      else case find (\<lambda>c. gl_index c = go_cell o') (list_cells sid symbol cells) of
        None \<Rightarrow> 0
      | Some c \<Rightarrow> if gl_entry c > 0 then gl_entry c
                  else if go_purpose o' = ''long_exit'' then gl_lower c else gl_upper c)"

definition grid_match_profit :: "string \<Rightarrow> real \<Rightarrow> real \<Rightarrow> real \<Rightarrow> real option" where
  "grid_match_profit purpose entry exit qty =
     (if entry \<le> 0 \<or> exit \<le> 0 \<or> qty \<le> 0 then None
      else if purpose = ''long_exit'' then Some ((exit - entry) * qty)
      else if purpose = ''short_exit'' then Some ((entry - exit) * qty) else None)"

text \<open>What a fill report carries besides quantity and price.\<close>

record fill_note =
  fn_commission :: real
  fn_ccy :: string
  fn_quote :: "real option"
  fn_status :: string
  fn_source :: string
  fn_fill_id :: string
  fn_event :: int

definition no_note :: fill_note where
  "no_note = \<lparr>fn_commission = 0, fn_ccy = [], fn_quote = None, fn_status = ''pending'', fn_source = [], fn_fill_id = [],
     fn_event = 0\<rparr>"

text \<open>\<open>leg\<close> is the strategy's leg context (\<open>resolve_leg_context\<close>, read from the strategy row).\<close>

definition apply_grid_fill ::
  "int \<Rightarrow> string \<Rightarrow> leg_context \<Rightarrow> grid_order \<Rightarrow> real \<Rightarrow> real \<Rightarrow> fill_note \<Rightarrow> grid_cell list \<Rightarrow> live_db \<Rightarrow> live_db" where
  "apply_grid_fill sid symbol leg o' filled avg note cells db =
     (let sy = normalize_strategy_symbol symbol; purpose = go_purpose o'; signal = signal_of_purpose purpose;
          px = py_or avg (go_price o'); qty = py_or filled (go_quantity o');
          entry = matched_grid_entry_price sid sy o' cells; gp = grid_match_profit purpose entry px qty;
          ((profit0, row, matched0), db1) = apply_fill_to_local_position sid sy signal qty px (Some leg) db;
          profit = (case gp of None \<Rightarrow> profit0 | Some p \<Rightarrow> Some p);
          matched = (case gp of None \<Rightarrow> matched0 | Some p \<Rightarrow> Some entry);
          t = \<lparr>ti_symbol = sy, ti_type = signal, ti_price = px, ti_amount = qty, ti_commission = fn_commission note,
               ti_commission_ccy = fn_ccy note, ti_commission_quote = fn_quote note, ti_profit = profit,
               ti_close_reason = purpose, ti_user = None, ti_matched_entry = matched,
               ti_grid_profit = (if is_exit_purpose purpose then profit else None), ti_leg = Some leg, ti_market = [],
               ti_credential = 0, ti_inst = [], ti_fill_source = [], ti_pending = 0, ti_grid_order = go_id o', ti_run = 0,
               ti_intent = 0, ti_event = fn_event note, ti_fill_id = fn_fill_id note,
               ti_fee_status = fn_status note, ti_fee_source = fn_source note\<rparr>
      in if signal = [] \<or> qty \<le> 0 \<or> px \<le> 0 then db
         else snd (record_trade sid t db1))"

text \<open>The market fills of the grid's initial position and of its risk exits.\<close>

definition record_grid_market_fill ::
  "int \<Rightarrow> string \<Rightarrow> leg_context \<Rightarrow> string \<Rightarrow> real \<Rightarrow> real \<Rightarrow> string \<Rightarrow> fill_note \<Rightarrow> live_db \<Rightarrow> int \<times> live_db" where
  "record_grid_market_fill sid symbol leg signal_type filled avg reason note db =
     (let sy = normalize_strategy_symbol symbol; sig = lower_strip signal_type;
          ((profit, row, matched), db1) = apply_fill_to_local_position sid sy sig filled avg (Some leg) db;
          t = \<lparr>ti_symbol = sy, ti_type = sig, ti_price = avg, ti_amount = filled, ti_commission = fn_commission note,
               ti_commission_ccy = fn_ccy note, ti_commission_quote = fn_quote note, ti_profit = profit,
               ti_close_reason = default_text reason sig, ti_user = None, ti_matched_entry = matched,
               ti_grid_profit = None, ti_leg = Some leg, ti_market = [], ti_credential = 0, ti_inst = [],
               ti_fill_source = [], ti_pending = 0, ti_grid_order = 0, ti_run = 0, ti_intent = 0, ti_event = 0,
               ti_fill_id = [], ti_fee_status = fn_status note, ti_fee_source = default_text (fn_source note) ''rest''\<rparr>
      in if sig = [] \<or> filled \<le> 0 \<or> avg \<le> 0 then (0, db) else record_trade sid t db1)"

end
