(* ===== verification/GridEngine.thy ===== *)
theory GridEngine
  imports GridState
begin

text \<open>
  The grid engine, \<open>grid/engine.py\<close>: resting entries on idle cells, the paired exit after a fill, the caps on
  exits, the pauses at the boundary, and the poll of one order (\<open>_poll_order\<close> of \<open>grid/poller.py\<close>).
  What the exchange answers during a call is a parameter, the record \<open>grid_world\<close>; logging is left out, and
  so is the initial market position.
\<close>

subsection \<open>State and world\<close>

record grid_engine =
  ge_strategy :: int
  ge_user :: int
  ge_symbol :: string
  ge_cfg :: grid_config
  ge_config :: json
  ge_exchange :: string
  ge_credential :: int
  ge_capital :: real
  ge_budget :: real
  ge_runtime :: json
  ge_boot :: bool
  ge_initial_done :: bool
  ge_paused :: bool
  ge_seeded :: "int list"
  ge_errors :: nat
  ge_stop :: bool
  ge_last_entry :: real
  ge_cache :: "(string \<times> real \<times> bool \<times> string) list"
  ge_orders :: order_table
  ge_cells :: "grid_cell list"
  ge_ledger :: live_db
  ge_reserved :: "reservation list"

text \<open>
  The time, whether a client can be created, the answers to a limit order (the exchange id), a
  cancellation, the flooring of a quantity, the strict and the lenient position query, the spot
  clamp, whether repeated errors stop the strategy, the direction read from the source, and the leg
  context of the strategy row.
\<close>

record grid_world =
  gw_now :: real
  gw_client :: bool
  gw_place :: "grid_order \<Rightarrow> string option"
  gw_cancel :: "grid_order \<Rightarrow> bool"
  gw_norm :: "real \<Rightarrow> real"
  gw_account :: "string \<Rightarrow> real option"
  gw_position :: "string \<Rightarrow> real"
  gw_clamp :: "real \<Rightarrow> real option"
  gw_auto_stop :: "nat \<Rightarrow> bool"
  gw_infer :: "json \<Rightarrow> string"
  gw_leg :: leg_context

subsection \<open>Budgets and cells\<close>

definition grid_budget :: "grid_engine \<Rightarrow> real" where
  "grid_budget ge =
     (let pct = max 0 (gc_amount_pct (ge_cfg ge)); capital = py_or (ge_capital ge) (ge_budget ge) in
      if pct > 0 \<and> capital > 0 then capital * pct else max 0 (gc_amount (ge_cfg ge)))"

definition initial_capital :: "grid_engine \<Rightarrow> real" where
  "initial_capital ge =
     (if ge_capital ge > 0 then ge_capital ge
      else if ge_budget ge > 0 then ge_budget ge
      else let cell_budget = grid_budget ge * of_int (tradable_cell_count (ge_cfg ge)) in
           if gc_unit (ge_cfg ge) = ''cells'' then cell_budget else cell_budget * 2)"

definition qty_from_usdt :: "grid_engine \<Rightarrow> real \<Rightarrow> real \<Rightarrow> real" where
  "qty_from_usdt ge usdt price =
     (if price \<le> 0 \<or> usdt \<le> 0 then 0
      else usdt * (if gc_market (ge_cfg ge) \<noteq> ''spot'' then gc_leverage (ge_cfg ge) else 1) / price)"

definition engine_levels :: "grid_engine \<Rightarrow> real list" where
  "engine_levels ge = (let (upper, lower) = effective_bounds (ge_cfg ge) (ge_runtime ge) in
     generate_levels lower upper (grid_line_count (ge_cfg ge)) (gc_mode (ge_cfg ge)))"

definition engine_cells :: "grid_engine \<Rightarrow> cell_spec list" where
  "engine_cells ge = generate_cells (engine_levels ge)"

definition bootstrap :: "real \<Rightarrow> grid_engine \<Rightarrow> bool \<times> grid_engine" where
  "bootstrap price ge =
     (if price \<le> 0 \<or> engine_cells ge = [] then (False, ge)
      else (True, ge\<lparr>ge_cells := bootstrap_idle_cells (ge_strategy ge) (ge_symbol ge) (engine_levels ge) (ge_cells ge),
                     ge_boot := True\<rparr>))"

definition open_orders :: "grid_engine \<Rightarrow> grid_order list" where
  "open_orders ge = list_open (ge_strategy ge) (ge_orders ge)"

definition cell_has_open :: "grid_engine \<Rightarrow> int \<Rightarrow> string \<Rightarrow> bool" where
  "cell_has_open ge i purpose = has_open_for_cell (ge_strategy ge) i purpose (ge_orders ge)"

definition own_cells :: "grid_engine \<Rightarrow> grid_cell list" where
  "own_cells ge = list_cells (ge_strategy ge) (ge_symbol ge) (ge_cells ge)"

definition cell_record :: "grid_engine \<Rightarrow> int \<Rightarrow> grid_cell option" where
  "cell_record ge i = find (\<lambda>c. gl_index c = i) (own_cells ge)"

type_synonym cell_states = "(int \<times> cell_state) list"

definition cell_states_of :: "grid_engine \<Rightarrow> cell_states" where
  "cell_states_of ge = fold (\<lambda>c. dict_set (gl_index c) (gl_state c)) (own_cells ge) []"

definition state_in :: "cell_states \<Rightarrow> int \<Rightarrow> cell_state" where
  "state_in sts i = (case map_of sts i of None \<Rightarrow> Idle | Some s \<Rightarrow> s)"

definition set_cell ::
  "int \<Rightarrow> cell_state \<Rightarrow> real option \<Rightarrow> real option \<Rightarrow> string option \<Rightarrow> grid_engine \<Rightarrow> grid_engine" where
  "set_cell i st sz entry working ge =
     ge\<lparr>ge_cells := update_cell (ge_strategy ge) (ge_symbol ge) i st sz entry working (ge_cells ge)\<rparr>"

text \<open>Only an idle cell without a working entry or exit of the leg takes a new entry.\<close>

definition cell_allows_entry :: "grid_engine \<Rightarrow> int \<Rightarrow> string \<Rightarrow> cell_states \<Rightarrow> bool" where
  "cell_allows_entry ge i purpose sts =
     (if purpose = ''long_entry'' then
        state_in sts i = Idle \<and> \<not> cell_has_open ge i ''long_entry'' \<and> \<not> cell_has_open ge i ''long_exit''
      else if purpose = ''short_entry'' then
        state_in sts i = Idle \<and> \<not> cell_has_open ge i ''short_entry'' \<and> \<not> cell_has_open ge i ''short_exit''
      else False)"

subsection \<open>Cancelling\<close>

definition is_exit_order :: "grid_order \<Rightarrow> bool" where
  "is_exit_order o' = (go_reduce o' \<or> py_endswith (go_purpose o') ''_exit'')"

definition cancel_row :: "grid_order \<Rightarrow> grid_engine \<Rightarrow> grid_engine" where
  "cancel_row o' ge = ge\<lparr>ge_orders := (if go_id o' \<noteq> 0 then cancel_order_row (go_id o') (ge_orders ge) else ge_orders ge)\<rparr>"

text \<open>Only orders the exchange confirmed as cancelled are marked so.\<close>

definition cancel_position_orders :: "grid_world \<Rightarrow> string \<Rightarrow> bool \<Rightarrow> grid_engine \<Rightarrow> grid_engine" where
  "cancel_position_orders w pos_side exits ge =
     fold (\<lambda>o' e. if is_exit_order o' = exits \<and> (pos_side = [] \<or> go_pos_side o' = pos_side) \<and> gw_client w \<and> gw_cancel w o'
                  then cancel_row o' e else e) (open_orders ge) ge"

text \<open>At a shutdown every order is marked, whatever the exchange says.\<close>

definition cancel_all_on_exchange :: "grid_engine \<Rightarrow> grid_engine" where
  "cancel_all_on_exchange ge = fold cancel_row (open_orders ge) ge"

definition shutdown :: "grid_engine \<Rightarrow> grid_engine" where
  "shutdown ge =
     (let e = cancel_all_on_exchange ge in
      e\<lparr>ge_orders := cancel_all_orders (ge_strategy ge) (ge_symbol ge) (ge_orders e),
        ge_cells := release_cancelled_working_orders (ge_strategy ge) (ge_symbol ge) (ge_cells e)\<rparr>)"

subsection \<open>The guards of entries and exits\<close>

definition grid_leg :: "grid_engine \<Rightarrow> string \<Rightarrow> leg_name" where
  "grid_leg ge side = \<lparr>ln_user = ge_user ge, ln_cred = ge_credential ge, ln_market = gc_market (ge_cfg ge),
     ln_symbol = ge_symbol ge, ln_side = side\<rparr>"

definition grid_strategy :: "grid_engine \<Rightarrow> json" where
  "grid_strategy ge = JDict [(''bot_type'', JStr ''grid''), (''trading_config'', ge_config ge)]"

text \<open>The verdict with its reason; verdicts are kept for a second unless a fresh one is forced.\<close>

definition entry_ownership_allowed ::
  "grid_world \<Rightarrow> string \<Rightarrow> bool \<Rightarrow> real \<Rightarrow> grid_engine \<Rightarrow> (bool \<times> string) \<times> grid_engine" where
  "entry_ownership_allowed w pos_side force price ge =
     (let side = lower_strip pos_side; market = gc_market (ge_cfg ge); now = gw_now w;
          keep = (\<lambda>a r e. ((a, r), e\<lparr>ge_cache := dict_set side (now, a, r) (ge_cache e)\<rparr>));
          fresh = (case gw_account w side of
              None \<Rightarrow> keep False ''position_ownership_snapshot_failed'' ge
            | Some account \<Rightarrow>
                (let (g, t) = evaluate_entry_position_guard (gw_infer w) (gw_account w) (ge_strategy ge) (grid_strategy ge)
                        (grid_leg ge side) (ge_exchange ge) account price \<lfloor>now\<rfloor> (ge_ledger ge) (ge_reserved ge)
                 in keep (gr_error g = None) (ow_reason (gr_ownership g)) (ge\<lparr>ge_reserved := t\<rparr>)))
      in if \<not> supports_position_coexistence market (ge_exchange ge) then ((True, []), ge)
         else if ge_credential ge \<le> 0 then
           (if ge_exchange ge = [] then ((True, []), ge)
            else ((False, ''position_ownership_credential_missing''), ge))
         else if force then fresh
         else case map_of (ge_cache ge) side of
                Some (ts, a, r) \<Rightarrow> if now - ts \<le> 1 then ((a, r), ge) else fresh
              | None \<Rightarrow> fresh)"

definition unsafe_reasons :: "string list" where
  "unsafe_reasons = [''account_below_protected_allocation'', ''position_ownership_snapshot_failed'',
     ''position_ownership_credential_missing'']"

text \<open>After a refusal the entries of the leg are cancelled, and its exits too where their budget is in doubt.\<close>

definition withdraw_leg :: "grid_world \<Rightarrow> string \<Rightarrow> string \<Rightarrow> grid_engine \<Rightarrow> grid_engine" where
  "withdraw_leg w pos_side reason ge =
     (let e = cancel_position_orders w pos_side False ge in
      if reason \<in> set unsafe_reasons then cancel_position_orders w pos_side True e else e)"

definition open_exit_total :: "string \<Rightarrow> grid_engine \<Rightarrow> real" where
  "open_exit_total pos_side ge =
     sum_of (\<lambda>o'. max 0 (remaining_qty o'))
       (filter (\<lambda>o'. is_exit_order o' \<and> go_pos_side o' = pos_side) (open_orders ge))"

definition exit_budget :: "exit_meta \<Rightarrow> real" where
  "exit_budget m =
     (let db = max 0 (em_db_size m) in
      case em_available m of
        Some a \<Rightarrow> min db (max 0 a)
      | None \<Rightarrow> if em_exchange_size m > 0 then min db (max 0 (em_exchange_size m)) else db)"

definition resolve_exit_quantity :: "grid_world \<Rightarrow> string \<Rightarrow> real \<Rightarrow> grid_engine \<Rightarrow> real" where
  "resolve_exit_quantity w pos_side requested ge =
     (let (resolved, m) = resolve_reduce_only_quantity False (ge_strategy ge) (grid_leg ge pos_side) requested
            (gw_position w pos_side) (ge_ledger ge) (ge_reserved ge);
          amount = min (max 0 resolved) (max 0 (exit_budget m - open_exit_total pos_side ge));
          market = gc_market (ge_cfg ge)
      in if supports_position_coexistence market (ge_exchange ge) \<and> ge_exchange ge \<noteq> [] \<and> ge_credential ge \<le> 0 then 0
         else if market = ''spot'' \<and> amount > 0 then
           (case gw_clamp w amount of None \<Rightarrow> 0 | Some a \<Rightarrow> max 0 a)
         else max 0 amount)"

subsection \<open>Placing a resting order\<close>

fun dec :: "nat \<Rightarrow> string" where
  "dec n = (if n < 10 then [char_of (48 + n)] else dec (n div 10) @ [char_of (48 + n mod 10)])"

declare dec.simps [simp del]

definition padded :: "nat \<Rightarrow> int \<Rightarrow> string" where
  "padded k n = (let s = dec (nat n) in replicate (k - length s) CHR ''0'' @ s)"

definition purpose_letter :: "string \<Rightarrow> string" where
  "purpose_letter p =
     (if py_contains p ''long_entry'' then ''e'' else if py_contains p ''long_exit'' then ''x''
      else if py_contains p ''short_entry'' then ''s'' else if py_contains p ''short_exit'' then ''c''
      else py_lower (take 1 (default_text p ''x'')))"

text \<open>Unique only within a second: the same cell and purpose give the same id twice.\<close>

definition make_client_order_id :: "int \<Rightarrow> int \<Rightarrow> string \<Rightarrow> int \<Rightarrow> string" where
  "make_client_order_id sid i purpose now =
     take 32 (''g'' @ padded 4 (sid mod 10000) @ ''c'' @ padded 3 i @ purpose_letter purpose @
       padded 5 (now mod 1000000 mod 99999))"

lemma client_order_id_demo:
  "make_client_order_id 12 3 ''long_exit'' 1700000042 = ''g0012c003x00042''"
  by code_simp

definition normalize_qty :: "grid_world \<Rightarrow> real \<Rightarrow> real \<Rightarrow> real" where
  "normalize_qty w qty price = (if qty \<le> 0 \<or> price \<le> 0 \<or> \<not> gw_client w then 0 else gw_norm w qty)"

definition grid_base_qty :: "grid_world \<Rightarrow> real \<Rightarrow> grid_engine \<Rightarrow> real" where
  "grid_base_qty w price ge = normalize_qty w (qty_from_usdt ge (grid_budget ge) price) price"

definition record_order_error :: "grid_world \<Rightarrow> grid_engine \<Rightarrow> grid_engine" where
  "record_order_error w ge =
     (if ge_stop ge then ge
      else let n = ge_errors ge + 1 in
        if gw_auto_stop w n then ge\<lparr>ge_errors := n, ge_stop := True, ge_paused := True\<rparr> else ge\<lparr>ge_errors := n\<rparr>)"

text \<open>A held cell keeps its entry price when its exit is hung again.\<close>

definition cell_cost_basis :: "grid_engine \<Rightarrow> int \<Rightarrow> string \<Rightarrow> real \<Rightarrow> real" where
  "cell_cost_basis ge i purpose fallback =
     (case cell_record ge i of
        None \<Rightarrow> fallback
      | Some c \<Rightarrow> if gl_entry c > 0 then gl_entry c
                  else if purpose = ''long_exit'' then py_or (gl_lower c) fallback
                  else if purpose = ''short_exit'' then py_or (gl_upper c) fallback else fallback)"

definition placed_state :: "string \<Rightarrow> string \<Rightarrow> bool \<Rightarrow> string \<Rightarrow> cell_state" where
  "placed_state purpose side reduce pos_side =
     (if reduce \<and> pos_side = ''long'' then LongHeld
      else if reduce \<and> pos_side = ''short'' then ShortHeld
      else if purpose = ''long_entry'' then BuyOpen
      else if purpose = ''short_entry'' then SellOpen
      else if side = ''buy'' then BuyOpen else SellOpen)"

text \<open>Once the quantity is settled: place, record, mark the cell; an unrecorded order is cancelled again.\<close>

definition submit_limit ::
  "grid_world \<Rightarrow> int \<Rightarrow> string \<Rightarrow> string \<Rightarrow> real \<Rightarrow> bool \<Rightarrow> string \<Rightarrow> real \<Rightarrow> grid_engine \<Rightarrow> bool \<times> grid_engine" where
  "submit_limit w i purpose side px reduce pos_side qty ge =
     (let o' = \<lparr>go_id = 0, go_strategy = ge_strategy ge, go_symbol = ge_symbol ge, go_cell = i, go_purpose = purpose,
            go_side = side, go_pos_side = pos_side, go_reduce = reduce, go_price = px, go_quantity = qty,
            go_quote = grid_budget ge, go_client = make_client_order_id (ge_strategy ge) i purpose \<lfloor>gw_now w\<rfloor>, go_exchange = [],
            go_status = ''open'', go_filled = 0, go_avg = 0, go_processed = 0\<rparr>
      in case gw_place w o' of
           None \<Rightarrow> (False, record_order_error w ge)
         | Some ex \<Rightarrow>
             (let (oid, t) = insert_order (o'\<lparr>go_exchange := ex\<rparr>) (ge_orders ge); e = ge\<lparr>ge_orders := t\<rparr>;
                  entry = (if reduce then cell_cost_basis ge i purpose px else px)
              in if oid = None then (False, e)
                 else (True, (set_cell i (placed_state purpose side reduce pos_side) (Some qty) (Some entry)
                        (Some (default_text ex (go_client o'))) e)\<lparr>ge_errors := 0\<rparr>)))"

definition place_limit ::
  "grid_world \<Rightarrow> cell_spec \<Rightarrow> string \<Rightarrow> string \<Rightarrow> real \<Rightarrow> bool \<Rightarrow> string \<Rightarrow> real option \<Rightarrow> grid_engine \<Rightarrow>
   bool \<times> grid_engine" where
  "place_limit w cell purpose side px reduce pos_side quantity ge =
     (let i = int (cs_index cell);
          raw = (case quantity of None \<Rightarrow> qty_from_usdt ge (grid_budget ge) px | Some q \<Rightarrow> q);
          qty = normalize_qty w raw px
      in if px \<le> 0 \<or> qty \<le> 0 then (False, ge)
         else if \<not> reduce then
           (let ((allowed, reason), e) = entry_ownership_allowed w pos_side False px ge in
            if \<not> allowed then (False, withdraw_leg w pos_side reason e)
            else submit_limit w i purpose side px reduce pos_side qty e)
         else
           (let q = normalize_qty w (resolve_exit_quantity w pos_side qty ge) px in
            if q \<le> 0 then (False, ge) else submit_limit w i purpose side px reduce pos_side q ge))"

subsection \<open>Keeping one order per cell\<close>

definition orders_of_cell :: "grid_engine \<Rightarrow> int \<Rightarrow> string \<Rightarrow> grid_order list" where
  "orders_of_cell ge i purpose = filter (\<lambda>o'. go_cell o' = i \<and> go_purpose o' = purpose) (open_orders ge)"

text \<open>Of several orders of one cell the largest stays.\<close>

definition dedupe_cell :: "string \<Rightarrow> int \<Rightarrow> grid_engine \<Rightarrow> grid_engine" where
  "dedupe_cell purpose i ge =
     fold cancel_row (tl (sort_key (\<lambda>o'. - remaining_qty o') (orders_of_cell ge i purpose))) ge"

definition dedupe_open_orders :: "string \<Rightarrow> grid_engine \<Rightarrow> grid_engine" where
  "dedupe_open_orders purpose ge =
     fold (dedupe_cell purpose)
       (remdups (map go_cell (filter (\<lambda>o'. go_purpose o' = purpose) (open_orders ge)))) ge"

text \<open>Cancels in order; a refused cancellation stops the replacement.\<close>

fun replace_orders :: "grid_world \<Rightarrow> grid_order list \<Rightarrow> grid_engine \<Rightarrow> bool \<times> grid_engine" where
  "replace_orders w [] ge = (True, ge)"
| "replace_orders w (o' # os) ge =
     (if gw_client w \<and> \<not> gw_cancel w o' then (False, ge) else replace_orders w os (cancel_row o' ge))"

definition ensure_cell_exit_coverage ::
  "grid_world \<Rightarrow> cell_spec \<Rightarrow> string \<Rightarrow> string \<Rightarrow> real \<Rightarrow> string \<Rightarrow> real \<Rightarrow> grid_engine \<Rightarrow> bool \<times> grid_engine" where
  "ensure_cell_exit_coverage w cell purpose side price pos_side quantity ge =
     (let desired = normalize_qty w quantity price;
          orders = orders_of_cell ge (int (cs_index cell)) purpose;
          covered = sum_of (\<lambda>o'. max 0 (remaining_qty o')) orders
      in if desired \<le> 0 then (False, ge)
         else if \<bar>covered - desired\<bar> \<le> max eps10 (desired * eps8) then (True, ge)
         else (let (ok, e) = replace_orders w orders ge in
               if ok then place_limit w cell purpose side price True pos_side (Some desired) e else (False, e)))"

subsection \<open>Exits\<close>

definition spec_of_cell :: "grid_engine \<Rightarrow> int \<Rightarrow> cell_spec option" where
  "spec_of_cell ge i = find (\<lambda>c. int (cs_index c) = i) (engine_cells ge)"

text \<open>Re-hang the exit of one held cell; the count of placed orders and the state.\<close>

definition hang_held_exit :: "grid_world \<Rightarrow> grid_cell \<Rightarrow> nat \<times> grid_engine \<Rightarrow> nat \<times> grid_engine" where
  "hang_held_exit w c st =
     (let (n, ge) = st; i = gl_index c; dir = gc_direction (ge_cfg ge);
          hang = (\<lambda>spec purpose side px pos_side.
            (let qty = normalize_qty w (gl_size c) px in
             if cell_has_open ge i purpose \<or> qty \<le> 0 then (n, ge)
             else let (ok, e) = place_limit w spec purpose side px True pos_side (Some qty) ge in
                  (if ok then n + 1 else n, e)))
      in case spec_of_cell ge i of
           None \<Rightarrow> (n, ge)
         | Some spec \<Rightarrow>
             if dir \<in> {''long'', ''neutral''} \<and> gl_state c = LongHeld
             then hang spec ''long_exit'' ''sell'' (cs_upper spec) ''long''
             else if dir \<in> {''short'', ''neutral''} \<and> gl_state c = ShortHeld
             then hang spec ''short_exit'' ''buy'' (cs_lower spec) ''short''
             else (n, ge))"

definition sync_held_cell_exits :: "grid_world \<Rightarrow> real \<Rightarrow> grid_engine \<Rightarrow> nat \<times> grid_engine" where
  "sync_held_cell_exits w price ge =
     (if \<not> ge_boot ge \<or> price \<le> 0 \<or> gc_direction (ge_cfg ge) \<notin> {''long'', ''short'', ''neutral''} then (0, ge)
      else fold (hang_held_exit w) (own_cells ge) (0, ge))"

definition held_cell_qty :: "string \<Rightarrow> grid_engine \<Rightarrow> real" where
  "held_cell_qty dir ge =
     sum_of gl_size (filter (\<lambda>c. gl_state c = (if dir = ''long'' then LongHeld else ShortHeld) \<and> gl_size c > 0) (own_cells ge))"

definition open_exit_qty :: "string \<Rightarrow> grid_engine \<Rightarrow> real" where
  "open_exit_qty purpose ge =
     sum_of remaining_qty (filter (\<lambda>o'. go_purpose o' = purpose \<and> remaining_qty o' > 0) (open_orders ge))"

text \<open>Seeding exits of the initial inventory: placed count, uncovered quantity, cell states, engine.\<close>

type_synonym seeding = "nat \<times> real \<times> cell_states \<times> grid_engine"

definition seed_exit :: "grid_world \<Rightarrow> bool \<Rightarrow> cell_spec \<Rightarrow> seeding \<Rightarrow> seeding" where
  "seed_exit w long c st =
     (let (n, uncovered, sts, ge) = st; i = int (cs_index c);
          purpose = (if long then ''long_exit'' else ''short_exit'');
          entry = (if long then ''long_entry'' else ''short_entry'');
          px = (if long then cs_upper c else cs_lower c); qty = grid_base_qty w px ge
      in if i \<in> set (ge_seeded ge) \<or> state_in sts i \<noteq> Idle \<or> cell_has_open ge i purpose \<or> cell_has_open ge i entry \<or>
            qty \<le> 0 \<or> uncovered + eps8 < qty then st
         else (let (ok, e) = place_limit w c purpose (if long then ''sell'' else ''buy'') px True
                     (if long then ''long'' else ''short'') (Some qty) ge
               in if ok then (n + 1, max 0 (uncovered - qty), dict_set i (if long then LongHeld else ShortHeld) sts,
                              e\<lparr>ge_seeded := insort i (ge_seeded e)\<rparr>)
                  else (n, uncovered, sts, e)))"

definition seed_candidates :: "bool \<Rightarrow> real \<Rightarrow> cell_spec list \<Rightarrow> cell_spec list" where
  "seed_candidates long price cells =
     (if long then sort_key cs_upper (filter (\<lambda>c. cs_upper c > price) cells)
      else sort_key (\<lambda>c. - cs_lower c) (filter (\<lambda>c. cs_lower c < price) cells))"

definition sync_exit_coverage :: "grid_world \<Rightarrow> real \<Rightarrow> grid_engine \<Rightarrow> nat \<times> grid_engine" where
  "sync_exit_coverage w price ge =
     (let dir = gc_direction (ge_cfg ge); long = (dir = ''long'');
          purpose = (if long then ''long_exit'' else ''short_exit'');
          owned = max 0 (fetch_position_size_for_side (ge_ledger ge) (ge_strategy ge) (ge_symbol ge) dir)
      in if \<not> ge_boot ge \<or> price \<le> 0 \<or> dir \<notin> {''long'', ''short''} \<or> engine_cells ge = [] \<or> owned \<le> eps10 then (0, ge)
         else (let (n, e) = sync_held_cell_exits w price (dedupe_open_orders purpose ge);
                   covered = max (held_cell_qty dir e) (open_exit_qty purpose e);
                   (n', _, _, e') = fold (seed_exit w long) (seed_candidates long price (engine_cells ge))
                      (n, max 0 (owned - covered), cell_states_of e, e)
               in (n', e')))"

definition sync_initial_exit_orders :: "grid_world \<Rightarrow> real \<Rightarrow> grid_engine \<Rightarrow> nat \<times> grid_engine" where
  "sync_initial_exit_orders w price ge =
     (if \<not> ge_boot ge \<or> price \<le> 0 \<or> gc_direction (ge_cfg ge) \<notin> {''long'', ''short''} \<or>
         (gc_initial_pct (ge_cfg ge) > 0 \<and> \<not> ge_initial_done ge) then (0, ge)
      else sync_exit_coverage w price ge)"

subsection \<open>Entries\<close>

definition entry_sides :: "string \<Rightarrow> string list" where
  "entry_sides dir = (if dir = ''neutral'' then [''long'', ''short''] else if dir \<in> {''long'', ''short''} then [dir] else [])"

text \<open>A fresh verdict per side; a refused side is withdrawn from the book.\<close>

definition check_side :: "grid_world \<Rightarrow> real \<Rightarrow> string \<Rightarrow> string list \<times> grid_engine \<Rightarrow> string list \<times> grid_engine" where
  "check_side w price side st =
     (let (ok, ge) = st; ((allowed, reason), e) = entry_ownership_allowed w side True price ge in
      if allowed then (ok @ [side], e) else (ok, withdraw_leg w side reason e))"

definition purpose_leg :: "string \<Rightarrow> string" where
  "purpose_leg purpose = (if purpose = ''long_entry'' then ''long'' else ''short'')"

definition place_entry :: "grid_world \<Rightarrow> string \<Rightarrow> cell_spec \<Rightarrow> grid_engine \<Rightarrow> bool \<times> grid_engine" where
  "place_entry w purpose cell ge =
     (if purpose = ''long_entry'' then place_limit w cell purpose ''buy'' (cs_lower cell) False ''long'' None ge
      else place_limit w cell purpose ''sell'' (cs_upper cell) False ''short'' None ge)"

definition entry_state :: "string \<Rightarrow> cell_state" where
  "entry_state purpose = (if purpose = ''long_entry'' then BuyOpen else SellOpen)"

text \<open>The state of a placement round: placed count, cell states, engine.\<close>

type_synonym entry_round = "nat \<times> cell_states \<times> grid_engine"

definition try_entry :: "grid_world \<Rightarrow> string \<Rightarrow> cell_spec \<Rightarrow> entry_round \<Rightarrow> bool \<times> entry_round" where
  "try_entry w purpose cell st =
     (let (n, sts, ge) = st; (ok, e) = place_entry w purpose cell ge; i = int (cs_index cell) in
      if ok then (True, n + 1, dict_set i (entry_state purpose) sts, e\<lparr>ge_last_entry := gw_now w\<rparr>)
      else (False, n, sts, e))"

text \<open>A grid of one direction: the cells in order, on the entry side of the price.\<close>

definition directed_entry :: "grid_world \<Rightarrow> string list \<Rightarrow> real \<Rightarrow> nat \<Rightarrow> cell_spec \<Rightarrow> entry_round \<Rightarrow> entry_round" where
  "directed_entry w allowed price slots cell st =
     (let (n, sts, ge) = st; dir = gc_direction (ge_cfg ge); i = int (cs_index cell);
          long = (dir = ''long'' \<and> ''long'' \<in> set allowed \<and> cs_lower cell < price);
          short = (dir = ''short'' \<and> ''short'' \<in> set allowed \<and> cs_upper cell > price)
      in if n \<ge> slots then st
         else if long \<and> cell_allows_entry ge i ''long_entry'' sts then snd (try_entry w ''long_entry'' cell st)
         else if short \<and> cell_allows_entry ge i ''short_entry'' sts then snd (try_entry w ''short_entry'' cell st)
         else st)"

text \<open>A neutral grid: the next cell of a pool that takes an entry; whether one was placed, and the rest of the pool.\<close>

fun try_pool :: "grid_world \<Rightarrow> string \<Rightarrow> cell_spec list \<Rightarrow> entry_round \<Rightarrow> bool \<times> cell_spec list \<times> entry_round" where
  "try_pool w purpose [] st = (False, [], st)"
| "try_pool w purpose (c # cs) st =
     (let (n, sts, ge) = st in
      if cell_allows_entry ge (int (cs_index c)) purpose sts
      then let (ok, st') = try_entry w purpose c st in (ok, cs, st')
      else try_pool w purpose cs st)"

text \<open>
  One pass of the neutral loop: the side with fewer open entries first, the other one when it fails. The
  pools are long and short cells with the number of open entries of each.
\<close>

record pools =
  po_long :: "cell_spec list"
  po_short :: "cell_spec list"
  po_open_long :: nat
  po_open_short :: nat

definition try_side :: "grid_world \<Rightarrow> string list \<Rightarrow> string \<Rightarrow> pools \<times> entry_round \<Rightarrow> bool \<times> pools \<times> entry_round" where
  "try_side w allowed purpose st =
     (let (p, r) = st in
      if purpose_leg purpose \<notin> set allowed then (False, p, r)
      else if purpose = ''long_entry'' then
        (let (ok, rest, r') = try_pool w purpose (po_long p) r in
         (ok, p\<lparr>po_long := rest, po_open_long := (if ok then po_open_long p + 1 else po_open_long p)\<rparr>, r'))
      else
        (let (ok, rest, r') = try_pool w purpose (po_short p) r in
         (ok, p\<lparr>po_short := rest, po_open_short := (if ok then po_open_short p + 1 else po_open_short p)\<rparr>, r')))"

definition neutral_pass :: "grid_world \<Rightarrow> string list \<Rightarrow> pools \<times> entry_round \<Rightarrow> bool \<times> pools \<times> entry_round" where
  "neutral_pass w allowed st =
     (let p = fst st;
          order = (if po_open_long p \<le> po_open_short p then [''long_entry'', ''short_entry''] else [''short_entry'', ''long_entry'']);
          (ok, st1) = try_side w allowed (order ! 0) st
      in if ok then (True, st1) else try_side w allowed (order ! 1) st1)"

text \<open>Each further pass follows a placed entry, so the free slots bound the passes.\<close>

fun neutral_loop :: "grid_world \<Rightarrow> string list \<Rightarrow> nat \<Rightarrow> pools \<times> entry_round \<Rightarrow> pools \<times> entry_round" where
  "neutral_loop w allowed 0 st = st"
| "neutral_loop w allowed (Suc slots) st =
     (let (ok, st1) = neutral_pass w allowed st in if ok then neutral_loop w allowed slots st1 else st1)"

definition is_entry_purpose :: "string \<Rightarrow> bool" where
  "is_entry_purpose p = (p \<in> {''long_entry'', ''short_entry''})"

definition count_open :: "string \<Rightarrow> grid_engine \<Rightarrow> nat" where
  "count_open purpose ge = length (filter (\<lambda>o'. go_purpose o' = purpose) (open_orders ge))"

definition place_entries :: "grid_world \<Rightarrow> string list \<Rightarrow> real \<Rightarrow> nat \<Rightarrow> grid_engine \<Rightarrow> nat \<times> grid_engine" where
  "place_entries w allowed price slots ge =
     (let cells = engine_cells ge; start = (0, cell_states_of ge, ge) in
      if gc_direction (ge_cfg ge) = ''neutral'' then
        (let p = \<lparr>po_long = sort_key (\<lambda>c. - cs_lower c) (filter (\<lambda>c. cs_lower c < price) cells),
                  po_short = sort_key cs_upper (filter (\<lambda>c. cs_upper c > price) cells),
                  po_open_long = count_open ''long_entry'' ge, po_open_short = count_open ''short_entry'' ge\<rparr>;
             (p', n, sts, e) = neutral_loop w allowed slots (p, start)
         in (n, e))
      else (let (n, sts, e) = fold (directed_entry w allowed price slots) cells start in (n, e)))"

definition sync_grid_orders :: "grid_world \<Rightarrow> real \<Rightarrow> grid_engine \<Rightarrow> nat \<times> grid_engine" where
  "sync_grid_orders w price ge =
     (let sides = entry_sides (gc_direction (ge_cfg ge));
          (allowed, e) = fold (check_side w price) sides ([], ge);
          hot = (gc_frequency (ge_cfg ge) > 0 \<and> ge_last_entry e > 0 \<and>
                 gw_now w - ge_last_entry e < of_int (gc_frequency (ge_cfg ge)));
          e1 = dedupe_open_orders ''short_entry'' (dedupe_open_orders ''long_entry'' e);
          entries = count_open ''long_entry'' e1 + count_open ''short_entry'' e1;
          slots = nat (max 0 (gc_max_open (ge_cfg ge) - int entries))
      in if \<not> ge_boot ge \<or> ge_paused ge \<or> price \<le> 0 \<or> json_truthy (get (ge_runtime ge) ''waterfall_pause'') then (0, ge)
         else if sides \<noteq> [] \<and> \<not> gw_client w then (0, ge)
         else if sides \<noteq> [] \<and> allowed = [] then (0, e)
         else if hot then (0, e)
         else if slots = 0 then (0, e1)
         else place_entries w allowed price slots e1)"

subsection \<open>Fills\<close>

text \<open>The cell after an entry fill: the held quantity grows at the average price, and its exit is hung.\<close>

definition hold_cell ::
  "grid_world \<Rightarrow> cell_spec \<Rightarrow> bool \<Rightarrow> real \<Rightarrow> real \<Rightarrow> grid_engine \<Rightarrow> grid_engine" where
  "hold_cell w cell long fq px ge =
     (let i = int (cs_index cell); rec = cell_record ge i; held = (if long then LongHeld else ShortHeld);
          prior = (case rec of None \<Rightarrow> 0 | Some c \<Rightarrow> if gl_state c = held then max 0 (gl_size c) else 0);
          entry = (case rec of None \<Rightarrow> 0 | Some c \<Rightarrow> max 0 (gl_entry c));
          qty = prior + fq; avg = (if qty > 0 then (entry * prior + px * fq) / qty else px);
          e = set_cell i held (Some qty) (Some avg) None ge
      in if long then snd (ensure_cell_exit_coverage w cell ''long_exit'' ''sell'' (cs_upper cell) ''long'' qty e)
         else snd (ensure_cell_exit_coverage w cell ''short_exit'' ''buy'' (cs_lower cell) ''short'' qty e))"

text \<open>The cell after an exit fill: what remains is held, an empty cell is entered again with the sold quantity.\<close>

definition free_cell :: "grid_world \<Rightarrow> cell_spec \<Rightarrow> bool \<Rightarrow> real \<Rightarrow> grid_engine \<Rightarrow> grid_engine" where
  "free_cell w cell long fq ge =
     (let i = int (cs_index cell);
          held = (case cell_record ge i of None \<Rightarrow> 0 | Some c \<Rightarrow> max 0 (gl_size c));
          left = max 0 (held - fq); entry = (if long then ''long_entry'' else ''short_entry'');
          st = (if left > eps10 then (if long then LongHeld else ShortHeld) else Idle);
          e = set_cell i st (Some left) None None ge
      in if left \<le> eps10 \<and> \<not> ge_paused e \<and> cell_allows_entry e i entry (cell_states_of e)
         then (if long then snd (place_limit w cell entry ''buy'' (cs_lower cell) False ''long'' (Some fq) e)
               else snd (place_limit w cell entry ''sell'' (cs_upper cell) False ''short'' (Some fq) e))
         else e)"

definition on_order_filled ::
  "grid_world \<Rightarrow> grid_order \<Rightarrow> real \<Rightarrow> real \<Rightarrow> fill_note \<Rightarrow> grid_engine \<Rightarrow> grid_engine" where
  "on_order_filled w o' filled avg note ge =
     (let e = ge\<lparr>ge_ledger := apply_grid_fill (ge_strategy ge) (ge_symbol ge) (gw_leg w) o' filled avg note
             (ge_cells ge) (ge_ledger ge)\<rparr>;
          purpose = go_purpose o'; fq = py_or filled (go_quantity o'); px = py_or avg (go_price o');
          held_up = ge_paused ge \<or> json_truthy (get (ge_runtime ge) ''waterfall_pause'')
      in case spec_of_cell ge (go_cell o') of
           None \<Rightarrow> e
         | Some cell \<Rightarrow>
             if held_up \<and> \<not> py_endswith purpose ''_exit'' \<and> gc_boundary (ge_cfg ge) = ''pause'' then e
             else if purpose = ''long_entry'' then hold_cell w cell True fq px e
             else if purpose = ''long_exit'' then free_cell w cell True fq e
             else if purpose = ''short_entry'' then hold_cell w cell False fq px e
             else if purpose = ''short_exit'' then free_cell w cell False fq e
             else e)"

subsection \<open>The boundary\<close>

text \<open>Whether the price left the range on the losing side; a stop asks for the close of both legs.\<close>

definition out_of_range :: "real \<Rightarrow> grid_engine \<Rightarrow> bool" where
  "out_of_range price ge =
     (let (upper, lower) = effective_bounds (ge_cfg ge) (ge_runtime ge); dir = gc_direction (ge_cfg ge) in
      upper > lower \<and> price > 0 \<and>
      (dir = ''long'' \<and> price < lower \<or> dir = ''short'' \<and> price > upper \<or>
       dir = ''neutral'' \<and> (price < lower \<or> price > upper)))"

definition handle_boundary :: "grid_world \<Rightarrow> real \<Rightarrow> grid_engine \<Rightarrow> (bool \<times> string list) \<times> grid_engine" where
  "handle_boundary w price ge =
     (if \<not> out_of_range price ge then ((False, []), ge)
      else if gc_boundary (ge_cfg ge) = ''hold'' then ((True, []), ge)
      else let e = (cancel_position_orders w [] False ge)\<lparr>ge_paused := True\<rparr> in
        if gc_boundary (ge_cfg ge) = ''stop_loss''
        then ((True, [''close_long'', ''close_short'']), e\<lparr>ge_stop := True\<rparr>)
        else ((True, []), e))"

subsection \<open>Polling one order\<close>

text \<open>What the exchange reports of an order: cumulative fill, average price, status.\<close>

record order_report =
  or_filled :: real
  or_avg :: real
  or_status :: string
  or_note :: fill_note

text \<open>The local status a report leads to.\<close>

definition local_status :: "order_report \<Rightarrow> real \<Rightarrow> grid_order \<Rightarrow> string" where
  "local_status r cumulative o' =
     (if or_status r \<in> {''open'', ''partial''} then (if cumulative > 0 then ''partial'' else ''open'')
      else if or_status r = ''cancelled'' then ''cancelled''
      else if or_status r = ''filled'' \<or> (cumulative \<ge> go_quantity o' \<and> go_quantity o' > 0) then ''filled''
      else default_text (go_status o') ''open'')"

definition reported_total :: "order_report \<Rightarrow> grid_order \<Rightarrow> real" where
  "reported_total r o' =
     (let t = py_or (or_filled r) (go_filled o') in
      if t \<le> 0 \<and> or_status r = ''filled'' then go_quantity o' else t)"

text \<open>The part of the report that was not posted yet.\<close>

definition new_fill :: "order_report \<Rightarrow> grid_order \<Rightarrow> real option" where
  "new_fill r o' = (let d = reported_total r o' - go_processed o' in if d > eps12 then Some d else None)"

definition poll_order :: "grid_world \<Rightarrow> order_report \<Rightarrow> grid_order \<Rightarrow> grid_engine \<Rightarrow> grid_engine" where
  "poll_order w r o' ge =
     (let cumulative = reported_total r o';
          e = (case new_fill r o' of
                 None \<Rightarrow> ge
               | Some d \<Rightarrow> on_order_filled w o' d (py_or (or_avg r) (go_price o')) (or_note r) ge);
          processed = (if new_fill r o' = None then go_processed o' else cumulative);
          e1 = e\<lparr>ge_orders := update_status (go_id o') (local_status r cumulative o') (Some cumulative)
                 (Some (or_avg r)) (Some processed) (ge_orders e)\<rparr>
      in if or_status r = ''unknown'' \<or> go_id o' = 0 then ge
         else if or_status r = ''cancelled'' \<and> cumulative > 0
         then snd (sync_held_cell_exits w (py_or (or_avg r) (go_price o')) e1) else e1)"

end
