(* ===== verification/GridLaws.thy ===== *)
theory GridLaws
  imports GridEngine
begin

text \<open>
  Laws of the grid engine over everything it does between fills and around them: a cell never has two open
  orders of the same purpose, and the open exits of a leg never exceed what the strategy owns of it.
\<close>

subsection \<open>The order table\<close>

definition table_ok :: "order_table \<Rightarrow> bool" where
  "table_ok t \<longleftrightarrow> 1 \<le> ot_next t \<and> distinct (map go_id (ot_rows t)) \<and>
     list_all (\<lambda>o'. 1 \<le> go_id o' \<and> go_id o' < ot_next t) (ot_rows t)"

definition slot :: "grid_order \<Rightarrow> int \<times> string" where
  "slot o' = (go_cell o', go_purpose o')"

definition one_per_slot :: "grid_engine \<Rightarrow> bool" where
  "one_per_slot ge \<longleftrightarrow> distinct (map slot (open_orders ge))"

definition book_ok :: "grid_engine \<Rightarrow> bool" where
  "book_ok ge \<longleftrightarrow> table_ok (ge_orders ge) \<and> one_per_slot ge"

text \<open>A change of rows that keeps the ids.\<close>

lemma rows_table_ok:
  assumes "table_ok t" "map go_id rows = map go_id (ot_rows t)" shows "table_ok (t\<lparr>ot_rows := rows\<rparr>)"
proof -
  have "set (map go_id rows) = set (map go_id (ot_rows t))" using assms(2) by simp
  then have "list_all (\<lambda>o'. 1 \<le> go_id o' \<and> go_id o' < ot_next t) rows"
    using assms(1) unfolding table_ok_def list_all_iff set_map by (metis (no_types, lifting) imageE image_eqI)
  then show ?thesis using assms unfolding table_ok_def by simp
qed

lemma update_ids: "(\<And>r. go_id (f r) = go_id r) \<Longrightarrow> map go_id (map (\<lambda>r. if go_id r = i then f r else r) rows) = map go_id rows"
  by (induction rows) auto

lemma update_status_ok: "table_ok t \<Longrightarrow> table_ok (update_status i s a b c t)"
  unfolding update_status_def update_order_def Let_def by (rule rows_table_ok) (auto intro: update_ids)

lemma cancel_ok: "table_ok t \<Longrightarrow> table_ok (cancel_order_row i t)"
  by (simp add: cancel_order_row_def update_status_ok)

lemma cancelled_closed [simp]: "''cancelled'' \<notin> set open_statuses" "''open'' \<in> set open_statuses"
  by (simp_all add: open_statuses_def)

lemma list_open_cancel: "list_open sid (cancel_order_row i t) = filter (\<lambda>o'. go_id o' \<noteq> i) (list_open sid t)"
proof -
  have "filter (\<lambda>r. go_strategy r = sid \<and> is_open r) (map (\<lambda>r. if go_id r = i then f r else r) rows) =
      filter (\<lambda>o'. go_id o' \<noteq> i) (filter (\<lambda>r. go_strategy r = sid \<and> is_open r) rows)"
    if "\<And>r. \<not> is_open (f r)" for f rows using that by (induction rows) auto
  then show ?thesis
    by (simp add: list_open_def cancel_order_row_def update_status_def update_order_def is_open_def)
qed

lemma list_open_insert:
  "insert_order o' t = (Some i, t') \<Longrightarrow> list_open sid t' =
     list_open sid t @ (if go_strategy o' = sid \<and> is_open (stored_order i o') then [stored_order i o'] else [])"
  by (auto simp: insert_order_def Let_def list_open_def stored_order_def split: if_splits)

lemma list_open_insert_none: "insert_order o' t = (None, t') \<Longrightarrow> list_open sid t' = list_open sid t"
  by (auto simp: insert_order_def Let_def list_open_def split: if_splits)

lemma insert_ok: "table_ok t \<Longrightarrow> table_ok (snd (insert_order o' t))"
  by (fastforce simp: insert_order_def Let_def table_ok_def stored_order_def list_all_iff split: if_splits)

lemma cell_has_open_iff: "cell_has_open ge i p \<longleftrightarrow> (i, p) \<in> slot ` set (open_orders ge)"
  by (auto simp: cell_has_open_def has_open_for_cell_def open_orders_def list_open_def list_ex_iff slot_def)

subsection \<open>Safe moves\<close>

definition owned :: "string \<Rightarrow> grid_engine \<Rightarrow> real" where
  "owned side ge = fetch_position_size_for_side (ge_ledger ge) (ge_strategy ge) (ge_symbol ge) side"

text \<open>
  What the engine does apart from fills: the ledger stays, no row loses its cell, quantity or fills, the
  book stays in order, and the open exits of a leg grow at most up to what the strategy owns.
\<close>

definition core :: "grid_order \<Rightarrow> int \<times> (int \<times> string) \<times> real \<times> real \<times> real" where
  "core o' = (go_id o', slot o', go_quantity o', go_filled o', go_processed o')"

definition grows :: "grid_engine \<Rightarrow> grid_engine \<Rightarrow> bool" where
  "grows ge e \<longleftrightarrow> (\<exists>ys. map core (ot_rows (ge_orders e)) = map core (ot_rows (ge_orders ge)) @ ys)"

lemma grows_refl [simp]: "grows ge ge"
  by (simp add: grows_def)

lemma grows_trans: "grows a b \<Longrightarrow> grows b c \<Longrightarrow> grows a c"
  by (force simp: grows_def)

lemma grows_same: "map core (ot_rows (ge_orders e)) = map core (ot_rows (ge_orders ge)) \<Longrightarrow> grows ge e"
  by (simp add: grows_def)

definition safe_move :: "grid_engine \<Rightarrow> grid_engine \<Rightarrow> bool" where
  "safe_move ge e \<longleftrightarrow> ge_strategy e = ge_strategy ge \<and> ge_symbol e = ge_symbol ge \<and> ge_ledger e = ge_ledger ge \<and>
     grows ge e \<and>
     (book_ok ge \<longrightarrow> book_ok e) \<and>
     (\<forall>side. open_exit_total side e \<le> max (open_exit_total side ge) (owned side ge + half8))"

lemma safe_moveD:
  assumes "safe_move ge e"
  shows "ge_strategy e = ge_strategy ge" "ge_symbol e = ge_symbol ge" "ge_ledger e = ge_ledger ge" "book_ok ge \<Longrightarrow> book_ok e"
    "open_exit_total side e \<le> max (open_exit_total side ge) (owned side ge + half8)" "grows ge e"
  using assms by (auto simp: safe_move_def)

lemma safe_refl [simp]: "safe_move ge ge"
  by (simp add: safe_move_def)

lemma safe_trans: "safe_move a b \<Longrightarrow> safe_move b c \<Longrightarrow> safe_move a c"
proof -
  assume ab: "safe_move a b" and bc: "safe_move b c"
  have o: "owned side b = owned side a" for side using safe_moveD(1-3)[OF ab] by (simp add: owned_def)
  have "open_exit_total side c \<le> max (open_exit_total side a) (owned side a + half8)" for side
    using safe_moveD(5)[OF bc, of side] safe_moveD(5)[OF ab, of side] unfolding o by linarith
  then show ?thesis using safe_moveD[OF ab] safe_moveD[OF bc] by (simp add: safe_move_def grows_trans[of a b c])
qed

lemma safe_fold:
  assumes "\<And>x s. safe_move (pick s) (pick (f x s))" shows "safe_move (pick s) (pick (fold f xs s))"
proof (induction xs arbitrary: s)
  case (Cons x xs)
  then show ?case using safe_trans[OF assms[of s x] Cons.IH] by simp
qed simp

lemmas safe_fold_plain = safe_fold[where pick = "\<lambda>e. e", simplified]

text \<open>Dropping open orders is safe.\<close>

lemma sum_filter_le: "(\<And>x. x \<in> set xs \<Longrightarrow> 0 \<le> f x) \<Longrightarrow> sum_of f (filter P xs) \<le> sum_of f xs" for f :: "'a \<Rightarrow> real"
  by (induction xs) (simp, force)

lemma safe_thin:
  assumes "ge_strategy e = ge_strategy ge" "ge_symbol e = ge_symbol ge" "ge_ledger e = ge_ledger ge"
    "table_ok (ge_orders ge) \<Longrightarrow> table_ok (ge_orders e)" "open_orders e = filter P (open_orders ge)"
    "grows ge e"
  shows "safe_move ge e"
proof -
  have "open_exit_total side e \<le> open_exit_total side ge" for side
    unfolding open_exit_total_def assms(5) filter_filter
    using sum_filter_le[of "filter (\<lambda>o'. is_exit_order o' \<and> go_pos_side o' = side) (open_orders ge)"
        "\<lambda>o'. max 0 (remaining_qty o')" P] by (simp add: conj_commute)
  then show ?thesis using assms
    by (auto simp: safe_move_def book_ok_def one_per_slot_def distinct_map_filter intro: max.coboundedI1)
qed

lemma update_core: "(\<And>r. core (f r) = core r) \<Longrightarrow> map core (map (\<lambda>r. if b r then f r else r) rows) = map core rows"
  by (induction rows) auto

lemma cancel_row_core: "map core (ot_rows (ge_orders (cancel_row o' ge))) = map core (ot_rows (ge_orders ge))"
proof -
  have "core (r\<lparr>go_status := s\<rparr>) = core r" for r s by (simp add: core_def slot_def)
  then show ?thesis
    by (simp add: cancel_row_def cancel_order_row_def update_status_def update_order_def Let_def update_core del: map_map)
qed

lemma cancel_row_safe: "safe_move ge (cancel_row o' ge)"
proof (cases "go_id o' = 0")
  case False
  show ?thesis
    by (rule safe_thin[where P = "\<lambda>x. go_id x \<noteq> go_id o'"])
       (simp_all add: cancel_row_def False cancel_ok open_orders_def list_open_cancel
         grows_same[OF cancel_row_core[of o' ge, unfolded cancel_row_def], simplified False, simplified])
qed (simp add: cancel_row_def)

lemma cancel_position_safe: "safe_move ge (cancel_position_orders w side ex ge)"
  unfolding cancel_position_orders_def by (rule safe_fold_plain) (simp add: cancel_row_safe)

lemma withdraw_safe: "safe_move ge (withdraw_leg w side reason ge)"
  by (auto simp: withdraw_leg_def Let_def cancel_position_safe intro: safe_trans[OF cancel_position_safe cancel_position_safe])

text \<open>Updates that leave the orders and the ledger alone.\<close>

lemma safe_same:
  assumes "ge_strategy e = ge_strategy ge" "ge_symbol e = ge_symbol ge" "ge_ledger e = ge_ledger ge" "ge_orders e = ge_orders ge"
  shows "safe_move ge e"
  by (rule safe_thin[where P = "\<lambda>_. True"]) (simp_all add: assms open_orders_def grows_def)

lemma ownership_safe: "safe_move ge (snd (entry_ownership_allowed w side force price ge))"
  by (rule safe_same) (auto simp: entry_ownership_allowed_def Let_def split: option.splits prod.splits)

lemma ownership_orders: "ge_orders (snd (entry_ownership_allowed w side force price ge)) = ge_orders ge"
  "ge_strategy (snd (entry_ownership_allowed w side force price ge)) = ge_strategy ge"
  by (auto simp: entry_ownership_allowed_def Let_def split: option.splits prod.splits)

lemma record_error_safe: "safe_move ge (record_order_error w ge)"
  by (rule safe_same) (simp_all add: record_order_error_def Let_def)

lemma set_cell_safe: "safe_move ge (set_cell i st sz en wk ge)"
  by (rule safe_same) (simp_all add: set_cell_def)

subsection \<open>Placing an order is safe\<close>

text \<open>Quantities are floored, and the spot clamp never raises one.\<close>

definition honest :: "grid_world \<Rightarrow> bool" where
  "honest w \<longleftrightarrow> (\<forall>q. 0 < q \<longrightarrow> gw_norm w q \<le> q) \<and> (\<forall>q a. gw_clamp w q = Some a \<longrightarrow> a \<le> q)"

lemma normalize_le: "honest w \<Longrightarrow> 0 \<le> q \<Longrightarrow> normalize_qty w q px \<le> q"
  by (auto simp: honest_def normalize_qty_def)

lemma owned_nonneg [simp]: "0 \<le> owned side ge"
  by (simp add: owned_def fetch_position_size_for_side_def split: option.splits)

lemma exit_quantity_capped:
  assumes "honest w" "0 < resolve_exit_quantity w side req ge"
  shows "open_exit_total side ge + resolve_exit_quantity w side req ge \<le> owned side ge"
proof -
  obtain r m where rm: "resolve_reduce_only_quantity False (ge_strategy ge) (grid_leg ge side) req (gw_position w side)
      (ge_ledger ge) (ge_reserved ge) = (r, m)" by (metis surj_pair)
  have "em_db_size m = owned side ge"
    using rm by (auto simp: resolve_reduce_only_quantity_def Let_def grid_leg_def owned_def split: if_splits)
  then have b: "exit_budget m \<le> owned side ge"
    by (auto simp: exit_budget_def Let_def split: option.splits)
  define a where "a = min (max 0 r) (max 0 (exit_budget m - open_exit_total side ge))"
  have a: "0 < a \<Longrightarrow> open_exit_total side ge + a \<le> owned side ge"
    using b by (auto simp: a_def min_def max_def split: if_splits)
  have c: "gw_clamp w x = Some y \<Longrightarrow> y \<le> x" for x y using assms(1) by (simp add: honest_def)
  have "resolve_exit_quantity w side req ge \<le> max 0 a"
    unfolding resolve_exit_quantity_def rm Let_def prod.case a_def[symmetric]
    by (auto simp: max_def split: option.splits dest: c)
  then show ?thesis using a assms(2) by linarith
qed

text \<open>What a submission leaves: nothing new, or one more row.\<close>

lemma submit_cases:
  fixes w :: grid_world and i :: int and purpose side ps :: string and px qty :: real and reduce :: bool and ge :: grid_engine
  obtains "snd (submit_limit w i purpose side px reduce ps qty ge) = record_order_error w ge"
  | o' r t where "insert_order o' (ge_orders ge) = (r, t)" "go_strategy o' = ge_strategy ge" "slot o' = (i, purpose)"
      "go_reduce o' = reduce" "go_pos_side o' = ps" "go_quantity o' = qty" "go_processed o' = 0"
      "ge_orders (snd (submit_limit w i purpose side px reduce ps qty ge)) = t"
      "ge_strategy (snd (submit_limit w i purpose side px reduce ps qty ge)) = ge_strategy ge"
      "ge_symbol (snd (submit_limit w i purpose side px reduce ps qty ge)) = ge_symbol ge"
      "ge_ledger (snd (submit_limit w i purpose side px reduce ps qty ge)) = ge_ledger ge"
proof -
  define o0 where "o0 = \<lparr>go_id = 0, go_strategy = ge_strategy ge, go_symbol = ge_symbol ge, go_cell = i, go_purpose = purpose,
      go_side = side, go_pos_side = ps, go_reduce = reduce, go_price = px, go_quantity = qty,
      go_quote = grid_budget ge, go_client = make_client_order_id (ge_strategy ge) i purpose \<lfloor>gw_now w\<rfloor>, go_exchange = [],
      go_status = ''open'', go_filled = 0, go_avg = 0, go_processed = 0\<rparr>"
  show thesis
  proof (cases "gw_place w o0")
    case None
    then show thesis by (intro that(1)) (simp add: submit_limit_def o0_def)
  next
    case (Some ex)
    obtain r t where rt: "insert_order (o0\<lparr>go_exchange := ex\<rparr>) (ge_orders ge) = (r, t)" by (metis surj_pair)
    let ?e = "snd (submit_limit w i purpose side px reduce ps qty ge)"
    have "ge_orders ?e = t \<and> ge_strategy ?e = ge_strategy ge \<and> ge_symbol ?e = ge_symbol ge \<and> ge_ledger ?e = ge_ledger ge"
      unfolding submit_limit_def o0_def[symmetric] Let_def by (simp add: Some rt set_cell_def)
    then show thesis by (intro that(2)[OF rt]) (simp_all add: o0_def slot_def)
  qed
qed

lemma record_error_frame [simp]:
  "ge_orders (record_order_error w ge) = ge_orders ge" "ge_strategy (record_order_error w ge) = ge_strategy ge"
  "ge_symbol (record_order_error w ge) = ge_symbol ge" "ge_ledger (record_order_error w ge) = ge_ledger ge"
  by (simp_all add: record_order_error_def Let_def)

lemma submit_frame:
  "ge_strategy (snd (submit_limit w i purpose side px reduce ps qty ge)) = ge_strategy ge \<and>
   ge_symbol (snd (submit_limit w i purpose side px reduce ps qty ge)) = ge_symbol ge \<and>
   ge_ledger (snd (submit_limit w i purpose side px reduce ps qty ge)) = ge_ledger ge \<and>
   (table_ok (ge_orders ge) \<longrightarrow> table_ok (ge_orders (snd (submit_limit w i purpose side px reduce ps qty ge))))"
proof (rule submit_cases[of w i purpose side px reduce ps qty ge])
  fix o' r t
  assume "insert_order o' (ge_orders ge) = (r, t)"
  then have "table_ok (ge_orders ge) \<longrightarrow> table_ok t" using insert_ok[of "ge_orders ge" o'] by simp
  then show "ge_orders (snd (submit_limit w i purpose side px reduce ps qty ge)) = t \<Longrightarrow>
      ge_strategy (snd (submit_limit w i purpose side px reduce ps qty ge)) = ge_strategy ge \<Longrightarrow>
      ge_symbol (snd (submit_limit w i purpose side px reduce ps qty ge)) = ge_symbol ge \<Longrightarrow>
      ge_ledger (snd (submit_limit w i purpose side px reduce ps qty ge)) = ge_ledger ge \<Longrightarrow> ?thesis" by simp
qed simp

lemma insert_grows: "insert_order o' t = (r, t') \<Longrightarrow> \<exists>ys. ot_rows t' = ot_rows t @ ys"
  by (auto simp: insert_order_def Let_def split: if_splits)

lemma submit_grows: "grows ge (snd (submit_limit w i purpose side px reduce ps qty ge))"
  by (rule submit_cases[of w i purpose side px reduce ps qty ge]) (auto simp: grows_def dest: insert_grows)

lemma submit_orders:
  "open_orders (snd (submit_limit w i purpose side px reduce ps qty ge)) = open_orders ge \<or>
   (\<exists>o'. open_orders (snd (submit_limit w i purpose side px reduce ps qty ge)) = open_orders ge @ [o'] \<and>
      slot o' = (i, purpose) \<and> go_reduce o' = reduce \<and> go_pos_side o' = ps \<and> remaining_qty o' = decimal8 qty)"
proof (rule submit_cases[of w i purpose side px reduce ps qty ge])
  fix o' r t
  assume "insert_order o' (ge_orders ge) = (r, t)"
  then show "go_strategy o' = ge_strategy ge \<Longrightarrow> slot o' = (i, purpose) \<Longrightarrow> go_reduce o' = reduce \<Longrightarrow> go_pos_side o' = ps \<Longrightarrow>
      go_quantity o' = qty \<Longrightarrow> go_processed o' = 0 \<Longrightarrow>
      ge_orders (snd (submit_limit w i purpose side px reduce ps qty ge)) = t \<Longrightarrow>
      ge_strategy (snd (submit_limit w i purpose side px reduce ps qty ge)) = ge_strategy ge \<Longrightarrow> ?thesis"
    by (cases r) (auto simp: open_orders_def slot_def remaining_qty_def stored_order_def list_open_insert list_open_insert_none)
qed (simp add: open_orders_def)

lemma submit_safe:
  assumes "book_ok ge \<Longrightarrow> \<not> cell_has_open ge i purpose"
    "reduce \<or> py_endswith purpose ''_exit'' \<Longrightarrow> open_exit_total ps ge + qty \<le> owned ps ge" "0 < qty"
  shows "safe_move ge (snd (submit_limit w i purpose side px reduce ps qty ge))" (is "safe_move ge ?e")
proof -
  consider "open_orders ?e = open_orders ge"
    | o' where "open_orders ?e = open_orders ge @ [o']" "slot o' = (i, purpose)" "go_reduce o' = reduce"
        "go_pos_side o' = ps" "remaining_qty o' = decimal8 qty"
    using submit_orders by blast
  then show ?thesis
  proof cases
    case 1
    show ?thesis by (rule safe_thin[where P = "\<lambda>_. True"]) (simp_all add: submit_frame 1 submit_grows)
  next
    case 2
    have "book_ok ge \<Longrightarrow> book_ok ?e"
      using assms(1) 2 submit_frame by (auto simp: book_ok_def one_per_slot_def cell_has_open_iff)
    moreover have "open_exit_total s ?e \<le> max (open_exit_total s ge) (owned s ge + half8)" for s
    proof (cases "is_exit_order o' \<and> s = ps")
      case True
      then have "reduce \<or> py_endswith purpose ''_exit''" using 2 by (auto simp: is_exit_order_def slot_def)
      then have "open_exit_total ps ge + qty \<le> owned ps ge" by (rule assms(2))
      moreover have "max 0 (decimal8 qty) \<le> qty + half8" using decimal8_error[of qty] assms(3) by (simp add: abs_le_iff)
      moreover have "open_exit_total s ?e = open_exit_total s ge + max 0 (decimal8 qty)"
        using True 2 by (simp add: open_exit_total_def)
      ultimately show ?thesis using True by (simp add: max_def)
    qed (use 2 in \<open>auto simp: open_exit_total_def\<close>)
    ultimately show ?thesis using submit_frame submit_grows by (simp add: safe_move_def)
  qed
qed

lemma book_ok_same: "ge_orders e = ge_orders ge \<Longrightarrow> ge_strategy e = ge_strategy ge \<Longrightarrow>
    book_ok e = book_ok ge \<and> cell_has_open e i p = cell_has_open ge i p"
  by (simp add: book_ok_def one_per_slot_def open_orders_def cell_has_open_def)

lemma place_safe:
  assumes "honest w" "book_ok ge \<Longrightarrow> \<not> cell_has_open ge (int (cs_index cell)) purpose"
    "\<not> reduce \<Longrightarrow> \<not> py_endswith purpose ''_exit''"
  shows "safe_move ge (snd (place_limit w cell purpose side px reduce ps q ge))"
proof (cases reduce)
  case True
  define r where "r = resolve_exit_quantity w ps (normalize_qty w (case q of None \<Rightarrow> qty_from_usdt ge (grid_budget ge) px | Some q \<Rightarrow> q) px) ge"
  have "0 < normalize_qty w r px \<Longrightarrow> 0 < r" by (auto simp: normalize_qty_def split: if_splits)
  then have "open_exit_total ps ge + normalize_qty w r px \<le> owned ps ge" if "0 < normalize_qty w r px"
    using that exit_quantity_capped[OF assms(1), of ps _ ge, folded r_def] normalize_le[OF assms(1), of r px]
    unfolding r_def by (meson add_left_mono less_imp_le order_trans)
  then show ?thesis using True assms(2)
    by (auto simp: place_limit_def Let_def r_def[symmetric] intro!: submit_safe)
next
  case False
  obtain a reason e where e: "entry_ownership_allowed w ps False px ge = ((a, reason), e)" by (metis surj_pair)
  have s: "safe_move ge e" "ge_orders e = ge_orders ge" "ge_strategy e = ge_strategy ge"
    using ownership_safe[of ge w ps False px] ownership_orders[of w ps False px ge] by (simp_all add: e)
  have "safe_move e (snd (submit_limit w i purpose side px False ps qty e))"
    if "0 < qty" "i = int (cs_index cell)" for qty i
    by (rule submit_safe) (use that assms(2,3) False book_ok_same[OF s(2,3)] in auto)
  then show ?thesis using False s(1)
    by (auto simp: place_limit_def Let_def e intro: safe_trans withdraw_safe)
qed

subsection \<open>The operations built from placements\<close>

lemma exit_names [simp]:
  "py_endswith ''long_exit'' ''_exit''" "py_endswith ''short_exit'' ''_exit''"
  "\<not> py_endswith ''long_entry'' ''_exit''" "\<not> py_endswith ''short_entry'' ''_exit''"
  by code_simp+

lemma ids_positive: "table_ok (ge_orders ge) \<Longrightarrow> o' \<in> set (open_orders ge) \<Longrightarrow> 1 \<le> go_id o'"
  by (auto simp: table_ok_def list_all_iff open_orders_def list_open_def)

lemma table_ids: "map go_id (ot_rows t') = map go_id (ot_rows t) \<Longrightarrow> ot_next t' = ot_next t \<Longrightarrow> table_ok t' \<Longrightarrow> table_ok t"
  by (drule (1) rows_table_ok[OF _ sym]) (simp add: table_ok_def)

lemma cancel_row_back: "table_ok (ge_orders (cancel_row o' ge)) \<Longrightarrow> table_ok (ge_orders ge)"
  by (rule table_ids[of "ge_orders (cancel_row o' ge)"])
     (auto simp: cancel_row_def cancel_order_row_def update_status_def update_order_def Let_def intro: update_ids)

lemma replace_back: "table_ok (ge_orders (snd (replace_orders w os ge))) \<Longrightarrow> table_ok (ge_orders ge)"
  by (induction os arbitrary: ge) (auto dest: cancel_row_back split: if_splits)

lemma cancel_row_open: "go_id o' \<noteq> 0 \<Longrightarrow> open_orders (cancel_row o' ge) = filter (\<lambda>x. go_id x \<noteq> go_id o') (open_orders ge)"
  by (simp add: cancel_row_def open_orders_def list_open_cancel)

lemma replace_safe: "safe_move ge (snd (replace_orders w os ge))"
proof (induction os arbitrary: ge)
  case (Cons o' os)
  show ?case using safe_trans[OF cancel_row_safe Cons.IH] by simp
qed simp

lemma replace_open:
  assumes "replace_orders w os ge = (True, e)" "list_all (\<lambda>o'. go_id o' \<noteq> 0) os"
  shows "open_orders e = filter (\<lambda>x. go_id x \<notin> go_id ` set os) (open_orders ge)"
  using assms by (induction os arbitrary: ge) (auto simp: cancel_row_open conj_commute split: if_splits intro!: filter_cong)

lemma ensure_safe:
  assumes "honest w" shows "safe_move ge (snd (ensure_cell_exit_coverage w cell purpose side price ps q ge))"
proof -
  define os where "os = orders_of_cell ge (int (cs_index cell)) purpose"
  obtain ok e where e: "replace_orders w os ge = (ok, e)" by (metis surj_pair)
  have s: "safe_move ge e" using replace_safe[of ge w os] by (simp add: e)
  have "\<not> cell_has_open e (int (cs_index cell)) purpose" if "book_ok e" ok
  proof -
    have t: "table_ok (ge_orders ge)" using replace_back[of w os ge] that by (simp add: e book_ok_def)
    have "list_all (\<lambda>o'. go_id o' \<noteq> 0) os"
      using ids_positive[OF t] unfolding os_def orders_of_cell_def list_all_iff by force
    from replace_open[OF e[unfolded \<open>ok\<close>[THEN eqTrueI]] this] show ?thesis
      by (auto simp: cell_has_open_iff slot_def os_def orders_of_cell_def)
  qed
  then have "safe_move ge (snd (place_limit w cell purpose side price True ps (Some d) e))" if ok for d
    using that by (intro safe_trans[OF s] place_safe) (simp_all add: assms)
  then show ?thesis using s by (auto simp: ensure_cell_exit_coverage_def Let_def os_def[symmetric] e)
qed

lemma dedupe_safe: "safe_move ge (dedupe_open_orders purpose ge)"
  unfolding dedupe_open_orders_def
  by (rule safe_fold_plain) (simp add: dedupe_cell_def safe_fold_plain[OF cancel_row_safe])

lemma hang_safe: "honest w \<Longrightarrow> safe_move (snd st) (snd (hang_held_exit w c st))"
proof -
  assume h: "honest w"
  have p: "safe_move ge e"
    if "place_limit w spec purpose side px True ps q ge = (ok, e)" "\<not> cell_has_open ge (int (cs_index spec)) purpose"
    for spec purpose side px ps q ge ok e
    using place_safe[of w ge spec purpose True side px ps q] h that by simp
  have i: "spec_of_cell ge i = Some spec \<Longrightarrow> i = int (cs_index spec)" for ge i spec
    by (auto simp: spec_of_cell_def find_Some_iff)
  show ?thesis
    by (cases st) (auto simp: hang_held_exit_def Let_def dest!: i split: option.splits prod.splits elim: p)
qed

lemma held_exits_safe: "honest w \<Longrightarrow> safe_move ge (snd (sync_held_cell_exits w price ge))"
  unfolding sync_held_cell_exits_def
  using safe_fold[of snd "hang_held_exit w" "(0, ge)" "own_cells ge", OF hang_safe] by simp

definition seeding_engine :: "seeding \<Rightarrow> grid_engine" where
  "seeding_engine st = snd (snd (snd st))"

lemma seed_safe:
  assumes "honest w" shows "safe_move (seeding_engine st) (seeding_engine (seed_exit w long c st))"
proof -
  have p: "safe_move ge (snd (place_limit w c purpose side px True ps q ge))"
    if "\<not> cell_has_open ge (int (cs_index c)) purpose" for purpose side px ps q ge
    using that by (intro place_safe) (simp_all add: assms)
  have m: "safe_move e (e\<lparr>ge_seeded := xs\<rparr>)" for e xs by (rule safe_same) simp_all
  have q: "safe_move ge (e\<lparr>ge_seeded := xs\<rparr>)" if "safe_move ge e" for ge e xs using safe_trans[OF that m] .
  obtain n u sts ge where st: "st = (n, u, sts, ge)" by (metis surj_pair)
  define purpose where "purpose = (if long then ''long_exit'' else ''short_exit'')"
  obtain ok e where e: "place_limit w c purpose (if long then ''sell'' else ''buy'') (if long then cs_upper c else cs_lower c) True
      (if long then ''long'' else ''short'') (Some (grid_base_qty w (if long then cs_upper c else cs_lower c) ge)) ge = (ok, e)"
    by (metis surj_pair)
  have "\<not> cell_has_open ge (int (cs_index c)) purpose \<Longrightarrow> safe_move ge e" using p[of ge purpose] e by (metis snd_conv)
  then show ?thesis
    unfolding seed_exit_def st seeding_engine_def Let_def purpose_def[symmetric] by (auto simp: e q)
qed

lemma exit_coverage_safe: "honest w \<Longrightarrow> safe_move ge (snd (sync_exit_coverage w price ge))"
proof -
  assume h: "honest w"
  define purpose where "purpose = (if gc_direction (ge_cfg ge) = ''long'' then ''long_exit'' else ''short_exit'')"
  obtain n e where e: "sync_held_cell_exits w price (dedupe_open_orders purpose ge) = (n, e)" by (metis surj_pair)
  have "safe_move ge e" using safe_trans[OF dedupe_safe held_exits_safe[OF h]] e by (metis snd_conv)
  moreover have "safe_move e (seeding_engine (fold (seed_exit w long) cs (n, u, sts, e)))" for long cs u sts
    using safe_fold[of seeding_engine "seed_exit w long" "(n, u, sts, e)" cs, OF seed_safe[OF h]] by (simp add: seeding_engine_def)
  ultimately have "safe_move ge (seeding_engine (fold (seed_exit w long) cs (n, u, sts, e)))" for long cs u sts
    by (rule safe_trans)
  then have "safe_move ge (snd (let (n', _, _, e') = fold (seed_exit w long) cs (n, u, sts, e) in (n', e')))" for long cs u sts
    by (simp add: seeding_engine_def case_prod_beta Let_def)
  then show ?thesis
    unfolding sync_exit_coverage_def purpose_def[symmetric] Let_def e prod.case by simp
qed

definition round_engine :: "entry_round \<Rightarrow> grid_engine" where
  "round_engine st = snd (snd st)"

lemma try_entry_safe:
  assumes "honest w" "\<not> cell_has_open (round_engine st) (int (cs_index cell)) purpose" "is_entry_purpose purpose"
  shows "safe_move (round_engine st) (round_engine (snd (try_entry w purpose cell st)))"
proof -
  obtain n sts ge where st: "st = (n, sts, ge)" by (metis surj_pair)
  have "safe_move ge (snd (place_entry w purpose cell ge))"
    using assms(2,3) unfolding place_entry_def is_entry_purpose_def st round_engine_def
    by (auto intro!: place_safe simp: assms(1))
  moreover have "safe_move e (e\<lparr>ge_last_entry := t\<rparr>)" for e t by (rule safe_same) simp_all
  ultimately have "safe_move ge ((snd (place_entry w purpose cell ge))\<lparr>ge_last_entry := t\<rparr>)" for t by (rule safe_trans)
  with \<open>safe_move ge (snd (place_entry w purpose cell ge))\<close> show ?thesis
    by (auto simp: try_entry_def st round_engine_def Let_def split: prod.splits)
qed

lemma allows_entry_free: "cell_allows_entry ge i purpose sts \<Longrightarrow> \<not> cell_has_open ge i purpose \<and> is_entry_purpose purpose"
  by (auto simp: cell_allows_entry_def is_entry_purpose_def split: if_splits)

lemma try_allowed_safe: "honest w \<Longrightarrow> cell_allows_entry (round_engine st) (int (cs_index cell)) purpose sts \<Longrightarrow>
    safe_move (round_engine st) (round_engine (snd (try_entry w purpose cell st)))"
  by (rule try_entry_safe) (auto dest: allows_entry_free)

lemma directed_safe: "honest w \<Longrightarrow> safe_move (round_engine st) (round_engine (directed_entry w allowed price slots cell st))"
  using try_allowed_safe[of w st cell]
  by (cases st) (auto simp: directed_entry_def round_engine_def Let_def)

lemma pool_safe: "honest w \<Longrightarrow> safe_move (round_engine st) (round_engine (snd (snd (try_pool w purpose cs st))))"
  using try_allowed_safe[of w st]
  by (induction cs) (cases st; auto simp: round_engine_def Let_def split: prod.splits; metis snd_conv)+

definition pool_engine :: "pools \<times> entry_round \<Rightarrow> grid_engine" where
  "pool_engine st = round_engine (snd st)"

lemma side_safe: "honest w \<Longrightarrow> safe_move (pool_engine st) (pool_engine (snd (try_side w allowed purpose st)))"
  using pool_safe[of w "snd st" purpose "po_long (fst st)"] pool_safe[of w "snd st" purpose "po_short (fst st)"]
  by (cases st) (auto simp: try_side_def pool_engine_def split: prod.splits)

lemma pass_safe: "honest w \<Longrightarrow> safe_move (pool_engine st) (pool_engine (snd (neutral_pass w allowed st)))"
proof -
  assume h: "honest w"
  have two: "safe_move (pool_engine st) (pool_engine (snd (try_side w allowed q (snd (try_side w allowed p st)))))" for p q
    by (rule safe_trans[OF side_safe[OF h] side_safe[OF h]])
  then show ?thesis using side_safe[OF h, of st allowed] two[of "''long_entry''"]
    by (auto simp: neutral_pass_def Let_def split: prod.splits) (metis snd_conv)+
qed

lemma loop_safe: "honest w \<Longrightarrow> safe_move (pool_engine st) (pool_engine (neutral_loop w allowed slots st))"
proof (induction slots arbitrary: st)
  case (Suc slots)
  obtain ok st1 where p: "neutral_pass w allowed st = (ok, st1)" by (metis surj_pair)
  have "safe_move (pool_engine st) (pool_engine st1)" using pass_safe[OF Suc.prems, of st allowed] by (simp add: p)
  then show ?case using Suc.IH[OF Suc.prems, of st1] by (auto simp: p intro: safe_trans)
qed simp

lemma place_entries_safe: "honest w \<Longrightarrow> safe_move ge (snd (place_entries w allowed price slots ge))"
proof -
  assume h: "honest w"
  have l: "safe_move ge (pool_engine (neutral_loop w allowed slots (p, 0, sts, ge)))" for p sts
    using loop_safe[OF h, of "(p, 0, sts, ge)"] by (simp add: pool_engine_def round_engine_def)
  have d: "safe_move ge (round_engine (fold (directed_entry w allowed price slots) cs (0, sts, ge)))" for cs sts
    using safe_fold[of round_engine "directed_entry w allowed price slots" "(0, sts, ge)" cs, OF directed_safe[OF h]]
    by (simp add: round_engine_def)
  show ?thesis unfolding place_entries_def Let_def case_prod_beta
    using l d by (simp add: pool_engine_def round_engine_def)
qed

lemma check_side_safe: "safe_move (snd st) (snd (check_side w price side st))"
proof -
  obtain ok ge where st: "st = (ok, ge)" by (metis surj_pair)
  obtain a reason e where e: "entry_ownership_allowed w side True price ge = ((a, reason), e)" by (metis surj_pair)
  have "safe_move ge e" using ownership_safe[of ge w side True price] by (simp add: e)
  then show ?thesis using safe_trans[OF _ withdraw_safe] by (simp add: check_side_def st e)
qed

lemma sync_grid_safe: "honest w \<Longrightarrow> safe_move ge (snd (sync_grid_orders w price ge))"
proof -
  assume h: "honest w"
  obtain allowed e where e: "fold (check_side w price) (entry_sides (gc_direction (ge_cfg ge))) ([], ge) = (allowed, e)"
    by (metis surj_pair)
  define e1 where "e1 = dedupe_open_orders ''short_entry'' (dedupe_open_orders ''long_entry'' e)"
  have "safe_move ge e"
    using safe_fold[of snd "check_side w price" "([], ge)", OF check_side_safe] e by (metis snd_conv)
  moreover have "safe_move e e1" unfolding e1_def by (rule safe_trans[OF dedupe_safe dedupe_safe])
  ultimately have "safe_move ge e" "safe_move ge e1" by (auto intro: safe_trans)
  then show ?thesis
    unfolding sync_grid_orders_def e Let_def prod.case e1_def[symmetric]
    using safe_trans[OF \<open>safe_move ge e1\<close> place_entries_safe[OF h]] by simp
qed

lemma initial_exits_safe: "honest w \<Longrightarrow> safe_move ge (snd (sync_initial_exit_orders w price ge))"
  by (simp add: sync_initial_exit_orders_def exit_coverage_safe)

lemma boundary_safe: "safe_move ge (snd (handle_boundary w price ge))"
proof -
  have "safe_move ge ((cancel_position_orders w [] False ge)\<lparr>ge_paused := True\<rparr>)"
    by (rule safe_trans[OF cancel_position_safe safe_same]) simp_all
  moreover have "safe_move ge ((cancel_position_orders w [] False ge)\<lparr>ge_paused := True, ge_stop := True\<rparr>)"
    by (rule safe_trans[OF cancel_position_safe safe_same]) simp_all
  ultimately show ?thesis by (simp add: handle_boundary_def Let_def)
qed

lemma bootstrap_safe: "safe_move ge (snd (bootstrap price ge))"
  by (rule safe_same) (simp_all add: bootstrap_def)

lemma cancel_all_open: "open_orders (e\<lparr>ge_orders := cancel_all_orders sid sy (ge_orders e)\<rparr>) =
    filter (\<lambda>r. \<not> (go_strategy r = sid \<and> (sy = [] \<or> go_symbol r = sy))) (open_orders e)"
proof -
  have "filter (\<lambda>r. go_strategy r = k \<and> is_open r) (map (\<lambda>r. if go_strategy r = sid \<and> (sy = [] \<or> go_symbol r = sy) \<and> is_open r
      then r\<lparr>go_status := ''cancelled''\<rparr> else r) rows) =
    filter (\<lambda>r. \<not> (go_strategy r = sid \<and> (sy = [] \<or> go_symbol r = sy))) (filter (\<lambda>r. go_strategy r = k \<and> is_open r) rows)" for k rows
    by (induction rows) (auto simp: is_open_def)
  then show ?thesis by (simp add: open_orders_def list_open_def cancel_all_orders_def)
qed

lemma shutdown_safe: "safe_move ge (shutdown ge)"
proof -
  define e where "e = cancel_all_on_exchange ge"
  define e2 where "e2 = e\<lparr>ge_orders := cancel_all_orders (ge_strategy ge) (ge_symbol ge) (ge_orders e)\<rparr>"
  have "safe_move ge e" unfolding e_def cancel_all_on_exchange_def by (rule safe_fold_plain[OF cancel_row_safe])
  also have "safe_move e e2" unfolding e2_def
    by (rule safe_thin[OF _ _ _ _ cancel_all_open])
       (auto simp: cancel_all_orders_def intro!: rows_table_ok grows_same update_core, simp_all add: core_def slot_def)
  finally (safe_trans) have "safe_move ge e2" .
  moreover have "safe_move e2 (shutdown ge)" by (rule safe_same) (simp_all add: shutdown_def Let_def e_def e2_def)
  ultimately show ?thesis by (rule safe_trans)
qed

subsection \<open>The engine between fills\<close>

datatype grid_move = Boot real | Sync_entries real | Sync_exits real | Sync_held real | Boundary real | Shutdown

definition grid_step :: "grid_world \<times> grid_move \<Rightarrow> grid_engine \<Rightarrow> grid_engine" where
  "grid_step wm ge =
     (case snd wm of
        Boot p \<Rightarrow> snd (bootstrap p ge)
      | Sync_entries p \<Rightarrow> snd (sync_grid_orders (fst wm) p ge)
      | Sync_exits p \<Rightarrow> snd (sync_initial_exit_orders (fst wm) p ge)
      | Sync_held p \<Rightarrow> snd (sync_held_cell_exits (fst wm) p ge)
      | Boundary p \<Rightarrow> snd (handle_boundary (fst wm) p ge)
      | Shutdown \<Rightarrow> shutdown ge)"

lemma grid_step_safe: "honest (fst wm) \<Longrightarrow> safe_move ge (grid_step wm ge)"
  by (cases "snd wm")
     (simp_all add: grid_step_def bootstrap_safe sync_grid_safe initial_exits_safe held_exits_safe boundary_safe shutdown_safe)

lemma grid_steps_safe: "list_all (\<lambda>wm. honest (fst wm)) wms \<Longrightarrow> safe_move ge (fold grid_step wms ge)"
  by (induction wms arbitrary: ge) (auto intro: safe_trans grid_step_safe)

subsection \<open>Fills\<close>

text \<open>The new open orders are all in one slot.\<close>

definition adds_only :: "int \<times> string \<Rightarrow> grid_engine \<Rightarrow> grid_engine \<Rightarrow> bool" where
  "adds_only s ge e \<longleftrightarrow> list_all (\<lambda>x. slot x = s \<or> (go_id x, slot x) \<in> (\<lambda>y. (go_id y, slot y)) ` set (open_orders ge)) (open_orders e)"

lemma adds_sub: "set (open_orders e) \<subseteq> set (open_orders ge) \<Longrightarrow> adds_only s ge e"
  by (auto simp: adds_only_def list_all_iff)

lemma adds_trans: "adds_only s a b \<Longrightarrow> adds_only s b c \<Longrightarrow> adds_only s a c"
  unfolding adds_only_def list_all_iff by (smt (verit) image_iff prod.inject)

lemma cancel_row_sub: "set (open_orders (cancel_row o' ge)) \<subseteq> set (open_orders ge)"
  by (cases "go_id o' = 0") (auto simp: cancel_row_open, simp add: cancel_row_def)

lemma fold_sub: "(\<And>x e. set (open_orders (f x e)) \<subseteq> set (open_orders e)) \<Longrightarrow> set (open_orders (fold f xs ge)) \<subseteq> set (open_orders ge)"
  by (induction xs arbitrary: ge) (simp, metis fold_simps(2) order_trans)

lemma cancel_position_sub: "set (open_orders (cancel_position_orders w side ex ge)) \<subseteq> set (open_orders ge)"
  unfolding cancel_position_orders_def by (rule fold_sub) (use cancel_row_sub in auto)

lemma withdraw_sub: "set (open_orders (withdraw_leg w side reason ge)) \<subseteq> set (open_orders ge)"
  using cancel_position_sub[of w side False ge] cancel_position_sub[of w side True "cancel_position_orders w side False ge"]
  by (auto simp: withdraw_leg_def Let_def)

lemma replace_sub: "set (open_orders (snd (replace_orders w os ge))) \<subseteq> set (open_orders ge)"
  by (induction os arbitrary: ge) (auto dest!: cancel_row_sub[THEN subsetD])

lemma submit_adds: "adds_only (i, purpose) ge (snd (submit_limit w i purpose side px reduce ps qty ge))"
  using submit_orders[of w i purpose side px reduce ps qty ge] by (auto simp: adds_only_def list_all_iff)

lemma place_adds: "adds_only (int (cs_index cell), purpose) ge (snd (place_limit w cell purpose side px reduce ps q ge))"
proof -
  obtain a reason e where e: "entry_ownership_allowed w ps False px ge = ((a, reason), e)" by (metis surj_pair)
  have "open_orders e = open_orders ge"
    using ownership_orders[of w ps False px ge] by (simp add: e open_orders_def)
  then have "adds_only s ge (withdraw_leg w ps reason e)" "adds_only s ge e" for s
    using withdraw_sub[of w ps reason e] by (auto intro: adds_sub)
  then show ?thesis
    by (auto simp: place_limit_def Let_def e submit_adds adds_sub intro: adds_trans[OF _ submit_adds])
qed

lemma ensure_adds: "adds_only (int (cs_index cell), purpose) ge (snd (ensure_cell_exit_coverage w cell purpose side px ps q ge))"
proof -
  define os where "os = orders_of_cell ge (int (cs_index cell)) purpose"
  obtain ok e where e: "replace_orders w os ge = (ok, e)" by (metis surj_pair)
  have "adds_only s ge e" for s using replace_sub[of w os ge] by (auto intro: adds_sub simp: e)
  then show ?thesis
    by (auto simp: ensure_cell_exit_coverage_def Let_def os_def[symmetric] e adds_sub intro: adds_trans[OF _ place_adds])
qed

text \<open>What a fill of an order opens is in the other slot of its cell.\<close>

definition paired :: "string \<Rightarrow> string" where
  "paired p = (if p = ''long_entry'' then ''long_exit'' else if p = ''long_exit'' then ''long_entry''
     else if p = ''short_entry'' then ''short_exit'' else ''short_entry'')"

lemma spec_index: "spec_of_cell ge i = Some spec \<Longrightarrow> int (cs_index spec) = i"
  by (auto simp: spec_of_cell_def find_Some_iff)

lemma same_open: "ge_orders e = ge_orders ge \<Longrightarrow> ge_strategy e = ge_strategy ge \<Longrightarrow> adds_only s ge e"
  by (rule adds_sub) (simp add: open_orders_def)

lemma set_cell_adds: "adds_only s ge (set_cell i st sz en wk ge)"
  by (rule same_open) (simp_all add: set_cell_def)

lemmas ensure_after_set = safe_trans[OF set_cell_safe ensure_safe] adds_trans[OF set_cell_adds ensure_adds]
lemmas place_after_set = safe_trans[OF set_cell_safe place_safe] adds_trans[OF set_cell_adds place_adds]

lemma hold_moves:
  assumes "honest w" shows "safe_move ge (hold_cell w cell long fq px ge)"
    "adds_only (int (cs_index cell), if long then ''long_exit'' else ''short_exit'') ge (hold_cell w cell long fq px ge)"
  unfolding hold_cell_def Let_def by (simp_all add: ensure_after_set assms)

lemma free_cases:
  fixes w :: grid_world and cell :: cell_spec and long :: bool and fq :: real and ge :: grid_engine
  defines "i \<equiv> int (cs_index cell)" and "entry \<equiv> (if long then ''long_entry'' else ''short_entry'')"
  obtains (kept) st sz where "free_cell w cell long fq ge = set_cell i st sz None None ge"
  | (again) st sz side px ps q where
      "cell_allows_entry (set_cell i st sz None None ge) i entry (cell_states_of (set_cell i st sz None None ge))"
      "free_cell w cell long fq ge = snd (place_limit w cell entry side px False ps q (set_cell i st sz None None ge))"
proof -
  define left where "left = max 0 ((case cell_record ge i of None \<Rightarrow> 0 | Some c \<Rightarrow> max 0 (gl_size c)) - fq)"
  define st where "st = (if left > eps10 then (if long then LongHeld else ShortHeld) else Idle)"
  define e where "e = set_cell i st (Some left) None None ge"
  have f: "free_cell w cell long fq ge = (if left \<le> eps10 \<and> \<not> ge_paused e \<and> cell_allows_entry e i entry (cell_states_of e)
      then (if long then snd (place_limit w cell entry ''buy'' (cs_lower cell) False ''long'' (Some fq) e)
            else snd (place_limit w cell entry ''sell'' (cs_upper cell) False ''short'' (Some fq) e)) else e)"
    unfolding free_cell_def Let_def i_def entry_def left_def st_def e_def ..
  show thesis
  proof (cases "left \<le> eps10 \<and> \<not> ge_paused e \<and> cell_allows_entry e i entry (cell_states_of e)")
    case True
    then show thesis using f by (cases long) (auto intro: again[of st "Some left"] simp: e_def)
  next
    case False
    show thesis by (rule kept[of st "Some left", folded e_def], unfold f if_not_P[OF False]) (rule refl)
  qed
qed

lemma free_moves:
  assumes "honest w"
  shows "safe_move ge (free_cell w cell long fq ge)"
    "adds_only (int (cs_index cell), if long then ''long_entry'' else ''short_entry'') ge (free_cell w cell long fq ge)"
proof -
  show "safe_move ge (free_cell w cell long fq ge)"
  proof (cases rule: free_cases[of w cell long fq ge])
    case (again st sz side px ps q)
    then show ?thesis
      using place_after_set(1)[OF assms] allows_entry_free[OF again(1)] by (auto simp: is_entry_purpose_def)
  qed (simp add: set_cell_safe)
  show "adds_only (int (cs_index cell), if long then ''long_entry'' else ''short_entry'') ge (free_cell w cell long fq ge)"
    by (cases rule: free_cases[of w cell long fq ge]) (simp_all add: set_cell_adds place_after_set(2))
qed

text \<open>Handling a fill: the ledger moves, then the cell; new orders go to the paired slot only.\<close>

lemma filled_moves_ledger:
  assumes "honest w"
  shows "safe_move (ge\<lparr>ge_ledger := apply_grid_fill (ge_strategy ge) (ge_symbol ge) (gw_leg w) o' filled avg note
      (ge_cells ge) (ge_ledger ge)\<rparr>) (on_order_filled w o' filled avg note ge)"
    "adds_only (go_cell o', paired (go_purpose o')) ge (on_order_filled w o' filled avg note ge)"
proof -
  define d where "d = apply_grid_fill (ge_strategy ge) (ge_symbol ge) (gw_leg w) o' filled avg note (ge_cells ge) (ge_ledger ge)"
  define e where "e = ge\<lparr>ge_ledger := d\<rparr>"
  have ae: "adds_only s e x \<Longrightarrow> adds_only s ge x" "adds_only s ge e" for s x
    unfolding e_def by (rule adds_trans[OF same_open], simp_all) (rule same_open, simp_all)
  have "safe_move e (on_order_filled w o' filled avg note ge) \<and>
      adds_only (go_cell o', paired (go_purpose o')) ge (on_order_filled w o' filled avg note ge)"
  proof (cases "spec_of_cell ge (go_cell o')")
    case (Some cell)
    define x where "x = on_order_filled w o' filled avg note ge"
    have i: "go_cell o' = int (cs_index cell)" using spec_index[OF Some] by simp
    have x: "x = e \<or> (\<exists>long fq px. go_purpose o' = (if long then ''long_entry'' else ''short_entry'') \<and> x = hold_cell w cell long fq px e)
        \<or> (\<exists>long fq. go_purpose o' = (if long then ''long_exit'' else ''short_exit'') \<and> x = free_cell w cell long fq e)"
      unfolding x_def on_order_filled_def d_def[symmetric] e_def[symmetric] Let_def Some option.case by (auto; metis)
    then consider "x = e"
      | (hold) long fq px where "go_purpose o' = (if long then ''long_entry'' else ''short_entry'')" "x = hold_cell w cell long fq px e"
      | (freed) long fq where "go_purpose o' = (if long then ''long_exit'' else ''short_exit'')" "x = free_cell w cell long fq e"
      by blast
    then have "safe_move e x \<and> adds_only (go_cell o', paired (go_purpose o')) ge x"
    proof cases
      case hold
      show ?thesis unfolding i using hold hold_moves[OF assms, where ge = e and cell = cell and long = long and fq = fq and px = px] by (cases long) (simp_all add: paired_def ae)
    next
      case freed
      show ?thesis unfolding i using freed free_moves[OF assms, where ge = e and cell = cell and long = long and fq = fq] by (cases long) (simp_all add: paired_def ae)
    qed (simp add: ae)
    then show ?thesis by (simp add: x_def)
  qed (simp add: on_order_filled_def ae[unfolded e_def d_def] d_def e_def Let_def)
  then show "safe_move (ge\<lparr>ge_ledger := apply_grid_fill (ge_strategy ge) (ge_symbol ge) (gw_leg w) o' filled avg note
      (ge_cells ge) (ge_ledger ge)\<rparr>) (on_order_filled w o' filled avg note ge)"
    "adds_only (go_cell o', paired (go_purpose o')) ge (on_order_filled w o' filled avg note ge)"
    unfolding e_def d_def by simp_all
qed

lemma filled_moves:
  assumes "honest w"
  obtains d where "safe_move (ge\<lparr>ge_ledger := d\<rparr>) (on_order_filled w o' filled avg note ge)"
    "adds_only (go_cell o', paired (go_purpose o')) ge (on_order_filled w o' filled avg note ge)"
  using filled_moves_ledger[OF assms] that by blast

lemma filled_ledger:
  "honest w \<Longrightarrow> ge_ledger (on_order_filled w o' filled avg note ge) =
     apply_grid_fill (ge_strategy ge) (ge_symbol ge) (gw_leg w) o' filled avg note (ge_cells ge) (ge_ledger ge)"
  using filled_moves_ledger(1)[of w] by (simp add: safe_move_def)


lemma paired_other: "paired p \<noteq> p"
  by (auto simp: paired_def)

text \<open>Writing the report of an order whose slot no other open order shares.\<close>

lemma report_ok:
  assumes "table_ok (ge_orders e)" "one_per_slot e"
    "list_all (\<lambda>r. go_id r = i \<longrightarrow> slot r = s) (ot_rows (ge_orders e))" "list_all (\<lambda>x. slot x = s \<longrightarrow> go_id x = i) (open_orders e)"
  shows "book_ok (e\<lparr>ge_orders := update_status i st a b c (ge_orders e)\<rparr>)"
proof -
  define f where "f = (\<lambda>r::grid_order. if go_id r = i then r\<lparr>go_status := st, go_filled := (case a of None \<Rightarrow> go_filled r | Some v \<Rightarrow> decimal8 v),
        go_avg := (case b of None \<Rightarrow> go_avg r | Some v \<Rightarrow> decimal8 v), go_processed := (case c of None \<Rightarrow> go_processed r | Some v \<Rightarrow> decimal8 v)\<rparr> else r)"
  define e' where "e' = e\<lparr>ge_orders := update_status i st a b c (ge_orders e)\<rparr>"
  have rows: "ot_rows (ge_orders e') = map f (ot_rows (ge_orders e))"
    by (simp add: e'_def update_status_def update_order_def f_def Let_def)
  have f: "go_id (f r) = go_id r" "slot (f r) = slot r" "go_id r \<noteq> i \<Longrightarrow> f r = r" for r by (simp_all add: f_def slot_def)
  have t: "table_ok (ge_orders e')" using update_status_ok[OF assms(1)] by (simp add: e'_def)
  have op: "(go_id x = i \<and> slot x = s) \<or> (go_id x \<noteq> i \<and> x \<in> set (open_orders e))" if "x \<in> set (open_orders e')" for x
  proof -
    from that obtain r where r: "r \<in> set (ot_rows (ge_orders e))" "x = f r" "go_strategy x = ge_strategy e" "is_open x"
      unfolding open_orders_def list_open_def rows by (auto simp: e'_def)
    show ?thesis
    proof (cases "go_id r = i")
      case True
      then show ?thesis using r assms(3) f by (auto simp: list_all_iff)
    next
      case False
      then show ?thesis using r f by (simp add: open_orders_def list_open_def)
    qed
  qed
  have "inj_on go_id (set (open_orders e'))"
    using t unfolding table_ok_def distinct_map open_orders_def list_open_def by (auto intro: inj_on_subset)
  moreover have "x = y" if "x \<in> set (open_orders e')" "y \<in> set (open_orders e')" "slot x = slot y" for x y
    using op[OF that(1)] op[OF that(2)] that assms(2,4) \<open>inj_on go_id (set (open_orders e'))\<close>
    unfolding one_per_slot_def distinct_map list_all_iff by (metis (no_types, lifting) inj_onD)
  moreover have "distinct (open_orders e')"
    using t by (auto simp: table_ok_def open_orders_def list_open_def distinct_map intro: distinct_filter)
  ultimately have "one_per_slot e'" by (simp add: one_per_slot_def distinct_map inj_on_def)
  then show ?thesis using t by (simp add: book_ok_def e'_def)
qed

lemma grows_core:
  assumes "grows ge e" "table_ok (ge_orders e)" "o' \<in> set (ot_rows (ge_orders ge))" "r \<in> set (ot_rows (ge_orders e))" "go_id r = go_id o'"
  shows "core r = core o'"
proof -
  obtain ys where "map core (ot_rows (ge_orders e)) = map core (ot_rows (ge_orders ge)) @ ys"
    using assms(1) by (auto simp: grows_def)
  then have "core o' \<in> set (map core (ot_rows (ge_orders e)))" using assms(3) by (simp del: set_map) simp
  then obtain q where q: "q \<in> set (ot_rows (ge_orders e))" "core q = core o'" by auto
  then have "go_id q = go_id r" using assms(5) by (simp add: core_def)
  then have "q = r" using assms(2,4) q(1) by (auto simp: table_ok_def distinct_map inj_on_def)
  then show ?thesis using q by simp
qed

text \<open>The engine right before the report of the polled order is written.\<close>

definition posted_engine :: "grid_world \<Rightarrow> order_report \<Rightarrow> grid_order \<Rightarrow> grid_engine \<Rightarrow> grid_engine" where
  "posted_engine w r o' ge = (case new_fill r o' of
     None \<Rightarrow> ge
   | Some d \<Rightarrow> on_order_filled w o' d (py_or (or_avg r) (go_price o')) (or_note r) ge)"

lemma ledger_book: "book_ok (ge\<lparr>ge_ledger := d\<rparr>) = book_ok ge" "grows (ge\<lparr>ge_ledger := d\<rparr>) e = grows ge e"
  by (simp_all add: book_ok_def one_per_slot_def open_orders_def grows_def)

lemma posted_moves:
  assumes "honest w" "book_ok ge"
  shows "book_ok (posted_engine w r o' ge)" "grows ge (posted_engine w r o' ge)"
    "adds_only (go_cell o', paired (go_purpose o')) ge (posted_engine w r o' ge)"
    "ge_strategy (posted_engine w r o' ge) = ge_strategy ge"
proof -
  have "book_ok (posted_engine w r o' ge) \<and> grows ge (posted_engine w r o' ge) \<and> ge_strategy (posted_engine w r o' ge) = ge_strategy ge \<and>
      adds_only (go_cell o', paired (go_purpose o')) ge (posted_engine w r o' ge)"
  proof (cases "new_fill r o'")
    case (Some d)
    define x where "x = on_order_filled w o' d (py_or (or_avg r) (go_price o')) (or_note r) ge"
    obtain d' where m: "safe_move (ge\<lparr>ge_ledger := d'\<rparr>) x" "adds_only (go_cell o', paired (go_purpose o')) ge x"
      unfolding x_def by (rule filled_moves[OF assms(1)])
    have "book_ok x \<and> grows ge x \<and> ge_strategy x = ge_strategy ge"
      using safe_moveD[OF m(1)] assms(2) by (simp add: ledger_book)
    with m(2) have "book_ok x \<and> grows ge x \<and> ge_strategy x = ge_strategy ge \<and> adds_only (go_cell o', paired (go_purpose o')) ge x" by simp
    then show ?thesis by (simp add: posted_engine_def Some x_def)
  qed (simp add: posted_engine_def assms adds_sub)
  then show "book_ok (posted_engine w r o' ge)" "grows ge (posted_engine w r o' ge)"
    "adds_only (go_cell o', paired (go_purpose o')) ge (posted_engine w r o' ge)"
    "ge_strategy (posted_engine w r o' ge) = ge_strategy ge" by auto
qed

text \<open>The engine after the report is written: what \<open>poll_order\<close> leaves but for the exits it may hang again.\<close>

definition reported_engine :: "grid_world \<Rightarrow> order_report \<Rightarrow> grid_order \<Rightarrow> grid_engine \<Rightarrow> grid_engine" where
  "reported_engine w r o' ge =
     (let cumulative = reported_total r o' in
      (posted_engine w r o' ge)\<lparr>ge_orders := update_status (go_id o') (local_status r cumulative o') (Some cumulative)
         (Some (or_avg r)) (Some (if new_fill r o' = None then go_processed o' else cumulative))
         (ge_orders (posted_engine w r o' ge))\<rparr>)"

lemma poll_order_alt: "poll_order w r o' ge =
    (if or_status r = ''unknown'' \<or> go_id o' = 0 then ge
     else if or_status r = ''cancelled'' \<and> reported_total r o' > 0
     then snd (sync_held_cell_exits w (py_or (or_avg r) (go_price o')) (reported_engine w r o' ge))
     else reported_engine w r o' ge)"
  by (simp add: poll_order_def reported_engine_def posted_engine_def Let_def)

lemma reported_book:
  assumes "honest w" "book_ok ge" "o' \<in> set (open_orders ge)"
  shows "book_ok (reported_engine w r o' ge)"
proof -
  define e where "e = posted_engine w r o' ge"
  note pm = posted_moves[OF assms(1,2), where r = r and o' = o', folded e_def]
  have row: "o' \<in> set (ot_rows (ge_orders ge))" using assms(3) by (auto simp: open_orders_def list_open_def)
  have t: "table_ok (ge_orders e)" "one_per_slot e" using pm(1) by (simp_all add: book_ok_def)
  have "slot q = slot o'" if "q \<in> set (ot_rows (ge_orders e))" "go_id q = go_id o'" for q
    using grows_core[OF pm(2) t(1) row that] by (simp add: core_def)
  moreover have "go_id q = go_id o'" if q: "q \<in> set (open_orders e)" "slot q = slot o'" for q
  proof -
    have "slot q \<noteq> (go_cell o', paired (go_purpose o'))" using q(2) paired_other[of "go_purpose o'"] by (auto simp: slot_def)
    then obtain y where y: "y \<in> set (open_orders ge)" "go_id y = go_id q" "slot y = slot q"
      using pm(3) q(1) by (auto simp: adds_only_def list_all_iff)
    then have "y = o'" using assms(2,3) q(2) by (auto simp: book_ok_def one_per_slot_def distinct_map inj_on_def)
    then show ?thesis using y by simp
  qed
  ultimately have "book_ok (e\<lparr>ge_orders := update_status (go_id o') st a b c (ge_orders e)\<rparr>)" for st a b c
    by (intro report_ok[OF t]) (auto simp: list_all_iff)
  then show ?thesis by (simp add: reported_engine_def e_def[symmetric] Let_def)
qed

lemma poll_book: "honest w \<Longrightarrow> book_ok ge \<Longrightarrow> o' \<in> set (open_orders ge) \<Longrightarrow> book_ok (poll_order w r o' ge)"
  using reported_book[of w ge o' r] safe_moveD(4)[OF held_exits_safe] by (simp add: poll_order_alt)

text \<open>Everything that happens to an engine: its own moves, and the report of an order by its id.\<close>

datatype grid_event = Move grid_move | Report int order_report

definition grid_event_step :: "grid_world \<times> grid_event \<Rightarrow> grid_engine \<Rightarrow> grid_engine" where
  "grid_event_step we ge =
     (case snd we of
        Move m \<Rightarrow> grid_step (fst we, m) ge
      | Report i r \<Rightarrow> (case find (\<lambda>o'. go_id o' = i) (open_orders ge) of
            None \<Rightarrow> ge | Some o' \<Rightarrow> poll_order (fst we) r o' ge))"

lemma grid_event_book: "honest (fst we) \<Longrightarrow> book_ok ge \<Longrightarrow> book_ok (grid_event_step we ge)"
  using safe_moveD(4)[OF grid_step_safe]
  by (auto simp: grid_event_step_def find_Some_iff intro: poll_book split: grid_event.splits option.splits)

text \<open>With the worlds checked at each event the engine is a machine that keeps its book in order.\<close>

definition guarded_event :: "grid_world \<times> grid_event \<Rightarrow> grid_engine \<Rightarrow> unit + grid_engine" where
  "guarded_event we ge = Inr (grid_event_step we ge)"

interpretation grid_book: partial_machine guarded_event "\<lambda>we. honest (fst we)" book_ok
  by unfold_locales (auto simp: guarded_event_def grid_event_book)

lemma guarded_fold: "efold guarded_event wes ge = Inr (fold grid_event_step wes ge)"
  by (induction wes arbitrary: ge) (simp_all add: guarded_event_def)

lemmas grid_events_book = grid_book.prun_inv[OF _ _ guarded_fold]

subsection \<open>What is posted of an order\<close>

text \<open>The row of an order, as far as posting depends on it: cell, quantity, filled and posted amount.\<close>

definition tracked :: "int \<Rightarrow> int \<times> string \<Rightarrow> real \<Rightarrow> real \<Rightarrow> grid_engine \<Rightarrow> bool" where
  "tracked i s q p ge \<longleftrightarrow> book_ok ge \<and> i \<noteq> 0 \<and> p \<le> q \<and>
     (\<exists>f\<le>q. (i, s, q, f, p) \<in> core ` set (ot_rows (ge_orders ge)))"

definition posted_amount :: "int \<Rightarrow> grid_event \<Rightarrow> grid_engine \<Rightarrow> real" where
  "posted_amount i ev ge =
     (case ev of Move _ \<Rightarrow> 0
      | Report j r \<Rightarrow> (case find (\<lambda>o'. go_id o' = j) (open_orders ge) of
            None \<Rightarrow> 0
          | Some o' \<Rightarrow> if j \<noteq> i \<or> or_status r = ''unknown'' then 0
                       else (case new_fill r o' of None \<Rightarrow> 0 | Some d \<Rightarrow> d)))"

primrec posted_total :: "int \<Rightarrow> (grid_world \<times> grid_event) list \<Rightarrow> grid_engine \<Rightarrow> real" where
  "posted_total i [] ge = 0"
| "posted_total i (we # wes) ge = posted_amount i (snd we) ge + posted_total i wes (grid_event_step we ge)"

definition reports_of :: "int \<Rightarrow> (grid_world \<times> grid_event) list \<Rightarrow> order_report list" where
  "reports_of i wes = concat (map (\<lambda>we. case snd we of Report j r \<Rightarrow> if j = i then [r] else [] | Move _ \<Rightarrow> []) wes)"

lemma decimal8_mono: "x \<le> y \<Longrightarrow> decimal8 x \<le> decimal8 y"
proof -
  assume "x \<le> y"
  then consider "y < 0" | "x < 0" "0 \<le> y" | "0 \<le> x" by linarith
  then show ?thesis
  proof cases
    case 1
    then show ?thesis using \<open>x \<le> y\<close> by (auto simp: decimal8_def divide_right_mono intro!: floor_mono)
  next
    case 2
    have "decimal8 x \<le> 0" using 2 decimal8_nonneg[of "- x"] by (auto simp: decimal8_def)
    then show ?thesis using decimal8_nonneg[OF 2(2)] by linarith
  next
    case 3
    then show ?thesis using \<open>x \<le> y\<close> by (auto simp: decimal8_def divide_right_mono intro!: floor_mono)
  qed
qed

lemma tracked_grows: "tracked i s q p ge \<Longrightarrow> grows ge e \<Longrightarrow> book_ok e \<Longrightarrow> tracked i s q p e"
proof -
  assume t: "tracked i s q p ge" and g: "grows ge e" and b: "book_ok e"
  obtain ys where "map core (ot_rows (ge_orders e)) = map core (ot_rows (ge_orders ge)) @ ys" using g by (auto simp: grows_def)
  then have "core ` set (ot_rows (ge_orders ge)) \<subseteq> core ` set (ot_rows (ge_orders e))"
    by (metis set_append set_map sup_ge1)
  then show ?thesis using t b unfolding tracked_def by blast
qed

lemma tracked_safe: "tracked i s q p ge \<Longrightarrow> safe_move ge e \<Longrightarrow> tracked i s q p e"
  by (rule tracked_grows) (auto simp: safe_move_def tracked_def)

text \<open>Writing a report moves the posted amount of its own row only.\<close>

lemma report_core:
  assumes "(k, s, q, f, p) \<in> core ` set (ot_rows t)"
  shows "(k, s, q, if k = j then decimal8 c else f, if k = j then decimal8 d else p) \<in>
    core ` set (ot_rows (update_status j st (Some c) a (Some d) t))"
proof -
  define h where "h = (\<lambda>(k, s, q, f, p). if k = j then (k, s, q, decimal8 c, decimal8 d) else (k, s :: int \<times> string, q :: real, f, p))"
  have "map core (ot_rows (update_status j st (Some c) a (Some d) t)) = map h (map core (ot_rows t))"
    by (simp add: update_status_def update_order_def Let_def core_def slot_def h_def)
  then have "core ` set (ot_rows (update_status j st (Some c) a (Some d) t)) = h ` core ` set (ot_rows t)"
    by (metis set_map)
  moreover have "h (k, s, q, f, p) = (k, s, q, if k = j then decimal8 c else f, if k = j then decimal8 d else p)"
    by (simp add: h_def)
  ultimately show ?thesis using imageI[OF assms, of h] by simp
qed

lemma exact_small: "x \<le> q \<Longrightarrow> exact8 q \<Longrightarrow> decimal8 x \<le> q"
  using decimal8_mono[of x q] decimal8_exact[of q] by simp

lemma posted_tracked:
  assumes "tracked i s q p ge" "honest w" shows "tracked i s q p (posted_engine w r o' ge)"
proof -
  have "book_ok ge" using assms(1) by (simp add: tracked_def)
  then show ?thesis using tracked_grows[OF assms(1) posted_moves(2,1)[OF assms(2)]] by blast
qed

lemma reported_other:
  assumes "tracked i s q p ge" "honest w" "o' \<in> set (open_orders ge)" "go_id o' \<noteq> i"
  shows "tracked i s q p (reported_engine w r o' ge)"
proof -
  have b: "book_ok (reported_engine w r o' ge)"
    using reported_book[OF assms(2) _ assms(3)] assms(1) by (simp add: tracked_def)
  obtain f where "f \<le> q" "(i, s, q, f, p) \<in> core ` set (ot_rows (ge_orders (posted_engine w r o' ge)))"
    using posted_tracked[OF assms(1,2), where r = r and o' = o'] by (auto simp: tracked_def)
  then have "\<exists>f\<le>q. (i, s, q, f, p) \<in> core ` set (ot_rows (ge_orders (reported_engine w r o' ge)))"
    using report_core[of i s q f p _ "go_id o'"] assms(4) unfolding reported_engine_def Let_def by force
  then show ?thesis using b assms(1) unfolding tracked_def by blast
qed

lemma tracked_row:
  assumes "tracked i s q p ge" "o' \<in> set (ot_rows (ge_orders ge))" "go_id o' = i"
  shows "slot o' = s \<and> go_quantity o' = q \<and> go_processed o' = p \<and> go_filled o' \<le> q"
proof -
  obtain f x where x: "f \<le> q" "x \<in> set (ot_rows (ge_orders ge))" "core x = (i, s, q, f, p)"
    using assms(1) by (auto simp: tracked_def)
  have "x = o'" using assms x by (auto simp: tracked_def book_ok_def table_ok_def distinct_map inj_on_def core_def)
  then show ?thesis using x by (simp add: core_def)
qed

lemma row_core:
  assumes "tracked i s q p ge" "o' \<in> set (open_orders ge)" "go_id o' = i"
  shows "slot o' = s \<and> go_quantity o' = q \<and> go_processed o' = p \<and> go_filled o' \<le> q"
  using tracked_row[OF assms(1) _ assms(3)] assms(2) by (simp add: open_orders_def list_open_def)

lemma reported_own:
  assumes "tracked i s q p ge" "honest w" "o' \<in> set (open_orders ge)" "go_id o' = i" "exact8 q" "or_filled r \<le> q"
  defines "d \<equiv> (case new_fill r o' of None \<Rightarrow> 0 | Some d \<Rightarrow> d)"
  shows "\<exists>p'. tracked i s q p' (reported_engine w r o' ge) \<and> \<bar>d - (p' - p)\<bar> \<le> half8"
proof -
  note row = row_core[OF assms(1,3,4)]
  define c where "c = reported_total r o'"
  define x where "x = (if new_fill r o' = None then p else c)"
  have c: "c \<le> q" using row assms(6) by (auto simp: c_def reported_total_def Let_def py_or_def)
  have "p \<le> q" using assms(1) by (simp add: tracked_def)
  have b: "book_ok (reported_engine w r o' ge)" using reported_book[OF assms(2) _ assms(3)] assms(1) by (simp add: tracked_def)
  obtain f where "(i, s, q, f, p) \<in> core ` set (ot_rows (ge_orders (posted_engine w r o' ge)))"
    using posted_tracked[OF assms(1,2), where r = r and o' = o'] by (auto simp: tracked_def)
  then have "(i, s, q, decimal8 c, decimal8 x) \<in> core ` set (ot_rows (ge_orders (reported_engine w r o' ge)))"
    using report_core[of i s q f p _ i] row assms(4) unfolding reported_engine_def Let_def c_def x_def by force
  then have "tracked i s q (decimal8 x) (reported_engine w r o' ge)"
    using b assms(1) exact_small[OF c assms(5)] exact_small[of x, OF _ assms(5)] c \<open>p \<le> q\<close> by (auto simp: tracked_def x_def)
  moreover have "\<bar>d - (decimal8 x - p)\<bar> \<le> half8"
    using decimal8_error[of x] row by (auto simp: d_def x_def c_def new_fill_def Let_def abs_le_iff split: if_splits)
  ultimately show ?thesis by blast
qed

lemma event_tracked:
  assumes "tracked i s q p ge" "honest (fst we)" "exact8 q" "list_all (\<lambda>r. or_filled r \<le> q) (reports_of i [we])"
  shows "\<exists>p'. tracked i s q p' (grid_event_step we ge) \<and>
    \<bar>posted_amount i (snd we) ge - (p' - p)\<bar> \<le> of_nat (length (reports_of i [we])) * half8"
proof (cases "snd we")
  case (Move m)
  then show ?thesis using tracked_safe[OF assms(1) grid_step_safe[of "(fst we, m)"]] assms(2)
    by (intro exI[of _ p]) (simp add: grid_event_step_def posted_amount_def reports_of_def)
next
  case (Report j r)
  show ?thesis
  proof (cases "find (\<lambda>o'. go_id o' = j) (open_orders ge)")
    case None
    then show ?thesis using assms(1) Report
      by (intro exI[of _ p]) (simp add: grid_event_step_def posted_amount_def reports_of_def)
  next
    case (Some o')
    have o': "o' \<in> set (open_orders ge)" "go_id o' = j" using Some by (auto simp: find_Some_iff)
    have again: "tracked i s q x (poll_order (fst we) r o' ge)"
      if "tracked i s q x (reported_engine (fst we) r o' ge)" "or_status r \<noteq> ''unknown''" "j \<noteq> 0" for x
      using that o'(2) tracked_safe[OF that(1) held_exits_safe[OF assms(2)]] by (simp add: poll_order_alt)
    show ?thesis
    proof (cases "or_status r = ''unknown'' \<or> j = 0 \<or> j \<noteq> i")
      case True
      have "tracked i s q p (poll_order (fst we) r o' ge)"
        using True again[OF reported_other[OF assms(1,2) o'(1), of r]] o'(2) assms(1) by (auto simp: poll_order_alt tracked_def)
      then show ?thesis using Report Some True assms(1)
        by (intro exI[of _ p]) (auto simp: grid_event_step_def posted_amount_def reports_of_def tracked_def)
    next
      case False
      then show ?thesis
        using reported_own[OF assms(1,2) o'(1) _ assms(3), of r] assms(4) again Report Some o'(2)
        by (auto simp: grid_event_step_def posted_amount_def reports_of_def)
    qed
  qed
qed

lemma events_tracked:
  assumes "tracked i s q p ge" "list_all (\<lambda>we. honest (fst we)) wes" "exact8 q" "list_all (\<lambda>r. or_filled r \<le> q) (reports_of i wes)"
  shows "\<exists>p'. tracked i s q p' (fold grid_event_step wes ge) \<and>
    \<bar>posted_total i wes ge - (p' - p)\<bar> \<le> of_nat (length (reports_of i wes)) * half8"
  using assms(1,2,4)
proof (induction wes arbitrary: p ge)
  case (Cons we wes)
  have r: "reports_of i (we # wes) = reports_of i [we] @ reports_of i wes" by (simp add: reports_of_def)
  obtain p1 where p1: "tracked i s q p1 (grid_event_step we ge)"
      "\<bar>posted_amount i (snd we) ge - (p1 - p)\<bar> \<le> of_nat (length (reports_of i [we])) * half8"
    using event_tracked[OF Cons.prems(1) _ assms(3), of we] Cons.prems(2,3) r by auto
  obtain p2 where p2: "tracked i s q p2 (fold grid_event_step wes (grid_event_step we ge))"
      "\<bar>posted_total i wes (grid_event_step we ge) - (p2 - p1)\<bar> \<le> of_nat (length (reports_of i wes)) * half8"
    using Cons.IH[OF p1(1)] Cons.prems(2,3) r by auto
  show ?case using p1(2) p2 unfolding r
    by (intro exI[of _ p2]) (auto simp: distrib_right abs_le_iff)
qed (auto simp: reports_of_def)

subsection \<open>Withdrawn entries\<close>

text \<open>
  Withdrawing the entries of a leg leaves the cells as they were: a cell whose entry was cancelled stays
  marked open and takes no new entry until the grid is shut down.
\<close>

lemma cancel_position_frame: "ge_cells (cancel_position_orders w side ex ge) = ge_cells ge \<and>
    ge_strategy (cancel_position_orders w side ex ge) = ge_strategy ge \<and> ge_symbol (cancel_position_orders w side ex ge) = ge_symbol ge"
proof -
  have "ge_cells (fold f os e) = ge_cells e \<and> ge_strategy (fold f os e) = ge_strategy e \<and> ge_symbol (fold f os e) = ge_symbol e"
    if "\<And>o' e. ge_cells (f o' e) = ge_cells e \<and> ge_strategy (f o' e) = ge_strategy e \<and> ge_symbol (f o' e) = ge_symbol e"
    for f :: "grid_order \<Rightarrow> grid_engine \<Rightarrow> grid_engine" and os e
    using that by (induction os arbitrary: e) auto
  then show ?thesis unfolding cancel_position_orders_def by (simp add: cancel_row_def)
qed

lemma withdrawn_entry_blocks_cell:
  assumes "state_in (cell_states_of ge) i = BuyOpen"
  shows "\<not> cell_allows_entry (withdraw_leg w side reason ge) i purpose (cell_states_of (withdraw_leg w side reason ge))"
proof -
  have "cell_states_of (withdraw_leg w side reason ge) = cell_states_of ge"
    using cancel_position_frame by (simp add: withdraw_leg_def Let_def cell_states_of_def own_cells_def)
  then show ?thesis using assms by (simp add: cell_allows_entry_def)
qed

subsection \<open>A small grid\<close>

definition demo_world :: grid_world where
  "demo_world = \<lparr>gw_now = 1700000042, gw_client = True, gw_place = (\<lambda>_. Some ''x''), gw_cancel = (\<lambda>_. True), gw_norm = (\<lambda>q. q),
     gw_account = (\<lambda>_. None), gw_position = (\<lambda>_. 0), gw_clamp = Some, gw_auto_stop = (\<lambda>_. False), gw_infer = (\<lambda>_. []),
     gw_leg = \<lparr>leg_market_type = ''swap'', leg_credential = 0, leg_inst = [], leg_fill_source = [], leg_pending = 0\<rparr>\<rparr>"

definition demo_grid :: grid_engine where
  "demo_grid = \<lparr>ge_strategy = 7, ge_user = 3, ge_symbol = ''BTC/USDT'', ge_cfg = demo_config, ge_config = JDict [], ge_exchange = [],
     ge_credential = 0, ge_capital = 1000, ge_budget = 0, ge_runtime = JDict [], ge_boot = False, ge_initial_done = False,
     ge_paused = False, ge_seeded = [], ge_errors = 0, ge_stop = False, ge_last_entry = 0, ge_cache = [],
     ge_orders = \<lparr>ot_rows = [], ot_next = 1\<rparr>, ge_cells = [], ge_ledger = demo_db, ge_reserved = []\<rparr>"

text \<open>With one entry open: a unit to buy at 100, in cell 0.\<close>

definition demo_open :: grid_engine where
  "demo_open = snd (place_entry demo_world ''long_entry'' (hd (engine_cells demo_grid)) (snd (bootstrap 112 demo_grid)))"

definition demo_report :: "real \<Rightarrow> string \<Rightarrow> order_report" where
  "demo_report q st = \<lparr>or_filled = q, or_avg = 100, or_status = st, or_note = no_note\<rparr>"

lemma demo_honest: "honest demo_world"
  by (simp add: honest_def demo_world_def)

lemma demo_open_book: "book_ok demo_open"
proof -
  have "book_ok demo_grid" by (simp add: book_ok_def table_ok_def one_per_slot_def open_orders_def list_open_def demo_grid_def)
  then have "book_ok (snd (bootstrap 112 demo_grid))" by (rule safe_moveD(4)[OF bootstrap_safe])
  moreover have "\<not> cell_has_open (snd (bootstrap 112 demo_grid)) (int (cs_index (hd (engine_cells demo_grid)))) ''long_entry''"
    by (simp add: bootstrap_def demo_grid_def cell_has_open_def has_open_for_cell_def)
  ultimately show ?thesis
    unfolding demo_open_def place_entry_def by (simp add: safe_moveD(4)[OF place_safe[OF demo_honest]])
qed







end
