(* ===== verification/Leases.thy ===== *)
theory Leases
  imports Tables
begin

text \<open>
  What a lease promises: the abstract lease map (who holds a key, until when) with the four operations
  the lease tables offer, and the interface of a table that implements it. Exclusivity is proved once,
  on the map, and reaches a table through the refinement. Instants are microseconds.
\<close>

definition seconds :: "int \<Rightarrow> int" where "seconds n = n * 1000000"
definition days :: "int \<Rightarrow> int" where "days n = n * 86400000000"

subsection \<open>The abstract lease map\<close>

type_synonym 'k lease_map = "'k \<Rightarrow> (string \<times> int) option"

text \<open>Each event names the instant it happens at; a grant and a renewal also the seconds they are for.\<close>

datatype 'k lease_event =
    Grant int 'k string int
  | Renew int 'k string int
  | Release 'k string
  | Sweep int

fun spec_step :: "'k lease_event \<Rightarrow> 'k lease_map \<Rightarrow> bool \<times> 'k lease_map" where
  "spec_step (Grant now k owner secs) m =
     (let free = (case m k of None \<Rightarrow> True | Some (p, x) \<Rightarrow> p = owner \<or> x < now) in
      (free, if free then m(k \<mapsto> (owner, now + seconds secs)) else m))"
| "spec_step (Renew now k owner secs) m =
     (let mine = (case m k of None \<Rightarrow> False | Some (p, x) \<Rightarrow> p = owner \<and> now \<le> x) in
      (mine, if mine then m(k \<mapsto> (owner, now + seconds secs)) else m))"
| "spec_step (Release k owner) m =
     (True, (case m k of None \<Rightarrow> m | Some (p, x) \<Rightarrow> if p = owner then m(k := None) else m))"
| "spec_step (Sweep now) m =
     (True, \<lambda>k. case m k of None \<Rightarrow> None | Some (p, x) \<Rightarrow> if x < now - days 1 then None else Some (p, x))"

text \<open>A run records each event with its answer.\<close>

fun lease_run :: "('e \<Rightarrow> 't \<Rightarrow> bool \<times> 't) \<Rightarrow> 'e list \<Rightarrow> 't \<Rightarrow> ('e \<times> bool) list \<times> 't" where
  "lease_run act [] t = ([], t)"
| "lease_run act (e # es) t =
     (let (b, t') = act e t; (log, t'') = lease_run act es t' in ((e, b) # log, t''))"

text \<open>
  The events of the term of a lease that \<open>owner\<close> was granted on \<open>k\<close> at \<open>start\<close> for \<open>secs\<close> seconds: they
  happen within the term, the holder does not release, and asks for no shorter terms.
\<close>

fun within_term :: "'k \<Rightarrow> string \<Rightarrow> int \<Rightarrow> int \<Rightarrow> 'k lease_event \<Rightarrow> bool" where
  "within_term k owner start secs (Grant now j p d) =
     (start \<le> now \<and> now \<le> start + seconds secs \<and> (j \<noteq> k \<or> p \<noteq> owner \<or> secs \<le> d))"
| "within_term k owner start secs (Renew now j p d) =
     (start \<le> now \<and> now \<le> start + seconds secs \<and> (j \<noteq> k \<or> p \<noteq> owner \<or> secs \<le> d))"
| "within_term k owner start secs (Release j p) = (j \<noteq> k \<or> p \<noteq> owner)"
| "within_term k owner start secs (Sweep now) = (now \<le> start + seconds secs)"

text \<open>An answer that lets nobody but \<open>owner\<close> have \<open>k\<close>.\<close>

fun shuts_out :: "'k \<Rightarrow> string \<Rightarrow> 'k lease_event \<times> bool \<Rightarrow> bool" where
  "shuts_out k owner (Grant now j p d, b) = (j \<noteq> k \<or> p = owner \<or> \<not> b)"
| "shuts_out k owner (Renew now j p d, b) = (j \<noteq> k \<or> p = owner \<or> \<not> b)"
| "shuts_out k owner (_, b) = True"

definition held_until :: "'k \<Rightarrow> string \<Rightarrow> int \<Rightarrow> 'k lease_map \<Rightarrow> bool" where
  "held_until k owner x m = (case m k of None \<Rightarrow> False | Some (p, y) \<Rightarrow> p = owner \<and> x \<le> y)"

lemma seconds_mono: "a \<le> b \<Longrightarrow> seconds a \<le> seconds b"
  by (simp add: seconds_def)


text \<open>One event of the term keeps the lease, and its answer shuts the others out.\<close>

lemma spec_step_term:
  assumes "held_until k owner (start + seconds secs) m" "within_term k owner start secs e"
  shows "held_until k owner (start + seconds secs) (snd (spec_step e m)) \<and> shuts_out k owner (e, fst (spec_step e m))"
proof -
  obtain y where m: "m k = Some (owner, y)" "start + seconds secs \<le> y"
    using assms(1) by (auto simp: held_until_def split: option.splits)
  show ?thesis
  proof (cases e)
    case (Grant now j p d)
    then show ?thesis using assms(2) m seconds_mono[of secs d]
      by (auto simp: held_until_def Let_def split: option.splits)
  next
    case (Renew now j p d)
    then show ?thesis using assms(2) m seconds_mono[of secs d]
      by (auto simp: held_until_def Let_def split: option.splits)
  next
    case (Release j p)
    then show ?thesis using assms(2) m by (auto simp: held_until_def split: option.splits)
  next
    case (Sweep now)
    then have "\<not> y < now - days 1" using assms(2) m by (simp add: days_def)
    then show ?thesis using Sweep m by (simp add: held_until_def)
  qed
qed

lemma spec_run_term:
  assumes "held_until k owner (start + seconds secs) m" "list_all (within_term k owner start secs) es"
  shows "held_until k owner (start + seconds secs) (snd (lease_run spec_step es m)) \<and>
    list_all (shuts_out k owner) (fst (lease_run spec_step es m))"
  using assms
proof (induction es arbitrary: m)
  case (Cons e es)
  obtain b m' where s: "spec_step e m = (b, m')" by fastforce
  obtain log m'' where r: "lease_run spec_step es m' = (log, m'')" by fastforce
  have "held_until k owner (start + seconds secs) m' \<and> shuts_out k owner (e, b)"
    using spec_step_term[of k owner start secs m e] Cons.prems s by simp
  then show ?case using Cons.IH[of m'] Cons.prems s r by simp
qed simp

lemma granted_holds:
  "fst (spec_step (Grant now k owner secs) m) \<Longrightarrow>
   held_until k owner (now + seconds secs) (snd (spec_step (Grant now k owner secs) m))"
  by (simp add: held_until_def Let_def)

subsection \<open>Tables that implement it\<close>

locale lease_table =
  fixes act :: "'k lease_event \<Rightarrow> 't \<Rightarrow> bool \<times> 't" and holder :: "'t \<Rightarrow> 'k lease_map" and table_ok :: "'t \<Rightarrow> bool"
  assumes act_ok: "table_ok t \<Longrightarrow> table_ok (snd (act e t))"
    and act_answer: "table_ok t \<Longrightarrow> fst (act e t) = fst (spec_step e (holder t))"
    and act_holder: "table_ok t \<Longrightarrow> holder (snd (act e t)) = snd (spec_step e (holder t))"
begin

lemma run_refines:
  "table_ok t \<Longrightarrow> fst (lease_run act es t) = fst (lease_run spec_step es (holder t)) \<and>
     holder (snd (lease_run act es t)) = snd (lease_run spec_step es (holder t)) \<and>
     table_ok (snd (lease_run act es t))"
proof (induction es arbitrary: t)
  case (Cons e es)
  obtain b t' where a: "act e t = (b, t')" by fastforce
  have "spec_step e (holder t) = (b, holder t')" "table_ok t'"
    using act_answer[OF Cons.prems, of e] act_holder[OF Cons.prems, of e] act_ok[OF Cons.prems, of e] a
    by (auto simp: prod_eq_iff)
  then show ?case using Cons.IH[of t'] a by (auto simp: split_beta)
qed simp

lemma exclusive:
  assumes "table_ok t" "fst (act (Grant start k owner secs) t)" "list_all (within_term k owner start secs) es"
  shows "list_all (shuts_out k owner) (fst (lease_run act es (snd (act (Grant start k owner secs) t))))"
    "held_until k owner (start + seconds secs) (holder (snd (lease_run act es (snd (act (Grant start k owner secs) t)))))"
proof -
  let ?t = "snd (act (Grant start k owner secs) t)"
  have h: "held_until k owner (start + seconds secs) (holder ?t)"
    using granted_holds[of start k owner secs "holder t"] assms(2)
    by (simp only: act_answer[OF assms(1)] act_holder[OF assms(1)])
  have ok: "table_ok ?t" using act_ok[OF assms(1)] .
  show "list_all (shuts_out k owner) (fst (lease_run act es ?t))"
    "held_until k owner (start + seconds secs) (holder (snd (lease_run act es ?t)))"
    using spec_run_term[OF h assms(3)] run_refines[OF ok, of es] by simp_all
qed

end

end
