(* ===== verification/Commands.thy ===== *)
theory Commands
  imports Values Leases
begin

text \<open>
  The durable command queue of the trading workers and its lease tables
  (\<open>services/strategy_command_repository.py\<close>): one definition per method, each a transaction on the
  tables at the instant its NOW() reads. Instants are microseconds, as a PostgreSQL TIMESTAMP stores
  them. A method that ends in an exception leaves the tables as they were. The lease tables implement
  one abstract lease map, and what a lease promises is proved once, over that map.
\<close>

named_theorems queue_simps "effect of the queue operations"

subsection \<open>Rows\<close>

datatype command_type = StartCommand | StopCommand | RestartCommand | ReconcileCommand

datatype command_status = CmdPending | CmdProcessing | CmdSucceeded | CmdFailed | CmdCancelled

definition active_status :: "command_status \<Rightarrow> bool" where
  "active_status s = (s = CmdPending \<or> s = CmdProcessing)"

definition terminal_status :: "command_status \<Rightarrow> bool" where
  "terminal_status s = (s = CmdSucceeded \<or> s = CmdFailed \<or> s = CmdCancelled)"

lemma terminal_not_active: "terminal_status s \<longleftrightarrow> \<not> active_status s"
  by (cases s) (simp_all add: terminal_status_def active_status_def)

lemma active_status_simps [simp]:
  "active_status CmdPending" "active_status CmdProcessing" "\<not> active_status CmdSucceeded"
  "\<not> active_status CmdFailed" "\<not> active_status CmdCancelled"
  by (simp_all add: active_status_def)

record command_row =
  c_id :: int
  c_strategy :: int
  c_user :: int
  c_type :: command_type
  c_status :: command_status
  c_key :: string
  c_payload :: json
  c_result :: json
  c_error :: string
  c_attempts :: int
  c_available :: int
  c_claimed_by :: string
  c_claimed_at :: "int option"
  c_expires :: "int option"
  c_completed :: "int option"

record runtime_lease =
  l_strategy :: int
  l_owner :: string
  l_token :: int
  l_expires :: int

record process_lease =
  p_key :: string
  p_owner :: string
  p_expires :: int

record heartbeat_row =
  h_worker :: string
  h_role :: string
  h_running :: bool
  h_metadata :: json
  h_started :: int
  h_beat :: int

record command_db =
  commands :: "command_row list"
  next_command :: int
  leases :: "runtime_lease list"
  process_leases :: "process_lease list"
  heartbeats :: "heartbeat_row list"

datatype db_error = UnsupportedCommand string | UniqueViolation | ValueTooLong

subsection \<open>Commands\<close>

definition parse_command_type :: "string \<Rightarrow> command_type option" where
  "parse_command_type v =
     (let s = py_lower (py_strip v) in
      if s = ''start'' then Some StartCommand else if s = ''stop'' then Some StopCommand
      else if s = ''restart'' then Some RestartCommand
      else if s = ''reconcile'' then Some ReconcileCommand else None)"

text \<open>ORDER BY id with LIMIT 1, ascending and descending.\<close>

fun oldest :: "command_row list \<Rightarrow> command_row option" where
  "oldest [] = None"
| "oldest (r # rs) = Some (min_by c_id r rs)"

fun newest :: "command_row list \<Rightarrow> command_row option" where
  "newest [] = None"
| "newest (r # rs) = Some (min_by (\<lambda>q. - c_id q) r rs)"

lemma oldest_SomeD: "oldest rs = Some r \<Longrightarrow> r \<in> set rs \<and> (\<forall>q \<in> set rs. c_id r \<le> c_id q)"
  by (cases rs) (use min_by_mem[of c_id] min_by_le_head[of c_id] min_by_le[of _ _ c_id] in fastforce)+

lemma oldest_None [simp]: "oldest rs = None \<longleftrightarrow> rs = []"
  by (cases rs) auto

lemma newest_SomeD: "newest rs = Some r \<Longrightarrow> r \<in> set rs"
  by (cases rs) (use min_by_mem[of "\<lambda>q. - c_id q"] in auto)

lemma newest_None [simp]: "newest rs = None \<longleftrightarrow> rs = []"
  by (cases rs) auto

text \<open>
  The table's constraint: no two commands in \<open>pending\<close> or \<open>processing\<close> for a strategy and a type. Every
  UPDATE is checked against it and raises if it would break it.
\<close>

definition action_of :: "command_row \<Rightarrow> int \<times> command_type" where
  "action_of r = (c_strategy r, c_type r)"

definition live_commands :: "command_row list \<Rightarrow> command_row list" where
  "live_commands = filter (\<lambda>r. active_status (c_status r))"

definition active_unique :: "command_row list \<Rightarrow> bool" where
  "active_unique rs = distinct (map action_of (live_commands rs))"

definition put_commands :: "command_row list \<Rightarrow> command_db \<Rightarrow> db_error + command_db" where
  "put_commands rs db = (if active_unique rs then Inr (db\<lparr>commands := rs\<rparr>) else Inl UniqueViolation)"

definition update_where :: "('r \<Rightarrow> bool) \<Rightarrow> ('r \<Rightarrow> 'r) \<Rightarrow> 'r list \<Rightarrow> 'r list" where
  "update_where p f rs = map (\<lambda>r. if p r then f r else r) rs"

definition new_command ::
  "int \<Rightarrow> int \<Rightarrow> int \<Rightarrow> int \<Rightarrow> command_type \<Rightarrow> string \<Rightarrow> json \<Rightarrow> command_row" where
  "new_command now i strategy user ty key payload =
     \<lparr>c_id = i, c_strategy = strategy, c_user = user, c_type = ty, c_status = CmdPending, c_key = key,
      c_payload = payload, c_result = JDict [], c_error = '''', c_attempts = 0, c_available = now,
      c_claimed_by = '''', c_claimed_at = None, c_expires = None, c_completed = None\<rparr>"

text \<open>
  \<open>enqueue\<close>, under the advisory lock of the strategy; \<open>fresh\<close> is the random key drawn when the caller
  brings none. An id of the sequence is used up even where the key already exists.
\<close>

definition enqueue ::
  "int \<Rightarrow> int \<Rightarrow> string \<Rightarrow> int \<Rightarrow> json \<Rightarrow> string option \<Rightarrow> string \<Rightarrow> command_db \<Rightarrow>
     db_error + command_row \<times> command_db" where
  "enqueue now strategy cmd user payload key fresh db =
     (case parse_command_type cmd of
        None \<Rightarrow> Inl (UnsupportedCommand (py_lower (py_strip cmd)))
      | Some ty \<Rightarrow>
          (case newest (filter (\<lambda>r. action_of r = (strategy, ty) \<and> active_status (c_status r)) (commands db)) of
             Some r \<Rightarrow> Inr (r, db)
           | None \<Rightarrow>
               (let k = (case key of None \<Rightarrow> fresh | Some s \<Rightarrow> if s = [] then fresh else s);
                    i = next_command db;
                    new = new_command now i strategy user ty k (json_or payload (JDict [])) in
                if 128 < length k then Inl ValueTooLong
                else (case row_at c_key k (commands db) of
                        Some r \<Rightarrow> Inr (r, db\<lparr>next_command := i + 1\<rparr>)
                      | None \<Rightarrow> Inr (new, db\<lparr>commands := commands db @ [new], next_command := i + 1\<rparr>)))))"

text \<open>
  \<open>claim_next\<close>: the oldest command that is due or whose claim ran out, with attempts left; a stop or a
  restart only where no other worker holds an unexpired lease of the strategy. Rows another
  transaction has locked are skipped.
\<close>

definition lapsed :: "int option \<Rightarrow> int \<Rightarrow> bool" where
  "lapsed e now = (case e of None \<Rightarrow> False | Some x \<Rightarrow> x < now)"

definition due :: "int \<Rightarrow> int \<Rightarrow> command_row \<Rightarrow> bool" where
  "due now max_attempts r =
     (c_attempts r < max_attempts \<and>
      (c_status r = CmdPending \<and> c_available r \<le> now \<or> c_status r = CmdProcessing \<and> lapsed (c_expires r) now))"

definition addressed :: "int \<Rightarrow> string \<Rightarrow> command_db \<Rightarrow> command_row \<Rightarrow> bool" where
  "addressed now owner db r =
     (c_type r = StartCommand \<or> c_type r = ReconcileCommand \<or>
      (case row_at l_strategy (c_strategy r) (leases db) of
         None \<Rightarrow> True
       | Some l \<Rightarrow> l_owner l = owner \<or> l_expires l < now))"

definition claimed :: "int \<Rightarrow> string \<Rightarrow> int \<Rightarrow> command_row \<Rightarrow> command_row" where
  "claimed now owner secs r =
     r\<lparr>c_status := CmdProcessing, c_claimed_by := owner,
       c_claimed_at := (case c_claimed_at r of None \<Rightarrow> Some now | Some x \<Rightarrow> Some x),
       c_expires := Some (now + seconds secs), c_attempts := c_attempts r + 1\<rparr>"

definition claim_next ::
  "int \<Rightarrow> string \<Rightarrow> int \<Rightarrow> int \<Rightarrow> int list \<Rightarrow> command_db \<Rightarrow> db_error + command_row option \<times> command_db" where
  "claim_next now owner secs max_attempts locked db =
     (case oldest (filter (\<lambda>r. due now max_attempts r \<and> addressed now owner db r \<and> c_id r \<notin> set locked) (commands db)) of
        None \<Rightarrow> Inr (None, db)
      | Some r \<Rightarrow>
          ebind (put_commands (update_where (\<lambda>q. c_id q = c_id r) (claimed now owner secs) (commands db)) db)
            (\<lambda>db'. Inr (Some (claimed now owner secs r), db')))"

definition finish_command ::
  "int \<Rightarrow> int \<Rightarrow> command_status \<Rightarrow> json \<Rightarrow> string \<Rightarrow> command_db \<Rightarrow> db_error + command_db" where
  "finish_command now i s res err db =
     put_commands (update_where (\<lambda>r. c_id r = i)
       (\<lambda>r. r\<lparr>c_status := s, c_result := json_or res (JDict []), c_error := take 4000 err,
              c_completed := Some now, c_expires := None\<rparr>) (commands db)) db"

definition complete :: "int \<Rightarrow> int \<Rightarrow> json \<Rightarrow> command_db \<Rightarrow> db_error + command_db" where
  "complete now i res db = finish_command now i CmdSucceeded res '''' db"

definition fail_command ::
  "int \<Rightarrow> int \<Rightarrow> string \<Rightarrow> int option \<Rightarrow> command_db \<Rightarrow> db_error + command_db" where
  "fail_command now i err retry db =
     (case retry of
        Some delay \<Rightarrow>
          put_commands (update_where (\<lambda>r. c_id r = i)
            (\<lambda>r. r\<lparr>c_status := CmdPending, c_error := take 4000 err,
                   c_available := now + seconds delay, c_expires := None\<rparr>) (commands db)) db
      | None \<Rightarrow> finish_command now i CmdFailed JNull err db)"

definition get_command :: "int \<Rightarrow> command_db \<Rightarrow> command_row option" where
  "get_command i db = row_at c_id i (commands db)"

definition exhausted :: "int \<Rightarrow> int \<Rightarrow> command_row \<Rightarrow> bool" where
  "exhausted now max_attempts r =
     (c_status r = CmdProcessing \<and> lapsed (c_expires r) now \<and> max_attempts \<le> c_attempts r)"

definition fail_exhausted_commands :: "int \<Rightarrow> int \<Rightarrow> command_db \<Rightarrow> db_error + int \<times> command_db" where
  "fail_exhausted_commands now max_attempts db =
     ebind (put_commands (update_where (exhausted now max_attempts)
       (\<lambda>r. r\<lparr>c_status := CmdFailed,
              c_error := (if c_error r = [] then ''Command lease expired after maximum attempts.'' else c_error r),
              c_completed := Some now, c_expires := None\<rparr>) (commands db)) db)
       (\<lambda>db'. Inr (int (length (filter (exhausted now max_attempts) (commands db))), db'))"

subsection \<open>Leases\<close>

definition has_active_strategy_lease :: "int \<Rightarrow> int \<Rightarrow> command_db \<Rightarrow> bool" where
  "has_active_strategy_lease now strategy db =
     (case row_at l_strategy strategy (leases db) of None \<Rightarrow> False | Some l \<Rightarrow> now \<le> l_expires l)"

definition take_over :: "runtime_lease \<Rightarrow> runtime_lease \<Rightarrow> runtime_lease" where
  "take_over old new =
     old\<lparr>l_owner := l_owner new,
         l_token := (if l_owner old = l_owner new then l_token old else l_token old + 1),
         l_expires := l_expires new\<rparr>"

definition acquire_strategy_lease :: "int \<Rightarrow> int \<Rightarrow> string \<Rightarrow> int \<Rightarrow> command_db \<Rightarrow> int option \<times> command_db" where
  "acquire_strategy_lease now strategy owner secs db =
     (let new = \<lparr>l_strategy = strategy, l_owner = owner, l_token = 1, l_expires = now + seconds secs\<rparr>;
          db' = db\<lparr>leases := upsert_row l_strategy take_over new (leases db)\<rparr> in
      case row_at l_strategy strategy (leases db) of
        None \<Rightarrow> (Some 1, db')
      | Some l \<Rightarrow> if l_owner l = owner \<or> l_expires l < now then (Some (l_token (take_over l new)), db') else (None, db))"

definition renew_strategy_lease :: "int \<Rightarrow> int \<Rightarrow> string \<Rightarrow> int \<Rightarrow> command_db \<Rightarrow> bool \<times> command_db" where
  "renew_strategy_lease now strategy owner secs db =
     (let p = (\<lambda>l. l_strategy l = strategy \<and> l_owner l = owner \<and> now \<le> l_expires l) in
      (length (filter p (leases db)) = 1,
       db\<lparr>leases := update_where p (\<lambda>l. l\<lparr>l_expires := now + seconds secs\<rparr>) (leases db)\<rparr>))"

definition release_strategy_lease :: "int \<Rightarrow> string \<Rightarrow> command_db \<Rightarrow> command_db" where
  "release_strategy_lease strategy owner db =
     db\<lparr>leases := delete_rows (\<lambda>l. l_strategy l = strategy \<and> l_owner l = owner) (leases db)\<rparr>"

definition hand_over :: "process_lease \<Rightarrow> process_lease \<Rightarrow> process_lease" where
  "hand_over old new = old\<lparr>p_owner := p_owner new, p_expires := p_expires new\<rparr>"

definition acquire_process_lease :: "int \<Rightarrow> string \<Rightarrow> string \<Rightarrow> int \<Rightarrow> command_db \<Rightarrow> bool \<times> command_db" where
  "acquire_process_lease now key owner secs db =
     (let new = \<lparr>p_key = key, p_owner = owner, p_expires = now + seconds secs\<rparr>;
          db' = db\<lparr>process_leases := upsert_row p_key hand_over new (process_leases db)\<rparr> in
      case row_at p_key key (process_leases db) of
        None \<Rightarrow> (True, db')
      | Some l \<Rightarrow> if p_owner l = owner \<or> p_expires l < now then (True, db') else (False, db))"

definition renew_process_lease :: "int \<Rightarrow> string \<Rightarrow> string \<Rightarrow> int \<Rightarrow> command_db \<Rightarrow> bool \<times> command_db" where
  "renew_process_lease now key owner secs db =
     (let p = (\<lambda>l. p_key l = key \<and> p_owner l = owner \<and> now \<le> p_expires l) in
      (length (filter p (process_leases db)) = 1,
       db\<lparr>process_leases := update_where p (\<lambda>l. l\<lparr>p_expires := now + seconds secs\<rparr>) (process_leases db)\<rparr>))"

definition release_process_lease :: "string \<Rightarrow> string \<Rightarrow> command_db \<Rightarrow> command_db" where
  "release_process_lease key owner db =
     db\<lparr>process_leases := delete_rows (\<lambda>l. p_key l = key \<and> p_owner l = owner) (process_leases db)\<rparr>"

subsection \<open>Heartbeats and retention\<close>

definition beat_again :: "heartbeat_row \<Rightarrow> heartbeat_row \<Rightarrow> heartbeat_row" where
  "beat_again old new =
     old\<lparr>h_role := h_role new, h_running := True, h_metadata := h_metadata new, h_beat := h_beat new\<rparr>"

definition record_worker_heartbeat :: "int \<Rightarrow> string \<Rightarrow> string \<Rightarrow> json \<Rightarrow> command_db \<Rightarrow> command_db" where
  "record_worker_heartbeat now worker role meta db =
     db\<lparr>heartbeats := upsert_row h_worker beat_again
       \<lparr>h_worker = worker, h_role = role, h_running = True, h_metadata = json_or meta (JDict []),
        h_started = now, h_beat = now\<rparr> (heartbeats db)\<rparr>"

definition mark_worker_stopped :: "int \<Rightarrow> string \<Rightarrow> command_db \<Rightarrow> command_db" where
  "mark_worker_stopped now worker db =
     db\<lparr>heartbeats := update_where (\<lambda>h. h_worker h = worker) (\<lambda>h. h\<lparr>h_running := False, h_beat := now\<rparr>) (heartbeats db)\<rparr>"

definition cleanup_runtime_metadata :: "int \<Rightarrow> int \<Rightarrow> int \<Rightarrow> command_db \<Rightarrow> int list \<times> command_db" where
  "cleanup_runtime_metadata now command_days heartbeat_days db =
     (let old_command = (\<lambda>r. terminal_status (c_status r) \<and> lapsed (c_completed r) (now - days command_days));
          old_beat = (\<lambda>h. h_beat h < now - days heartbeat_days);
          old_process = (\<lambda>l. p_expires l < now - days 1);
          old_lease = (\<lambda>l. l_expires l < now - days 1) in
      ([int (length (filter old_command (commands db))), int (length (filter old_beat (heartbeats db))),
        int (length (filter old_process (process_leases db))), int (length (filter old_lease (leases db)))],
       db\<lparr>commands := delete_rows old_command (commands db), heartbeats := delete_rows old_beat (heartbeats db),
          process_leases := delete_rows old_process (process_leases db), leases := delete_rows old_lease (leases db)\<rparr>))"

end
