(* ===== verification/Worker.thy ===== *)
theory Worker
  imports Commands
begin

text \<open>
  The trading worker (\<open>workers/trading.py\<close>), the part of the executor it drives (the registry of strategy
  threads of \<open>services/trading_executor.py\<close>), the lease loop of \<open>commands/scheduler.py\<close> and the client that
  queues the commands (\<open>services/strategy_command_client.py\<close>). What a strategy thread does is outside: the
  model sees it start, be found alive, dead or gone, and end. The answers of the live preflight, of the
  thread start, of the grid shutdown and of the order gateway are parameters.
\<close>

subsection \<open>The executor's registry of threads\<close>

text \<open>\<open>str(n)\<close>.\<close>

fun show_nat :: "nat \<Rightarrow> string" where
  "show_nat n = (if n < 10 then [char_of (48 + n)] else show_nat (n div 10) @ [char_of (48 + n mod 10)])"

declare show_nat.simps [simp del]

definition show_int :: "int \<Rightarrow> string" where
  "show_int n = (if n < 0 then ''-'' @ show_nat (nat (- n)) else show_nat (nat n))"

text \<open>\<open>running_strategies\<close> maps a strategy to its thread, of which only being alive is seen.\<close>

record executor =
  e_threads :: "(int \<times> bool) list"
  e_max :: int
  e_failure :: string
  e_exits :: "(int \<times> string) list"

definition discard_dead_threads :: "executor \<Rightarrow> executor" where
  "discard_dead_threads e = e\<lparr>e_threads := filter snd (e_threads e)\<rparr>"

text \<open>\<open>preflight\<close> and \<open>spawn\<close>: the text of the exception, if there is one.\<close>

definition executor_start :: "string option \<Rightarrow> string option \<Rightarrow> int \<Rightarrow> executor \<Rightarrow> bool \<times> executor" where
  "executor_start preflight spawn s e0 =
     (let e = (discard_dead_threads e0)\<lparr>e_failure := ''''\<rparr> in
      if map_of (e_threads e) s \<noteq> None then (False, e\<lparr>e_failure := ''Strategy is already running.''\<rparr>)
      else if e_max e \<le> int (length (e_threads e))
      then (False, e\<lparr>e_failure := ''Thread limit reached ('' @ show_int (e_max e) @ '').''\<rparr>)
      else case preflight of Some msg \<Rightarrow> (False, e\<lparr>e_failure := msg\<rparr>)
      | None \<Rightarrow> (case spawn of Some msg \<Rightarrow> (False, e\<lparr>e_failure := ''Failed to start strategy thread: '' @ msg\<rparr>)
      | None \<Rightarrow> (True, e\<lparr>e_threads := dict_set s True (e_threads e)\<rparr>)))"

text \<open>\<open>wait_strategy_running\<close>: what it finds at each look before its deadline.\<close>

datatype thread_view = ThreadAlive | ThreadDead | ThreadGone

definition exit_hint :: "int \<Rightarrow> executor \<Rightarrow> string" where
  "exit_hint s e = (case map_of (e_exits e) s of
      Some m \<Rightarrow> if m \<noteq> [] then m else ''Strategy runtime exited during startup.''
    | None \<Rightarrow> ''Strategy runtime exited during startup.'')"

fun wait_running :: "thread_view list \<Rightarrow> int \<Rightarrow> executor \<Rightarrow> (bool \<times> string) \<times> executor" where
  "wait_running [] s e = ((True, ''''), e)"
| "wait_running (ThreadAlive # vs) s e = wait_running vs s e"
| "wait_running (ThreadDead # vs) s e =
     ((False, exit_hint s e), e\<lparr>e_threads := map (\<lambda>(k, b). (k, if k = s then False else b)) (e_threads e),
        e_exits := dict_pop s (e_exits e)\<rparr>)"
| "wait_running (ThreadGone # vs) s e =
     ((False, exit_hint s e), e\<lparr>e_threads := dict_pop s (e_threads e), e_exits := dict_pop s (e_exits e)\<rparr>)"

definition executor_is_running :: "int \<Rightarrow> executor \<Rightarrow> bool" where
  "executor_is_running s e = (map_of (e_threads (discard_dead_threads e)) s = Some True)"

text \<open>A thread's own end: it takes itself out of the registry; after a failure it leaves the reason.\<close>

definition thread_ends :: "string option \<Rightarrow> int \<Rightarrow> executor \<Rightarrow> executor" where
  "thread_ends reason s e =
     e\<lparr>e_threads := dict_pop s (e_threads e),
       e_exits := (case reason of None \<Rightarrow> e_exits e | Some m \<Rightarrow> dict_set s m (e_exits e))\<rparr>"

text \<open>The strategies' desired status, as \<open>qd_strategies_trading\<close> stores it.\<close>

type_synonym statuses = "(int \<times> string) list"

definition write_status :: "int \<Rightarrow> string \<Rightarrow> statuses \<Rightarrow> statuses" where
  "write_status s v st = map (\<lambda>(k, w). (k, if k = s then v else w)) st"

text \<open>\<open>stop_strategy\<close>: a \<open>fault\<close> of the grid shutdown or of the status write comes before the thread is dropped.\<close>

definition executor_stop ::
  "bool \<Rightarrow> string option \<Rightarrow> int \<Rightarrow> statuses \<Rightarrow> executor \<Rightarrow> bool \<times> statuses \<times> executor" where
  "executor_stop persist fault s st e =
     (case fault of
        Some msg \<Rightarrow> (False, st, e\<lparr>e_exits := dict_set s msg (e_exits e)\<rparr>)
      | None \<Rightarrow> (True, if persist then write_status s ''stopped'' st else st, e\<lparr>e_threads := dict_pop s (e_threads e)\<rparr>))"

subsection \<open>Stopping with closing orders\<close>

record owned_leg =
  ol_symbol :: string
  ol_side :: string
  ol_amount :: real
  ol_entry :: real
  ol_current :: real
  ol_market :: string

record close_request =
  q_symbol :: string
  q_action :: string
  q_quantity :: real
  q_price :: real
  q_market :: string
  q_leverage :: real
  q_run :: int

text \<open>What is read before the stop: the strategy's row and its parsed trading configuration, the legs with
  a positive size, and the strategy run, 0 when there is none.\<close>

record stop_reading =
  sg_strategy :: json
  sg_config :: json
  sg_legs :: "owned_leg list"
  sg_run :: int

record stop_report =
  rp_success :: bool
  rp_status :: string
  rp_requested :: bool
  rp_queued :: int
  rp_errors :: "string list"

definition close_one ::
  "(close_request \<Rightarrow> string + int) \<Rightarrow> json \<Rightarrow> real \<Rightarrow> int \<Rightarrow> owned_leg \<Rightarrow> stop_report \<Rightarrow> stop_report" where
  "close_one submit strategy leverage run leg rp =
     (let side = py_lower (py_strip (ol_side leg));
          price = py_or (ol_current leg) (ol_entry leg);
          quantity = max 0 (ol_amount leg);
          fail = (\<lambda>m. rp\<lparr>rp_errors := rp_errors rp @ [m]\<rparr>) in
      if side \<noteq> ''long'' \<and> side \<noteq> ''short'' then fail ''strategyV2.closePositionSideInvalid''
      else if price \<le> 0 \<or> quantity \<le> 0 then fail ''strategyV2.closePositionQuoteMissing''
      else
        let market = (if ol_market leg \<noteq> [] then ol_market leg
                      else str_or_empty (json_or (get strategy ''market_type'') (JStr ''swap''))) in
        case submit \<lparr>q_symbol = ol_symbol leg, q_action = (if side = ''long'' then ''close_long'' else ''close_short''),
                     q_quantity = quantity, q_price = price, q_market = market, q_leverage = leverage, q_run = run\<rparr> of
          Inl m \<Rightarrow> fail m
        | Inr i \<Rightarrow> if i \<noteq> 0 then rp\<lparr>rp_queued := rp_queued rp + 1\<rparr> else fail ''strategyV2.closeOrderQueueFailed'')"

definition stop_with_policy ::
  "bool \<Rightarrow> string + stop_reading \<Rightarrow> (close_request \<Rightarrow> string + int) \<Rightarrow> string option \<Rightarrow> int \<Rightarrow> statuses \<Rightarrow> executor \<Rightarrow>
     (string + stop_report) \<times> statuses \<times> executor" where
  "stop_with_policy close reading submit fault s st e =
     (case reading of
        Inl msg \<Rightarrow> (Inl msg, st, e)
      | Inr sr \<Rightarrow>
          (let (stopped, st', e') = executor_stop True fault s st e;
               rp = \<lparr>rp_success = stopped, rp_status = (if stopped then ''stopped'' else ''running''),
                     rp_requested = close, rp_queued = 0, rp_errors = []\<rparr> in
           if \<not> stopped \<or> \<not> close \<or> sg_legs sr = [] then (Inr rp, st', e')
           else if sg_run sr \<le> 0
           then (Inr (rp\<lparr>rp_success := False, rp_errors := [''strategyV2.closeRunIdentityMissing'']\<rparr>), st', e')
           else case py_float_of (json_or (get (sg_config sr) ''leverage'') (json_or (get (sg_strategy sr) ''leverage'') (JNum 1))) of
             None \<Rightarrow> (Inl ''could not convert string to float'', st', e')
           | Some lev \<Rightarrow>
               let out = fold (close_one submit (sg_strategy sr) (max 1 lev) (sg_run sr)) (sg_legs sr) rp in
               (Inr (if rp_errors out \<noteq> [] then out\<lparr>rp_success := False\<rparr> else out), st', e')))"

definition report_json :: "stop_report \<Rightarrow> json" where
  "report_json rp = JDict [(''success'', JBool (rp_success rp)), (''status'', JStr (rp_status rp)),
     (''close_requested'', JBool (rp_requested rp)), (''close_orders_queued'', JNum (of_int (rp_queued rp))),
     (''close_errors'', JList (map JStr (rp_errors rp)))]"

subsection \<open>The worker\<close>

record worker =
  wk_id :: string
  wk_command_secs :: int
  wk_lease_secs :: int
  wk_attempts :: int
  wk_stopping :: bool
  wk_leader :: bool
  wk_beat :: real
  wk_renewal :: real
  wk_leader_check :: real
  wk_exec :: executor

definition new_worker :: "string \<Rightarrow> int \<Rightarrow> int \<Rightarrow> int \<Rightarrow> executor \<Rightarrow> worker" where
  "new_worker name command_secs lease_secs attempts e =
     \<lparr>wk_id = name, wk_command_secs = max 10 command_secs, wk_lease_secs = max 10 lease_secs,
      wk_attempts = max 1 attempts, wk_stopping = False, wk_leader = False, wk_beat = 0, wk_renewal = 0,
      wk_leader_check = 0, wk_exec = e\<rparr>"

record world =
  w_queue :: command_db
  w_status :: statuses

definition local_ids :: "worker \<Rightarrow> int list" where
  "local_ids w = map fst (e_threads (wk_exec w))"

text \<open>What the calls made for one command answer.\<close>

record run_answers =
  x_preflight :: "string option"
  x_spawn :: "string option"
  x_views :: "thread_view list"
  x_stop_fault :: "string option"
  x_cleanup_fault :: "string option"
  x_reading :: "string + stop_reading"
  x_submit :: "close_request \<Rightarrow> string + int"

definition acquire_runtime :: "int \<Rightarrow> int \<Rightarrow> world \<Rightarrow> worker \<Rightarrow> bool \<times> world" where
  "acquire_runtime now s wd w =
     (let (token, q) = acquire_strategy_lease now s (wk_id w) (wk_lease_secs w) (w_queue wd) in
      (token \<noteq> None, wd\<lparr>w_queue := q\<rparr>))"

definition release_runtime :: "int \<Rightarrow> world \<Rightarrow> worker \<Rightarrow> world" where
  "release_runtime s wd w = wd\<lparr>w_queue := release_strategy_lease s (wk_id w) (w_queue wd)\<rparr>"

definition stop_local :: "bool \<Rightarrow> string option \<Rightarrow> int \<Rightarrow> world \<Rightarrow> worker \<Rightarrow> bool \<times> world \<times> worker" where
  "stop_local persist fault s wd w =
     (let (ok, st, e) = executor_stop persist fault s (w_status wd) (wk_exec w) in
      (ok, wd\<lparr>w_status := st\<rparr>, w\<lparr>wk_exec := e\<rparr>))"

definition running_json :: "int \<Rightarrow> worker \<Rightarrow> json" where
  "running_json s w = JDict [(''strategy_id'', JNum (of_int s)), (''runtime_owner'', JStr (wk_id w)), (''status'', JStr ''running'')]"

definition start_runtime :: "int \<Rightarrow> run_answers \<Rightarrow> int \<Rightarrow> world \<times> worker \<Rightarrow> (string + json) \<times> world \<times> worker" where
  "start_runtime now x s = (\<lambda>(wd, w).
     if map_option py_lower (map_of (w_status wd) s) \<noteq> Some ''running''
     then (Inr (JDict [(''strategy_id'', JNum (of_int s)), (''status'', JStr ''skipped''),
                       (''reason'', JStr ''desired_state_changed'')]), wd, w)
     else if s \<in> set (local_ids w) then (Inr (running_json s w), wd, w)
     else let (got, wd1) = acquire_runtime now s wd w in
       if \<not> got then (Inl ''Strategy runtime lease is owned by another trading worker.'', wd1, w)
       else let (ok, e) = executor_start (x_preflight x) (x_spawn x) s (wk_exec w); w1 = w\<lparr>wk_exec := e\<rparr> in
         if \<not> ok
         then (Inl (if e_failure e \<noteq> [] then e_failure e else ''Executor rejected the strategy.''), release_runtime s wd1 w1, w1)
         else let ((alive, hint), e') = wait_running (x_views x) s e; w2 = w1\<lparr>wk_exec := e'\<rparr> in
           if \<not> alive
           then (let (ok', wd2, w3) = stop_local False (x_cleanup_fault x) s wd1 w2 in
                 (Inl (if hint \<noteq> [] then hint else ''Strategy exited during startup.''), release_runtime s wd2 w3, w3))
           else (Inr (running_json s w2), wd1, w2))"

definition stop_runtime :: "bool \<Rightarrow> run_answers \<Rightarrow> int \<Rightarrow> world \<times> worker \<Rightarrow> (string + json) \<times> world \<times> worker" where
  "stop_runtime close x s = (\<lambda>(wd, w).
     if close
     then (let (res, st, e) = stop_with_policy True (x_reading x) (x_submit x) (x_stop_fault x) s (w_status wd) (wk_exec w);
               wd' = wd\<lparr>w_status := st\<rparr>; w' = w\<lparr>wk_exec := e\<rparr> in
           case res of Inl msg \<Rightarrow> (Inl msg, wd', w')
           | Inr rp \<Rightarrow> (Inr (report_json rp), release_runtime s wd' w', w'))
     else (let (ok, wd', w') = stop_local False (x_stop_fault x) s wd w in
           if \<not> ok then (Inl ''Executor failed to stop the local strategy runtime.'', wd', w')
           else (Inr (JDict [(''strategy_id'', JNum (of_int s)), (''status'', JStr ''stopped'')]), release_runtime s wd' w', w')))"

definition reconcile_runtime :: "int \<Rightarrow> world \<times> worker \<Rightarrow> (string + json) \<times> world \<times> worker" where
  "reconcile_runtime s = (\<lambda>(wd, w).
     (Inr (JDict [(''strategy_id'', JNum (of_int s)),
        (''runtime_owner'', JStr (if s \<in> set (local_ids w) then wk_id w else [])),
        (''running'', JBool (s \<in> set (local_ids w)))]), wd, w))"

definition perform :: "int \<Rightarrow> run_answers \<Rightarrow> command_row \<Rightarrow> world \<times> worker \<Rightarrow> (string + json) \<times> world \<times> worker" where
  "perform now x c s0 =
     (case c_type c of
        StartCommand \<Rightarrow> start_runtime now x (c_strategy c) s0
      | StopCommand \<Rightarrow> stop_runtime (json_truthy (get (c_payload c) ''close_positions'')) x (c_strategy c) s0
      | RestartCommand \<Rightarrow>
          (let (res, s1) = stop_runtime False x (c_strategy c) s0 in
           case res of Inl msg \<Rightarrow> (Inl msg, s1) | Inr r \<Rightarrow> start_runtime now x (c_strategy c) s1)
      | ReconcileCommand \<Rightarrow> reconcile_runtime (c_strategy c) s0)"

definition retry_delay :: "int \<Rightarrow> int" where
  "retry_delay attempts = min 60 (2 ^ nat (max 0 (attempts - 1)))"

text \<open>
  The handler of \<open>_execute\<close>. What \<open>fail\<close> itself raises is not caught there: it is answered beside the state
  the earlier transactions have left.
\<close>

definition after_answer :: "db_error + command_db \<Rightarrow> (world \<Rightarrow> world) \<Rightarrow> world \<times> worker \<Rightarrow> db_error option \<times> world \<times> worker" where
  "after_answer r after = (\<lambda>(wd, w).
     case r of Inl err \<Rightarrow> (Some err, wd, w) | Inr q \<Rightarrow> (None, after (wd\<lparr>w_queue := q\<rparr>), w))"

definition command_failed :: "int \<Rightarrow> command_row \<Rightarrow> string \<Rightarrow> world \<times> worker \<Rightarrow> db_error option \<times> world \<times> worker" where
  "command_failed fin c msg = (\<lambda>(wd, w).
     if c_attempts c < wk_attempts w
     then after_answer (fail_command fin (c_id c) msg (Some (retry_delay (c_attempts c))) (w_queue wd)) id (wd, w)
     else after_answer (fail_command fin (c_id c) msg None (w_queue wd))
            (\<lambda>wd'. if c_type c = StartCommand \<or> c_type c = RestartCommand
                   then wd'\<lparr>w_status := write_status (c_strategy c) ''stopped'' (w_status wd')\<rparr> else wd') (wd, w))"

definition execute_command ::
  "int \<Rightarrow> int \<Rightarrow> run_answers \<Rightarrow> command_row \<Rightarrow> world \<times> worker \<Rightarrow> db_error option \<times> world \<times> worker" where
  "execute_command now fin x c s0 =
     (let (res, wd, w) = perform now x c s0 in
      case res of
        Inl msg \<Rightarrow> command_failed fin c msg (wd, w)
      | Inr r \<Rightarrow> (case complete fin (c_id c) r (w_queue wd) of
            Inl err \<Rightarrow> command_failed fin c ''duplicate key value violates unique constraint'' (wd, w)
          | Inr q \<Rightarrow> (None, wd\<lparr>w_queue := q\<rparr>, w)))"

text \<open>
  \<open>_renew_runtime_leases\<close>: at most once per third of a lease; a renewal that raises (\<open>flaky\<close>) is only logged, a
  refused one stops the local runtime (\<open>faults\<close> gives the fault of each stop). The ids are listed first.
\<close>

definition renew_one ::
  "int \<Rightarrow> (int \<Rightarrow> bool) \<Rightarrow> (int \<Rightarrow> string option) \<Rightarrow> int \<Rightarrow> world \<times> worker \<Rightarrow> world \<times> worker" where
  "renew_one now flaky faults s = (\<lambda>(wd, w).
     if flaky s then (wd, w)
     else let (renewed, q) = renew_strategy_lease now s (wk_id w) (wk_lease_secs w) (w_queue wd);
              wd1 = wd\<lparr>w_queue := q\<rparr> in
       if renewed then (wd1, w) else snd (stop_local False (faults s) s wd1 w))"

definition renew_runtime_leases ::
  "real \<Rightarrow> int \<Rightarrow> (int \<Rightarrow> bool) \<Rightarrow> (int \<Rightarrow> string option) \<Rightarrow> world \<times> worker \<Rightarrow> world \<times> worker" where
  "renew_runtime_leases clock now flaky faults = (\<lambda>(wd, w).
     if clock - wk_renewal w < max 1 (of_int (wk_lease_secs w) / 3) then (wd, w)
     else fold (renew_one now flaky faults) (local_ids w) (wd, w\<lparr>wk_renewal := clock\<rparr>))"

definition heartbeat :: "real \<Rightarrow> int \<Rightarrow> world \<times> worker \<Rightarrow> world \<times> worker" where
  "heartbeat clock now = (\<lambda>(wd, w).
     if clock - wk_beat w < 10 then (wd, w)
     else (case fail_exhausted_commands now (wk_attempts w) (w_queue wd) of
             Inl err \<Rightarrow> (wd, w\<lparr>wk_beat := clock\<rparr>)
           | Inr (n, q) \<Rightarrow>
               (wd\<lparr>w_queue := record_worker_heartbeat now (wk_id w) ''trading''
                    (JDict [(''running_strategies'', JNum (of_nat (length (local_ids w))))]) q\<rparr>, w\<lparr>wk_beat := clock\<rparr>)))"

definition global_lease_key :: string where "global_lease_key = ''trading-global-services''"

text \<open>\<open>support\<close>: whether the support services start without an exception.\<close>

definition ensure_global_services :: "real \<Rightarrow> int \<Rightarrow> bool \<Rightarrow> world \<times> worker \<Rightarrow> world \<times> worker" where
  "ensure_global_services clock now support = (\<lambda>(wd, w0).
     if clock - wk_leader_check w0 < max 2 (of_int (wk_lease_secs w0) / 3) then (wd, w0)
     else let w = w0\<lparr>wk_leader_check := clock\<rparr> in
       if wk_leader w
       then (let (ok, q) = renew_process_lease now global_lease_key (wk_id w) (wk_lease_secs w) (w_queue wd) in
             (wd\<lparr>w_queue := q\<rparr>, if ok then w else w\<lparr>wk_stopping := True\<rparr>))
       else (let (ok, q) = acquire_process_lease now global_lease_key (wk_id w) (wk_lease_secs w) (w_queue wd) in
             (wd\<lparr>w_queue := q\<rparr>, if ok \<and> support then w\<lparr>wk_leader := True\<rparr> else w)))"

text \<open>\<open>restore_desired_strategies\<close>, for the strategies whose stored status is running.\<close>

definition restore_one :: "int \<Rightarrow> (int \<Rightarrow> string option \<times> string option) \<Rightarrow> int \<Rightarrow> world \<times> worker \<Rightarrow> world \<times> worker" where
  "restore_one now start_faults s = (\<lambda>(wd, w).
     let (got, wd1) = acquire_runtime now s wd w in
     if \<not> got then (wd1, w)
     else let (ok, e) = executor_start (fst (start_faults s)) (snd (start_faults s)) s (wk_exec w); w1 = w\<lparr>wk_exec := e\<rparr> in
       if ok then (wd1, w1)
       else (let wd2 = release_runtime s wd1 w1 in (wd2\<lparr>w_status := write_status s ''stopped'' (w_status wd2)\<rparr>, w1)))"

definition restore_desired_strategies ::
  "int \<Rightarrow> (int \<Rightarrow> string option \<times> string option) \<Rightarrow> world \<times> worker \<Rightarrow> world \<times> worker" where
  "restore_desired_strategies now start_faults = (\<lambda>(wd, w).
     fold (restore_one now start_faults) (map fst (filter (\<lambda>(k, v). v = ''running'') (w_status wd))) (wd, w))"

definition shutdown_one :: "(int \<Rightarrow> string option) \<Rightarrow> int \<Rightarrow> world \<times> worker \<Rightarrow> world \<times> worker" where
  "shutdown_one faults s = (\<lambda>(wd, w).
     let (ok, wd1, w1) = stop_local False (faults s) s wd w in (release_runtime s wd1 w1, w1))"

definition shutdown_local_runtimes :: "(int \<Rightarrow> string option) \<Rightarrow> world \<times> worker \<Rightarrow> world \<times> worker" where
  "shutdown_local_runtimes faults = (\<lambda>(wd, w). fold (shutdown_one faults) (local_ids w) (wd, w))"

text \<open>The end of \<open>run_forever\<close>, reached by a normal stop and by an exception alike.\<close>

definition leave :: "int \<Rightarrow> (int \<Rightarrow> string option) \<Rightarrow> world \<times> worker \<Rightarrow> world \<times> worker" where
  "leave now faults s0 =
     (let (wd, w) = shutdown_local_runtimes faults s0;
          q = (if wk_leader w then release_process_lease global_lease_key (wk_id w) (w_queue wd) else w_queue wd) in
      (wd\<lparr>w_queue := mark_worker_stopped now (wk_id w) q\<rparr>, w\<lparr>wk_stopping := True\<rparr>))"

text \<open>The readings of one pass of the loop: the monotonic clock, NOW() of its transactions, and the answers.\<close>

record pass =
  ps_clock :: real
  ps_now :: int
  ps_done :: int
  ps_flaky :: "int \<Rightarrow> bool"
  ps_faults :: "int \<Rightarrow> string option"
  ps_support :: bool
  ps_locked :: "int list"
  ps_answers :: run_answers

definition work_pass :: "pass \<Rightarrow> world \<times> worker \<Rightarrow> db_error option \<times> world \<times> worker" where
  "work_pass p s0 =
     (let (wd, w) = renew_runtime_leases (ps_clock p) (ps_now p) (ps_flaky p) (ps_faults p)
            (ensure_global_services (ps_clock p) (ps_now p) (ps_support p) (heartbeat (ps_clock p) (ps_now p) s0)) in
      case claim_next (ps_now p) (wk_id w) (wk_command_secs w) (wk_attempts w) (ps_locked p) (w_queue wd) of
        Inl err \<Rightarrow> (Some err, wd, w)
      | Inr (None, q) \<Rightarrow> (None, wd\<lparr>w_queue := q\<rparr>, w)
      | Inr (Some c, q) \<Rightarrow> execute_command (ps_now p) (ps_done p) (ps_answers p) c (wd\<lparr>w_queue := q\<rparr>, w))"

text \<open>\<open>run_forever\<close> over the passes there is time for: it ends when asked to stop, or at an exception.\<close>

fun work_loop :: "pass list \<Rightarrow> world \<times> worker \<Rightarrow> db_error option \<times> world \<times> worker" where
  "work_loop [] s = (None, s)"
| "work_loop (p # ps) s =
     (if wk_stopping (snd s) then (None, s)
      else case work_pass p s of (Some err, s') \<Rightarrow> (Some err, s') | (None, s') \<Rightarrow> work_loop ps s')"

definition run_worker :: "int \<Rightarrow> (int \<Rightarrow> string option \<times> string option) \<Rightarrow> real \<Rightarrow> bool \<Rightarrow> pass list \<Rightarrow> int \<Rightarrow>
    (int \<Rightarrow> string option) \<Rightarrow> world \<times> worker \<Rightarrow> db_error option \<times> world \<times> worker" where
  "run_worker now start_faults clock support passes finish faults s0 =
     (let s1 = restore_desired_strategies now start_faults (heartbeat clock now (ensure_global_services clock now support s0));
          (err, s2) = work_loop passes s1 in (err, leave finish faults s2))"

subsection \<open>The scheduler process\<close>

definition scheduler_lease_key :: string where "scheduler_lease_key = ''scheduler-global-services''"

text \<open>One pass of the loop: whether it goes on, and whether the process leads.\<close>

definition scheduler_pass :: "int \<Rightarrow> string \<Rightarrow> int \<Rightarrow> bool \<times> command_db \<Rightarrow> bool \<times> bool \<times> command_db" where
  "scheduler_pass now name secs = (\<lambda>(leader, q0).
     let (ok, q) = (if leader then renew_process_lease now scheduler_lease_key name secs q0
                    else acquire_process_lease now scheduler_lease_key name secs q0) in
     if leader \<and> \<not> ok then (False, False, q)
     else (True, ok, record_worker_heartbeat now name ''scheduler'' (JDict [(''leader'', JBool ok)]) q))"

definition scheduler_leave :: "int \<Rightarrow> string \<Rightarrow> bool \<times> command_db \<Rightarrow> command_db" where
  "scheduler_leave now name = (\<lambda>(leader, q).
     mark_worker_stopped now name (if leader then release_process_lease scheduler_lease_key name q else q))"

subsection \<open>The client\<close>

record command_client =
  cl_last :: "((int \<times> command_type) \<times> int) list"
  cl_failure :: string

definition error_text :: "db_error \<Rightarrow> string" where
  "error_text e = (case e of
     UnsupportedCommand v \<Rightarrow> ''Unsupported strategy command: '' @ v
   | UniqueViolation \<Rightarrow> ''duplicate key value violates unique constraint''
   | ValueTooLong \<Rightarrow> ''value too long for type character varying'')"

definition client_start :: "int \<Rightarrow> int \<Rightarrow> string \<Rightarrow> command_client \<times> command_db \<Rightarrow> bool \<times> command_client \<times> command_db" where
  "client_start now s fresh = (\<lambda>(cl, q).
     case enqueue now s ''start'' 0 JNull None fresh q of
       Inl e \<Rightarrow> (False, cl\<lparr>cl_failure := error_text e\<rparr>, q)
     | Inr (r, q') \<Rightarrow> (True, cl\<lparr>cl_last := dict_set (s, StartCommand) (c_id r) (cl_last cl), cl_failure := ''''\<rparr>, q'))"

text \<open>\<open>_wait\<close>, over what it reads and the clock after each read.\<close>

fun await :: "real \<Rightarrow> (command_row option \<times> real) list \<Rightarrow> command_row option" where
  "await deadline [] = None"
| "await deadline ((r, clock) # rest) =
     (case r of None \<Rightarrow> None
      | Some c \<Rightarrow> if terminal_status (c_status c) \<or> deadline \<le> clock then Some c else await deadline rest)"

definition client_wait_start :: "int \<Rightarrow> command_client \<Rightarrow> (int \<Rightarrow> command_row option) \<Rightarrow> bool \<times> string" where
  "client_wait_start s cl awaited =
     (case map_of (cl_last cl) (s, StartCommand) of
        None \<Rightarrow> (False, ''No durable start command was created.'')
      | Some i \<Rightarrow> (case awaited i of
          None \<Rightarrow> (False, ''Strategy start command was not found.'')
        | Some c \<Rightarrow>
            if c_status c = CmdSucceeded then (True, '''')
            else if c_status c = CmdFailed
            then (False, if c_error c \<noteq> [] then c_error c else ''Trading worker failed to start the strategy.'')
            else (True, ''strategyV2.startQueued'')))"

definition json_default :: "string \<Rightarrow> json \<Rightarrow> (string \<times> json) list \<Rightarrow> (string \<times> json) list" where
  "json_default k v d = (if map_of d k = None then d @ [(k, v)] else d)"

definition stop_answer :: "bool \<Rightarrow> string \<Rightarrow> bool \<Rightarrow> string list \<Rightarrow> json" where
  "stop_answer ok status close errors =
     JDict [(''success'', JBool ok), (''status'', JStr status), (''close_requested'', JBool close),
            (''close_orders_queued'', JNum 0), (''close_errors'', JList (map JStr errors))]"

definition client_stop ::
  "int \<Rightarrow> int \<Rightarrow> string \<Rightarrow> bool \<Rightarrow> real \<Rightarrow> (int \<Rightarrow> command_row option) \<Rightarrow> command_client \<times> command_db \<Rightarrow>
     json \<times> command_client \<times> command_db" where
  "client_stop now s fresh close timeout awaited = (\<lambda>(cl, q).
     case enqueue now s ''stop'' 0 (JDict [(''close_positions'', JBool close)]) None fresh q of
       Inl e \<Rightarrow> (stop_answer False ''running'' close [error_text e], cl, q)
     | Inr (r, q') \<Rightarrow>
         (let cl' = cl\<lparr>cl_last := dict_set (s, StopCommand) (c_id r) (cl_last cl)\<rparr> in
          (if max 0 timeout = 0 then stop_answer True ''stopping'' close []
           else case awaited (c_id r) of
             None \<Rightarrow> stop_answer False ''stopping'' close []
           | Some c \<Rightarrow>
               if \<not> terminal_status (c_status c) then stop_answer False ''stopping'' close []
               else if c_status c = CmdSucceeded
               then JDict (json_default ''close_errors'' (JList []) (json_default ''close_orders_queued'' (JNum 0)
                      (json_default ''close_requested'' (JBool close) (json_default ''status'' (JStr ''stopped'')
                         (json_default ''success'' (JBool True) (entries (c_result c)))))))
               else stop_answer False ''running'' close (if c_error c \<noteq> [] then [c_error c] else []),
           cl', q')))"

definition client_is_running :: "int \<Rightarrow> int \<Rightarrow> command_db \<Rightarrow> bool" where
  "client_is_running now s q = has_active_strategy_lease now s q"

end
