(* ===== verification/CommandLaws.thy ===== *)
theory CommandLaws
  imports Commands
begin

text \<open>
  Laws of the command queue: both lease tables implement the abstract lease map, so a granted lease is
  exclusive for its term; the command table keeps its constraints; a command is claimed a bounded number
  of times and the oldest one that is due comes first; and what happens to a command whose claim a late
  worker answers.
\<close>

subsection \<open>The lease tables\<close>

fun strategy_lease_act :: "int lease_event \<Rightarrow> command_db \<Rightarrow> bool \<times> command_db" where
  "strategy_lease_act (Grant now k owner secs) db =
     (let (token, db') = acquire_strategy_lease now k owner secs db in (token \<noteq> None, db'))"
| "strategy_lease_act (Renew now k owner secs) db = renew_strategy_lease now k owner secs db"
| "strategy_lease_act (Release k owner) db = (True, release_strategy_lease k owner db)"
| "strategy_lease_act (Sweep now) db = (True, snd (cleanup_runtime_metadata now 30 7 db))"

fun process_lease_act :: "string lease_event \<Rightarrow> command_db \<Rightarrow> bool \<times> command_db" where
  "process_lease_act (Grant now k owner secs) db = acquire_process_lease now k owner secs db"
| "process_lease_act (Renew now k owner secs) db = renew_process_lease now k owner secs db"
| "process_lease_act (Release k owner) db = (True, release_process_lease k owner db)"
| "process_lease_act (Sweep now) db = (True, snd (cleanup_runtime_metadata now 30 7 db))"

definition strategy_holder :: "command_db \<Rightarrow> int lease_map" where
  "strategy_holder db k = map_option (\<lambda>l. (l_owner l, l_expires l)) (row_at l_strategy k (leases db))"

definition process_holder :: "command_db \<Rightarrow> string lease_map" where
  "process_holder db k = map_option (\<lambda>l. (p_owner l, p_expires l)) (row_at p_key k (process_leases db))"

definition strategy_table_ok :: "command_db \<Rightarrow> bool" where
  "strategy_table_ok db = keys_distinct l_strategy (leases db)"

definition process_table_ok :: "command_db \<Rightarrow> bool" where
  "process_table_ok db = keys_distinct p_key (process_leases db)"

lemma take_over_key [simp]: "l_strategy (take_over old new) = l_strategy old"
  by (simp add: take_over_def)

lemma hand_over_key [simp]: "p_key (hand_over old new) = p_key old"
  by (simp add: hand_over_def)

text \<open>An UPDATE of one keyed row: how many rows it meets, and what is found afterwards.\<close>

lemma filter_key:
  "keys_distinct key t \<Longrightarrow> filter (\<lambda>r. key r = k \<and> p r) t =
     (case row_at key k t of None \<Rightarrow> [] | Some r \<Rightarrow> if p r then [r] else [])"
proof (induction t)
  case (Cons r t)
  have "key r = k \<Longrightarrow> filter (\<lambda>q. key q = k \<and> p q) t = []"
    using Cons.prems by (auto simp: filter_empty_conv image_iff)
  then show ?case using Cons by (auto simp: row_at_def)
qed (simp add: row_at_def)

lemma row_at_update_where:
  "(\<And>r. key (f r) = key r) \<Longrightarrow>
   row_at key k (update_where p f t) = map_option (\<lambda>r. if p r then f r else r) (row_at key k t)"
  unfolding update_where_def by (rule row_at_map) simp

text \<open>The row a guarded UPDATE or DELETE of one key leaves there.\<close>

lemma row_at_update_key:
  assumes "\<And>r. key (f r) = key r"
  shows "row_at key k (update_where (\<lambda>r. key r = j \<and> p r) f t) =
    (case row_at key k t of None \<Rightarrow> None | Some r \<Rightarrow> Some (if k = j \<and> p r then f r else r))"
  using row_at_SomeD[of key k t] by (auto simp: row_at_update_where[of key f, OF assms] split: option.split)

lemma row_at_delete_key:
  assumes "keys_distinct key t"
  shows "row_at key k (delete_rows (\<lambda>r. key r = j \<and> p r) t) =
    (case row_at key k t of None \<Rightarrow> None | Some r \<Rightarrow> if k = j \<and> p r then None else Some r)"
  using row_at_SomeD[of key k t] by (auto simp: row_at_delete[OF assms] split: option.split)

lemma keys_update_where: "(\<And>r. key (f r) = key r) \<Longrightarrow> map key (update_where p f t) = map key t"
  by (induction t) (auto simp: update_where_def)

lemma strategy_act_ok: "strategy_table_ok db \<Longrightarrow> strategy_table_ok (snd (strategy_lease_act e db))"
  by (cases e)
     (auto simp: strategy_table_ok_def acquire_strategy_lease_def renew_strategy_lease_def release_strategy_lease_def
        cleanup_runtime_metadata_def Let_def keys_update_where table_simps split: option.splits)

lemma process_act_ok: "process_table_ok db \<Longrightarrow> process_table_ok (snd (process_lease_act e db))"
  by (cases e)
     (auto simp: process_table_ok_def acquire_process_lease_def renew_process_lease_def release_process_lease_def
        cleanup_runtime_metadata_def Let_def keys_update_where table_simps split: option.splits)

lemma strategy_act_spec:
  assumes "strategy_table_ok db"
  shows "fst (strategy_lease_act e db) = fst (spec_step e (strategy_holder db))"
    "strategy_holder (snd (strategy_lease_act e db)) = snd (spec_step e (strategy_holder db))"
proof -
  note d = assms[unfolded strategy_table_ok_def]
  show "fst (strategy_lease_act e db) = fst (spec_step e (strategy_holder db))"
    by (cases e) (auto simp: acquire_strategy_lease_def renew_strategy_lease_def strategy_holder_def Let_def
        filter_key[OF d] split: option.splits)
  show "strategy_holder (snd (strategy_lease_act e db)) = snd (spec_step e (strategy_holder db))"
  proof (rule ext)
    fix k
    show "strategy_holder (snd (strategy_lease_act e db)) k = snd (spec_step e (strategy_holder db)) k"
    proof (cases e)
      case (Grant now j o' d')
      then show ?thesis using row_at_SomeD[of l_strategy j "leases db"]
        by (auto simp: acquire_strategy_lease_def strategy_holder_def Let_def take_over_def table_simps split: option.splits)
    next
      case (Renew now j o' d')
      then show ?thesis
        by (auto simp: renew_strategy_lease_def strategy_holder_def Let_def row_at_update_key split: option.split)
    next
      case (Release j o')
      then show ?thesis
        by (cases "row_at l_strategy k (leases db)"; cases "row_at l_strategy j (leases db)")
           (auto simp: release_strategy_lease_def strategy_holder_def row_at_delete_key[OF d])
    next
      case (Sweep now)
      then show ?thesis
        by (auto simp: cleanup_runtime_metadata_def strategy_holder_def Let_def row_at_delete[OF d] split: option.splits)
    qed
  qed
qed

lemma process_act_spec:
  assumes "process_table_ok db"
  shows "fst (process_lease_act e db) = fst (spec_step e (process_holder db))"
    "process_holder (snd (process_lease_act e db)) = snd (spec_step e (process_holder db))"
proof -
  note d = assms[unfolded process_table_ok_def]
  show "fst (process_lease_act e db) = fst (spec_step e (process_holder db))"
    by (cases e) (auto simp: acquire_process_lease_def renew_process_lease_def process_holder_def Let_def
        filter_key[OF d] split: option.splits)
  show "process_holder (snd (process_lease_act e db)) = snd (spec_step e (process_holder db))"
  proof (rule ext)
    fix k
    show "process_holder (snd (process_lease_act e db)) k = snd (spec_step e (process_holder db)) k"
    proof (cases e)
      case (Grant now j o' d')
      then show ?thesis using row_at_SomeD[of p_key j "process_leases db"]
        by (auto simp: acquire_process_lease_def process_holder_def Let_def hand_over_def table_simps split: option.splits)
    next
      case (Renew now j o' d')
      then show ?thesis
        by (auto simp: renew_process_lease_def process_holder_def Let_def row_at_update_key split: option.split)
    next
      case (Release j o')
      then show ?thesis
        by (cases "row_at p_key k (process_leases db)"; cases "row_at p_key j (process_leases db)")
           (auto simp: release_process_lease_def process_holder_def row_at_delete_key[OF d])
    next
      case (Sweep now)
      then show ?thesis
        by (auto simp: cleanup_runtime_metadata_def process_holder_def Let_def row_at_delete[OF d] split: option.splits)
    qed
  qed
qed

interpretation strategy_leases: lease_table strategy_lease_act strategy_holder strategy_table_ok
  by unfold_locales (simp_all add: strategy_act_ok strategy_act_spec)

interpretation global_leases: lease_table process_lease_act process_holder process_table_ok
  by unfold_locales (simp_all add: process_act_ok process_act_spec)

subsection \<open>The queue under any sequence of transactions\<close>

datatype queue_event =
    Enqueue int int string int json "string option" string
  | ClaimNext int string int int "int list"
  | Complete int int json
  | FailCommand int int string "int option"
  | FailExhausted int int
  | Cleanup int int int

fun queue_step :: "queue_event \<Rightarrow> command_db \<Rightarrow> db_error + command_db" where
  "queue_step (Enqueue now strategy cmd user payload key fresh) db =
     ebind (enqueue now strategy cmd user payload key fresh db) (\<lambda>(r, db'). Inr db')"
| "queue_step (ClaimNext now owner secs max_attempts locked) db =
     ebind (claim_next now owner secs max_attempts locked db) (\<lambda>(r, db'). Inr db')"
| "queue_step (Complete now i res) db = complete now i res db"
| "queue_step (FailCommand now i err retry) db = fail_command now i err retry db"
| "queue_step (FailExhausted now max_attempts) db =
     ebind (fail_exhausted_commands now max_attempts db) (\<lambda>(n, db'). Inr db')"
| "queue_step (Cleanup now c h) db = Inr (snd (cleanup_runtime_metadata now c h db))"

text \<open>A transaction that raises is rolled back.\<close>

definition queue_act :: "queue_event \<Rightarrow> command_db \<Rightarrow> command_db" where
  "queue_act e db = (case queue_step e db of Inl err \<Rightarrow> db | Inr db' \<Rightarrow> db')"

text \<open>The rows have rising ids below the sequence, distinct keys, one active command per action, and
  each command being processed has a claim that ends.\<close>

definition queue_ok :: "command_db \<Rightarrow> bool" where
  "queue_ok db =
     (sorted_wrt (<) (map c_id (commands db)) \<and> list_all (\<lambda>r. c_id r < next_command db) (commands db) \<and>
      keys_distinct c_key (commands db) \<and> active_unique (commands db) \<and>
      list_all (\<lambda>r. c_status r = CmdProcessing \<longrightarrow> c_expires r \<noteq> None) (commands db))"

lemma queue_okD:
  assumes "queue_ok db"
  shows "sorted_wrt (<) (map c_id (commands db))" "\<And>r. r \<in> set (commands db) \<Longrightarrow> c_id r < next_command db"
    "keys_distinct c_key (commands db)" "active_unique (commands db)"
    "\<And>r. r \<in> set (commands db) \<Longrightarrow> c_status r = CmdProcessing \<Longrightarrow> c_expires r \<noteq> None"
    "keys_distinct c_id (commands db)"
  using assms strict_sorted_iff[of "map c_id (commands db)"] by (auto simp: queue_ok_def list_all_iff)

lemma live_append: "live_commands (xs @ ys) = live_commands xs @ live_commands ys"
  by (simp add: live_commands_def)

lemma set_live: "r \<in> set (live_commands rs) \<longleftrightarrow> r \<in> set rs \<and> active_status (c_status r)"
  by (auto simp: live_commands_def)

lemma active_unique_append:
  "active_unique (rs @ [r]) \<longleftrightarrow>
     active_unique rs \<and> (active_status (c_status r) \<longrightarrow> action_of r \<notin> action_of ` set (live_commands rs))"
  by (simp add: active_unique_def live_append) (simp add: live_commands_def)

lemma distinct_filter_sub:
  assumes "\<And>r. r \<in> set rs \<Longrightarrow> P r \<Longrightarrow> Q r" "distinct (map g (filter Q rs))"
  shows "distinct (map g (filter P rs))"
proof -
  have "filter P rs = filter P (filter Q rs)" using assms(1) by (induction rs) auto
  then show ?thesis using assms(2) distinct_map_filter by metis
qed

text \<open>An UPDATE that makes no command active again keeps the constraint, and so does a DELETE.\<close>

lemma live_update:
  assumes "\<And>r. action_of (f r) = action_of r"
  shows "map action_of (live_commands (update_where p f rs)) =
    map action_of (filter (\<lambda>r. active_status (c_status (if p r then f r else r))) rs)"
  using assms by (induction rs) (auto simp: live_commands_def update_where_def)

lemma active_unique_update:
  assumes "\<And>r. action_of (f r) = action_of r"
    and "\<And>r. r \<in> set rs \<Longrightarrow> p r \<Longrightarrow> active_status (c_status (f r)) \<Longrightarrow> active_status (c_status r)"
    and "active_unique rs"
  shows "active_unique (update_where p f rs)"
  unfolding active_unique_def live_update[of f p rs, OF assms(1)]
proof (rule distinct_filter_sub[where Q = "\<lambda>r. active_status (c_status r)"])
  fix r
  assume "r \<in> set rs" "active_status (c_status (if p r then f r else r))"
  then show "active_status (c_status r)" using assms(2)[of r] by (cases "p r") simp_all
next
  show "distinct (map action_of (filter (\<lambda>r. active_status (c_status r)) rs))"
    using assms(3) by (simp add: active_unique_def live_commands_def)
qed

lemma active_unique_delete: "active_unique rs \<Longrightarrow> active_unique (delete_rows p rs)"
proof -
  have "live_commands (delete_rows p rs) = filter (\<lambda>r. active_status (c_status r) \<and> \<not> p r) rs"
    by (induction rs) (auto simp: live_commands_def delete_rows_def)
  then show "active_unique rs \<Longrightarrow> active_unique (delete_rows p rs)"
    using distinct_filter_sub[of rs "\<lambda>r. active_status (c_status r) \<and> \<not> p r" "\<lambda>r. active_status (c_status r)" action_of]
    by (simp add: active_unique_def live_commands_def)
qed

lemma put_ok: "active_unique rs \<Longrightarrow> put_commands rs db = Inr (db\<lparr>commands := rs\<rparr>)"
  by (simp add: put_commands_def)

lemma put_InrD: "put_commands rs db = Inr db' \<Longrightarrow> db' = db\<lparr>commands := rs\<rparr> \<and> active_unique rs"
  by (simp add: put_commands_def split: if_splits)

lemma queue_ok_update:
  assumes "queue_ok db" "active_unique (update_where p f (commands db))"
    and "\<And>r. c_id (f r) = c_id r" "\<And>r. c_key (f r) = c_key r"
    and "\<And>r. c_status (f r) = CmdProcessing \<Longrightarrow> c_expires (f r) \<noteq> None"
  shows "queue_ok (db\<lparr>commands := update_where p f (commands db)\<rparr>)"
proof -
  note ok = queue_okD[OF assms(1)]
  have ids: "map c_id (update_where p f (commands db)) = map c_id (commands db)"
    by (rule keys_update_where) (rule assms(3))
  have keys: "map c_key (update_where p f (commands db)) = map c_key (commands db)"
    by (rule keys_update_where) (rule assms(4))
  have below: "list_all (\<lambda>r. c_id r < next_command db) (update_where p f (commands db))"
    using ok(2) assms(3) by (auto simp: list_all_iff update_where_def)
  have claims: "list_all (\<lambda>r. c_status r = CmdProcessing \<longrightarrow> c_expires r \<noteq> None) (update_where p f (commands db))"
    using ok(5) assms(5) by (auto simp: list_all_iff update_where_def)
  show ?thesis
    using ok(1,3) assms(2) ids keys below claims by (simp add: queue_ok_def list_all_iff)
qed

lemma claimed_simps [simp]:
  "c_id (claimed now o' secs r) = c_id r" "c_key (claimed now o' secs r) = c_key r"
  "action_of (claimed now o' secs r) = action_of r" "c_status (claimed now o' secs r) = CmdProcessing"
  "c_expires (claimed now o' secs r) = Some (now + seconds secs)" "c_attempts (claimed now o' secs r) = c_attempts r + 1"
  "c_claimed_by (claimed now o' secs r) = o'"
  by (simp_all add: claimed_def action_of_def)

lemma due_active: "due now m r \<Longrightarrow> active_status (c_status r)"
  by (auto simp: due_def)

text \<open>Claiming, finishing and giving up never raise; a retry raises only when it would revive a
  finished command whose place is taken.\<close>

lemma same_id: "queue_ok db \<Longrightarrow> r \<in> set (commands db) \<Longrightarrow> q \<in> set (commands db) \<Longrightarrow> c_id q = c_id r \<Longrightarrow> q = r"
  by (drule queue_okD(6)) (auto simp: distinct_map inj_on_def)

lemma claim_next_result:
  assumes "queue_ok db"
    "oldest (filter (\<lambda>r. due now m r \<and> addressed now o' db r \<and> c_id r \<notin> set locked) (commands db)) = Some r"
  shows "claim_next now o' secs m locked db = Inr (Some (claimed now o' secs r),
      db\<lparr>commands := update_where (\<lambda>q. c_id q = c_id r) (claimed now o' secs) (commands db)\<rparr>)"
    "active_unique (update_where (\<lambda>q. c_id q = c_id r) (claimed now o' secs) (commands db))"
proof -
  have r: "r \<in> set (commands db)" "active_status (c_status r)"
    using oldest_SomeD[OF assms(2)] due_active by auto
  show u: "active_unique (update_where (\<lambda>q. c_id q = c_id r) (claimed now o' secs) (commands db))"
  proof (rule active_unique_update)
    fix q
    assume "q \<in> set (commands db)" "c_id q = c_id r"
    then show "active_status (c_status q)" using same_id[OF assms(1) r(1), of q] r(2) by simp
  qed (simp_all add: queue_okD(4)[OF assms(1)])
  show "claim_next now o' secs m locked db = Inr (Some (claimed now o' secs r),
      db\<lparr>commands := update_where (\<lambda>q. c_id q = c_id r) (claimed now o' secs) (commands db)\<rparr>)"
    by (simp add: claim_next_def assms(2) put_ok[OF u])
qed

lemma finish_result:
  assumes "queue_ok db" "\<not> active_status s"
  shows "finish_command now i s res err db = Inr (db\<lparr>commands := update_where (\<lambda>r. c_id r = i)
       (\<lambda>r. r\<lparr>c_status := s, c_result := json_or res (JDict []), c_error := take 4000 err,
              c_completed := Some now, c_expires := None\<rparr>) (commands db)\<rparr>)"
    and "queue_ok (db\<lparr>commands := update_where (\<lambda>r. c_id r = i)
       (\<lambda>r. r\<lparr>c_status := s, c_result := json_or res (JDict []), c_error := take 4000 err,
              c_completed := Some now, c_expires := None\<rparr>) (commands db)\<rparr>)"
proof -
  have u: "active_unique (update_where (\<lambda>r. c_id r = i)
       (\<lambda>r. r\<lparr>c_status := s, c_result := json_or res (JDict []), c_error := take 4000 err,
              c_completed := Some now, c_expires := None\<rparr>) (commands db))"
    by (rule active_unique_update) (use assms(2) queue_okD(4)[OF assms(1)] in \<open>simp_all add: action_of_def\<close>)
  show "finish_command now i s res err db = Inr (db\<lparr>commands := update_where (\<lambda>r. c_id r = i)
       (\<lambda>r. r\<lparr>c_status := s, c_result := json_or res (JDict []), c_error := take 4000 err,
              c_completed := Some now, c_expires := None\<rparr>) (commands db)\<rparr>)"
    unfolding finish_command_def by (rule put_ok[OF u])
  show "queue_ok (db\<lparr>commands := update_where (\<lambda>r. c_id r = i)
       (\<lambda>r. r\<lparr>c_status := s, c_result := json_or res (JDict []), c_error := take 4000 err,
              c_completed := Some now, c_expires := None\<rparr>) (commands db)\<rparr>)"
    by (rule queue_ok_update[OF assms(1) u]) (use assms(2) in auto)
qed

lemma give_up_result:
  assumes "queue_ok db"
  shows "\<exists>n db'. fail_exhausted_commands now m db = Inr (n, db') \<and> queue_ok db'"
proof -
  let ?f = "\<lambda>r. r\<lparr>c_status := CmdFailed,
              c_error := (if c_error r = [] then ''Command lease expired after maximum attempts.'' else c_error r),
              c_completed := Some now, c_expires := None\<rparr>"
  have u: "active_unique (update_where (exhausted now m) ?f (commands db))"
    by (rule active_unique_update) (use queue_okD(4)[OF assms] in \<open>simp_all add: action_of_def\<close>)
  have "queue_ok (db\<lparr>commands := update_where (exhausted now m) ?f (commands db)\<rparr>)"
    by (rule queue_ok_update[OF assms u]) auto
  then show ?thesis by (simp add: fail_exhausted_commands_def put_ok[OF u])
qed

lemma retry_result:
  assumes "queue_ok db" "fail_command now i err (Some d) db = Inr db'"
  shows "queue_ok db'"
proof -
  let ?f = "\<lambda>r. r\<lparr>c_status := CmdPending, c_error := take 4000 err, c_available := now + seconds d, c_expires := None\<rparr>"
  have p: "db' = db\<lparr>commands := update_where (\<lambda>r. c_id r = i) ?f (commands db)\<rparr>"
    "active_unique (update_where (\<lambda>r. c_id r = i) ?f (commands db))"
    using put_InrD[of _ db db'] assms(2) by (simp_all add: fail_command_def)
  show ?thesis unfolding p(1) by (rule queue_ok_update[OF assms(1) p(2)]) auto
qed

text \<open>A new command takes the next id; an existing one is answered as it stands.\<close>

lemma enqueue_cases:
  assumes "enqueue now strategy cmd user payload key fresh db = Inr (r, db')"
  obtains (found) ty where "parse_command_type cmd = Some ty" "r \<in> set (commands db)"
      "action_of r = (strategy, ty)" "active_status (c_status r)" "db' = db"
    | (known) "r \<in> set (commands db)" "db' = db\<lparr>next_command := next_command db + 1\<rparr>"
    | (fresh) ty k where "parse_command_type cmd = Some ty"
      "r = new_command now (next_command db) strategy user ty k (json_or payload (JDict []))"
      "db' = db\<lparr>commands := commands db @ [r], next_command := next_command db + 1\<rparr>"
      "row_at c_key k (commands db) = None"
      "\<And>q. q \<in> set (commands db) \<Longrightarrow> action_of q = (strategy, ty) \<Longrightarrow> \<not> active_status (c_status q)"
proof -
  obtain ty where ty: "parse_command_type cmd = Some ty"
    using assms by (auto simp: enqueue_def split: option.splits)
  let ?a = "filter (\<lambda>r. action_of r = (strategy, ty) \<and> active_status (c_status r)) (commands db)"
  define k where "k = (case key of None \<Rightarrow> fresh | Some s \<Rightarrow> if s = [] then fresh else s)"
  show thesis
  proof (cases "newest ?a")
    case (Some q)
    have "enqueue now strategy cmd user payload key fresh db = Inr (q, db)" by (simp add: enqueue_def ty Some)
    then have "r = q" "db' = db" using assms by simp_all
    then show thesis using found[OF ty] newest_SomeD[OF Some] by simp
  next
    case none: None
    have e: "Inr (r, db') = (if 128 < length k then Inl ValueTooLong
      else (case row_at c_key k (commands db) of
              Some r \<Rightarrow> Inr (r, db\<lparr>next_command := next_command db + 1\<rparr>)
            | None \<Rightarrow> Inr (new_command now (next_command db) strategy user ty k (json_or payload (JDict [])),
                 db\<lparr>commands := commands db @ [new_command now (next_command db) strategy user ty k (json_or payload (JDict []))],
                    next_command := next_command db + 1\<rparr>)))"
      using assms ty none unfolding enqueue_def k_def Let_def by simp
    show thesis
    proof (cases "row_at c_key k (commands db)")
      case (Some q)
      then show thesis using e known row_at_SomeD[OF Some] by (simp split: if_splits)
    next
      case None
      have "\<not> active_status (c_status q)" if "q \<in> set (commands db)" "action_of q = (strategy, ty)" for q
        using none that by (auto simp: filter_empty_conv)
      then show thesis using e None fresh[OF ty] by (auto split: if_splits)
    qed
  qed
qed

lemma new_command_simps [simp]:
  "c_id (new_command now i strategy user ty k pl) = i" "c_key (new_command now i strategy user ty k pl) = k"
  "c_status (new_command now i strategy user ty k pl) = CmdPending"
  "action_of (new_command now i strategy user ty k pl) = (strategy, ty)"
  "c_attempts (new_command now i strategy user ty k pl) = 0"
  by (simp_all add: new_command_def action_of_def)

lemma enqueue_ok:
  assumes "queue_ok db" "enqueue now strategy cmd user payload key fresh db = Inr (r, db')"
  shows "queue_ok db'"
  using assms(2)
proof (cases rule: enqueue_cases)
  case found
  then show ?thesis using assms(1) by simp
next
  case known
  then show ?thesis using queue_okD(2)[OF assms(1)] assms(1) by (force simp: queue_ok_def list_all_iff)
next
  case (fresh ty k)
  have "(strategy, ty) \<notin> action_of ` set (live_commands (commands db))" using fresh(5) by (force simp: set_live)
  then have "active_unique (commands db @ [r])"
    using queue_okD(4)[OF assms(1)] fresh(2) by (simp add: active_unique_append)
  moreover have "k \<notin> c_key ` set (commands db)" using fresh(4) by (simp add: row_at_None)
  ultimately show ?thesis using queue_okD(1,2,3,5)[OF assms(1)] fresh(2,3)
    by (auto simp: queue_ok_def list_all_iff sorted_wrt_append) force
qed

lemma sorted_filter_ids: "sorted_wrt (<) (map c_id rs) \<Longrightarrow> sorted_wrt (<) (map c_id (filter P rs))"
  by (induction rs) auto

lemma queue_ok_delete:
  assumes "queue_ok db" "commands db' = delete_rows p (commands db)" "next_command db' = next_command db"
  shows "queue_ok db'"
  using queue_okD[OF assms(1)] active_unique_delete[of "commands db" p]
    sorted_filter_ids[of "commands db" "\<lambda>r. \<not> p r"] keys_delete[of c_key "commands db" p]
  by (simp add: queue_ok_def list_all_iff assms set_delete) (simp add: delete_rows_def)

lemma cleanup_ok: "queue_ok db \<Longrightarrow> queue_ok (snd (cleanup_runtime_metadata now c h db))"
  by (rule queue_ok_delete) (simp_all add: cleanup_runtime_metadata_def Let_def)

lemma queue_act_ok: "queue_ok db \<Longrightarrow> queue_ok (queue_act e db)"
proof (cases e)
  case (Enqueue now strategy cmd user payload key fresh)
  then show "queue_ok db \<Longrightarrow> ?thesis" using enqueue_ok[of db]
    by (auto simp: queue_act_def ebind_def split: sum.splits)
next
  case (ClaimNext now o' secs m locked)
  assume ok: "queue_ok db"
  let ?c = "filter (\<lambda>r. due now m r \<and> addressed now o' db r \<and> c_id r \<notin> set locked) (commands db)"
  show ?thesis
  proof (cases "oldest ?c")
    case None
    then show ?thesis using ok ClaimNext by (simp add: queue_act_def claim_next_def)
  next
    case (Some r)
    show ?thesis using ClaimNext claim_next_result[OF ok Some] queue_ok_update[OF ok claim_next_result(2)[OF ok Some]]
      by (simp add: queue_act_def)
  qed
next
  case (Complete now i res)
  then show "queue_ok db \<Longrightarrow> ?thesis" using finish_result[where db = db and s = CmdSucceeded and now = now and i = i and res = res and err = "''''"]
    by (simp add: queue_act_def complete_def)
next
  case (FailCommand now i err retry)
  then show "queue_ok db \<Longrightarrow> ?thesis"
    using finish_result[where db = db and s = CmdFailed and now = now and i = i and res = JNull and err = err] retry_result[of db now i err]
    by (cases retry) (auto simp: queue_act_def fail_command_def split: sum.splits)
next
  case (FailExhausted now m)
  then show "queue_ok db \<Longrightarrow> ?thesis" using give_up_result[of db now m] by (auto simp: queue_act_def)
next
  case (Cleanup now c h)
  then show "queue_ok db \<Longrightarrow> ?thesis" using cleanup_ok by (simp add: queue_act_def)
qed

interpretation command_queue: invariant_machine queue_act queue_ok
  by unfold_locales (rule queue_act_ok)

lemma get_update:
  "(\<And>r. c_id (f r) = c_id r) \<Longrightarrow>
   get_command i (db\<lparr>commands := update_where p f (commands db)\<rparr>) = map_option (\<lambda>r. if p r then f r else r) (get_command i db)"
  by (simp add: get_command_def row_at_update_where)

lemma get_commandD: "get_command i db = Some r \<Longrightarrow> r \<in> set (commands db) \<and> c_id r = i"
  unfolding get_command_def by (rule row_at_SomeD)

lemma get_update_other:
  "(\<And>r. c_id (f r) = c_id r) \<Longrightarrow> k \<noteq> i \<Longrightarrow>
   get_command i (db\<lparr>commands := update_where (\<lambda>r. c_id r = k) f (commands db)\<rparr>) = get_command i db"
  by (cases "get_command i db") (auto simp: get_update dest: get_commandD)

lemma get_own: "queue_ok db \<Longrightarrow> r \<in> set (commands db) \<Longrightarrow> get_command (c_id r) db = Some r"
  unfolding get_command_def by (rule row_at_set) (rule queue_okD(6))

lemma one_active:
  assumes "queue_ok db" "r \<in> set (commands db)" "q \<in> set (commands db)"
    and "active_status (c_status r)" "active_status (c_status q)" "action_of q = action_of r"
  shows "q = r"
  using queue_okD(4)[OF assms(1)] assms(2-6)
  by (auto simp: active_unique_def live_commands_def distinct_map inj_on_def)

text \<open>Asking again for an action that is under way answers the command under way.\<close>

lemma enqueue_joins:
  assumes "queue_ok db" "q \<in> set (commands db)" "active_status (c_status q)"
    and "parse_command_type cmd = Some (c_type q)"
  shows "enqueue now (c_strategy q) cmd user payload key fresh db = Inr (q, db)"
proof -
  let ?a = "filter (\<lambda>r. action_of r = (c_strategy q, c_type q) \<and> active_status (c_status r)) (commands db)"
  have q: "q \<in> set ?a" using assms(2,3) by (simp add: action_of_def)
  have "newest ?a \<noteq> None" using length_pos_if_in_set[OF q] unfolding newest_None by blast
  then obtain r where r: "newest ?a = Some r" by blast
  then have "r = q" using newest_SomeD[OF r] one_active[OF assms(1,2), of r] assms(3) by (auto simp: action_of_def)
  then show ?thesis using assms(4) r by (simp add: enqueue_def)
qed

subsection \<open>Claims\<close>

fun claims :: "int \<Rightarrow> queue_event \<Rightarrow> command_db \<Rightarrow> bool" where
  "claims i (ClaimNext now owner secs m locked) db =
     (case claim_next now owner secs m locked db of Inr (Some r, db') \<Rightarrow> c_id r = i | _ \<Rightarrow> False)"
| "claims i _ db = False"

fun claim_count :: "int \<Rightarrow> queue_event list \<Rightarrow> command_db \<Rightarrow> nat" where
  "claim_count i [] db = 0"
| "claim_count i (e # es) db = (if claims i e db then 1 else 0) + claim_count i es (queue_act e db)"

fun capped :: "int \<Rightarrow> queue_event \<Rightarrow> bool" where
  "capped m (ClaimNext now owner secs n locked) = (n \<le> m)"
| "capped m _ = True"

text \<open>The claims a command still has: all before it exists, none after it is deleted.\<close>

definition claims_left :: "int \<Rightarrow> int \<Rightarrow> command_db \<Rightarrow> nat" where
  "claims_left i m db =
     (case get_command i db of
        None \<Rightarrow> if i < next_command db then 0 else nat m
      | Some r \<Rightarrow> nat (m - c_attempts r))"

lemma claims_left_update:
  assumes "\<And>r. c_id (f r) = c_id r" "\<And>r. c_attempts (f r) = c_attempts r"
  shows "claims_left i m (db\<lparr>commands := update_where p f (commands db)\<rparr>) = claims_left i m db"
  using assms by (simp add: claims_left_def get_update split: option.split)

lemma claims_left_claim:
  assumes "queue_ok db" "n \<le> m"
  shows "claims_left i m (queue_act (ClaimNext now o' secs n locked) db) +
    (if claims i (ClaimNext now o' secs n locked) db then 1 else 0) \<le> claims_left i m db"
proof (cases "oldest (filter (\<lambda>r. due now n r \<and> addressed now o' db r \<and> c_id r \<notin> set locked) (commands db))")
  case None
  then show ?thesis by (simp add: queue_act_def claim_next_def)
next
  case (Some r)
  then have r: "r \<in> set (commands db)" "c_attempts r < n" using oldest_SomeD[OF Some] by (auto simp: due_def)
  show ?thesis
  proof (cases "c_id r = i")
    case True
    then have g: "get_command i db = Some r" using get_own[OF assms(1) r(1)] by simp
    show ?thesis using True g r(2) assms(2)
      by (simp add: queue_act_def claim_next_result(1)[OF assms(1) Some] claims_left_def get_update)
  next
    case False
    then have "claims_left i m (queue_act (ClaimNext now o' secs n locked) db) = claims_left i m db"
      using get_commandD[of i db]
      by (auto simp: queue_act_def claim_next_result(1)[OF assms(1) Some] claims_left_def get_update split: option.split)
    then show ?thesis using False by (simp add: claim_next_result(1)[OF assms(1) Some])
  qed
qed

lemma claims_left_enqueue:
  assumes "queue_ok db" "enqueue now strategy cmd user payload key fresh db = Inr (r, db')"
  shows "claims_left i m db' \<le> claims_left i m db"
  using assms(2)
proof (cases rule: enqueue_cases)
  case found
  then show ?thesis by simp
next
  case known
  then show ?thesis by (simp add: claims_left_def get_command_def split: option.split)
next
  case (fresh ty k)
  show ?thesis
  proof (cases "get_command i db")
    case None
    then show ?thesis using fresh(2,3) by (auto simp: claims_left_def get_command_def row_at_append row_at_single)
  next
    case (Some q)
    then show ?thesis using fresh(3) by (simp add: claims_left_def get_command_def row_at_append)
  qed
qed

lemma claims_left_cleanup:
  assumes "queue_ok db"
  shows "claims_left i m (snd (cleanup_runtime_metadata now c h db)) \<le> claims_left i m db"
proof (cases "get_command i db")
  case None
  then show ?thesis
    by (simp add: claims_left_def get_command_def cleanup_runtime_metadata_def Let_def row_at_delete[OF queue_okD(6)[OF assms]])
next
  case (Some q)
  then have "i < next_command db" using get_commandD queue_okD(2)[OF assms] by fastforce
  then show ?thesis using Some
    by (simp add: claims_left_def get_command_def cleanup_runtime_metadata_def Let_def row_at_delete[OF queue_okD(6)[OF assms]])
qed

lemma claims_left_act:
  assumes "queue_ok db" "capped m e"
  shows "claims_left i m (queue_act e db) + (if claims i e db then 1 else 0) \<le> claims_left i m db"
proof (cases e)
  case (Enqueue now strategy cmd user payload key fresh)
  then show ?thesis using claims_left_enqueue[OF assms(1)]
    by (auto simp: queue_act_def ebind_def split: sum.splits)
next
  case (ClaimNext now o' secs n locked)
  then show ?thesis using claims_left_claim[OF assms(1)] assms(2) by simp
next
  case (Complete now k res)
  then show ?thesis
    using finish_result(1)[OF assms(1), where s = CmdSucceeded and now = now and i = k and res = res and err = "''''"]
    by (simp add: queue_act_def complete_def claims_left_update)
next
  case (FailCommand now k err retry)
  then show ?thesis
    using finish_result(1)[OF assms(1), where s = CmdFailed and now = now and i = k and res = JNull and err = err]
    by (cases retry) (auto simp: queue_act_def fail_command_def claims_left_update put_commands_def split: sum.splits)
next
  case (FailExhausted now n)
  then show ?thesis
    by (auto simp: queue_act_def fail_exhausted_commands_def put_commands_def claims_left_update)
next
  case (Cleanup now c h)
  then show ?thesis using claims_left_cleanup[OF assms(1)] by (simp add: queue_act_def)
qed

lemma claim_count_le:
  "queue_ok db \<Longrightarrow> list_all (capped m) es \<Longrightarrow> claim_count i es db \<le> claims_left i m db"
proof (induction es arbitrary: db)
  case (Cons e es)
  have "claim_count i es (queue_act e db) \<le> claims_left i m (queue_act e db)"
    using Cons.IH[of "queue_act e db"] queue_act_ok[OF Cons.prems(1)] Cons.prems(2) by simp
  then show ?case using claims_left_act[OF Cons.prems(1), of m e i] Cons.prems(2) by simp
qed simp

subsection \<open>Properties\<close>

definition empty_queue :: command_db where
  "empty_queue = \<lparr>commands = [], next_command = 1, leases = [], process_leases = [], heartbeats = []\<rparr>"

lemma empty_queue_ok [simp]: "queue_ok empty_queue" "strategy_table_ok empty_queue" "process_table_ok empty_queue"
  by (simp_all add: empty_queue_def queue_ok_def active_unique_def live_commands_def strategy_table_ok_def process_table_ok_def)

text \<open>
  C14: once a worker has been granted the lease of a strategy, nobody else is granted or can renew it until
  its term is over, whatever the workers, the renewals and the clean-up do in the meantime, unless the
  worker releases it; at the end of any such run it still holds the lease for the term.
\<close>

theorem lease_exclusive:
  assumes "strategy_table_ok db" "fst (strategy_lease_act (Grant start s worker secs) db)"
    and "list_all (within_term s worker start secs) es"
  shows "list_all (shuts_out s worker)
      (fst (lease_run strategy_lease_act es (snd (strategy_lease_act (Grant start s worker secs) db)))) \<and>
    held_until s worker (start + seconds secs)
      (strategy_holder (snd (lease_run strategy_lease_act es (snd (strategy_lease_act (Grant start s worker secs) db)))))"
  using strategy_leases.exclusive[OF assms] by blast

definition term_events :: "int lease_event list" where
  "term_events = [Grant 5000000 7 ''w2'' 30, Renew 10000000 7 ''w1'' 30, Renew 12000000 7 ''w2'' 30,
     Grant 20000000 8 ''w2'' 30, Sweep 25000000, Grant 29000000 7 ''w2'' 30]"

lemma lease_exclusive_witness:
  "list_all (shuts_out 7 ''w1'')
      (fst (lease_run strategy_lease_act term_events (snd (strategy_lease_act (Grant 0 7 ''w1'' 30) empty_queue))))"
  by (rule conjunct1[OF lease_exclusive])
     (simp_all add: term_events_def seconds_def acquire_strategy_lease_def empty_queue_def strategy_table_ok_def row_at_def)

text \<open>
  C32: each of the two lease tables, under any run of acquisitions, renewals, releases and clean-ups, gives
  the answers the abstract lease map gives and stays a picture of it.
\<close>

theorem lease_tables_refine:
  "fst (lease_run strategy_lease_act es empty_queue) = fst (lease_run spec_step es (\<lambda>k. None)) \<and>
   strategy_holder (snd (lease_run strategy_lease_act es empty_queue)) = snd (lease_run spec_step es (\<lambda>k. None)) \<and>
   fst (lease_run process_lease_act ps empty_queue) = fst (lease_run spec_step ps (\<lambda>k. None)) \<and>
   process_holder (snd (lease_run process_lease_act ps empty_queue)) = snd (lease_run spec_step ps (\<lambda>k. None))"
proof -
  have "strategy_holder empty_queue = (\<lambda>k. None)" "process_holder empty_queue = (\<lambda>k. None)"
    by (simp_all add: strategy_holder_def process_holder_def empty_queue_def row_at_def fun_eq_iff)
  then show ?thesis
    using strategy_leases.run_refines[of empty_queue es] global_leases.run_refines[of empty_queue ps] by simp
qed

text \<open>
  C17: whatever transactions run, the queue never holds two active commands of one strategy and type, nor
  two with one key, and while a command is pending or being processed every further request for the same
  action is answered with it and changes nothing.
\<close>

theorem one_command_per_action:
  assumes "get_command i (fold queue_act es empty_queue) = Some q" "active_status (c_status q)"
    and "parse_command_type cmd = Some (c_type q)"
  shows "active_unique (commands (fold queue_act es empty_queue)) \<and>
    keys_distinct c_key (commands (fold queue_act es empty_queue)) \<and>
    enqueue now (c_strategy q) cmd user payload key fresh (fold queue_act es empty_queue) =
      Inr (q, fold queue_act es empty_queue)"
proof -
  have ok: "queue_ok (fold queue_act es empty_queue)" by (rule command_queue.run_inv) simp
  then show ?thesis using enqueue_joins[OF ok] get_commandD[OF assms(1)] assms(2,3) queue_okD(3,4) by blast
qed

definition demo_requests :: "queue_event list" where
  "demo_requests = [Enqueue 0 7 '' Start '' 1 JNull None ''k1'', ClaimNext 1000000 ''w1'' 30 3 []]"

lemma one_command_per_action_witness:
  "\<exists>q. get_command 1 (fold queue_act demo_requests empty_queue) = Some q \<and> c_status q = CmdProcessing \<and>
     enqueue 2000000 7 ''START'' 2 JNull (Some ''k2'') ''k3'' (fold queue_act demo_requests empty_queue) =
       Inr (q, fold queue_act demo_requests empty_queue)"
proof -
  define q where "q = claimed 1000000 ''w1'' 30 (new_command 0 1 7 1 StartCommand ''k1'' (JDict []))"
  have q: "get_command 1 (fold queue_act demo_requests empty_queue) = Some q" "c_status q = CmdProcessing"
    "c_strategy q = 7" "parse_command_type ''START'' = Some (c_type q)"
    unfolding q_def by code_simp+
  then show ?thesis
    using one_command_per_action[of 1 demo_requests q "''START''" 2000000 2 JNull "Some ''k2''" "''k3''"] by simp
qed

text \<open>
  C18: a command is claimed at most as often as the attempts allow, over any run of the queue, however
  claims run out, commands are retried, and late answers arrive.
\<close>

theorem claims_bounded:
  assumes "list_all (capped m) es"
  shows "claim_count i es empty_queue \<le> nat m"
proof -
  have "claims_left i m empty_queue \<le> nat m"
    by (simp add: claims_left_def get_command_def empty_queue_def row_at_def)
  then show ?thesis using claim_count_le[OF empty_queue_ok(1) assms, of i] by linarith
qed

definition lapsing_claims :: "queue_event list" where
  "lapsing_claims = [Enqueue 0 7 ''stop'' 1 JNull None ''k1'', ClaimNext 0 ''w1'' 30 3 [],
     ClaimNext 31000000 ''w2'' 30 3 [], FailCommand 32000000 1 ''late'' (Some 1), ClaimNext 40000000 ''w1'' 30 3 [],
     ClaimNext 80000000 ''w1'' 30 3 [], ClaimNext 90000000 ''w2'' 30 3 []]"

lemma claims_bounded_witness: "claim_count 1 lapsing_claims empty_queue \<le> nat 3"
  by (rule claims_bounded) (simp add: lapsing_claims_def)

text \<open>
  C19: when a command is due, may go to this worker and is not locked, the worker does get a command: one at
  least as old, whose row then names the worker and the end of its claim. A stop or a restart is handed to no
  one else while a worker holds the unexpired lease of its strategy.
\<close>

theorem oldest_due_first:
  assumes "queue_ok db" "r \<in> set (commands db)" "due now m r" "addressed now worker db r" "c_id r \<notin> set locked"
  shows "\<exists>q db'. claim_next now worker secs m locked db = Inr (Some q, db') \<and> c_id q \<le> c_id r \<and>
    get_command (c_id q) db' = Some q \<and> c_status q = CmdProcessing \<and> c_claimed_by q = worker \<and>
    c_expires q = Some (now + seconds secs) \<and>
    (c_type q = StartCommand \<or> c_type q = ReconcileCommand \<or>
     (case strategy_holder db (c_strategy q) of None \<Rightarrow> True | Some (holder, x) \<Rightarrow> holder = worker \<or> x < now))"
proof -
  let ?c = "filter (\<lambda>r. due now m r \<and> addressed now worker db r \<and> c_id r \<notin> set locked) (commands db)"
  have mem: "r \<in> set ?c" using assms by simp
  then have "oldest ?c \<noteq> None" using length_pos_if_in_set[OF mem] unfolding oldest_None by blast
  then obtain q where q: "oldest ?c = Some q" by blast
  have m: "q \<in> set (commands db)" "addressed now worker db q" "c_id q \<le> c_id r" using oldest_SomeD[OF q] mem by auto
  show ?thesis
    unfolding claim_next_result(1)[OF assms(1) q]
    using m get_own[OF assms(1) m(1)]
    by (auto simp: get_update addressed_def strategy_holder_def claimed_def split: option.splits)
qed

lemma oldest_due_first_witness:
  "\<exists>q db'. claim_next 1000000 ''w1'' 30 3 [] (fold queue_act (take 1 demo_requests) empty_queue) = Inr (Some q, db') \<and> c_id q \<le> 1"
proof -
  let ?db = "fold queue_act (take 1 demo_requests) empty_queue"
  define r where "r = new_command 0 1 7 1 StartCommand ''k1'' (JDict [])"
  have "commands ?db = [r]" "due 1000000 3 r" "addressed 1000000 ''w1'' ?db r" "c_id r = 1"
    unfolding r_def by code_simp+
  then show ?thesis
    using oldest_due_first[of ?db r 1000000 3 "''w1''" "[]" 30] command_queue.run_inv[OF empty_queue_ok(1), of "take 1 demo_requests"]
    by auto
qed

definition revives :: "queue_event \<Rightarrow> command_db \<Rightarrow> bool" where
  "revives e db = (case e of
     FailCommand now i err (Some d) \<Rightarrow>
       list_ex (\<lambda>r. c_id r = i \<and> terminal_status (c_status r) \<and>
         list_ex (\<lambda>q. active_status (c_status q) \<and> action_of q = action_of r) (commands db)) (commands db)
   | _ \<Rightarrow> False)"

fun malformed :: "queue_event \<Rightarrow> bool" where
  "malformed (Enqueue now strategy cmd user payload key fresh) =
     (parse_command_type cmd = None \<or> 128 < length fresh \<or> 128 < length (case key of None \<Rightarrow> [] | Some k \<Rightarrow> k))"
| "malformed _ = False"

lemma active_unique_revive:
  assumes "\<And>r. action_of (f r) = action_of r"
  shows "active_unique rs \<Longrightarrow> keys_distinct c_id rs \<Longrightarrow>
    (\<forall>r \<in> set rs. c_id r = i \<longrightarrow> action_of r \<notin> action_of ` set (live_commands rs)) \<Longrightarrow>
    active_unique (update_where (\<lambda>r. c_id r = i) f rs)"
proof (induction rs)
  case (Cons q rs)
  have live: "set (live_commands rs) \<subseteq> set (live_commands (q # rs))" by (auto simp: live_commands_def)
  have u: "active_unique rs" using Cons.prems(1) by (auto simp: active_unique_def live_commands_def split: if_splits)
  have actions: "action_of r \<in> action_of ` {x \<in> set (q # rs). c_id x = i \<or> active_status (c_status x)}"
    if "r \<in> set (live_commands (update_where (\<lambda>r. c_id r = i) f rs))" for r
    using that assms by (auto simp: live_commands_def update_where_def split: if_splits)
  show ?case
  proof (cases "c_id q = i")
    case True
    then have "i \<notin> set (map c_id rs)" using Cons.prems(2) by auto
    then have "update_where (\<lambda>r. c_id r = i) f rs = rs" by (induction rs) (auto simp: update_where_def)
    moreover have "action_of q \<notin> action_of ` set (live_commands rs)" using Cons.prems(3) True live by auto
    ultimately show ?thesis using True u assms
      by (simp add: active_unique_def live_commands_def update_where_def)
  next
    case False
    have ih: "active_unique (update_where (\<lambda>r. c_id r = i) f rs)"
      using Cons.IH[OF u] Cons.prems(2,3) live by fastforce
    have "action_of q \<notin> action_of ` set (live_commands (update_where (\<lambda>r. c_id r = i) f rs))" if "active_status (c_status q)"
    proof
      assume "action_of q \<in> action_of ` set (live_commands (update_where (\<lambda>r. c_id r = i) f rs))"
      then obtain x where x: "x \<in> set rs" "action_of x = action_of q" "c_id x = i \<or> active_status (c_status x)"
        using assms by (auto simp: live_commands_def update_where_def image_iff split: if_splits)
      have "action_of q \<in> action_of ` set (live_commands (q # rs))" using that by (simp add: live_commands_def)
      then have "c_id x \<noteq> i" using Cons.prems(3) x(1,2) by force
      then have "x \<in> set (live_commands rs)" using x by (simp add: set_live)
      then have "action_of x \<in> action_of ` set (live_commands rs)" by (rule imageI)
      then show False using Cons.prems(1) that x(2) by (simp add: active_unique_def live_commands_def)
    qed
    then show ?thesis using False ih by (auto simp: active_unique_def live_commands_def update_where_def)
  qed
qed (simp add: active_unique_def live_commands_def update_where_def)

lemma retry_raises:
  assumes "queue_ok db" "fail_command now i err (Some d) db = Inl e"
  shows "revives (FailCommand now i err (Some d)) db"
proof (rule ccontr)
  assume n: "\<not> revives (FailCommand now i err (Some d)) db"
  let ?f = "\<lambda>r. r\<lparr>c_status := CmdPending, c_error := take 4000 err, c_available := now + seconds d, c_expires := None\<rparr>"
  have f: "action_of (?f r) = action_of r" for r by (simp add: action_of_def)
  have "active_unique (update_where (\<lambda>r. c_id r = i) ?f (commands db))"
  proof (cases "\<exists>r \<in> set (commands db). c_id r = i \<and> terminal_status (c_status r)")
    case True
    then obtain r where r: "r \<in> set (commands db)" "c_id r = i" "terminal_status (c_status r)" by blast
    have "action_of q \<noteq> action_of r" if "q \<in> set (commands db)" "active_status (c_status q)" for q
      using n r that unfolding revives_def by (simp add: list_ex_iff)
    then have "action_of r \<notin> action_of ` set (live_commands (commands db))" by (metis imageE set_live)
    then have "\<forall>q \<in> set (commands db). c_id q = i \<longrightarrow> action_of q \<notin> action_of ` set (live_commands (commands db))"
      using same_id[OF assms(1) r(1)] r(2) by metis
    then show ?thesis using active_unique_revive[of ?f, OF f] queue_okD(4,6)[OF assms(1)] by blast
  next
    case False
    show ?thesis
      by (rule active_unique_update[OF f _ queue_okD(4)[OF assms(1)]]) (use False terminal_not_active in blast)
  qed
  then show False using assms(2) by (simp add: fail_command_def put_commands_def)
qed

text \<open>
  the only transactions of the queue that raise are a request with an unknown type or an overlong key, and
  a retry that would make a finished command active again while another one for the same action is active.
\<close>

theorem only_revival_raises:
  assumes "queue_ok db" "queue_step e db = Inl err"
  shows "malformed e \<or> revives e db"
proof (cases e)
  case (Enqueue now strategy cmd user payload key fresh)
  then show ?thesis using assms(2) by (auto simp: enqueue_def Let_def split: option.splits if_splits)
next
  case (ClaimNext now o' secs n locked)
  then show ?thesis using assms(2) claim_next_result(1)[OF assms(1), of now n o' locked _ secs]
    by (cases "oldest (filter (\<lambda>r. due now n r \<and> addressed now o' db r \<and> c_id r \<notin> set locked) (commands db))")
       (simp add: claim_next_def, simp)
next
  case (Complete now k res)
  then show ?thesis
    using finish_result(1)[OF assms(1), where s = CmdSucceeded and now = now and i = k and res = res and err = "''''"] assms(2)
    by (simp add: complete_def)
next
  case (FailCommand now k msg retry)
  then show ?thesis
    using finish_result(1)[OF assms(1), where s = CmdFailed and now = now and i = k and res = JNull and err = msg] assms
      retry_raises[OF assms(1), of now k msg]
    by (cases retry) (auto simp: fail_command_def)
next
  case (FailExhausted now n)
  then show ?thesis using give_up_result[OF assms(1), of now n] assms(2) by auto
next
  case (Cleanup now c h)
  then show ?thesis using assms(2) by simp
qed

lemma only_revival_raises_witness:
  "malformed (Enqueue 0 7 ''pause'' 1 JNull None ''k1'') \<or> revives (Enqueue 0 7 ''pause'' 1 JNull None ''k1'') empty_queue"
proof -
  have "queue_step (Enqueue 0 7 ''pause'' 1 JNull None ''k1'') empty_queue = Inl (UnsupportedCommand ''pause'')" by code_simp
  then show ?thesis by (rule only_revival_raises[OF empty_queue_ok(1)])
qed

subsection \<open>Late answers\<close>

text \<open>
  The answers of \<open>_execute\<close> name only the command, not the claim. Two runs of the queue: a retry sent by a
  worker whose claim has run out revives a command that has used its attempts, which then is neither due
  nor given up, yet still answers every further request for its action; and a late success replaces the
  outcome of a command another worker has reported as failed.
\<close>

definition late_retry :: "queue_event list" where
  "late_retry = [Enqueue 0 7 ''start'' 1 JNull None ''k1'', ClaimNext 0 ''w1'' 30 2 [], ClaimNext 31000000 ''w2'' 30 2 [],
     FailCommand 32000000 1 ''stalled'' (Some 1)]"

definition stuck :: "int \<Rightarrow> command_row \<Rightarrow> bool" where
  "stuck m r = (c_status r = CmdPending \<and> m \<le> c_attempts r)"

lemma late_retry_sticks:
  "\<exists>r. get_command 1 (fold queue_act late_retry empty_queue) = Some r \<and> stuck 2 r"
proof -
  have "(case get_command 1 (fold queue_act late_retry empty_queue) of None \<Rightarrow> False | Some r \<Rightarrow> stuck 2 r)" by code_simp
  then show ?thesis by (simp split: option.splits)
qed

text \<open>A stuck command stays as it is under every transaction but an answer or a higher limit.\<close>

fun answers :: "int \<Rightarrow> queue_event \<Rightarrow> bool" where
  "answers i (Complete now k res) = (k = i)"
| "answers i (FailCommand now k err retry) = (k = i)"
| "answers i _ = False"

lemma stuck_stays:
  assumes ok: "queue_ok db" and r: "get_command i db = Some r" "stuck m r" and e: "capped m e" "\<not> answers i e"
  shows "get_command i (queue_act e db) = Some r"
proof (cases e)
  case (Enqueue now strategy cmd user payload key fresh)
  have "get_command i db' = Some r" if "enqueue now strategy cmd user payload key fresh db = Inr (q, db')" for q db'
    using that
  proof (cases rule: enqueue_cases)
    case (fresh ty k)
    then show ?thesis using r(1) by (simp add: get_command_def row_at_append)
  qed (use r(1) in \<open>simp_all add: get_command_def\<close>)
  then show ?thesis using Enqueue r(1) by (auto simp: queue_act_def ebind_def split: sum.splits)
next
  case (ClaimNext now o' secs n locked)
  show ?thesis
  proof (cases "oldest (filter (\<lambda>r. due now n r \<and> addressed now o' db r \<and> c_id r \<notin> set locked) (commands db))")
    case None
    then show ?thesis using ClaimNext r(1) by (simp add: queue_act_def claim_next_def)
  next
    case (Some q)
    have "c_attempts q < n" using oldest_SomeD[OF Some] by (auto simp: due_def)
    then have "q \<noteq> r" using r(2) e(1) ClaimNext by (auto simp: stuck_def)
    moreover have "q \<in> set (commands db)" using oldest_SomeD[OF Some] by simp
    ultimately have "c_id q \<noteq> c_id r" using same_id[OF ok, of q r] get_commandD[OF r(1)] by metis
    then show ?thesis using ClaimNext r(1) by (simp add: queue_act_def claim_next_result(1)[OF ok Some] get_update)
  qed
next
  case (Complete now k res)
  have "get_command i (queue_act e db) = get_command i db"
    using finish_result(1)[OF ok, where s = CmdSucceeded and now = now and i = k and res = res and err = "''''"]
      Complete e(2) by (simp add: queue_act_def complete_def get_update_other)
  then show ?thesis using r(1) by simp
next
  case (FailCommand now k err retry)
  have k: "k \<noteq> i" using e(2) FailCommand by simp
  have "get_command i (queue_act e db) = get_command i db"
  proof (cases retry)
    case None
    then show ?thesis
      using finish_result(1)[OF ok, where s = CmdFailed and now = now and i = k and res = JNull and err = err] FailCommand k
      by (simp add: queue_act_def fail_command_def get_update_other)
  next
    case (Some d)
    then show ?thesis using FailCommand k by (simp add: queue_act_def fail_command_def put_commands_def get_update_other)
  qed
  then show ?thesis using r(1) by simp
next
  case (FailExhausted now n)
  then show ?thesis using r
    by (auto simp: queue_act_def fail_exhausted_commands_def put_commands_def get_update exhausted_def stuck_def)
next
  case (Cleanup now c h)
  then show ?thesis using r
    by (simp add: queue_act_def cleanup_runtime_metadata_def Let_def get_command_def row_at_delete[OF queue_okD(6)[OF ok]]
        terminal_status_def stuck_def)
qed

lemma stuck_forever:
  assumes "queue_ok db" "get_command i db = Some r" "stuck m r" "list_all (capped m) es" "list_all (\<lambda>e. \<not> answers i e) es"
  shows "get_command i (fold queue_act es db) = Some r"
  using assms
proof (induction es arbitrary: db)
  case (Cons e es)
  then show ?case using stuck_stays[of db i r m e] queue_act_ok[of db e] by simp
qed simp

lemma late_success_overwrites:
  "map_option (\<lambda>r. (c_status r, c_claimed_by r)) (get_command 1 (fold queue_act
     [Enqueue 0 7 ''start'' 1 JNull None ''k1'', ClaimNext 0 ''w1'' 30 2 [], ClaimNext 31000000 ''w2'' 30 2 [],
      FailCommand 32000000 1 ''rejected'' None, Complete 33000000 1 JNull] empty_queue)) = Some (CmdSucceeded, ''w2'')"
  by code_simp

text \<open>The fencing token starts again at 1 after a release, so it does not order the owners of a lease.\<close>

lemma token_restarts:
  "fst (acquire_strategy_lease 50 7 ''w2'' 30 (release_strategy_lease 7 ''w1''
     (snd (acquire_strategy_lease 40 7 ''w1'' 30 empty_queue)))) = Some 1"
  by code_simp

end
