(* ===== verification/WorkerLaws.thy ===== *)
theory WorkerLaws
  imports Worker CommandLaws
begin

text \<open>
  Laws of the trading workers over one queue: a strategy has a live runtime on one worker at most, as long
  as each worker keeps its leases alive, with the runs that break this when it does not; and a command that
  is executed is settled, with a bounded delay before a retry.
\<close>

subsection \<open>Runtimes and their leases\<close>

definition live_ids :: "worker \<Rightarrow> int list" where
  "live_ids w = map fst (filter snd (e_threads (wk_exec w)))"

abbreviation lease_of :: "world \<Rightarrow> int \<Rightarrow> (string \<times> int) option" where
  "lease_of wd \<equiv> strategy_holder (w_queue wd)"

definition backed :: "world \<Rightarrow> worker \<Rightarrow> bool" where
  "backed wd w = list_all (\<lambda>s. map_option fst (lease_of wd s) = Some (wk_id w)) (live_ids w)"

text \<open>
  What an operation of worker \<open>k\<close> at \<open>now\<close> keeps, from the world \<open>wd0\<close> it began in: its live runtimes have its
  leases, and the leases others hold at \<open>now\<close> are as they were.
\<close>

definition sound :: "string \<Rightarrow> int \<Rightarrow> world \<Rightarrow> world \<times> worker \<Rightarrow> bool" where
  "sound k now wd0 = (\<lambda>(wd, w).
     strategy_table_ok (w_queue wd) \<and> wk_id w = k \<and> backed wd w \<and> map fst (w_status wd) = map fst (w_status wd0) \<and>
     (\<forall>s p x. lease_of wd0 s = Some (p, x) \<and> p \<noteq> k \<and> now \<le> x \<longrightarrow> lease_of wd s = Some (p, x)))"

lemma backed_iff: "backed wd w \<longleftrightarrow> (\<forall>s \<in> set (live_ids w). map_option fst (lease_of wd s) = Some (wk_id w))"
  by (simp add: backed_def list_all_iff)

lemma live_subset: "set (live_ids w) \<subseteq> set (local_ids w)"
  by (auto simp: live_ids_def local_ids_def)

lemma set_live_ids: "set (live_ids w) = {s. (s, True) \<in> set (e_threads (wk_exec w))}"
  by (force simp: live_ids_def)

lemma set_dict_pop: "set (dict_pop k d) = {p \<in> set d. fst p \<noteq> k}"
  by (induction d) auto

lemma holder_congs [simp]:
  "strategy_holder (q\<lparr>commands := cs\<rparr>) = strategy_holder q" "strategy_holder (q\<lparr>next_command := n\<rparr>) = strategy_holder q"
  "strategy_holder (q\<lparr>heartbeats := hs\<rparr>) = strategy_holder q" "strategy_holder (q\<lparr>process_leases := ps\<rparr>) = strategy_holder q"
  "strategy_table_ok (q\<lparr>commands := cs\<rparr>) = strategy_table_ok q" "strategy_table_ok (q\<lparr>next_command := n\<rparr>) = strategy_table_ok q"
  "strategy_table_ok (q\<lparr>heartbeats := hs\<rparr>) = strategy_table_ok q" "strategy_table_ok (q\<lparr>process_leases := ps\<rparr>) = strategy_table_ok q"
  by (simp_all add: strategy_holder_def strategy_table_ok_def fun_eq_iff)

text \<open>The operations of the lease table, through the lease map.\<close>

lemma acquire_effect:
  assumes "strategy_table_ok q" "acquire_strategy_lease now s k d q = (token, q')"
  shows "strategy_table_ok q'"
    "token \<noteq> None \<Longrightarrow> lease_of (wd\<lparr>w_queue := q'\<rparr>) = (strategy_holder q)(s \<mapsto> (k, now + seconds d))"
    "token = None \<Longrightarrow> q' = q"
    "token \<noteq> None \<Longrightarrow> strategy_holder q s = Some (p, x) \<Longrightarrow> p = k \<or> x < now"
proof -
  have a: "strategy_lease_act (Grant now s k d) q = (token \<noteq> None, q')" using assms(2) by simp
  show "strategy_table_ok q'" using strategy_act_ok[OF assms(1), of "Grant now s k d"] a by simp
  show "token \<noteq> None \<Longrightarrow> lease_of (wd\<lparr>w_queue := q'\<rparr>) = (strategy_holder q)(s \<mapsto> (k, now + seconds d))"
    "token \<noteq> None \<Longrightarrow> strategy_holder q s = Some (p, x) \<Longrightarrow> p = k \<or> x < now"
    using strategy_act_spec[OF assms(1), of "Grant now s k d"] a by (auto simp: Let_def split: if_splits)
  show "token = None \<Longrightarrow> q' = q"
    using assms(2) by (auto simp: acquire_strategy_lease_def Let_def split: option.splits if_splits)
qed

lemma release_effect:
  assumes "strategy_table_ok q"
  shows "strategy_table_ok (release_strategy_lease s k q)"
    "strategy_holder (release_strategy_lease s k q) t =
      (if t = s \<and> map_option fst (strategy_holder q s) = Some k then None else strategy_holder q t)"
  using strategy_act_ok[OF assms, of "Release s k"] strategy_act_spec(2)[OF assms, of "Release s k"]
  by (auto split: option.splits)

lemma renew_effect:
  assumes "strategy_table_ok q" "renew_strategy_lease now s k d q = (ok, q')"
  shows "strategy_table_ok q'"
    "map_option fst (strategy_holder q' t) = map_option fst (strategy_holder q t)"
    "map_option fst (strategy_holder q t) \<noteq> Some k \<Longrightarrow> strategy_holder q' t = strategy_holder q t"
proof -
  have a: "strategy_lease_act (Renew now s k d) q = (ok, q')" using assms(2) by simp
  show "strategy_table_ok q'" using strategy_act_ok[OF assms(1), of "Renew now s k d"] a by simp
  show "map_option fst (strategy_holder q' t) = map_option fst (strategy_holder q t)"
    "map_option fst (strategy_holder q t) \<noteq> Some k \<Longrightarrow> strategy_holder q' t = strategy_holder q t"
    using strategy_act_spec(2)[OF assms(1), of "Renew now s k d"] a by (auto simp: Let_def split: option.splits if_splits)
qed

text \<open>Fewer live runtimes, or a lease given up that no live runtime needs.\<close>

lemma sound_fewer:
  "sound k now wd0 (wd, w) \<Longrightarrow> set (live_ids w') \<subseteq> set (live_ids w) \<Longrightarrow> wk_id w' = wk_id w \<Longrightarrow> sound k now wd0 (wd, w')"
  by (auto simp: sound_def backed_iff)

lemma sound_status:
  "sound k now wd0 (wd, w) \<Longrightarrow> map fst st = map fst (w_status wd) \<Longrightarrow> sound k now wd0 (wd\<lparr>w_status := st\<rparr>, w)"
  by (auto simp: sound_def backed_iff)

lemma sound_queue:
  "sound k now wd0 (wd, w) \<Longrightarrow> strategy_holder q = lease_of wd \<Longrightarrow> strategy_table_ok q \<Longrightarrow> sound k now wd0 (wd\<lparr>w_queue := q\<rparr>, w)"
  by (auto simp: sound_def backed_iff)

lemma sound_release:
  assumes "sound k now wd0 (wd, w)" "s \<notin> set (live_ids w)"
  shows "sound k now wd0 (release_runtime s wd w, w)"
  using assms release_effect[of "w_queue wd" s k]
  by (auto simp: sound_def backed_iff release_runtime_def split: if_splits)

lemma sound_acquire:
  assumes "sound k now wd0 (wd, w)" "acquire_runtime now s wd w = (got, wd')"
  shows "sound k now wd0 (wd', w) \<and> (got \<longrightarrow> map_option fst (lease_of wd' s) = Some k)"
proof -
  obtain token q where a: "acquire_strategy_lease now s (wk_id w) (wk_lease_secs w) (w_queue wd) = (token, q)" by fastforce
  have wd': "wd' = wd\<lparr>w_queue := q\<rparr>" "got = (token \<noteq> None)" using assms(2) a by (auto simp: acquire_runtime_def)
  have t: "strategy_table_ok (w_queue wd)" "wk_id w = k" using assms(1) by (auto simp: sound_def)
  note e = acquire_effect[OF t(1) a[unfolded t(2)]]
  show ?thesis
  proof (cases token)
    case None
    then have "wd' = wd" using e(3) wd'(1) by simp
    then show ?thesis using assms(1) None wd'(2) by simp
  next
    case (Some tk)
    then have h: "lease_of wd' = (lease_of wd)(s \<mapsto> (k, now + seconds (wk_lease_secs w)))" using e(2)[of wd] wd'(1) by simp
    have "lease_of wd' t = Some (p, x)" if "lease_of wd0 t = Some (p, x)" "p \<noteq> k" "now \<le> x" for t p x
    proof -
      have "lease_of wd t = Some (p, x)" using assms(1) that by (auto simp: sound_def)
      moreover have "t \<noteq> s" using e(4)[of p x] Some calculation that by auto
      ultimately show ?thesis using h by simp
    qed
    moreover have "backed wd' w" using assms(1) t(2) h by (auto simp: backed_iff sound_def)
    ultimately show ?thesis using assms(1) e(1) wd'(1) h by (auto simp: sound_def)
  qed
qed

lemma stop_local_sound:
  assumes "sound k now wd0 (wd, w)" "stop_local persist fault s wd w = (ok, wd', w')"
  shows "sound k now wd0 (wd', w')" "ok \<Longrightarrow> s \<notin> set (live_ids w')" "set (live_ids w') \<subseteq> set (live_ids w)"
    "ok = (fault = None)"
proof -
  show l: "set (live_ids w') \<subseteq> set (live_ids w)"
    using assms(2) by (auto simp: stop_local_def executor_stop_def set_live_ids set_dict_pop split: option.splits)
  have w: "wk_id w' = wk_id w" "map fst (w_status wd') = map fst (w_status wd)" "w_queue wd' = w_queue wd"
    using assms(2) by (auto simp: stop_local_def executor_stop_def write_status_def split: option.splits)
  have "wd' = wd\<lparr>w_status := w_status wd'\<rparr>" using w(3) by simp
  then show "sound k now wd0 (wd', w')"
    using sound_status[OF sound_fewer[OF assms(1) l w(1)] w(2)] by simp
  show "ok \<Longrightarrow> s \<notin> set (live_ids w')" "ok = (fault = None)"
    using assms(2) by (auto simp: stop_local_def executor_stop_def set_live_ids set_dict_pop split: option.splits)
qed

lemma status_keys [simp]: "map fst (write_status s v st) = map fst st"
  by (simp add: write_status_def split_beta o_def)

lemma dict_set_absent: "map_of d k = None \<Longrightarrow> dict_set k v d = d @ [(k, v)]"
  by (induction d) (auto split: if_splits)

text \<open>Starting a thread, and waiting for it.\<close>

lemma executor_start_threads:
  assumes "executor_start preflight spawn s e0 = (ok, e)"
  shows "{t. (t, True) \<in> set (e_threads e)} = (if ok then insert s else id) {t. (t, True) \<in> set (e_threads e0)}"
    "ok \<Longrightarrow> (s, True) \<notin> set (e_threads e0)"
proof -
  let ?d = "filter snd (e_threads e0)"
  have absent: "map_of ?d s = None \<Longrightarrow> dict_set s True ?d = ?d @ [(s, True)] \<and> (s, True) \<notin> set (e_threads e0)"
    by (auto simp: dict_set_absent map_of_eq_None_iff image_iff)
  show "{t. (t, True) \<in> set (e_threads e)} = (if ok then insert s else id) {t. (t, True) \<in> set (e_threads e0)}"
    "ok \<Longrightarrow> (s, True) \<notin> set (e_threads e0)"
    using assms absent
    by (auto simp: executor_start_def Let_def discard_dead_threads_def split: if_splits option.splits)
qed

lemma dead_threads:
  "(t, True) \<in> set (map (\<lambda>(k, b). (k, if k = s then False else b)) d) \<longleftrightarrow> (t, True) \<in> set d \<and> t \<noteq> s"
  by (induction d) (auto split: if_splits)

lemma wait_running_threads:
  "wait_running vs s e = ((alive, hint), e') \<Longrightarrow>
   {t. (t, True) \<in> set (e_threads e')} = (if alive then id else (\<lambda>S. S - {s})) {t. (t, True) \<in> set (e_threads e)}"
proof (induction vs s e rule: wait_running.induct)
  case (3 vs s e)
  then show ?case by (auto simp: dead_threads simp del: set_map)
next
  case (4 vs s e)
  then show ?case by (auto simp: set_dict_pop)
qed auto

lemma live_exec: "set (live_ids (w\<lparr>wk_exec := e\<rparr>)) = {t. (t, True) \<in> set (e_threads e)}"
  by (simp add: set_live_ids)

lemma sound_live:
  "sound k now wd0 (wd, w) \<Longrightarrow> set (live_ids w') \<subseteq> insert s (set (live_ids w)) \<Longrightarrow>
   map_option fst (lease_of wd s) = Some k \<Longrightarrow> wk_id w' = k \<Longrightarrow> sound k now wd0 (wd, w')"
  by (auto simp: sound_def backed_iff)

lemma start_runtime_sound:
  assumes "sound k now wd0 s0"
  shows "sound k now wd0 (snd (start_runtime now x s s0))"
proof -
  obtain wd w where s0: "s0 = (wd, w)" by fastforce
  have k: "wk_id w = k" and h: "sound k now wd0 (wd, w)" using assms s0 by (auto simp: sound_def)
  obtain got wd1 where a: "acquire_runtime now s wd w = (got, wd1)" by fastforce
  obtain ok e where st: "executor_start (x_preflight x) (x_spawn x) s (wk_exec w) = (ok, e)" by fastforce
  obtain alive hint e' where wt: "wait_running (x_views x) s e = ((alive, hint), e')" by (metis surj_pair)
  let ?w1 = "w\<lparr>wk_exec := e\<rparr>" and ?w2 = "w\<lparr>wk_exec := e'\<rparr>"
  obtain ok' wd2 w3 where sp: "stop_local False (x_cleanup_fault x) s wd1 ?w2 = (ok', wd2, w3)" by (metis surj_pair)
  have acq: "sound k now wd0 (wd1, w)" "got \<Longrightarrow> map_option fst (lease_of wd1 s) = Some k"
    using sound_acquire[OF h a] by auto
  note threads = executor_start_threads[OF st] wait_running_threads[OF wt]
  show ?thesis
  proof (cases "map_option py_lower (map_of (w_status wd) s) = Some ''running'' \<and> s \<notin> set (local_ids w) \<and> got")
    case True
    then have new: "s \<notin> set (live_ids w)" using live_subset by blast
    show ?thesis
    proof (cases ok)
      case False
      then have "sound k now wd0 (wd1, ?w1)" "s \<notin> set (live_ids ?w1)"
        using sound_fewer[OF acq(1), of ?w1] threads(1) new by (auto simp: live_exec set_live_ids)
      then show ?thesis using sound_release[of k now wd0 wd1 ?w1 s] False True h
        by (simp add: start_runtime_def s0 a st Let_def)
    next
      case started: True
      have s2: "sound k now wd0 (wd1, ?w2)"
        by (rule sound_live[OF acq(1), of _ s]) (use True started threads k acq(2) in \<open>auto simp: live_exec set_live_ids\<close>)
      show ?thesis
      proof (cases alive)
        case False
        have "s \<notin> set (live_ids ?w2)" using False threads(3) by (auto simp: live_exec)
        then have "sound k now wd0 (wd2, w3)" "s \<notin> set (live_ids w3)"
          using stop_local_sound[OF s2 sp] by auto
        then show ?thesis using sound_release[of k now wd0 wd2 w3 s] False True started h
          by (simp add: start_runtime_def s0 a st wt sp Let_def)
      next
        case True
        then show ?thesis using s2 started h \<open>map_option py_lower _ = _ \<and> _\<close> by (simp add: start_runtime_def s0 a st wt Let_def)
      qed
    qed
  next
    case False
    then show ?thesis using h acq(1) by (auto simp: start_runtime_def s0 a Let_def)
  qed
qed

text \<open>Stopping, unless a closing stop fails: then the lease goes and the runtime stays.\<close>

lemma stop_with_policy_threads:
  assumes "stop_with_policy close reading submit None s st e = (res, st', e')"
  shows "(e' = e \<and> (\<exists>m. res = Inl m)) \<or> e' = e\<lparr>e_threads := dict_pop s (e_threads e)\<rparr>" "map fst st' = map fst st"
  using assms by (auto simp: stop_with_policy_def executor_stop_def Let_def split: sum.splits if_splits option.splits)

lemma stop_runtime_sound:
  assumes "sound k now wd0 s0" "close \<longrightarrow> x_stop_fault x = None"
  shows "sound k now wd0 (snd (stop_runtime close x s s0))"
proof -
  obtain wd w where s0: "s0 = (wd, w)" by fastforce
  have h: "sound k now wd0 (wd, w)" using assms s0 by simp
  show ?thesis
  proof (cases close)
    case False
    obtain ok wd' w' where sp: "stop_local False (x_stop_fault x) s wd w = (ok, wd', w')" by (metis surj_pair)
    show ?thesis using stop_local_sound[OF h sp] sound_release[of k now wd0 wd' w' s] False
      by (simp add: stop_runtime_def s0 sp)
  next
    case True
    obtain res st e where sp: "stop_with_policy True (x_reading x) (x_submit x) None s (w_status wd) (wk_exec w) = (res, st, e)"
      by (metis surj_pair)
    let ?w = "w\<lparr>wk_exec := e\<rparr>" and ?wd = "wd\<lparr>w_status := st\<rparr>"
    note t = stop_with_policy_threads[OF sp]
    have "set (live_ids ?w) \<subseteq> set (live_ids w)" using t(1) by (auto simp: set_live_ids set_dict_pop)
    then have s1: "sound k now wd0 (?wd, ?w)" using sound_status[OF sound_fewer[OF h] t(2)] by simp
    have "s \<notin> set (live_ids ?w)" if "res = Inr rp" for rp using t(1) that by (auto simp: set_live_ids set_dict_pop)
    then show ?thesis using s1 sound_release[OF s1] True assms(2)
      by (auto simp: stop_runtime_def s0 sp Let_def split: sum.splits)
  qed
qed

lemma finish_holder:
  "finish_command fin i st res err q = Inr q' \<Longrightarrow> strategy_holder q' = strategy_holder q \<and> strategy_table_ok q' = strategy_table_ok q"
  by (auto simp: finish_command_def dest: put_InrD)

lemma fail_holder:
  "fail_command fin i msg retry q = Inr q' \<Longrightarrow> strategy_holder q' = strategy_holder q \<and> strategy_table_ok q' = strategy_table_ok q"
  by (cases retry) (auto simp: fail_command_def dest: put_InrD finish_holder)

text \<open>A command executed by a worker, whether it was claimed or not, except a closing stop that fails.\<close>

definition closing :: "command_row \<Rightarrow> bool" where
  "closing c = (c_type c = StopCommand \<and> json_truthy (get (c_payload c) ''close_positions''))"

lemma perform_sound:
  assumes "sound k now wd0 s0" "closing c \<longrightarrow> x_stop_fault x = None"
  shows "sound k now wd0 (snd (perform now x c s0))"
proof (cases "c_type c")
  case StartCommand
  then show ?thesis using start_runtime_sound[OF assms(1)] by (simp add: perform_def)
next
  case StopCommand
  then show ?thesis using stop_runtime_sound[OF assms(1)] assms(2) by (simp add: perform_def closing_def)
next
  case RestartCommand
  obtain res s1 where r: "stop_runtime False x (c_strategy c) s0 = (res, s1)" by (metis surj_pair)
  then have "sound k now wd0 s1" using stop_runtime_sound[OF assms(1), of False x "c_strategy c"] by simp
  then show ?thesis using start_runtime_sound[of k now wd0 s1 x "c_strategy c"] RestartCommand r
    by (auto simp: perform_def split: sum.splits)
next
  case ReconcileCommand
  then show ?thesis using assms(1) by (auto simp: perform_def reconcile_runtime_def split: prod.splits)
qed

lemma command_failed_sound:
  assumes "sound k now wd0 (wd, w)"
  shows "sound k now wd0 (snd (command_failed fin c msg (wd, w)))"
  using assms sound_queue[OF assms] fail_holder[of fin "c_id c" msg _ "w_queue wd"]
  by (auto simp: command_failed_def after_answer_def split: sum.splits intro!: sound_status) (auto simp: sound_def)

lemma execute_sound:
  assumes "sound k now wd0 s0" "closing c \<longrightarrow> x_stop_fault x = None"
  shows "sound k now wd0 (snd (execute_command now fin x c s0))"
proof -
  obtain res wd w where p: "perform now x c s0 = (res, wd, w)" by (metis surj_pair)
  then have h: "sound k now wd0 (wd, w)" using perform_sound[OF assms] by simp
  show ?thesis
    using command_failed_sound[OF h] h sound_queue[OF h] finish_holder[of fin "c_id c" CmdSucceeded _ "''''" "w_queue wd"]
    by (auto simp: execute_command_def p complete_def sound_def split: sum.splits)
qed

text \<open>The housekeeping of the loop.\<close>

lemma heartbeat_sound:
  assumes "sound k now wd0 s0"
  shows "sound k now wd0 (heartbeat clock now' s0)"
proof -
  obtain wd w where s0: "s0 = (wd, w)" by fastforce
  have "strategy_holder q = lease_of wd \<and> strategy_table_ok q = strategy_table_ok (w_queue wd)"
    if "fail_exhausted_commands now' m (w_queue wd) = Inr (n, q)" for m n q
    using that by (auto simp: fail_exhausted_commands_def elim!: ebind_InrE dest!: put_InrD)
  then show ?thesis using assms
    by (auto simp: heartbeat_def s0 sound_def backed_iff live_ids_def record_worker_heartbeat_def split: sum.splits)
qed

lemma process_ops_holder:
  "strategy_holder (snd (acquire_process_lease now key p d q)) = strategy_holder q"
  "strategy_table_ok (snd (acquire_process_lease now key p d q)) = strategy_table_ok q"
  "strategy_holder (snd (renew_process_lease now key p d q)) = strategy_holder q"
  "strategy_table_ok (snd (renew_process_lease now key p d q)) = strategy_table_ok q"
  "strategy_holder (release_process_lease key p q) = strategy_holder q"
  "strategy_table_ok (release_process_lease key p q) = strategy_table_ok q"
  by (auto simp: acquire_process_lease_def renew_process_lease_def release_process_lease_def Let_def split: option.splits)

lemma ensure_global_sound:
  assumes "sound k now wd0 s0"
  shows "sound k now wd0 (ensure_global_services clock now' support s0)"
proof -
  obtain wd w where s0: "s0 = (wd, w)" by fastforce
  show ?thesis using assms
    by (auto simp: ensure_global_services_def s0 sound_def backed_iff live_ids_def Let_def process_ops_holder split: prod.splits)
      (metis process_ops_holder snd_conv)+
qed

lemma renew_one_sound:
  assumes "sound k now wd0 s0"
  shows "sound k now wd0 (renew_one now' flaky faults s s0)"
proof -
  obtain wd w where s0: "s0 = (wd, w)" by fastforce
  have h: "sound k now wd0 (wd, w)" and k: "wk_id w = k" and t: "strategy_table_ok (w_queue wd)"
    using assms s0 by (auto simp: sound_def)
  obtain ok q where r: "renew_strategy_lease now' s k (wk_lease_secs w) (w_queue wd) = (ok, q)" by fastforce
  note e = renew_effect[OF t r]
  let ?wd = "wd\<lparr>w_queue := q\<rparr>"
  have "lease_of ?wd j = Some (p, x)" if "lease_of wd0 j = Some (p, x)" "p \<noteq> k" "now \<le> x" for j p x
  proof -
    have "lease_of wd j = Some (p, x)" using h that by (auto simp: sound_def)
    then show ?thesis using e(3)[of j] that(2) by simp
  qed
  then have s1: "sound k now wd0 (?wd, w)" using h e(1,2) by (auto simp: sound_def backed_iff simp del: map_option_eq_Some)
  obtain ok' wd2 w2 where sp: "stop_local False (faults s) s ?wd w = (ok', wd2, w2)" by (metis surj_pair)
  show ?thesis using h s1 stop_local_sound(1)[OF s1 sp] by (simp add: renew_one_def s0 k r sp Let_def)
qed

lemma fold_sound:
  "(\<And>s s0. sound k now wd0 s0 \<Longrightarrow> sound k now wd0 (f s s0)) \<Longrightarrow> sound k now wd0 s0 \<Longrightarrow> sound k now wd0 (fold f ss s0)"
  by (induction ss arbitrary: s0) auto

lemma renew_all_sound:
  assumes "sound k now wd0 s0"
  shows "sound k now wd0 (renew_runtime_leases clock now' flaky faults s0)"
proof -
  obtain wd w where s0: "s0 = (wd, w)" by fastforce
  have "sound k now wd0 (wd, w\<lparr>wk_renewal := clock\<rparr>)"
    using sound_fewer[of k now wd0 wd w "w\<lparr>wk_renewal := clock\<rparr>"] assms s0 by (simp add: live_ids_def)
  then show ?thesis using assms s0 renew_one_sound
    by (auto simp: renew_runtime_leases_def intro!: fold_sound)
qed

text \<open>A restoring process has no threads yet; its strategies are met once each.\<close>

lemma restore_one_sound:
  assumes "sound k now wd0 s0" "s \<notin> set (live_ids (snd s0))"
  shows "sound k now wd0 (restore_one now fs s s0)"
    "set (live_ids (snd (restore_one now fs s s0))) \<subseteq> insert s (set (live_ids (snd s0)))"
proof -
  obtain wd w where s0: "s0 = (wd, w)" by fastforce
  have k: "wk_id w = k" and h: "sound k now wd0 (wd, w)" using assms s0 by (auto simp: sound_def)
  obtain got wd1 where a: "acquire_runtime now s wd w = (got, wd1)" by fastforce
  obtain ok e where st: "executor_start (fst (fs s)) (snd (fs s)) s (wk_exec w) = (ok, e)" by fastforce
  let ?w1 = "w\<lparr>wk_exec := e\<rparr>"
  have acq: "sound k now wd0 (wd1, w)" "got \<Longrightarrow> map_option fst (lease_of wd1 s) = Some k"
    using sound_acquire[OF h a] by auto
  have live: "set (live_ids ?w1) = (if ok then insert s (set (live_ids w)) else set (live_ids w))"
    using executor_start_threads(1)[OF st] by (simp add: live_exec set_live_ids)
  show "set (live_ids (snd (restore_one now fs s s0))) \<subseteq> insert s (set (live_ids (snd s0)))"
    using live by (auto simp: restore_one_def s0 a st Let_def)
  show "sound k now wd0 (restore_one now fs s s0)"
  proof (cases "got \<and> \<not> ok")
    case True
    have "sound k now wd0 (wd1, ?w1)" "s \<notin> set (live_ids ?w1)"
      using sound_fewer[OF acq(1), of ?w1] live True assms(2) s0 by auto
    then show ?thesis using sound_release[of k now wd0 wd1 ?w1 s] True
      by (auto simp: restore_one_def s0 a st Let_def intro!: sound_status)
  next
    case False
    have "got \<Longrightarrow> sound k now wd0 (wd1, ?w1)"
      by (rule sound_live[OF acq(1), of _ s]) (use live acq(2) k in auto)
    then show ?thesis using False acq(1) by (auto simp: restore_one_def s0 a st Let_def)
  qed
qed

lemma restore_sound:
  assumes "sound k now wd0 (wd, w)" "dict_wf (w_status wd)" "live_ids w = []"
  shows "sound k now wd0 (restore_desired_strategies now fs (wd, w))"
proof -
  have "sound k now wd0 (fold (restore_one now fs) ss s0)"
    if "distinct ss" "set ss \<inter> set (live_ids (snd s0)) = {}" "sound k now wd0 s0" for ss s0
    using that
  proof (induction ss arbitrary: s0)
    case (Cons s ss)
    have "s \<notin> set (live_ids (snd s0))" using Cons.prems(2) by auto
    note r = restore_one_sound[OF Cons.prems(3) this, of fs]
    have "set ss \<inter> set (live_ids (snd (restore_one now fs s s0))) = {}" using r(2) Cons.prems(1,2) by auto
    then show ?case using Cons.IH[of "restore_one now fs s s0"] Cons.prems(1) r(1) by simp
  qed simp
  moreover have "distinct (map fst (filter (\<lambda>(k, v). v = ''running'') (w_status wd)))"
    using assms(2) by (rule distinct_map_filter)
  ultimately show ?thesis using assms(1,3) by (simp add: restore_desired_strategies_def)
qed

text \<open>Once the process has exited, none of its threads is left.\<close>

definition exited :: "worker \<Rightarrow> worker" where
  "exited w = w\<lparr>wk_exec := (wk_exec w)\<lparr>e_threads := []\<rparr>\<rparr>"

lemma live_exited [simp]: "live_ids (exited w) = []" "wk_id (exited w) = wk_id w"
  by (simp_all add: live_ids_def exited_def)

lemma sound_exited: "sound k now wd0 (wd, w) \<Longrightarrow> sound k now wd0 (wd, exited w)"
  by (rule sound_fewer) simp_all

lemma leave_sound:
  assumes "sound k now wd0 s0" "leave fin faults s0 = (wd', w')"
  shows "sound k now wd0 (wd', exited w')"
proof -
  define P where "P = (\<lambda>(wd, w). sound k now wd0 (wd, exited w))"
  have one: "P (shutdown_one faults s s1)" if "P s1" for s s1
  proof -
    obtain wd w where s1: "s1 = (wd, w)" by fastforce
    obtain ok wd2 w2 where sp: "stop_local False (faults s) s wd w = (ok, wd2, w2)" by (metis surj_pair)
    have "wk_id w2 = wk_id w" "w_queue wd2 = w_queue wd" "map fst (w_status wd2) = map fst (w_status wd)"
      using sp by (auto simp: stop_local_def executor_stop_def split: option.splits)
    then have "sound k now wd0 (wd2, exited w2)" using that s1 by (auto simp: P_def sound_def backed_iff)
    then have "sound k now wd0 (release_runtime s wd2 (exited w2), exited w2)" by (rule sound_release) simp
    then show ?thesis by (simp add: P_def shutdown_one_def s1 sp release_runtime_def)
  qed
  have "P (fold (shutdown_one faults) ss s1)" if "P s1" for ss s1
    using that one by (induction ss arbitrary: s1) auto
  then have "P (shutdown_local_runtimes faults s0)"
    using assms(1) sound_exited by (cases s0) (auto simp: P_def shutdown_local_runtimes_def)
  then show ?thesis using assms(2) process_ops_holder(5,6)
    by (auto simp: leave_def P_def sound_def backed_iff mark_worker_stopped_def exited_def live_ids_def Let_def split: prod.splits)
qed

subsection \<open>All workers\<close>

text \<open>
  The steps of a worker, at the instant each happens, the end of a thread, a killed process, and what the
  clients and the other processes do to the queue.
\<close>

datatype system_event =
    Executes nat int int run_answers command_row
  | Beats nat real int
  | Leads nat real int bool
  | RenewsAll nat real int "int \<Rightarrow> bool" "int \<Rightarrow> string option"
  | Restores nat int "int \<Rightarrow> string option \<times> string option"
  | Leaves nat int "int \<Rightarrow> string option"
  | Killed nat
  | ThreadEnds nat "string option" int
  | QueueDoes queue_event

type_synonym system = "world \<times> worker list"

text \<open>A step of one worker; one that is not there does nothing.\<close>

definition at_worker :: "nat \<Rightarrow> (world \<times> worker \<Rightarrow> world \<times> worker) \<Rightarrow> system \<Rightarrow> system" where
  "at_worker i f = (\<lambda>(wd, ws). if i < length ws then (let (wd', w') = f (wd, ws ! i) in (wd', ws[i := w'])) else (wd, ws))"

fun system_step :: "system_event \<Rightarrow> system \<Rightarrow> system" where
  "system_step (Executes i now fin x c) sy = at_worker i (\<lambda>s. snd (execute_command now fin x c s)) sy"
| "system_step (Beats i clock now) sy = at_worker i (heartbeat clock now) sy"
| "system_step (Leads i clock now support) sy = at_worker i (ensure_global_services clock now support) sy"
| "system_step (RenewsAll i clock now flaky faults) sy = at_worker i (renew_runtime_leases clock now flaky faults) sy"
| "system_step (Restores i now fs) sy = at_worker i (\<lambda>(wd, w). restore_desired_strategies now fs (wd, exited w)) sy"
| "system_step (Leaves i now faults) sy = at_worker i (\<lambda>s. let (wd, w) = leave now faults s in (wd, exited w)) sy"
| "system_step (Killed i) sy = at_worker i (\<lambda>(wd, w). (wd, exited w)) sy"
| "system_step (ThreadEnds i reason s) sy = at_worker i (\<lambda>(wd, w). (wd, w\<lparr>wk_exec := thread_ends reason s (wk_exec w)\<rparr>)) sy"
| "system_step (QueueDoes e) (wd, ws) = (wd\<lparr>w_queue := queue_act e (w_queue wd)\<rparr>, ws)"

fun event_time :: "system_event \<Rightarrow> int option" where
  "event_time (Executes i now fin x c) = Some now"
| "event_time (RenewsAll i clock now flaky faults) = Some now"
| "event_time (Restores i now fs) = Some now"
| "event_time (QueueDoes (Cleanup now c h)) = Some now"
| "event_time _ = None"

text \<open>
  The step happens while every lease behind a live runtime is still good, and it is no closing stop that
  fails.
\<close>

definition in_term :: "int \<Rightarrow> system \<Rightarrow> bool" where
  "in_term now = (\<lambda>(wd, ws). list_all (\<lambda>w. list_all (\<lambda>s.
      case lease_of wd s of None \<Rightarrow> False | Some (p, x) \<Rightarrow> now \<le> x) (live_ids w)) ws)"

fun well_timed :: "system_event list \<Rightarrow> system \<Rightarrow> bool" where
  "well_timed [] sy = True"
| "well_timed (e # es) sy =
     ((case event_time e of None \<Rightarrow> True | Some now \<Rightarrow> in_term now sy) \<and>
      (case e of Executes i now fin x c \<Rightarrow> closing c \<longrightarrow> x_stop_fault x = None | _ \<Rightarrow> True) \<and>
      well_timed es (system_step e sy))"

definition system_ok :: "system \<Rightarrow> bool" where
  "system_ok = (\<lambda>(wd, ws). strategy_table_ok (w_queue wd) \<and> dict_wf (w_status wd) \<and>
     distinct (map wk_id ws) \<and> list_all (backed wd) ws)"

lemma system_okD:
  assumes "system_ok (wd, ws)" "i < length ws"
  shows "sound (wk_id (ws ! i)) now wd (wd, ws ! i)" "dict_wf (w_status wd)"
  using assms by (auto simp: system_ok_def sound_def list_all_length)

text \<open>
  A step of one worker keeps the others backed when it leaves their unexpired leases alone at an instant
  those leases still reach.
\<close>

lemma at_worker_ok:
  assumes ok: "system_ok (wd, ws)" and i: "i < length ws" and f: "f (wd, ws ! i) = (wd', w')"
    and snd: "\<And>x. good x \<Longrightarrow> \<exists>now \<le> x. sound (wk_id (ws ! i)) now wd (wd', w')" "good x0"
    and others: "\<And>w s p x. w \<in> set ws \<Longrightarrow> s \<in> set (live_ids w) \<Longrightarrow> lease_of wd s = Some (p, x) \<Longrightarrow> good x"
  shows "system_ok (at_worker i f (wd, ws))"
proof -
  obtain now where s: "sound (wk_id (ws ! i)) now wd (wd', w')" using snd by blast
  then have own: "wk_id w' = wk_id (ws ! i)" "backed wd' w'" "strategy_table_ok (w_queue wd')"
    "map fst (w_status wd') = map fst (w_status wd)" by (auto simp: sound_def)
  have ids: "map wk_id (ws[i := w']) = map wk_id ws" using own(1) i by (simp add: map_update list_update_same_conv)
  have "backed wd' (ws ! j)" if "j < length ws" "j \<noteq> i" for j
  proof -
    have "wk_id (ws ! j) \<noteq> wk_id (ws ! i)"
      using ok i that by (auto simp: system_ok_def distinct_conv_nth)
    moreover have "map_option fst (lease_of wd s) = Some (wk_id (ws ! j))" if "s \<in> set (live_ids (ws ! j))" for s
      using ok that \<open>j < length ws\<close> by (simp add: system_ok_def list_all_length backed_iff)
    ultimately have "map_option fst (lease_of wd' s) = Some (wk_id (ws ! j))" if l: "s \<in> set (live_ids (ws ! j))" for s
    proof -
      obtain x where x: "lease_of wd s = Some (wk_id (ws ! j), x)"
        using \<open>\<And>s. s \<in> set (live_ids (ws ! j)) \<Longrightarrow> _\<close>[OF l] by auto
      obtain now where "now \<le> x" "sound (wk_id (ws ! i)) now wd (wd', w')"
        using snd(1)[OF others[OF nth_mem[OF \<open>j < length ws\<close>] l x]] by blast
      then have "lease_of wd' s = Some (wk_id (ws ! j), x)"
        using x \<open>wk_id (ws ! j) \<noteq> wk_id (ws ! i)\<close> by (auto simp: sound_def)
      then show ?thesis by simp
    qed
    then show ?thesis by (simp add: backed_iff)
  qed
  then have "list_all (backed wd') (ws[i := w'])" using own(2) i by (auto simp: list_all_length nth_list_update)
  then show ?thesis using ok i f own(3,4) ids by (simp add: at_worker_def system_ok_def)
qed

lemma at_worker_timed:
  assumes "system_ok (wd, ws)" "in_term now (wd, ws)"
    and "i < length ws \<Longrightarrow> sound (wk_id (ws ! i)) now wd (f (wd, ws ! i))"
  shows "system_ok (at_worker i f (wd, ws))"
proof (cases "i < length ws")
  case True
  obtain wd' w' where f: "f (wd, ws ! i) = (wd', w')" by fastforce
  have "now \<le> x" if "w \<in> set ws" "s \<in> set (live_ids w)" "lease_of wd s = Some (p, x)" for w s p x
    using assms(2) that by (fastforce simp: in_term_def list_all_iff)
  then show ?thesis
    by (intro at_worker_ok[where good = "\<lambda>x. now \<le> x" and ?x0.0 = now and f = f, OF assms(1) True f]) (use assms(3)[OF True] f in auto)
next
  case False
  then show ?thesis using assms(1) by (simp add: at_worker_def)
qed

lemma at_worker_untimed:
  assumes "system_ok (wd, ws)" "\<And>now. i < length ws \<Longrightarrow> sound (wk_id (ws ! i)) now wd (f (wd, ws ! i))"
  shows "system_ok (at_worker i f (wd, ws))"
proof (cases "i < length ws")
  case True
  obtain wd' w' where f: "f (wd, ws ! i) = (wd', w')" by fastforce
  show ?thesis
    by (rule at_worker_ok[where good = "\<lambda>x. True" and f = f, OF assms(1) True f]) (use assms(2)[OF True] f in auto)
next
  case False
  then show ?thesis using assms(1) by (simp add: at_worker_def)
qed

lemma put_leases: "put_commands rs q = Inr q' \<Longrightarrow> leases q' = leases q"
  by (drule put_InrD) simp

lemma queue_step_leases:
  assumes "queue_step e q = Inr q'" "\<forall>now c h. e \<noteq> Cleanup now c h"
  shows "leases q' = leases q"
proof (cases e)
  case (Enqueue now strategy cmd user payload key fresh)
  then obtain r where "enqueue now strategy cmd user payload key fresh q = Inr (r, q')"
    using assms(1) by (auto elim!: ebind_InrE)
  then show ?thesis by (cases rule: enqueue_cases) simp_all
next
  case (ClaimNext now o' secs m locked)
  then obtain r where c: "claim_next now o' secs m locked q = Inr (r, q')" using assms(1) by (auto elim!: ebind_InrE)
  show ?thesis
  proof (cases "oldest (filter (\<lambda>r. due now m r \<and> addressed now o' q r \<and> c_id r \<notin> set locked) (commands q))")
    case (Some r)
    then show ?thesis using c by (auto simp: claim_next_def elim!: ebind_InrE dest: put_leases)
  qed (use c in \<open>simp add: claim_next_def\<close>)
next
  case (FailExhausted now m)
  then show ?thesis using assms(1) by (auto simp: fail_exhausted_commands_def elim!: ebind_InrE dest: put_leases)
next
  case (FailCommand now i err retry)
  then show ?thesis using assms(1)
    by (cases retry) (auto simp: fail_command_def finish_command_def dest: put_leases)
qed (use assms in \<open>auto simp: complete_def finish_command_def dest: put_leases\<close>)

lemma queue_act_leases: "(\<forall>now c h. e \<noteq> Cleanup now c h) \<Longrightarrow> leases (queue_act e q) = leases q"
  using queue_step_leases[of e q] by (simp add: queue_act_def split: sum.split)

lemma same_leases:
  "leases q = leases q' \<Longrightarrow> strategy_holder q = strategy_holder q'"
  "leases q = leases q' \<Longrightarrow> strategy_table_ok q = strategy_table_ok q'"
  by (simp_all add: strategy_holder_def strategy_table_ok_def fun_eq_iff)

lemma system_step_ok:
  assumes "system_ok sy" "well_timed [e] sy"
  shows "system_ok (system_step e sy)"
proof -
  obtain wd ws where sy: "sy = (wd, ws)" by fastforce
  note ok = assms(1)[unfolded sy]
  note start = system_okD(1)[OF ok]
  show ?thesis
  proof (cases e)
    case (Executes i now fin x c)
    then show ?thesis using assms(2) sy execute_sound[OF start]
      by (auto intro!: at_worker_timed[OF ok])
  next
    case (Beats i clock now)
    then show ?thesis using sy heartbeat_sound[OF start] by (auto intro!: at_worker_untimed[OF ok])
  next
    case (Leads i clock now support)
    then show ?thesis using sy ensure_global_sound[OF start] by (auto intro!: at_worker_untimed[OF ok])
  next
    case (RenewsAll i clock now flaky faults)
    then show ?thesis using sy renew_all_sound[OF start] by (auto intro!: at_worker_untimed[OF ok])
  next
    case (Restores i now fs)
    then show ?thesis using assms(2) sy restore_sound[OF sound_exited[OF start] system_okD(2)[OF ok]]
      by (auto intro!: at_worker_timed[OF ok])
  next
    case (Leaves i now faults)
    then show ?thesis using sy leave_sound[OF start] by (auto intro!: at_worker_untimed[OF ok] split: prod.splits)
  next
    case (Killed i)
    then show ?thesis using sy sound_exited[OF start] by (auto intro!: at_worker_untimed[OF ok])
  next
    case (ThreadEnds i reason s)
    have "sound (wk_id (ws ! i)) now wd (wd, (ws ! i)\<lparr>wk_exec := thread_ends reason s (wk_exec (ws ! i))\<rparr>)"
      if "i < length ws" for now
      by (rule sound_fewer[OF start[OF that]]) (auto simp: set_live_ids thread_ends_def set_dict_pop)
    then show ?thesis using sy ThreadEnds by (auto intro!: at_worker_untimed[OF ok])
  next
    case (QueueDoes q)
    let ?wd = "wd\<lparr>w_queue := queue_act q (w_queue wd)\<rparr>"
    have "strategy_table_ok (queue_act q (w_queue wd)) \<and>
      (\<forall>w \<in> set ws. \<forall>s \<in> set (live_ids w). map_option fst (lease_of ?wd s) = map_option fst (lease_of wd s))"
    proof (cases "\<exists>now c h. q = Cleanup now c h")
      case True
      then obtain now c h where q: "q = Cleanup now c h" by blast
      have t: "strategy_table_ok (w_queue wd)" using ok by (simp add: system_ok_def)
      have "leases (queue_act q (w_queue wd)) = leases (snd (strategy_lease_act (Sweep now) (w_queue wd)))"
        by (simp add: q queue_act_def cleanup_runtime_metadata_def Let_def)
      from same_leases[OF this]
      have "lease_of ?wd = snd (spec_step (Sweep now) (lease_of wd))" "strategy_table_ok (w_queue ?wd)"
        using strategy_act_spec(2)[OF t, of "Sweep now"] strategy_act_ok[OF t, of "Sweep now"] by simp_all
      moreover have "\<exists>p x. lease_of wd s = Some (p, x) \<and> \<not> x < now - days 1" if "w \<in> set ws" "s \<in> set (live_ids w)" for w s
        using assms(2) QueueDoes sy q that by (fastforce simp: in_term_def list_all_iff days_def split: option.splits)
      ultimately show ?thesis by (fastforce simp del: map_option_eq_Some)
    next
      case False
      then have "leases (queue_act q (w_queue wd)) = leases (w_queue wd)" using queue_act_leases by blast
      then show ?thesis using ok by (simp add: strategy_holder_def strategy_table_ok_def system_ok_def)
    qed
    then show ?thesis using ok QueueDoes sy by (auto simp: system_ok_def list_all_iff backed_iff simp del: map_option_eq_Some)
  qed
qed

lemma system_run_ok: "system_ok sy \<Longrightarrow> well_timed es sy \<Longrightarrow> system_ok (fold system_step es sy)"
proof (induction es arbitrary: sy)
  case (Cons e es)
  then show ?case using system_step_ok[of sy e] by simp
qed simp

definition one_runtime_each :: "worker list \<Rightarrow> bool" where
  "one_runtime_each ws = sorted_wrt (\<lambda>v w. list_all (\<lambda>s. s \<notin> set (live_ids w)) (live_ids v)) ws"

lemma system_ok_one: "system_ok (wd, ws) \<Longrightarrow> one_runtime_each ws"
  unfolding one_runtime_each_def sorted_wrt_iff_nth_less
proof (intro allI impI)
  fix i j
  assume ok: "system_ok (wd, ws)" and ij: "i < j" "j < length ws"
  have ids: "wk_id (ws ! i) \<noteq> wk_id (ws ! j)" using ok ij by (simp add: system_ok_def distinct_conv_nth)
  have owner: "map_option fst (lease_of wd s) = Some (wk_id (ws ! k))" if "k < length ws" "s \<in> set (live_ids (ws ! k))" for k s
    using ok that by (simp add: system_ok_def list_all_length backed_iff)
  show "list_all (\<lambda>s. s \<notin> set (live_ids (ws ! j))) (live_ids (ws ! i))"
    unfolding list_all_iff
  proof (intro ballI notI)
    fix s
    assume s: "s \<in> set (live_ids (ws ! i))" "s \<in> set (live_ids (ws ! j))"
    have "i < length ws" using ij by simp
    then have "Some (wk_id (ws ! i)) = Some (wk_id (ws ! j))"
      using owner[OF _ s(1)] owner[OF ij(2) s(2)] by (simp del: map_option_eq_Some)
    then show False using ids by simp
  qed
qed

subsection \<open>A command that is executed\<close>

text \<open>Performing a command leaves the queue's rows and the worker's limits alone.\<close>

definition same_queue :: "world \<times> worker \<Rightarrow> world \<times> worker \<Rightarrow> bool" where
  "same_queue = (\<lambda>(wd, w) (wd', w'). commands (w_queue wd') = commands (w_queue wd) \<and>
     next_command (w_queue wd') = next_command (w_queue wd) \<and> wk_attempts w' = wk_attempts w)"

lemma acquire_same: "acquire_runtime now s wd w = (got, wd') \<Longrightarrow>
  commands (w_queue wd') = commands (w_queue wd) \<and> next_command (w_queue wd') = next_command (w_queue wd)"
  by (auto simp: acquire_runtime_def acquire_strategy_lease_def Let_def split: option.splits if_splits prod.splits)

lemma release_same [simp]:
  "commands (w_queue (release_runtime s wd w)) = commands (w_queue wd)"
  "next_command (w_queue (release_runtime s wd w)) = next_command (w_queue wd)"
  by (simp_all add: release_runtime_def release_strategy_lease_def)

lemma stop_local_same: "stop_local persist fault s wd w = (ok, wd', w') \<Longrightarrow> w_queue wd' = w_queue wd \<and> wk_attempts w' = wk_attempts w"
  by (auto simp: stop_local_def split: prod.splits)

lemma start_same: "same_queue s0 (snd (start_runtime now x s s0))"
  by (auto simp: start_runtime_def same_queue_def Let_def dest!: acquire_same stop_local_same split: prod.splits)

lemma stop_same: "same_queue s0 (snd (stop_runtime close x s s0))"
  by (auto simp: stop_runtime_def same_queue_def Let_def dest!: stop_local_same split: prod.splits sum.splits)

lemma same_trans: "same_queue s t \<Longrightarrow> same_queue t u \<Longrightarrow> same_queue s u"
  by (auto simp: same_queue_def)

lemma perform_same: "same_queue s0 (snd (perform now x c s0))"
proof (cases "c_type c")
  case RestartCommand
  obtain res s1 where r: "stop_runtime False x (c_strategy c) s0 = (res, s1)" by (metis surj_pair)
  then have "same_queue s0 s1" using stop_same[of s0 False x "c_strategy c"] by simp
  then show ?thesis using RestartCommand r start_same[of s1 now x "c_strategy c"]
    by (auto simp: perform_def split: sum.splits intro: same_trans)
qed (simp_all add: perform_def start_same stop_same, auto simp: reconcile_runtime_def same_queue_def)

lemma queue_ok_same: "commands q' = commands q \<Longrightarrow> next_command q' = next_command q \<Longrightarrow> queue_ok q' = queue_ok q"
  by (simp add: queue_ok_def)

lemma retry_delay_bounds: "1 \<le> retry_delay n" "retry_delay n \<le> 60"
  by (simp_all add: retry_delay_def)

definition settled :: "int \<Rightarrow> command_row \<Rightarrow> bool" where
  "settled fin r = (c_expires r = None \<and>
     (c_status r = CmdSucceeded \<or> c_status r = CmdFailed \<or>
      (c_status r = CmdPending \<and> fin + seconds 1 \<le> c_available r \<and> c_available r \<le> fin + seconds 60)))"

lemma finish_settles:
  assumes "queue_ok q" "get_command i q = Some r" "\<not> active_status st" "st \<noteq> CmdCancelled"
  shows "\<exists>q' r'. finish_command fin i st res err q = Inr q' \<and> get_command i q' = Some r' \<and> settled fin r' \<and> c_status r' = st"
proof -
  have i: "c_id r = i" using assms(2) get_commandD by blast
  show ?thesis
    unfolding finish_result(1)[OF assms(1,3), of fin i res err]
    using assms(2-4) i by (cases st) (auto simp: get_update settled_def)
qed

lemma fail_settles:
  assumes "queue_ok q" "get_command i q = Some r" "c_status r = CmdProcessing"
    and "\<And>d. retry = Some d \<Longrightarrow> 1 \<le> d \<and> d \<le> 60" "fail_command fin i msg retry q = m"
  shows "\<exists>q' r'. m = Inr q' \<and> get_command i q' = Some r' \<and> settled fin r' \<and> c_status r' = (if retry = None then CmdFailed else CmdPending)"
proof (cases retry)
  case None
  then show ?thesis using finish_settles[OF assms(1,2), of CmdFailed fin JNull msg] assms(5) by (simp add: fail_command_def)
next
  case (Some d)
  have r: "r \<in> set (commands q)" "c_id r = i" using get_commandD[OF assms(2)] by auto
  have "\<not> terminal_status (c_status x)" if "x \<in> set (commands q)" "c_id x = i" for x
    using same_id[OF assms(1) r(1) that(1)] r(2) that(2) assms(3) by (simp add: terminal_not_active)
  then have "\<not> revives (FailCommand fin i msg (Some d)) q" by (auto simp: revives_def list_ex_iff)
  then obtain q' where q': "fail_command fin i msg (Some d) q = Inr q'"
    using retry_raises[OF assms(1), of fin i msg d] by (cases "fail_command fin i msg (Some d) q") auto
  then have q'2: "q' = q\<lparr>commands := update_where (\<lambda>r. c_id r = i)
      (\<lambda>r. r\<lparr>c_status := CmdPending, c_error := take 4000 msg, c_available := fin + seconds d, c_expires := None\<rparr>) (commands q)\<rparr>"
    by (auto simp: fail_command_def dest!: put_InrD)
  have "get_command i q' = Some (r\<lparr>c_status := CmdPending, c_error := take 4000 msg, c_available := fin + seconds d, c_expires := None\<rparr>)"
    using q'2 assms(2) r(2) by (simp add: get_update)
  moreover have "m = Inr q'" using q' assms(5) Some by simp
  ultimately show ?thesis using assms(4)[OF Some] Some by (simp add: settled_def seconds_def)
qed

lemma execute_settles:
  assumes "queue_ok (w_queue wd)" "get_command (c_id c) (w_queue wd) = Some r" "c_status r = CmdProcessing"
  shows "\<exists>wd' w' r'. execute_command now fin x c (wd, w) = (None, wd', w') \<and>
    get_command (c_id c) (w_queue wd') = Some r' \<and> settled fin r' \<and>
    (c_status r' = CmdPending \<longrightarrow> c_attempts c < wk_attempts w)"
proof -
  obtain res wd1 w1 where p: "perform now x c (wd, w) = (res, wd1, w1)" by (metis surj_pair)
  then have same: "commands (w_queue wd1) = commands (w_queue wd)" "next_command (w_queue wd1) = next_command (w_queue wd)"
    "wk_attempts w1 = wk_attempts w" using perform_same[of "(wd, w)" now x c] by (auto simp: same_queue_def)
  have ok: "queue_ok (w_queue wd1)" using assms(1) queue_ok_same[OF same(1,2)] by simp
  have r: "get_command (c_id c) (w_queue wd1) = Some r" using assms(2) same(1) by (simp add: get_command_def)
  show ?thesis
  proof (cases res)
    case (Inr v)
    obtain q r' where "finish_command fin (c_id c) CmdSucceeded v '''' (w_queue wd1) = Inr q"
      "get_command (c_id c) q = Some r'" "settled fin r'" "c_status r' = CmdSucceeded"
      using finish_settles[OF ok r, of CmdSucceeded fin v "''''"] by auto
    then show ?thesis using Inr by (simp add: execute_command_def p complete_def)
  next
    case (Inl msg)
    let ?retry = "if c_attempts c < wk_attempts w then Some (retry_delay (c_attempts c)) else None"
    have d: "1 \<le> d \<and> d \<le> 60" if "?retry = Some d" for d
      using that retry_delay_bounds by (auto split: if_splits)
    obtain q r' where "fail_command fin (c_id c) msg ?retry (w_queue wd1) = Inr q" "get_command (c_id c) q = Some r'"
      "settled fin r'" "c_status r' = (if ?retry = None then CmdFailed else CmdPending)"
      using fail_settles[OF ok r assms(3) d refl, where fin = fin and msg = msg] by blast
    then show ?thesis using Inl same(3)
      by (auto simp: execute_command_def p command_failed_def after_answer_def split: if_splits)
  qed
qed

subsection \<open>Properties\<close>

definition demo_executor :: executor where
  "demo_executor = \<lparr>e_threads = [], e_max = 64, e_failure = '''', e_exits = []\<rparr>"

definition demo_system :: system where
  "demo_system = (\<lparr>w_queue = empty_queue, w_status = [(7, ''running''), (8, ''running'')]\<rparr>,
     [new_worker ''w1'' 30 30 3 demo_executor, new_worker ''w2'' 30 30 3 demo_executor])"

definition demo_answers :: run_answers where
  "demo_answers = \<lparr>x_preflight = None, x_spawn = None, x_views = [ThreadAlive], x_stop_fault = None,
     x_cleanup_fault = None, x_reading = Inr \<lparr>sg_strategy = JDict [], sg_config = JDict [], sg_legs = [], sg_run = 1\<rparr>,
     x_submit = (\<lambda>r. Inr 1)\<rparr>"

definition demo_command :: "int \<Rightarrow> command_type \<Rightarrow> json \<Rightarrow> int \<Rightarrow> command_row" where
  "demo_command s ty payload attempts = (new_command 0 s s 1 ty ''k'' payload)\<lparr>c_attempts := attempts\<rparr>"


definition demo_shift :: "system_event list" where
  "demo_shift = [Executes 0 0 1 demo_answers (demo_command 7 StartCommand JNull 1),
     Executes 1 5000000 5000001 demo_answers (demo_command 7 StartCommand JNull 1),
     Restores 1 9000000 (\<lambda>s. (None, None)),
     Executes 0 10000000 10000001 demo_answers (demo_command 7 StopCommand (JDict [(''close_positions'', JBool True)]) 1),
     Executes 1 12000000 12000001 demo_answers (demo_command 7 StartCommand JNull 1)]"


text \<open>
  C20: a worker that executes a command while its claim stands always settles it, whatever the executor
  answers: the command is then finished, or it waits for a retry that starts 1 to 60 seconds later, and only
  while attempts are left.
\<close>

theorem executed_command_is_settled:
  assumes "get_command (c_id c) (fold queue_act es empty_queue) = Some r" "c_status r = CmdProcessing"
    and "w_queue wd = fold queue_act es empty_queue"
  shows "\<exists>wd' w' r'. execute_command now fin x c (wd, w) = (None, wd', w') \<and>
    get_command (c_id c) (w_queue wd') = Some r' \<and> settled fin r' \<and>
    (c_status r' = CmdPending \<longrightarrow> c_attempts c < wk_attempts w)"
  by (rule execute_settles) (use assms command_queue.run_inv[OF empty_queue_ok(1), of es] in auto)

lemma executed_command_is_settled_witness:
  "\<exists>wd' w' r'. execute_command 2000000 3000000 (demo_answers\<lparr>x_preflight := Some ''no key''\<rparr>) (demo_command 1 StartCommand JNull 1)
     (\<lparr>w_queue = fold queue_act demo_requests empty_queue, w_status = [(1, ''running'')]\<rparr>, new_worker ''w1'' 30 30 3 demo_executor) =
       (None, wd', w') \<and> get_command 1 (w_queue wd') = Some r' \<and> settled 3000000 r'"
proof -
  define q where "q = claimed 1000000 ''w1'' 30 (new_command 0 1 7 1 StartCommand ''k1'' (JDict []))"
  have "get_command 1 (fold queue_act demo_requests empty_queue) = Some q" "c_status q = CmdProcessing"
    "c_id (demo_command 1 StartCommand JNull 1) = 1"
    unfolding q_def by code_simp+
  then show ?thesis
    using executed_command_is_settled[of "demo_command 1 StartCommand JNull 1" demo_requests q
        "\<lparr>w_queue = fold queue_act demo_requests empty_queue, w_status = [(1, ''running'')]\<rparr>" 2000000 3000000
        "demo_answers\<lparr>x_preflight := Some ''no key''\<rparr>" "new_worker ''w1'' 30 30 3 demo_executor"]
    by auto
qed

subsection \<open>What breaks it\<close>

text \<open>
  Three runs that need one of the conditions. A closing stop that fails gives the lease up while the runtime
  stays, so another worker starts the same strategy. A worker that does not renew in time keeps its runtime
  after another one has taken the strategy over. And a start that reaches a worker other than the owner, which
  the queue allows, fails on the lease; at the last attempt it marks the healthy strategy as stopped.
\<close>

definition failed_closing_stop :: "system_event list" where
  "failed_closing_stop = [Executes 0 0 1 demo_answers (demo_command 7 StartCommand JNull 1),
     Executes 0 5 6 (demo_answers\<lparr>x_stop_fault := Some ''grid''\<rparr>) (demo_command 7 StopCommand (JDict [(''close_positions'', JBool True)]) 1),
     Executes 1 8 9 demo_answers (demo_command 7 StartCommand JNull 1)]"

lemma failed_closing_stop_doubles: "map live_ids (snd (fold system_step failed_closing_stop demo_system)) = [[7], [7]]"
  by code_simp

definition stalled_worker :: "system_event list" where
  "stalled_worker = [Executes 0 0 1 demo_answers (demo_command 7 StartCommand JNull 1),
     Executes 1 31000000 31000001 demo_answers (demo_command 7 StartCommand JNull 1)]"

lemma stalled_worker_doubles: "map live_ids (snd (fold system_step stalled_worker demo_system)) = [[7], [7]]"
  by code_simp

definition foreign_start :: "system_event list" where
  "foreign_start = [Executes 0 0 1 demo_answers (demo_command 7 StartCommand JNull 1),
     Executes 1 5000000 5000001 demo_answers (demo_command 7 StartCommand JNull 3)]"

lemma foreign_start_marks_stopped:
  "map_of (w_status (fst (fold system_step foreign_start demo_system))) 7 = Some ''stopped''"
  "map live_ids (snd (fold system_step foreign_start demo_system)) = [[7], []]"
  by code_simp+

subsection \<open>Closing stops\<close>

lemma close_one_counts:
  "rp_queued (close_one submit sy lev run leg rp) + int (length (rp_errors (close_one submit sy lev run leg rp))) =
     rp_queued rp + int (length (rp_errors rp)) + 1"
  "rp_success (close_one submit sy lev run leg rp) = rp_success rp"
  by (auto simp: close_one_def Let_def split: sum.splits)

lemma close_all_counts:
  "rp_queued (fold (close_one submit sy lev run) legs rp) + int (length (rp_errors (fold (close_one submit sy lev run) legs rp))) =
     rp_queued rp + int (length (rp_errors rp)) + int (length legs)"
  "rp_success (fold (close_one submit sy lev run) legs rp) = rp_success rp"
  by (induction legs arbitrary: rp) (simp_all add: close_one_counts algebra_simps)

text \<open>
  a closing stop that gets as far as its legs accounts for each of them: it is queued or it is among the
  errors; it reports success exactly when there is no error, and the strategy has no thread left.
\<close>

theorem closing_stop_accounts_for_legs:
  assumes "stop_with_policy True (Inr sr) submit None s st e = (Inr rp, st', e')" "0 < sg_run sr"
  shows "rp_queued rp + int (length (rp_errors rp)) = int (length (sg_legs sr)) \<and>
    rp_success rp = (rp_errors rp = []) \<and> map_of (e_threads e') s = None"
proof -
  define rp0 where "rp0 = \<lparr>rp_success = True, rp_status = ''stopped'', rp_requested = True, rp_queued = 0, rp_errors = []\<rparr>"
  have gone: "map_of (dict_pop s (e_threads e)) s = None" by (simp add: lookup_pop)
  show ?thesis
  proof (cases "sg_legs sr = []")
    case True
    then show ?thesis using assms gone by (auto simp: stop_with_policy_def executor_stop_def Let_def)
  next
    case False
    then obtain lev where lev: "py_float_of (json_or (get (sg_config sr) ''leverage'') (json_or (get (sg_strategy sr) ''leverage'') (JNum 1))) = Some lev"
      using assms by (auto simp: stop_with_policy_def executor_stop_def Let_def split: option.splits)
    define out where "out = fold (close_one submit (sg_strategy sr) (max 1 lev) (sg_run sr)) (sg_legs sr) rp0"
    have "rp_queued out + int (length (rp_errors out)) = int (length (sg_legs sr))" "rp_success out"
      unfolding out_def close_all_counts by (simp_all add: rp0_def)
    moreover have "rp = (if rp_errors out \<noteq> [] then out\<lparr>rp_success := False\<rparr> else out)" "e' = e\<lparr>e_threads := dict_pop s (e_threads e)\<rparr>"
      using assms False lev by (auto simp: stop_with_policy_def executor_stop_def Let_def rp0_def out_def)
    ultimately show ?thesis using gone by (cases "rp_errors out = []") simp_all
  qed
qed

definition demo_owned :: "string \<Rightarrow> real \<Rightarrow> owned_leg" where
  "demo_owned side price = \<lparr>ol_symbol = ''BTC/USDT'', ol_side = side, ol_amount = 1, ol_entry = price, ol_current = 0, ol_market = ''swap''\<rparr>"

lemma closing_stop_accounts_for_legs_witness:
  "\<exists>rp st' e'. stop_with_policy True (Inr \<lparr>sg_strategy = JDict [], sg_config = JDict [], sg_legs = [demo_owned ''long'' 100, demo_owned ''net'' 100], sg_run = 4\<rparr>)
     (\<lambda>r. Inr 1) None 7 [(7, ''running'')] (demo_executor\<lparr>e_threads := [(7, True)]\<rparr>) = (Inr rp, st', e') \<and>
     rp_queued rp + int (length (rp_errors rp)) = 2"
proof -
  let ?r = "stop_with_policy True (Inr \<lparr>sg_strategy = JDict [], sg_config = JDict [], sg_legs = [demo_owned ''long'' 100, demo_owned ''net'' 100], sg_run = 4\<rparr>)
     (\<lambda>r. Inr 1) None 7 [(7, ''running'')] (demo_executor\<lparr>e_threads := [(7, True)]\<rparr>)"
  obtain rp st' e' where r: "?r = (Inr rp, st', e')"
    by (simp add: stop_with_policy_def executor_stop_def Let_def json_or_def get_def)
  then show ?thesis using closing_stop_accounts_for_legs[OF r] by simp
qed

end
