(* ===== verification/Streams.thy ===== *)
theory Streams
  imports GridEngine
begin

text \<open>
  The private execution streams of the exchanges (\<open>execution_streams/events.py\<close>, \<open>repository.py\<close>,
  \<open>processor.py\<close>, \<open>pending_orders/fill_records.py\<close>): fill reports are stored once, bound to the order they belong
  to, and posted to the ledgers of strategies, grids and quick trades. The digest of a report's key, the
  strategy's configuration, its leg and the ticker are parameters; so is the failure of a call or a
  transaction between two others, which leaves what was committed before.
\<close>

subsection \<open>Reports\<close>

definition normalize_event_status :: "string \<Rightarrow> string" where
  "normalize_event_status v =
     (let raw = replace_char CHR ''-'' ''_'' (lower_strip v) in
      if raw \<in> {''filled'', ''fill'', ''closed'', ''done'', ''fully_filled'', ''full_fill''} then ''filled''
      else if raw \<in> {''partiallyfilled'', ''partially_filled'', ''partial_fill'', ''partial''} then ''partial''
      else if raw \<in> {''cancelled'', ''canceled'', ''expired'', ''rejected'', ''failed''} then ''cancelled''
      else if raw \<in> {''new'', ''open'', ''live'', ''submitted'', ''accepted''} then ''open''
      else raw)"

definition drop_suffix :: "string \<Rightarrow> string \<Rightarrow> string" where
  "drop_suffix q s = (if py_endswith s q then take (length s - length q) s else s)"

fun slash_quote :: "string list \<Rightarrow> string \<Rightarrow> string" where
  "slash_quote [] raw = raw"
| "slash_quote (q # qs) raw =
     (if CHR ''/'' \<notin> set raw \<and> py_endswith raw q \<and> length q < length raw
      then take (length raw - length q) raw @ ''/'' @ q else slash_quote qs raw)"

definition normalize_event_symbol :: "string \<Rightarrow> string" where
  "normalize_event_symbol v =
     (let raw = replace_char CHR ''_'' ''/'' (replace_char CHR ''-'' ''/'' (py_upper (py_strip v))) in
      slash_quote [''USDT'', ''USDC'', ''USD'', ''BTC'', ''ETH'']
        (fold drop_suffix [''/SWAP'', ''/PERP'', ''/PERPETUAL''] raw))"

record fee_component =
  fc_type :: string
  fc_ccy :: string
  fc_amount :: real
  fc_quote :: "real option"
  fc_source :: string

record exec_event =
  ee_exchange :: string
  ee_market :: string
  ee_symbol :: string
  ee_order :: string
  ee_client :: string
  ee_fill :: string
  ee_status :: string
  ee_price :: real
  ee_qty :: real
  ee_cum :: real
  ee_is_cum :: bool
  ee_pnl :: "real option"
  ee_fee_status :: string
  ee_occurred :: int
  ee_credential :: int
  ee_user :: int
  ee_raw :: json

text \<open>The raw message \<open>ee_raw\<close> is the one stored, without the partner's attribution. What identifies a report: the exchange's fill, or without one everything it says. The key is its digest.\<close>

datatype report_key =
    FillKey string int string string string
  | ReportKey string int string string string string real real real int string

definition round12 :: "real \<Rightarrow> real" where
  "round12 x = (if x < 0 then - of_int \<lfloor>- x * 1000000000000 + 1 / 2\<rfloor> / 1000000000000
                else of_int \<lfloor>x * 1000000000000 + 1 / 2\<rfloor> / 1000000000000)"

definition event_key :: "exec_event \<Rightarrow> report_key" where
  "event_key e =
     (if py_strip (ee_fill e) \<noteq> []
      then FillKey (ee_exchange e) (ee_credential e) (ee_market e) (ee_order e) (py_strip (ee_fill e))
      else ReportKey (ee_exchange e) (ee_credential e) (ee_market e) (ee_order e) (ee_client e) (ee_symbol e)
             (round12 (ee_qty e)) (round12 (ee_cum e)) (round12 (ee_price e)) (ee_occurred e) (ee_status e))"

subsection \<open>Tables\<close>

record event_row =
  er_id :: int
  er_key :: string
  er_event :: exec_event
  er_received :: int
  er_processed :: bool
  er_attempts :: int
  er_error :: string

record binding =
  bd_id :: int
  bd_owner_type :: string
  bd_owner :: int
  bd_credential :: int
  bd_exchange :: string
  bd_market :: string
  bd_strategy :: int
  bd_pending :: int
  bd_run :: int
  bd_intent :: int
  bd_symbol :: string
  bd_signal :: string
  bd_client :: string
  bd_order :: string
  bd_observed :: real
  bd_status :: string

record pending_row =
  pn_id :: int
  pn_strategy :: int
  pn_symbol :: string
  pn_signal :: string
  pn_market :: string
  pn_status :: string
  pn_filled :: real
  pn_avg :: real
  pn_run :: int
  pn_intent :: int
  pn_payload :: json
  pn_credential :: int
  pn_exchange :: string
  pn_order :: string
  pn_client :: string
  pn_fee_status :: string
  pn_fee_source :: string
  pn_executed :: bool
  pn_amount :: real
  pn_price :: real
  pn_mode :: string
  pn_priority :: int
  pn_attempts :: int
  pn_max_attempts :: int
  pn_updated :: int
  pn_sent :: "int option"
  pn_error :: string
  pn_note :: string
  pn_response :: "json option"

record quick_row =
  qk_id :: int
  qk_status :: string
  qk_filled :: real
  qk_avg :: real
  qk_commission :: real
  qk_ccy :: string
  qk_quote :: "real option"

record run_fill =
  rf_intent :: int
  rf_run :: int
  rf_strategy :: int
  rf_exchange :: string
  rf_order :: string
  rf_fill :: string
  rf_side :: string
  rf_pos_side :: string
  rf_price :: real
  rf_quantity :: real
  rf_notional :: real
  rf_fee :: real
  rf_ccy :: string
  rf_credential :: int
  rf_quote :: "real option"
  rf_status :: string

record stream_db =
  sd_events :: "event_row list"
  sd_next_event :: int
  sd_fees :: "(int \<times> fee_component) list"
  sd_bindings :: "binding list"
  sd_next_binding :: int
  sd_pending :: "pending_row list"
  sd_grid :: order_table
  sd_quick :: "quick_row list"
  sd_ledger :: live_db
  sd_late :: "int list"
  sd_owned :: "(int \<times> string \<times> int) list"
  sd_fills :: "run_fill list"
  sd_intents :: "(int \<times> string) list"
  sd_runners :: "(int \<times> grid_world \<times> grid_engine) list"

text \<open>
  The world around a pass: the instant, the digest, the strategy rows a legacy order is matched with
  (credential, market, exchange), the leg of a strategy, the ticker, the exception of building the client of
  a strategy, of posting the trade of an event after its position, and whether the best-effort record of the
  runtime fill is lost.
\<close>

record stream_world =
  sw_now :: int
  sw_digest :: "report_key \<Rightarrow> string"
  sw_strategy :: "int \<Rightarrow> (int \<times> string \<times> string) option"
  sw_leg :: "int \<Rightarrow> string \<Rightarrow> leg_context"
  sw_ticker :: "string \<Rightarrow> json option"
  sw_client :: "int \<Rightarrow> string option"
  sw_trade :: "int \<Rightarrow> string option"
  sw_fill_lost :: "int \<Rightarrow> bool"
  sw_depth :: nat

subsection \<open>Storing reports\<close>

definition int_or :: "int \<Rightarrow> int \<Rightarrow> int" where
  "int_or a b = (if a \<noteq> 0 then a else b)"

definition stored_event :: "exec_event \<Rightarrow> exec_event" where
  "stored_event e = e\<lparr>ee_user := int_or (ee_user e) 1, ee_exchange := py_lower (ee_exchange e),
     ee_market := py_lower (default_text (ee_market e) ''swap''), ee_price := round12 (ee_price e),
     ee_qty := round12 (ee_qty e), ee_cum := round12 (ee_cum e), ee_pnl := map_option round12 (ee_pnl e),
     ee_fee_status := default_text (ee_fee_status e) ''pending''\<rparr>"

text \<open>Components of one type and currency are added up; the quote value is known when each has one. Each
  group is then upserted, which finds no row, the event being new.\<close>

definition component_key :: "fee_component \<Rightarrow> string \<times> string" where
  "component_key c = (default_text (fc_type c) ''trade'', py_upper (fc_ccy c))"

definition add_component ::
  "fee_component \<Rightarrow> ((string \<times> string) \<times> real \<times> real option \<times> string) list \<Rightarrow> ((string \<times> string) \<times> real \<times> real option \<times> string) list" where
  "add_component c acc =
     (let (a, q, s) = (case map_of acc (component_key c) of
            None \<Rightarrow> (0, Some 0, default_text (fc_source c) ''websocket'') | Some x \<Rightarrow> x) in
      dict_set (component_key c)
        (a + fc_amount c, (case (q, fc_quote c) of (Some x, Some y) \<Rightarrow> Some (x + y) | _ \<Rightarrow> None), s) acc)"

definition stored_components :: "fee_component list \<Rightarrow> fee_component list" where
  "stored_components cs =
     map (\<lambda>((ty, ccy), a, q, s). \<lparr>fc_type = ty, fc_ccy = ccy, fc_amount = round12 a, fc_quote = map_option round12 q, fc_source = s\<rparr>)
       (fold add_component cs [])"

definition ingest :: "stream_world \<Rightarrow> exec_event \<Rightarrow> fee_component list \<Rightarrow> stream_db \<Rightarrow> int option \<times> stream_db" where
  "ingest sw e cs db =
     (let key = sw_digest sw (event_key e); i = sd_next_event db; db1 = db\<lparr>sd_next_event := i + 1\<rparr> in
      if row_at er_key key (sd_events db) \<noteq> None then (None, db1)
      else (Some i, db1\<lparr>sd_events := sd_events db @ [\<lparr>er_id = i, er_key = key, er_event = stored_event e,
              er_received = sw_now sw, er_processed = False, er_attempts = 0, er_error = []\<rparr>],
            sd_fees := sd_fees db @ map (\<lambda>c. (i, c)) (stored_components cs)\<rparr>))"

text \<open>\<open>pending\<close>: rows are stored in the order they were received.\<close>

definition pending_events :: "nat \<Rightarrow> stream_db \<Rightarrow> event_row list" where
  "pending_events limit db = take limit (filter (\<lambda>r. \<not> er_processed r \<and> er_attempts r < 20) (sd_events db))"

definition fee_components :: "int \<Rightarrow> stream_db \<Rightarrow> fee_component list" where
  "fee_components i db = map snd (filter (\<lambda>p. fst p = i) (sd_fees db))"

definition mark_processed :: "int \<Rightarrow> stream_db \<Rightarrow> stream_db" where
  "mark_processed i db =
     db\<lparr>sd_events := map (\<lambda>r. if er_id r = i then r\<lparr>er_processed := True, er_error := []\<rparr> else r) (sd_events db)\<rparr>"

definition mark_failed :: "int \<Rightarrow> string \<Rightarrow> stream_db \<Rightarrow> stream_db" where
  "mark_failed i err db =
     db\<lparr>sd_events := map (\<lambda>r. if er_id r = i then r\<lparr>er_attempts := er_attempts r + 1, er_error := take 2000 err\<rparr> else r)
        (sd_events db)\<rparr>"

subsection \<open>Bindings\<close>

definition owner_key :: "binding \<Rightarrow> string \<times> int" where
  "owner_key b = (bd_owner_type b, bd_owner b)"

definition rebind :: "binding \<Rightarrow> binding \<Rightarrow> binding" where
  "rebind old new = new\<lparr>bd_id := bd_id old, bd_status := bd_status old,
     bd_client := default_text (bd_client new) (bd_client old), bd_order := default_text (bd_order new) (bd_order old),
     bd_observed := max (bd_observed old) (bd_observed new)\<rparr>"

text \<open>\<open>register_binding\<close>; the caller's values come in a row whose id and status are not used.\<close>

definition register_binding :: "binding \<Rightarrow> stream_db \<Rightarrow> stream_db" where
  "register_binding b db =
     (if bd_owner_type b = [] \<or> bd_owner b \<le> 0 then db
      else let new = b\<lparr>bd_id := sd_next_binding db, bd_status := ''open'', bd_exchange := py_lower (bd_exchange b),
                bd_market := py_lower (default_text (bd_market b) ''swap''), bd_observed := round12 (bd_observed b)\<rparr> in
        db\<lparr>sd_bindings := upsert_row owner_key rebind new (sd_bindings db), sd_next_binding := sd_next_binding db + 1\<rparr>)"

definition same_order :: "exec_event \<Rightarrow> string \<Rightarrow> string \<Rightarrow> bool" where
  "same_order e order client = (ee_order e \<noteq> [] \<and> order = ee_order e \<or> ee_client e \<noteq> [] \<and> client = ee_client e)"

definition binds :: "exec_event \<Rightarrow> binding \<Rightarrow> bool" where
  "binds e b = (bd_credential b = ee_credential e \<and> bd_exchange b = py_lower (ee_exchange e) \<and>
     (bd_market b = py_lower (ee_market e) \<or> bd_market b = [] \<or> ee_market e = []) \<and> same_order e (bd_order b) (bd_client b))"

definition latest :: "('r \<Rightarrow> int) \<Rightarrow> 'r list \<Rightarrow> 'r option" where
  "latest key rs = (case rs of [] \<Rightarrow> None | r # rs' \<Rightarrow> Some (min_by (\<lambda>q. - key q) r rs'))"

definition lookup_binding :: "exec_event \<Rightarrow> stream_db \<Rightarrow> binding option" where
  "lookup_binding e db =
     (let cs = filter (binds e) (sd_bindings db); exact = filter (\<lambda>b. bd_order b = ee_order e \<and> ee_order e \<noteq> []) cs in
      if exact \<noteq> [] then latest bd_id exact else latest bd_id cs)"

text \<open>The binding a legacy order would get, newest order first; a grid order is not matched by account.\<close>

definition legacy_pending :: "exec_event \<Rightarrow> pending_row \<Rightarrow> bool" where
  "legacy_pending e p = (pn_credential p = ee_credential e \<and> py_lower (pn_exchange p) = py_lower (ee_exchange e) \<and>
     same_order e (pn_order p) (pn_client p))"

definition binding_of_pending :: "exec_event \<Rightarrow> pending_row \<Rightarrow> binding" where
  "binding_of_pending e p =
     \<lparr>bd_id = 0, bd_owner_type = ''pending_order'', bd_owner = pn_id p, bd_credential = int_or (pn_credential p) (ee_credential e),
      bd_exchange = py_lower (ee_exchange e), bd_market = default_text (pn_market p) (py_lower (ee_market e)), bd_strategy = pn_strategy p,
      bd_pending = pn_id p, bd_run = pn_run p, bd_intent = pn_intent p, bd_symbol = pn_symbol p, bd_signal = pn_signal p,
      bd_client = default_text (pn_client p) (ee_client e), bd_order = default_text (pn_order p) (ee_order e),
      bd_observed = pn_filled p, bd_status = []\<rparr>"

definition binding_of_grid :: "stream_world \<Rightarrow> exec_event \<Rightarrow> grid_order \<Rightarrow> binding" where
  "binding_of_grid sw e g =
     (let (cred, market) = (case sw_strategy sw (go_strategy g) of None \<Rightarrow> (0, []) | Some (c, mk, x) \<Rightarrow> (c, mk)) in
      \<lparr>bd_id = 0, bd_owner_type = ''grid'', bd_owner = go_id g, bd_credential = int_or cred (ee_credential e),
       bd_exchange = py_lower (ee_exchange e), bd_market = default_text market (py_lower (ee_market e)), bd_strategy = go_strategy g,
       bd_pending = 0, bd_run = 0, bd_intent = 0, bd_symbol = go_symbol g, bd_signal = go_purpose g,
       bd_client = default_text (go_client g) (ee_client e), bd_order = default_text (go_exchange g) (ee_order e),
       bd_observed = py_or (go_filled g) (go_processed g), bd_status = []\<rparr>)"

definition legacy_binding :: "stream_world \<Rightarrow> exec_event \<Rightarrow> stream_db \<Rightarrow> binding option" where
  "legacy_binding sw e db =
     (case latest pn_id (filter (legacy_pending e) (sd_pending db)) of
        Some p \<Rightarrow> Some (binding_of_pending e p)
      | None \<Rightarrow> map_option (binding_of_grid sw e)
          (latest go_id (filter (\<lambda>g. sw_strategy sw (go_strategy g) \<noteq> None \<and> same_order e (go_exchange g) (go_client g))
             (ot_rows (sd_grid db)))))"

text \<open>\<open>resolve_binding\<close> and \<open>_discover_legacy_binding\<close> call each other; the interpreter's stack bounds the calls.\<close>

fun resolve_binding :: "stream_world \<Rightarrow> nat \<Rightarrow> exec_event \<Rightarrow> stream_db \<Rightarrow> (string + binding option) \<times> stream_db" where
  "resolve_binding sw 0 e db = (Inl ''maximum recursion depth exceeded'', db)"
| "resolve_binding sw (Suc n) e db =
     (case lookup_binding e db of
        Some b \<Rightarrow> (Inr (Some b), db)
      | None \<Rightarrow> (case legacy_binding sw e db of
            None \<Rightarrow> (Inr None, db)
          | Some b \<Rightarrow> resolve_binding sw n e (register_binding b db)))"

subsection \<open>Fees of a report\<close>

text \<open>\<open>_fees\<close>: the amounts by currency, and their quote value where every component has one.\<close>

definition count_fee :: "(string \<Rightarrow> json option) \<Rightarrow> string \<Rightarrow> real \<Rightarrow> fee_component \<Rightarrow> fees \<times> real option \<Rightarrow> fees \<times> real option" where
  "count_fee ticker symbol price c = (\<lambda>(fs, q).
     let ccy = py_upper (fc_ccy c);
         value = (case fc_quote c of Some v \<Rightarrow> Some v | None \<Rightarrow> fee_to_quote ticker symbol (fc_amount c) ccy price) in
     (dict_set ccy (fee_of fs ccy + fc_amount c) fs,
      (case (q, value) of (Some x, Some y) \<Rightarrow> Some (x + y) | _ \<Rightarrow> None)))"

definition event_fees :: "stream_world \<Rightarrow> int \<Rightarrow> string \<Rightarrow> real \<Rightarrow> stream_db \<Rightarrow> fees \<times> real option" where
  "event_fees sw i symbol price db = fold (count_fee (sw_ticker sw) symbol price) (fee_components i db) ([], Some 0)"

definition fee_storage :: "fees \<Rightarrow> real \<times> string" where
  "fee_storage fs = (case fs of [] \<Rightarrow> (0, []) | [(c, a)] \<Rightarrow> (a, c) | _ \<Rightarrow> (0, ''MIXED''))"

definition spot_position_fill_quantity :: "string \<Rightarrow> string \<Rightarrow> string \<Rightarrow> real \<Rightarrow> fees \<Rightarrow> real" where
  "spot_position_fill_quantity market symbol signal gross0 fs =
     (let gross = max 0 gross0; (base, quote) = symbol_currencies symbol;
          base_fee = max 0 (fee_of fs base); sig = lower_strip signal in
      if lower_strip market \<noteq> ''spot'' then gross
      else if sig = ''open_long'' \<or> sig = ''add_long'' then max 0 (gross - base_fee)
      else if sig = ''close_long'' \<or> sig = ''reduce_long'' then gross + base_fee
      else gross)"

definition proportional_spot_position_fill_quantity ::
  "string \<Rightarrow> string \<Rightarrow> string \<Rightarrow> real \<Rightarrow> real \<Rightarrow> fees \<Rightarrow> real" where
  "proportional_spot_position_fill_quantity market symbol signal recorded0 cumulative0 fs =
     (let recorded = max 0 recorded0; cumulative = max 0 cumulative0;
          share = (if cumulative > 0 then min 1 (recorded / cumulative) else 1) in
      spot_position_fill_quantity market symbol signal recorded (map (\<lambda>(c, a). (c, a * share)) fs))"

subsection \<open>Posting a fill\<close>

record fill_post =
  fp_strategy :: int
  fp_symbol :: string
  fp_signal :: string
  fp_filled :: real
  fp_price :: real
  fp_order :: int
  fp_source :: string
  fp_commission :: real
  fp_ccy :: string
  fp_quote :: "real option"
  fp_profit :: "real option"
  fp_reason :: string
  fp_matched :: "real option"
  fp_grid_profit :: "real option"
  fp_run :: int
  fp_intent :: int
  fp_exchange :: string
  fp_exchange_order :: string
  fp_raw :: json
  fp_position :: "real option"
  fp_fill_id :: string
  fp_event :: int
  fp_fee_status :: string
  fp_fee_source :: string

definition trade_of_post :: "leg_context \<Rightarrow> fill_post \<Rightarrow> real option \<Rightarrow> real option \<Rightarrow> trade_input" where
  "trade_of_post leg f profit matched =
     \<lparr>ti_symbol = fp_symbol f, ti_type = fp_signal f, ti_price = fp_price f, ti_amount = fp_filled f,
      ti_commission = fp_commission f, ti_commission_ccy = fp_ccy f, ti_commission_quote = fp_quote f, ti_profit = profit,
      ti_close_reason = fp_reason f, ti_user = None, ti_matched_entry = matched,
      ti_grid_profit = (case fp_grid_profit f of None \<Rightarrow> profit | Some g \<Rightarrow> Some g), ti_leg = Some leg, ti_market = [],
      ti_credential = 0, ti_inst = [], ti_fill_source = [], ti_pending = 0, ti_grid_order = 0, ti_run = fp_run f,
      ti_intent = fp_intent f, ti_event = fp_event f, ti_fill_id = fp_fill_id f,
      ti_fee_status = default_text (fp_fee_status f) ''pending'', ti_fee_source = fp_fee_source f\<rparr>"

definition runtime_fill :: "leg_context \<Rightarrow> fill_post \<Rightarrow> run_fill" where
  "runtime_fill leg f =
     (let sig = py_lower (fp_signal f) in
      \<lparr>rf_intent = fp_intent f, rf_run = fp_run f, rf_strategy = fp_strategy f, rf_exchange = fp_exchange f,
       rf_order = fp_exchange_order f,
       rf_fill = default_text (fp_fill_id f) (str_or_empty (get_any (fp_raw f) [''fill_id'', ''trade_id''])),
       rf_side = (if sig \<in> {''open_long'', ''add_long'', ''close_short'', ''reduce_short''} then ''buy'' else ''sell''),
       rf_pos_side = (if py_contains sig ''short'' then ''short'' else if py_contains sig ''long'' then ''long'' else []),
       rf_price = round12 (fp_price f), rf_quantity = round12 (fp_filled f), rf_notional = round12 (fp_price f * fp_filled f),
       rf_fee = round12 (fp_commission f), rf_ccy = fp_ccy f, rf_credential = leg_credential leg,
       rf_quote = map_option round12 (fp_quote f), rf_status = default_text (fp_fee_status f) ''pending''\<rparr>)"

definition record_runtime_fill :: "leg_context \<Rightarrow> fill_post \<Rightarrow> stream_db \<Rightarrow> stream_db" where
  "record_runtime_fill leg f db =
     (let rf = runtime_fill leg f;
          taken = rf_fill rf \<noteq> [] \<and> list_ex (\<lambda>r. rf_exchange r = rf_exchange rf \<and> rf_credential r = rf_credential rf \<and> rf_fill r = rf_fill rf) (sd_fills db) in
      if fp_run f \<le> 0 \<and> fp_intent f \<le> 0 then db
      else db\<lparr>sd_fills := (if taken then sd_fills db else sd_fills db @ [rf]),
              sd_intents := (if fp_intent f > 0 \<and> fp_filled f > 0
                then map (\<lambda>(k, v). (k, if k = fp_intent f then ''partially_filled'' else v)) (sd_intents db) else sd_intents db)\<rparr>)"

text \<open>
  \<open>persist_strategy_fill\<close>: the position, then the trade, then the runtime fill, each in its own transaction. The
  trade may raise (\<open>fault\<close>) after the position is stored.
\<close>

definition persist_strategy_fill ::
  "leg_context \<Rightarrow> string option \<Rightarrow> bool \<Rightarrow> fill_post \<Rightarrow> stream_db \<Rightarrow> string option \<times> stream_db" where
  "persist_strategy_fill leg0 fault lost f db =
     (if \<bar>fp_filled f\<bar> \<le> eps12 then (None, db)
      else let leg = leg0\<lparr>leg_fill_source := default_text (fp_source f) ''worker'', leg_pending := fp_order f\<rparr>;
               qty = (case fp_position f of None \<Rightarrow> fp_filled f | Some q \<Rightarrow> q);
               ((profit0, row, matched0), l1) = apply_fill_to_local_position (fp_strategy f) (fp_symbol f) (fp_signal f) qty (fp_price f)
                  (Some leg) (sd_ledger db);
               profit = (case fp_profit f of None \<Rightarrow> profit0 | Some p \<Rightarrow> Some p);
               matched = (case fp_matched f of None \<Rightarrow> matched0 | Some m \<Rightarrow> Some m) in
        case fault of
          Some err \<Rightarrow> (Some err, db\<lparr>sd_ledger := l1\<rparr>)
        | None \<Rightarrow>
            (let l2 = snd (record_trade (fp_strategy f) (trade_of_post leg f profit matched) l1);
                 db2 = db\<lparr>sd_ledger := l2\<rparr> in
             (None, if lost then db2 else record_runtime_fill leg f db2)))"

definition trade_close_reason :: "json \<Rightarrow> string \<Rightarrow> string" where
  "trade_close_reason payload signal =
     (let t = lower_strip signal in
      if py_startswith t ''close_'' \<or> py_startswith t ''reduce_'' then py_strip (str_or_empty (get payload ''reason'')) else [])"

subsection \<open>Reports of pending orders\<close>

text \<open>What a report adds to what was observed: a cumulative one by its maximum, another by its quantity.\<close>

definition reported_fill :: "exec_event \<Rightarrow> real \<Rightarrow> real \<times> real" where
  "reported_fill e previous =
     (let cum = max 0 (ee_cum e) in
      if ee_is_cum e \<or> cum > 0 then (let target = max previous cum in (max 0 (target - previous), target))
      else (max 0 (ee_qty e), previous + max 0 (ee_qty e)))"

definition aggregate_price :: "real \<Rightarrow> real \<Rightarrow> real \<Rightarrow> real \<Rightarrow> real \<Rightarrow> real" where
  "aggregate_price previous previous_avg delta price target =
     (if target > 0 \<and> delta > 0 \<and> price > 0 then (previous * previous_avg + delta * price) / target
      else py_or previous_avg price)"

definition observe_pending :: "int \<Rightarrow> exec_event \<Rightarrow> pending_row \<Rightarrow> pending_row" where
  "observe_pending now e p =
     (let (delta, target) = reported_fill e (pn_filled p); price = py_or (ee_price e) (pn_avg p);
          avg = aggregate_price (pn_filled p) (pn_avg p) delta price target in
      p\<lparr>pn_filled := decimal8 (max (pn_filled p) target), pn_avg := (if avg > 0 then decimal8 avg else pn_avg p),
        pn_status := (if pn_status p = ''failed'' \<or> pn_status p = ''cancelled'' then pn_status p
                      else if ee_status e = ''filled'' then ''filled'' else pn_status p),
        pn_fee_status := default_text (ee_fee_status e) ''pending'', pn_fee_source := ''websocket'',
        pn_executed := (pn_executed p \<or> target > 0), pn_updated := now\<rparr>)"

definition observe_binding :: "real \<Rightarrow> string \<Rightarrow> exec_event \<Rightarrow> binding \<Rightarrow> stream_db \<Rightarrow> stream_db" where
  "observe_binding seen status e b db =
     db\<lparr>sd_bindings := map (\<lambda>r. if bd_id r = bd_id b
        then r\<lparr>bd_observed := round12 (max (bd_observed r) seen), bd_order := default_text (ee_order e) (bd_order r),
               bd_status := default_text (ee_status e) status\<rparr> else r) (sd_bindings db)\<rparr>"

definition newest_trade :: "(trade_row \<Rightarrow> bool) \<Rightarrow> stream_db \<Rightarrow> trade_row option" where
  "newest_trade p db = latest tr_id (filter p (ld_trades (sd_ledger db)))"

definition update_trade :: "int \<Rightarrow> (trade_row \<Rightarrow> trade_row) \<Rightarrow> stream_db \<Rightarrow> stream_db" where
  "update_trade i f db = db\<lparr>sd_ledger := (sd_ledger db)\<lparr>ld_trades := map (\<lambda>t. if tr_id t = i then f t else t) (ld_trades (sd_ledger db))\<rparr>\<rparr>"

definition actual_fee :: "trade_row \<Rightarrow> bool" where
  "actual_fee t = (tr_fee_status t = ''actual'' \<or> tr_fee_status t = ''actual_zero'')"

definition rest_source :: "trade_row \<Rightarrow> bool" where
  "rest_source t = (tr_fee_source t \<noteq> [] \<and> tr_fee_source t \<noteq> ''websocket'')"

text \<open>The fee joins one the stream has put there before, and replaces any other.\<close>

definition stream_fee :: "real \<Rightarrow> string \<Rightarrow> real option \<Rightarrow> string \<Rightarrow> bool \<Rightarrow> trade_row \<Rightarrow> trade_row" where
  "stream_fee commission ccy quote status joins t =
     t\<lparr>tr_commission := decimal8 (if joins then tr_commission t + commission else commission),
       tr_commission_ccy := (if joins \<and> tr_commission_ccy t \<noteq> [] \<and> tr_commission_ccy t \<noteq> ccy then ''MIXED'' else ccy),
       tr_commission_quote := (if joins then Some (decimal8 (some_or_0 (tr_commission_quote t) + some_or_0 quote))
                               else map_option decimal8 quote),
       tr_fee_status := status, tr_fee_source := ''websocket''\<rparr>"

definition apply_late_fee :: "int \<Rightarrow> int \<Rightarrow> fees \<Rightarrow> real option \<Rightarrow> string \<Rightarrow> stream_db \<Rightarrow> string option \<times> stream_db" where
  "apply_late_fee i pid fs quote status db =
     (let (commission, ccy) = fee_storage fs in
      if i \<in> set (sd_late db) then (None, db)
      else case newest_trade (\<lambda>t. tr_pending t = pid) db of
        None \<Rightarrow> (Some ''strategy trade row is not ready for late fee projection'', db)
      | Some t \<Rightarrow>
          (let db1 = db\<lparr>sd_late := sd_late db @ [i]\<rparr> in
           (None, if actual_fee t \<and> rest_source t \<and> \<bar>tr_commission t\<bar> > eps18 then db1
                  else update_trade (tr_id t) (stream_fee commission ccy quote status (tr_fee_source t = ''websocket'')) db1)))"

definition post_of_pending :: "event_row \<Rightarrow> binding \<Rightarrow> pending_row \<Rightarrow> int \<Rightarrow> real \<Rightarrow> fees \<Rightarrow> real option \<Rightarrow> fill_post" where
  "post_of_pending row b p strategy delta fs quote =
     (let e = er_event row; market = default_text (ee_market e) (default_text (pn_market p) ''swap'');
          symbol = default_text (ee_symbol e) (pn_symbol p);
          signal = default_text (bd_signal b) (default_text (pn_signal p) (str_or_empty (get (pn_payload p) ''signal_type'')));
          (commission, ccy) = fee_storage fs in
      \<lparr>fp_strategy = strategy, fp_symbol = symbol, fp_signal = signal, fp_filled = delta,
       fp_price = py_or (ee_price e) (pn_avg p), fp_order = pn_id p, fp_source = ''private_websocket'',
       fp_commission = commission, fp_ccy = ccy, fp_quote = quote, fp_profit = ee_pnl e,
       fp_reason = trade_close_reason (pn_payload p) signal, fp_matched = None, fp_grid_profit = None,
       fp_run = int_or (bd_run b) (pn_run p), fp_intent = int_or (bd_intent b) (pn_intent p), fp_exchange = ee_exchange e,
       fp_exchange_order = ee_order e, fp_raw = ee_raw e, fp_position = Some (spot_position_fill_quantity market symbol signal delta fs),
       fp_fill_id = ee_fill e, fp_event = er_id row, fp_fee_status = default_text (ee_fee_status e) ''pending'',
       fp_fee_source = ''websocket''\<rparr>)"

definition process_pending_order :: "stream_world \<Rightarrow> event_row \<Rightarrow> binding \<Rightarrow> stream_db \<Rightarrow> string option \<times> stream_db" where
  "process_pending_order sw row b db =
     (let e = er_event row; pid = int_or (bd_pending b) (bd_owner b) in
      case row_at pn_id pid (sd_pending db) of
        None \<Rightarrow> (None, db)
      | Some p \<Rightarrow>
          (let (delta, target) = reported_fill e (pn_filled p); price = py_or (ee_price e) (pn_avg p);
               db1 = observe_binding target ''open'' e b
                 (db\<lparr>sd_pending := map (\<lambda>r. if pn_id r = pid then observe_pending (sw_now sw) e r else r) (sd_pending db)\<rparr>);
               strategy = int_or (bd_strategy b) (pn_strategy p) in
           if strategy \<le> 0 then (None, db1)
           else case sw_client sw strategy of
             Some err \<Rightarrow> (Some err, db1)
           | None \<Rightarrow>
               (let symbol = default_text (ee_symbol e) (pn_symbol p);
                    (fs, quote) = event_fees sw (er_id row) symbol price db1 in
                if delta > eps12 \<and> price > 0
                then persist_strategy_fill (sw_leg sw strategy symbol) (sw_trade sw (er_id row)) (sw_fill_lost sw (er_id row))
                       (post_of_pending row b p strategy delta fs quote) db1
                else if fs \<noteq> [] then apply_late_fee (er_id row) pid fs quote (default_text (ee_fee_status e) ''actual'') db1
                else (None, db1))))"

subsection \<open>Reports of grid orders\<close>

definition claim_owner :: "int \<Rightarrow> string \<Rightarrow> int \<Rightarrow> stream_db \<Rightarrow> stream_db" where
  "claim_owner i ty owner db = db\<lparr>sd_owned := sd_owned db @ [(i, ty, owner)]\<rparr>"

definition rest_is_authoritative :: "trade_row \<Rightarrow> bool" where
  "rest_is_authoritative t = (actual_fee t \<and> rest_source t \<and> (\<bar>tr_commission t\<bar> > eps18 \<or> tr_fee_status t = ''actual_zero''))"

definition name_event :: "int \<Rightarrow> exec_event \<Rightarrow> trade_row \<Rightarrow> trade_row" where
  "name_event i e t = t\<lparr>tr_event := (if tr_event t = 0 then i else tr_event t), tr_fill_id := default_text (ee_fill e) (tr_fill_id t)\<rparr>"

text \<open>\<open>_apply_grid_trade_fee\<close>: of the trade with an id, or of the newest trade of a grid order.\<close>

definition apply_grid_trade_fee ::
  "stream_world \<Rightarrow> event_row \<Rightarrow> binding \<Rightarrow> int \<Rightarrow> int \<Rightarrow> stream_db \<Rightarrow> string option \<times> stream_db" where
  "apply_grid_trade_fee sw row b grid_order trade db =
     (let i = er_id row; e = er_event row;
          ty = default_text (bd_owner_type b) ''grid''; owner = int_or (bd_owner b) (int_or trade grid_order) in
      if i \<le> 0 \<or> (i, ty, owner) \<in> set (sd_owned db) then (None, db)
      else case newest_trade (\<lambda>t. if trade > 0 then tr_id t = trade else tr_grid_order t = grid_order) db of
        None \<Rightarrow> (Some ''grid trade row is not ready for fee projection'', db)
      | Some t \<Rightarrow>
          (case sw_client sw (int_or (bd_strategy b) (tr_strategy t)) of
             Some err \<Rightarrow> (Some err, db)
           | None \<Rightarrow>
               (let (fs, quote) = event_fees sw i (default_text (ee_symbol e) (tr_symbol t)) (py_or (ee_price e) (tr_price t)) db;
                    (commission, ccy) = fee_storage fs; authoritative = rest_is_authoritative t;
                    db1 = claim_owner i ty owner db;
                    db2 = (if fs \<noteq> [] \<and> \<not> authoritative
                           then update_trade (tr_id t) (\<lambda>x. name_event i e (stream_fee commission ccy quote
                                  (default_text (ee_fee_status e) ''actual'') (tr_fee_source t = ''websocket'') x)) db1
                           else if ee_fee_status e = ''actual_zero'' \<and> \<not> authoritative
                           then update_trade (tr_id t) (\<lambda>x. name_event i e (x\<lparr>tr_fee_status := ''actual_zero'', tr_fee_source := ''websocket''\<rparr>)) db1
                           else db1) in
                (None, observe_binding (py_or (ee_cum e) (ee_qty e)) ''filled'' e b db2))))"

definition observe_grid :: "exec_event \<Rightarrow> grid_order \<Rightarrow> grid_order" where
  "observe_grid e g =
     (let (delta, total) = reported_fill e (go_filled g); price = py_or (ee_price e) (go_price g);
          avg = (if total > 0 \<and> delta > 0 then (go_filled g * go_avg g + delta * price) / total else py_or (go_avg g) price) in
      g\<lparr>go_filled := decimal8 total, go_avg := decimal8 avg,
        go_status := (if ee_status e = ''filled'' then ''filled'' else if ee_status e = ''cancelled'' then ''cancelled''
                      else if total > 0 then ''partial'' else go_status g)\<rparr>)"

text \<open>The running engine works on the shared tables of orders and trades.\<close>

definition plug :: "stream_db \<Rightarrow> grid_engine \<Rightarrow> grid_engine" where
  "plug db ge = ge\<lparr>ge_orders := sd_grid db, ge_ledger := sd_ledger db\<rparr>"

definition unplug :: "int \<Rightarrow> grid_world \<Rightarrow> grid_engine \<Rightarrow> stream_db \<Rightarrow> stream_db" where
  "unplug sid w ge db = db\<lparr>sd_grid := ge_orders ge, sd_ledger := ge_ledger ge, sd_runners := dict_set sid (w, ge) (sd_runners db)\<rparr>"

definition event_note :: "event_row \<Rightarrow> fees \<Rightarrow> real option \<Rightarrow> fill_note" where
  "event_note row fs quote =
     \<lparr>fn_commission = fst (fee_storage fs), fn_ccy = snd (fee_storage fs), fn_quote = quote,
      fn_status = default_text (ee_fee_status (er_event row)) ''pending'', fn_source = ''websocket'',
      fn_fill_id = ee_fill (er_event row), fn_event = er_id row\<rparr>"

definition process_grid :: "stream_world \<Rightarrow> event_row \<Rightarrow> binding \<Rightarrow> stream_db \<Rightarrow> string option \<times> stream_db" where
  "process_grid sw row b db =
     (let e = er_event row; oid = bd_owner b in
      case row_at go_id oid (ot_rows (sd_grid db)) of
        None \<Rightarrow> (None, db)
      | Some g \<Rightarrow>
          (let total = snd (reported_fill e (go_filled g)); price = py_or (ee_price e) (go_price g);
               delta = max 0 (total - go_processed g);
               db1 = db\<lparr>sd_grid := update_order oid (observe_grid e) (sd_grid db)\<rparr>;
               strategy = int_or (bd_strategy b) (go_strategy g) in
           if delta \<le> eps12 \<or> price \<le> 0
           then (if fee_components (er_id row) db1 \<noteq> [] then apply_grid_trade_fee sw row b oid 0 db1 else (None, db1))
           else case map_of (sd_runners db1) strategy of
             None \<Rightarrow> (None, db1)
           | Some (w, ge) \<Rightarrow>
               (case sw_client sw strategy of
                  Some err \<Rightarrow> (Some err, db1)
                | None \<Rightarrow>
                    (let (fs, quote) = event_fees sw (er_id row) (default_text (ee_symbol e) (go_symbol g)) price db1;
                         db2 = unplug strategy w (on_order_filled w g delta price (event_note row fs quote) (plug db1 ge)) db1 in
                     (None, db2\<lparr>sd_grid := update_order oid (\<lambda>r. r\<lparr>go_processed := decimal8 (max (go_processed r) total)\<rparr>) (sd_grid db2)\<rparr>)))))"

definition process_grid_market :: "stream_world \<Rightarrow> event_row \<Rightarrow> binding \<Rightarrow> stream_db \<Rightarrow> string option \<times> stream_db" where
  "process_grid_market sw row b db = apply_grid_trade_fee sw row b 0 (bd_owner b) db"

subsection \<open>Reports of quick trades\<close>

definition quick_total :: "exec_event \<Rightarrow> quick_row \<Rightarrow> real" where
  "quick_total e q =
     (let cum = max 0 (ee_cum e) in
      if ee_is_cum e \<or> cum > 0 then max (qk_filled q) cum
      else if ee_status e = ''filled'' \<and> qk_status q = ''filled'' \<and> qk_filled q > 0 then qk_filled q
      else qk_filled q + max 0 (ee_qty e))"

text \<open>The components by currency, and their quote value where every one has it stored.\<close>

definition quick_fees :: "fee_component list \<Rightarrow> fees \<times> real option" where
  "quick_fees cs = fold (\<lambda>c (fs, q). (dict_set (py_upper (fc_ccy c)) (fee_of fs (py_upper (fc_ccy c)) + fc_amount c) fs,
      (case (q, fc_quote c) of (Some x, Some y) \<Rightarrow> Some (x + y) | _ \<Rightarrow> None))) cs ([], Some 0)"

definition observe_quick :: "exec_event \<Rightarrow> fee_component list \<Rightarrow> quick_row \<Rightarrow> quick_row" where
  "observe_quick e cs q =
     (let total = quick_total e q; delta = max 0 (total - qk_filled q);
          avg = aggregate_price (qk_filled q) (qk_avg q) delta (ee_price e) total;
          known = py_strip (qk_ccy q) \<noteq> [];
          (fs, quote) = quick_fees cs;
          (commission, ccy, value) = (if cs = [] \<or> known then (0, qk_ccy q, qk_quote q)
             else (case fs of [(c, a)] \<Rightarrow> (a, c, quote) | _ \<Rightarrow> (0, ''MIXED'', quote))) in
      q\<lparr>qk_filled := decimal8 (max (qk_filled q) total), qk_avg := (if avg > 0 then decimal8 avg else qk_avg q),
        qk_commission := (if known then qk_commission q else decimal8 (qk_commission q + commission)),
        qk_ccy := (if known then qk_ccy q else ccy),
        qk_quote := (if known then qk_quote q else case value of None \<Rightarrow> qk_quote q
                     | Some v \<Rightarrow> Some (decimal8 (some_or_0 (qk_quote q) + v))),
        qk_status := (if ee_status e = ''filled'' then ''filled'' else qk_status q)\<rparr>)"

definition process_quick_trade :: "stream_world \<Rightarrow> event_row \<Rightarrow> binding \<Rightarrow> stream_db \<Rightarrow> string option \<times> stream_db" where
  "process_quick_trade sw row b db =
     (let i = er_id row; tid = bd_owner b in
      if (i, ''quick_trade'', tid) \<in> set (sd_owned db) then (None, db)
      else case row_at qk_id tid (sd_quick db) of
        None \<Rightarrow> (None, db)
      | Some q \<Rightarrow> (None, claim_owner i ''quick_trade'' tid
          (db\<lparr>sd_quick := map (\<lambda>r. if qk_id r = tid then observe_quick (er_event row) (fee_components i db) r else r) (sd_quick db)\<rparr>)))"

subsection \<open>The pass over the stored reports\<close>

definition already_projected :: "int \<Rightarrow> stream_db \<Rightarrow> bool" where
  "already_projected i db = (i > 0 \<and> list_ex (\<lambda>t. tr_event t = i) (ld_trades (sd_ledger db)))"

definition project :: "stream_world \<Rightarrow> event_row \<Rightarrow> binding \<Rightarrow> stream_db \<Rightarrow> string option \<times> stream_db" where
  "project sw row b db =
     (if bd_owner_type b = ''pending_order'' then process_pending_order sw row b db
      else if bd_owner_type b = ''grid'' then process_grid sw row b db
      else if bd_owner_type b = ''grid_market'' then process_grid_market sw row b db
      else if bd_owner_type b = ''quick_trade'' then process_quick_trade sw row b db
      else (None, db))"

text \<open>Whether the report is done with: projected, ignored after two minutes without an owner, or failed.\<close>

definition process_event :: "stream_world \<Rightarrow> event_row \<Rightarrow> stream_db \<Rightarrow> bool \<times> stream_db" where
  "process_event sw row db =
     (if already_projected (er_id row) db then (True, mark_processed (er_id row) db)
      else case resolve_binding sw (sw_depth sw) (er_event row) db of
        (Inl err, db1) \<Rightarrow> (False, mark_failed (er_id row) err db1)
      | (Inr None, db1) \<Rightarrow>
          if 120 * 1000000 \<le> sw_now sw - er_received row then (True, mark_processed (er_id row) db1) else (False, db1)
      | (Inr (Some b), db1) \<Rightarrow>
          (case project sw row b db1 of
             (Some err, db2) \<Rightarrow> (False, mark_failed (er_id row) err db2)
           | (None, db2) \<Rightarrow> (True, mark_processed (er_id row) db2)))"

definition process_events :: "stream_world \<Rightarrow> nat \<Rightarrow> stream_db \<Rightarrow> nat \<times> stream_db" where
  "process_events sw limit db =
     fold (\<lambda>row (n, d). let (ok, d') = process_event sw row d in (if ok then n + 1 else n, d')) (pending_events limit db) (0, db)"

end
