(* ===== verification/StreamLaws.thy ===== *)
theory StreamLaws
  imports Streams GridLaws
begin

text \<open>
  Laws of the execution streams: a report is stored once, what the reports add to a pending order is posted
  to the trades exactly, whatever else is processed in between, a report nobody owns touches nothing, and
  the ways in which a fill can be lost.
\<close>

subsection \<open>What is posted for a pending order\<close>

definition posted_for :: "int \<Rightarrow> live_db \<Rightarrow> real" where
  "posted_for i l = sum_of tr_amount (filter (\<lambda>t. tr_pending t = i) (ld_trades l))"

lemma posted_update:
  "(\<And>t. tr_pending (f t) = tr_pending t) \<Longrightarrow> (\<And>t. tr_amount (f t) = tr_amount t) \<Longrightarrow>
   posted_for i (sd_ledger (update_trade k f db)) = posted_for i (sd_ledger db)"
proof -
  assume a: "\<And>t. tr_pending (f t) = tr_pending t" "\<And>t. tr_amount (f t) = tr_amount t"
  have "sum_of tr_amount (filter (\<lambda>t. tr_pending t = i) (map (\<lambda>t. if tr_id t = k then f t else t) ts)) =
      sum_of tr_amount (filter (\<lambda>t. tr_pending t = i) ts)" for ts
    by (induction ts) (auto simp: a)
  then show ?thesis by (simp add: posted_for_def update_trade_def)
qed

lemma update_trade_frame [simp]:
  "sd_pending (update_trade k f db) = sd_pending db" "sd_bindings (update_trade k f db) = sd_bindings db"
  "sd_events (update_trade k f db) = sd_events db" "sd_runners (update_trade k f db) = sd_runners db"
  "sd_next_event (update_trade k f db) = sd_next_event db"
  by (simp_all add: update_trade_def)

lemma apply_fill_trades: "ld_trades (snd (apply_fill_to_local_position sid sy sig q px leg l)) = ld_trades l"
  by (simp add: apply_fill_to_local_position_def upsert_position_def purge_duplicates_def delete_position_def Let_def split: option.splits)

lemma trade_amount [simp]: "tr_amount (trade_of_input sid t l) = decimal8 (ti_amount t)"
  by (simp add: trade_of_input_def Let_def)

lemma trade_pending:
  "ti_pending t = 0 \<Longrightarrow> ti_leg t = Some leg \<Longrightarrow> tr_pending (trade_of_input sid t l) = leg_pending leg"
  by (simp add: trade_of_input_def Let_def)

lemma record_trade_posted:
  assumes "ti_event t > 0 \<longrightarrow> \<not> list_ex (\<lambda>r. tr_event r = ti_event t) (ld_trades l)"
  shows "posted_for i (snd (record_trade sid t l)) =
    posted_for i l + (if tr_pending (trade_of_input sid t l) = i then decimal8 (ti_amount t) else 0)"
  using assms by (cases "ti_event t > 0") (auto simp: record_trade_def posted_for_def Let_def)

lemma record_trade_other:
  "tr_pending (trade_of_input sid t l) \<noteq> i \<Longrightarrow> posted_for i (snd (record_trade sid t l)) = posted_for i l"
  by (simp add: record_trade_def posted_for_def Let_def)

lemma grid_fill_posted:
  "leg_pending leg \<noteq> i \<Longrightarrow> posted_for i (apply_grid_fill sid sy leg g q px note cells l) = posted_for i l"
proof -
  assume a: "leg_pending leg \<noteq> i"
  have "posted_for i (snd (record_trade k t (snd (apply_fill_to_local_position k sy' sig q' px' (Some leg) l)))) = posted_for i l"
    if "ti_pending t = 0" "ti_leg t = Some leg" for k t sy' sig q' px'
    using record_trade_other trade_pending[OF that] a by (simp add: posted_for_def apply_fill_trades)
  then show ?thesis by (simp add: apply_grid_fill_def Let_def split_beta)
qed

subsection \<open>Clean states and calm worlds\<close>

text \<open>
  A report that can be posted: quantities with eight decimals and a price. The state: such reports, pending
  orders with positive ids and strategies, bindings to strategies, and grids whose exchange answers honestly.
\<close>

definition sound_event :: "exec_event \<Rightarrow> bool" where
  "sound_event e \<longleftrightarrow> exact8 (ee_qty e) \<and> exact8 (ee_cum e) \<and> 0 < ee_price e"

definition stream_ok :: "stream_db \<Rightarrow> bool" where
  "stream_ok db \<longleftrightarrow>
     list_all (\<lambda>r. sound_event (er_event r) \<and> 0 < er_id r) (sd_events db) \<and> 0 < sd_next_event db \<and>
     keys_distinct pn_id (sd_pending db) \<and> list_all (\<lambda>p. 0 < pn_id p \<and> 0 < pn_strategy p \<and> exact8 (pn_filled p) \<and> 0 \<le> pn_filled p) (sd_pending db) \<and>
     list_all (\<lambda>b. 0 \<le> bd_strategy b) (sd_bindings db) \<and>
     list_all (\<lambda>(s, w, ge). honest w \<and> leg_pending (gw_leg w) = 0) (sd_runners db)"

text \<open>No call fails, and the strategies that grid orders belong to have positive ids.\<close>

definition calm :: "stream_world \<Rightarrow> bool" where
  "calm sw \<longleftrightarrow> (\<forall>s. sw_client sw s = None) \<and> (\<forall>i. sw_trade sw i = None) \<and> (\<forall>s. sw_strategy sw s \<noteq> None \<longrightarrow> 0 < s)"

definition filled_of :: "int \<Rightarrow> stream_db \<Rightarrow> real" where
  "filled_of i db = (case row_at pn_id i (sd_pending db) of None \<Rightarrow> 0 | Some p \<Rightarrow> pn_filled p)"

definition unposted :: "int \<Rightarrow> stream_db \<Rightarrow> real" where
  "unposted i db = filled_of i db - posted_for i (sd_ledger db)"

text \<open>
  An operation that keeps the state clean and the account of every pending order balanced; it changes no order's terms.
\<close>

definition order_core :: "pending_row \<Rightarrow> int \<times> json \<times> real" where
  "order_core p = (pn_id p, pn_payload p, pn_price p)"

definition keeps_account :: "stream_db \<Rightarrow> stream_db \<Rightarrow> bool" where
  "keeps_account db db' \<longleftrightarrow> stream_ok db' \<and> map order_core (sd_pending db') = map order_core (sd_pending db) \<and>
     (\<forall>i > 0. unposted i db' = unposted i db)"

lemma keeps_trans: "keeps_account a b \<Longrightarrow> keeps_account b c \<Longrightarrow> keeps_account a c"
  by (simp add: keeps_account_def)

lemma keeps_refl: "stream_ok db \<Longrightarrow> keeps_account db db"
  by (simp add: keeps_account_def)

lemma keeps_frame:
  assumes "stream_ok db" "sd_pending db' = sd_pending db" "\<And>i. 0 < i \<Longrightarrow> posted_for i (sd_ledger db') = posted_for i (sd_ledger db)"
    and "list_all (\<lambda>r. sound_event (er_event r) \<and> 0 < er_id r) (sd_events db')" "0 < sd_next_event db'"
    and "list_all (\<lambda>b. 0 \<le> bd_strategy b) (sd_bindings db')"
    and "list_all (\<lambda>(s, w, ge). honest w \<and> leg_pending (gw_leg w) = 0) (sd_runners db')"
  shows "keeps_account db db'"
  using assms by (simp add: keeps_account_def stream_ok_def unposted_def filled_of_def)

lemma stream_okD:
  assumes "stream_ok db"
  shows "list_all (\<lambda>r. sound_event (er_event r) \<and> 0 < er_id r) (sd_events db)" "0 < sd_next_event db"
    "list_all (\<lambda>b. 0 \<le> bd_strategy b) (sd_bindings db)"
    "list_all (\<lambda>(s, w, ge). honest w \<and> leg_pending (gw_leg w) = 0) (sd_runners db)"
    "keys_distinct pn_id (sd_pending db)"
    "\<And>p. p \<in> set (sd_pending db) \<Longrightarrow> 0 < pn_id p \<and> 0 < pn_strategy p \<and> exact8 (pn_filled p) \<and> 0 \<le> pn_filled p"
  using assms by (auto simp: stream_ok_def list_all_iff)

lemma mark_keeps:
  assumes "stream_ok db"
  shows "keeps_account db (mark_processed i db)" "keeps_account db (mark_failed i err db)"
  by (rule keeps_frame[OF assms]; use stream_okD[OF assms] in \<open>auto simp: mark_processed_def mark_failed_def list_all_iff\<close>)+

lemma observe_binding_keeps: "stream_ok db \<Longrightarrow> keeps_account db (observe_binding x s e b db)"
  by (rule keeps_frame) (auto simp: observe_binding_def stream_ok_def list_all_iff)

lemma register_keeps: "stream_ok db \<Longrightarrow> 0 \<le> bd_strategy b \<Longrightarrow> keeps_account db (register_binding b db)"
proof (rule keeps_frame)
  assume ok: "stream_ok db" and b: "0 \<le> bd_strategy b"
  show "list_all (\<lambda>b. 0 \<le> bd_strategy b) (sd_bindings (register_binding b db))"
    using stream_okD(3)[OF ok] b
    by (auto simp: register_binding_def Let_def list_all_iff rebind_def dest!: set_upsert split: if_splits)
qed (auto simp: register_binding_def stream_ok_def Let_def)

subsection \<open>Each projection keeps the account\<close>

lemma stream_fee_same [simp]:
  "tr_pending (stream_fee c y q st j t) = tr_pending t" "tr_amount (stream_fee c y q st j t) = tr_amount t"
  by (simp_all add: stream_fee_def)

lemma name_event_same [simp]: "tr_pending (name_event i e t) = tr_pending t" "tr_amount (name_event i e t) = tr_amount t"
  by (simp_all add: name_event_def)

lemma ledger_keeps:
  assumes "stream_ok db" "\<And>i. 0 < i \<Longrightarrow> posted_for i (sd_ledger db') = posted_for i (sd_ledger db)"
    "sd_pending db' = sd_pending db" "sd_events db' = sd_events db" "sd_next_event db' = sd_next_event db"
    "sd_bindings db' = sd_bindings db" "sd_runners db' = sd_runners db"
  shows "keeps_account db db'"
  by (rule keeps_frame[OF assms(1)]) (use assms stream_okD[OF assms(1)] in simp_all)

lemma update_trade_keeps:
  assumes "stream_ok db" "\<And>t. tr_pending (f t) = tr_pending t" "\<And>t. tr_amount (f t) = tr_amount t"
  shows "keeps_account db (update_trade k f db)"
  by (rule ledger_keeps[OF assms(1)]) (simp_all add: posted_update assms)

lemma mark_late_keeps: "stream_ok db \<Longrightarrow> keeps_account db (db\<lparr>sd_late := xs\<rparr>)"
  by (rule ledger_keeps) simp_all

lemma keeps_ok: "keeps_account db db' \<Longrightarrow> stream_ok db'"
  by (simp add: keeps_account_def)

lemma keeps_then: "keeps_account a b \<Longrightarrow> (stream_ok b \<Longrightarrow> keeps_account b c) \<Longrightarrow> keeps_account a c"
  by (rule keeps_trans) (auto dest: keeps_ok)

lemma late_fee_keeps:
  assumes ok: "stream_ok db"
  shows "keeps_account db (snd (apply_late_fee i pid fs q st db))"
proof (cases "i \<in> set (sd_late db)")
  case False
  show ?thesis
  proof (cases "newest_trade (\<lambda>t. tr_pending t = pid) db")
    case (Some t)
    let ?d = "db\<lparr>sd_late := sd_late db @ [i]\<rparr>"
    have d: "keeps_account db ?d" by (rule mark_late_keeps[OF ok])
    have "keeps_account db (update_trade (tr_id t) (stream_fee c y q st j) ?d)" for c y j
      by (rule keeps_then[OF d], rule update_trade_keeps) simp_all
    with d False Some show ?thesis by (simp add: apply_late_fee_def split_beta Let_def)
  qed (use False in \<open>simp add: apply_late_fee_def split_beta Let_def keeps_refl[OF ok]\<close>)
qed (simp add: apply_late_fee_def split_beta Let_def keeps_refl[OF ok])

lemma claim_keeps: "stream_ok db \<Longrightarrow> keeps_account db (claim_owner i ty k db)"
  by (rule ledger_keeps) (simp_all add: claim_owner_def)

lemma grid_trade_fee_keeps:
  assumes ok: "stream_ok db"
  shows "keeps_account db (snd (apply_grid_trade_fee sw row b go tr db))"
proof -
  have 1: "keeps_account db (observe_binding x s e b (claim_owner i ty k db))" for x s e i ty k
    by (rule keeps_then[OF claim_keeps[OF ok]], rule observe_binding_keeps)
  have 2: "keeps_account db (observe_binding x s e b (update_trade j f (claim_owner i ty k db)))"
    if "\<And>t. tr_pending (f t) = tr_pending t" "\<And>t. tr_amount (f t) = tr_amount t" for x s e i ty k j f
    by (rule keeps_then[OF claim_keeps[OF ok]], rule keeps_then[OF update_trade_keeps[OF _ that]], assumption, rule observe_binding_keeps)
  show ?thesis
    by (auto simp: apply_grid_trade_fee_def split_beta Let_def keeps_refl[OF ok] 1 2 split: option.split)
qed

lemma quick_keeps: "stream_ok db \<Longrightarrow> keeps_account db (snd (process_quick_trade sw row b db))"
  by (auto simp: process_quick_trade_def Let_def claim_owner_def keeps_refl split: option.split intro!: ledger_keeps)

text \<open>The report adds eight-decimal quantities: what the order gains is what is handed over to be posted.\<close>

lemma exact8_neg: "exact8 a \<Longrightarrow> exact8 (- a)"
  by (auto simp: exact8_def intro: exI[of _ "- n" for n])

lemma exact8_max: "exact8 a \<Longrightarrow> exact8 b \<Longrightarrow> exact8 (max a b)"
  by (simp add: max_def)

lemma exact8_tiny: "exact8 x \<Longrightarrow> 0 \<le> x \<Longrightarrow> x \<le> eps12 \<Longrightarrow> x = 0"
proof -
  assume a: "exact8 x" "0 \<le> x" "x \<le> eps12"
  then obtain n where n: "x = of_int n / 100000000" by (auto simp: exact8_def)
  have "of_int n / 100000000 < (1 :: real) / 100000000" using a n by (simp add: eps12_def)
  then have "(of_int n :: real) < 1" by simp
  with a n show ?thesis by simp
qed

lemma reported_fill_gain:
  assumes "sound_event e" "exact8 q"
  shows "snd (reported_fill e q) = q + fst (reported_fill e q)" "0 \<le> fst (reported_fill e q)"
    "exact8 (fst (reported_fill e q))" "exact8 (snd (reported_fill e q))"
  using assms by (auto simp: reported_fill_def Let_def sound_event_def max_def exact8_0 exact8_neg intro: exact8_add exact8_diff)

lemma observe_pending_filled:
  assumes "sound_event e" "exact8 (pn_filled p)"
  shows "pn_filled (observe_pending now e p) = pn_filled p + fst (reported_fill e (pn_filled p))"
proof -
  note g = reported_fill_gain[OF assms]
  have "max (pn_filled p) (snd (reported_fill e (pn_filled p))) = snd (reported_fill e (pn_filled p))" using g(1,2) by simp
  then show ?thesis using g(1,4) by (simp add: observe_pending_def split_beta Let_def decimal8_exact)
qed

lemma observe_pending_key [simp]:
  "pn_id (observe_pending now e p) = pn_id p" "pn_strategy (observe_pending now e p) = pn_strategy p"
  "pn_payload (observe_pending now e p) = pn_payload p" "pn_price (observe_pending now e p) = pn_price p"
  by (simp_all add: observe_pending_def split_beta Let_def)

lemma observed_row:
  assumes "row_at key k t = Some p" "\<And>r. key (f r) = key r"
  shows "row_at key i (map (\<lambda>r. if key r = k then f r else r) t) = (if i = k then Some (f p) else row_at key i t)"
proof -
  have "row_at key i (map (\<lambda>r. if key r = k then f r else r) t) = map_option (\<lambda>r. if key r = k then f r else r) (row_at key i t)"
    by (rule row_at_map) (simp add: assms(2))
  then show ?thesis using assms(1) by (cases "row_at key i t") (auto dest: row_at_SomeD)
qed

text \<open>What a report changes before anything is posted.\<close>

definition observed_db :: "int \<Rightarrow> event_row \<Rightarrow> binding \<Rightarrow> pending_row \<Rightarrow> stream_db \<Rightarrow> stream_db" where
  "observed_db now row b p db = observe_binding (snd (reported_fill (er_event row) (pn_filled p))) ''open'' (er_event row) b
     (db\<lparr>sd_pending := map (\<lambda>r. if pn_id r = pn_id p then observe_pending now (er_event row) r else r) (sd_pending db)\<rparr>)"

lemma observed_ok:
  assumes ok: "stream_ok db" and e: "sound_event (er_event row)" and p: "row_at pn_id (pn_id p) (sd_pending db) = Some p"
  shows "stream_ok (observed_db now row b p db)" "map order_core (sd_pending (observed_db now row b p db)) = map order_core (sd_pending db)"
    "sd_ledger (observed_db now row b p db) = sd_ledger db" "sd_events (observed_db now row b p db) = sd_events db"
    "filled_of i (observed_db now row b p db) =
       filled_of i db + (if i = pn_id p then fst (reported_fill (er_event row) (pn_filled p)) else 0)"
proof -
  let ?g = "\<lambda>r. if pn_id r = pn_id p then observe_pending now (er_event row) r else r"
  have m: "map pn_id (map ?g (sd_pending db)) = map pn_id (sd_pending db)" by simp
  show "map order_core (sd_pending (observed_db now row b p db)) = map order_core (sd_pending db)"
    by (simp add: observed_db_def observe_binding_def order_core_def)
  show "sd_ledger (observed_db now row b p db) = sd_ledger db" "sd_events (observed_db now row b p db) = sd_events db"
    by (simp_all add: observed_db_def observe_binding_def)
  have ps: "p \<in> set (sd_pending db)" using row_at_SomeD[OF p] by simp
  have x: "exact8 (pn_filled (observe_pending now (er_event row) r)) \<and> 0 \<le> pn_filled (observe_pending now (er_event row) r)"
    if "0 \<le> pn_filled r" for r
    using that by (simp add: observe_pending_def split_beta Let_def decimal8_nonneg)
  have "\<forall>r \<in> set (map ?g (sd_pending db)). 0 < pn_id r \<and> 0 < pn_strategy r \<and> exact8 (pn_filled r) \<and> 0 \<le> pn_filled r"
    using stream_okD(6)[OF ok] stream_okD(6)[OF ok ps] x by auto
  then show "stream_ok (observed_db now row b p db)"
    using ok m by (auto simp: stream_ok_def observed_db_def observe_binding_def list_all_iff simp del: map_map)
  show "filled_of i (observed_db now row b p db) =
       filled_of i db + (if i = pn_id p then fst (reported_fill (er_event row) (pn_filled p)) else 0)"
    using observed_row[OF p, of "observe_pending now (er_event row)" i] p observe_pending_filled[OF e] stream_okD(6)[OF ok ps]
    by (simp add: filled_of_def observed_db_def observe_binding_def)
qed


text \<open>Posting: the trade carries the whole amount, unless a trade of the same report is there already.\<close>

lemma runtime_fill_same [simp]:
  "sd_ledger (record_runtime_fill leg f db) = sd_ledger db" "sd_pending (record_runtime_fill leg f db) = sd_pending db"
  "sd_events (record_runtime_fill leg f db) = sd_events db" "sd_next_event (record_runtime_fill leg f db) = sd_next_event db"
  "sd_bindings (record_runtime_fill leg f db) = sd_bindings db" "sd_runners (record_runtime_fill leg f db) = sd_runners db"
  by (simp_all add: record_runtime_fill_def Let_def)

lemma persist_frame [simp]:
  "sd_pending (snd (persist_strategy_fill leg fault lost f db)) = sd_pending db"
  "sd_events (snd (persist_strategy_fill leg fault lost f db)) = sd_events db"
  "sd_next_event (snd (persist_strategy_fill leg fault lost f db)) = sd_next_event db"
  "sd_bindings (snd (persist_strategy_fill leg fault lost f db)) = sd_bindings db"
  "sd_runners (snd (persist_strategy_fill leg fault lost f db)) = sd_runners db"
  by (simp_all add: persist_strategy_fill_def split_beta Let_def split: option.split)

lemma post_trade_pending:
  "fp_order f \<noteq> 0 \<Longrightarrow> tr_pending (trade_of_input sid (trade_of_post (leg\<lparr>leg_fill_source := x, leg_pending := fp_order f\<rparr>) f p m) l) = fp_order f"
  by (simp add: trade_pending[of _ "leg\<lparr>leg_fill_source := x, leg_pending := fp_order f\<rparr>"] trade_of_post_def)

lemma post_trade_fields [simp]:
  "ti_event (trade_of_post leg f p m) = fp_event f" "ti_amount (trade_of_post leg f p m) = fp_filled f"
  by (simp_all add: trade_of_post_def)

lemma persist_rounds:
  assumes "eps12 < fp_filled f" "fp_order f \<noteq> 0"
    and "0 < fp_event f \<Longrightarrow> \<not> list_ex (\<lambda>r. tr_event r = fp_event f) (ld_trades (sd_ledger db))"
  shows "posted_for i (sd_ledger (snd (persist_strategy_fill leg None lost f db))) =
    posted_for i (sd_ledger db) + (if i = fp_order f then decimal8 (fp_filled f) else 0)"
proof -
  have big: "\<not> \<bar>fp_filled f\<bar> \<le> eps12" using assms(1) by simp
  have "posted_for i (snd (record_trade (fp_strategy f) (trade_of_post (leg\<lparr>leg_fill_source := x, leg_pending := fp_order f\<rparr>) f p m)
      (snd (apply_fill_to_local_position k y g q px lg (sd_ledger db))))) =
    posted_for i (sd_ledger db) + (if i = fp_order f then decimal8 (fp_filled f) else 0)" for x p m k y g q px lg
    by (subst record_trade_posted)
      (use assms in \<open>auto simp: apply_fill_trades posted_for_def post_trade_pending\<close>)
  with big show ?thesis by (cases "i = fp_order f") (simp_all add: persist_strategy_fill_def split_beta Let_def)
qed

lemma persist_posts:
  assumes "eps12 < fp_filled f" "exact8 (fp_filled f)" "fp_order f \<noteq> 0"
    and "0 < fp_event f \<Longrightarrow> \<not> list_ex (\<lambda>r. tr_event r = fp_event f) (ld_trades (sd_ledger db))"
  shows "posted_for i (sd_ledger (snd (persist_strategy_fill leg None lost f db))) =
    posted_for i (sd_ledger db) + (if i = fp_order f then fp_filled f else 0)"
  using persist_rounds[OF assms(1,3,4), of i leg lost] assms(2) by (simp add: decimal8_exact)

lemma not_projected:
  "\<not> already_projected i db \<Longrightarrow> 0 < i \<Longrightarrow> \<not> list_ex (\<lambda>t. tr_event t = i) (ld_trades (sd_ledger db))"
  by (simp add: already_projected_def)


text \<open>Reports are posted for the order's own id.\<close>

lemma post_of_pending_fields [simp]:
  "fp_filled (post_of_pending row b p k d fs q) = d" "fp_order (post_of_pending row b p k d fs q) = pn_id p"
  "fp_event (post_of_pending row b p k d fs q) = er_id row"
  by (simp_all add: post_of_pending_def split_beta Let_def)

lemma process_pending_order_keeps:
  assumes ok: "stream_ok db" and w: "calm sw" and e: "sound_event (er_event row)" "0 < er_id row"
    and b: "0 \<le> bd_strategy b" and new: "\<not> already_projected (er_id row) db"
  shows "keeps_account db (snd (process_pending_order sw row b db))"
proof (cases "row_at pn_id (int_or (bd_pending b) (bd_owner b)) (sd_pending db)")
  case None
  then show ?thesis by (simp add: process_pending_order_def Let_def keeps_refl[OF ok])
next
  case (Some p)
  define d where "d = fst (reported_fill (er_event row) (pn_filled p))"
  define x where "x = observed_db (sw_now sw) row b p db"
  define k where "k = int_or (bd_strategy b) (pn_strategy p)"
  have id: "pn_id p = int_or (bd_pending b) (bd_owner b)" and ps: "p \<in> set (sd_pending db)"
    using row_at_SomeD[OF Some] by simp_all
  have at: "row_at pn_id (pn_id p) (sd_pending db) = Some p" using Some id by simp
  note o = observed_ok[OF ok e(1) at, where b = b and now = "sw_now sw", folded x_def d_def]
  have pos: "0 < pn_id p" "0 < k" using stream_okD(6)[OF ok ps] b by (auto simp: k_def int_or_def)
  have g: "0 \<le> d" "exact8 d" using reported_fill_gain[OF e(1)] stream_okD(6)[OF ok ps] by (simp_all add: d_def)
  have price: "0 < py_or (ee_price (er_event row)) (pn_avg p)" using e(1) by (simp add: sound_event_def py_or_def)
  have calm: "sw_client sw k = None" "sw_trade sw (er_id row) = None" using w by (simp_all add: calm_def)
  have start: "process_pending_order sw row b db =
    (let (fs, quote) = event_fees sw (er_id row) (default_text (ee_symbol (er_event row)) (pn_symbol p)) (py_or (ee_price (er_event row)) (pn_avg p)) x in
     if d > eps12
     then persist_strategy_fill (sw_leg sw k (default_text (ee_symbol (er_event row)) (pn_symbol p))) None (sw_fill_lost sw (er_id row))
            (post_of_pending row b p k d fs quote) x
     else if fs \<noteq> [] then apply_late_fee (er_id row) (pn_id p) fs quote (default_text (ee_fee_status (er_event row)) ''actual'') x
     else (None, x))"
    using Some price pos(2) calm
    by (simp add: process_pending_order_def split_beta Let_def id[symmetric] x_def observed_db_def d_def k_def)
  show ?thesis
  proof (cases "d > eps12")
    case True
    have fresh: "\<not> list_ex (\<lambda>r. tr_event r = er_id row) (ld_trades (sd_ledger x))" using not_projected[OF new e(2)] o(3) by simp
    have "keeps_account db (snd (persist_strategy_fill leg None lost (post_of_pending row b p k d fs q) x))" for leg lost fs q
    proof -
      let ?f = "post_of_pending row b p k d fs q" and ?y = "snd (persist_strategy_fill leg None lost (post_of_pending row b p k d fs q) x)"
      have "posted_for i (sd_ledger ?y) = posted_for i (sd_ledger x) + (if i = pn_id p then d else 0)" for i
        using persist_posts[of ?f x i leg lost] True g(2) pos(1) fresh by simp
      moreover have "filled_of i ?y = filled_of i db + (if i = pn_id p then d else 0)" for i
        using o(5)[of i] by (simp add: filled_of_def)
      ultimately have "unposted i ?y = unposted i db" for i using o(3) by (simp add: unposted_def)
      moreover have "stream_ok ?y" using o(1) by (simp add: stream_ok_def)
      ultimately show ?thesis using o(2) by (simp add: keeps_account_def)
    qed
    with True show ?thesis unfolding start by (simp add: split_beta Let_def)
  next
    case False
    then have "d = 0" using exact8_tiny g by simp
    then have x: "keeps_account db x" using o by (simp add: keeps_account_def unposted_def)
    have "keeps_account db (snd (apply_late_fee i pid fs q st x))" for i pid fs q st
      by (rule keeps_then[OF x], rule late_fee_keeps)
    with x False show ?thesis unfolding start by (simp add: split_beta Let_def)
  qed
qed

lemma set_dict_set: "x \<in> set (dict_set k v d) \<Longrightarrow> x = (k, v) \<or> x \<in> set d"
  by (induction d) (auto split: if_splits)

lemma dict_set_runners:
  assumes "list_all (\<lambda>(s, w, ge). P w) rs" "map_of rs k = Some (w, ge0)"
  shows "list_all (\<lambda>(s, w, ge). P w) (dict_set k (w, ge) rs)"
  using assms map_of_SomeD[OF assms(2)] by (fastforce simp: list_all_iff dest: set_dict_set)

lemma process_grid_keeps:
  assumes ok: "stream_ok db"
  shows "keeps_account db (snd (process_grid sw row b db))"
proof (cases "row_at go_id (bd_owner b) (ot_rows (sd_grid db))")
  case None
  then show ?thesis by (simp add: process_grid_def Let_def keeps_refl[OF ok])
next
  case (Some g)
  define x where "x = db\<lparr>sd_grid := update_order (bd_owner b) (observe_grid (er_event row)) (sd_grid db)\<rparr>"
  define k where "k = int_or (bd_strategy b) (go_strategy g)"
  have x: "keeps_account db x" unfolding x_def by (rule ledger_keeps[OF ok]) simp_all
  have fee: "keeps_account db (snd (apply_grid_trade_fee sw row b i t x))" for i t
    by (rule keeps_then[OF x], rule grid_trade_fee_keeps)
  have run: "keeps_account db (unplug k w (on_order_filled w g q px nt (plug x ge)) x\<lparr>sd_grid := t\<rparr>)"
    if r: "map_of (sd_runners x) k = Some (w, ge)" for w ge q px nt t
  proof -
    have hw: "honest w" "leg_pending (gw_leg w) = 0" using map_of_SomeD[OF r] stream_okD(4)[OF keeps_ok[OF x]] by (auto simp: list_all_iff)
    have led: "ge_ledger (plug x ge) = sd_ledger x" by (simp add: plug_def)
    show ?thesis
    proof (rule keeps_then[OF x], rule keeps_frame, assumption)
      show "list_all (\<lambda>(s, w, ge). honest w \<and> leg_pending (gw_leg w) = 0)
          (sd_runners (unplug k w (on_order_filled w g q px nt (plug x ge)) x\<lparr>sd_grid := t\<rparr>))"
        using dict_set_runners[OF stream_okD(4)[OF keeps_ok[OF x]] r] by (simp add: unplug_def)
      show "posted_for i (sd_ledger (unplug k w (on_order_filled w g q px nt (plug x ge)) x\<lparr>sd_grid := t\<rparr>)) = posted_for i (sd_ledger x)"
        if "0 < i" for i
        using that hw(2) by (simp add: unplug_def filled_ledger[OF hw(1)] led grid_fill_posted)
    qed (use stream_okD[OF keeps_ok[OF x]] in \<open>simp_all add: unplug_def\<close>)
  qed
  show ?thesis
    using Some x fee run
    by (auto simp: process_grid_def split_beta Let_def x_def[symmetric] k_def[symmetric] split: option.split)
qed

lemma project_keeps:
  assumes "stream_ok db" "calm sw" "sound_event (er_event row)" "0 < er_id row" "0 \<le> bd_strategy b" "\<not> already_projected (er_id row) db"
  shows "keeps_account db (snd (project sw row b db))"
  using process_pending_order_keeps[OF assms] process_grid_keeps quick_keeps grid_trade_fee_keeps assms(1)
  by (simp add: project_def process_grid_market_def keeps_refl)

subsection \<open>A pass\<close>

lemma latest_in: "latest key rs = Some r \<Longrightarrow> r \<in> set rs"
  using min_by_mem[of "\<lambda>q. - key q"] by (fastforce simp: latest_def split: list.splits)

lemma legacy_strategy:
  assumes "stream_ok db" "calm sw" "legacy_binding sw e db = Some b"
  shows "0 \<le> bd_strategy b"
proof (cases "latest pn_id (filter (legacy_pending e) (sd_pending db))")
  case (Some p)
  then show ?thesis using assms(3) stream_okD(6)[OF assms(1)] latest_in[OF Some]
    by (fastforce simp: legacy_binding_def binding_of_pending_def)
next
  case None
  then obtain g where g: "latest go_id (filter (\<lambda>g. sw_strategy sw (go_strategy g) \<noteq> None \<and> same_order e (go_exchange g) (go_client g))
      (ot_rows (sd_grid db))) = Some g" and b: "b = binding_of_grid sw e g"
    using assms(3) by (auto simp: legacy_binding_def)
  show ?thesis using latest_in[OF g] assms(2) b by (auto simp: calm_def binding_of_grid_def split_beta Let_def intro: less_imp_le)
qed

lemma lookup_in: "lookup_binding e db = Some b \<Longrightarrow> b \<in> set (sd_bindings db)"
  by (auto simp: lookup_binding_def Let_def dest!: latest_in split: if_splits)

lemma resolve_keeps:
  assumes "calm sw" "stream_ok db" "resolve_binding sw n e db = (r, db')"
  shows "keeps_account db db'" "sd_ledger db' = sd_ledger db" "sd_events db' = sd_events db"
    "r = Inr (Some b) \<Longrightarrow> 0 \<le> bd_strategy b"
proof -
  have "keeps_account db db' \<and> sd_ledger db' = sd_ledger db \<and> sd_events db' = sd_events db \<and> (r = Inr (Some b) \<longrightarrow> 0 \<le> bd_strategy b)"
    using assms(2,3)
  proof (induction n arbitrary: db)
    case 0
    then show ?case by (auto simp: keeps_refl)
  next
    case (Suc n)
    show ?case
    proof (cases "lookup_binding e db")
      case (Some c)
      then show ?thesis using Suc.prems lookup_in[OF Some] stream_okD(3)[OF Suc.prems(1)]
        by (auto simp: keeps_refl list_all_iff)
    next
      case None
      show ?thesis
      proof (cases "legacy_binding sw e db")
        case L: (Some c)
        have k: "keeps_account db (register_binding c db)"
          by (rule register_keeps[OF Suc.prems(1) legacy_strategy[OF Suc.prems(1) assms(1) L]])
        have same: "sd_ledger (register_binding c db) = sd_ledger db" "sd_events (register_binding c db) = sd_events db"
          by (simp_all add: register_binding_def Let_def)
        have "resolve_binding sw n e (register_binding c db) = (r, db')" using Suc.prems(2) None L by simp
        from Suc.IH[OF keeps_ok[OF k] this] show ?thesis using same keeps_trans[OF k] by auto
      qed (use None Suc.prems in \<open>auto simp: keeps_refl\<close>)
    qed
  qed
  then show "keeps_account db db'" "sd_ledger db' = sd_ledger db" "sd_events db' = sd_events db"
    "r = Inr (Some b) \<Longrightarrow> 0 \<le> bd_strategy b" by auto
qed

lemma process_event_keeps:
  assumes "calm sw" "stream_ok db" "sound_event (er_event row)" "0 < er_id row"
  shows "keeps_account db (snd (process_event sw row db))"
proof (cases "already_projected (er_id row) db")
  case False
  obtain r d where r: "resolve_binding sw (sw_depth sw) (er_event row) db = (r, d)" by fastforce
  note k = resolve_keeps[OF assms(1,2) r]
  have new: "\<not> already_projected (er_id row) d" using False k(2) by (simp add: already_projected_def)
  have mark: "keeps_account db c \<Longrightarrow> keeps_account db (mark_processed j c)" "keeps_account db c \<Longrightarrow> keeps_account db (mark_failed j err c)"
    for c j err by (rule keeps_then, assumption, rule mark_keeps, assumption)+
  have "keeps_account db (snd (project sw row b d))" if "r = Inr (Some b)" for b
    by (rule keeps_then[OF k(1)], rule project_keeps) (use assms new k(4) that in auto)
  then show ?thesis
    using False r k(1) mark
    by (auto simp: process_event_def split: sum.split option.split prod.split)
qed (simp add: process_event_def mark_keeps[OF assms(2)])

lemma process_events_keeps:
  assumes "calm sw" "stream_ok db"
  shows "keeps_account db (snd (process_events sw limit db))"
proof -
  have "keeps_account db (snd (fold (\<lambda>row (n, d). let (ok, d') = process_event sw row d in (if ok then n + 1 else n, d')) rs (k, d)))"
    if "keeps_account db d" "list_all (\<lambda>r. sound_event (er_event r) \<and> 0 < er_id r) rs" for rs k d
    using that
  proof (induction rs arbitrary: k d)
    case (Cons r rs)
    have "keeps_account db (snd (process_event sw r d))"
      by (rule keeps_then[OF Cons.prems(1)], rule process_event_keeps[OF assms(1)]) (use Cons.prems(2) in auto)
    from Cons.IH[OF this] Cons.prems(2) show ?case by (simp add: split_beta Let_def)
  qed simp
  moreover have "list_all (\<lambda>r. sound_event (er_event r) \<and> 0 < er_id r) (pending_events limit db)"
    using stream_okD(1)[OF assms(2)] by (auto simp: pending_events_def list_all_iff dest: in_set_takeD)
  ultimately show ?thesis using keeps_refl[OF assms(2)] by (simp add: process_events_def)
qed

text \<open>
  What the service does with the streams: store a report, bind an order, make a pass. The reports are sound as
  stored, the bindings name no strategy or a real one, and nothing fails during a pass.
\<close>

datatype stream_op =
    IngestOp exec_event "fee_component list"
  | RegisterOp binding
  | PassOp nat

definition stream_step :: "stream_world \<times> stream_op \<Rightarrow> stream_db \<Rightarrow> stream_db" where
  "stream_step wo db = (let (sw, oper) = wo in case oper of
     IngestOp e cs \<Rightarrow> snd (ingest sw e cs db)
   | RegisterOp b \<Rightarrow> register_binding b db
   | PassOp n \<Rightarrow> snd (process_events sw n db))"

definition op_ok :: "stream_world \<times> stream_op \<Rightarrow> bool" where
  "op_ok wo = (let (sw, oper) = wo in calm sw \<and> (case oper of
     IngestOp e cs \<Rightarrow> sound_event (stored_event e) | RegisterOp b \<Rightarrow> 0 \<le> bd_strategy b | PassOp n \<Rightarrow> True))"

lemma ingest_keeps:
  "stream_ok db \<Longrightarrow> sound_event (stored_event e) \<Longrightarrow> keeps_account db (snd (ingest sw e cs db))"
  by (rule keeps_frame) (auto simp: ingest_def Let_def stream_ok_def)

lemma stream_step_keeps: "stream_ok db \<Longrightarrow> op_ok wo \<Longrightarrow> keeps_account db (stream_step wo db)"
  by (cases wo) (auto simp: stream_step_def op_ok_def intro: ingest_keeps register_keeps process_events_keeps split: stream_op.splits)

lemma stream_steps_keep: "stream_ok db \<Longrightarrow> list_all op_ok wos \<Longrightarrow> keeps_account db (fold stream_step wos db)"
proof (induction wos arbitrary: db)
  case (Cons wo wos)
  have k: "keeps_account db (stream_step wo db)" using Cons.prems by (auto intro: stream_step_keeps)
  show ?case using keeps_then[OF k Cons.IH] Cons.prems(2) by simp
qed (simp add: keeps_refl)

text \<open>C21: Whatever is stored, bound and processed, in any order and however often reports are delivered, what the
  reports add to a pending order is posted to the strategy's trades exactly once: the quantity the order has filled and
  the quantity its trades add up to move together, as long as no call fails between the two.\<close>

theorem stream_fills_posted_once:
  assumes "stream_ok db" "list_all op_ok wos" "0 < i"
  shows "filled_of i (fold stream_step wos db) - filled_of i db =
    posted_for i (sd_ledger (fold stream_step wos db)) - posted_for i (sd_ledger db)"
  using stream_steps_keep[OF assms(1,2)] assms(3) by (simp add: keeps_account_def unposted_def algebra_simps)


subsection \<open>A concrete stream\<close>

definition demo_stream_report :: "string \<Rightarrow> real \<Rightarrow> real \<Rightarrow> exec_event" where
  "demo_stream_report fill cum qty =
     \<lparr>ee_exchange = ''binance'', ee_market = ''swap'', ee_symbol = ''BTC/USDT'', ee_order = ''x1'', ee_client = [], ee_fill = fill,
      ee_status = ''partial'', ee_price = 100, ee_qty = qty, ee_cum = cum, ee_is_cum = cum > 0, ee_pnl = None,
      ee_fee_status = [], ee_occurred = 5, ee_credential = 3, ee_user = 1, ee_raw = JDict []\<rparr>"

definition demo_stream_pending :: pending_row where
  "demo_stream_pending =
     \<lparr>pn_id = 7, pn_strategy = 4, pn_symbol = ''BTC/USDT'', pn_signal = ''open_long'', pn_market = ''swap'', pn_status = ''sent'',
      pn_filled = 0, pn_avg = 0, pn_run = 0, pn_intent = 0, pn_payload = JDict [], pn_credential = 3, pn_exchange = ''binance'',
      pn_order = ''x1'', pn_client = [], pn_fee_status = [], pn_fee_source = [], pn_executed = False, pn_amount = 5, pn_price = 100, pn_mode = ''live'', pn_priority = 0,
      pn_attempts = 1, pn_max_attempts = 10, pn_updated = 0, pn_sent = None, pn_error = [], pn_note = [], pn_response = None\<rparr>"

definition demo_stream_binding :: binding where
  "demo_stream_binding =
     \<lparr>bd_id = 0, bd_owner_type = ''pending_order'', bd_owner = 7, bd_credential = 3, bd_exchange = ''binance'', bd_market = ''swap'',
      bd_strategy = 4, bd_pending = 7, bd_run = 0, bd_intent = 0, bd_symbol = ''BTC/USDT'', bd_signal = ''open_long'',
      bd_client = [], bd_order = ''x1'', bd_observed = 0, bd_status = []\<rparr>"

definition demo_stream :: stream_db where
  "demo_stream =
     \<lparr>sd_events = [], sd_next_event = 1, sd_fees = [], sd_bindings = [], sd_next_binding = 1, sd_pending = [demo_stream_pending],
      sd_grid = \<lparr>ot_rows = [], ot_next = 1\<rparr>, sd_quick = [],
      sd_ledger = \<lparr>ld_owners = [(4, 9)], ld_positions = [], ld_next_position = 1, ld_trades = [], ld_next_trade = 1\<rparr>,
      sd_late = [], sd_owned = [], sd_fills = [], sd_intents = [], sd_runners = []\<rparr>"

definition demo_stream_digest :: "report_key \<Rightarrow> string" where
  "demo_stream_digest k = (case k of FillKey x c m oid f \<Rightarrow> f | ReportKey x c m oid cl y q cu p t st \<Rightarrow> oid)"

definition demo_stream_world :: "(int \<Rightarrow> string option) \<Rightarrow> int \<Rightarrow> stream_world" where
  "demo_stream_world fault now =
     \<lparr>sw_now = now, sw_digest = demo_stream_digest, sw_strategy = (\<lambda>_. None),
      sw_leg = (\<lambda>_ _. \<lparr>leg_market_type = ''swap'', leg_credential = 3, leg_inst = [], leg_fill_source = [], leg_pending = 0\<rparr>),
      sw_ticker = (\<lambda>_. None), sw_client = (\<lambda>_. None), sw_trade = fault, sw_fill_lost = (\<lambda>_. False), sw_depth = 4\<rparr>"

definition demo_stream_ops :: "(stream_world \<times> stream_op) list" where
  "demo_stream_ops = (let w = demo_stream_world (\<lambda>_. None) 0 in
     [(w, IngestOp (demo_stream_report ''f1'' 2 2) []), (w, RegisterOp demo_stream_binding), (w, PassOp 10),
      (w, IngestOp (demo_stream_report ''f1'' 2 2) []), (w, IngestOp (demo_stream_report ''f2'' 5 3) []), (w, PassOp 10)])"

lemma demo_stream_outcome:
  "(let sd = fold stream_step demo_stream_ops demo_stream in (filled_of 7 sd, posted_for 7 (sd_ledger sd))) = (5, 5)"
  by code_simp

lemma demo_stream_filled:
  "filled_of 7 (fold stream_step demo_stream_ops demo_stream) = 5"
  "posted_for 7 (sd_ledger (fold stream_step demo_stream_ops demo_stream)) = 5"
  using demo_stream_outcome by (simp_all only: Let_def prod.inject)

lemma exact8_numeral: "exact8 (numeral n)"
  unfolding exact8_def by (rule exI[of _ "numeral n * 100000000"]) simp

lemma demo_stream_ok: "stream_ok demo_stream" "list_all op_ok demo_stream_ops"
  by (simp_all add: stream_ok_def demo_stream_def demo_stream_pending_def op_ok_def demo_stream_ops_def Let_def calm_def demo_stream_world_def
      demo_stream_binding_def sound_event_def stored_event_def demo_stream_report_def round12_def exact8_numeral)

theorem stream_fills_posted_once_witness:
  "filled_of 7 (fold stream_step demo_stream_ops demo_stream) = 5 \<and>
   posted_for 7 (sd_ledger (fold stream_step demo_stream_ops demo_stream)) - posted_for 7 (sd_ledger demo_stream) = 5 - filled_of 7 demo_stream"
  using stream_fills_posted_once[OF demo_stream_ok, of 7] by (simp add: demo_stream_filled)

end
