(* ===== verification/StreamTrades.thy ===== *)
theory StreamTrades
  imports StreamLaws
begin

text \<open>
  What the streams leave in the trade book under faults: a report is stored once and names at most one
  trade whatever fails; a fault between a position and its trade loses the trade for good; the two calls that bind a
  report of a legacy order end when the binding matches the report and only then.
\<close>

subsection \<open>The trade book\<close>

definition trades_ok :: "live_db \<Rightarrow> bool" where
  "trades_ok l \<longleftrightarrow> distinct (map tr_id (ld_trades l)) \<and> list_all (\<lambda>t. tr_id t < ld_next_trade l) (ld_trades l) \<and>
     distinct (filter (\<lambda>e. 0 < e) (map tr_event (ld_trades l)))"

lemma apply_fill_next: "ld_next_trade (snd (apply_fill_to_local_position sid sy sig q px leg l)) = ld_next_trade l"
  by (simp add: apply_fill_to_local_position_def upsert_position_def purge_duplicates_def delete_position_def Let_def split: option.splits)

lemma apply_fill_trades_ok: "trades_ok (snd (apply_fill_to_local_position sid sy sig q px leg l)) = trades_ok l"
  by (simp add: trades_ok_def apply_fill_trades apply_fill_next)

lemma trade_of_input_ids [simp]:
  "tr_id (trade_of_input sid t l) = ld_next_trade l" "tr_event (trade_of_input sid t l) = ti_event t"
  by (simp_all add: trade_of_input_def Let_def)

lemma record_trade_ok: "trades_ok l \<Longrightarrow> trades_ok (snd (record_trade sid t l))"
  by (auto simp: trades_ok_def record_trade_def Let_def list_all_iff list_ex_iff)

lemma grid_fill_ok: "trades_ok l \<Longrightarrow> trades_ok (apply_grid_fill sid sy leg g q px nt cells l)"
  by (simp add: apply_grid_fill_def Let_def split_beta record_trade_ok apply_fill_trades_ok)

lemma mapped_trades_ok:
  assumes "trades_ok l" "\<And>t. tr_id (g t) = tr_id t" "distinct (filter (\<lambda>e. 0 < e) (map (\<lambda>t. tr_event (g t)) (ld_trades l)))"
  shows "trades_ok (l\<lparr>ld_trades := map g (ld_trades l)\<rparr>)"
  using assms(1,3) by (simp add: trades_ok_def list_all_iff o_def assms(2))

lemma update_trades_ok:
  assumes "trades_ok (sd_ledger db)" "\<And>t. tr_id (f t) = tr_id t" "\<And>t. tr_event (f t) = tr_event t"
  shows "trades_ok (sd_ledger (update_trade k f db))"
proof -
  have "(\<lambda>t. tr_event (if tr_id t = k then f t else t)) = tr_event" by (simp add: assms(3) fun_eq_iff)
  then show ?thesis using assms(1) mapped_trades_ok[OF assms(1), of "\<lambda>t. if tr_id t = k then f t else t"]
    by (simp add: update_trade_def assms(2) trades_ok_def)
qed

text \<open>Naming a trade after a report no trade is named after.\<close>

lemma named_events:
  assumes "distinct (map tr_id ts)" "e \<notin> tr_event ` set ts" "distinct (filter (\<lambda>e. 0 < e) (map tr_event ts))"
    and f: "\<And>t. tr_event (f t) = (if tr_event t = 0 then e else tr_event t)"
  shows "distinct (filter (\<lambda>e. 0 < e) (map (\<lambda>t. tr_event (if tr_id t = k then f t else t)) ts))"
  using assms(1-3)
proof (induction ts)
  case (Cons x ts)
  let ?g = "\<lambda>t. if tr_id t = k then f t else t"
  have IH: "distinct (filter (\<lambda>e. 0 < e) (map (\<lambda>t. tr_event (?g t)) ts))" using Cons by (auto split: if_splits)
  show ?case
  proof (cases "tr_id x = k")
    case True
    have "map (\<lambda>t. tr_event (?g t)) ts = map tr_event ts"
    proof (rule map_cong)
      fix t assume "t \<in> set ts"
      then have "tr_id t \<noteq> k" using Cons.prems(1) True by (auto intro: rev_image_eqI)
      then show "tr_event (?g t) = tr_event t" by simp
    qed simp
    then have "map (\<lambda>t. tr_event (?g t)) (x # ts) = tr_event (f x) # map tr_event ts" using True by simp
    moreover have "distinct (filter (\<lambda>e. 0 < e) (tr_event (f x) # map tr_event ts))"
      using Cons.prems by (auto simp: f split: if_splits)
    ultimately show ?thesis by (simp only:)
  next
    case False
    have "tr_event (?g t) \<noteq> tr_event x" if "t \<in> set ts" "0 < tr_event x" for t
      using that Cons.prems(2,3) by (auto simp: f split: if_splits dest: rev_image_eqI[of _ _ "tr_event x" tr_event])
    then show ?thesis using IH False by (auto dest: sym)
  qed
qed simp

lemma name_trades_ok:
  assumes "trades_ok (sd_ledger db)" "\<not> list_ex (\<lambda>t. tr_event t = e) (ld_trades (sd_ledger db))"
    "\<And>t. tr_id (f t) = tr_id t" "\<And>t. tr_event (f t) = (if tr_event t = 0 then e else tr_event t)"
  shows "trades_ok (sd_ledger (update_trade k f db))"
proof -
  have "e \<notin> tr_event ` set (ld_trades (sd_ledger db))" using assms(2) by (auto simp: list_ex_iff)
  from named_events[OF _ this _ assms(4)] show ?thesis
    using assms(1) mapped_trades_ok[OF assms(1), of "\<lambda>t. if tr_id t = k then f t else t"]
    by (simp add: update_trade_def assms(3) trades_ok_def)
qed

lemma stream_fee_ids [simp]: "tr_id (stream_fee c y q st j t) = tr_id t" "tr_event (stream_fee c y q st j t) = tr_event t"
  by (simp_all add: stream_fee_def)

lemma name_event_ids [simp]:
  "tr_id (name_event i e t) = tr_id t" "tr_event (name_event i e t) = (if tr_event t = 0 then i else tr_event t)"
  by (simp_all add: name_event_def)

subsection \<open>Projections keep the tables tidy\<close>

text \<open>Each report is stored under a key of its own, and the trade book is sound.\<close>

definition tidy :: "stream_db \<Rightarrow> bool" where
  "tidy db \<longleftrightarrow> keys_distinct er_key (sd_events db) \<and> trades_ok (sd_ledger db) \<and> list_all (\<lambda>(s, w, ge). honest w) (sd_runners db)"

text \<open>A projection touches the reports' rows only through their marks.\<close>

definition tidy_step :: "stream_db \<Rightarrow> stream_db \<Rightarrow> bool" where
  "tidy_step db db' \<longleftrightarrow> map er_key (sd_events db') = map er_key (sd_events db) \<and> trades_ok (sd_ledger db') \<and>
     list_all (\<lambda>(s, w, ge). honest w) (sd_runners db')"

lemma tidy_stepI:
  assumes "tidy db" "sd_events db' = sd_events db" "sd_runners db' = sd_runners db" "trades_ok (sd_ledger db')"
  shows "tidy_step db db'"
  using assms by (simp add: tidy_def tidy_step_def)

lemma tidy_same:
  "tidy db \<Longrightarrow> sd_events db' = sd_events db \<Longrightarrow> sd_runners db' = sd_runners db \<Longrightarrow> sd_ledger db' = sd_ledger db \<Longrightarrow> tidy_step db db'"
  by (rule tidy_stepI) (simp_all add: tidy_def)

lemma tidy_next: "tidy db \<Longrightarrow> tidy_step db db' \<Longrightarrow> tidy db'"
  by (simp add: tidy_def tidy_step_def)

lemma tidy_trans: "tidy_step a b \<Longrightarrow> tidy_step b c \<Longrightarrow> tidy_step a c"
  by (simp add: tidy_step_def)

lemma tidy_then: "tidy a \<Longrightarrow> tidy_step a b \<Longrightarrow> (tidy b \<Longrightarrow> tidy_step b c) \<Longrightarrow> tidy_step a c"
  by (blast intro: tidy_next tidy_trans)

lemma tidy_trades: "tidy db \<Longrightarrow> trades_ok (sd_ledger db)"
  by (simp add: tidy_def)

lemma persist_tidy: "tidy db \<Longrightarrow> tidy_step db (snd (persist_strategy_fill leg fault lost f db))"
  by (rule tidy_stepI, assumption, simp_all)
    (simp add: persist_strategy_fill_def split_beta Let_def record_trade_ok apply_fill_trades_ok tidy_trades split: option.split)

lemma late_fee_tidy: "tidy db \<Longrightarrow> tidy_step db (snd (apply_late_fee i pid fs q st db))"
  by (rule tidy_stepI, assumption)
    (auto simp: apply_late_fee_def split_beta Let_def tidy_trades intro: update_trades_ok split: option.split)

lemma observe_binding_same [simp]:
  "sd_ledger (observe_binding x s e b db) = sd_ledger db" "sd_events (observe_binding x s e b db) = sd_events db"
  "sd_runners (observe_binding x s e b db) = sd_runners db"
  by (simp_all add: observe_binding_def)

lemma claim_owner_same [simp]:
  "sd_ledger (claim_owner i ty k db) = sd_ledger db" "sd_events (claim_owner i ty k db) = sd_events db"
  "sd_runners (claim_owner i ty k db) = sd_runners db"
  by (simp_all add: claim_owner_def)

lemma grid_trade_fee_tidy:
  assumes "tidy db" "\<not> already_projected (er_id row) db"
  shows "tidy_step db (snd (apply_grid_trade_fee sw row b go tr db))"
proof (rule tidy_stepI[OF assms(1)])
  show "trades_ok (sd_ledger (snd (apply_grid_trade_fee sw row b go tr db)))"
    using assms tidy_trades[OF assms(1)]
    by (auto simp: apply_grid_trade_fee_def split_beta Let_def already_projected_def
        intro!: name_trades_ok[where e = "er_id row"] split: option.split)
qed (auto simp: apply_grid_trade_fee_def split_beta Let_def split: option.split)

lemma pending_tidy:
  assumes "tidy db"
  shows "tidy_step db (snd (process_pending_order sw row b db))"
proof (cases "row_at pn_id (int_or (bd_pending b) (bd_owner b)) (sd_pending db)")
  case None
  then show ?thesis by (simp add: process_pending_order_def Let_def tidy_same assms)
next
  case (Some p)
  have id: "pn_id p = int_or (bd_pending b) (bd_owner b)" using row_at_SomeD[OF Some] by simp
  have x: "tidy_step db (observed_db (sw_now sw) row b p db)" by (rule tidy_same[OF assms]) (simp_all add: observed_db_def)
  have "tidy_step db (snd (persist_strategy_fill leg fault lost f (observed_db (sw_now sw) row b p db)))"
    "tidy_step db (snd (apply_late_fee i pid fs q st (observed_db (sw_now sw) row b p db)))" for leg fault lost f i pid fs q st
    by (rule tidy_then[OF assms x], erule persist_tidy late_fee_tidy)+
  with x Some show ?thesis
    by (auto simp: process_pending_order_def split_beta Let_def id[symmetric] observed_db_def[symmetric] split: option.split)
qed


lemma process_grid_tidy:
  assumes t: "tidy db" and new: "\<not> already_projected (er_id row) db"
  shows "tidy_step db (snd (process_grid sw row b db))"
proof (cases "row_at go_id (bd_owner b) (ot_rows (sd_grid db))")
  case None
  then show ?thesis by (simp add: process_grid_def Let_def tidy_same t)
next
  case (Some g)
  define x where "x = db\<lparr>sd_grid := update_order (bd_owner b) (observe_grid (er_event row)) (sd_grid db)\<rparr>"
  define k where "k = int_or (bd_strategy b) (go_strategy g)"
  have x: "tidy_step db x" unfolding x_def by (rule tidy_same[OF t]) simp_all
  have tx: "tidy x" by (rule tidy_next[OF t x])
  have "\<not> already_projected (er_id row) x" using new by (simp add: x_def already_projected_def)
  then have fee: "tidy_step db (snd (apply_grid_trade_fee sw row b i tr x))" for i tr
    by (intro tidy_trans[OF x] grid_trade_fee_tidy[OF tx])
  have run: "tidy_step db (unplug k w (on_order_filled w g q px nt (plug x ge)) x\<lparr>sd_grid := tb\<rparr>)"
    if r: "map_of (sd_runners x) k = Some (w, ge)" for w ge q px nt tb
  proof -
    have hw: "honest w" "list_all (\<lambda>(s, w, ge). honest w) (sd_runners x)"
      using map_of_SomeD[OF r] tx by (auto simp: tidy_def list_all_iff)
    have "trades_ok (ge_ledger (on_order_filled w g q px nt (plug x ge)))"
      using tidy_trades[OF tx] by (simp add: filled_ledger[OF hw(1)] plug_def grid_fill_ok)
    then show ?thesis using x dict_set_runners[OF hw(2) r] by (simp add: tidy_step_def unplug_def)
  qed
  show ?thesis
    using Some x fee run
    by (auto simp: process_grid_def split_beta Let_def x_def[symmetric] k_def[symmetric] split: option.split)
qed

lemma quick_tidy: "tidy db \<Longrightarrow> tidy_step db (snd (process_quick_trade sw row b db))"
  by (auto simp: process_quick_trade_def Let_def intro!: tidy_same split: option.split)

lemma project_tidy:
  "tidy db \<Longrightarrow> \<not> already_projected (er_id row) db \<Longrightarrow> tidy_step db (snd (project sw row b db))"
  by (simp add: project_def process_grid_market_def pending_tidy process_grid_tidy quick_tidy grid_trade_fee_tidy tidy_same)

lemma register_same [simp]:
  "sd_ledger (register_binding b db) = sd_ledger db" "sd_events (register_binding b db) = sd_events db"
  "sd_runners (register_binding b db) = sd_runners db" "sd_pending (register_binding b db) = sd_pending db"
  "sd_grid (register_binding b db) = sd_grid db"  "sd_quick (register_binding b db) = sd_quick db"
  by (simp_all add: register_binding_def Let_def)

lemma resolve_same:
  "sd_ledger (snd (resolve_binding sw n e db)) = sd_ledger db \<and> sd_events (snd (resolve_binding sw n e db)) = sd_events db \<and>
   sd_runners (snd (resolve_binding sw n e db)) = sd_runners db"
  by (induction sw n e db rule: resolve_binding.induct) (auto split: option.split)

lemma marks_tidy: "tidy db \<Longrightarrow> tidy_step db (mark_processed i db)" "tidy db \<Longrightarrow> tidy_step db (mark_failed i err db)"
  by (auto simp: tidy_step_def tidy_def mark_processed_def mark_failed_def)

lemma process_event_tidy:
  assumes "tidy db"
  shows "tidy_step db (snd (process_event sw row db))"
proof (cases "already_projected (er_id row) db")
  case False
  obtain r d where r: "resolve_binding sw (sw_depth sw) (er_event row) db = (r, d)" by fastforce
  have s: "sd_ledger d = sd_ledger db" "sd_events d = sd_events db" "sd_runners d = sd_runners db"
    using resolve_same[of sw "sw_depth sw" "er_event row" db] r by simp_all
  have d: "tidy_step db d" by (rule tidy_same[OF assms]) (simp_all add: s)
  have td: "tidy d" by (rule tidy_next[OF assms d])
  have new: "\<not> already_projected (er_id row) d" using False s by (simp add: already_projected_def)
  have mark: "tidy_step db (mark_processed j c)" "tidy_step db (mark_failed j err c)" if "tidy_step db c" for c j err
    by (rule tidy_then[OF assms that], erule marks_tidy)+
  have "tidy_step db d'" if "project sw row b d = (x, d')" for b x d'
    using tidy_trans[OF d project_tidy[OF td new, of sw b]] that by simp
  then show ?thesis
    using False r d mark by (auto simp: process_event_def split: sum.split option.split prod.split)
qed (simp add: process_event_def marks_tidy assms)

lemma process_events_tidy: "tidy db \<Longrightarrow> tidy_step db (snd (process_events sw limit db))"
proof -
  assume t: "tidy db"
  have "tidy_step db (snd (fold (\<lambda>row (n, d). let (ok, d') = process_event sw row d in (if ok then n + 1 else n, d')) rs (k, d)))"
    if "tidy_step db d" for rs k d
    using that
  proof (induction rs arbitrary: k d)
    case (Cons r rs)
    have "tidy_step db (snd (process_event sw r d))" by (rule tidy_then[OF t Cons.prems], erule process_event_tidy)
    from Cons.IH[OF this] show ?case by (simp add: split_beta Let_def)
  qed simp
  moreover have "tidy_step db db" by (rule tidy_same[OF t]) simp_all
  ultimately show ?thesis by (simp add: process_events_def)
qed

lemma stream_step_tidy: "tidy db \<Longrightarrow> tidy (stream_step wo db)"
proof (cases wo)
  case (Pair sw oper)
  assume t: "tidy db"
  show ?thesis
  proof (cases oper)
    case (IngestOp e cs)
    then show ?thesis using t Pair
      by (auto simp: stream_step_def ingest_def Let_def tidy_def row_at_None)
  next
    case (RegisterOp b)
    then show ?thesis using t Pair by (simp add: stream_step_def tidy_def)
  next
    case (PassOp n)
    then show ?thesis using tidy_next[OF t process_events_tidy[OF t]] Pair by (simp add: stream_step_def)
  qed
qed

lemma stream_steps_tidy: "tidy db \<Longrightarrow> tidy (fold stream_step wos db)"
  by (induction wos arbitrary: db) (auto intro: stream_step_tidy)


text \<open>C22: Whatever calls fail, however often a report is delivered and in whatever order reports, bindings and passes
  come, a report keeps one row and names at most one trade: a second delivery or a retry never posts a fill again.\<close>

theorem one_trade_per_report:
  assumes "tidy db"
  shows "keys_distinct er_key (sd_events (fold stream_step wos db)) \<and>
    distinct (filter (\<lambda>e. 0 < e) (map tr_event (ld_trades (sd_ledger (fold stream_step wos db)))))"
  using stream_steps_tidy[OF assms, of wos] by (simp_all add: tidy_def trades_ok_def)

definition demo_faulty_ops :: "(stream_world \<times> stream_op) list" where
  "demo_faulty_ops = (let w = demo_stream_world (\<lambda>i. if i = 1 then Some ''deadlock detected'' else None) 0; v = demo_stream_world (\<lambda>_. None) 0 in
     [(w, IngestOp (demo_stream_report ''f1'' 2 2) []), (w, RegisterOp demo_stream_binding), (w, IngestOp (demo_stream_report ''f1'' 2 2) []),
      (w, PassOp 10), (v, IngestOp (demo_stream_report ''f2'' 5 3) []), (v, PassOp 10), (v, PassOp 10)])"

lemma demo_stream_tidy: "tidy demo_stream"
  by (simp add: tidy_def trades_ok_def demo_stream_def)

lemma demo_faulty_events: "map er_id (sd_events (fold stream_step demo_faulty_ops demo_stream)) = [1, 3]"
  by code_simp

text \<open>
  The fill of the first report, two units, is in the order's quantity, in the position and the report is done with, but no
  trade has it: the retry found nothing left to post.
\<close>

lemma fault_loses_trade:
  "(let d = fold stream_step demo_faulty_ops demo_stream in
    (filled_of 7 d, posted_for 7 (sd_ledger d), map er_processed (sd_events d), map pr_size (ld_positions (sd_ledger d)))) =
   (5, 3, [True, True], [5])"
  by code_simp

theorem one_trade_per_report_witness:
  "map er_id (sd_events (fold stream_step demo_faulty_ops demo_stream)) = [1, 3] \<and>
   keys_distinct er_key (sd_events (fold stream_step demo_faulty_ops demo_stream)) \<and>
   distinct (filter (\<lambda>e. 0 < e) (map tr_event (ld_trades (sd_ledger (fold stream_step demo_faulty_ops demo_stream)))))"
  using one_trade_per_report[OF demo_stream_tidy] by (simp add: demo_faulty_events)

subsection \<open>Binding the report of a legacy order\<close>

lemma legacy_register [simp]: "legacy_binding sw e (register_binding b db) = legacy_binding sw e db"
  unfolding legacy_binding_def register_same ..

lemma latest_none: "latest key rs = None \<longleftrightarrow> rs = []"
  by (cases rs) (simp_all add: latest_def)

lemma lookup_none: "lookup_binding e db = None \<longleftrightarrow> \<not> list_ex (binds e) (sd_bindings db)"
  by (auto simp: lookup_binding_def Let_def latest_none filter_empty_conv list_ex_iff)

text \<open>The row a registration writes has the market of the order.\<close>

lemma register_rows:
  assumes "r \<in> set (sd_bindings (register_binding b db))"
  shows "r \<in> set (sd_bindings db) \<or> bd_market r = py_lower (default_text (bd_market b) ''swap'')"
  using assms by (auto simp: register_binding_def Let_def rebind_def dest!: set_upsert split: if_splits)

text \<open>An order stored under another market than its reports is never found again: each call registers it and calls the other.\<close>

lemma foreign_market_never_resolves:
  assumes "legacy_binding sw e db = Some b" "\<not> list_ex (binds e) (sd_bindings db)"
    and "ee_market e \<noteq> []" "py_lower (default_text (bd_market b) ''swap'') \<noteq> py_lower (ee_market e)"
  shows "fst (resolve_binding sw n e db) = Inl ''maximum recursion depth exceeded''"
  using assms(1,2)
proof (induction n arbitrary: db)
  case (Suc n)
  have "py_lower (default_text (bd_market b) ''swap'') \<noteq> []" by (simp add: default_text_def py_lower_def split: if_splits)
  then have "\<not> list_ex (binds e) (sd_bindings (register_binding b db))"
    using Suc.prems(2) assms(3,4) register_rows[of _ b db] by (fastforce simp: list_ex_iff binds_def)
  then show ?case using Suc.IH[of "register_binding b db"] Suc.prems lookup_none[of e db] by simp
qed simp

text \<open>A legacy order of the report's own market is bound after one registration.\<close>

lemma rebind_same_order:
  "same_order e (bd_order b) (bd_client b) \<Longrightarrow> bd_order b \<noteq> [] \<or> ee_order e = [] \<Longrightarrow> bd_client b \<noteq> [] \<or> ee_client e = [] \<Longrightarrow>
   same_order e (default_text (bd_order b) x) (default_text (bd_client b) y)"
  by (auto simp: same_order_def default_text_def)

lemma registered_binds:
  assumes "bd_owner_type b \<noteq> []" "0 < bd_owner b" "bd_credential b = ee_credential e" "py_lower (bd_exchange b) = py_lower (ee_exchange e)"
    and "py_lower (default_text (bd_market b) ''swap'') = py_lower (ee_market e)"
    and "same_order e (bd_order b) (bd_client b)" "bd_order b \<noteq> [] \<or> ee_order e = []" "bd_client b \<noteq> [] \<or> ee_client e = []"
  shows "list_ex (binds e) (sd_bindings (register_binding b db))"
proof -
  define new where "new = b\<lparr>bd_id := sd_next_binding db, bd_status := ''open'', bd_exchange := py_lower (bd_exchange b),
      bd_market := py_lower (default_text (bd_market b) ''swap''), bd_observed := round12 (bd_observed b)\<rparr>"
  have new: "sd_bindings (register_binding b db) = upsert_row owner_key rebind new (sd_bindings db)"
    using assms(1,2) by (simp add: register_binding_def Let_def new_def)
  have k: "owner_key (rebind r new) = owner_key new" for r by (simp add: owner_key_def rebind_def)
  have b1: "binds e new" using assms by (simp add: binds_def new_def)
  have b2: "binds e (rebind r new)" for r
    using assms rebind_same_order[OF assms(6-8)] by (simp add: binds_def rebind_def new_def)
  show ?thesis
  proof (cases "row_at owner_key (owner_key new) (sd_bindings db)")
    case None
    then show ?thesis using b1 by (simp add: new upsert_row_def)
  next
    case (Some r)
    then show ?thesis using b2 row_at_SomeD[OF Some] by (auto simp: new upsert_row_def list_ex_iff)
  qed
qed

lemma lower_twice: "py_lower (py_lower s) = py_lower s"
proof -
  have "lower_char (lower_char c) = lower_char c" for c
  proof -
    have "(of_char c :: nat) < 256" by simp
    then show ?thesis by (auto simp: lower_char_def Let_def)
  qed
  then show ?thesis by (simp add: py_lower_def)
qed

text \<open>C23: A report of an order that was placed before its binding was stored is bound by one registration: with two frames
  of stack the mutual calls return a binding that matches the report, when the order was stored for the report's market.\<close>

theorem legacy_order_resolves:
  assumes "latest pn_id (filter (legacy_pending e) (sd_pending db)) = Some p" "0 < pn_id p" "ee_credential e = pn_credential p"
    and "py_lower (default_text (default_text (pn_market p) (py_lower (ee_market e))) ''swap'') = py_lower (ee_market e)"
    and "2 \<le> n"
  shows "list_ex (\<lambda>b. fst (resolve_binding sw n e db) = Inr (Some b) \<and> binds e b) (sd_bindings (snd (resolve_binding sw n e db)))"
proof -
  obtain m where n: "n = Suc (Suc m)" using assms(5) by (metis add_2_eq_Suc le_Suc_ex)
  have found: "binds e b \<and> b \<in> set (sd_bindings d)" if "lookup_binding e d = Some b" for b d
    using that by (auto simp: lookup_binding_def Let_def dest!: latest_in split: if_splits)
  show ?thesis
  proof (cases "lookup_binding e db")
    case (Some b)
    then show ?thesis using found[OF Some] by (auto simp: n list_ex_iff)
  next
    case None
    let ?b = "binding_of_pending e p" and ?d = "register_binding (binding_of_pending e p) db"
    have lp: "legacy_pending e p" using latest_in[OF assms(1)] by simp
    have "list_ex (binds e) (sd_bindings ?d)"
      using lp assms(2-4) by (intro registered_binds)
        (auto simp: binding_of_pending_def legacy_pending_def same_order_def default_text_def int_or_def lower_twice)
    then obtain b where b: "lookup_binding e ?d = Some b" using lookup_none[of e ?d] by blast
    then show ?thesis using found[OF b] None assms(1) by (auto simp: n list_ex_iff legacy_binding_def)
  qed
qed

lemma demo_stream_legacy: "latest pn_id (filter (legacy_pending (demo_stream_report ''f1'' 2 2)) (sd_pending demo_stream)) = Some demo_stream_pending"
  by code_simp

lemma py_lower_swap: "py_lower ''swap'' = ''swap''"
  by code_simp

theorem legacy_order_resolves_witness:
  "list_ex (\<lambda>b. fst (resolve_binding (demo_stream_world (\<lambda>_. None) 0) 2 (demo_stream_report ''f1'' 2 2) demo_stream) = Inr (Some b) \<and>
      binds (demo_stream_report ''f1'' 2 2) b)
    (sd_bindings (snd (resolve_binding (demo_stream_world (\<lambda>_. None) 0) 2 (demo_stream_report ''f1'' 2 2) demo_stream)))"
  by (rule legacy_order_resolves[OF demo_stream_legacy])
    (simp_all add: demo_stream_pending_def demo_stream_report_def default_text_def py_lower_swap)

text \<open>The same order stored as spot: the service recurses until the interpreter stops it.\<close>

lemma spot_order_never_resolves:
  "fst (resolve_binding (demo_stream_world (\<lambda>_. None) 0) n (demo_stream_report ''f1'' 2 2)
     (demo_stream\<lparr>sd_pending := [demo_stream_pending\<lparr>pn_market := ''spot''\<rparr>]\<rparr>)) = Inl ''maximum recursion depth exceeded''"
proof (rule foreign_market_never_resolves)
  show "legacy_binding (demo_stream_world (\<lambda>_. None) 0) (demo_stream_report ''f1'' 2 2)
      (demo_stream\<lparr>sd_pending := [demo_stream_pending\<lparr>pn_market := ''spot''\<rparr>]\<rparr>) =
    Some (binding_of_pending (demo_stream_report ''f1'' 2 2) (demo_stream_pending\<lparr>pn_market := ''spot''\<rparr>))"
    by code_simp
qed (code_simp | simp add: demo_stream_def)+

end
