(* ===== verification/Executors.thy ===== *)
theory Executors
  imports Streams
begin

text \<open>
  How an order reaches an exchange (\<open>live_trading/executors.py\<close>, \<open>contracts.py\<close>, \<open>adapters.py\<close>,
  \<open>pending_orders/live_order_phases.py\<close>, the fill accumulator, sides and client order ids of
  \<open>live_order_support.py\<close>). The exchange is a parameter: it answers each call depending on all the calls
  before it, which the model records.
\<close>

subsection \<open>Sides and names\<close>

text \<open>An exception of a call: the application's own \<open>LiveTradingError\<close>, or any other.\<close>

datatype fault = LiveTradingError string | OtherError string

fun fault_text :: "fault \<Rightarrow> string" where
  "fault_text (LiveTradingError s) = s"
| "fault_text (OtherError s) = s"

definition signal_to_side_pos_reduce :: "string \<Rightarrow> fault + string \<times> string \<times> bool" where
  "signal_to_side_pos_reduce signal =
     (let st = lower_strip signal in
      if st \<in> {''open_long'', ''add_long''} then Inr (''buy'', ''long'', False)
      else if st \<in> {''open_short'', ''add_short''} then Inr (''sell'', ''short'', False)
      else if st \<in> {''close_long'', ''reduce_long'', ''close_long_stop'', ''close_long_profit'', ''close_long_trailing''}
      then Inr (''sell'', ''long'', True)
      else if st \<in> {''close_short'', ''reduce_short'', ''close_short_stop'', ''close_short_profit'', ''close_short_trailing''}
      then Inr (''buy'', ''short'', True)
      else Inl (LiveTradingError (''Unsupported signal_type: '' @ signal)))"

definition is_alnum :: "char \<Rightarrow> bool" where
  "is_alnum c = (let n = (of_char c :: nat) in 48 \<le> n \<and> n \<le> 57 \<or> 65 \<le> n \<and> n \<le> 90 \<or> 97 \<le> n \<and> n \<le> 122)"

text \<open>Decimal digits of an integer.\<close>

fun digits_of_nat :: "nat \<Rightarrow> string" where
  "digits_of_nat n = (if n < 10 then [char_of (48 + n)] else digits_of_nat (n div 10) @ [char_of (48 + n mod 10)])"

declare digits_of_nat.simps [simp del]

definition py_str_int :: "int \<Rightarrow> string" where
  "py_str_int i = (if i < 0 then ''-'' @ digits_of_nat (nat (- i)) else digits_of_nat (nat i))"

text \<open>The prefix \<open>qd\<close> makes the fallback of the source for an empty name unreachable.\<close>

definition live_client_order_id :: "string \<Rightarrow> int \<Rightarrow> int \<Rightarrow> string \<Rightarrow> string" where
  "live_client_order_id exchange strategy order phase =
     (let ph = lower_strip phase in
      if lower_strip exchange = ''okx''
      then take 32 (filter is_alnum (''qd'' @ py_str_int strategy @ py_str_int order @ ph))
      else ''qd_'' @ py_str_int strategy @ ''_'' @ py_str_int order @ (if ph = [] then [] else ''_'' @ ph))"

definition maker_limit_price :: "real \<Rightarrow> string \<Rightarrow> real \<Rightarrow> fault + real" where
  "maker_limit_price ref side offset =
     (let sd = lower_strip side in
      if ref \<le> 0 then Inl (LiveTradingError ''missing_ref_price_for_limit_order'')
      else if sd = ''buy'' then Inr (ref * (1 - offset))
      else if sd \<noteq> ''sell'' then Inl (LiveTradingError (''unsupported_order_side:'' @ side))
      else Inr (ref * (1 + offset)))"

subsection \<open>Collecting fills\<close>

record fill_accumulator =
  fa_base :: real
  fa_quote :: real
  fa_fee :: real
  fa_ccy :: string
  fa_fees :: fees

definition no_fills :: fill_accumulator where
  "no_fills = \<lparr>fa_base = 0, fa_quote = 0, fa_fee = 0, fa_ccy = [], fa_fees = []\<rparr>"

definition apply_fill :: "real \<Rightarrow> real \<Rightarrow> fill_accumulator \<Rightarrow> fill_accumulator" where
  "apply_fill qty px a = (if qty > 0 \<and> px > 0 then a\<lparr>fa_base := fa_base a + qty, fa_quote := fa_quote a + qty * px\<rparr> else a)"

definition apply_fee :: "real \<Rightarrow> string \<Rightarrow> fill_accumulator \<Rightarrow> fill_accumulator" where
  "apply_fee fee ccy a =
     (let v = \<bar>fee\<bar>; k = default_text (py_upper (py_strip ccy)) ''UNKNOWN'';
          fs = dict_set k (fee_of (fa_fees a) k + v) (fa_fees a) in
      if v > 0
      then a\<lparr>fa_fees := fs, fa_ccy := (if length fs = 1 then (if k = ''UNKNOWN'' then [] else k) else ''MIXED''),
             fa_fee := (if length fs = 1 then snd (hd fs) else 0)\<rparr>
      else a)"

definition acc_avg_price :: "fill_accumulator \<Rightarrow> real" where
  "acc_avg_price a = (if fa_base a > 0 then fa_quote a / fa_base a else 0)"

subsection \<open>Orders and answers\<close>

record live_intent =
  li_symbol :: string
  li_side :: string
  li_quantity :: real
  li_market :: string
  li_price :: real
  li_pos_side :: string
  li_reduce_only :: bool
  li_client :: string
  li_fallback :: string
  li_leverage :: real
  li_margin_mode :: string

record placed_order =
  pl_exchange :: string
  pl_order :: string
  pl_filled :: real
  pl_avg :: real
  pl_raw :: json

record fill_snapshot =
  fs_filled :: real
  fs_avg :: real
  fs_status :: string
  fs_raw :: json
  fs_fees :: fees

record exec_result =
  xr_success :: bool
  xr_exchange :: string
  xr_order :: string
  xr_filled :: real
  xr_avg :: real
  xr_status :: string
  xr_error :: string
  xr_raw :: json
  xr_fees :: fees

definition apply_execution_result :: "exec_result \<Rightarrow> fill_accumulator \<Rightarrow> fill_accumulator" where
  "apply_execution_result r a = fold (\<lambda>(c, v). apply_fee v c) (xr_fees r) (apply_fill (xr_filled r) (xr_avg r) a)"

text \<open>
  The clients, and the calls with what is sent to the venue: whether a limit order is post-only, the size of a
  market order, the seconds to wait.
\<close>

datatype venue = BinanceFutures | BinanceSpot | Okx | BitgetMix | BitgetSpot | Bybit | GateSpot | GateFutures | Htx | OtherVenue

datatype exchange_call =
    LeverageCall live_intent
  | LimitCall live_intent bool
  | MarketCall live_intent real
  | CancelCall live_intent string
  | WaitCall live_intent string real

record live_exchange =
  lx_venue :: venue
  lx_limit :: "exchange_call list \<Rightarrow> live_intent \<Rightarrow> bool \<Rightarrow> fault + placed_order"
  lx_market :: "exchange_call list \<Rightarrow> live_intent \<Rightarrow> real \<Rightarrow> fault + placed_order"
  lx_cancel :: "exchange_call list \<Rightarrow> live_intent \<Rightarrow> string \<Rightarrow> fault option"
  lx_wait :: "exchange_call list \<Rightarrow> live_intent \<Rightarrow> string \<Rightarrow> real \<Rightarrow> fault + json"

text \<open>The adapter: the client, and what is known of a spot purchase that is sized in quote currency.\<close>

record live_adapter =
  la_exchange :: live_exchange
  la_mode :: string
  la_ref :: real
  la_quote :: real
  la_uses_quote :: bool

text \<open>A call that may raise, and what has been called so far.\<close>

type_synonym 'a called = "(fault + 'a) \<times> exchange_call list"

definition and_then :: "'a called \<Rightarrow> ('a \<Rightarrow> exchange_call list \<Rightarrow> 'b called) \<Rightarrow> 'b called" where
  "and_then m f = (case m of (Inl e, t) \<Rightarrow> (Inl e, t) | (Inr x, t) \<Rightarrow> f x t)"

subsection \<open>The adapter\<close>

text \<open>\<open>place_live_market_order\<close>: two venues take the size of a spot purchase in quote currency.\<close>

definition market_size :: "live_adapter \<Rightarrow> live_intent \<Rightarrow> real" where
  "market_size ad i =
     (if lx_venue (la_exchange ad) \<in> {BitgetSpot, GateSpot}
      then (let size = (if li_side i = ''buy'' \<and> la_uses_quote ad \<and> la_quote ad > 0 then la_quote ad else li_quantity i) in
            if li_side i = ''buy'' \<and> size \<le> 0 \<and> la_ref ad > 0 then li_quantity i * la_ref ad else size)
      else li_quantity i)"

definition unsupported :: "fault" where
  "unsupported = LiveTradingError ''Unsupported client type''"

text \<open>The leverage is set first where the venue takes it per instrument; what that raises is dropped.\<close>

definition leverage_calls :: "venue \<Rightarrow> live_intent \<Rightarrow> exchange_call list" where
  "leverage_calls v i =
     (if v = GateFutures \<or> v \<in> {Okx, BitgetMix, Htx} \<and> li_market i = ''swap'' then [LeverageCall i] else [])"

text \<open>Bitget needs a side to hold, and alone is told that a limit order must not take.\<close>

definition sent_intent :: "venue \<Rightarrow> live_intent \<Rightarrow> live_intent" where
  "sent_intent v i = (if v = BitgetMix
     then i\<lparr>li_pos_side := default_text (li_pos_side i) (if li_side i = ''buy'' then ''long'' else ''short'')\<rparr> else i)"

definition post_only :: "live_adapter \<Rightarrow> bool" where
  "post_only ad = (lx_venue (la_exchange ad) = BitgetMix \<and> la_mode ad \<in> {''maker'', ''maker_then_market'', ''limit_first'', ''limit''})"

definition place_live_market_order :: "live_adapter \<Rightarrow> live_intent \<Rightarrow> exchange_call list \<Rightarrow> placed_order called" where
  "place_live_market_order ad i t =
     (let x = la_exchange ad; size = market_size ad i; j = sent_intent (lx_venue x) i; t = t @ leverage_calls (lx_venue x) i in
      if lx_venue x = OtherVenue then (Inl unsupported, t)
      else (lx_market x t j size, t @ [MarketCall j size]))"

definition place_live_limit_order :: "live_adapter \<Rightarrow> live_intent \<Rightarrow> exchange_call list \<Rightarrow> placed_order called" where
  "place_live_limit_order ad i t =
     (let x = la_exchange ad; po = post_only ad; j = sent_intent (lx_venue x) i; t = t @ leverage_calls (lx_venue x) i in
      if lx_venue x = OtherVenue then (Inl unsupported, t) else (lx_limit x t j po, t @ [LimitCall j po]))"

definition cancel_live_limit_order :: "live_adapter \<Rightarrow> live_intent \<Rightarrow> string \<Rightarrow> exchange_call list \<Rightarrow> unit called" where
  "cancel_live_limit_order ad i oid t =
     (let x = la_exchange ad in
      if lx_venue x = OtherVenue then (Inr (), t)
      else (case lx_cancel x t i oid of None \<Rightarrow> Inr () | Some e \<Rightarrow> Inl e, t @ [CancelCall i oid]))"

definition wait_seconds :: "venue \<Rightarrow> string \<Rightarrow> real \<Rightarrow> real" where
  "wait_seconds v phase secs =
     (if phase = ''market'' then (if v \<in> {BinanceFutures, BinanceSpot} then 5 else 12)
      else if phase = ''limit'' \<and> v \<in> {BitgetMix, BitgetSpot, GateSpot, GateFutures} then max secs 8
      else secs)"

definition wait_live_order_fill :: "live_adapter \<Rightarrow> live_intent \<Rightarrow> string \<Rightarrow> real \<Rightarrow> string \<Rightarrow> exchange_call list \<Rightarrow> json called" where
  "wait_live_order_fill ad i oid secs phase t =
     (let x = la_exchange ad; s = wait_seconds (lx_venue x) phase secs in
      if lx_venue x = OtherVenue then (Inl unsupported, t) else (lx_wait x t i oid s, t @ [WaitCall i oid s]))"

text \<open>\<open>wait_for_fill\<close>: amounts of the answer; an unreadable quantity or price raises.\<close>

definition snapshot_fees :: "json \<Rightarrow> fees" where
  "snapshot_fees raw =
     (let by = fold (\<lambda>(c, v) fs. let f = \<bar>float_safe v\<bar> in
            if f > 0 then dict_set (default_text (py_upper (py_strip c)) ''UNKNOWN'') f fs else fs) (entries (get raw ''fees_by_ccy'')) [];
          fee = \<bar>float_safe (get raw ''fee'')\<bar> in
      if by \<noteq> [] then by
      else if fee > 0 then [(default_text (py_upper (py_strip (str_or_empty (get raw ''fee_ccy'')))) ''UNKNOWN'', fee)]
      else [])"

definition wait_for_fill :: "live_adapter \<Rightarrow> live_intent \<Rightarrow> string \<Rightarrow> real \<Rightarrow> exchange_call list \<Rightarrow> fill_snapshot called" where
  "wait_for_fill ad i oid secs t =
     and_then (wait_live_order_fill ad i oid secs (if li_price i \<le> 0 then ''market'' else ''limit'') t)
       (\<lambda>raw t. (case (float_or_0 (get raw ''filled''), float_or_0 (get raw ''avg_price'')) of
            (Some q, Some p) \<Rightarrow> Inr \<lparr>fs_filled = q, fs_avg = p, fs_status = str_or_empty (get raw ''status''), fs_raw = raw,
                                  fs_fees = snapshot_fees raw\<rparr>
          | _ \<Rightarrow> Inl (OtherError ''could not convert string to float''), t))"

subsection \<open>The executors\<close>

definition rejected :: "string \<Rightarrow> exec_result" where
  "rejected e = \<lparr>xr_success = False, xr_exchange = [], xr_order = [], xr_filled = 0, xr_avg = 0, xr_status = ''rejected'',
     xr_error = default_text e ''order rejected'', xr_raw = JDict [], xr_fees = []\<rparr>"

definition from_live_order :: "placed_order \<Rightarrow> string \<Rightarrow> exec_result" where
  "from_live_order p status = \<lparr>xr_success = True, xr_exchange = pl_exchange p, xr_order = pl_order p, xr_filled = pl_filled p,
     xr_avg = pl_avg p, xr_status = status, xr_error = [], xr_raw = pl_raw p, xr_fees = []\<rparr>"

text \<open>\<open>except LiveTradingError\<close>: the order counts as rejected.\<close>

definition or_rejected :: "exec_result called \<Rightarrow> exec_result called" where
  "or_rejected m = (case m of (Inl (LiveTradingError e), t) \<Rightarrow> (Inr (rejected e), t) | _ \<Rightarrow> m)"

text \<open>The adapter always answers with a snapshot, so the branch without one is not taken.\<close>

definition market_execute :: "live_adapter \<Rightarrow> live_intent \<Rightarrow> exchange_call list \<Rightarrow> exec_result called" where
  "market_execute ad i t = or_rejected
     (and_then (place_live_market_order ad i t) (\<lambda>p t.
      and_then (wait_for_fill ad i (pl_order p) 12 t) (\<lambda>f t.
      (Inr \<lparr>xr_success = True, xr_exchange = pl_exchange p, xr_order = pl_order p, xr_filled = py_or (fs_filled f) (pl_filled p),
            xr_avg = py_or (fs_avg f) (pl_avg p), xr_status = default_text (fs_status f) ''submitted'', xr_error = [],
            xr_raw = JDict [(''place'', pl_raw p), (''fill'', fs_raw f)], xr_fees = fs_fees f\<rparr>, t))))"

definition resting_limit_execute :: "live_adapter \<Rightarrow> live_intent \<Rightarrow> exchange_call list \<Rightarrow> exec_result called" where
  "resting_limit_execute ad i t =
     (if li_price i \<le> 0 then (Inr (rejected ''limit_price_required''), t)
      else or_rejected (and_then (place_live_limit_order ad i t) (\<lambda>p t.
        (Inr (from_live_order p (if pl_filled p \<ge> li_quantity i \<and> li_quantity i > 0 then ''filled'' else ''submitted'')), t))))"

definition is_complete :: "fill_snapshot \<Rightarrow> real \<Rightarrow> bool" where
  "is_complete f requested =
     (lower_strip (fs_status f) \<in> {''filled'', ''closed'', ''complete''} \<or> requested > 0 \<and> fs_filled f \<ge> requested * 999999 / 1000000)"

definition weighted_avg :: "(real \<times> real) list \<Rightarrow> real" where
  "weighted_avg fills =
     (let total = sum_list (map (\<lambda>(q, p). max 0 q) fills); notional = sum_list (map (\<lambda>(q, p). max 0 q * max 0 p) fills) in
      if total \<le> 0 then 0 else if notional > 0 then notional / total else 0)"

definition merge_fee_breakdowns :: "fees list \<Rightarrow> fees" where
  "merge_fee_breakdowns items =
     fold (\<lambda>(c, v) fs. let k = default_text (py_upper (py_strip c)) ''UNKNOWN'' in
        if \<bar>v\<bar> \<le> 0 then fs else dict_set k (fee_of fs k + \<bar>v\<bar>) fs) (concat items) []"

definition leg_summary :: "string \<Rightarrow> real \<Rightarrow> real \<Rightarrow> json" where
  "leg_summary oid q p = JDict [(''exchange_order_id'', JStr oid), (''filled_qty'', JNum q), (''avg_price'', JNum p)]"

definition limit_then_market_execute :: "live_adapter \<Rightarrow> real \<Rightarrow> bool \<Rightarrow> live_intent \<Rightarrow> exchange_call list \<Rightarrow> exec_result called" where
  "limit_then_market_execute ad secs fallback i t =
     (if li_price i \<le> 0 then market_execute ad i t
      else or_rejected (and_then (place_live_limit_order ad i t) (\<lambda>p t.
        and_then (wait_for_fill ad i (pl_order p) (max 0 secs) t) (\<lambda>f t.
        let base = \<lparr>xr_success = True, xr_exchange = pl_exchange p, xr_order = pl_order p, xr_filled = fs_filled f, xr_avg = fs_avg f,
                    xr_status = default_text (fs_status f) ''submitted'', xr_error = [],
                    xr_raw = JDict [(''limit_place'', pl_raw p), (''limit_fill'', fs_raw f)], xr_fees = fs_fees f\<rparr>;
            left = max 0 (li_quantity i - fs_filled f) in
        if is_complete f (li_quantity i)
        then (Inr (base\<lparr>xr_status := default_text (fs_status f) ''filled'',
                        xr_raw := (if json_truthy (fs_raw f) then fs_raw f else json_or (pl_raw p) (JDict []))\<rparr>), t)
        else if \<not> fallback then (Inr base, t)
        else and_then (cancel_live_limit_order ad i (pl_order p) t) (\<lambda>u t.
          if left \<le> 0 then (Inr base, t)
          else and_then (market_execute ad (i\<lparr>li_quantity := left, li_price := 0, li_client := default_text (li_fallback i) (li_client i)\<rparr>) t)
            (\<lambda>mk t. (Inr \<lparr>xr_success = xr_success mk, xr_exchange = default_text (xr_exchange mk) (pl_exchange p),
                xr_order = default_text (xr_order mk) (pl_order p), xr_filled = fs_filled f + xr_filled mk,
                xr_avg = weighted_avg [(fs_filled f, fs_avg f), (xr_filled mk, xr_avg mk)],
                xr_status = default_text (xr_status mk) ''submitted'', xr_error = xr_error mk,
                xr_raw = JDict [(''limit_place'', pl_raw p), (''limit_fill'', fs_raw f),
                  (''limit_summary'', leg_summary (pl_order p) (fs_filled f) (fs_avg f)), (''market'', xr_raw mk),
                  (''market_summary'', leg_summary (xr_order mk) (xr_filled mk) (xr_avg mk))],
                xr_fees = merge_fee_breakdowns [fs_fees f, xr_fees mk]\<rparr>, t)))))))"

end
