(* ===== verification/OrderRules.thy ===== *)
theory OrderRules
  imports Executors
begin

text \<open>
  The rules an order is checked against on its way out: which broker trades what
  (\<open>broker_market_policy.py\<close>, \<open>live_trading/capabilities.py\<close>), the order type and protection prices of an
  order (\<open>pending_orders/broker_support.py\<close>, \<open>live_trading/native_protection.py\<close>), and the categories of a
  failure (\<open>pending_orders/error_classification.py\<close>, \<open>strategy_lifecycle.py\<close>).
\<close>

subsection \<open>Brokers and markets\<close>

definition crypto_venues :: "string list" where
  "crypto_venues = [''binance'', ''okx'', ''bitget'', ''bybit'', ''gate'', ''htx'']"

definition broker_markets :: "(string \<times> (string \<times> string list) list) list" where
  "broker_markets = [(''ibkr'', [(''USStock'', [''spot''])]), (''alpaca'', [(''USStock'', [''spot''])])] @
     map (\<lambda>x. (x, [(''Crypto'', [''spot'', ''swap''])])) crypto_venues"

definition long_only_brokers :: "string list" where
  "long_only_brokers = [''ibkr'', ''alpaca'']"

definition bot_type_markets :: "(string \<times> string list) list" where
  "bot_type_markets = [(''grid'', [''Crypto'']), (''martingale'', [''Crypto'']), (''dca'', [''Crypto'', ''USStock'']),
     (''trend'', [''Crypto'', ''USStock''])]"

definition live_market_categories :: "string list" where
  "live_market_categories = [''Crypto'', ''USStock'']"

definition policy_market_type :: "string \<Rightarrow> string" where
  "policy_market_type v =
     (let raw = lower_strip v in
      if raw \<in> {''futures'', ''future'', ''perp'', ''perpetual''} then ''swap''
      else if raw \<in> {''usstock'', ''us_stock'', ''stock'', ''stocks'', ''equity'', ''cash''} then ''spot''
      else raw)"

definition markets_of :: "string \<Rightarrow> (string \<times> string list) list" where
  "markets_of ex = (case map_of broker_markets ex of None \<Rightarrow> [] | Some ms \<Rightarrow> ms)"

definition is_compatible_credential :: "string \<Rightarrow> string \<Rightarrow> bool" where
  "is_compatible_credential exchange category =
     (let ex = lower_strip exchange in ex \<noteq> [] \<and> category \<in> fst ` set (markets_of ex))"

definition allowed_market_types :: "string \<Rightarrow> string \<Rightarrow> string list" where
  "allowed_market_types exchange category =
     (case map_of (markets_of (lower_strip exchange)) category of None \<Rightarrow> [] | Some ts \<Rightarrow> ts)"

definition allowed_bot_types :: "string \<Rightarrow> string list" where
  "allowed_bot_types category =
     (if category = [] then [] else map fst (filter (\<lambda>(b, ms). category \<in> set ms) bot_type_markets))"

definition is_long_only_broker :: "string \<Rightarrow> bool" where
  "is_long_only_broker exchange = (lower_strip exchange \<in> set long_only_brokers)"

definition list_supported_brokers_for_market :: "string \<Rightarrow> string list" where
  "list_supported_brokers_for_market category = map fst (filter (\<lambda>(ex, ms). category \<in> fst ` set ms) broker_markets)"

text \<open>What is raised, in the order of the checks.\<close>

datatype policy_error =
    CategoryNotLive string
  | ExchangeRequired
  | UnknownExchange string
  | BrokerCannotTrade string string
  | MarketTypeUnsupported string string string
  | BrokerIsLongOnly string string
  | ShortNeedsSwap string
  | BotMarketMismatch string string

definition validate_strategy_config ::
  "string \<Rightarrow> string \<Rightarrow> string \<Rightarrow> string \<Rightarrow> string \<Rightarrow> bool \<Rightarrow> policy_error option" where
  "validate_strategy_config exchange category market_type direction bot_type require_exchange =
     (let ex = lower_strip exchange; mc = py_strip category; mt = policy_market_type market_type;
          td = lower_strip direction; bt = lower_strip bot_type in
      if ex = []
      then (if mc \<noteq> [] \<and> mc \<notin> set live_market_categories then Some (CategoryNotLive mc)
            else if require_exchange then Some ExchangeRequired else None)
      else if ex \<notin> fst ` set broker_markets then Some (UnknownExchange ex)
      else if mc \<noteq> [] \<and> mc \<notin> set live_market_categories then Some (CategoryNotLive mc)
      else if mc \<noteq> [] \<and> mc \<notin> fst ` set (markets_of ex) then Some (BrokerCannotTrade ex mc)
      else if mc \<noteq> [] \<and> mt \<noteq> [] \<and> mt \<notin> set (allowed_market_types ex mc) then Some (MarketTypeUnsupported ex mc mt)
      else if ex \<in> set long_only_brokers \<and> td \<noteq> [] \<and> td \<noteq> ''long'' then Some (BrokerIsLongOnly ex td)
      else if mc = ''Crypto'' \<and> td = ''short'' \<and> mt \<noteq> [] \<and> mt \<noteq> ''swap'' then Some (ShortNeedsSwap mt)
      else case map_of bot_type_markets bt of
             None \<Rightarrow> None
           | Some ms \<Rightarrow> if bt \<noteq> [] \<and> mc \<noteq> [] \<and> mc \<notin> set ms then Some (BotMarketMismatch bt mc) else None)"

subsection \<open>Order types and protection\<close>

definition broker_order_type :: "json \<Rightarrow> real \<Rightarrow> fault + string \<times> real" where
  "broker_order_type payload ref =
     (let ty = lower_strip (default_text (str_or_empty (get payload ''order_type'')) ''market'') in
      if ty = ''maker_then_market'' then Inl (LiveTradingError ''maker_then_market is not supported by broker execution'')
      else if ty \<noteq> ''market'' \<and> ty \<noteq> ''limit'' then Inl (LiveTradingError (''unsupported_broker_order_type:'' @ ty))
      else case float_or_0 (get payload ''limit_price'') of
             None \<Rightarrow> Inl (OtherError ''could not convert string to float'')
           | Some l \<Rightarrow> let price = (if ty = ''limit'' \<and> l \<le> 0 then ref else l) in
               if ty = ''limit'' \<and> price \<le> 0 then Inl (LiveTradingError ''broker_limit_price_required'') else Inr (ty, price))"

text \<open>The first positive number; what does not read as a number is passed over.\<close>

fun first_positive :: "json list \<Rightarrow> real" where
  "first_positive [] = 0"
| "first_positive (v # vs) = (if float_safe v > 0 then float_safe v else first_positive vs)"

definition protection_prices_from_payload :: "json \<Rightarrow> real \<Rightarrow> string \<Rightarrow> real \<times> real \<times> real \<times> real" where
  "protection_prices_from_payload payload entry_price pos_side =
     (let spec = as_dict (get payload ''protection''); entry = max 0 entry_price; side = lower_strip pos_side;
          stop = first_positive [get payload ''stop_loss_price'', get payload ''stopLossPrice''];
          take = first_positive [get payload ''take_profit_price'', get payload ''takeProfitPrice''];
          pct = (\<lambda>k. first_positive [get spec k, get payload k]);
          sp = pct ''stop_loss_pct''; tp = pct ''take_profit_pct'';
          sl = (if side = ''long'' then - 1 else 1 :: real) in
      (if entry > 0 \<and> stop \<le> 0 \<and> sp > 0 then entry * (1 + sl * sp) else stop,
       if entry > 0 \<and> take \<le> 0 \<and> tp > 0 then entry * (1 - sl * tp) else take,
       pct ''trailing_stop_pct'', pct ''trailing_activation_pct''))"

definition entry_signals :: "string list" where
  "entry_signals = [''open_long'', ''add_long'', ''open_short'', ''add_short'']"

definition broker_protection_prices :: "json \<Rightarrow> string \<Rightarrow> real \<Rightarrow> real \<times> real" where
  "broker_protection_prices payload signal entry_price =
     (let sig = lower_strip signal;
          (stop, take, tr, ac) = protection_prices_from_payload payload entry_price (if py_contains sig ''short'' then ''short'' else ''long'') in
      if sig \<notin> set entry_signals \<or> entry_price \<le> 0 then (0, 0) else (stop, take))"

subsection \<open>Categories of failures\<close>

definition is_word :: "char \<Rightarrow> bool" where
  "is_word c = (is_alnum c \<or> c = CHR ''_'')"

definition at_boundary :: "string \<Rightarrow> bool" where
  "at_boundary s = (case s of [] \<Rightarrow> True | c # _ \<Rightarrow> \<not> is_word c)"

text \<open>The blanks a pattern asks for: the rest after at least one.\<close>

definition after_blanks :: "string \<Rightarrow> string option" where
  "after_blanks s = (case s of [] \<Rightarrow> None | c # _ \<Rightarrow> if is_space c then Some (dropWhile is_space s) else None)"

definition three_digits :: "string \<Rightarrow> (int \<times> string) option" where
  "three_digits s = (case map digit_value (take 3 s) of
     [Some a, Some b, Some c] \<Rightarrow> Some (100 * a + 10 * b + c, drop 3 s) | _ \<Rightarrow> None)"

definition gateway_phrases :: "string list" where
  "gateway_phrases = [''bad gateway'', ''gateway timeout'', ''service unavailable'']"

text \<open>The two alternatives of the pattern at one place, \<open>prev\<close> being what stands before it.\<close>

definition status_here :: "string \<Rightarrow> string \<Rightarrow> int option" where
  "status_here prev s =
     (if \<not> at_boundary prev then None
      else case (if py_startswith s ''http'' then after_blanks (drop 4 s) else None) of
        Some r \<Rightarrow> (case three_digits r of Some (n, q) \<Rightarrow> if at_boundary q then Some n else None | None \<Rightarrow> None)
      | None \<Rightarrow> (case three_digits s of
          Some (n, q) \<Rightarrow> (case after_blanks q of
              Some r \<Rightarrow> if 500 \<le> n \<and> n < 600 \<and> list_ex (\<lambda>p. py_startswith r p \<and> at_boundary (drop (length p) r)) gateway_phrases
                     then Some n else None
            | None \<Rightarrow> None)
        | None \<Rightarrow> None))"

fun http_status :: "string \<Rightarrow> string \<Rightarrow> int" where
  "http_status prev [] = 0"
| "http_status prev (c # s) = (case status_here prev (c # s) of Some n \<Rightarrow> n | None \<Rightarrow> http_status [c] s)"

datatype failure_category = Transport | InsufficientFunds | OrderSize | AccountConfiguration | ExchangeRejected

definition mentions :: "string \<Rightarrow> string list \<Rightarrow> bool" where
  "mentions s tokens = list_ex (py_contains s) tokens"

definition classify_exchange_order_error :: "string \<Rightarrow> failure_category \<times> int" where
  "classify_exchange_order_error error =
     (let low = lower_strip error; st = http_status [] low in
      (if 500 \<le> st \<or> mentions low (gateway_phrases @ [''connection reset'', ''connection timed out'',
            ''timeout waiting for response'', ''temporarily unavailable'']) then Transport
       else if mentions low [''insufficient_available'', ''insufficient balance'', ''insufficient margin'', ''not enough balance'',
            ''margin insufficient''] then InsufficientFunds
       else if mentions low [''below'', ''step'', ''minqty'', ''min qty'', ''minsize'', ''min size'', ''min_notional'', ''minnotional'',
            ''invalid qty'', ''invalid quantity'', ''invalid size'', ''invalid amount''] then OrderSize
       else if mentions low [''position mode'', ''margin mode'', ''leverage''] then AccountConfiguration
       else ExchangeRejected, st))"

definition retryable :: "failure_category \<Rightarrow> bool" where
  "retryable c = (c = Transport)"

text \<open>One token of the source's list is not ASCII and left out.\<close>

definition fatal_tokens :: "string list" where
  "fatal_tokens = [''binance http 401'', ''\"code\":-2015'', ''-2015'', ''okx http 401'', ''\"code\":\"50111\"'', ''50111'',
     ''invalid api-key'', ''invalid api key'', ''invalid ok-access-key'', ''invalid ip'', ''invalid_ip'', ''40018'',
     ''permissions for action'', ''unauthorized'', ''forbidden'', '' http 401'', ''authentication'', ''signature mismatch'',
     ''invalid_signature'', ''permission denied'', ''connection refused'', ''connect call failed'', ''errno 111'',
     ''make sure api port on tws'', ''failed to connect to ibkr'', ''ibkr connection failed'', ''live trading error'',
     ''single-asset collateral mode is temporarily unavailable'', ''disabled ibkr'', ''missing okx'', ''api_key/secret_key'',
     ''secret_key/passphrase'', ''missing api_key'', ''missing secret'', ''missing passphrase'', ''missing credential'',
     ''no credential'', ''exchange credential'', ''unsupported client for grid'']"

definition is_fatal_exchange_error :: "string \<Rightarrow> bool" where
  "is_fatal_exchange_error msg = mentions (py_lower msg) ([''unsupported market type'', ''unsupported market''] @ fatal_tokens)"

end
