(* ===== verification/AccountRisk.thy ===== *)
theory AccountRisk
  imports Ownership
begin

text \<open>
  The account-level exposure check an entry passes before it is sent (\<open>live_trading/account_risk.py\<close>): the
  positions of all live strategies on the account plus the proposed order against the limits.
\<close>

subsection \<open>Reading the configuration\<close>

text \<open>\<open>_positive\<close> and \<open>_ratio\<close>.\<close>

definition positive_of :: "json \<Rightarrow> real \<Rightarrow> real" where
  "positive_of v d = max 0 (case float_or_0 v of None \<Rightarrow> d | Some x \<Rightarrow> x)"

definition ratio_of :: "json \<Rightarrow> real \<Rightarrow> real" where
  "ratio_of v d = (let x = positive_of v d in if x > 1 then x / 100 else x)"

definition risk_market :: "string \<Rightarrow> string" where
  "risk_market v = default_text (normalize_market_type v) ''swap''"

text \<open>
  A strategy row and the columns of its join with the positions. The JSON columns are decoded: what is not a dict
  reads as an empty one.
\<close>

record risk_strategy =
  rk_id :: int
  rk_user :: int
  rk_mode :: string
  rk_status :: string
  rk_capital :: real
  rk_leverage :: real
  rk_market :: string
  rk_exchange_config :: json
  rk_trading_config :: json

text \<open>The credential id; no value where the conversion of the configured one raises.\<close>

definition strategy_credential_id :: "risk_strategy \<Rightarrow> int option" where
  "strategy_credential_id s =
     (let c = credential_id_from_exchange_config (as_dict (rk_exchange_config s)) in
      if c \<noteq> 0 then Some c else int_or_0 (get (as_dict (rk_trading_config s)) ''credential_id''))"

definition strategy_leverage :: "risk_strategy \<Rightarrow> real" where
  "strategy_leverage s =
     (let v = get (as_dict (rk_trading_config s)) ''leverage'' in
      max 1 (positive_of (if json_truthy v then v else JNum (rk_leverage s)) 1))"

definition account_risk_of :: "json \<Rightarrow> json" where
  "account_risk_of trading = as_dict (get (as_dict trading) ''account_risk'')"

definition strategy_fee_rate :: "json \<Rightarrow> real" where
  "strategy_fee_rate trading =
     ratio_of (json_or (get (account_risk_of trading) ''fee_rate'') (json_or (get (as_dict trading) ''commission'') (JNum (1 / 1000)))) 0"

definition strategy_funding_rate :: "json \<Rightarrow> real" where
  "strategy_funding_rate trading =
     ratio_of (json_or (get (account_risk_of trading) ''funding_rate_estimate'') (get (as_dict trading) ''funding_rate_estimate'')) 0"

subsection \<open>The rows of the account\<close>

text \<open>\<open>_load_account_rows\<close>: live strategies of the user, each with its open positions, or with none.\<close>

definition load_account_rows :: "int \<Rightarrow> risk_strategy list \<Rightarrow> position_row list \<Rightarrow> (risk_strategy \<times> position_row option) list" where
  "load_account_rows user ss ps =
     concat (map (\<lambda>s. let own = filter (\<lambda>p. pr_strategy p = rk_id s \<and> pr_size p > 0) ps in
        if own = [] then [(s, None)] else map (\<lambda>p. (s, Some p)) own)
       (filter (\<lambda>s. rk_user s = user \<and> rk_mode s = ''live'') ss))"

definition row_market :: "risk_strategy \<times> position_row option \<Rightarrow> string" where
  "row_market r = risk_market (default_text (rk_market (fst r)) (case snd r of None \<Rightarrow> [] | Some p \<Rightarrow> pr_market p))"

definition row_credential :: "risk_strategy \<times> position_row option \<Rightarrow> int option" where
  "row_credential r = (case snd r of
     Some p \<Rightarrow> if pr_credential p \<noteq> 0 then Some (pr_credential p) else strategy_credential_id (fst r)
   | None \<Rightarrow> strategy_credential_id (fst r))"

definition on_account :: "int \<Rightarrow> string \<Rightarrow> risk_strategy \<times> position_row option \<Rightarrow> bool" where
  "on_account cred mt r = (row_market r = mt \<and> (cred > 0 \<longrightarrow> row_credential r = Some cred))"

text \<open>The strategies of the account, the one that asks included whatever its account.\<close>

definition add_strategy :: "risk_strategy \<Rightarrow> risk_strategy list \<Rightarrow> risk_strategy list" where
  "add_strategy s ss = (if list_ex (\<lambda>x. rk_id x = rk_id s) ss then ss else ss @ [s])"

definition account_strategies :: "int \<Rightarrow> int \<Rightarrow> risk_strategy list \<Rightarrow> (risk_strategy \<times> position_row option) list \<Rightarrow> risk_strategy list" where
  "account_strategies user sid ss rows =
     (let on = fold (\<lambda>r. add_strategy (fst r)) rows [] in
      if sid > 0 \<and> \<not> list_ex (\<lambda>s. rk_id s = sid) on
      then on @ take 1 (filter (\<lambda>s. rk_id s = sid \<and> rk_user s = user) ss) else on)"

subsection \<open>Exposure\<close>

record exposure =
  xp_long :: real
  xp_short :: real
  xp_margin :: real
  xp_fee :: real
  xp_funding :: real
  xp_symbols :: "real dict"
  xp_unpriced :: nat

definition no_exposure :: exposure where
  "no_exposure = \<lparr>xp_long = 0, xp_short = 0, xp_margin = 0, xp_fee = 0, xp_funding = 0, xp_symbols = [], xp_unpriced = 0\<rparr>"

definition gross_of :: "exposure \<Rightarrow> real" where
  "gross_of x = xp_long x + xp_short x"

definition expose :: "string \<Rightarrow> string \<Rightarrow> real \<Rightarrow> real \<Rightarrow> json \<Rightarrow> exposure \<Rightarrow> exposure" where
  "expose side symbol notional leverage trading x =
     x\<lparr>xp_long := (if side = ''short'' then xp_long x else xp_long x + notional),
       xp_short := (if side = ''short'' then xp_short x + notional else xp_short x),
       xp_margin := xp_margin x + notional / leverage,
       xp_fee := xp_fee x + notional * strategy_fee_rate trading * 2,
       xp_funding := xp_funding x + notional * strategy_funding_rate trading,
       xp_symbols := dict_set symbol (leg_value (xp_symbols x) symbol + notional) (xp_symbols x)\<rparr>"

definition position_notional :: "position_row \<Rightarrow> real" where
  "position_notional p = max 0 (pr_size p) * max 0 (py_or (pr_current p) (pr_entry p))"

definition expose_position :: "risk_strategy \<times> position_row \<Rightarrow> exposure \<Rightarrow> exposure" where
  "expose_position = (\<lambda>(s, p) x0.
     let n = position_notional p;
         x = (if pr_size p > 0 \<and> py_or (pr_current p) (pr_entry p) \<le> 0 then x0\<lparr>xp_unpriced := xp_unpriced x0 + 1\<rparr> else x0) in
     if n \<le> 0 then x
     else expose (lower_strip (default_text (pr_side p) ''long''))
       (normalize_strategy_symbol (default_text (pr_canonical p) (pr_symbol p))) n (strategy_leverage s) (rk_trading_config s) x)"

subsection \<open>The verdict\<close>

record proposal =
  pp_strategy :: int
  pp_symbol :: string
  pp_side :: string
  pp_quantity :: real
  pp_price :: real
  pp_leverage :: real

record risk_limits =
  rl_gross :: real
  rl_margin :: real
  rl_fee :: real
  rl_funding :: real
  rl_leverage :: real
  rl_symbol :: real

record risk_snapshot =
  rs_allowed :: bool
  rs_violations :: "string list"
  rs_exposure :: exposure
  rs_gross_leverage :: real
  rs_capital :: real
  rs_capacity :: real
  rs_hedge_ratio :: real
  rs_limits :: risk_limits

text \<open>The strategies that count for the budget: the running ones, and the one that asks.\<close>

definition counted :: "int \<Rightarrow> risk_strategy list \<Rightarrow> risk_strategy list" where
  "counted sid ss = filter (\<lambda>s. py_lower (rk_status s) = ''running'' \<or> rk_id s = sid) ss"

definition capital_budget :: "int \<Rightarrow> risk_strategy list \<Rightarrow> real" where
  "capital_budget sid ss = sum_of (\<lambda>s. max 0 (rk_capital s)) (counted sid ss)"

definition gross_capacity :: "int \<Rightarrow> risk_strategy list \<Rightarrow> real" where
  "gross_capacity sid ss = sum_of (\<lambda>s. max 0 (rk_capital s) * strategy_leverage s) (counted sid ss)"

definition resolve_limits :: "json \<Rightarrow> real \<Rightarrow> real \<Rightarrow> risk_limits" where
  "resolve_limits policy budget capacity =
     (let v = (\<lambda>k. positive_of (get policy k) 0); gross = py_or (v ''max_gross_notional'') capacity in
      \<lparr>rl_gross = gross, rl_margin = py_or (v ''max_margin_estimate'') budget,
       rl_fee = py_or (v ''max_round_trip_fee'') (budget * ratio_of (get policy ''max_fee_budget_ratio'') (1 / 20)),
       rl_funding = py_or (v ''max_funding_per_interval'') (budget * ratio_of (get policy ''max_funding_budget_ratio'') (1 / 50)),
       rl_leverage = py_or (v ''max_gross_leverage'') (if budget > 0 then capacity / budget else 0),
       rl_symbol = py_or (v ''max_symbol_gross_notional'') gross\<rparr>)"

definition exceeds :: "real \<Rightarrow> real \<Rightarrow> bool" where
  "exceeds x limit = (limit > 0 \<and> x > limit + eps8)"

definition violations :: "risk_limits \<Rightarrow> exposure \<Rightarrow> real \<Rightarrow> bool \<Rightarrow> string \<Rightarrow> string list" where
  "violations l x gross_leverage price_missing symbol =
     map snd (filter fst
       [(xp_unpriced x > 0, ''accountRisk.positionPriceMissing''),
        (price_missing, ''accountRisk.proposedPriceMissing''),
        (exceeds (gross_of x) (rl_gross l), ''accountRisk.grossNotionalExceeded''),
        (exceeds (xp_margin x) (rl_margin l), ''accountRisk.marginEstimateExceeded''),
        (exceeds (xp_fee x) (rl_fee l), ''accountRisk.feeBudgetExceeded''),
        (exceeds (xp_funding x) (rl_funding l), ''accountRisk.fundingBudgetExceeded''),
        (exceeds gross_leverage (rl_leverage l), ''accountRisk.grossLeverageExceeded''),
        (symbol \<noteq> [] \<and> exceeds (leg_value (xp_symbols x) symbol) (rl_symbol l), ''accountRisk.symbolGrossNotionalExceeded'')])"

text \<open>Without a value where the conversion of a credential id raises.\<close>

definition account_risk_snapshot ::
  "int \<Rightarrow> int \<Rightarrow> string \<Rightarrow> proposal \<Rightarrow> json \<Rightarrow> risk_strategy list \<Rightarrow> position_row list \<Rightarrow> risk_snapshot option" where
  "account_risk_snapshot user cred0 market p policy ss ps =
     (let cred = cred0; mt = risk_market market; rows = load_account_rows user ss ps;
          here = filter (on_account cred mt) rows;
          strategies = account_strategies user (pp_strategy p) ss here;
          held = fold expose_position (concat (map (\<lambda>(s, q). case q of Some r \<Rightarrow> if pr_symbol r \<noteq> [] \<or> pr_canonical r \<noteq> [] then [(s, r)] else []
                                                 | None \<Rightarrow> []) here)) no_exposure;
          notional = max 0 (pp_quantity p) * max 0 (pp_price p);
          missing = max 0 (pp_quantity p) > 0 \<and> max 0 (pp_price p) \<le> 0;
          symbol = normalize_strategy_symbol (pp_symbol p);
          trading = (case find (\<lambda>s. rk_id s = pp_strategy p) strategies of None \<Rightarrow> JNull | Some s \<Rightarrow> rk_trading_config s);
          x = (if notional > 0 then expose (lower_strip (pp_side p)) symbol notional (max 1 (pp_leverage p)) trading held else held);
          budget = capital_budget (pp_strategy p) strategies; capacity = gross_capacity (pp_strategy p) strategies;
          hi = max (xp_long x) (xp_short x); gl = (if budget > 0 then gross_of x / budget else 0);
          limits = resolve_limits policy budget capacity; bad = violations limits x gl missing symbol in
      if list_ex (\<lambda>r. row_credential r = None) rows then None
      else Some \<lparr>rs_allowed = (bad = []), rs_violations = bad, rs_exposure = x, rs_gross_leverage = gl, rs_capital = budget,
                 rs_capacity = capacity, rs_hedge_ratio = (if hi > 0 then min (xp_long x) (xp_short x) / hi else 0), rs_limits = limits\<rparr>)"

definition account_risk_limits :: "json \<Rightarrow> json" where
  "account_risk_limits config = as_dict (get (as_dict (get config ''trading_config'')) ''account_risk'')"

end
