(* ===== verification/OrderQueue.thy ===== *)
theory OrderQueue
  imports OrderRules AccountRisk
begin

text \<open>
  The queue of pending orders: the gateway through which a live session submits an order
  (\<open>strategy_v2/live_execution.py\<close>, \<open>strategy_runtime/order_intents.py\<close>) and the transactions by which the
  order worker claims, settles and re-reads it (\<open>pending_order_worker.py\<close>). The tables are those of the
  streams, with the idempotency keys of orders and intents.
\<close>

subsection \<open>Tables\<close>

text \<open>
  Beside the tables of the streams: the intents by run and key, the pending orders by key, the serial numbers, the
  reservations, the strategies, and those this process has stopped for good.
\<close>

record order_db =
  od_db :: stream_db
  od_intents :: "(int \<times> string \<times> int) list"
  od_keys :: "(string \<times> int) list"
  od_next_intent :: int
  od_next_order :: int
  od_reserved :: "reservation list"
  od_strategies :: "risk_strategy list"
  od_quiet :: "int list"

definition with_db :: "(stream_db \<Rightarrow> stream_db) \<Rightarrow> order_db \<Rightarrow> order_db" where
  "with_db f q = q\<lparr>od_db := f (od_db q)\<rparr>"

definition on_order :: "int \<Rightarrow> (pending_row \<Rightarrow> pending_row) \<Rightarrow> stream_db \<Rightarrow> stream_db" where
  "on_order i f db = db\<lparr>sd_pending := map (\<lambda>p. if pn_id p = i then f p else p) (sd_pending db)\<rparr>"

definition order_row :: "int \<Rightarrow> stream_db \<Rightarrow> pending_row option" where
  "order_row i db = row_at pn_id i (sd_pending db)"

text \<open>\<open>UPDATE strategy_order_intents ... FROM pending_orders\<close>.\<close>

definition set_intent :: "int \<Rightarrow> string \<Rightarrow> stream_db \<Rightarrow> stream_db" where
  "set_intent i status db =
     (case order_row i db of None \<Rightarrow> db
      | Some p \<Rightarrow> db\<lparr>sd_intents := map (\<lambda>(k, v). (k, if k = pn_intent p then status else v)) (sd_intents db)\<rparr>)"

subsection \<open>Submitting an order\<close>

record live_request =
  rq_strategy :: int
  rq_run :: int
  rq_user :: int
  rq_symbol :: string
  rq_action :: string
  rq_quantity :: real
  rq_ref :: real
  rq_ts :: int
  rq_market :: string
  rq_mode :: string
  rq_leverage :: real
  rq_reason :: string
  rq_notify :: json
  rq_type :: string
  rq_algo :: string
  rq_limit :: real
  rq_wait :: real
  rq_offset :: real
  rq_protection :: json
  rq_sizing :: json
  rq_client :: string

definition active_pending_statuses :: "string list" where
  "active_pending_statuses = [''pending'', ''processing'', ''sent'', ''syncing'']"

definition position_lane :: "string \<Rightarrow> string" where
  "position_lane action =
     (let s = lower_strip action in
      if py_endswith s ''_long'' then ''long'' else if py_endswith s ''_short'' then ''short'' else [])"

definition lane_actions :: "string \<Rightarrow> string list" where
  "lane_actions lane = (if lane = ''long'' then [''open_long'', ''add_long'', ''reduce_long'', ''close_long'']
     else [''open_short'', ''add_short'', ''reduce_short'', ''close_short''])"

definition in_lane :: "live_request \<Rightarrow> pending_row \<Rightarrow> bool" where
  "in_lane r p = (pn_strategy p = rq_strategy r \<and> pn_run p = rq_run r \<and> pn_symbol p = rq_symbol r \<and>
     pn_signal p \<in> set (lane_actions (position_lane (rq_action r))) \<and> pn_status p \<in> set active_pending_statuses)"

definition has_inflight :: "live_request \<Rightarrow> order_db \<Rightarrow> bool" where
  "has_inflight r q =
     (position_lane (rq_action r) \<noteq> [] \<and> (case filter (in_lane r) (sd_pending (od_db q)) of [] \<Rightarrow> False | p # ps \<Rightarrow>
        pn_id (min_by (\<lambda>x. - pn_id x) p ps) > 0))"

definition request_actions :: "string list" where
  "request_actions = [''open_long'', ''open_short'', ''add_long'', ''add_short'', ''reduce_long'', ''reduce_short'',
     ''close_long'', ''close_short'']"

definition validate_request :: "live_request \<Rightarrow> string option" where
  "validate_request r =
     (let close_all = (rq_action r \<in> {''close_long'', ''close_short''} \<and> rq_quantity r = 0) in
      if rq_strategy r \<le> 0 \<or> rq_user r \<le> 0 then Some ''strategyV2.invalidRuntimeIdentity''
      else if rq_run r \<le> 0 then Some ''strategyV2.invalidRunIdentity''
      else if rq_symbol r = [] then Some ''strategyV2.orderSymbolRequired''
      else if rq_action r \<notin> set request_actions then Some ''strategyV2.orderActionUnsupported''
      else if rq_quantity r \<le> 0 \<and> \<not> close_all \<or> rq_ref r \<le> 0 then Some ''strategyV2.invalidOrderSize''
      else if rq_mode r \<notin> {''signal'', ''live''} then Some ''strategyV2.invalidExecutionMode''
      else if rq_market r = ''spot'' \<and> py_contains (rq_action r) ''short'' then Some ''strategyV2.spotShortUnsupported''
      else if rq_type r \<notin> {''market'', ''limit''} then Some ''strategyV2.orderTypeUnsupported''
      else if rq_algo r \<notin> {''market'', ''limit'', ''maker_then_market''} then Some ''strategyV2.executionAlgoUnsupported''
      else if rq_algo r = ''limit'' \<and> rq_limit r \<le> 0 then Some ''strategyV2.limitPriceRequired''
      else None)"

definition request_client :: "live_request \<Rightarrow> string" where
  "request_client r = take 100 (py_strip (rq_client r))"

definition request_key :: "live_request \<Rightarrow> string" where
  "request_key r = take 180 (''run:'' @ py_str_int (rq_run r) @ '':strategy:'' @ py_str_int (rq_strategy r) @
     (if request_client r \<noteq> [] then '':client:'' @ request_client r
      else '':'' @ rq_symbol r @ '':'' @ rq_action r @ '':'' @ py_str_int (rq_ts r)))"

text \<open>
  \<open>create_intent\<close>: the id, the status and whether it was there before; \<open>lost\<close> when the database fails. The
  columns of an intent that only repeat the request are left out.
\<close>

definition create_intent :: "bool \<Rightarrow> int \<Rightarrow> string \<Rightarrow> order_db \<Rightarrow> (int \<times> string \<times> bool) \<times> order_db" where
  "create_intent lost run key0 q =
     (let key = take 180 (py_strip key0) in
      case find (\<lambda>(r, k, i). r = run \<and> k = key) (od_intents q) of
        Some (r, k, i) \<Rightarrow> ((i, (case map_of (sd_intents (od_db q)) i of None \<Rightarrow> [] | Some s \<Rightarrow> s), True), q)
      | None \<Rightarrow> if lost then ((0, ''ephemeral'', False), q)
          else ((od_next_intent q, ''intent_created'', False),
            with_db (\<lambda>db. db\<lparr>sd_intents := sd_intents db @ [(od_next_intent q, ''intent_created'')]\<rparr>)
              (q\<lparr>od_intents := od_intents q @ [(run, key, od_next_intent q)], od_next_intent := od_next_intent q + 1\<rparr>)))"

definition order_payload :: "live_request \<Rightarrow> int \<Rightarrow> json" where
  "order_payload r intent = JDict
     [(''strategy_id'', JNum (of_int (rq_strategy r))), (''strategy_run_id'', JNum (of_int (rq_run r))),
      (''order_intent_id'', JNum (of_int intent)), (''idempotency_key'', JStr (request_key r)), (''symbol'', JStr (rq_symbol r)),
      (''signal_type'', JStr (rq_action r)), (''market_type'', JStr (rq_market r)), (''amount'', JNum (rq_quantity r)),
      (''price'', JNum (py_or (rq_limit r) (rq_ref r))), (''ref_price'', JNum (rq_ref r)), (''leverage'', JNum (rq_leverage r)),
      (''execution_mode'', JStr (rq_mode r)), (''notification_config'', json_or (rq_notify r) (JDict [])),
      (''signal_ts'', JNum (of_int (rq_ts r))), (''reason'', JStr (rq_reason r)), (''order_type'', JStr (rq_type r)),
      (''execution_algo'', JStr (rq_algo r)), (''limit_price'', JNum (rq_limit r)), (''maker_wait_sec'', JNum (rq_wait r)),
      (''maker_offset_bps'', JNum (rq_offset r)), (''protection'', json_or (rq_protection r) (JDict [])),
      (''sizing'', json_or (rq_sizing r) (JDict [])), (''client_order_id'', JStr (request_client r))]"

definition new_order :: "int \<Rightarrow> live_request \<Rightarrow> int \<Rightarrow> int \<Rightarrow> pending_row" where
  "new_order now r intent i =
     \<lparr>pn_id = i, pn_strategy = rq_strategy r, pn_symbol = rq_symbol r, pn_signal = rq_action r, pn_market = rq_market r,
      pn_status = ''pending'', pn_filled = 0, pn_avg = 0, pn_run = rq_run r, pn_intent = intent, pn_payload = order_payload r intent,
      pn_credential = 0, pn_exchange = [], pn_order = [], pn_client = [], pn_fee_status = ''pending'', pn_fee_source = [],
      pn_executed = False, pn_amount = decimal8 (rq_quantity r), pn_price = decimal8 (py_or (rq_limit r) (rq_ref r)),
      pn_mode = rq_mode r, pn_priority = 0, pn_attempts = 0, pn_max_attempts = 10, pn_updated = now, pn_sent = None, pn_error = [],
      pn_note = [], pn_response = None\<rparr>"

text \<open>\<open>INSERT ... ON CONFLICT (idempotency_key) DO NOTHING\<close>; a conflict still uses up a number.\<close>

definition insert_pending_order :: "int \<Rightarrow> live_request \<Rightarrow> int \<Rightarrow> order_db \<Rightarrow> order_db" where
  "insert_pending_order now r intent q =
     (let i = od_next_order q; q1 = q\<lparr>od_next_order := i + 1\<rparr> in
      if map_of (od_keys q) (request_key r) \<noteq> None then q1
      else with_db (\<lambda>db. db\<lparr>sd_pending := sd_pending db @ [new_order now r intent i]\<rparr>)
             (q1\<lparr>od_keys := od_keys q @ [(request_key r, i)]\<rparr>))"

definition submit_order :: "int \<Rightarrow> bool \<Rightarrow> live_request \<Rightarrow> order_db \<Rightarrow> (string + int option) \<times> order_db" where
  "submit_order now lost r q =
     (case validate_request r of
        Some e \<Rightarrow> (Inl e, q)
      | None \<Rightarrow>
          (let ((intent, status, existing), q1) = create_intent lost (rq_run r) (request_key r) q;
               stored = map_of (od_keys q1) (request_key r) in
           if existing \<and> status \<notin> {''failed'', ''cancelled'', ''rejected''} \<and> stored \<noteq> None then (Inr stored, q1)
           else if intent \<le> 0 then (Inl ''strategyV2.orderIntentPersistenceFailed'', q1)
           else let q2 = insert_pending_order now r intent q1 in (Inr (map_of (od_keys q2) (request_key r)), q2)))"

subsection \<open>Claiming and settling an order\<close>

text \<open>Instants and spans are in microseconds.\<close>

definition seconds_of :: "int \<Rightarrow> int" where "seconds_of n = n * 1000000"

definition requeue_stale :: "int \<Rightarrow> int \<Rightarrow> stream_db \<Rightarrow> stream_db" where
  "requeue_stale now stale db =
     (if stale > 0
      then db\<lparr>sd_pending := map (\<lambda>p.
        if pn_status p = ''processing'' \<and> pn_updated p < now - seconds_of stale \<and> pn_attempts p < pn_max_attempts p
        then p\<lparr>pn_status := ''pending'', pn_updated := now, pn_note := default_text (pn_note p) ''requeued_stale_processing''\<rparr> else p)
        (sd_pending db)\<rparr>
      else db)"

definition fetch_pending_orders :: "int \<Rightarrow> int \<Rightarrow> nat \<Rightarrow> stream_db \<Rightarrow> pending_row list \<times> stream_db" where
  "fetch_pending_orders now stale limit db =
     (let db1 = requeue_stale now stale db in
      (take limit (sort_key (\<lambda>p. - pn_priority p) (sort_key pn_id
         (filter (\<lambda>p. pn_status p = ''pending'' \<and> pn_attempts p < pn_max_attempts p) (sd_pending db1)))), db1))"

definition mark_processing :: "int \<Rightarrow> int \<Rightarrow> stream_db \<Rightarrow> bool \<times> stream_db" where
  "mark_processing now i db =
     (case order_row i db of
        Some p \<Rightarrow> if pn_status p = ''pending''
          then (True, on_order i (\<lambda>p. p\<lparr>pn_status := ''processing'', pn_attempts := pn_attempts p + 1, pn_updated := now\<rparr>) db)
          else (False, db)
      | None \<Rightarrow> (False, db))"

text \<open>\<open>_register_pending_order_binding\<close>: every failure is dropped. \<open>user_id\<close> is not modelled in a binding.\<close>

definition binding_of_order :: "int \<Rightarrow> string \<Rightarrow> string \<Rightarrow> string \<Rightarrow> string \<Rightarrow> real \<Rightarrow> pending_row \<Rightarrow> binding option" where
  "binding_of_order i client order exchange market observed p =
     (case (int_or_0 (get (pn_payload p) ''credential_id''), int_or_0 (get (pn_payload p) ''strategy_id''),
            int_or_0 (get (pn_payload p) ''strategy_run_id''), int_or_0 (get (pn_payload p) ''order_intent_id'')) of
        (Some cred, Some sid, Some run, Some intent) \<Rightarrow>
          Some \<lparr>bd_id = 0, bd_owner_type = ''pending_order'', bd_owner = i, bd_credential = int_or (pn_credential p) cred,
            bd_exchange = default_text exchange (pn_exchange p),
            bd_market = default_text market (default_text (pn_market p)
              (default_text (str_or_empty (get (pn_payload p) ''market_type'')) ''swap'')),
            bd_strategy = int_or (pn_strategy p) sid, bd_pending = i, bd_run = int_or (pn_run p) run,
            bd_intent = int_or (pn_intent p) intent,
            bd_symbol = default_text (pn_symbol p) (str_or_empty (get (pn_payload p) ''symbol'')),
            bd_signal = default_text (pn_signal p) (str_or_empty (get (pn_payload p) ''signal_type'')),
            bd_client = default_text client (pn_client p), bd_order = default_text order (pn_order p),
            bd_observed = py_or observed (pn_filled p), bd_status = []\<rparr>
      | _ \<Rightarrow> None)"

definition register_pending_order_binding ::
  "int \<Rightarrow> string \<Rightarrow> string \<Rightarrow> string \<Rightarrow> string \<Rightarrow> real \<Rightarrow> stream_db \<Rightarrow> stream_db" where
  "register_pending_order_binding i client order exchange market observed db =
     (case order_row i db of None \<Rightarrow> db
      | Some p \<Rightarrow> (case binding_of_order i client order exchange market observed p of
          None \<Rightarrow> db | Some b \<Rightarrow> register_binding b db))"

text \<open>What is known of an order that was sent.\<close>

record sent_report =
  st_note :: string
  st_exchange :: string
  st_order :: string
  st_response :: "json option"
  st_filled :: real
  st_avg :: real
  st_executed :: bool
  st_final :: bool
  st_client :: string

definition sent_row :: "int \<Rightarrow> sent_report \<Rightarrow> pending_row \<Rightarrow> pending_row" where
  "sent_row now s p = p\<lparr>
     pn_status := (if pn_status p = ''filled'' \<or> st_final s then ''filled'' else ''sent''), pn_error := [], pn_note := st_note s,
     pn_sent := Some now, pn_executed := (pn_executed p \<or> st_executed s), pn_exchange := st_exchange s,
     pn_client := default_text (st_client s) (pn_client p), pn_order := st_order s, pn_response := st_response s,
     pn_filled := decimal8 (max (pn_filled p) (st_filled s)),
     pn_avg := (if pn_filled p > st_filled s \<and> pn_avg p > 0 then pn_avg p else decimal8 (st_avg s)), pn_updated := now\<rparr>"

definition mark_sent :: "int \<Rightarrow> int \<Rightarrow> sent_report \<Rightarrow> stream_db \<Rightarrow> stream_db" where
  "mark_sent now i s db =
     register_pending_order_binding i (st_client s) (st_order s) (st_exchange s) [] (st_filled s)
       (set_intent i (if st_final s then ''filled'' else if st_filled s > 0 then ''partially_filled'' else ''submitted'')
         (on_order i (sent_row now s) db))"

text \<open>\<open>_mark_failed\<close>, without the redaction of the text.\<close>

definition mark_order_failed :: "int \<Rightarrow> int \<Rightarrow> string \<Rightarrow> stream_db \<Rightarrow> stream_db" where
  "mark_order_failed now i err db =
     set_intent i ''rejected'' (on_order i (\<lambda>p. p\<lparr>pn_status := ''failed'', pn_error := default_text err ''failed'', pn_updated := now\<rparr>) db)"

definition mark_deferred :: "int \<Rightarrow> int \<Rightarrow> string \<Rightarrow> stream_db \<Rightarrow> stream_db" where
  "mark_deferred now i reason db =
     on_order i (\<lambda>p. p\<lparr>pn_status := ''deferred'', pn_error := default_text reason ''deferred'', pn_updated := now\<rparr>) db"

definition recorded_fill :: "int \<Rightarrow> live_db \<Rightarrow> real" where
  "recorded_fill i l = sum_of tr_amount (filter (\<lambda>t. tr_pending t = i) (ld_trades l))"

definition unrecorded_pending_fill :: "int \<Rightarrow> real \<Rightarrow> stream_db \<Rightarrow> real" where
  "unrecorded_pending_fill i cumulative db =
     (if i \<le> 0 then max 0 cumulative else max 0 (cumulative - recorded_fill i (sd_ledger db)))"

subsection \<open>Orders that were sent\<close>

definition by_sent :: "pending_row list \<Rightarrow> pending_row list" where
  "by_sent ps = filter (\<lambda>p. pn_sent p = None) (sort_key pn_id ps) @
     sort_key (\<lambda>p. case pn_sent p of None \<Rightarrow> 0 | Some t \<Rightarrow> t) (filter (\<lambda>p. pn_sent p \<noteq> None) (sort_key pn_id ps))"

definition requeue_syncing :: "int \<Rightarrow> int \<Rightarrow> bool \<Rightarrow> stream_db \<Rightarrow> stream_db" where
  "requeue_syncing now stale alpaca db =
     (if stale > 0
      then db\<lparr>sd_pending := map (\<lambda>p.
        if pn_status p = ''syncing'' \<and> (py_lower (pn_exchange p) = ''alpaca'') = alpaca \<and> pn_updated p < now - seconds_of stale
        then p\<lparr>pn_status := ''sent'', pn_updated := now,
               pn_note := (if alpaca then ''alpaca_fill_sync:requeued_stale_sync'' else ''live_fill_sync:requeued_stale_sync'')\<rparr>
        else p) (sd_pending db)\<rparr>
      else db)"

text \<open>Sent, filled without a known fill, or filled with a trade that lacks its fee.\<close>

definition awaits_sync :: "int \<Rightarrow> int \<Rightarrow> live_db \<Rightarrow> pending_row \<Rightarrow> bool" where
  "awaits_sync now retry l p =
     (pn_status p = ''sent'' \<or>
      pn_status p = ''filled'' \<and> pn_filled p \<le> 0 \<and> pn_avg p \<le> 0 \<or>
      pn_status p = ''filled'' \<and> pn_filled p > 0 \<and>
        (pn_note p \<notin> {''live_fee_sync:no_fee'', ''live_fee_sync:retry''} \<or> pn_updated p < now - seconds_of retry) \<and>
        list_ex (\<lambda>t. tr_pending t = pn_id p \<and> some_or_0 (tr_commission_quote t) = 0) (ld_trades l))"

definition live_sent :: "int \<Rightarrow> int \<Rightarrow> live_db \<Rightarrow> pending_row \<Rightarrow> bool" where
  "live_sent now retry l p = (awaits_sync now retry l p \<and> py_lower (pn_exchange p) \<noteq> ''alpaca'' \<and> pn_order p \<noteq> [])"

definition fetch_live_sent_orders :: "int \<Rightarrow> int \<Rightarrow> int \<Rightarrow> nat \<Rightarrow> stream_db \<Rightarrow> pending_row list \<times> stream_db" where
  "fetch_live_sent_orders now stale retry limit db =
     (let db1 = requeue_syncing now (max 0 stale) False db in
      (take limit (by_sent (filter (\<lambda>p. live_sent now retry (sd_ledger db1) p \<and> pn_exchange p \<noteq> []) (sd_pending db1))), db1))"

definition claim_order :: "int \<Rightarrow> string \<Rightarrow> (pending_row \<Rightarrow> bool) \<Rightarrow> int \<Rightarrow> stream_db \<Rightarrow> pending_row option \<times> stream_db" where
  "claim_order now mark p i db =
     (case order_row i db of
        Some r \<Rightarrow> if i > 0 \<and> p r
          then (let db1 = on_order i (\<lambda>r. r\<lparr>pn_status := ''syncing'', pn_note := mark, pn_updated := now\<rparr>) db in (order_row i db1, db1))
          else (None, db)
      | None \<Rightarrow> (None, db))"

definition claim_live_sent_order :: "int \<Rightarrow> int \<Rightarrow> int \<Rightarrow> stream_db \<Rightarrow> pending_row option \<times> stream_db" where
  "claim_live_sent_order now retry i db = claim_order now ''live_fill_sync:syncing'' (live_sent now retry (sd_ledger db)) i db"

definition alpaca_sent :: "pending_row \<Rightarrow> bool" where
  "alpaca_sent p = (pn_status p = ''sent'' \<and> py_lower (pn_exchange p) = ''alpaca'' \<and> pn_order p \<noteq> [])"

definition fetch_alpaca_sent_orders :: "int \<Rightarrow> int \<Rightarrow> nat \<Rightarrow> stream_db \<Rightarrow> pending_row list \<times> stream_db" where
  "fetch_alpaca_sent_orders now stale limit db =
     (let db1 = requeue_syncing now stale True db in (take limit (by_sent (filter alpaca_sent (sd_pending db1))), db1))"

definition claim_alpaca_sent_order :: "int \<Rightarrow> int \<Rightarrow> stream_db \<Rightarrow> pending_row option \<times> stream_db" where
  "claim_alpaca_sent_order now i db = claim_order now ''alpaca_fill_sync:syncing'' alpaca_sent i db"

definition update_live_sent_order_snapshot ::
  "int \<Rightarrow> int \<Rightarrow> string \<Rightarrow> string \<Rightarrow> real \<Rightarrow> real \<Rightarrow> json \<Rightarrow> string \<Rightarrow> stream_db \<Rightarrow> stream_db" where
  "update_live_sent_order_snapshot now i status exchange_status filled avg response mark db =
     set_intent i (if status = ''filled'' then ''filled'' else if status = ''cancelled'' then ''cancelled''
                   else if filled > 0 then ''partially_filled'' else ''submitted'')
       (on_order i (\<lambda>p. p\<lparr>pn_status := default_text status ''sent'',
          pn_note := default_text mark (''live_fill_sync:'' @ default_text exchange_status ''unknown''),
          pn_filled := decimal8 filled, pn_avg := decimal8 avg, pn_response := Some response,
          pn_executed := (pn_executed p \<or> filled > 0), pn_updated := now\<rparr>) db)"

definition update_alpaca_sent_order_snapshot ::
  "int \<Rightarrow> int \<Rightarrow> string \<Rightarrow> string \<Rightarrow> real \<Rightarrow> real \<Rightarrow> json \<Rightarrow> bool \<Rightarrow> stream_db \<Rightarrow> stream_db" where
  "update_alpaca_sent_order_snapshot now i status exchange_status filled avg response final db =
     set_intent i (if status = ''filled'' then ''filled'' else if status = ''failed'' then ''rejected''
                   else if status = ''cancelled'' then ''cancelled'' else if filled > 0 then ''partially_filled'' else ''submitted'')
       (on_order i (\<lambda>p. p\<lparr>pn_status := default_text status ''sent'', pn_error := (if status = ''failed'' then exchange_status else []),
          pn_note := ''alpaca_fill_sync:'' @ default_text exchange_status ''unknown'',
          pn_filled := decimal8 filled, pn_avg := decimal8 avg, pn_response := Some response,
          pn_executed := (pn_executed p \<or> final \<and> filled > 0), pn_updated := now\<rparr>) db)"

subsection \<open>Stopping a strategy after an exchange error\<close>

text \<open>\<open>auto_stop_live_strategy\<close>; stopping the thread is left to the executor.\<close>

definition auto_stop_live_strategy :: "int \<Rightarrow> order_db \<Rightarrow> bool \<times> order_db" where
  "auto_stop_live_strategy sid q =
     (if sid \<le> 0 then (False, q)
      else if sid \<in> set (od_quiet q) then (True, q)
      else (True, q\<lparr>od_quiet := od_quiet q @ [sid],
              od_strategies := map (\<lambda>s. if rk_id s = sid then s\<lparr>rk_status := ''stopped''\<rparr> else s) (od_strategies q)\<rparr>))"

definition should_skip_position_sync :: "int \<Rightarrow> order_db \<Rightarrow> bool" where
  "should_skip_position_sync sid q = (sid \<in> set (od_quiet q))"

definition maybe_auto_stop_on_exchange_error :: "int \<Rightarrow> string \<Rightarrow> int \<Rightarrow> int \<Rightarrow> order_db \<Rightarrow> bool \<times> order_db" where
  "maybe_auto_stop_on_exchange_error sid msg failures threshold q =
     (let reason = py_strip msg in
      if sid \<le> 0 \<or> reason = [] then (False, q)
      else if is_fatal_exchange_error reason then (True, snd (auto_stop_live_strategy sid q))
      else if failures \<ge> max 1 (if threshold = 0 then 5 else threshold) then (True, snd (auto_stop_live_strategy sid q))
      else (False, q))"

end
