(* ===== verification/OrderSync.thy ===== *)
theory OrderSync
  imports OrderQueue
begin

text \<open>
  The order worker reads what became of submitted orders and posts the difference
  (\<open>pending_order_worker.py\<close>, \<open>pending_orders/order_quantities.py\<close>). The client is a parameter that answers
  depending on the calls made before; so are the configuration of a strategy, its leg and the failure of posting
  a trade after its position.
\<close>

subsection \<open>Clients\<close>

record broker_result =
  br_success :: bool
  br_message :: string
  br_order :: string
  br_filled :: real
  br_avg :: real
  br_status :: string
  br_raw :: json

text \<open>A protection to be placed with the venue.\<close>

record protection_request =
  pq_symbol :: string
  pq_side :: string
  pq_quantity :: real
  pq_entry :: real
  pq_stop :: real
  pq_take :: real
  pq_trailing :: real
  pq_activation :: real
  pq_margin :: string
  pq_leverage :: real
  pq_client :: string

datatype client_kind = VenueClient | IbkrClient | AlpacaClient

text \<open>
  \<open>lc_size\<close> answers the size of a position (strict or not, symbol, side, market), \<open>lc_query\<close> what is known of an order
  (symbol, market, order id, client id), \<open>lc_steps\<close> the quantity a venue accepts in base units, where the client has such
  a function, \<open>lc_status\<close> the status call of the brokers. \<open>lc_base\<close>, \<open>lc_quote\<close>, \<open>lc_free\<close>, \<open>lc_last\<close> are the spot
  helpers: floored base and quote amounts, the free balance, the last price.
\<close>

record live_client =
  lc_kind :: client_kind
  lc_exchange :: live_exchange
  lc_ticker :: "string \<Rightarrow> json option"
  lc_size :: "exchange_call list \<Rightarrow> bool \<Rightarrow> string \<Rightarrow> string \<Rightarrow> string \<Rightarrow> fault + real"
  lc_query :: "exchange_call list \<Rightarrow> string \<Rightarrow> string \<Rightarrow> string \<Rightarrow> string \<Rightarrow> fault + real \<times> real \<times> string"
  lc_status :: "(string \<Rightarrow> fault + broker_result) option"
  lc_steps :: "string \<Rightarrow> string \<Rightarrow> string \<Rightarrow> real \<Rightarrow> (fault + real) option"
  lc_protect :: "exchange_call list \<Rightarrow> protection_request \<Rightarrow> fault + json"
  lc_mark :: "string \<Rightarrow> fault + real"
  lc_configure :: "string \<Rightarrow> string \<Rightarrow> real \<Rightarrow> string \<Rightarrow> fault option"
  lc_base :: "string \<Rightarrow> real \<Rightarrow> real"
  lc_quote :: "string \<Rightarrow> real \<Rightarrow> real"
  lc_free :: "string \<Rightarrow> real"
  lc_last :: "string \<Rightarrow> real"
  lc_broker_order :: "string \<Rightarrow> string \<Rightarrow> real \<Rightarrow> string \<Rightarrow> real \<Rightarrow> real \<Rightarrow> real \<Rightarrow> string \<Rightarrow> fault + broker_result"

text \<open>Refusals whose text prints numbers or sets; the text is a parameter.\<close>

datatype refusal = PolicyRefused policy_error | GuardRefused guard_error | SizeRefused string

text \<open>
  The world of the worker: the instant, its settings in seconds, the configuration of a strategy, the exchange
  configuration with its credentials, the client, the leg, the failure of posting a trade and the loss of a runtime
  fill, the texts of refusals, the inferred direction of a strategy, the defaults of order mode, wait, offset and spot safety ratio, and the
  channels a notification reached.
\<close>

record queue_world =
  qw_now :: int
  qw_stale :: int
  qw_fee_retry :: int
  qw_config :: "int \<Rightarrow> fault + json"
  qw_resolve :: "json \<Rightarrow> int \<Rightarrow> fault + json"
  qw_client :: "json \<Rightarrow> string \<Rightarrow> fault + live_client"
  qw_leg :: "int \<Rightarrow> string \<Rightarrow> leg_context"
  qw_fault :: "int \<Rightarrow> string option"
  qw_lost :: "int \<Rightarrow> bool"
  qw_text :: "refusal \<Rightarrow> string"
  qw_infer :: "json \<Rightarrow> string"
  qw_mode :: string
  qw_wait :: real
  qw_offset :: real
  qw_safety :: real
  qw_notify :: "pending_row \<Rightarrow> (string \<times> bool \<times> string) list"

definition parse_error :: fault where
  "parse_error = OtherError ''could not convert string to float''"

text \<open>\<open>float(a or b or ...)\<close> over the first true value.\<close>

definition first_number :: "json list \<Rightarrow> fault + real" where
  "first_number vs = (case float_or_0 (fold (\<lambda>v acc. json_or acc v) vs JNull) of None \<Rightarrow> Inl parse_error | Some x \<Rightarrow> Inr x)"

subsection \<open>Quantities\<close>

definition exchange_executable_base_quantity :: "live_client \<Rightarrow> string \<Rightarrow> string \<Rightarrow> string \<Rightarrow> real \<Rightarrow> real" where
  "exchange_executable_base_quantity c exchange symbol market requested =
     (let quantity = max 0 requested in
      case lc_steps c (lower_strip exchange) symbol (lower_strip (default_text market ''spot'')) quantity of
        None \<Rightarrow> quantity | Some (Inl e) \<Rightarrow> quantity | Some (Inr x) \<Rightarrow> max 0 x)"

definition reconciled_queue_status ::
  "live_client \<Rightarrow> string \<Rightarrow> string \<Rightarrow> string \<Rightarrow> real \<Rightarrow> real \<Rightarrow> real \<Rightarrow> string \<Rightarrow> string \<times> real" where
  "reconciled_queue_status c exchange symbol market requested filled avg status =
     (let executable = exchange_executable_base_quantity c exchange symbol market requested in
      (if is_final_fill executable filled avg status then ''filled''
       else if lower_strip status = ''cancelled'' then ''cancelled'' else ''sent'', executable))"

text \<open>\<open>_attach_native_protection\<close>: what is asked of the venue, for an entry on a swap with a price to protect.\<close>

definition protection_of_fill ::
  "json \<Rightarrow> json \<Rightarrow> string \<Rightarrow> string \<Rightarrow> real \<Rightarrow> real \<Rightarrow> string \<Rightarrow> string \<Rightarrow> fault + protection_request option" where
  "protection_of_fill payload cfg symbol signal quantity entry market client =
     (let sig = lower_strip signal; side = (if py_contains sig ''short'' then ''short'' else ''long'');
          (stop, tak, trailing, activation) = protection_prices_from_payload payload entry side;
          mode = lower_strip (default_text (str_or_empty (json_or (get_any payload [''margin_mode'', ''marginMode''])
            (get_any cfg [''margin_mode'', ''marginMode'']))) ''cross'') in
      if sig \<notin> set entry_signals \<or> lower_strip market \<noteq> ''swap'' \<or> stop \<le> 0 \<and> tak \<le> 0 \<and> trailing \<le> 0 then Inr None
      else case first_number [get payload ''leverage'', get cfg ''leverage'', JNum 1] of
        Inl e \<Rightarrow> Inl e
      | Inr lev \<Rightarrow> Inr (Some \<lparr>pq_symbol = symbol, pq_side = side, pq_quantity = quantity, pq_entry = entry, pq_stop = stop,
            pq_take = tak, pq_trailing = trailing, pq_activation = activation,
            pq_margin = (if mode \<in> {''isolated'', ''iso''} then ''isolated'' else ''cross''), pq_leverage = lev, pq_client = client\<rparr>))"

definition attach_native_protection ::
  "live_client \<Rightarrow> exchange_call list \<Rightarrow> json \<Rightarrow> json \<Rightarrow> string \<Rightarrow> string \<Rightarrow> real \<Rightarrow> real \<Rightarrow> string \<Rightarrow> string \<Rightarrow> fault + json" where
  "attach_native_protection c t payload cfg symbol signal quantity entry market client =
     (case protection_of_fill payload cfg symbol signal quantity entry market client of
        Inl e \<Rightarrow> Inl e | Inr None \<Rightarrow> Inr (JList []) | Inr (Some r) \<Rightarrow> lc_protect c t r)"

subsection \<open>What a reading adds\<close>

text \<open>A cumulative reading against the one before: the new quantity, and the price at which it came.\<close>

definition fill_increment :: "real \<Rightarrow> real \<Rightarrow> real \<Rightarrow> real \<Rightarrow> real \<times> real" where
  "fill_increment previous previous_avg cumulative cumulative_avg =
     (let delta = cumulative - previous; notional = cumulative * cumulative_avg - previous * previous_avg in
      (delta, if previous > 0 \<and> previous_avg > 0 \<and> notional > 0 then notional / delta else cumulative_avg))"

text \<open>What is stored of the order after an increment, the order having other legs than the one read.\<close>

definition joined_fill :: "real \<Rightarrow> real \<Rightarrow> real \<Rightarrow> real \<Rightarrow> real \<times> real" where
  "joined_fill previous previous_avg delta delta_avg =
     (previous + delta,
      if previous > 0 \<and> previous_avg > 0 then (previous * previous_avg + delta * delta_avg) / (previous + delta) else delta_avg)"

definition int_of_payload :: "json \<Rightarrow> string \<Rightarrow> int \<Rightarrow> int option" where
  "int_of_payload payload k d = (if json_truthy (get payload k) then int_or_0 (get payload k) else Some d)"

definition text_of_payload :: "json \<Rightarrow> string \<Rightarrow> string \<Rightarrow> string" where
  "text_of_payload payload k d = (if json_truthy (get payload k) then str_or_empty (get payload k) else d)"

text \<open>A posting of the worker; the run and the intent may fail to read as numbers.\<close>

definition worker_post ::
  "pending_row \<Rightarrow> int \<Rightarrow> string \<Rightarrow> string \<Rightarrow> real \<Rightarrow> real \<Rightarrow> string \<Rightarrow> real \<times> string \<Rightarrow> real option \<Rightarrow> string \<Rightarrow> string \<Rightarrow> json \<Rightarrow>
   fault + fill_post" where
  "worker_post p strategy symbol signal delta price source fee quote exchange order raw =
     (case (int_of_payload (pn_payload p) ''strategy_run_id'' (pn_run p), int_of_payload (pn_payload p) ''order_intent_id'' (pn_intent p)) of
        (Some run, Some intent) \<Rightarrow>
          Inr \<lparr>fp_strategy = strategy, fp_symbol = symbol, fp_signal = signal, fp_filled = delta, fp_price = price, fp_order = pn_id p,
            fp_source = source, fp_commission = fst fee, fp_ccy = snd fee, fp_quote = quote, fp_profit = None,
            fp_reason = trade_close_reason (pn_payload p) signal, fp_matched = None, fp_grid_profit = None, fp_run = run,
            fp_intent = intent, fp_exchange = exchange, fp_exchange_order = order, fp_raw = raw, fp_position = None, fp_fill_id = [],
            fp_event = 0, fp_fee_status = ''pending'', fp_fee_source = []\<rparr>
      | _ \<Rightarrow> Inl parse_error)"

definition post_fill :: "queue_world \<Rightarrow> fault + fill_post \<Rightarrow> stream_db \<Rightarrow> string option \<times> stream_db" where
  "post_fill w f db =
     (case f of Inl e \<Rightarrow> (Some (fault_text e), db)
      | Inr f \<Rightarrow> persist_strategy_fill (qw_leg w (fp_strategy f) (fp_symbol f)) (qw_fault w (fp_order f)) (qw_lost w (fp_order f)) f db)"

subsection \<open>Sent orders of the crypto venues and of IBKR\<close>

text \<open>A reading: cumulative quantity and price, status, raw answer. The fees are read only once there is a fill.\<close>

definition plain_intent_of :: "string \<Rightarrow> string \<Rightarrow> live_intent" where
  "plain_intent_of symbol market = \<lparr>li_symbol = symbol, li_side = [], li_quantity = 0, li_market = market, li_price = 0, li_pos_side = [],
     li_reduce_only = False, li_client = [], li_fallback = [], li_leverage = 1, li_margin_mode = []\<rparr>"

definition reading_fees :: "live_client \<Rightarrow> string \<Rightarrow> string \<Rightarrow> string \<Rightarrow> json" where
  "reading_fees c symbol market order =
     (case fst (wait_live_order_fill \<lparr>la_exchange = lc_exchange c, la_mode = [], la_ref = 0, la_quote = 0, la_uses_quote = False\<rparr>
             (plain_intent_of symbol market) order 0 ''reconcile'' []) of Inl e \<Rightarrow> JDict [] | Inr raw \<Rightarrow> raw)"

definition read_sent_order :: "live_client \<Rightarrow> string \<Rightarrow> string \<Rightarrow> string \<Rightarrow> string \<Rightarrow> fault + real \<times> real \<times> string \<times> json" where
  "read_sent_order c exchange symbol market order =
     (case (if exchange = ''ibkr'' then lc_status c else None) of
        Some status \<Rightarrow> (case status order of Inl e \<Rightarrow> Inl e
          | Inr r \<Rightarrow> Inr (br_filled r, br_avg r, normalize_live_order_status (br_status r), as_dict (br_raw r)))
      | None \<Rightarrow> (case lc_query c [] symbol market order [] of Inl e \<Rightarrow> Inl e
          | Inr (q, p, s) \<Rightarrow> Inr (q, p, s, if q > 0 then reading_fees c symbol market order else JDict [])))"

definition sync_response :: "string \<Rightarrow> real \<Rightarrow> real \<Rightarrow> real \<Rightarrow> real \<Rightarrow> real \<Rightarrow> real \<Rightarrow> fees \<Rightarrow> json" where
  "sync_response status filled avg requested executable cumulative cumulative_avg fs = JDict
     [(''status'', JStr status), (''filled'', JNum filled), (''avg_price'', JNum avg), (''requested_qty'', JNum requested),
      (''executable_qty'', JNum executable),
      (''live_fill_sync'', JDict [(''tracked_filled'', JNum cumulative), (''tracked_avg_price'', JNum cumulative_avg),
        (''fees_by_ccy'', JDict (map (\<lambda>(k, v). (k, JNum v)) fs))])]"

text \<open>
  One claimed order after a reading: what is new is protected and posted, late fees are spread, the row is
  stored. An exception leaves the row claimed, with what was posted before it.
\<close>

definition post_reading ::
  "queue_world \<Rightarrow> live_client \<Rightarrow> json \<Rightarrow> pending_row \<Rightarrow> int \<Rightarrow> string \<Rightarrow> string \<Rightarrow> string \<Rightarrow> real \<Rightarrow> real \<Rightarrow> string \<Rightarrow> real \<Rightarrow> real \<Rightarrow> fees \<Rightarrow>
   stream_db \<Rightarrow> string option \<times> stream_db" where
  "post_reading w c cfg p strategy symbol market exchange delta delta_avg status cum cum_avg fs db =
     (let signal = text_of_payload (pn_payload p) ''signal_type'' (pn_signal p);
          quote = fee_breakdown_to_quote (lc_ticker c) symbol fs delta_avg;
          placed = (case attach_native_protection c [] (pn_payload p) cfg symbol signal delta delta_avg market
                     (''qdprot'' @ py_str_int (pn_id p)) of Inl e \<Rightarrow> JList [] | Inr v \<Rightarrow> v) in
      post_fill w (worker_post p strategy symbol signal delta delta_avg ''worker_live_fill_sync'' (fee_storage_values fs) quote
        exchange (py_strip (pn_order p)) (JDict [(''status'', JStr status), (''cumulative_filled'', JNum cum), (''native_protection'', placed)])) db)"

definition settle_reading ::
  "queue_world \<Rightarrow> live_client \<Rightarrow> json \<Rightarrow> pending_row \<Rightarrow> int \<Rightarrow> string \<Rightarrow> string \<Rightarrow> string \<Rightarrow> real \<times> real \<times> string \<times> json \<Rightarrow> stream_db \<Rightarrow>
   string option \<times> stream_db" where
  "settle_reading w c cfg p strategy symbol market exchange = (\<lambda>(q, pr, st, raw) db.
     let cum = max 0 q; cum_avg = max 0 pr; status = lower_strip (default_text st ''unknown'');
         (tracked, tracked_avg) = tracked_fill_baseline (pn_response p) (py_strip (pn_order p)) (max 0 (pn_filled p)) (max 0 (pn_avg p));
         (delta, delta_avg) = fill_increment tracked tracked_avg cum cum_avg;
         fs = fee_breakdown_snapshot raw; new_fees = incremental_fees fs (previous_fee_breakdown (pn_response p));
         fresh = (delta > eps8 \<and> cum_avg > 0);
         (filled, avg) = (if fresh then joined_fill (max 0 (pn_filled p)) (max 0 (pn_avg p)) delta delta_avg
                          else (max 0 (pn_filled p), max 0 (pn_avg p)));
         status1 = (if delta > eps8 \<and> cum_avg \<le> 0 then ''fill_price_missing'' else status);
         (err, db1) = (if fresh then post_reading w c cfg p strategy symbol market exchange delta delta_avg status cum cum_avg new_fees db
                       else (None, db)) in
     case err of Some e \<Rightarrow> (Some e, db1)
     | None \<Rightarrow>
         (let db2 = (if fs \<noteq> [] \<and> cum_avg > 0
               then db1\<lparr>sd_ledger := snd (backfill_zero_commission_trades (pn_id p) fs
                      (fee_breakdown_to_quote (lc_ticker c) symbol fs cum_avg) (sd_ledger db1))\<rparr> else db1) in
          case first_number [get (pn_payload p) ''amount'', JNum (pn_amount p), JNum filled] of
            Inl e \<Rightarrow> (Some (fault_text e), db2)
          | Inr req \<Rightarrow>
              (let requested = max 0 req;
                   (queue_status, executable) = reconciled_queue_status c exchange symbol market requested filled avg status1 in
               (None, update_live_sent_order_snapshot (qw_now w) (pn_id p) queue_status status1 filled avg
                  (sync_response status1 filled avg requested executable cum cum_avg fs)
                  (if queue_status = ''filled'' \<and> fs = [] \<and> delta \<le> eps8 then ''live_fee_sync:retry'' else []) db2))))"

text \<open>The user of a loaded configuration, which always has one.\<close>

definition config_user :: "json \<Rightarrow> int" where
  "config_user sc = (case int_or_0 (get sc ''user_id'') of None \<Rightarrow> 1 | Some u \<Rightarrow> int_or u 1)"

text \<open>\<open>_sync_one_live_sent_order\<close>; an exception outside the \<open>try\<close> leaves the row claimed.\<close>

definition sync_claimed_order :: "queue_world \<Rightarrow> pending_row \<Rightarrow> stream_db \<Rightarrow> string option \<times> stream_db" where
  "sync_claimed_order w p db =
     (let payload = pn_payload p; symbol = py_strip (text_of_payload payload ''symbol'' (pn_symbol p));
          market = lower_strip (default_text (text_of_payload payload ''market_type'' (pn_market p)) ''swap'');
          order = py_strip (pn_order p); exchange = lower_strip (pn_exchange p) in
      case int_of_payload payload ''strategy_id'' (pn_strategy p) of
        None \<Rightarrow> (Some (fault_text parse_error), db)
      | Some strategy \<Rightarrow>
          if strategy \<le> 0 \<or> symbol = [] \<or> order = []
          then (None, mark_order_failed (qw_now w) (pn_id p) ''live_fill_sync_invalid_order_context'' db)
          else (case qw_config w strategy of Inl e \<Rightarrow> (Some (fault_text e), db)
            | Inr sc \<Rightarrow> (case qw_resolve w (get sc ''exchange_config'') (config_user sc) of
                Inl e \<Rightarrow> (Some (fault_text e), db)
              | Inr cfg \<Rightarrow>
                  (case (case qw_client w cfg market of Inl e \<Rightarrow> Inl e
                         | Inr c \<Rightarrow> (case read_sent_order c exchange symbol market order of Inl e \<Rightarrow> Inl e | Inr r \<Rightarrow> Inr (c, r))) of
                     Inl e \<Rightarrow> (None, update_live_sent_order_snapshot (qw_now w) (pn_id p) ''sent'' ''sync_error'' (pn_filled p) (pn_avg p)
                                (JDict [(''error'', JStr (fault_text e))]) [] db)
                   | Inr (c, r) \<Rightarrow> settle_reading w c cfg p strategy symbol market exchange r db))))"

definition sync_one_live_sent_order :: "queue_world \<Rightarrow> int \<Rightarrow> stream_db \<Rightarrow> string option \<times> stream_db" where
  "sync_one_live_sent_order w i db =
     (case claim_live_sent_order (qw_now w) (qw_fee_retry w) i db of
        (None, db1) \<Rightarrow> (None, db1) | (Some p, db1) \<Rightarrow> sync_claimed_order w p db1)"

subsection \<open>Sent orders of Alpaca\<close>

definition alpaca_market :: "string \<Rightarrow> string" where
  "alpaca_market category = (if py_lower category \<in> {''crypto'', ''cryptocurrency''} then ''crypto'' else ''USStock'')"

definition alpaca_category :: "json \<Rightarrow> string" where
  "alpaca_category sc = default_text (str_or_empty (json_or (get sc ''market_category'')
     (get (as_dict (get sc ''trading_config'')) ''market_category''))) ''USStock''"

definition settle_alpaca ::
  "queue_world \<Rightarrow> live_client \<Rightarrow> pending_row \<Rightarrow> int \<Rightarrow> broker_result \<Rightarrow> stream_db \<Rightarrow> string option \<times> stream_db" where
  "settle_alpaca w c p strategy r db =
     (let payload = pn_payload p; status = lower_strip (br_status r); cum = br_filled r; cum_avg = br_avg r;
          (commission, ccy) = commission_snapshot (br_raw r);
          fee = max 0 (commission - previous_commission (pn_response p));
          (delta, delta_avg) = fill_increment (pn_filled p) (pn_avg p) cum cum_avg;
          symbol = text_of_payload payload ''symbol'' (pn_symbol p); signal = text_of_payload payload ''signal_type'' (pn_signal p);
          (err, db1) = (if delta > eps8 \<and> cum_avg > 0
            then post_fill w (worker_post p strategy symbol signal delta delta_avg ''worker_alpaca_fill_sync'' (fee, ccy)
                   (fee_to_quote (lc_ticker c) symbol fee ccy delta_avg) ''alpaca'' (py_strip (pn_order p)) (br_raw r)) db
            else (None, db));
          new_status = (if status = ''filled'' then ''filled'' else if status \<in> {''canceled'', ''cancelled''} then ''cancelled''
                        else if status \<in> {''rejected'', ''expired''} then ''failed'' else ''sent'') in
      case err of Some e \<Rightarrow> (Some e, db1)
      | None \<Rightarrow> (None, update_alpaca_sent_order_snapshot (qw_now w) (pn_id p) new_status status cum cum_avg (br_raw r)
          (status \<in> {''filled'', ''canceled'', ''cancelled'', ''rejected'', ''expired''}) db1))"

text \<open>\<open>_sync_one_alpaca_sent_order\<close>: where it returns early the row stays claimed until it is stale.\<close>

definition sync_claimed_alpaca :: "queue_world \<Rightarrow> pending_row \<Rightarrow> stream_db \<Rightarrow> string option \<times> stream_db" where
  "sync_claimed_alpaca w p db =
     (case int_of_payload (pn_payload p) ''strategy_id'' (pn_strategy p) of
        None \<Rightarrow> (Some (fault_text parse_error), db)
      | Some strategy \<Rightarrow>
          if strategy \<le> 0 \<or> py_strip (pn_order p) = [] then (None, db)
          else (case qw_config w strategy of Inl e \<Rightarrow> (Some (fault_text e), db)
            | Inr sc \<Rightarrow> (case qw_resolve w (get sc ''exchange_config'') (config_user sc) of
                Inl e \<Rightarrow> (Some (fault_text e), db)
              | Inr cfg \<Rightarrow>
                  if lower_strip (str_or_empty (get cfg ''exchange_id'')) \<noteq> ''alpaca'' then (None, db)
                  else (case qw_client w cfg [] of Inl e \<Rightarrow> (None, db)
                    | Inr c \<Rightarrow> if lc_kind c \<noteq> AlpacaClient then (None, db)
                        else (case lc_status c of None \<Rightarrow> (Some ''get_order_status'', db)
                          | Some status \<Rightarrow> (case status (py_strip (pn_order p)) of Inl e \<Rightarrow> (Some (fault_text e), db)
                              | Inr r \<Rightarrow> settle_alpaca w c p strategy r db))))))"

definition sync_one_alpaca_sent_order :: "queue_world \<Rightarrow> int \<Rightarrow> stream_db \<Rightarrow> string option \<times> stream_db" where
  "sync_one_alpaca_sent_order w i db =
     (case claim_alpaca_sent_order (qw_now w) i db of
        (None, db1) \<Rightarrow> (None, db1) | (Some p, db1) \<Rightarrow> sync_claimed_alpaca w p db1)"

text \<open>The passes over the sent orders; \<open>audited\<close> tells whether a row is due for a reading beside its stream.\<close>

definition sync_live_sent_orders :: "queue_world \<Rightarrow> nat \<Rightarrow> (pending_row \<Rightarrow> bool) \<Rightarrow> stream_db \<Rightarrow> stream_db" where
  "sync_live_sent_orders w limit audited db =
     (let (ps, db1) = fetch_live_sent_orders (qw_now w) (qw_stale w) (qw_fee_retry w) limit db in
      fold (\<lambda>p d. if audited p then snd (sync_one_live_sent_order w (pn_id p) d) else d) ps db1)"

definition sync_alpaca_sent_orders :: "queue_world \<Rightarrow> nat \<Rightarrow> stream_db \<Rightarrow> stream_db" where
  "sync_alpaca_sent_orders w limit db =
     (let (ps, db1) = fetch_alpaca_sent_orders (qw_now w) (qw_stale w) limit db in
      fold (\<lambda>p d. snd (sync_one_alpaca_sent_order w (pn_id p) d)) ps db1)"

end
