(* ===== verification/OrderDispatch.thy ===== *)
theory OrderDispatch
  imports OrderSync
begin

text \<open>
  How the order worker executes a claimed order (\<open>pending_order_worker.py\<close>, \<open>live_order_support.py\<close>,
  \<open>spot_sizing.py\<close>, \<open>fill_recovery.py\<close>): the context and the policy, the position snapshot, the guards, the sizes,
  the executor, the settlement of the row and the posting of its fill. A stage either goes on or names the error the
  order fails with. The phases kept for inspection are left out except what is read again later.
\<close>

subsection \<open>Spot sizes\<close>

definition close_safety_ratio :: "real \<Rightarrow> real" where
  "close_safety_ratio v = (if v \<le> 0 \<or> v > 1 then 1 else v)"

definition normalize_spot_base_quantity :: "live_client \<Rightarrow> string \<Rightarrow> real \<Rightarrow> real" where
  "normalize_spot_base_quantity c symbol q = (if q \<le> 0 then 0 else lc_base c symbol q)"

definition normalize_spot_quote_amount :: "live_client \<Rightarrow> string \<Rightarrow> real \<Rightarrow> real" where
  "normalize_spot_quote_amount c symbol q = (if q \<le> 0 then 0 else lc_quote c symbol q)"

definition clamp_spot_close_quantity :: "real \<Rightarrow> live_client \<Rightarrow> string \<Rightarrow> real \<Rightarrow> real" where
  "clamp_spot_close_quantity ratio c symbol req =
     (if req \<le> 0 then 0
      else let free = max 0 (lc_free c symbol); cap = (if free > 0 then min req (free * close_safety_ratio ratio) else req) in
        max 0 (normalize_spot_base_quantity c symbol cap))"

text \<open>The base quantity, the quote amount and whether a market purchase is sized in quote currency.\<close>

definition prepare_spot_live_order_sizes :: "live_client \<Rightarrow> string \<Rightarrow> string \<Rightarrow> bool \<Rightarrow> real \<Rightarrow> real \<Rightarrow> real \<times> real \<times> bool" where
  "prepare_spot_live_order_sizes c symbol side reduce qty ref =
     (let sd = lower_strip side; v = lx_venue (lc_exchange c); base = normalize_spot_base_quantity c symbol qty;
          rp = (if ref \<le> 0 then lc_last c symbol else ref);
          quote = normalize_spot_quote_amount c symbol (if rp > 0 \<and> qty > 0 then qty * rp else 0);
          uses = (v \<in> {BitgetSpot, GateSpot} \<and> quote > 0) in
      if sd = ''buy'' \<and> \<not> reduce then (max 0 (if v = BinanceSpot \<or> \<not> uses then base else qty), max 0 quote, uses)
      else (max 0 base, 0, False))"

subsection \<open>Fills that were not reported\<close>

definition try_recover_zero_fill ::
  "live_client \<Rightarrow> exchange_call list \<Rightarrow> string \<Rightarrow> string \<Rightarrow> string \<Rightarrow> string \<Rightarrow> real \<Rightarrow> string \<Rightarrow> string \<Rightarrow> real \<Rightarrow> real \<Rightarrow> real \<times> real" where
  "try_recover_zero_fill c t symbol market order client requested signal pos_side pre ref =
     (let oid = py_strip order; cid = py_strip client; side = lower_strip pos_side;
          asked = (if oid \<noteq> [] \<or> cid \<noteq> [] then (case lc_query c t symbol market oid cid of Inr (q, p, s) \<Rightarrow> (q, p) | Inl e \<Rightarrow> (0, 0)) else (0, 0)) in
      if fst asked > 0 then (fst asked, py_or (snd asked) ref)
      else if lower_strip signal \<notin> set entry_signals \<or> requested \<le> 0 \<or> side \<notin> {''long'', ''short''} then (0, 0)
      else (case lc_size c t False symbol side market of
          Inl e \<Rightarrow> (0, 0)
        | Inr post \<Rightarrow> let delta = max 0 (post - max 0 pre); q = min delta (requested * (115 / 100)) in
            if delta < requested * (85 / 100) \<or> q \<le> 0 then (0, 0) else (q, ref)))"

subsection \<open>The context of a live order\<close>

record order_context =
  oc_strategy :: int
  oc_signal :: string
  oc_symbol :: string
  oc_amount :: real
  oc_cfg :: json
  oc_exchange_config :: json
  oc_exchange :: string
  oc_category :: string
  oc_market :: string

definition build_live_order_context :: "queue_world \<Rightarrow> pending_row \<Rightarrow> string + order_context" where
  "build_live_order_context w p =
     (let payload = pn_payload p; signal = text_of_payload payload ''signal_type'' (pn_signal p);
          symbol = text_of_payload payload ''symbol'' (pn_symbol p) in
      case int_of_payload payload ''strategy_id'' (pn_strategy p) of
        None \<Rightarrow> Inl (fault_text parse_error)
      | Some sid \<Rightarrow>
          if sid \<le> 0 then Inl ''missing_strategy_id''
          else (case first_number [get payload ''amount'', JNum (pn_amount p), JNum 0] of
            Inl e \<Rightarrow> Inl (fault_text e)
          | Inr amount \<Rightarrow>
              if symbol = [] \<or> signal = [] then Inl ''missing_symbol_or_signal_type''
              else (case qw_config w sid of Inl e \<Rightarrow> Inl (fault_text e)
                | Inr cfg \<Rightarrow> (case qw_resolve w (get cfg ''exchange_config'') (config_user cfg) of Inl e \<Rightarrow> Inl (fault_text e)
                    | Inr xc \<Rightarrow>
                      (let exchange = lower_strip (str_or_empty (get xc ''exchange_id''));
                           category = py_strip (default_text (str_or_empty (get cfg ''market_category'')) ''Crypto'');
                           market = text_of_payload payload ''market_type'' (default_text (pn_market p)
                             (default_text (str_or_empty (json_or (get cfg ''market_type'') (get xc ''market_type''))) ''swap''));
                           trading = as_dict (get cfg ''trading_config'') in
                       case validate_strategy_config exchange category market (str_or_empty (get trading ''trade_direction''))
                              (str_or_empty (get trading ''bot_type'')) True of
                         Some e \<Rightarrow> Inl (''policy_violation:'' @ qw_text w (PolicyRefused e))
                       | None \<Rightarrow> Inr \<lparr>oc_strategy = sid, oc_signal = signal, oc_symbol = symbol, oc_amount = amount, oc_cfg = cfg,
                           oc_exchange_config = xc, oc_exchange = exchange, oc_category = category,
                           oc_market = normalize_market_type market\<rparr>)))))"

text \<open>How the order is to be worked: mode, algorithm, wait, offset, reference price, sides, leverage.\<close>

record order_terms =
  ot_mode :: string
  ot_algo :: string
  ot_wait :: real
  ot_offset :: real
  ot_ref :: real
  ot_side :: string
  ot_pos_side :: string
  ot_reduce :: bool
  ot_leverage :: real

definition effective_order_mode :: "queue_world \<Rightarrow> json \<Rightarrow> string" where
  "effective_order_mode w payload =
     (let algo = lower_strip (str_or_empty (get payload ''execution_algo'')) in
      if algo = ''market'' then ''market''
      else if algo \<in> {''limit_then_market'', ''maker'', ''maker_then_market''} then ''maker_then_market''
      else if algo = ''limit'' then ''limit''
      else lower_strip (default_text (str_or_empty (get_any payload [''order_mode'', ''orderMode''])) (qw_mode w)))"

definition order_leverage :: "json \<Rightarrow> json \<Rightarrow> real" where
  "order_leverage payload cfg =
     (let v = (if get payload ''leverage'' = JNull then get cfg ''leverage'' else get payload ''leverage'');
          x = (case float_or_0 v of None \<Rightarrow> 1 | Some x \<Rightarrow> py_or x 1) in if x \<le> 0 then 1 else x)"

definition terms_of_order :: "queue_world \<Rightarrow> pending_row \<Rightarrow> order_context \<Rightarrow> fault + order_terms" where
  "terms_of_order w p x =
     (let payload = pn_payload p in
      case (first_number [get_any payload [''maker_wait_sec'', ''makerWaitSec''], JNum (qw_wait w)],
            first_number [get_any payload [''maker_offset_bps'', ''makerOffsetBps''], JNum (qw_offset w)],
            first_number [get_any payload [''ref_price'', ''price''], JNum (pn_price p)],
            signal_to_side_pos_reduce (oc_signal x)) of
        (Inr wait, Inr bps, Inr ref, Inr (side, pos, reduce)) \<Rightarrow>
          Inr \<lparr>ot_mode = effective_order_mode w payload, ot_algo = lower_strip (str_or_empty (get payload ''execution_algo'')),
            ot_wait = (if wait \<le> 0 then (if qw_wait w > 0 then qw_wait w else 10) else wait), ot_offset = max 0 bps / 10000, ot_ref = ref,
            ot_side = side, ot_pos_side = pos, ot_reduce = reduce, ot_leverage = order_leverage payload (oc_cfg x)\<rparr>
      | (Inr wait, Inr bps, Inr ref, Inl e) \<Rightarrow> Inl e
      | _ \<Rightarrow> Inl parse_error)"

definition limit_first :: "order_terms \<Rightarrow> bool" where
  "limit_first o' = (ot_mode o' \<in> {''maker'', ''limit'', ''limit_first'', ''maker_then_market''})"

subsection \<open>Guards\<close>

definition worker_leg :: "order_context \<Rightarrow> order_terms \<Rightarrow> leg_name" where
  "worker_leg x o' = \<lparr>ln_user = config_user (oc_cfg x), ln_cred = credential_id_from_exchange_config (oc_exchange_config x),
     ln_market = oc_market x, ln_symbol = oc_symbol x, ln_side = ot_pos_side o'\<rparr>"

definition guard_entry :: "queue_world \<Rightarrow> live_client \<Rightarrow> order_context \<Rightarrow> order_terms \<Rightarrow> real \<Rightarrow> order_db \<Rightarrow> string option \<times> order_db" where
  "guard_entry w c x o' account q =
     (if ot_reduce o' \<or> \<not> supports_position_coexistence (oc_market x) (oc_exchange x) then (None, q)
      else let (g, t') = evaluate_entry_position_guard (qw_infer w)
             (\<lambda>side. case lc_size c [] True (oc_symbol x) side (oc_market x) of Inl e \<Rightarrow> None | Inr v \<Rightarrow> Some v)
             (oc_strategy x) (oc_cfg x) (worker_leg x o') (oc_exchange x) account (ot_ref o') (qw_now w) (sd_ledger (od_db q)) (od_reserved q) in
        (map_option (\<lambda>e. qw_text w (GuardRefused e)) (gr_error g), q\<lparr>od_reserved := t'\<rparr>))"

definition order_proposal :: "order_context \<Rightarrow> order_terms \<Rightarrow> proposal" where
  "order_proposal x o' = \<lparr>pp_strategy = oc_strategy x, pp_symbol = oc_symbol x, pp_side = ot_pos_side o', pp_quantity = oc_amount x,
     pp_price = ot_ref o', pp_leverage = ot_leverage o'\<rparr>"

definition order_risk :: "order_context \<Rightarrow> order_terms \<Rightarrow> order_db \<Rightarrow> risk_snapshot option" where
  "order_risk x o' q = account_risk_snapshot (config_user (oc_cfg x)) (credential_id_from_exchange_config (oc_exchange_config x))
     (oc_market x) (order_proposal x o') (account_risk_limits (oc_cfg x)) (od_strategies q) (ld_positions (sd_ledger (od_db q)))"

definition guard_risk :: "order_context \<Rightarrow> order_terms \<Rightarrow> order_db \<Rightarrow> string option" where
  "guard_risk x o' q =
     (if ot_reduce o' \<or> oc_market x \<notin> {''spot'', ''swap''} then None
      else case order_risk x o' q of
        None \<Rightarrow> Some (''accountRisk.snapshotFailed:'' @ fault_text parse_error)
      | Some s \<Rightarrow> if rs_allowed s then None
          else Some (case rs_violations s of [] \<Rightarrow> ''accountRisk.rejected'' | v # vs \<Rightarrow> v))"

definition guard_account :: "live_client \<Rightarrow> json \<Rightarrow> order_context \<Rightarrow> order_terms \<Rightarrow> string option" where
  "guard_account c payload x o' =
     (if ot_reduce o' \<or> lower_strip (oc_market x) \<notin> {''swap'', ''future'', ''futures'', ''perp'', ''perpetual''} then None
      else map_option (\<lambda>e. ''derivatives_account_configuration_failed:'' @ fault_text e)
        (lc_configure c (oc_exchange x) (oc_symbol x) (ot_leverage o')
           (default_text (str_or_empty (json_or (get_any payload [''margin_mode'', ''marginMode''])
              (get_any (oc_cfg x) [''margin_mode'', ''marginMode'']))) ''cross'')))"

subsection \<open>Sizes\<close>

text \<open>What a closing order may take of the strategy's own position; the query of the venue may raise.\<close>

definition close_size :: "live_client \<Rightarrow> order_context \<Rightarrow> order_terms \<Rightarrow> real \<Rightarrow> order_db \<Rightarrow> fault + real" where
  "close_size c x o' requested q =
     (case lc_size c [] False (oc_symbol x) (ot_pos_side o') (oc_market x) of Inl e \<Rightarrow> Inl e
      | Inr exch \<Rightarrow> Inr (fst (resolve_reduce_only_quantity False (oc_strategy x) (worker_leg x o') requested exch
          (sd_ledger (od_db q)) (od_reserved q))))"

record order_size =
  os_amount :: real
  os_quote :: real
  os_uses_quote :: bool

definition quote_sized :: "order_size \<Rightarrow> bool" where
  "quote_sized s = (os_uses_quote s \<and> os_quote s > 0)"

definition bitget_swap :: "order_context \<Rightarrow> bool" where
  "bitget_swap x = (oc_market x = ''swap'' \<and> oc_exchange x = ''bitget'')"

definition venue_size :: "live_client \<Rightarrow> order_context \<Rightarrow> real \<Rightarrow> real" where
  "venue_size c x amount =
     (if bitget_swap x then exchange_executable_base_quantity c (oc_exchange x) (oc_symbol x) (oc_market x) amount else amount)"

definition spot_size :: "queue_world \<Rightarrow> live_client \<Rightarrow> order_context \<Rightarrow> order_terms \<Rightarrow> real \<Rightarrow> order_size" where
  "spot_size w c x o' amount0 =
     (let amount = (if ot_reduce o' \<and> oc_market x = ''spot'' \<and> ot_side o' = ''sell''
             then clamp_spot_close_quantity (qw_safety w) c (oc_symbol x) amount0 else amount0) in
      if oc_market x = ''spot''
      then (let (q, quote, uses) = prepare_spot_live_order_sizes c (oc_symbol x) (ot_side o') (ot_reduce o') amount (ot_ref o') in
            \<lparr>os_amount = q, os_quote = quote, os_uses_quote = uses\<rparr>)
      else \<lparr>os_amount = amount, os_quote = 0, os_uses_quote = False\<rparr>)"

text \<open>A closing order of size zero is resolved once more from the requested amount; what that raises is dropped.\<close>

definition retried_size :: "live_client \<Rightarrow> json \<Rightarrow> pending_row \<Rightarrow> order_context \<Rightarrow> order_terms \<Rightarrow> order_size \<Rightarrow> order_db \<Rightarrow> order_size" where
  "retried_size c payload p x o' s q =
     (if os_amount s \<le> 0 \<and> ot_reduce o' \<and> \<not> quote_sized s
      then (case first_number [get payload ''amount'', JNum (pn_amount p), JNum 0] of Inl e \<Rightarrow> s
        | Inr requested \<Rightarrow> (case close_size c x o' requested q of Inl e \<Rightarrow> s
            | Inr a \<Rightarrow> s\<lparr>os_amount := (if a > 0 then venue_size c x a else a)\<rparr>))
      else s)"

definition friendly_order_error :: "queue_world \<Rightarrow> string \<Rightarrow> string" where
  "friendly_order_error w raw =
     (case fst (classify_exchange_order_error raw) of
        Transport \<Rightarrow> ''Temporary exchange/network failure; the order was not confirmed. '' @
          ''The exchange order state must be reconciled before any retry. Details: '' @ raw
      | InsufficientFunds \<Rightarrow> ''Insufficient free balance or margin for this order. '' @
          ''Reduce the strategy allocation or free account collateral. Details: '' @ raw
      | OrderSize \<Rightarrow> qw_text w (SizeRefused raw)
      | _ \<Rightarrow> raw)"

subsection \<open>From the claim to the exchange\<close>

record prepared_order =
  pr_terms :: order_terms
  pr_pre :: real
  pr_sizes :: order_size

text \<open>Everything before the first order reaches the venue, in the order of the code.\<close>

definition size_order :: "queue_world \<Rightarrow> live_client \<Rightarrow> pending_row \<Rightarrow> order_context \<Rightarrow> order_terms \<Rightarrow> real \<Rightarrow> order_db \<Rightarrow> string + prepared_order" where
  "size_order w c p x o0 pre q =
     (case (if ot_reduce o0 then close_size c x o0 (oc_amount x) q else Inr (oc_amount x)) of
        Inl e \<Rightarrow> Inl (''protected_position_check_failed:'' @ fault_text e)
      | Inr amount \<Rightarrow>
          (let o' = (if ot_ref o0 \<le> 0 \<and> lx_venue (lc_exchange c) = BinanceFutures
                 then o0\<lparr>ot_ref := (case lc_mark c (oc_symbol x) of Inl e \<Rightarrow> ot_ref o0 | Inr v \<Rightarrow> v)\<rparr> else o0) in
           case guard_account c (pn_payload p) x o' of
             Some e \<Rightarrow> Inl e
           | None \<Rightarrow>
               (let s0 = spot_size w c x o' amount; s1 = s0\<lparr>os_amount := venue_size c x (os_amount s0)\<rparr>;
                    s = retried_size c (pn_payload p) p x o' s1 q in
                if os_amount s \<le> 0 \<and> \<not> quote_sized s then Inl (friendly_order_error w ''invalid amount'')
                else Inr \<lparr>pr_terms = o', pr_pre = pre, pr_sizes = s\<rparr>)))"

definition prepare_order :: "queue_world \<Rightarrow> live_client \<Rightarrow> pending_row \<Rightarrow> order_context \<Rightarrow> order_db \<Rightarrow> (string + prepared_order) \<times> order_db" where
  "prepare_order w c p x q =
     (if oc_market x = ''spot'' \<and> py_contains (lower_strip (oc_signal x)) ''short'' then (Inl ''spot_market_does_not_support_short_signals'', q)
      else case terms_of_order w p x of Inl e \<Rightarrow> (Inl (fault_text e), q)
      | Inr o' \<Rightarrow>
          (case lc_size c [] (\<not> ot_reduce o') (oc_symbol x) (ot_pos_side o') (oc_market x) of
             Inl e \<Rightarrow> (Inl (''position_snapshot_failed:'' @ fault_text e), q)
           | Inr pre \<Rightarrow>
               (case guard_entry w c x o' pre q of
                  (Some e, q1) \<Rightarrow> (Inl e, q1)
                | (None, q1) \<Rightarrow> (case guard_risk x o' q1 of Some e \<Rightarrow> (Inl e, q1)
                    | None \<Rightarrow> (size_order w c p x o' pre q1, q1)))))"

subsection \<open>Sending\<close>

definition order_intent_of :: "pending_row \<Rightarrow> order_context \<Rightarrow> order_terms \<Rightarrow> real \<Rightarrow> real \<Rightarrow> string \<Rightarrow> live_intent" where
  "order_intent_of p x o' amount price client = \<lparr>li_symbol = oc_symbol x, li_side = ot_side o', li_quantity = amount,
     li_market = oc_market x, li_price = price, li_pos_side = ot_pos_side o', li_reduce_only = ot_reduce o', li_client = client,
     li_fallback = live_client_order_id (oc_exchange x) (oc_strategy x) (pn_id p) ''mkt'', li_leverage = ot_leverage o',
     li_margin_mode = default_text (str_or_empty (get_any (pn_payload p) [''margin_mode'', ''td_mode''])) ''cross''\<rparr>"

definition order_adapter :: "live_client \<Rightarrow> order_terms \<Rightarrow> order_size \<Rightarrow> live_adapter" where
  "order_adapter c o' s = \<lparr>la_exchange = lc_exchange c, la_mode = ot_mode o', la_ref = ot_ref o', la_quote = os_quote s,
     la_uses_quote = os_uses_quote s\<rparr>"

text \<open>\<open>payload.get(k, True)\<close>.\<close>

definition flag_or_true :: "json \<Rightarrow> string \<Rightarrow> bool" where
  "flag_or_true payload k = (case map_of (entries payload) k of None \<Rightarrow> True | Some v \<Rightarrow> json_truthy v)"

definition limit_price_of :: "json \<Rightarrow> order_terms \<Rightarrow> fault + real" where
  "limit_price_of payload o' =
     (if ot_algo o' = ''limit'' \<or> limit_first o'
      then (case float_or_0 (get payload ''limit_price'') of None \<Rightarrow> Inl parse_error
            | Some v \<Rightarrow> if v \<noteq> 0 then Inr v else maker_limit_price (ot_ref o') (ot_side o') (ot_offset o'))
      else Inr 0)"

definition run_executor :: "live_client \<Rightarrow> pending_row \<Rightarrow> order_context \<Rightarrow> prepared_order \<Rightarrow> exec_result called" where
  "run_executor c p x r =
     (let o' = pr_terms r; s = pr_sizes r; ad = order_adapter c o' s;
          intent = (\<lambda>price phase. order_intent_of p x o' (os_amount s) price (live_client_order_id (oc_exchange x) (oc_strategy x) (pn_id p) phase)) in
      case limit_price_of (pn_payload p) o' of
        Inl e \<Rightarrow> (Inl e, [])
      | Inr price \<Rightarrow>
          if ot_algo o' = ''limit'' then resting_limit_execute ad (intent price ''lmt'') []
          else if limit_first o' then limit_then_market_execute ad (ot_wait o')
                 (flag_or_true (pn_payload p) (if ot_reduce o' then ''close_fallback_to_market'' else ''open_fallback_to_market''))
                 (intent price ''lmt'') []
          else market_execute ad (intent price ''mkt'') [])"

text \<open>The error an order fails with when its execution raises or is rejected.\<close>

definition execution_error :: "queue_world \<Rightarrow> fault + exec_result \<Rightarrow> string option" where
  "execution_error w m =
     (case m of Inl (LiveTradingError e) \<Rightarrow> Some (friendly_order_error w e)
      | Inl (OtherError e) \<Rightarrow> Some e
      | Inr r \<Rightarrow> if xr_success r then None else Some (friendly_order_error w (xr_error r)))"

text \<open>
  What was filled: the executor's report, or what can be recovered of an order that reports nothing. The client id
  is the one of the leg whose order id is known. A fill of an entry is protected with the venue; a failure of that is
  only kept for inspection.
\<close>

record settled_fill =
  sf_order :: string
  sf_client :: string
  sf_filled :: real
  sf_avg :: real
  sf_fees :: fill_accumulator
  sf_protection :: json

definition placed_protection :: "live_client \<Rightarrow> exchange_call list \<Rightarrow> pending_row \<Rightarrow> order_context \<Rightarrow> real \<Rightarrow> real \<Rightarrow> json" where
  "placed_protection c t p x q a =
     (if q > 0 \<and> a > 0
      then (case attach_native_protection c t (pn_payload p) (oc_exchange_config x) (oc_symbol x) (oc_signal x) q a (oc_market x)
              (''qdprot'' @ py_str_int (pn_id p)) of Inl e \<Rightarrow> JList [] | Inr v \<Rightarrow> v)
      else JList [])"

definition settle_execution :: "live_client \<Rightarrow> exchange_call list \<Rightarrow> pending_row \<Rightarrow> order_context \<Rightarrow> prepared_order \<Rightarrow> exec_result \<Rightarrow> settled_fill" where
  "settle_execution c t p x r e =
     (let o' = pr_terms r; fills = apply_execution_result e no_fills; q = fa_base fills; a = acc_avg_price fills;
          client = (if xr_order e = [] then [] else live_client_order_id (oc_exchange x) (oc_strategy x) (pn_id p)
                      (if ot_algo o' = ''limit'' then ''lmt'' else ''mkt''));
          (q', a') = (if q \<le> 0 \<and> xr_order e \<noteq> []
             then (let (rq, ra) = try_recover_zero_fill c t (oc_symbol x) (oc_market x) (xr_order e) client (os_amount (pr_sizes r))
                       (oc_signal x) (ot_pos_side o') (pr_pre r) (ot_ref o') in
                   if rq > 0 then (rq, if ra > 0 then ra else ot_ref o') else (q, a))
             else (q, a)) in
      \<lparr>sf_order = xr_order e, sf_client = client, sf_filled = q', sf_avg = a', sf_fees = fills,
        sf_protection = placed_protection c t p x q' a'\<rparr>)"

text \<open>Of the phases, what later readings use.\<close>

definition fees_json :: "fees \<Rightarrow> json" where
  "fees_json fs = JDict (map (\<lambda>(k, v). (k, JNum v)) fs)"

definition phases_json :: "exec_result \<Rightarrow> settled_fill \<Rightarrow> json" where
  "phases_json e f = JDict ([(''executor'', xr_raw e)] @
     (if json_truthy (sf_protection f) then [(''native_protection'', sf_protection f)] else []) @
     [(''fee_breakdown'', fees_json (fa_fees (sf_fees f)))])"

definition sent_report_of :: "order_context \<Rightarrow> prepared_order \<Rightarrow> exec_result \<Rightarrow> settled_fill \<Rightarrow> sent_report" where
  "sent_report_of x r e f = \<lparr>st_note = ''live_order_sent'', st_exchange = str_or_empty (get (oc_exchange_config x) ''exchange_id''),
     st_order = sf_order f, st_response = Some (JDict [(''phases'', phases_json e f)]), st_filled = sf_filled f, st_avg = sf_avg f,
     st_executed = (sf_filled f > 0), st_final = is_final_fill (os_amount (pr_sizes r)) (sf_filled f) (sf_avg f) (xr_status e),
     st_client = sf_client f\<rparr>"

definition fill_of_execution ::
  "queue_world \<Rightarrow> live_client \<Rightarrow> pending_row \<Rightarrow> order_context \<Rightarrow> exec_result \<Rightarrow> settled_fill \<Rightarrow> real \<Rightarrow> fault + fill_post" where
  "fill_of_execution w c p x e f new =
     (let fs = fa_fees (sf_fees f) in
      map_sum id (\<lambda>post. post\<lparr>fp_position := Some (proportional_spot_position_fill_quantity (oc_market x) (oc_symbol x) (oc_signal x)
             new (sf_filled f) fs),
          fp_fee_status := (if fs \<noteq> [] then ''actual'' else ''pending''), fp_fee_source := (if fs \<noteq> [] then ''rest'' else [])\<rparr>)
        (worker_post p (oc_strategy x) (oc_symbol x) (oc_signal x) new (sf_avg f) ''worker''
           (fa_fee (sf_fees f), py_upper (py_strip (fa_ccy (sf_fees f))))
           (fee_breakdown_to_quote (lc_ticker c) (oc_symbol x) fs (sf_avg f))
           (str_or_empty (get (oc_exchange_config x) ''exchange_id'')) (sf_order f) (phases_json e f)))"

text \<open>The row first, then what no trade shows yet; a failed posting is only logged.\<close>

definition settle_order ::
  "queue_world \<Rightarrow> live_client \<Rightarrow> pending_row \<Rightarrow> order_context \<Rightarrow> prepared_order \<Rightarrow> exec_result \<Rightarrow> settled_fill \<Rightarrow> stream_db \<Rightarrow> stream_db" where
  "settle_order w c p x r e f db =
     (let db1 = mark_sent (qw_now w) (pn_id p) (sent_report_of x r e f) db;
          new = unrecorded_pending_fill (pn_id p) (sf_filled f) db1 in
      if new > 0 \<and> sf_avg f > 0 then snd (post_fill w (fill_of_execution w c p x e f new) db1) else db1)"

definition fail_order :: "queue_world \<Rightarrow> pending_row \<Rightarrow> string \<Rightarrow> order_db \<Rightarrow> order_db" where
  "fail_order w p err q = with_db (mark_order_failed (qw_now w) (pn_id p) err) q"

definition execute_venue_order :: "queue_world \<Rightarrow> live_client \<Rightarrow> pending_row \<Rightarrow> order_context \<Rightarrow> order_db \<Rightarrow> order_db \<times> exchange_call list" where
  "execute_venue_order w c p x q0 =
     (let q = with_db (register_pending_order_binding (pn_id p)
            (live_client_order_id (oc_exchange x) (oc_strategy x) (pn_id p) []) [] (oc_exchange x) (oc_market x) 0) q0 in
      case prepare_order w c p x q of
        (Inl err, q1) \<Rightarrow> (fail_order w p err q1, [])
      | (Inr r, q1) \<Rightarrow>
          (let (m, t) = run_executor c p x r in
           case (execution_error w m, m) of
             (None, Inr e) \<Rightarrow> (with_db (settle_order w c p x r e (settle_execution c t p x r e)) q1, t)
           | (Some err, _) \<Rightarrow> (fail_order w p err q1, t)
           | (None, Inl e) \<Rightarrow> (q1, t)))"

subsection \<open>The stock brokers\<close>

definition broker_action :: "string \<Rightarrow> string option" where
  "broker_action sig =
     (if sig \<in> {''open_long'', ''add_long'', ''close_short'', ''reduce_short'', ''close_short_stop'', ''close_short_profit'', ''close_short_trailing''}
      then Some ''buy''
      else if sig \<in> {''close_long'', ''reduce_long'', ''close_long_stop'', ''close_long_profit'', ''close_long_trailing'', ''open_short'', ''add_short''}
      then Some ''sell'' else None)"

text \<open>
  What differs between the two: IBKR takes the price as it is and stops the strategy on a fatal error; Alpaca falls
  back to the reference price, protects stocks only and refuses short signals on crypto.
\<close>

definition broker_sent :: "string \<Rightarrow> real \<Rightarrow> real \<Rightarrow> broker_result \<Rightarrow> sent_report" where
  "broker_sent broker amount avg r = \<lparr>st_note = broker @ ''_order_sent'', st_exchange = broker, st_order = br_order r,
     st_response = Some (json_or (br_raw r) (JDict [])), st_filled = br_filled r, st_avg = avg, st_executed = (br_filled r > 0),
     st_final = is_final_fill amount (br_filled r) avg (br_status r),
     st_client = (if broker = ''alpaca'' then str_or_empty (get (br_raw r) ''client_order_id'') else [])\<rparr>"

definition settle_broker ::
  "queue_world \<Rightarrow> live_client \<Rightarrow> string \<Rightarrow> pending_row \<Rightarrow> int \<Rightarrow> string \<Rightarrow> string \<Rightarrow> real \<Rightarrow> real \<Rightarrow> broker_result \<Rightarrow> stream_db \<Rightarrow> stream_db" where
  "settle_broker w c broker p strategy symbol signal amount ref r db =
     (let fee = commission_snapshot (br_raw r); quote = fee_to_quote (lc_ticker c) symbol (fst fee) (snd fee) (br_avg r);
          avg = (if broker = ''alpaca'' \<and> br_avg r \<le> 0 \<and> ref > 0 \<and> br_filled r > 0 then ref else br_avg r);
          db1 = mark_sent (qw_now w) (pn_id p) (broker_sent broker amount avg r) db;
          new = unrecorded_pending_fill (pn_id p) (br_filled r) db1; known = \<bar>fst fee\<bar> > eps18 in
      if new > 0 \<and> avg > 0
      then snd (post_fill w (map_sum id (\<lambda>f. f\<lparr>fp_fee_status := (if known then ''actual'' else ''pending''),
                fp_fee_source := (if known then ''rest'' else [])\<rparr>)
             (worker_post p strategy symbol signal new avg (''worker_'' @ broker) fee quote broker (br_order r) (br_raw r))) db1)
      else db1)"

text \<open>The request to a broker: action, quantity, type, limit price, stop and target.\<close>

definition broker_request :: "string \<Rightarrow> json \<Rightarrow> string \<Rightarrow> string \<Rightarrow> real \<Rightarrow> fault + string \<times> real \<times> real \<times> real" where
  "broker_request broker payload signal market ref =
     (case broker_order_type payload ref of Inl e \<Rightarrow> Inl e
      | Inr (ty, limit) \<Rightarrow>
          (let (stop, tak) = broker_protection_prices payload signal (if ty = ''limit'' then limit else ref) in
           if broker = ''alpaca'' \<and> market \<noteq> ''USStock'' then Inr (ty, limit, 0, 0) else Inr (ty, limit, stop, tak)))"

definition ibkr_market :: "json \<Rightarrow> json \<Rightarrow> string" where
  "ibkr_market payload xc = py_strip (default_text (str_or_empty (json_or (get_any payload [''market_type'', ''market_category''])
     (get_any xc [''market_type'', ''market_category'']))) ''USStock'')"

definition broker_raises :: "queue_world \<Rightarrow> string \<Rightarrow> pending_row \<Rightarrow> int \<Rightarrow> fault \<Rightarrow> order_db \<Rightarrow> order_db" where
  "broker_raises w broker p strategy e q =
     (let q1 = fail_order w p (broker @ ''_exception:'' @ fault_text e) q in
      if broker = ''ibkr'' \<and> is_fatal_exchange_error (fault_text e) then snd (auto_stop_live_strategy strategy q1) else q1)"

definition execute_broker_order :: "queue_world \<Rightarrow> live_client \<Rightarrow> string \<Rightarrow> pending_row \<Rightarrow> order_context \<Rightarrow> order_db \<Rightarrow> order_db" where
  "execute_broker_order w c broker p x q =
     (let payload = pn_payload p; sig = lower_strip (oc_signal x);
          market = (if broker = ''alpaca'' then alpaca_market (py_strip (default_text (oc_category x) ''USStock''))
                    else ibkr_market payload (oc_exchange_config x)) in
      case first_number [get_any payload [''ref_price'', ''price''], JNum (pn_price p), JNum 0] of
        Inl e \<Rightarrow> fail_order w p (fault_text e) q
      | Inr ref \<Rightarrow>
          (case broker_action sig of
             None \<Rightarrow> fail_order w p (broker @ ''_unsupported_signal:'' @ oc_signal x) q
           | Some action \<Rightarrow>
               if broker = ''alpaca'' \<and> market = ''crypto'' \<and> py_contains sig ''short''
               then fail_order w p ''alpaca_crypto_short_not_supported'' q
               else (case broker_request broker payload (oc_signal x) market ref of
                   Inl e \<Rightarrow> broker_raises w broker p (oc_strategy x) e q
                 | Inr (ty, limit, stop, tak) \<Rightarrow>
                     (case lc_broker_order c (oc_symbol x) action (oc_amount x) ty limit stop tak market of
                        Inl e \<Rightarrow> broker_raises w broker p (oc_strategy x) e q
                      | Inr r \<Rightarrow> if \<not> br_success r then fail_order w p (broker @ ''_order_failed:'' @ br_message r) q
                          else with_db (settle_broker w c broker p (oc_strategy x) (oc_symbol x) (oc_signal x) (oc_amount x) ref r) q))))"

subsection \<open>Dispatch\<close>

definition execute_live_order :: "queue_world \<Rightarrow> pending_row \<Rightarrow> order_db \<Rightarrow> order_db \<times> exchange_call list" where
  "execute_live_order w p q =
     (case build_live_order_context w p of
        Inl err \<Rightarrow> (fail_order w p err q, [])
      | Inr x \<Rightarrow>
          (case qw_client w (oc_exchange_config x) (oc_market x) of
             Inl e \<Rightarrow> (let q1 = fail_order w p (''create_client_failed:'' @ fault_text e) q in
               (if is_fatal_exchange_error (fault_text e) then snd (auto_stop_live_strategy (oc_strategy x) q1) else q1, []))
           | Inr c \<Rightarrow> (case lc_kind c of
                 IbkrClient \<Rightarrow> (execute_broker_order w c ''ibkr'' p x q, [])
               | AlpacaClient \<Rightarrow> (execute_broker_order w c ''alpaca'' p x q, [])
               | VenueClient \<Rightarrow> execute_venue_order w c p x q)))"

text \<open>A signal is only notified; it counts as sent when a channel took it.\<close>

definition signal_report :: "string \<Rightarrow> sent_report" where
  "signal_report remark = \<lparr>st_note = take 200 remark, st_exchange = [], st_order = [], st_response = None, st_filled = 0, st_avg = 0,
     st_executed = False, st_final = False, st_client = []\<rparr>"

fun join_with :: "string \<Rightarrow> string list \<Rightarrow> string" where
  "join_with sep [] = []"
| "join_with sep [x] = x"
| "join_with sep (x # xs) = x @ sep @ join_with sep xs"

definition notify_outcome :: "(string \<times> bool \<times> string) list \<Rightarrow> string + string" where
  "notify_outcome rs =
     (let good = map fst (filter (\<lambda>(c, ok, e). ok) rs); bad = map fst (filter (\<lambda>(c, ok, e). \<not> ok) rs) in
      if good \<noteq> [] then Inr (''notified_ok='' @ join_with '','' good @ (if bad = [] then [] else '';fail='' @ join_with '','' bad))
      else case find (\<lambda>(c, ok, e). e \<noteq> []) rs of None \<Rightarrow> Inl ''notify_failed'' | Some (c, ok, e) \<Rightarrow> Inl (c @ '':'' @ e))"

text \<open>A queued signal of a strategy that has gone live is executed; a failed lookup leaves the mode.\<close>

definition dispatch_mode :: "queue_world \<Rightarrow> pending_row \<Rightarrow> string" where
  "dispatch_mode w p =
     (let mode = lower_strip (default_text (pn_mode p) ''signal'') in
      if mode \<noteq> ''live'' then
        (case int_of_payload (pn_payload p) ''strategy_id'' (pn_strategy p) of
           Some sid \<Rightarrow> if sid \<noteq> 0 then (case qw_config w sid of
               Inr sc \<Rightarrow> if lower_strip (str_or_empty (get sc ''execution_mode'')) = ''live'' then ''live'' else mode
             | Inl e \<Rightarrow> mode) else mode
         | None \<Rightarrow> mode)
      else mode)"

definition dispatch_one :: "queue_world \<Rightarrow> pending_row \<Rightarrow> order_db \<Rightarrow> order_db \<times> exchange_call list" where
  "dispatch_one w p q =
     (let mode = dispatch_mode w p in
      case (first_number [get (pn_payload p) ''price'', JNum (pn_price p), JNum 0],
            first_number [get (pn_payload p) ''amount'', JNum (pn_amount p), JNum 0]) of
        (Inr price, Inr amount) \<Rightarrow>
          if mode = ''signal'' then
            (case notify_outcome (qw_notify w p) of
               Inr remark \<Rightarrow> (with_db (mark_sent (qw_now w) (pn_id p) (signal_report remark)) q, [])
             | Inl err \<Rightarrow> (fail_order w p err q, []))
          else if mode = ''live'' then execute_live_order w p q
          else (fail_order w p (''unsupported_execution_mode:'' @ mode) q, [])
      | _ \<Rightarrow> (fail_order w p (fault_text parse_error) q, []))"

text \<open>One claimed order, and the pass over the queue; the calls of each order are kept with its id.\<close>

definition work_order :: "queue_world \<Rightarrow> pending_row \<Rightarrow> order_db \<times> (int \<times> exchange_call list) list \<Rightarrow> order_db \<times> (int \<times> exchange_call list) list" where
  "work_order w p = (\<lambda>(q, ts).
     let (claimed, db) = mark_processing (qw_now w) (pn_id p) (od_db q); q1 = q\<lparr>od_db := db\<rparr> in
     if pn_id p = 0 \<or> \<not> claimed then (q1, ts)
     else let (q2, t) = dispatch_one w p q1 in (q2, ts @ [(pn_id p, t)]))"

definition order_tick :: "queue_world \<Rightarrow> nat \<Rightarrow> nat \<Rightarrow> (pending_row \<Rightarrow> bool) \<Rightarrow> order_db \<Rightarrow> order_db \<times> (int \<times> exchange_call list) list" where
  "order_tick w limit batch audited q0 =
     (let q = with_db (\<lambda>db. sync_live_sent_orders w limit audited (sync_alpaca_sent_orders w limit db)) q0;
          (ps, db) = fetch_pending_orders (qw_now w) (qw_stale w) batch (od_db q) in
      fold (work_order w) ps (q\<lparr>od_db := db\<rparr>, []))"

end
