(* ===== verification/OrderLaws.thy ===== *)
theory OrderLaws
  imports OrderDispatch StreamLaws
begin

text \<open>
  Laws of the order queue: whatever streams, submissions, executions and readings do to the orders of the venues, in
  any order, an order's trades add up to what it has filled.
\<close>

subsection \<open>Runs of allowed operations\<close>

text \<open>An operation that is allowed keeps an invariant; so does a run of them.\<close>

locale guarded_machine =
  fixes gstep :: "'e \<Rightarrow> 's \<Rightarrow> 's" and permitted :: "'e \<Rightarrow> bool" and ginv :: "'s \<Rightarrow> bool"
  assumes gstep_inv: "ginv s \<Longrightarrow> permitted e \<Longrightarrow> ginv (gstep e s)"
begin

lemma grun_inv: "ginv s \<Longrightarrow> list_all permitted es \<Longrightarrow> ginv (fold gstep es s)"
  by (induction es arbitrary: s) (auto intro: gstep_inv)

end

subsection \<open>Decimals\<close>

lemma decimal8_shift: "exact8 r \<Longrightarrow> 0 \<le> r \<Longrightarrow> 0 \<le> y \<Longrightarrow> decimal8 (r + y) = r + decimal8 y"
proof -
  assume a: "exact8 r" "0 \<le> r" "0 \<le> y"
  then obtain n where n: "r = of_int n / 100000000" by (auto simp: exact8_def)
  have "(r + y) * 100000000 + 1 / 2 = of_int n + (y * 100000000 + 1 / 2)" using n by (simp add: algebra_simps)
  then have "\<lfloor>(r + y) * 100000000 + 1 / 2\<rfloor> = n + \<lfloor>y * 100000000 + 1 / 2\<rfloor>" by (metis floor_add_int add.commute)
  then show ?thesis using a by (simp add: decimal8_def n add_divide_distrib)
qed

lemma decimal8_tiny: "0 \<le> y \<Longrightarrow> y \<le> eps12 \<Longrightarrow> decimal8 y = 0"
proof -
  assume a: "0 \<le> y" "y \<le> eps12"
  have "\<lfloor>y * 100000000 + 1 / 2\<rfloor> = 0" by (rule floor_unique) (use a in \<open>simp_all add: eps12_def\<close>)
  with a show ?thesis by (simp add: decimal8_def)
qed

lemma decimal8_max: "exact8 r \<Longrightarrow> 0 \<le> r \<Longrightarrow> decimal8 (max r x) = r + decimal8 (max 0 (x - r))"
  using decimal8_shift[of r "max 0 (x - r)"] by (cases "r \<le> x") (simp_all add: max_def)

subsection \<open>Clean tables\<close>

text \<open>
  The reference price an order carries: what cannot be read makes the order fail before anything is sent. A proper order
  has a positive one, and gives its run, intent and amount as numbers, as the gateway writes them.
\<close>

definition order_ref :: "pending_row \<Rightarrow> fault + real" where
  "order_ref p = first_number [get_any (pn_payload p) [''ref_price'', ''price''], JNum (pn_price p)]"

definition readable :: "json \<Rightarrow> string \<Rightarrow> bool" where
  "readable payload k = (\<not> json_truthy (get payload k) \<or> int_or_0 (get payload k) \<noteq> None)"

definition proper_row :: "pending_row \<Rightarrow> bool" where
  "proper_row p = ((case order_ref p of Inl e \<Rightarrow> True | Inr v \<Rightarrow> 0 < v) \<and>
     readable (pn_payload p) ''strategy_run_id'' \<and> readable (pn_payload p) ''order_intent_id'' \<and>
     float_or_0 (get (pn_payload p) ''amount'') \<noteq> None)"

text \<open>Every order with its reference price, and for each the trades add up to what it has filled.\<close>

definition posted_exactly :: "stream_db \<Rightarrow> bool" where
  "posted_exactly db \<longleftrightarrow> (\<forall>i > 0. unposted i db = 0)"

definition clean :: "int \<Rightarrow> stream_db \<Rightarrow> bool" where
  "clean n db \<longleftrightarrow> stream_ok db \<and> posted_exactly db \<and> list_all (\<lambda>p. pn_id p < n \<and> proper_row p) (sd_pending db)"

lemma proper_core: "order_core p = order_core p' \<Longrightarrow> proper_row p = proper_row p'"
  by (simp add: order_core_def proper_row_def order_ref_def)

lemma terms_core: "map order_core ps = map order_core ps' \<Longrightarrow> list_all (\<lambda>p. pn_id p < n \<and> proper_row p) ps =
    list_all (\<lambda>p. pn_id p < n \<and> proper_row p) ps'"
proof (induction ps arbitrary: ps')
  case (Cons p ps)
  then obtain q qs where "ps' = q # qs" "order_core p = order_core q" "map order_core ps = map order_core qs" by (cases ps') auto
  moreover have "list_all (\<lambda>p. pn_id p < n \<and> proper_row p) ps = list_all (\<lambda>p. pn_id p < n \<and> proper_row p) qs"
    by (rule Cons.IH) (rule calculation)
  ultimately show ?case using proper_core[of p q] by (simp add: order_core_def)
qed simp

lemma clean_keeps: "clean n db \<Longrightarrow> keeps_account db db' \<Longrightarrow> clean n db'"
  using terms_core[of "sd_pending db'" "sd_pending db"] by (simp add: clean_def keeps_account_def posted_exactly_def)

lemma cleanD:
  assumes "clean n db"
  shows "stream_ok db" "posted_exactly db" "p \<in> set (sd_pending db) \<Longrightarrow> pn_id p < n \<and> proper_row p"
  using assms by (auto simp: clean_def list_all_iff)

text \<open>Changes of a row that leave its terms and its fill alone.\<close>

definition same_fill :: "pending_row \<Rightarrow> pending_row \<Rightarrow> bool" where
  "same_fill p p' = (order_core p' = order_core p \<and> pn_strategy p' = pn_strategy p \<and> pn_filled p' = pn_filled p)"

lemma core_id: "map order_core ps = map order_core ps' \<Longrightarrow> map pn_id ps = map pn_id ps'"
proof -
  assume "map order_core ps = map order_core ps'"
  then have "map fst (map order_core ps) = map fst (map order_core ps')" by simp
  then show ?thesis by (simp add: order_core_def comp_def)
qed

lemma relabel_keeps:
  assumes ok: "stream_ok db" and f: "\<And>p. same_fill p (f p)"
  shows "keeps_account db (db\<lparr>sd_pending := map f (sd_pending db)\<rparr>)"
proof -
  have g: "order_core (f p) = order_core p" "pn_strategy (f p) = pn_strategy p" "pn_filled (f p) = pn_filled p" "pn_id (f p) = pn_id p" for p
    using f[of p] by (simp_all add: same_fill_def order_core_def)
  have "row_at pn_id i (map f (sd_pending db)) = map_option f (row_at pn_id i (sd_pending db))" for i
    by (rule row_at_map) (simp add: g)
  then have "filled_of i (db\<lparr>sd_pending := map f (sd_pending db)\<rparr>) = filled_of i db" for i
    by (simp add: filled_of_def g split: option.split)
  moreover have "stream_ok (db\<lparr>sd_pending := map f (sd_pending db)\<rparr>)"
    using ok by (simp add: stream_ok_def g comp_def list_all_iff)
  ultimately show ?thesis by (simp add: keeps_account_def unposted_def g comp_def)
qed

lemma on_order_keeps: "stream_ok db \<Longrightarrow> (\<And>p. same_fill p (f p)) \<Longrightarrow> keeps_account db (on_order i f db)"
  unfolding on_order_def by (rule relabel_keeps) (simp_all add: same_fill_def)

lemma set_intent_frame [simp]:
  "sd_pending (set_intent i st db) = sd_pending db" "sd_ledger (set_intent i st db) = sd_ledger db"
  "sd_events (set_intent i st db) = sd_events db" "sd_next_event (set_intent i st db) = sd_next_event db"
  "sd_bindings (set_intent i st db) = sd_bindings db" "sd_runners (set_intent i st db) = sd_runners db"
  by (simp_all add: set_intent_def split: option.split)

lemma set_intent_keeps: "stream_ok db \<Longrightarrow> keeps_account db (set_intent i st db)"
  by (rule ledger_keeps) simp_all

lemma mark_order_failed_keeps: "stream_ok db \<Longrightarrow> keeps_account db (mark_order_failed now i err db)"
  unfolding mark_order_failed_def
  by (rule keeps_then[OF on_order_keeps set_intent_keeps]) (simp_all add: same_fill_def order_core_def)

lemma mark_processing_keeps: "stream_ok db \<Longrightarrow> keeps_account db (snd (mark_processing now i db))"
  by (simp add: mark_processing_def on_order_keeps keeps_refl same_fill_def order_core_def split: option.split)

lemma requeue_keeps: "stream_ok db \<Longrightarrow> keeps_account db (requeue_stale now stale db)"
  by (simp add: requeue_stale_def keeps_refl relabel_keeps same_fill_def order_core_def)

lemma requeue_syncing_keeps: "stream_ok db \<Longrightarrow> keeps_account db (requeue_syncing now stale al db)"
  by (simp add: requeue_syncing_def keeps_refl relabel_keeps same_fill_def order_core_def)

lemma claim_keeps_account: "stream_ok db \<Longrightarrow> keeps_account db (snd (claim_order now m p i db))"
  by (simp add: claim_order_def Let_def on_order_keeps keeps_refl same_fill_def order_core_def split: option.split)

lemma order_row_in: "order_row i db = Some p \<Longrightarrow> p \<in> set (sd_pending db) \<and> pn_id p = i"
  by (auto simp: order_row_def dest: row_at_SomeD)

lemma register_order_keeps:
  assumes ok: "stream_ok db"
  shows "keeps_account db (register_pending_order_binding i c order ex mt q db)"
proof (cases "order_row i db")
  case (Some p)
  have "0 < pn_strategy p" using order_row_in[OF Some] stream_okD(6)[OF ok] by auto
  then have "0 \<le> bd_strategy b" if "binding_of_order i c order ex mt q p = Some b" for b
    using that by (auto simp: binding_of_order_def int_or_def split: option.splits)
  then show ?thesis
    using Some register_keeps[OF ok] keeps_refl[OF ok]
    by (auto simp: register_pending_order_binding_def split: option.split)
qed (simp add: register_pending_order_binding_def keeps_refl ok)

lemma register_order_frame [simp]:
  "sd_pending (register_pending_order_binding i c order ex mt q db) = sd_pending db"
  "sd_ledger (register_pending_order_binding i c order ex mt q db) = sd_ledger db"
  by (simp_all add: register_pending_order_binding_def register_binding_def Let_def split: option.split)

subsection \<open>A fill is stored and posted\<close>

text \<open>The row takes a new fill, the trades what is missing: the order stays posted exactly.\<close>

lemma on_order_clean:
  assumes ok: "stream_ok db" and row: "order_row i db = Some p"
    and f: "\<And>r. order_core (f r) = order_core r \<and> pn_strategy (f r) = pn_strategy r" "exact8 (pn_filled (f p))" "0 \<le> pn_filled (f p)"
  shows "stream_ok (on_order i f db)" "map order_core (sd_pending (on_order i f db)) = map order_core (sd_pending db)"
    "filled_of j (on_order i f db) = (if j = i then pn_filled (f p) else filled_of j db)"
proof -
  have id: "pn_id (f r) = pn_id r" for r using f(1)[of r] by (simp add: order_core_def)
  have p: "p \<in> set (sd_pending db)" "pn_id p = i" using order_row_in[OF row] by simp_all
  have uniq: "r = p" if "r \<in> set (sd_pending db)" "pn_id r = i" for r
    using stream_okD(5)[OF ok] that p by (metis row_at_set option.inject)
  have m: "map pn_id (map (\<lambda>r. if pn_id r = i then f r else r) (sd_pending db)) = map pn_id (sd_pending db)" by (simp add: id)
  have "\<forall>r \<in> set (map (\<lambda>r. if pn_id r = i then f r else r) (sd_pending db)).
      0 < pn_id r \<and> 0 < pn_strategy r \<and> exact8 (pn_filled r) \<and> 0 \<le> pn_filled r"
    using stream_okD(6)[OF ok] uniq f by (auto simp: id)
  then show "stream_ok (on_order i f db)"
    using ok m by (auto simp: stream_ok_def on_order_def list_all_iff simp del: map_map)
  show "map order_core (sd_pending (on_order i f db)) = map order_core (sd_pending db)" using f(1) by (simp add: on_order_def)
  show "filled_of j (on_order i f db) = (if j = i then pn_filled (f p) else filled_of j db)"
    using observed_row[of pn_id i "sd_pending db" p f j] row id by (simp add: filled_of_def on_order_def order_row_def)
qed

lemma post_fill_frame [simp]:
  "sd_pending (snd (post_fill w f db)) = sd_pending db" "sd_events (snd (post_fill w f db)) = sd_events db"
  "sd_next_event (snd (post_fill w f db)) = sd_next_event db" "sd_bindings (snd (post_fill w f db)) = sd_bindings db"
  "sd_runners (snd (post_fill w f db)) = sd_runners db"
  by (simp_all add: post_fill_def split: sum.split)

lemma post_fill_posts:
  assumes "qw_fault w (fp_order f) = None" "fp_order f \<noteq> 0" "fp_event f \<le> 0" "0 \<le> fp_filled f"
  shows "posted_for i (sd_ledger (snd (post_fill w (Inr f) db))) =
    posted_for i (sd_ledger db) + (if i = fp_order f then decimal8 (fp_filled f) else 0)"
proof (cases "eps12 < fp_filled f")
  case True
  then show ?thesis using persist_rounds[OF True assms(2), of db] assms by (simp add: post_fill_def)
next
  case False
  then show ?thesis using assms decimal8_tiny[of "fp_filled f"] by (simp add: post_fill_def persist_strategy_fill_def)
qed

lemma keeps_filled: "keeps_account a b \<Longrightarrow> sd_pending b = sd_pending a \<Longrightarrow> filled_of j b = filled_of j a"
  by (simp add: filled_of_def)

lemma mark_sent_effect:
  assumes ok: "stream_ok db" and row: "order_row i db = Some p"
  shows "stream_ok (mark_sent now i s db)" "map order_core (sd_pending (mark_sent now i s db)) = map order_core (sd_pending db)"
    "sd_ledger (mark_sent now i s db) = sd_ledger db"
    "filled_of j (mark_sent now i s db) = (if j = i then decimal8 (max (pn_filled p) (st_filled s)) else filled_of j db)"
proof -
  have p: "0 \<le> pn_filled p" using order_row_in[OF row] stream_okD(6)[OF ok] by auto
  let ?x = "on_order i (sent_row now s) db"
  have core: "order_core (sent_row now s r) = order_core r \<and> pn_strategy (sent_row now s r) = pn_strategy r" for r
    by (simp add: sent_row_def order_core_def)
  have num: "exact8 (pn_filled (sent_row now s p))" "0 \<le> pn_filled (sent_row now s p)" using p by (simp_all add: sent_row_def decimal8_nonneg)
  note x = on_order_clean[OF ok row core num]
  have y: "keeps_account ?x (mark_sent now i s db)"
    unfolding mark_sent_def by (rule keeps_then[OF set_intent_keeps[OF x(1)]]) (rule register_order_keeps)
  show "stream_ok (mark_sent now i s db)" using y by (rule keeps_ok)
  show "map order_core (sd_pending (mark_sent now i s db)) = map order_core (sd_pending db)" using x(2) by (simp add: mark_sent_def)
  show "sd_ledger (mark_sent now i s db) = sd_ledger db" by (simp add: mark_sent_def on_order_def)
  show "filled_of j (mark_sent now i s db) = (if j = i then decimal8 (max (pn_filled p) (st_filled s)) else filled_of j db)"
  proof -
    have "pn_filled (sent_row now s p) = decimal8 (max (pn_filled p) (st_filled s))" by (simp add: sent_row_def)
    with x(3)[of j] show ?thesis by (simp add: mark_sent_def filled_of_def)
  qed
qed

text \<open>The account of one order moves from one exact posting to the next.\<close>

lemma clean_step:
  assumes "clean n db" "stream_ok db'" "map order_core (sd_pending db') = map order_core (sd_pending db)"
    "\<And>j. 0 < j \<Longrightarrow> filled_of j db' = posted_for j (sd_ledger db')"
  shows "clean n db'"
  using assms terms_core[OF assms(3)] by (simp add: clean_def posted_exactly_def unposted_def)

lemma posted_is_filled: "clean n db \<Longrightarrow> 0 < j \<Longrightarrow> posted_for j (sd_ledger db) = filled_of j db"
  by (simp add: clean_def posted_exactly_def unposted_def)

lemma recorded_posted: "recorded_fill i l = posted_for i l"
  by (simp add: recorded_fill_def posted_for_def)

lemma settled_clean:
  assumes c: "clean n db" and row: "order_row i db = Some p"
    and f: "fp_order f = i" "fp_event f \<le> 0" "fp_filled f = unrecorded_pending_fill i (st_filled s) (mark_sent now i s db)" "qw_fault w i = None"
    and a: "0 < st_filled s \<Longrightarrow> 0 < a"
  shows "clean n (if unrecorded_pending_fill i (st_filled s) (mark_sent now i s db) > 0 \<and> a > 0
     then snd (post_fill w (Inr f) (mark_sent now i s db)) else mark_sent now i s db)"
proof -
  note ok = cleanD(1)[OF c]
  define x where "x = mark_sent now i s db"
  note e = mark_sent_effect[OF ok row, where now = now and s = s, folded x_def]
  have p: "p \<in> set (sd_pending db)" "pn_id p = i" using order_row_in[OF row] by simp_all
  have i: "0 < i" and q: "exact8 (pn_filled p)" "0 \<le> pn_filled p" using stream_okD(6)[OF ok p(1)] p(2) by auto
  have here: "filled_of i db = pn_filled p" using row by (simp add: filled_of_def order_row_def)
  have posted: "posted_for j (sd_ledger x) = filled_of j db" if "0 < j" for j using posted_is_filled[OF c that] e(3) by simp
  define new where "new = max 0 (st_filled s - pn_filled p)"
  have unrec: "unrecorded_pending_fill i (st_filled s) x = new"
    using i posted[OF i] here by (simp add: unrecorded_pending_fill_def recorded_posted new_def)
  have grows: "filled_of j x = filled_of j db + (if j = i then decimal8 new else 0)" for j
    using e(4)[of j] decimal8_max[OF q, of "st_filled s"] here by (simp add: new_def)
  show ?thesis unfolding x_def[symmetric] unrec
  proof (cases "new > 0 \<and> a > 0")
    case True
    let ?y = "snd (post_fill w (Inr f) x)"
    have "filled_of j ?y = posted_for j (sd_ledger ?y)" if "0 < j" for j
      using post_fill_posts[of w f j x] f i posted[OF that] grows[of j] True unrec
      by (simp add: x_def[symmetric] filled_of_def)
    moreover have "stream_ok ?y" using e(1) by (simp add: stream_ok_def)
    ultimately show "clean n (if new > 0 \<and> a > 0 then ?y else x)" using clean_step[OF c] e(2) True by simp
  next
    case False
    then have "new = 0" using a q(2) by (cases "new > 0") (auto simp: new_def max_def split: if_splits)
    then have "filled_of j x = posted_for j (sd_ledger x)" if "0 < j" for j using posted[OF that] grows[of j] by simp
    then have "clean n x" using clean_step[OF c e(1,2)] by simp
    with False show "clean n (if new > 0 \<and> a > 0 then snd (post_fill w (Inr f) x) else x)" by (simp only: if_False)
  qed
qed

subsection \<open>Executions\<close>

lemma fees_keep_fill: "fa_base (fold (\<lambda>(c, v). apply_fee v c) fs a) = fa_base a \<and> fa_quote (fold (\<lambda>(c, v). apply_fee v c) fs a) = fa_quote a"
  by (induction fs arbitrary: a) (auto simp: apply_fee_def Let_def split: prod.split)

lemma executed_price: "0 < fa_base (apply_execution_result e no_fills) \<Longrightarrow> 0 < acc_avg_price (apply_execution_result e no_fills)"
  using fees_keep_fill[of "xr_fees e" "apply_fill (xr_filled e) (xr_avg e) no_fills"]
  by (auto simp: apply_execution_result_def acc_avg_price_def apply_fill_def no_fills_def split: if_splits)

text \<open>
  What is asked of a client: no negative price of an order's fill, and a price with every fill a broker reports. Alpaca's
  own readings overwrite what is stored and are left out here.
\<close>

definition priced_client :: "live_client \<Rightarrow> bool" where
  "priced_client c \<longleftrightarrow> lc_kind c \<noteq> AlpacaClient \<and> (\<forall>t sy m oid cid q p s. lc_query c t sy m oid cid = Inr (q, p, s) \<longrightarrow> 0 \<le> p) \<and>
     (\<forall>sy a q ty l st tk m r. lc_broker_order c sy a q ty l st tk m = Inr r \<longrightarrow> 0 < br_filled r \<longrightarrow> 0 < br_avg r)"

definition calm_queue :: "queue_world \<Rightarrow> bool" where
  "calm_queue w \<longleftrightarrow> (\<forall>i. qw_fault w i = None) \<and> (\<forall>xc m c. qw_client w xc m = Inr c \<longrightarrow> priced_client c)"

lemma recovered_price:
  assumes "priced_client c" "0 < ref" "try_recover_zero_fill c t sy m oid cid req sg ps pre ref = (q, a)" "0 < q"
  shows "0 < a"
proof -
  have "0 \<le> p" if "lc_query c t sy m oid' cid' = Inr (q', p, s)" for oid' cid' q' p s
    using assms(1) that unfolding priced_client_def by blast
  with assms(2-4) show ?thesis
    by (force simp: try_recover_zero_fill_def Let_def py_or_def split: if_splits sum.splits prod.splits)
qed

lemma settled_price:
  assumes "priced_client c" "0 < ot_ref (pr_terms r)" "0 < sf_filled (settle_execution c t p x r e)"
  shows "0 < sf_avg (settle_execution c t p x r e)"
  using assms(3) recovered_price[OF assms(1,2)] executed_price[of e] assms(2)
  by (auto simp: settle_execution_def Let_def split: if_splits prod.splits)

lemma proper_post:
  assumes "proper_row p"
  shows "\<exists>f. worker_post p k sy sg d px src fee q ex oid raw = Inr f \<and> fp_order f = pn_id p \<and> fp_event f = 0 \<and> fp_filled f = d"
proof -
  have "int_of_payload (pn_payload p) ''strategy_run_id'' (pn_run p) \<noteq> None" "int_of_payload (pn_payload p) ''order_intent_id'' (pn_intent p) \<noteq> None"
    using assms by (auto simp: proper_row_def readable_def int_of_payload_def)
  then show ?thesis by (auto simp: worker_post_def)
qed

lemma settle_order_clean:
  assumes c: "clean n db" "order_row (pn_id p) db = Some p0" "proper_row p" and w: "qw_fault w (pn_id p) = None"
    and a: "0 < sf_filled f \<Longrightarrow> 0 < sf_avg f"
  shows "clean n (settle_order w c' p x r e f db)"
proof -
  let ?s = "sent_report_of x r e f" and ?x = "mark_sent (qw_now w) (pn_id p) (sent_report_of x r e f) db"
  let ?new = "unrecorded_pending_fill (pn_id p) (sf_filled f) ?x"
  obtain h where h: "worker_post p (oc_strategy x) (oc_symbol x) (oc_signal x) ?new (sf_avg f) ''worker''
           (fa_fee (sf_fees f), py_upper (py_strip (fa_ccy (sf_fees f))))
           (fee_breakdown_to_quote (lc_ticker c') (oc_symbol x) (fa_fees (sf_fees f)) (sf_avg f))
           (str_or_empty (get (oc_exchange_config x) ''exchange_id'')) (sf_order f) (phases_json e f) = Inr h"
      "fp_order h = pn_id p" "fp_event h = 0" "fp_filled h = ?new"
    using proper_post[OF c(3)] by meson
  have "\<exists>g. fill_of_execution w c' p x e f ?new = Inr g \<and> fp_order g = pn_id p \<and> fp_event g \<le> 0 \<and> fp_filled g = ?new"
    using h by (simp add: fill_of_execution_def Let_def)
  then obtain g where g: "fill_of_execution w c' p x e f ?new = Inr g" "fp_order g = pn_id p" "fp_event g \<le> 0" "fp_filled g = ?new"
    by auto
  have st: "st_filled ?s = sf_filled f" by (simp add: sent_report_of_def)
  have "clean n (if unrecorded_pending_fill (pn_id p) (st_filled ?s) ?x > 0 \<and> sf_avg f > 0 then snd (post_fill w (Inr g) ?x) else ?x)"
    by (rule settled_clean[OF c(1,2)]) (use g w a st in simp_all)
  then show ?thesis unfolding settle_order_def Let_def g(1) by (simp only: st)
qed

lemma settle_broker_clean:
  assumes c: "clean n db" "order_row (pn_id p) db = Some p0" "proper_row p" and w: "qw_fault w (pn_id p) = None"
    and a: "0 < br_filled r \<Longrightarrow> 0 < br_avg r"
  shows "clean n (settle_broker w c' b p k sy sg am ref r db)"
proof -
  define avg where "avg = (if b = ''alpaca'' \<and> br_avg r \<le> 0 \<and> ref > 0 \<and> br_filled r > 0 then ref else br_avg r)"
  let ?s = "broker_sent b am avg r" and ?x = "mark_sent (qw_now w) (pn_id p) (broker_sent b am avg r) db"
  let ?fee = "commission_snapshot (br_raw r)"
  have st: "st_filled ?s = br_filled r" by (simp add: broker_sent_def)
  have pos: "0 < br_filled r \<Longrightarrow> 0 < avg" using a by (simp add: avg_def)
  have main: "clean n (if unrecorded_pending_fill (pn_id p) (st_filled ?s) ?x > 0 \<and> avg > 0
      then snd (post_fill w (Inr (g\<lparr>fp_fee_status := u, fp_fee_source := v\<rparr>)) ?x) else ?x)"
    if "fp_order g = pn_id p" "fp_event g = 0" "fp_filled g = unrecorded_pending_fill (pn_id p) (st_filled ?s) ?x" for g u v
    by (rule settled_clean[OF c(1,2)]) (use that w pos st in simp_all)
  obtain g where g: "worker_post p k sy sg (unrecorded_pending_fill (pn_id p) (br_filled r) ?x) avg (''worker_'' @ b) ?fee
      (fee_to_quote (lc_ticker c') sy (fst ?fee) (snd ?fee) (br_avg r)) b (br_order r) (br_raw r) = Inr g"
      "fp_order g = pn_id p" "fp_event g = 0" "fp_filled g = unrecorded_pending_fill (pn_id p) (br_filled r) ?x"
    using proper_post[OF c(3)] by metis
  show ?thesis
    unfolding settle_broker_def Let_def avg_def[symmetric] g(1) map_sum.simps
    using main[OF g(2,3) g(4)[folded st]] by (simp only: st)
qed

lemma with_db_simps [simp]: "od_db (with_db f q) = f (od_db q)" "od_next_order (with_db f q) = od_next_order q"
  by (simp_all add: with_db_def)

lemma fail_order_clean: "clean n (od_db q) \<Longrightarrow> clean n (od_db (fail_order w p err q))"
  by (auto simp: fail_order_def intro: clean_keeps mark_order_failed_keeps dest: cleanD(1))

lemma auto_stop_db [simp]: "od_db (snd (auto_stop_live_strategy k q)) = od_db q" "od_next_order (snd (auto_stop_live_strategy k q)) = od_next_order q"
  by (simp_all add: auto_stop_live_strategy_def)

lemma guard_entry_db: "guard_entry w c x o' a q = (e, q1) \<Longrightarrow> od_db q1 = od_db q \<and> od_next_order q1 = od_next_order q"
  by (auto simp: guard_entry_def Let_def split: if_splits prod.splits)

lemma prepare_db: "prepare_order w c p x q = (m, q1) \<Longrightarrow> od_db q1 = od_db q \<and> od_next_order q1 = od_next_order q"
  by (auto simp: prepare_order_def split: if_splits sum.splits prod.splits option.splits dest: guard_entry_db)

lemma terms_ref: "terms_of_order w p x = Inr o' \<Longrightarrow> order_ref p = Inr (ot_ref o')"
  by (auto simp: terms_of_order_def Let_def order_ref_def split: sum.splits prod.splits)

lemma sized_ref: "size_order w c p x o' pre q = Inr r \<Longrightarrow> 0 < ot_ref o' \<Longrightarrow> pr_terms r = o'"
  by (auto simp: size_order_def Let_def split: sum.splits option.splits if_splits)

lemma prepared_ref:
  assumes "proper_row p" "prepare_order w c p x q = (Inr r, q1)"
  shows "0 < ot_ref (pr_terms r)"
proof -
  obtain o' pre q2 where o': "terms_of_order w p x = Inr o'" and r: "size_order w c p x o' pre q2 = Inr r"
    using assms(2) by (auto simp: prepare_order_def split: if_splits sum.splits prod.splits option.splits)
  have "0 < ot_ref o'" using assms(1) terms_ref[OF o'] by (simp add: proper_row_def)
  with sized_ref[OF r] show ?thesis by simp
qed

lemma register_order_clean: "clean n db \<Longrightarrow> clean n (register_pending_order_binding i c o' ex mt q db)"
  by (auto intro: clean_keeps register_order_keeps dest: cleanD(1))

lemma execute_venue_order_clean:
  assumes c: "clean n (od_db q)" "order_row (pn_id p) (od_db q) = Some p0" "proper_row p"
    and w: "calm_queue w" "priced_client c'"
  shows "clean n (od_db (fst (execute_venue_order w c' p x q)))"
proof -
  define q' where "q' = with_db (register_pending_order_binding (pn_id p)
      (live_client_order_id (oc_exchange x) (oc_strategy x) (pn_id p) []) [] (oc_exchange x) (oc_market x) 0) q"
  have q': "clean n (od_db q')" "order_row (pn_id p) (od_db q') = Some p0"
    using c register_order_clean by (simp_all add: q'_def order_row_def)
  show ?thesis
  proof (cases "prepare_order w c' p x q'")
    case (Pair m q1)
    have db: "od_db q1 = od_db q'" using prepare_db[OF Pair] by simp
    have fail: "clean n (od_db (fail_order w p err q1))" for err by (rule fail_order_clean) (simp add: db q')
    have settle: "clean n (settle_order w c' p x r e (settle_execution c' t p x r e) (od_db q1))" if "m = Inr r" for r e t
      by (rule settle_order_clean) (use q' db c(3) w settled_price[OF w(2)] prepared_ref[OF c(3)] Pair that in \<open>simp_all add: calm_queue_def\<close>)
    have plain: "clean n (od_db q1)" using db q'(1) by simp
    show ?thesis
      using Pair fail settle plain
      by (simp add: execute_venue_order_def q'_def[symmetric] Let_def split: sum.split prod.split option.split)
  qed
qed

lemma broker_raises_clean: "clean n (od_db q) \<Longrightarrow> clean n (od_db (broker_raises w b p k e q))"
  by (simp add: broker_raises_def Let_def fail_order_clean)

lemma execute_broker_order_clean:
  assumes c: "clean n (od_db q)" "order_row (pn_id p) (od_db q) = Some p0" "proper_row p"
    and w: "calm_queue w" "priced_client c'"
  shows "clean n (od_db (execute_broker_order w c' b p x q))"
proof -
  have priced: "0 < br_avg r" if "lc_broker_order c' sy a qt ty l st tk m = Inr r" "0 < br_filled r" for sy a qt ty l st tk m r
    using w(2) that unfolding priced_client_def by blast
  have settle: "clean n (settle_broker w c' b p k sy sg am ref r (od_db q))" if "0 < br_filled r \<Longrightarrow> 0 < br_avg r" for k sy sg am ref r
    by (rule settle_broker_clean[OF c]) (use w that in \<open>simp_all add: calm_queue_def\<close>)
  show ?thesis
    using fail_order_clean[OF c(1)] broker_raises_clean[OF c(1)] settle priced
    by (auto simp: execute_broker_order_def Let_def split: sum.split option.split)
qed

lemma execute_live_order_clean:
  assumes c: "clean n (od_db q)" "order_row (pn_id p) (od_db q) = Some p0" "proper_row p" and w: "calm_queue w"
  shows "clean n (od_db (fst (execute_live_order w p q)))"
proof (cases "build_live_order_context w p")
  case (Inr x)
  show ?thesis
  proof (cases "qw_client w (oc_exchange_config x) (oc_market x)")
    case (Inr c')
    then have "priced_client c'" using w unfolding calm_queue_def by blast
    with execute_venue_order_clean[OF c w this] execute_broker_order_clean[OF c w this] Inr \<open>build_live_order_context w p = Inr x\<close>
    show ?thesis by (simp add: execute_live_order_def split: client_kind.split)
  qed (use Inr fail_order_clean[OF c(1)] in \<open>simp add: execute_live_order_def Let_def\<close>)
qed (use fail_order_clean[OF c(1)] in \<open>simp add: execute_live_order_def\<close>)

lemma signal_sent_clean:
  assumes c: "clean n db" "order_row i db = Some p0"
  shows "clean n (mark_sent now i (signal_report remark) db)"
proof -
  note e = mark_sent_effect[OF cleanD(1)[OF c(1)] c(2), where now = now and s = "signal_report remark"]
  have q: "exact8 (pn_filled p0)" "0 \<le> pn_filled p0" using order_row_in[OF c(2)] stream_okD(6)[OF cleanD(1)[OF c(1)]] by auto
  have "filled_of j (mark_sent now i (signal_report remark) db) = filled_of j db" for j
    using e(4)[of j] c(2) q by (simp add: signal_report_def filled_of_def order_row_def decimal8_exact)
  then show ?thesis using clean_step[OF c(1) e(1,2)] e(3) posted_is_filled[OF c(1)] by simp
qed

lemma dispatch_one_clean:
  assumes "clean n (od_db q)" "order_row (pn_id p) (od_db q) = Some p0" "proper_row p" "calm_queue w"
  shows "clean n (od_db (fst (dispatch_one w p q)))"
  using execute_live_order_clean[OF assms] fail_order_clean[OF assms(1)] signal_sent_clean[OF assms(1,2)]
  by (simp add: dispatch_one_def Let_def split: sum.split)

lemma work_order_clean:
  assumes "clean n (od_db q)" "proper_row p" "calm_queue w"
  shows "clean n (od_db (fst (work_order w p (q, ts))))"
proof (cases "mark_processing (qw_now w) (pn_id p) (od_db q)")
  case (Pair claimed db)
  have db: "clean n db" using clean_keeps[OF assms(1) mark_processing_keeps[OF cleanD(1)[OF assms(1)]]] Pair by (metis snd_conv)
  show ?thesis
  proof (cases "pn_id p = 0 \<or> \<not> claimed")
    case False
    then obtain p0 where "order_row (pn_id p) db = Some p0"
      using Pair observed_row[of pn_id "pn_id p" "sd_pending (od_db q)"]
      by (fastforce simp: mark_processing_def order_row_def on_order_def split: option.splits if_splits)
    with dispatch_one_clean[OF _ _ assms(2,3), of n "q\<lparr>od_db := db\<rparr>"] db False Pair show ?thesis
      by (simp add: work_order_def split_beta Let_def)
  qed (use Pair db in \<open>simp add: work_order_def Let_def\<close>)
qed

subsection \<open>Readings\<close>

lemma update_fee_same: "map (\<lambda>t. (tr_pending t, tr_amount t)) (update_fee a b c rw ts) = map (\<lambda>t. (tr_pending t, tr_amount t)) ts"
  by (simp add: update_fee_def fill_fee_def comp_def)

lemma posted_of_pairs:
  "map (\<lambda>t. (tr_pending t, tr_amount t)) (ld_trades l') = map (\<lambda>t. (tr_pending t, tr_amount t)) (ld_trades l) \<Longrightarrow> posted_for i l' = posted_for i l"
proof -
  have "posted_for i x = sum_list (map snd (filter (\<lambda>y. fst y = i) (map (\<lambda>t. (tr_pending t, tr_amount t)) (ld_trades x))))" for x
    by (simp add: posted_for_def filter_map comp_def)
  then show "map (\<lambda>t. (tr_pending t, tr_amount t)) (ld_trades l') = map (\<lambda>t. (tr_pending t, tr_amount t)) (ld_trades l) \<Longrightarrow> posted_for i l' = posted_for i l"
    by simp
qed

lemma backfill_posted: "posted_for i (snd (backfill_zero_commission_trades o' fs quote l)) = posted_for i l"
proof -
  have "map (\<lambda>t. (tr_pending t, tr_amount t)) (fold (update_fee a b c) rws ts) = map (\<lambda>t. (tr_pending t, tr_amount t)) ts" for a b c rws ts
    by (induction rws arbitrary: ts) (simp_all add: update_fee_same)
  then show ?thesis by (auto simp: backfill_zero_commission_trades_def Let_def intro!: posted_of_pairs split: prod.split)
qed

lemma number_readable:
  "float_or_0 a \<noteq> None \<Longrightarrow> \<exists>x. first_number [a, JNum b, JNum c] = Inr x"
  by (auto simp: first_number_def json_or_def split: option.split)

lemma proper_amount: "proper_row p \<Longrightarrow> \<exists>x. first_number [get (pn_payload p) ''amount'', JNum b, JNum c] = Inr x"
  by (rule number_readable) (simp add: proper_row_def)

lemma post_calm: "qw_fault w (fp_order f) = None \<Longrightarrow> fst (post_fill w (Inr f) db) = None"
  by (simp add: post_fill_def persist_strategy_fill_def split_beta Let_def)

lemma post_reading_effect:
  assumes p: "proper_row p" "0 < pn_id p" and w: "qw_fault w (pn_id p) = None" and d: "0 \<le> d"
    and r: "post_reading w c cfg p k sy m ex d da st cu ca fs db = (err, db1)"
  shows "err = None \<and> sd_pending db1 = sd_pending db \<and> (stream_ok db \<longrightarrow> stream_ok db1) \<and>
    posted_for i (sd_ledger db1) = posted_for i (sd_ledger db) + (if i = pn_id p then decimal8 d else 0)"
proof -
  obtain f where f: "fp_order f = pn_id p" "fp_event f = 0" "fp_filled f = d" "post_fill w (Inr f) db = (err, db1)"
    using r proper_post[OF p(1)] unfolding post_reading_def Let_def by (metis (no_types, lifting))
  have ok: "fst (post_fill w (Inr f) db) = None"
    using f(1) w by (simp add: post_calm)
  have post: "posted_for i (sd_ledger (snd (post_fill w (Inr f) db))) = posted_for i (sd_ledger db) + (if i = fp_order f then decimal8 (fp_filled f) else 0)"
    by (rule post_fill_posts) (use f p w d in simp_all)
  have "stream_ok db \<longrightarrow> stream_ok (snd (post_fill w (Inr f) db))" by (simp add: stream_ok_def)
  with ok post f post_fill_frame(1)[of w "Inr f" db] show ?thesis by simp
qed

lemma settle_reading_clean:
  assumes c: "clean n db" and row: "order_row (pn_id p) db = Some p" and w: "qw_fault w (pn_id p) = None"
  shows "clean n (snd (settle_reading w c' cfg p k sy m ex r db))"
proof -
  note ok = cleanD(1)[OF c]
  have p: "proper_row p" "0 < pn_id p" "exact8 (pn_filled p)" "0 \<le> pn_filled p" and id: "p \<in> set (sd_pending db)"
    using cleanD(3)[OF c] stream_okD(6)[OF ok] order_row_in[OF row] by auto
  obtain q pr st raw where r: "r = (q, pr, st, raw)" by (cases r)
  define fill where "fill = filled_of (pn_id p) db"
  have fill: "fill = pn_filled p" using row by (simp add: fill_def filled_of_def order_row_def)
  define cum where "cum = max 0 q"
  define cum_avg where "cum_avg = max 0 pr"
  obtain t ta where t: "tracked_fill_baseline (pn_response p) (py_strip (pn_order p)) (max 0 (pn_filled p)) (max 0 (pn_avg p)) = (t, ta)"
    by (cases "tracked_fill_baseline (pn_response p) (py_strip (pn_order p)) (max 0 (pn_filled p)) (max 0 (pn_avg p))")
  obtain d da where d: "fill_increment t ta cum cum_avg = (d, da)" by (cases "fill_increment t ta cum cum_avg")
  define fresh where "fresh = (d > eps8 \<and> cum_avg > 0)"
  define fs where "fs = fee_breakdown_snapshot raw"
  have pos: "0 \<le> d" if fresh using that by (simp add: fresh_def eps8_def)
  define err1 where "err1 = (if fresh then post_reading w c' cfg p k sy m ex d da (lower_strip (default_text st ''unknown'')) cum cum_avg
      (incremental_fees fs (previous_fee_breakdown (pn_response p))) db else (None, db))"
  obtain err db1 where e1: "err1 = (err, db1)" by (cases err1)
  have post: "err = None \<and> sd_pending db1 = sd_pending db \<and> stream_ok db1 \<and>
      posted_for i (sd_ledger db1) = posted_for i (sd_ledger db) + (if fresh \<and> i = pn_id p then decimal8 d else 0)" for i
    using e1 ok post_reading_effect[OF p(1,2) w pos, of c' cfg k sy m ex da _ _ _ _ db err db1 i]
    by (cases fresh) (auto simp: err1_def)
  define db2 where "db2 = (if fs \<noteq> [] \<and> cum_avg > 0 then db1\<lparr>sd_ledger := snd (backfill_zero_commission_trades (pn_id p) fs
      (fee_breakdown_to_quote (lc_ticker c') sy fs cum_avg) (sd_ledger db1))\<rparr> else db1)"
  have db2: "stream_ok db2" "sd_pending db2 = sd_pending db" "posted_for i (sd_ledger db2) = posted_for i (sd_ledger db1)" for i
  proof -
    have "stream_ok db1" "sd_pending db1 = sd_pending db" using post by blast+
    then show "stream_ok db2" "sd_pending db2 = sd_pending db" by (simp_all add: db2_def stream_ok_def)
  qed (simp add: db2_def backfill_posted)
  define fa where "fa = (if fresh then joined_fill (max 0 (pn_filled p)) (max 0 (pn_avg p)) d da else (max 0 (pn_filled p), max 0 (pn_avg p)))"
  obtain f a where f: "fa = (f, a)" by (cases fa)
  have f_eq: "f = pn_filled p + (if fresh then d else 0)" using f p(4) by (auto simp: fa_def joined_fill_def split: if_splits)
  have snapshot: "clean n (update_live_sent_order_snapshot now (pn_id p) qs s f a resp mark db2)" for now qs s resp mark
  proof -
    let ?f = "\<lambda>p. p\<lparr>pn_status := default_text qs ''sent'', pn_note := default_text mark (''live_fill_sync:'' @ default_text s ''unknown''),
          pn_filled := decimal8 f, pn_avg := decimal8 a, pn_response := Some resp, pn_executed := (pn_executed p \<or> f > 0), pn_updated := now\<rparr>"
    have row2: "order_row (pn_id p) db2 = Some p" using row db2(2) by (simp add: order_row_def)
    have num: "exact8 (pn_filled (?f p))" "0 \<le> pn_filled (?f p)" using pos p(4) by (simp_all add: decimal8_nonneg f_eq)
    have core: "order_core (?f x) = order_core x \<and> pn_strategy (?f x) = pn_strategy x" for x by (simp add: order_core_def)
    note o = on_order_clean[OF db2(1) row2 core num]
    have "decimal8 f = pn_filled p + (if fresh then decimal8 d else 0)"
      using decimal8_shift[OF p(3,4) pos] p(3) by (simp add: f_eq decimal8_exact)
    then have "filled_of j (on_order (pn_id p) ?f db2) = posted_for j (sd_ledger db2)" if "0 < j" for j
      using o(3)[of j] posted_is_filled[OF c that] post[of j] db2(2,3) fill fill_def by (simp add: filled_of_def)
    then have "clean n (on_order (pn_id p) ?f db2)"
      using clean_step[OF c o(1)] o(2) db2(2) by (simp add: on_order_def)
    then show ?thesis unfolding update_live_sent_order_snapshot_def
      by (rule clean_keeps) (rule set_intent_keeps[OF o(1)])
  qed
  obtain req where req: "first_number [get (pn_payload p) ''amount'', JNum (pn_amount p), JNum f] = Inr req" using proper_amount[OF p(1)] by blast
  show ?thesis
    unfolding r settle_reading_def Let_def prod.case cum_def[symmetric] cum_avg_def[symmetric] t d fs_def[symmetric] fresh_def[symmetric]
      err1_def[symmetric] fa_def[symmetric]
    using post req snapshot unfolding e1 f prod.case db2_def[symmetric]
    by (simp add: split_beta)
qed

lemma unread_clean:
  assumes c: "clean n db" and row: "order_row (pn_id p) db = Some p"
  shows "clean n (update_live_sent_order_snapshot now (pn_id p) qs s (pn_filled p) a resp mark db)"
proof -
  note ok = cleanD(1)[OF c]
  let ?f = "\<lambda>r. r\<lparr>pn_status := default_text qs ''sent'', pn_note := default_text mark (''live_fill_sync:'' @ default_text s ''unknown''),
        pn_filled := decimal8 (pn_filled p), pn_avg := decimal8 a, pn_response := Some resp,
        pn_executed := (pn_executed r \<or> pn_filled p > 0), pn_updated := now\<rparr>"
  have q: "exact8 (pn_filled p)" "0 \<le> pn_filled p" using order_row_in[OF row] stream_okD(6)[OF ok] by auto
  have num: "exact8 (pn_filled (?f p))" "0 \<le> pn_filled (?f p)" using q by (simp_all add: decimal8_nonneg)
  have core: "order_core (?f x) = order_core x \<and> pn_strategy (?f x) = pn_strategy x" for x by (simp add: order_core_def)
  note o = on_order_clean[OF ok row core num]
  have "filled_of j (on_order (pn_id p) ?f db) = posted_for j (sd_ledger db)" if "0 < j" for j
    using o(3)[of j] posted_is_filled[OF c that] q(1) row by (simp add: filled_of_def order_row_def decimal8_exact split: if_splits)
  then have "clean n (on_order (pn_id p) ?f db)" using clean_step[OF c o(1)] o(2) by (simp add: on_order_def)
  then show ?thesis unfolding update_live_sent_order_snapshot_def by (rule clean_keeps) (rule set_intent_keeps[OF o(1)])
qed

lemma sync_claimed_clean:
  assumes c: "clean n db" "order_row (pn_id p) db = Some p" and w: "calm_queue w"
  shows "clean n (snd (sync_claimed_order w p db))"
proof -
  have "clean n (mark_order_failed t i err db)" for t i err
    using clean_keeps[OF c(1) mark_order_failed_keeps[OF cleanD(1)[OF c(1)]]] .
  with settle_reading_clean[OF c] unread_clean[OF c] w c(1) show ?thesis
    by (simp add: sync_claimed_order_def Let_def calm_queue_def split: option.split sum.split prod.split)
qed

lemma claimed_row: "claim_order now m f i db = (Some p, db1) \<Longrightarrow> pn_id p = i \<and> order_row i db1 = Some p"
  by (auto simp: claim_order_def Let_def split: option.splits if_splits dest: order_row_in)

lemma sync_live_clean:
  assumes c: "clean n db" and w: "calm_queue w"
  shows "clean n (snd (sync_one_live_sent_order w i db))"
proof (cases "claim_live_sent_order (qw_now w) (qw_fee_retry w) i db")
  case (Pair m db1)
  have db1: "clean n db1"
    using clean_keeps[OF c claim_keeps_account[OF cleanD(1)[OF c]]] Pair unfolding claim_live_sent_order_def by (metis snd_conv)
  show ?thesis
  proof (cases m)
    case (Some p)
    then have "order_row (pn_id p) db1 = Some p" using Pair by (auto simp: claim_live_sent_order_def dest: claimed_row)
    with sync_claimed_clean[OF db1 this w] Pair Some show ?thesis by (simp add: sync_one_live_sent_order_def)
  qed (use Pair db1 in \<open>simp add: sync_one_live_sent_order_def\<close>)
qed

text \<open>No client of a calm queue reads Alpaca orders: they stay claimed, or their claim is undone.\<close>

lemma sync_alpaca_inert: "calm_queue w \<Longrightarrow> snd (sync_claimed_alpaca w p db) = db"
  by (auto simp: sync_claimed_alpaca_def calm_queue_def priced_client_def split: option.split sum.split)

lemma sync_alpaca_clean:
  assumes c: "clean n db" and w: "calm_queue w"
  shows "clean n (snd (sync_one_alpaca_sent_order w i db))"
proof (cases "claim_alpaca_sent_order (qw_now w) i db")
  case (Pair m db1)
  have "clean n db1"
    using clean_keeps[OF c claim_keeps_account[OF cleanD(1)[OF c]]] Pair unfolding claim_alpaca_sent_order_def by (metis snd_conv)
  with Pair sync_alpaca_inert[OF w] show ?thesis by (simp add: sync_one_alpaca_sent_order_def split: option.split)
qed

lemma sync_passes_clean:
  assumes c: "clean n db" and w: "calm_queue w"
  shows "clean n (sync_live_sent_orders w k audited db)" "clean n (sync_alpaca_sent_orders w k db)"
proof -
  have r: "clean n (requeue_syncing t s al db)" for t s al
    by (rule clean_keeps[OF c requeue_syncing_keeps[OF cleanD(1)[OF c]]])
  have live: "clean n (fold (\<lambda>p d. if audited p then snd (sync_one_live_sent_order w (pn_id p) d) else d) ps d)" if "clean n d" for ps d
    using that sync_live_clean[OF _ w] by (induction ps arbitrary: d) simp_all
  have alp: "clean n (fold (\<lambda>p d. snd (sync_one_alpaca_sent_order w (pn_id p) d)) ps d)" if "clean n d" for ps d
    using that sync_alpaca_clean[OF _ w] by (induction ps arbitrary: d) simp_all
  show "clean n (sync_live_sent_orders w k audited db)"
    using live r by (simp add: sync_live_sent_orders_def fetch_live_sent_orders_def Let_def)
  show "clean n (sync_alpaca_sent_orders w k db)"
    unfolding sync_alpaca_sent_orders_def fetch_alpaca_sent_orders_def Let_def prod.case by (rule alp[OF r])
qed

text \<open>The worker in a calm world; in another it is not let near the queue.\<close>

interpretation order_worker: guarded_machine "work_order w" "\<lambda>p. proper_row p \<and> calm_queue w" "\<lambda>qt. clean n (od_db (fst qt))" for w n
  by unfold_locales (metis prod.collapse work_order_clean)

lemma work_orders_clean:
  "clean n (od_db q) \<Longrightarrow> list_all proper_row ps \<Longrightarrow> calm_queue w \<Longrightarrow> clean n (od_db (fst (fold (work_order w) ps (q, ts))))"
  using order_worker.grun_inv[of n "(q, ts)" w ps] by (simp add: list_all_iff)

lemma order_tick_clean:
  assumes c: "clean n (od_db q)" and w: "calm_queue w"
  shows "clean n (od_db (fst (order_tick w k b audited q)))"
proof -
  define q1 where "q1 = with_db (\<lambda>db. sync_live_sent_orders w k audited (sync_alpaca_sent_orders w k db)) q"
  have q1: "clean n (od_db q1)" using sync_passes_clean[OF sync_passes_clean(2)[OF c w] w] by (simp add: q1_def)
  have db: "clean n (requeue_stale (qw_now w) (qw_stale w) (od_db q1))"
    by (rule clean_keeps[OF q1 requeue_keeps[OF cleanD(1)[OF q1]]])
  obtain ps db where f: "fetch_pending_orders (qw_now w) (qw_stale w) b (od_db q1) = (ps, db)" by (cases "fetch_pending_orders (qw_now w) (qw_stale w) b (od_db q1)")
  then have "db = requeue_stale (qw_now w) (qw_stale w) (od_db q1)" and "set ps \<subseteq> set (sd_pending db)"
    by (auto simp: fetch_pending_orders_def Let_def dest!: in_set_takeD)
  then have "list_all proper_row ps" using cleanD(3)[OF db] by (auto simp: list_all_iff)
  with work_orders_clean[of n "q1\<lparr>od_db := db\<rparr>" ps w] db w \<open>db = _\<close> f show ?thesis
    by (simp add: order_tick_def q1_def[symmetric])
qed

end
