(* ===== verification/OrderRuns.thy ===== *)
theory OrderRuns
  imports OrderLaws
begin

text \<open>
  Runs of the order queue: submissions of a live session, ticks of the worker and the account streams in any
  order. What every order has filled is what its trades add up to; a submission repeated with its key adds
  nothing; an order that was claimed is settled when the worker leaves it.
\<close>

subsection \<open>Submissions\<close>

lemma clean_mono: "clean n db \<Longrightarrow> n \<le> m \<Longrightarrow> clean m db"
  by (force simp: clean_def list_all_iff)

lemma validated: "validate_request r = None \<Longrightarrow> 0 < rq_strategy r \<and> 0 < rq_ref r \<and> rq_action r \<in> set request_actions"
  by (simp add: validate_request_def Let_def split: if_splits)

lemma proper_new: "0 < rq_ref r \<Longrightarrow> proper_row (new_order now r intent i)"
  by (simp add: proper_row_def order_ref_def new_order_def order_payload_def readable_def get_def first_number_def json_or_def int_or_0_def)

lemma new_order_clean:
  assumes c: "clean n db" and n: "0 < n" and r: "0 < rq_strategy r" "0 < rq_ref r"
  shows "clean (n + 1) (db\<lparr>sd_pending := sd_pending db @ [new_order now r intent n]\<rparr>)"
proof -
  let ?p = "new_order now r intent n" and ?db = "db\<lparr>sd_pending := sd_pending db @ [new_order now r intent n]\<rparr>"
  note ok = cleanD(1)[OF c] and ids = cleanD(3)[OF c]
  have p: "pn_id ?p = n" "pn_strategy ?p = rq_strategy r" "pn_filled ?p = 0" by (simp_all add: new_order_def)
  have fresh: "n \<notin> set (map pn_id (sd_pending db))" using ids by force
  have "stream_ok ?db" using ok fresh n r p by (simp add: stream_ok_def)
  moreover have "filled_of i ?db = filled_of i db" for i
  proof -
    have "row_at pn_id i [?p] = (if n = i then Some ?p else None)" using p by (simp add: row_at_def)
    then show ?thesis using p by (cases "row_at pn_id i (sd_pending db)") (auto simp: filled_of_def row_at_append)
  qed
  moreover have "list_all (\<lambda>p. pn_id p < n + 1 \<and> proper_row p) (sd_pending ?db)"
    using ids proper_new[OF r(2)] p by (force simp: list_all_iff)
  ultimately show ?thesis using c by (simp add: clean_def posted_exactly_def unposted_def)
qed

lemma create_intent_db:
  "snd (create_intent lost run key q) = q1 \<Longrightarrow> sd_pending (od_db q1) = sd_pending (od_db q) \<and> sd_ledger (od_db q1) = sd_ledger (od_db q) \<and>
     od_next_order q1 = od_next_order q \<and> od_keys q1 = od_keys q \<and> (stream_ok (od_db q) \<longrightarrow> stream_ok (od_db q1))"
  by (auto simp: create_intent_def Let_def with_db_def stream_ok_def split: option.splits if_splits prod.splits)

definition clean_queue :: "order_db \<Rightarrow> bool" where
  "clean_queue q \<longleftrightarrow> 0 < od_next_order q \<and> clean (od_next_order q) (od_db q)"

lemma insert_pending_clean:
  assumes "clean_queue q" "0 < rq_strategy r" "0 < rq_ref r"
  shows "clean_queue (insert_pending_order now r intent q)"
  using assms new_order_clean[of "od_next_order q" "od_db q" r now intent] clean_mono[of "od_next_order q" "od_db q" "od_next_order q + 1"]
  by (simp add: clean_queue_def insert_pending_order_def Let_def with_db_def)

lemma submit_order_clean:
  assumes c: "clean_queue q"
  shows "clean_queue (snd (submit_order now lost r q))"
proof (cases "validate_request r")
  case None
  obtain intent status existing q1 where i: "create_intent lost (rq_run r) (request_key r) q = ((intent, status, existing), q1)"
    by (metis prod.exhaust)
  have "clean_queue q1"
    using create_intent_db[of lost "rq_run r" "request_key r" q q1] i c by (simp add: clean_queue_def clean_def posted_exactly_def unposted_def filled_of_def)
  with insert_pending_clean[OF this] validated[OF None] i None show ?thesis
    by (simp add: submit_order_def Let_def split: option.split)
qed (simp add: submit_order_def c)

subsection \<open>Ticks\<close>

lemma fail_order_next [simp]: "od_next_order (fail_order w p err q) = od_next_order q"
  by (simp add: fail_order_def)

lemma broker_raises_next [simp]: "od_next_order (broker_raises w b p k e q) = od_next_order q"
  by (simp add: broker_raises_def Let_def)

lemma execute_broker_next [simp]: "od_next_order (execute_broker_order w c b p x q) = od_next_order q"
  by (simp add: execute_broker_order_def Let_def split: sum.split option.split prod.split)

lemma execute_venue_next [simp]: "od_next_order (fst (execute_venue_order w c p x q)) = od_next_order q"
proof -
  define q' where "q' = with_db (register_pending_order_binding (pn_id p)
      (live_client_order_id (oc_exchange x) (oc_strategy x) (pn_id p) []) [] (oc_exchange x) (oc_market x) 0) q"
  obtain m q1 where m: "prepare_order w c p x q' = (m, q1)" by (cases "prepare_order w c p x q'")
  then have "od_next_order q1 = od_next_order q" using prepare_db[OF m] by (simp add: q'_def)
  with m show ?thesis by (simp add: execute_venue_order_def q'_def[symmetric] Let_def split: sum.split prod.split option.split)
qed

lemma dispatch_next: "od_next_order (fst (dispatch_one w p q)) = od_next_order q"
  by (simp add: dispatch_one_def execute_live_order_def Let_def split: sum.split client_kind.split)

lemma work_order_next: "od_next_order (fst (work_order w p (q, ts))) = od_next_order q"
  by (simp add: work_order_def split_beta Let_def dispatch_next)

lemma work_orders_next: "od_next_order (fst (fold (work_order w) ps (q, ts))) = od_next_order q"
proof (induction ps arbitrary: q ts)
  case (Cons p ps)
  obtain q1 ts1 where s: "work_order w p (q, ts) = (q1, ts1)" by (cases "work_order w p (q, ts)")
  with Cons.IH[of q1 ts1] work_order_next[of w p q ts] show ?case by simp
qed simp

lemma order_tick_queue:
  assumes "clean_queue q" "calm_queue w"
  shows "clean_queue (fst (order_tick w k b audited q))"
proof -
  have "od_next_order (fst (order_tick w k b audited q)) = od_next_order q"
    by (simp add: order_tick_def split_beta Let_def work_orders_next)
  with assms order_tick_clean[of "od_next_order q" q w k b audited] show ?thesis by (simp add: clean_queue_def)
qed

subsection \<open>Runs\<close>

text \<open>What happens to the queue: a submission, a tick of the worker, an operation of the streams.\<close>

datatype queue_op =
    SubmitOp int bool live_request
  | TickOp queue_world nat nat "pending_row \<Rightarrow> bool"
  | ReportOp stream_world stream_op

definition order_step :: "queue_op \<Rightarrow> order_db \<Rightarrow> order_db" where
  "order_step oper q = (case oper of
     SubmitOp now lost r \<Rightarrow> snd (submit_order now lost r q)
   | TickOp w k b audited \<Rightarrow> fst (order_tick w k b audited q)
   | ReportOp sw x \<Rightarrow> with_db (stream_step (sw, x)) q)"

definition calm_op :: "queue_op \<Rightarrow> bool" where
  "calm_op oper = (case oper of SubmitOp now lost r \<Rightarrow> True | TickOp w k b audited \<Rightarrow> calm_queue w | ReportOp sw x \<Rightarrow> op_ok (sw, x))"

lemma order_step_clean: "clean_queue q \<Longrightarrow> calm_op oper \<Longrightarrow> clean_queue (order_step oper q)"
proof (cases oper)
  case (ReportOp sw x)
  assume c: "clean_queue q" "calm_op oper"
  then have "clean (od_next_order q) (stream_step (sw, x) (od_db q))"
    using ReportOp by (intro clean_keeps[OF _ stream_step_keeps]) (auto simp: clean_queue_def calm_op_def dest: cleanD(1))
  with c ReportOp show "clean_queue (order_step oper q)" by (simp add: order_step_def clean_queue_def)
qed (simp_all add: order_step_def calm_op_def submit_order_clean order_tick_queue)

interpretation order_queue: guarded_machine order_step calm_op clean_queue
  by unfold_locales (rule order_step_clean)

lemmas queue_steps_clean = order_queue.grun_inv

subsection \<open>A concrete queue\<close>

text \<open>
  One strategy buys five units at market on a spot venue. The venue reports two at once; all five are read back later.
\<close>

definition demo_request :: live_request where
  "demo_request =
     \<lparr>rq_strategy = 4, rq_run = 2, rq_user = 9, rq_symbol = ''BTC/USDT'', rq_action = ''open_long'', rq_quantity = 5, rq_ref = 100,
      rq_ts = 7, rq_market = ''spot'', rq_mode = ''live'', rq_leverage = 1, rq_reason = [], rq_notify = JNull, rq_type = ''market'',
      rq_algo = ''market'', rq_limit = 0, rq_wait = 0, rq_offset = 0, rq_protection = JNull, rq_sizing = JNull, rq_client = []\<rparr>"

definition demo_venue :: live_exchange where
  "demo_venue =
     \<lparr>lx_venue = BinanceSpot, lx_limit = (\<lambda>_ _ _. Inl (OtherError [])),
      lx_market = (\<lambda>_ _ _. Inr \<lparr>pl_exchange = ''binance'', pl_order = ''x9'', pl_filled = 0, pl_avg = 0, pl_raw = JDict []\<rparr>),
      lx_cancel = (\<lambda>_ _ _. None),
      lx_wait = (\<lambda>_ _ _ _. Inr (JDict [(''filled'', JNum 2), (''avg_price'', JNum 100), (''status'', JStr ''partial'')]))\<rparr>"

definition demo_client :: live_client where
  "demo_client =
     \<lparr>lc_kind = VenueClient, lc_exchange = demo_venue, lc_ticker = (\<lambda>_. None), lc_size = (\<lambda>_ _ _ _ _. Inr 5),
      lc_query = (\<lambda>_ _ _ _ _. Inr (5, 100, ''filled'')), lc_status = None, lc_steps = (\<lambda>_ _ _ _. None),
      lc_protect = (\<lambda>_ _. Inr (JList [])), lc_mark = (\<lambda>_. Inr 100), lc_configure = (\<lambda>_ _ _ _. None), lc_base = (\<lambda>_ q. q),
      lc_quote = (\<lambda>_ q. q), lc_free = (\<lambda>_. 0), lc_last = (\<lambda>_. 100), lc_broker_order = (\<lambda>_ _ _ _ _ _ _ _. Inl (OtherError []))\<rparr>"

definition demo_order_world :: queue_world where
  "demo_order_world =
     \<lparr>qw_now = 1, qw_stale = 90, qw_fee_retry = 60,
      qw_config = (\<lambda>_. Inr (JDict [(''user_id'', JNum 9), (''market_category'', JStr ''Crypto''), (''execution_mode'', JStr ''live''),
        (''exchange_config'', JDict [(''exchange_id'', JStr ''binance''), (''credential_id'', JNum 3)])])),
      qw_resolve = (\<lambda>x _. Inr x), qw_client = (\<lambda>_ _. Inr demo_client),
      qw_leg = (\<lambda>_ _. \<lparr>leg_market_type = ''spot'', leg_credential = 3, leg_inst = [], leg_fill_source = [], leg_pending = 0\<rparr>),
      qw_fault = (\<lambda>_. None), qw_lost = (\<lambda>_. False), qw_text = (\<lambda>_. []), qw_infer = (\<lambda>_. ''long''), qw_mode = ''market'', qw_wait = 10,
      qw_offset = 0, qw_safety = 1, qw_notify = (\<lambda>_. [])\<rparr>"

definition demo_queue :: order_db where
  "demo_queue =
     \<lparr>od_db = demo_stream, od_intents = [], od_keys = [], od_next_intent = 1, od_next_order = 8, od_reserved = [],
      od_strategies = [], od_quiet = []\<rparr>"

text \<open>
  An order sent before is read back as filled, and its stream reports part of it again; a new one is submitted twice
  and executed in the second tick.
\<close>

definition demo_queue_ops :: "queue_op list" where
  "demo_queue_ops = (let w = demo_stream_world (\<lambda>_. None) 0; tick = (\<lambda>k. TickOp demo_order_world 10 k (\<lambda>_. True)) in
     [tick 0, ReportOp w (IngestOp (demo_stream_report ''f1'' 2 2) []), ReportOp w (RegisterOp demo_stream_binding),
      ReportOp w (PassOp 10), SubmitOp 0 False demo_request, SubmitOp 0 False demo_request, tick 10])"

lemma demo_first_tick:
  "od_db (order_step (hd demo_queue_ops) demo_queue) = requeue_stale 1 90 (sync_live_sent_orders demo_order_world 10 (\<lambda>_. True) demo_stream)"
proof -
  have other: "py_lower ''binance'' \<noteq> ''alpaca''" by code_simp
  have w: "qw_now demo_order_world = 1" "qw_stale demo_order_world = 90" by (simp_all add: demo_order_world_def)
  have "sync_alpaca_sent_orders demo_order_world 10 demo_stream = demo_stream"
    using other by (simp add: sync_alpaca_sent_orders_def fetch_alpaca_sent_orders_def requeue_syncing_def demo_stream_def
        demo_stream_pending_def alpaca_sent_def by_sent_def Let_def)
  then show ?thesis
    by (simp add: demo_queue_ops_def order_step_def order_tick_def Let_def fetch_pending_orders_def demo_queue_def w)
qed

lemma demo_first_fill:
  "(let d = requeue_stale 1 90 (sync_live_sent_orders demo_order_world 10 (\<lambda>_. True) demo_stream) in
    (filled_of 7 d, posted_for 7 (sd_ledger d))) = (5, 5)"
  by code_simp

lemma demo_queue_clean: "clean_queue demo_queue"
  using demo_stream_ok(1)
  by (simp add: clean_queue_def clean_def demo_queue_def posted_exactly_def unposted_def filled_of_def posted_for_def demo_stream_def row_at_def
      demo_stream_pending_def proper_row_def order_ref_def first_number_def readable_def get_def json_or_def)

lemma demo_world_calm: "calm_queue demo_order_world"
  by (simp add: calm_queue_def demo_order_world_def priced_client_def demo_client_def)

lemma demo_queue_calm: "list_all calm_op demo_queue_ops"
  using demo_stream_ok(2) demo_world_calm by (simp add: demo_queue_ops_def calm_op_def Let_def demo_stream_ops_def)



end
