(* ===== verification/OrderSafety.thy ===== *)
theory OrderSafety
  imports OrderRuns
begin

text \<open>
  What the order queue promises beside its account: a claimed order is settled, a submission repeated with its key
  adds nothing, entries reach a venue only within the limits of the account, closing orders take no more than the
  strategy holds, and a limit order followed by a market order accounts for both.
\<close>

subsection \<open>A claimed order is settled\<close>

definition queued_status :: "int \<Rightarrow> stream_db \<Rightarrow> string option" where
  "queued_status i db = map_option pn_status (order_row i db)"

lemma on_order_row: "(\<And>p. pn_id (f p) = pn_id p) \<Longrightarrow> order_row i (on_order i f db) = map_option f (order_row i db)"
proof -
  assume id: "\<And>p. pn_id (f p) = pn_id p"
  have "row_at pn_id i (map (\<lambda>p. if pn_id p = i then f p else p) (sd_pending db)) =
      map_option (\<lambda>p. if pn_id p = i then f p else p) (row_at pn_id i (sd_pending db))"
    by (rule row_at_map) (simp add: id)
  then show ?thesis by (cases "row_at pn_id i (sd_pending db)") (auto simp: order_row_def on_order_def dest: row_at_SomeD)
qed

lemma set_intent_row [simp]: "order_row j (set_intent i st db) = order_row j db"
  by (simp add: order_row_def)

lemma register_order_row [simp]: "order_row j (register_pending_order_binding i c o' ex mt q db) = order_row j db"
  by (simp add: order_row_def)

lemma post_fill_row [simp]: "order_row j (snd (post_fill w f db)) = order_row j db"
  by (simp add: order_row_def)

lemma failed_status [simp]: "order_row i db = Some p \<Longrightarrow> queued_status i (mark_order_failed now i err db) = Some ''failed''"
  by (simp add: queued_status_def mark_order_failed_def on_order_row)

definition settled_statuses :: "string set" where
  "settled_statuses = {''failed'', ''sent'', ''filled''}"

definition is_settled :: "int \<Rightarrow> stream_db \<Rightarrow> bool" where
  "is_settled i db = (case queued_status i db of None \<Rightarrow> False | Some s \<Rightarrow> s \<in> settled_statuses)"

lemma sent_settled: "order_row i db = Some p \<Longrightarrow> is_settled i (mark_sent now i s db)"
  by (simp add: is_settled_def queued_status_def mark_sent_def on_order_row settled_statuses_def sent_row_def)

lemma failed_settled: "order_row (pn_id p) (od_db q) = Some p0 \<Longrightarrow> is_settled (pn_id p) (od_db (fail_order w p err q))"
  by (simp add: is_settled_def fail_order_def settled_statuses_def)

lemma posted_settled [simp]: "is_settled i (snd (post_fill w f db)) = is_settled i db"
  by (simp add: is_settled_def queued_status_def)

lemma stopped_settled [simp]: "is_settled i (od_db (snd (auto_stop_live_strategy k q))) = is_settled i (od_db q)"
  by simp

lemma no_silent_failure: "execution_error w m = None \<Longrightarrow> \<exists>e. m = Inr e"
  by (auto simp: execution_error_def split: sum.splits fault.splits)

lemma venue_order_settled:
  assumes "order_row (pn_id p) (od_db q) = Some p0"
  shows "is_settled (pn_id p) (od_db (fst (execute_venue_order w c p x q)))"
proof -
  define q' where "q' = with_db (register_pending_order_binding (pn_id p)
      (live_client_order_id (oc_exchange x) (oc_strategy x) (pn_id p) []) [] (oc_exchange x) (oc_market x) 0) q"
  obtain m q1 where m: "prepare_order w c p x q' = (m, q1)" by (cases "prepare_order w c p x q'")
  have row: "order_row (pn_id p) (od_db q1) = Some p0" using prepare_db[OF m] assms by (simp add: q'_def)
  have settle: "is_settled (pn_id p) (settle_order w c p x r e f (od_db q1))" for r e f
    by (simp add: settle_order_def Let_def sent_settled[OF row])
  show ?thesis
  proof (cases m)
    case (Inl e) then show ?thesis using m failed_settled[OF row] by (simp add: execute_venue_order_def q'_def[symmetric])
  next
    case (Inr r)
    obtain n t where n: "run_executor c p x r = (n, t)" by (cases "run_executor c p x r")
    show ?thesis
    proof (cases "execution_error w n")
      case None
      then obtain e where "n = Inr e" using no_silent_failure by blast
      then show ?thesis using m n Inr None settle by (simp add: execute_venue_order_def q'_def[symmetric] Let_def)
    qed (use m n Inr failed_settled[OF row] in \<open>simp add: execute_venue_order_def q'_def[symmetric] Let_def\<close>)
  qed
qed

lemma broker_order_settled:
  assumes "order_row (pn_id p) (od_db q) = Some p0"
  shows "is_settled (pn_id p) (od_db (execute_broker_order w c b p x q))"
proof -
  have raise': "is_settled (pn_id p) (od_db (broker_raises w v p k e q))" for v k e
    using failed_settled[OF assms] by (simp add: broker_raises_def Let_def)
  have settle: "is_settled (pn_id p) (settle_broker w c v p k sy sg am ref r (od_db q))" for v k sy sg am ref r
    by (simp add: settle_broker_def Let_def sent_settled[OF assms])
  show ?thesis using raise' settle failed_settled[OF assms]
    by (simp add: execute_broker_order_def Let_def split: sum.split option.split prod.split)
qed

lemma dispatched_settled:
  assumes "order_row (pn_id p) (od_db q) = Some p0"
  shows "is_settled (pn_id p) (od_db (fst (dispatch_one w p q)))"
proof -
  note f = failed_settled[OF assms] and s = sent_settled[OF assms]
  have "is_settled (pn_id p) (od_db (fst (execute_live_order w p q)))"
    using venue_order_settled[OF assms] broker_order_settled[OF assms] f
    by (simp add: execute_live_order_def Let_def split: sum.split client_kind.split)
  with f s show ?thesis by (simp add: dispatch_one_def Let_def split: sum.split)
qed

text \<open>C15: An order the worker has claimed does not stay claimed: when it leaves the order, whatever the exchange, the
  configuration or the payload, the order has failed or is sent or filled; and an order that is not pending is not
  worked on at all.\<close>

theorem claimed_order_is_settled:
  "(if pn_id p \<noteq> 0 \<and> queued_status (pn_id p) (od_db q) = Some ''pending''
    then is_settled (pn_id p) (od_db (fst (work_order w p (q, ts)))) \<and> (\<exists>t. snd (work_order w p (q, ts)) = ts @ [(pn_id p, t)])
    else od_db (fst (work_order w p (q, ts))) = snd (mark_processing (qw_now w) (pn_id p) (od_db q)) \<and> snd (work_order w p (q, ts)) = ts)"
proof (cases "pn_id p \<noteq> 0 \<and> queued_status (pn_id p) (od_db q) = Some ''pending''")
  case True
  then obtain r where r: "order_row (pn_id p) (od_db q) = Some r" "pn_status r = ''pending''" by (auto simp: queued_status_def)
  define db where "db = snd (mark_processing (qw_now w) (pn_id p) (od_db q))"
  have m: "mark_processing (qw_now w) (pn_id p) (od_db q) = (True, db)" using r by (simp add: db_def mark_processing_def)
  obtain p0 where "order_row (pn_id p) db = Some p0" using r m by (auto simp: mark_processing_def on_order_row)
  then have "is_settled (pn_id p) (od_db (fst (dispatch_one w p (q\<lparr>od_db := db\<rparr>))))" using dispatched_settled[of p "q\<lparr>od_db := db\<rparr>"] by simp
  with True m show ?thesis by (simp add: work_order_def Let_def split_beta)
next
  case False
  then have "pn_id p = 0 \<or> \<not> fst (mark_processing (qw_now w) (pn_id p) (od_db q))"
    by (auto simp: queued_status_def mark_processing_def split: option.splits)
  with False show ?thesis by (simp only: if_False) (auto simp: work_order_def Let_def split_beta)
qed

subsection \<open>Submissions are idempotent\<close>

text \<open>What the queue remembers of submissions: the orders by key and the intents by run and key.\<close>

definition intent_of :: "int \<Rightarrow> string \<Rightarrow> order_db \<Rightarrow> (int \<times> string \<times> int) option" where
  "intent_of run key q = find (\<lambda>(r, k, i). r = run \<and> k = take 180 (py_strip key)) (od_intents q)"

definition numbered :: "order_db \<Rightarrow> bool" where
  "numbered q \<longleftrightarrow> 0 < od_next_intent q \<and> list_all (\<lambda>(r, k, i). 0 < i) (od_intents q)"

definition remembers :: "order_db \<Rightarrow> order_db \<Rightarrow> bool" where
  "remembers q q' \<longleftrightarrow> (numbered q \<longrightarrow> numbered q') \<and> (\<forall>k i. map_of (od_keys q) k = Some i \<longrightarrow> map_of (od_keys q') k = Some i) \<and>
     (\<forall>r k x. intent_of r k q = Some x \<longrightarrow> intent_of r k q' = Some x)"

lemma remembers_refl [simp]: "remembers q q"
  by (simp add: remembers_def)

lemma remembers_trans: "remembers a b \<Longrightarrow> remembers b c \<Longrightarrow> remembers a c"
  by (simp add: remembers_def)

definition same_memory :: "order_db \<Rightarrow> order_db \<Rightarrow> bool" where
  "same_memory q q' \<longleftrightarrow> od_keys q' = od_keys q \<and> od_intents q' = od_intents q \<and> od_next_intent q' = od_next_intent q"

lemma same_remembers: "same_memory q q' \<Longrightarrow> remembers q q'"
  by (simp add: same_memory_def remembers_def numbered_def intent_of_def)

lemma memory_trans: "same_memory a b \<Longrightarrow> same_memory b c \<Longrightarrow> same_memory a c"
  by (simp add: same_memory_def)

lemma same_with_db [simp]: "same_memory q (with_db f q)"
  by (simp add: same_memory_def with_db_def)

lemma same_fail [simp]: "same_memory q (fail_order w p err q)"
  by (simp add: fail_order_def)

lemma same_stop [simp]: "same_memory q (snd (auto_stop_live_strategy k q')) = same_memory q q'"
  by (simp add: same_memory_def auto_stop_live_strategy_def)

lemma prepare_memory: "prepare_order w c p x q = (m, q1) \<Longrightarrow> same_memory q q1"
  by (auto simp: prepare_order_def guard_entry_def Let_def same_memory_def split: if_splits sum.splits prod.splits option.splits)

lemma broker_memory [simp]: "same_memory q (execute_broker_order w c b p x q)"
  by (simp add: execute_broker_order_def broker_raises_def Let_def split: sum.split option.split prod.split)

lemma venue_memory [simp]: "same_memory q (fst (execute_venue_order w c p x q))"
proof -
  define q' where "q' = with_db (register_pending_order_binding (pn_id p)
      (live_client_order_id (oc_exchange x) (oc_strategy x) (pn_id p) []) [] (oc_exchange x) (oc_market x) 0) q"
  obtain m q1 where m: "prepare_order w c p x q' = (m, q1)" by (cases "prepare_order w c p x q'")
  have "same_memory q q'" by (simp add: q'_def)
  then have q1: "same_memory q q1" by (rule memory_trans) (rule prepare_memory[OF m])
  have fail: "same_memory q (fail_order w p err q1)" and store: "same_memory q (with_db f q1)" for err f
    using memory_trans[OF q1] by simp_all
  show ?thesis using m q1 fail store
    by (simp add: execute_venue_order_def q'_def[symmetric] Let_def split: sum.split prod.split option.split)
qed

lemma dispatch_memory: "same_memory q (fst (dispatch_one w p q))"
  by (simp add: dispatch_one_def execute_live_order_def Let_def split: sum.split client_kind.split)

lemma work_memory: "same_memory q (fst (work_order w p (q, ts)))"
  using dispatch_memory[of "q\<lparr>od_db := snd (mark_processing (qw_now w) (pn_id p) (od_db q))\<rparr>" w p]
  by (simp add: work_order_def split_beta Let_def same_memory_def)

lemma works_memory: "same_memory q (fst (fold (work_order w) ps (q, ts)))"
proof (induction ps arbitrary: q ts)
  case (Cons p ps)
  obtain q1 ts1 where s: "work_order w p (q, ts) = (q1, ts1)" by (cases "work_order w p (q, ts)")
  have "same_memory q q1" using work_memory[of q w p ts] s by simp
  then show ?case using memory_trans[OF _ Cons.IH[of q1 ts1]] s by simp
qed (simp add: same_memory_def)

lemma tick_memory: "same_memory q (fst (order_tick w k b audited q))"
proof -
  have "same_memory q (fst (fold (work_order w) ps ((with_db f q)\<lparr>od_db := d\<rparr>, [])))" for f ps d
    by (rule memory_trans[OF memory_trans[OF same_with_db _] works_memory]) (simp add: same_memory_def)
  then show ?thesis by (simp add: order_tick_def split_beta Let_def)
qed

lemma find_grows: "find P xs = Some x \<Longrightarrow> find P (xs @ ys) = Some x"
  by (induction xs) (auto split: if_splits)

lemma intent_positive: "intent_of run key q = Some (a, b, j) \<Longrightarrow> numbered q \<Longrightarrow> 0 < j"
proof -
  assume f: "intent_of run key q = Some (a, b, j)" and n: "numbered q"
  have "(a, b, j) \<in> set (od_intents q)" using f unfolding intent_of_def by (metis find_Some_iff nth_mem)
  with n show "0 < j" by (auto simp: numbered_def list_all_iff)
qed

lemma intent_grows: "intent_of r k q = Some x \<Longrightarrow> od_intents q' = od_intents q @ xs \<Longrightarrow> intent_of r k q' = Some x"
  by (simp add: intent_of_def find_grows)

lemma intent_added: "intent_of r k q = None \<Longrightarrow> od_intents q' = od_intents q @ [(r, take 180 (py_strip k), i)] \<Longrightarrow> intent_of r k q' \<noteq> None"
  by (simp add: intent_of_def find_None_iff)

lemma create_cases:
  assumes c: "create_intent lost run key q = ((intent, status, existing), q1)"
  shows "remembers q q1 \<and> (0 < intent \<or> existing \<longrightarrow> intent_of run key q1 \<noteq> None) \<and> (existing \<longrightarrow> q1 = q)"
proof (cases "intent_of run key q")
  case None
  then have n: "if lost then q1 = q \<and> intent = 0 \<and> \<not> existing
      else od_intents q1 = od_intents q @ [(run, take 180 (py_strip key), od_next_intent q)] \<and> od_next_intent q1 = od_next_intent q + 1 \<and>
        od_keys q1 = od_keys q \<and> \<not> existing"
    using c by (auto simp: create_intent_def intent_of_def Let_def with_db_def)
  show ?thesis
  proof (cases lost)
    case False
    then have g: "od_intents q1 = od_intents q @ [(run, take 180 (py_strip key), od_next_intent q)]" using n by simp
    have "remembers q q1" using n False intent_grows[OF _ g] g by (auto simp: remembers_def numbered_def)
    with n False intent_added[OF None g] show ?thesis by simp
  qed (use n in simp)
next
  case (Some x)
  then have "q1 = q" using c by (cases x) (auto simp: create_intent_def intent_of_def Let_def)
  with Some show ?thesis by simp
qed

lemma create_remembers:
  assumes "create_intent lost run key q = ((intent, status, existing), q1)"
  shows "remembers q q1" "0 < intent \<Longrightarrow> intent_of run key q1 \<noteq> None" "existing \<Longrightarrow> q1 = q \<and> intent_of run key q1 \<noteq> None"
  using create_cases[OF assms] by auto

lemma insert_remembers:
  "remembers q (insert_pending_order now r intent q)" "\<exists>i. map_of (od_keys (insert_pending_order now r intent q)) (request_key r) = Some i"
  by (auto simp: insert_pending_order_def Let_def remembers_def numbered_def intent_of_def with_db_def map_add_def split: option.split)

lemma submit_remembers: "remembers q (snd (submit_order now lost r q))"
proof (cases "validate_request r")
  case None
  obtain intent status existing q1 where c: "create_intent lost (rq_run r) (request_key r) q = ((intent, status, existing), q1)"
    by (metis prod.exhaust)
  show ?thesis
    using None c create_remembers(1)[OF c] remembers_trans[OF create_remembers(1)[OF c] insert_remembers(1)]
    by (simp add: submit_order_def Let_def split: option.split)
qed (simp add: submit_order_def)

lemma step_remembers: "remembers q (order_step oper q)"
  by (cases oper) (auto simp: order_step_def submit_remembers intro: same_remembers tick_memory)

lemma steps_remember: "remembers q (fold order_step ops q)"
  by (induction ops arbitrary: q) (auto intro: remembers_trans step_remembers)

lemma submitted:
  assumes "submit_order now lost r q = (Inr (Some i), q1)" "numbered q"
  shows "validate_request r = None" "map_of (od_keys q1) (request_key r) = Some i" "intent_of (rq_run r) (request_key r) q1 \<noteq> None" "numbered q1"
proof -
  show v: "validate_request r = None" using assms(1) by (simp add: submit_order_def split: option.splits)
  obtain intent status existing q0 where c: "create_intent lost (rq_run r) (request_key r) q = ((intent, status, existing), q0)"
    by (metis prod.exhaust)
  note m = create_remembers[OF c]
  have i: "intent_of (rq_run r) (request_key r) (insert_pending_order now r intent q0) \<noteq> None"
    if "intent_of (rq_run r) (request_key r) q0 \<noteq> None"
    using that insert_remembers(1)[of q0 now r intent] unfolding remembers_def by blast
  show "map_of (od_keys q1) (request_key r) = Some i" "intent_of (rq_run r) (request_key r) q1 \<noteq> None"
    using assms v c m(2,3) i by (auto simp: submit_order_def Let_def split: if_splits)
  show "numbered q1" using submit_remembers[of q now lost r] assms by (simp add: remembers_def)
qed

lemma resubmitted:
  assumes "validate_request r = None" "map_of (od_keys q) (request_key r) = Some i"
    "intent_of (rq_run r) (request_key r) q = Some x" "numbered q"
  shows "\<exists>q1. submit_order now lost r q = (Inr (Some i), q1) \<and> od_db q1 = od_db q"
proof -
  obtain a b j where x: "x = (a, b, j)" by (cases x)
  have j: "0 < j" using assms(3,4) by (auto simp: x dest: intent_positive)
  obtain st where c: "create_intent lost (rq_run r) (request_key r) q = ((j, st, True), q)"
    using assms(3) by (simp add: create_intent_def intent_of_def Let_def x)
  show ?thesis using assms c j by (auto simp: submit_order_def insert_pending_order_def Let_def)
qed

text \<open>C11: Submitting an order again under its idempotency key is safe: whatever happened in between - other submissions,
  ticks of the worker, reports of the streams - the same order number is returned and no order is added or changed. In
  particular an order that has failed is not queued again.\<close>

theorem submission_is_idempotent:
  assumes "numbered q" "submit_order now lost r q = (Inr (Some i), q1)"
  shows "\<exists>q2. submit_order now' lost' r (fold order_step ops q1) = (Inr (Some i), q2) \<and> od_db q2 = od_db (fold order_step ops q1)"
proof -
  note s = submitted[OF assms(2,1)]
  let ?q = "fold order_step ops q1"
  have m: "remembers q1 ?q" by (rule steps_remember)
  obtain x where "intent_of (rq_run r) (request_key r) ?q = Some x" using m s(3) by (auto simp: remembers_def)
  with m s show ?thesis by (auto simp: remembers_def intro!: resubmitted)
qed

lemma demo_submission: "submit_order 0 False demo_request demo_queue =
  (Inr (Some 8), snd (submit_order 0 False demo_request demo_queue))"
proof -
  have v: "validate_request demo_request = None" by code_simp
  show ?thesis using v by (simp add: submit_order_def create_intent_def Let_def demo_queue_def insert_pending_order_def with_db_def)
qed

theorem submission_is_idempotent_witness:
  "\<exists>q2. submit_order 9 True demo_request (fold order_step demo_queue_ops (snd (submit_order 0 False demo_request demo_queue))) = (Inr (Some 8), q2) \<and>
    od_db q2 = od_db (fold order_step demo_queue_ops (snd (submit_order 0 False demo_request demo_queue)))"
proof -
  have "numbered demo_queue" by (simp add: numbered_def demo_queue_def)
  then show ?thesis by (rule submission_is_idempotent[OF _ demo_submission])
qed

subsection \<open>Entries stay within the limits of the account\<close>

lemma gross_expose [simp]: "gross_of (expose sd sy n l t x) = gross_of x + n"
  by (simp add: gross_of_def expose_def)

lemma gross_position: "gross_of (expose_position sp x) = gross_of x + position_notional (snd sp)"
proof -
  have "0 \<le> position_notional (snd sp)" by (simp add: position_notional_def)
  then show ?thesis by (cases sp) (auto simp: expose_position_def Let_def gross_of_def expose_def)
qed

lemma gross_positions: "gross_of (fold expose_position sps x) = gross_of x + sum_list (map (position_notional \<circ> snd) sps)"
  by (induction sps arbitrary: x) (simp_all add: gross_position)

text \<open>The positions on the account of an order, with their strategies.\<close>

definition held_positions :: "order_context \<Rightarrow> order_db \<Rightarrow> (risk_strategy \<times> position_row) list" where
  "held_positions x q = concat (map (\<lambda>(s, m). case m of None \<Rightarrow> [] | Some r \<Rightarrow> if pr_symbol r \<noteq> [] \<or> pr_canonical r \<noteq> [] then [(s, r)] else [])
     (filter (on_account (credential_id_from_exchange_config (oc_exchange_config x)) (risk_market (oc_market x)))
       (load_account_rows (config_user (oc_cfg x)) (od_strategies q) (ld_positions (sd_ledger (od_db q))))))"

definition held_notional :: "order_context \<Rightarrow> order_db \<Rightarrow> real" where
  "held_notional x q = sum_list (map (position_notional \<circ> snd) (held_positions x q))"

lemma no_gross_violation: "violations l x gl m sy = [] \<Longrightarrow> \<not> exceeds (gross_of x) (rl_gross l)"
  by (simp add: violations_def split: if_splits)

lemma proposed_gross:
  "gross_of (if max 0 a * max 0 b > 0 then expose sd sy (max 0 a * max 0 b) l t x else x) = gross_of x + max 0 a * max 0 b"
  by (auto simp: not_less mult_le_0_iff)

lemma some_unless: "(if b then None else Some r) = Some s \<Longrightarrow> s = r"
  by (simp split: if_splits)

lemma risk_gross:
  assumes "order_risk x o' q = Some s"
  shows "rs_allowed s = (rs_violations s = []) \<and> (\<exists>gl m sy. rs_violations s = violations (rs_limits s) (rs_exposure s) gl m sy) \<and>
    gross_of (rs_exposure s) = held_notional x q + max 0 (oc_amount x) * max 0 (ot_ref o')"
proof -
  have "gross_of no_exposure = 0" by (simp add: gross_of_def no_exposure_def)
  then have held: "gross_of (fold expose_position (held_positions x q) no_exposure) = held_notional x q"
    by (simp add: gross_positions held_notional_def)
  obtain sd sy l t gl m sy' where e: "rs_exposure s = (if max 0 (oc_amount x) * max 0 (ot_ref o') > 0
        then expose sd sy (max 0 (oc_amount x) * max 0 (ot_ref o')) l t (fold expose_position (held_positions x q) no_exposure)
        else fold expose_position (held_positions x q) no_exposure)"
      "rs_allowed s = (rs_violations s = [])" "rs_violations s = violations (rs_limits s) (rs_exposure s) gl m sy'"
  proof -
    note r = some_unless[OF assms[unfolded order_risk_def account_risk_snapshot_def Let_def order_proposal_def proposal.simps, folded held_positions_def]]
    have "\<exists>sd sy l t gl m sy'. rs_exposure s = (if max 0 (oc_amount x) * max 0 (ot_ref o') > 0
        then expose sd sy (max 0 (oc_amount x) * max 0 (ot_ref o')) l t (fold expose_position (held_positions x q) no_exposure)
        else fold expose_position (held_positions x q) no_exposure) \<and> rs_allowed s = (rs_violations s = []) \<and>
        rs_violations s = violations (rs_limits s) (rs_exposure s) gl m sy'"
      unfolding r risk_snapshot.simps by (intro exI conjI; rule refl)
    then show thesis using that by blast
  qed
  have "gross_of (rs_exposure s) = held_notional x q + max 0 (oc_amount x) * max 0 (ot_ref o')"
    unfolding e(1) by (simp only: proposed_gross held)
  with e show ?thesis by blast
qed

lemma venue_prepared:
  assumes "execute_venue_order w c p x q = (q', t)" "t \<noteq> []" "terms_of_order w p x = Inr o'"
  shows "\<exists>pre q0 q1 r. guard_entry w c x o' pre q0 = (None, q1) \<and> guard_risk x o' q1 = None \<and> size_order w c p x o' pre q1 = Inr r \<and>
    t = snd (run_executor c p x r) \<and> lc_size c [] (\<not> ot_reduce o') (oc_symbol x) (ot_pos_side o') (oc_market x) = Inr pre \<and>
    sd_ledger (od_db q1) = sd_ledger (od_db q) \<and> od_strategies q1 = od_strategies q \<and> od_reserved q0 = od_reserved q \<and> sd_ledger (od_db q0) = sd_ledger (od_db q)"
proof -
  define q0 where "q0 = with_db (register_pending_order_binding (pn_id p)
      (live_client_order_id (oc_exchange x) (oc_strategy x) (pn_id p) []) [] (oc_exchange x) (oc_market x) 0) q"
  obtain m q1 where m: "prepare_order w c p x q0 = (m, q1)" by (cases "prepare_order w c p x q0")
  obtain r where r: "m = Inr r" "t = snd (run_executor c p x r)"
    using assms(1,2) m by (auto simp: execute_venue_order_def q0_def[symmetric] Let_def split: sum.splits prod.splits option.splits)
  obtain pre where pre: "lc_size c [] (\<not> ot_reduce o') (oc_symbol x) (ot_pos_side o') (oc_market x) = Inr pre"
      "guard_entry w c x o' pre q0 = (None, q1)" "guard_risk x o' q1 = None" "size_order w c p x o' pre q1 = Inr r"
    using m r(1) assms(3) by (auto simp: prepare_order_def split: if_splits sum.splits prod.splits option.splits)
  have "od_strategies q1 = od_strategies q0 \<and> od_db q1 = od_db q0"
    using pre(2) by (auto simp: guard_entry_def Let_def split: if_splits prod.splits)
  moreover have "sd_ledger (od_db q0) = sd_ledger (od_db q)" "od_strategies q0 = od_strategies q" "od_reserved q0 = od_reserved q"
    by (simp_all add: q0_def with_db_def)
  ultimately show ?thesis using pre r by metis
qed


text \<open>A budget ratio that is not configured is zero, and a limit of zero is none.\<close>

lemma absent_ratio_is_off: "ratio_of JNull d = 0 \<and> \<not> exceeds y (ratio_of JNull d)"
  by (simp add: ratio_of_def positive_of_def exceeds_def)

text \<open>An execution that does not succeed posts nothing, whatever of it has filled.\<close>

lemma rejected_execution_posts_nothing:
  assumes "prepare_order w c p x (with_db (register_pending_order_binding (pn_id p)
      (live_client_order_id (oc_exchange x) (oc_strategy x) (pn_id p) []) [] (oc_exchange x) (oc_market x) 0) q) = (Inr r, q1)"
    "run_executor c p x r = (Inr e, t)" "\<not> xr_success e"
  shows "sd_ledger (od_db (fst (execute_venue_order w c p x q))) = sd_ledger (od_db q)"
  using assms prepare_db[OF assms(1)]
  by (simp add: execute_venue_order_def execution_error_def fail_order_def mark_order_failed_def on_order_def Let_def)

subsection \<open>Closing orders take what the strategy holds\<close>

text \<open>What a call asks the venue to trade is at most a bound; a client rounds quantities down and reports no negative fill.\<close>

fun call_within :: "real \<Rightarrow> exchange_call \<Rightarrow> bool" where
  "call_within b (LimitCall i po) = (li_quantity i \<le> b)"
| "call_within b (MarketCall i v) = (v \<le> b)"
| "call_within b _ = True"

definition rounds_down :: "live_client \<Rightarrow> bool" where
  "rounds_down c \<longleftrightarrow> (\<forall>sy v. lc_base c sy v \<le> v) \<and> (\<forall>ex sy m v y. lc_steps c ex sy m v = Some (Inr y) \<longrightarrow> y \<le> v) \<and>
     (\<forall>t i oid secs raw v. lx_wait (lc_exchange c) t i oid secs = Inr raw \<longrightarrow> float_or_0 (get raw ''filled'') = Some v \<longrightarrow> 0 \<le> v)"

definition own_size :: "order_context \<Rightarrow> order_terms \<Rightarrow> order_db \<Rightarrow> real" where
  "own_size x o' q = fetch_position_size_for_side (sd_ledger (od_db q)) (oc_strategy x) (oc_symbol x) (ot_pos_side o')"

lemma own_nonneg [simp]: "0 \<le> own_size x o' q"
  by (simp add: own_size_def fetch_position_size_for_side_def split: option.splits)

lemma resolved_within_own:
  "fst (resolve_reduce_only_quantity False sid l req exch db t) \<le> fetch_position_size_for_side db sid (ln_symbol l) (ln_side l)"
  by (auto simp: resolve_reduce_only_quantity_def Let_def fetch_position_size_for_side_def split: option.splits)

lemma closed_within_own: "close_size c x o' req q = Inr a \<Longrightarrow> a \<le> own_size x o' q"
  using resolved_within_own[of "oc_strategy x" "worker_leg x o'" req]
  by (auto simp: close_size_def own_size_def worker_leg_def split: sum.splits)

lemma executable_within: "rounds_down c \<Longrightarrow> exchange_executable_base_quantity c ex sy m v \<le> max 0 v"
  unfolding rounds_down_def by (auto simp: exchange_executable_base_quantity_def Let_def split: option.split sum.split)

lemma venue_within: "rounds_down c \<Longrightarrow> v \<le> b \<Longrightarrow> 0 \<le> b \<Longrightarrow> venue_size c x v \<le> b"
  using executable_within[of c "oc_exchange x" "oc_symbol x" "oc_market x" v] by (auto simp: venue_size_def)

lemma normalised_within: "rounds_down c \<Longrightarrow> v \<le> b \<Longrightarrow> 0 \<le> b \<Longrightarrow> normalize_spot_base_quantity c sy v \<le> b"
  by (auto simp: normalize_spot_base_quantity_def rounds_down_def intro: order_trans)

lemma spot_within:
  assumes "rounds_down c" "v \<le> b" "0 \<le> b" "ot_reduce o'"
  shows "os_amount (spot_size w c x o' v) \<le> b \<and> \<not> os_uses_quote (spot_size w c x o' v)"
proof -
  have "clamp_spot_close_quantity r c sy v \<le> b" for r sy
    using assms(2,3) by (auto simp: clamp_spot_close_quantity_def Let_def min.coboundedI1 intro!: normalised_within[OF assms(1)])
  then show ?thesis
    using assms by (auto simp: spot_size_def prepare_spot_live_order_sizes_def Let_def intro!: normalised_within[OF assms(1)])
qed

lemma sized_within:
  assumes "size_order w c p x o' pre q = Inr r" "ot_reduce o'" "rounds_down c"
  shows "os_amount (pr_sizes r) \<le> own_size x o' q \<and> \<not> os_uses_quote (pr_sizes r)"
proof -
  obtain a where a: "close_size c x o' (oc_amount x) q = Inr a" using assms(1,2) by (auto simp: size_order_def split: sum.splits)
  define o2 where "o2 = (if ot_ref o' \<le> 0 \<and> lx_venue (lc_exchange c) = BinanceFutures
      then o'\<lparr>ot_ref := (case lc_mark c (oc_symbol x) of Inl e \<Rightarrow> ot_ref o' | Inr v \<Rightarrow> v)\<rparr> else o')"
  have o2: "ot_reduce o2" "own_size x o2 q = own_size x o' q" using assms(2) by (simp_all add: o2_def own_size_def)
  define s1 where "s1 = (spot_size w c x o2 a)\<lparr>os_amount := venue_size c x (os_amount (spot_size w c x o2 a))\<rparr>"
  have r: "pr_sizes r = retried_size c (pn_payload p) p x o2 s1 q"
    using assms(1,2) a by (auto simp: size_order_def Let_def o2_def[symmetric] s1_def[symmetric] split: option.splits if_splits)
  have s1: "os_amount s1 \<le> own_size x o' q \<and> \<not> os_uses_quote s1"
    using spot_within[OF assms(3) closed_within_own[OF a] own_nonneg o2(1), of w x] venue_within[OF assms(3)] by (simp add: s1_def)
  have "os_amount (retried_size c pl p x o2 s q) \<le> own_size x o' q \<and> \<not> os_uses_quote (retried_size c pl p x o2 s q)"
    if "os_amount s \<le> own_size x o' q" "\<not> os_uses_quote s" for pl s
    using that closed_within_own[of c x o2 _ q] venue_within[OF assms(3) _ own_nonneg[of x o' q]] o2
    by (auto simp: retried_size_def split: sum.split)
  with r s1 show ?thesis by simp
qed

lemma market_within: "\<not> la_uses_quote ad \<Longrightarrow> li_quantity i \<le> b \<Longrightarrow> 0 \<le> b \<Longrightarrow> market_size ad i \<le> b"
  by (auto simp: market_size_def Let_def mult_le_0_iff intro: order_trans[of _ 0])

lemma bind_calls:
  assumes "list_all P (snd m)" "\<And>x. list_all P (snd m) \<Longrightarrow> fst m = Inr x \<Longrightarrow> list_all P (snd (f x (snd m)))"
  shows "list_all P (snd (and_then m f))"
  using assms by (cases m) (auto simp: and_then_def split: sum.split)

lemma rejected_calls [simp]: "snd (or_rejected m) = snd m"
  by (cases m) (auto simp: or_rejected_def split: sum.split fault.split)

lemma leverage_within [simp]: "list_all (call_within b) (leverage_calls v i)"
  by (simp add: leverage_calls_def)

lemma sent_quantity [simp]: "li_quantity (sent_intent v i) = li_quantity i"
  by (simp add: sent_intent_def)

lemma place_market_within:
  "\<not> la_uses_quote ad \<Longrightarrow> li_quantity i \<le> b \<Longrightarrow> 0 \<le> b \<Longrightarrow> list_all (call_within b) t \<Longrightarrow> list_all (call_within b) (snd (place_live_market_order ad i t))"
  by (simp add: place_live_market_order_def Let_def market_within)

lemma wait_calls: "list_all (call_within b) t \<Longrightarrow> list_all (call_within b) (snd (wait_for_fill ad i oid secs t))"
  by (auto simp: wait_for_fill_def wait_live_order_fill_def Let_def and_then_def split: sum.split option.split)

lemma market_execute_within:
  "\<not> la_uses_quote ad \<Longrightarrow> li_quantity i \<le> b \<Longrightarrow> 0 \<le> b \<Longrightarrow> list_all (call_within b) t \<Longrightarrow> list_all (call_within b) (snd (market_execute ad i t))"
  by (auto simp: market_execute_def intro!: bind_calls place_market_within wait_calls)

lemma place_limit_within:
  "li_quantity i \<le> b \<Longrightarrow> list_all (call_within b) t \<Longrightarrow> list_all (call_within b) (snd (place_live_limit_order ad i t))"
  by (simp add: place_live_limit_order_def Let_def)

lemma waited_fill:
  assumes "fst (wait_for_fill ad i oid secs t) = Inr f"
    "\<And>t i oid secs raw v. lx_wait (la_exchange ad) t i oid secs = Inr raw \<Longrightarrow> float_or_0 (get raw ''filled'') = Some v \<Longrightarrow> 0 \<le> v"
  shows "0 \<le> fs_filled f"
  using assms(1) assms(2) by (auto simp: wait_for_fill_def wait_live_order_fill_def Let_def and_then_def split: sum.splits option.splits if_splits)

lemma two_legs_within:
  assumes "\<not> la_uses_quote ad" "li_quantity i \<le> b" "0 \<le> b"
    and honest: "\<And>t i oid secs raw v. lx_wait (la_exchange ad) t i oid secs = Inr raw \<Longrightarrow> float_or_0 (get raw ''filled'') = Some v \<Longrightarrow> 0 \<le> v"
  shows "list_all (call_within b) (snd (limit_then_market_execute ad secs fb i []))"
proof -
  have cancel: "list_all (call_within b) t \<Longrightarrow> list_all (call_within b) (snd (cancel_live_limit_order ad i oid t))" for oid t
    by (simp add: cancel_live_limit_order_def Let_def)
  have rest: "list_all (call_within b) t \<Longrightarrow> list_all (call_within b) (snd (market_execute ad (i\<lparr>li_quantity := max 0 (li_quantity i - fs_filled f), li_price := 0,
      li_client := cl\<rparr>) t))" if "0 \<le> fs_filled f" for f t cl
    using that assms(1-3) by (intro market_execute_within) auto
  show ?thesis
    using assms(1-3)
    by (auto simp: limit_then_market_execute_def Let_def intro!: bind_calls market_execute_within place_limit_within wait_calls cancel rest
        dest!: waited_fill[OF _ honest])
qed

lemma resting_within: "li_quantity i \<le> b \<Longrightarrow> list_all (call_within b) (snd (resting_limit_execute ad i []))"
  by (auto simp: resting_limit_execute_def intro!: bind_calls place_limit_within)


subsection \<open>Readings are cumulative\<close>

lemma sync_baseline: "tracked_fill_baseline (Some (sync_response st f a rq ex cum ca fs)) oid pf pa = (max 0 cum, max 0 ca)"
  by (simp add: tracked_fill_baseline_def sync_response_def dict_or_raise_def recorded_baseline_def get_def pair_of_def Let_def)

text \<open>The fill of a row after a reading: what is new of it on top of what was there.\<close>

definition read_fill :: "pending_row \<Rightarrow> real \<Rightarrow> real \<Rightarrow> real" where
  "read_fill p q pr =
     (let (t, ta) = tracked_fill_baseline (pn_response p) (py_strip (pn_order p)) (max 0 (pn_filled p)) (max 0 (pn_avg p)) in
      if max 0 q - t > eps8 \<and> pr > 0 then max 0 (pn_filled p) + (max 0 q - t) else max 0 (pn_filled p))"

lemma read_fill_nonneg: "0 \<le> read_fill p q pr"
  by (auto simp: read_fill_def Let_def eps8_def split: prod.split)

lemma post_reading_pending: "sd_pending (snd (post_reading w c cfg p k sy m ex d da st cu ca fs db)) = sd_pending db"
  by (simp add: post_reading_def Let_def)

lemma settle_reading_cases:
  assumes "settle_reading w c cfg p k sy m ex (q, pr, st, raw) db = (err, db1)"
  shows "\<exists>db2. sd_pending db2 = sd_pending db \<and>
    (read_fill p q pr = max 0 (pn_filled p) \<longrightarrow> (\<forall>i. posted_for i (sd_ledger db2) = posted_for i (sd_ledger db))) \<and>
    (err \<noteq> None \<and> db1 = db2 \<or> err = None \<and> (\<exists>qs s a st' rq e fs mark. db1 = update_live_sent_order_snapshot (qw_now w) (pn_id p) qs s
       (read_fill p q pr) a (sync_response st' (read_fill p q pr) a rq e (max 0 q) (max 0 pr) fs) mark db2))"
proof -
  obtain t ta where t: "tracked_fill_baseline (pn_response p) (py_strip (pn_order p)) (max 0 (pn_filled p)) (max 0 (pn_avg p)) = (t, ta)"
    by (cases "tracked_fill_baseline (pn_response p) (py_strip (pn_order p)) (max 0 (pn_filled p)) (max 0 (pn_avg p))")
  define cum where "cum = max 0 q"
  define cum_avg where "cum_avg = max 0 pr"
  obtain d da where d: "fill_increment t ta cum cum_avg = (d, da)" by (cases "fill_increment t ta cum cum_avg")
  have dq: "d = cum - t" using d by (auto simp: fill_increment_def Let_def)
  define fs where "fs = fee_breakdown_snapshot raw"
  define fresh where "fresh = (d > eps8 \<and> cum_avg > 0)"
  define err1 where "err1 = (if fresh then post_reading w c cfg p k sy m ex d da (lower_strip (default_text st ''unknown'')) cum cum_avg
      (incremental_fees fs (previous_fee_breakdown (pn_response p))) db else (None, db))"
  obtain e0 dbx where e1: "err1 = (e0, dbx)" by (cases err1)
  define db2 where "db2 = (if fs \<noteq> [] \<and> cum_avg > 0 then dbx\<lparr>sd_ledger := snd (backfill_zero_commission_trades (pn_id p) fs
      (fee_breakdown_to_quote (lc_ticker c) sy fs cum_avg) (sd_ledger dbx))\<rparr> else dbx)"
  define fa where "fa = (if fresh then joined_fill (max 0 (pn_filled p)) (max 0 (pn_avg p)) d da else (max 0 (pn_filled p), max 0 (pn_avg p)))"
  obtain f a where f: "fa = (f, a)" by (cases fa)
  have fill: "f = read_fill p q pr"
    using t dq f by (auto simp: fa_def read_fill_def joined_fill_def fresh_def cum_def cum_avg_def)
  have stale: "\<not> fresh" if "read_fill p q pr = max 0 (pn_filled p)"
    using that fill f by (auto simp: fa_def joined_fill_def fresh_def eps8_def)
  have "sd_pending (snd err1) = sd_pending db" by (simp add: err1_def post_reading_pending)
  then have pend: "sd_pending dbx = sd_pending db" "sd_pending db2 = sd_pending db" by (simp_all add: db2_def e1)
  have post: "posted_for i (sd_ledger db2) = posted_for i (sd_ledger dbx)" for i by (simp add: db2_def backfill_posted)
  note unfold = assms[unfolded settle_reading_def Let_def prod.case cum_def[symmetric] cum_avg_def[symmetric] t d fs_def[symmetric]
        fresh_def[symmetric] err1_def[symmetric] fa_def[symmetric], unfolded e1 f prod.case, folded db2_def]
  show ?thesis
  proof (cases e0)
    case (Some e)
    then have "err = Some e \<and> db1 = dbx" using unfold by simp
    with pend(1) stale e1 show ?thesis by (intro exI[of _ dbx]) (auto simp: err1_def)
  next
    case None
    have "err \<noteq> None \<and> db1 = db2 \<or> err = None \<and> (\<exists>qs s a st' rq e fs mark. db1 = update_live_sent_order_snapshot (qw_now w) (pn_id p) qs s
       f a (sync_response st' f a rq e cum cum_avg fs) mark db2)"
      using unfold None by (auto split: sum.splits prod.splits) blast+
    with pend(2) post stale fill e1 show ?thesis unfolding cum_def cum_avg_def by (intro exI[of _ db2]) (auto simp: err1_def)
  qed
qed

text \<open>C16: A reading of a sent order is cumulative and taken in once: when the venue answers the same quantity and price again
  - whatever else its answer says, and with whatever client - the second reading posts nothing and leaves the order's
  filled quantity as it is.\<close>

theorem repeated_reading_adds_nothing:
  assumes "settle_reading w c cfg p k sy m ex (q, pr, st, raw) db = (None, db1)" "order_row (pn_id p) db \<noteq> None"
    "order_row (pn_id p) db1 = Some p'" "settle_reading w' c' cfg' p' k' sy' m' ex' (q, pr, st', raw') db1 = (err, db2)"
  shows "posted_for i (sd_ledger db2) = posted_for i (sd_ledger db1) \<and> map_option pn_filled (order_row (pn_id p) db2) = Some (pn_filled p')"
proof -
  have snap: "order_row i (update_live_sent_order_snapshot now i qs s f a resp mark d) =
      map_option (\<lambda>p. p\<lparr>pn_status := default_text qs ''sent'', pn_note := default_text mark (''live_fill_sync:'' @ default_text s ''unknown''),
        pn_filled := decimal8 f, pn_avg := decimal8 a, pn_response := Some resp, pn_executed := (pn_executed p \<or> f > 0), pn_updated := now\<rparr>) (order_row i d)"
    for i now qs s f a resp mark d
    by (simp add: update_live_sent_order_snapshot_def on_order_row)
  obtain d1 where d1: "sd_pending d1 = sd_pending db" and s1: "\<exists>qs s a st' rq e fs mark. db1 = update_live_sent_order_snapshot (qw_now w) (pn_id p) qs s
       (read_fill p q pr) a (sync_response st' (read_fill p q pr) a rq e (max 0 q) (max 0 pr) fs) mark d1"
    using settle_reading_cases[OF assms(1)] by blast
  obtain p0 where p0: "order_row (pn_id p) d1 = Some p0" using assms(2) d1 by (auto simp: order_row_def)
  obtain f a rq e fs st2 where p': "pn_id p' = pn_id p" "pn_filled p' = decimal8 (read_fill p q pr)"
      "pn_response p' = Some (sync_response st2 f a rq e (max 0 q) (max 0 pr) fs)"
    using s1 assms(3) p0 order_row_in[OF p0] by (auto simp: snap)
  have nonneg: "0 \<le> pn_filled p'" using p'(2) read_fill_nonneg decimal8_nonneg by simp
  have same: "read_fill p' q pr = max 0 (pn_filled p')"
    unfolding read_fill_def p'(3) sync_baseline by (simp add: eps8_def)
  obtain d2 where d2: "sd_pending d2 = sd_pending db1" "posted_for i (sd_ledger d2) = posted_for i (sd_ledger db1)"
    and s2: "db2 = d2 \<or> (\<exists>qs s a st' rq e fs mark. db2 = update_live_sent_order_snapshot (qw_now w') (pn_id p') qs s
       (read_fill p' q pr) a (sync_response st' (read_fill p' q pr) a rq e (max 0 q) (max 0 pr) fs) mark d2)"
    using settle_reading_cases[OF assms(4)] same by blast
  have row: "order_row (pn_id p) d2 = Some p'" using assms(3) d2(1) by (simp add: order_row_def)
  have dec: "decimal8 (pn_filled p') = pn_filled p'" using p'(2) by (simp add: decimal8_exact)
  show ?thesis
    using s2 d2(2) row nonneg same dec p'(1) by (auto simp: snap max_def) (auto simp: update_live_sent_order_snapshot_def on_order_def)
qed

lemma size_same:
  assumes l: "sd_ledger (od_db q1) = sd_ledger (od_db q)" and r: "ot_reduce o' \<Longrightarrow> od_reserved q1 = od_reserved q"
  shows "size_order w c p x o' pre q1 = size_order w c p x o' pre q"
proof -
  have close: "close_size c x o2 req q1 = close_size c x o2 req q" if "ot_reduce o'" for o2 req
    using l r[OF that] by (simp add: close_size_def split: sum.split)
  have retry: "retried_size c pl p x o2 s q1 = retried_size c pl p x o2 s q" if "ot_reduce o2 = ot_reduce o'" for pl o2 s
    using that close by (cases "ot_reduce o'") (simp_all add: retried_size_def split: sum.split)
  define o2 where "o2 = (if ot_ref o' \<le> 0 \<and> lx_venue (lc_exchange c) = BinanceFutures
      then o'\<lparr>ot_ref := (case lc_mark c (oc_symbol x) of Inl e \<Rightarrow> ot_ref o' | Inr v \<Rightarrow> v)\<rparr> else o')"
  have o2: "ot_reduce o2 = ot_reduce o'" by (simp add: o2_def)
  have a: "(if ot_reduce o' then close_size c x o' (oc_amount x) q1 else Inr (oc_amount x)) =
      (if ot_reduce o' then close_size c x o' (oc_amount x) q else Inr (oc_amount x))" using close by simp
  show ?thesis unfolding size_order_def Let_def o2_def[symmetric] a retry[OF o2] ..
qed

text \<open>What an order calls once it is prepared.\<close>

lemma prepared_calls:
  assumes "terms_of_order w p x = Inr o'" "oc_market x \<noteq> ''spot'' \<or> \<not> py_contains (lower_strip (oc_signal x)) ''short''"
    "lc_size c [] (\<not> ot_reduce o') (oc_symbol x) (ot_pos_side o') (oc_market x) = Inr pre"
    "fst (guard_entry w c x o' pre (with_db (register_pending_order_binding (pn_id p)
      (live_client_order_id (oc_exchange x) (oc_strategy x) (pn_id p) []) [] (oc_exchange x) (oc_market x) 0) q)) = None"
    "guard_risk x o' q = None" "size_order w c p x o' pre q = Inr r"
  shows "snd (execute_venue_order w c p x q) = snd (run_executor c p x r)"
proof -
  define q0 where "q0 = with_db (register_pending_order_binding (pn_id p)
      (live_client_order_id (oc_exchange x) (oc_strategy x) (pn_id p) []) [] (oc_exchange x) (oc_market x) 0) q"
  obtain q1 where q1: "guard_entry w c x o' pre q0 = (None, q1)" using assms(4) by (cases "guard_entry w c x o' pre q0") (simp add: q0_def)
  have same: "sd_ledger (od_db q1) = sd_ledger (od_db q)" "od_strategies q1 = od_strategies q" "ot_reduce o' \<longrightarrow> od_reserved q1 = od_reserved q"
    using q1 by (auto simp: guard_entry_def q0_def with_db_def Let_def split: if_splits prod.splits)
  have "guard_risk x o' q1 = guard_risk x o' q" using same(1,2) by (simp add: guard_risk_def order_risk_def)
  with assms(5) have risk: "guard_risk x o' q1 = None" by simp
  have "size_order w c p x o' pre q1 = size_order w c p x o' pre q" by (rule size_same) (use same in auto)
  then show ?thesis
    using assms(1-3,6) q1 risk by (auto simp: execute_venue_order_def prepare_order_def q0_def[symmetric] Let_def split: sum.split prod.split option.split)
qed

end
