(* ===== verification/OrderDemo.thy ===== *)
theory OrderDemo
  imports OrderSafety
begin

text \<open>Concrete orders of the queue: an entry within the limits of its account, a close, and a reading that is repeated.\<close>

definition demo_order_config :: json where
  "demo_order_config = projr (qw_config demo_order_world 4)"

definition demo_context :: "string \<Rightarrow> real \<Rightarrow> order_context" where
  "demo_context signal amount = \<lparr>oc_strategy = 4, oc_signal = signal, oc_symbol = ''BTC/USDT'', oc_amount = amount, oc_cfg = demo_order_config,
     oc_exchange_config = get demo_order_config ''exchange_config'', oc_exchange = ''binance'', oc_category = ''Crypto'', oc_market = ''spot''\<rparr>"

definition demo_terms :: "bool \<Rightarrow> order_terms" where
  "demo_terms reduce = \<lparr>ot_mode = ''market'', ot_algo = ''market'', ot_wait = 10, ot_offset = 0, ot_ref = 100,
     ot_side = (if reduce then ''sell'' else ''buy''), ot_pos_side = ''long'', ot_reduce = reduce, ot_leverage = 1\<rparr>"

definition demo_flat_client :: live_client where
  "demo_flat_client = demo_client\<lparr>lc_size := (\<lambda>_ _ _ _ _. Inr 0)\<rparr>"

subsection \<open>An entry\<close>

text \<open>The strategy has a capital of one thousand, and buys for five hundred.\<close>

definition demo_entry :: pending_row where
  "demo_entry = new_order 0 demo_request 1 8"

definition demo_entry_queue :: order_db where
  "demo_entry_queue = demo_queue\<lparr>od_strategies := [\<lparr>rk_id = 4, rk_user = 9, rk_mode = ''live'', rk_status = ''running'', rk_capital = 1000,
     rk_leverage = 1, rk_market = ''spot'', rk_exchange_config = JDict [(''credential_id'', JNum 3)], rk_trading_config = JDict []\<rparr>]\<rparr>"

definition demo_entry_ready :: prepared_order where
  "demo_entry_ready = \<lparr>pr_terms = demo_terms False, pr_pre = 0, pr_sizes = \<lparr>os_amount = 5, os_quote = 500, os_uses_quote = False\<rparr>\<rparr>"

lemma demo_entry_steps:
  "(terms_of_order demo_order_world demo_entry (demo_context ''open_long'' 5) = Inr (demo_terms False),
    fst (guard_entry demo_order_world demo_flat_client (demo_context ''open_long'' 5) (demo_terms False) 0 (with_db (register_pending_order_binding 8
      (live_client_order_id ''binance'' 4 8 []) [] ''binance'' ''spot'' 0) demo_entry_queue)),
    guard_risk (demo_context ''open_long'' 5) (demo_terms False) demo_entry_queue,
    size_order demo_order_world demo_flat_client demo_entry (demo_context ''open_long'' 5) (demo_terms False) 0 demo_entry_queue = Inr demo_entry_ready,
    snd (run_executor demo_flat_client demo_entry (demo_context ''open_long'' 5) demo_entry_ready) = [],
    map_option (rl_gross \<circ> rs_limits) (order_risk (demo_context ''open_long'' 5) (demo_terms False) demo_entry_queue)) =
   (True, None, None, True, False, Some 1000)"
  by code_simp

lemma demo_context_fields [simp]:
  "oc_symbol (demo_context sg am) = ''BTC/USDT''" "oc_market (demo_context sg am) = ''spot''" "oc_strategy (demo_context sg am) = 4"
  "oc_exchange (demo_context sg am) = ''binance''" "oc_signal (demo_context sg am) = sg"
  "ot_reduce (demo_terms reduce) = reduce" "ot_pos_side (demo_terms reduce) = ''long''"
  by (simp_all add: demo_context_def demo_terms_def)

lemma demo_entry_calls:
  "snd (execute_venue_order demo_order_world demo_flat_client demo_entry (demo_context ''open_long'' 5) demo_entry_queue) \<noteq> []"
proof -
  note e = demo_entry_steps[unfolded prod.inject]
  have long: "\<not> py_contains (lower_strip ''open_long'') ''short''" by code_simp
  have id: "pn_id demo_entry = 8" by (simp add: demo_entry_def new_order_def)
  have c: "snd (execute_venue_order demo_order_world demo_flat_client demo_entry (demo_context ''open_long'' 5) demo_entry_queue) =
      snd (run_executor demo_flat_client demo_entry (demo_context ''open_long'' 5) demo_entry_ready)"
    by (rule prepared_calls[where pre = 0 and o' = "demo_terms False"]) (use e long id in \<open>simp_all add: demo_flat_client_def\<close>)
  show ?thesis unfolding c using e by simp
qed


subsection \<open>A close\<close>

text \<open>The strategy holds five units, the account nine; it asks to close nine.\<close>

definition demo_exit :: pending_row where
  "demo_exit = new_order 0 (demo_request\<lparr>rq_action := ''close_long'', rq_quantity := 9\<rparr>) 1 8"

definition demo_exit_queue :: order_db where
  "demo_exit_queue = with_db (\<lambda>db. db\<lparr>sd_ledger := (sd_ledger db)\<lparr>ld_positions := [\<lparr>pr_id = 1, pr_user = 9, pr_strategy = 4, pr_symbol = ''BTC/USDT'',
     pr_canonical = ''BTC/USDT'', pr_side = ''long'', pr_size = 5, pr_entry = 100, pr_current = 100, pr_high = 100, pr_low = 100,
     pr_market = ''spot'', pr_credential = 3, pr_inst = []\<rparr>]\<rparr>\<rparr>) demo_queue"

definition demo_full_client :: live_client where
  "demo_full_client = demo_client\<lparr>lc_size := (\<lambda>_ _ _ _ _. Inr 9)\<rparr>"

definition demo_exit_ready :: prepared_order where
  "demo_exit_ready = \<lparr>pr_terms = demo_terms True, pr_pre = 9, pr_sizes = \<lparr>os_amount = 5, os_quote = 0, os_uses_quote = False\<rparr>\<rparr>"

definition demo_market_sizes :: "exchange_call list \<Rightarrow> real list" where
  "demo_market_sizes t = concat (map (\<lambda>c. case c of MarketCall i v \<Rightarrow> [v] | _ \<Rightarrow> []) t)"

lemma demo_exit_steps:
  "(terms_of_order demo_order_world demo_exit (demo_context ''close_long'' 9) = Inr (demo_terms True),
    size_order demo_order_world demo_full_client demo_exit (demo_context ''close_long'' 9) (demo_terms True) 9 demo_exit_queue = Inr demo_exit_ready,
    demo_market_sizes (snd (run_executor demo_full_client demo_exit (demo_context ''close_long'' 9) demo_exit_ready)),
    own_size (demo_context ''close_long'' 9) (demo_terms True) demo_exit_queue) = (True, True, [5], 5)"
  by code_simp

lemma demo_full_rounds: "rounds_down demo_full_client"
  by (auto simp: rounds_down_def demo_full_client_def demo_client_def demo_venue_def get_def)

lemma demo_exit_calls:
  "demo_market_sizes (snd (execute_venue_order demo_order_world demo_full_client demo_exit (demo_context ''close_long'' 9) demo_exit_queue)) = [5]"
proof -
  note e = demo_exit_steps[unfolded prod.inject]
  have long: "\<not> py_contains (lower_strip ''close_long'') ''short''" by code_simp
  have "snd (execute_venue_order demo_order_world demo_full_client demo_exit (demo_context ''close_long'' 9) demo_exit_queue) =
      snd (run_executor demo_full_client demo_exit (demo_context ''close_long'' 9) demo_exit_ready)"
    by (rule prepared_calls[where pre = 9 and o' = "demo_terms True"])
      (use e long in \<open>simp_all add: demo_full_client_def guard_entry_def guard_risk_def\<close>)
  with e show ?thesis by simp
qed


subsection \<open>A reading\<close>

definition demo_reading :: "stream_db \<Rightarrow> pending_row \<Rightarrow> string option \<times> stream_db" where
  "demo_reading db p = settle_reading demo_order_world demo_client (JDict []) p 4 ''BTC/USDT'' ''swap'' ''binance'' (5, 100, ''partial'', JDict []) db"

lemma demo_reading_steps:
  "(let (e, db) = demo_reading demo_stream demo_stream_pending in
    (e, posted_for 7 (sd_ledger db), map_option pn_filled (order_row 7 db))) = (None, 5, Some 5)"
  by code_simp

theorem repeated_reading_adds_nothing_witness:
  "posted_for 7 (sd_ledger (snd (demo_reading (snd (demo_reading demo_stream demo_stream_pending))
      (the (order_row 7 (snd (demo_reading demo_stream demo_stream_pending))))))) = 5"
proof -
  obtain db1 where r1: "demo_reading demo_stream demo_stream_pending = (None, db1)" "posted_for 7 (sd_ledger db1) = 5"
      "map_option pn_filled (order_row 7 db1) = Some 5"
    using demo_reading_steps by (cases "demo_reading demo_stream demo_stream_pending") (simp add: Let_def)
  obtain p' where p': "order_row 7 db1 = Some p'" using r1(3) by blast
  obtain err db2 where r2: "demo_reading db1 p' = (err, db2)" by (cases "demo_reading db1 p'")
  have id: "pn_id demo_stream_pending = 7" "order_row 7 demo_stream \<noteq> None"
    by (simp_all add: demo_stream_pending_def demo_stream_def order_row_def row_at_def)
  have "posted_for 7 (sd_ledger db2) = posted_for 7 (sd_ledger db1)"
    using repeated_reading_adds_nothing[OF r1(1)[unfolded demo_reading_def] _ _ r2[unfolded demo_reading_def], of 7] id p' by simp
  with r1 r2 p' show ?thesis by simp
qed

end
