(* ===== verification/Spec2Isabelle.thy ===== *)
theory Spec2Isabelle
  imports Profit Hindsight LiveLaws GridLaws WorkerLaws StreamTrades OrderDemo
begin

text \<open>
  A model of the trading core of Quanthedra (\<open>backend_api_python/app/services\<close>) and the theorems that make
  it correct: the event-driven backtester and live session of strategies (\<open>strategy_v2/\<close>), the ledger of
  live positions and trades with the guards around live orders (\<open>live_trading/\<close>, \<open>pending_orders/\<close>,
  \<open>strategy_live_guard.py\<close>), the grid robot (\<open>grid/\<close>), and the workers that run live strategies from a
  durable queue of commands (\<open>strategy_command_repository.py\<close>, \<open>workers/trading.py\<close>), and the queue of live
  orders with its worker (\<open>strategy_v2/live_execution.py\<close>, \<open>pending_order_worker.py\<close>).

  How the parts interact. A strategy's handlers speak to a runtime context (Context), which turns their
  calls into order intents (Orders). In a backtest the runner (Runner, Schedule) moves a clock over the data
  portal (DataPortal, Instruments), lets the simulation broker (Broker) fill the intents and evaluates the
  protections of open positions (Protection); books and reports are in Ledger and Reconcile. Live, the same
  context and protections run in a session over account snapshots (Live). What a live strategy fills is
  posted to its own ledger (LocalPositions over Tables), under canonical symbols (Symbols); the account is
  shared by strategies and their user, so a start is checked against running strategies (Directions), an
  entry against the holdings of the account (Ownership), its notional against a budget, and late fees and
  cumulative reports are reconciled (Fees). A grid robot (GridConfig, GridState, GridEngine) rests entries
  and exits on the lines of a price grid, under the same guards and the same ledger. Which process runs a
  live strategy is settled by commands and leases in the database (Commands over Leases): clients queue
  starts and stops, workers claim them, hold the lease of what they run and renew it (Worker). The exchanges
  report fills on private streams; reports are stored once, bound to an order and projected to its ledger (Streams).
  The orders of a live session are queued under an idempotency key (OrderQueue). The order worker claims an order,
  checks it against the holdings and the limits of the account (Ownership, AccountRisk), sizes it and sends it to the
  venue (OrderDispatch over Executors and OrderRules), settles its row and posts its fill; sent orders are read again
  until they are filled or cancelled (OrderSync). Streams and worker write the same rows and the same trades.

  Theory by theory.
    Prelude, Values: Python values, dictionaries, number parsing, DECIMAL(20,8) columns, shared locales.
    Protection: protection.py. Orders: positions, intents, pending merge of runtime.py. DataPortal,
    Instruments: data.py, instruments.py, models.py. Ledger, Broker: MultiAssetSimulationBroker.
    BrokerSteps, Sizing, BrokerLaws, Execution, Profit: its decomposition into elementary steps and its
    laws over arbitrary histories (cash and inventory conservation, audit trail, bounds of a fill, profits).
    Reconcile: the result of a backtest. Context, Schedule, Runner: StrategyRuntimeContext and
    StrategyV2BacktestRunner; RunnerLaws, Hindsight: what a whole backtest guarantees, and that it does not
    see the future. Live, LiveLaws: StrategyV2LiveSession.
    Symbols, LocalPositions, PositionLaws: records.py and leg_context.py, with the refinement of an abstract
    book of legs. Directions: strategy_direction.py, strategy_live_guard.py. Ownership:
    position_ownership.py, position_query.py, entry_position_guard.py. Fees: fee_reconciliation.py,
    fee_quote.py, sent_order_recovery.py, order_budget.py.
    GridConfig: config.py, levels.py, validator.py. GridState: resting_orders_repo.py, grid_cells.py,
    fill_handler.py. GridEngine: engine.py and the poll of an order. GridLaws: one open order per cell and
    purpose, exits within the inventory, fills posted once.
    Leases: the abstract lease map. Commands: strategy_command_repository.py, its tables in microseconds.
    CommandLaws: the lease tables refine the map and are exclusive, one active command per action, bounded
    claims. Worker: workers/trading.py, commands/scheduler.py, strategy_command_client.py and the thread
    registry of trading_executor.py. WorkerLaws: one runtime per strategy over all workers, commands settle.
    Streams: execution_streams/events.py, repository.py, processor.py and fill_records.py. StreamLaws: what reports
    add to an order is posted exactly once. StreamTrades: one trade per report under any fault, binding legacy orders.
    Executors: executors.py, adapters.py, contracts.py, live_order_phases.py and the fill accumulator of
    live_order_support.py. AccountRisk: account_risk.py. OrderRules: broker_market_policy.py, capabilities.py,
    broker_support.py, native_protection.py (prices), error_classification.py, strategy_lifecycle.py (fatal errors).
    OrderQueue: live_execution.py, order_intents.py and the transactions of pending_order_worker.py. OrderSync: its
    readings of sent orders, order_quantities.py. OrderDispatch: its execution of an order and its tick,
    spot_sizing.py, fill_recovery.py, live_order_support.py (context). The state of the queue (order_db) is that of the
    streams with the keys, the intents, the reservations and the strategies. OrderLaws, OrderRuns: over any run of
    submissions, ticks and streams the trades of an order add up to what it has filled. OrderSafety: a claimed order is
    settled, submissions are idempotent, entries stay within the account's limits, closing orders within the strategy's
    position, a reading counts once. OrderDemo: concrete orders.

  Interfaces. invariant_machine, monotone_machine and partial_machine (Prelude) are interpreted on the
  broker, the runner, the live session, the pending merge, the start guard and the grid; market_feed
  (DataPortal) is what the broker relies on of the portal; leg_machine (Tables) is a table of rows merged by
  key, interpreted on the ledger and on the reservations; lease_table (Leases) is a table that implements
  the lease map, interpreted on the strategy leases and on the process leases; guarded_machine (OrderLaws) is a machine whose
  allowed operations keep an invariant, interpreted on the order worker and on the order queue.

  Conventions. Floats are exact reals: rounding of binary floating point is outside, the rounding of
  DECIMAL(20,8) columns is inside (decimal8; columns do not overflow). Instants are whole nanoseconds in
  UTC. Exceptions are values of a sum. Strings are ASCII. Strategy handlers, exchange clients, tickers,
  decoded JSON and the answers to a call are parameters; the hypotheses on them are named (honest: a
  quantity is floored, a clamp never raises it; calm_queue: no posting fails between the row and the trade, a broker
  prices its fills, and no order is Alpaca's, whose readings overwrite the stored quantity; rounds_down: a client rounds
  quantities down and reports no negative fill). The database answers; a unique key it enforces is modelled.

  A transaction is atomic and reads one NOW(); transactions of several processes interleave in any order.
  A worker executes a command as one step between the transactions of the others.

  The stack of the two calls that bind a report (resolve_binding) is a number of frames; two are enough for an
  order of the report's market, none is for another.

  Bounds. Every loop is structural recursion or a fold. The loop that places entries of a neutral grid runs
  at most once per free slot, since each further pass follows a placed order, so the number of slots is
  enough (neutral_loop). Strategy calls per event are lists of any length.

  Not modelled. The compilation and sandboxing of strategy code, threads, rate limits and caches, exchange
  protocols, the initial market position of a grid, the strategy threads of the executor apart from their guards and
  bookkeeping, the synchronisation of positions and of quick trades, the health of a stream that makes a reading
  unnecessary (a parameter), the phases of an order kept for inspection, reports that need transcendental floating point, and everything that
  serves the user interface: routes, notifications, the community, the assistants. Those are input and
  output without invariants of their own, or depend on code outside the repository.
\<close>

end
